(* ===== verification/Prelude.thy ===== *)
theory Prelude
  imports Main "HOL-Library.List_Lexorder" "HOL-Library.Product_Lexorder"
    "HOL-Library.Option_ord" "HOL-Library.Char_ord"
begin

section \<open>Prelude: the Python vocabulary the components share\<close>

text \<open>
  Strings, truthiness, exceptions, ordered dictionaries and stable selection, as the Python
  sources use them, with the lemmas and automation the component theories rest on.

  A Python \<open>str\<close> is a HOL \<open>string\<close>: a list of code points below 256.  Whitespace, letter
  case and digits follow \<open>str.isspace\<close>, \<open>str.lower\<close>, \<open>str.casefold\<close> and \<open>str.isdigit\<close> on these
  code points (so NO-BREAK SPACE is blank and SUPERSCRIPT TWO is a digit that \<open>int\<close> refuses);
  the only deviation is MICRO SIGN, whose case folding leaves this range and is kept as it is.
\<close>

named_theorems result_simps "equations of the error-propagating operations"
named_theorems dict_simps "lookups in dictionaries built from sequences"

subsection \<open>Exceptions as values\<close>

text \<open>
  Every exception the modelled code raises or catches.  Which \<open>except\<close> clause catches which
  constructor is the class hierarchy of the sources: the predicates below.
\<close>

datatype exn =
    ValueError string
  | TypeError string
  | KeyError string
  | AssertionError string
  | RuntimeError string
  | OSError string
  | FileNotFoundError string
  | TimeoutError string
  | InvalidTransitionError string
  | AuditNotFoundError string
  | AuditUpstreamError string
  | AuditMalformedError string
  | AuditRepositoryUnusableError string
  | AuditActionUnusableError string
  | AuditArtifactUnavailableError string string
  | PortfolioNotFoundError string
  | PortfolioUpstreamError string
  | PortfolioMalformedError string
  | EnjiHttpError string string \<comment> \<open>code, message\<close>
  | EnjiResponseError string string "int option" bool
      \<comment> \<open>an \<open>EnjiHttpError\<close> about a response: code, message, HTTP status, whether the response was malformed\<close>
  | EnjiApiError string string "int option" bool \<comment> \<open>the same fields\<close>
  | HttpxError string
  | RetryableResponseError string
  | MutationOperationalError string string bool \<comment> \<open>code, message, whether the outcome is unknown\<close>
  | TerminalRevisionRequired string string \<comment> \<open>source revision, message\<close>
  | RecoveryRequired string string int \<comment> \<open>source revision, continuation, delay in microseconds\<close>
  | PostDispatchPersistence string string string string string
      \<comment> \<open>source revision; revision, base URL, cookie header and import time of the successor\<close>
  | PreDispatchLocal string
  | UnicodeDecodeError string
  | CookieError string
  | OverflowError string
  | CancelledError
  | ExceptionGroup string

text \<open>\<open>except ValueError\<close>: the class and the subclasses of it the sources declare.\<close>

fun is_value_error :: "exn \<Rightarrow> bool" where
  "is_value_error (ValueError _) = True"
| "is_value_error (InvalidTransitionError _) = True"
| "is_value_error (AuditMalformedError _) = True"
| "is_value_error (AuditRepositoryUnusableError _) = True"
| "is_value_error (AuditActionUnusableError _) = True"
| "is_value_error (AuditArtifactUnavailableError _ _) = True"
| "is_value_error (PortfolioNotFoundError _) = True"
| "is_value_error (PortfolioMalformedError _) = True"
| "is_value_error (UnicodeDecodeError _) = True"
| "is_value_error _ = False"

text \<open>\<open>except OSError\<close>: \<open>TimeoutError\<close> and \<open>FileNotFoundError\<close> are subclasses.\<close>

fun is_os_error :: "exn \<Rightarrow> bool" where
  "is_os_error (OSError _) = True"
| "is_os_error (FileNotFoundError _) = True"
| "is_os_error (TimeoutError _) = True"
| "is_os_error (PreDispatchLocal _) = True"
| "is_os_error _ = False"

text \<open>\<open>except AuditNotFoundError\<close>: an unavailable artifact is one.\<close>

fun is_audit_not_found :: "exn \<Rightarrow> bool" where
  "is_audit_not_found (AuditNotFoundError _) = True"
| "is_audit_not_found (AuditArtifactUnavailableError _ _) = True"
| "is_audit_not_found _ = False"

text \<open>\<open>except EnjiHttpError\<close>: the class and its subclasses, with the code each carries.\<close>

fun enji_code :: "exn \<Rightarrow> string option" where
  "enji_code (EnjiHttpError c _) = Some c"
| "enji_code (EnjiResponseError c _ _ _) = Some c"
| "enji_code (TerminalRevisionRequired _ _) = Some ''AUTH_IMPORT_REQUIRED''"
| "enji_code (PostDispatchPersistence _ _ _ _ _) = Some ''AUTH_IMPORT_REQUIRED''"
| "enji_code (RecoveryRequired _ _ _) = Some ''AUTH_RECOVERY_PENDING''"
| "enji_code _ = None"

definition is_enji_error :: "exn \<Rightarrow> bool" where
  "is_enji_error e \<longleftrightarrow> enji_code e \<noteq> None"

type_synonym 'a result = "exn + 'a"

text \<open>\<open>str(exc)\<close>: the message a handler reports.\<close>

fun exn_text :: "exn \<Rightarrow> string" where
  "exn_text (ValueError m) = m"
| "exn_text (TypeError m) = m"
| "exn_text (KeyError m) = m"
| "exn_text (AssertionError m) = m"
| "exn_text (RuntimeError m) = m"
| "exn_text (OSError m) = m"
| "exn_text (FileNotFoundError m) = m"
| "exn_text (TimeoutError m) = m"
| "exn_text (InvalidTransitionError m) = m"
| "exn_text (AuditNotFoundError m) = m"
| "exn_text (AuditUpstreamError m) = m"
| "exn_text (AuditMalformedError m) = m"
| "exn_text (AuditRepositoryUnusableError m) = m"
| "exn_text (AuditActionUnusableError m) = m"
| "exn_text (AuditArtifactUnavailableError k r) = k @ '' artifact '' @ r"
| "exn_text (PortfolioNotFoundError m) = m"
| "exn_text (PortfolioUpstreamError m) = m"
| "exn_text (PortfolioMalformedError m) = m"
| "exn_text (EnjiHttpError _ m) = m"
| "exn_text (EnjiResponseError _ m _ _) = m"
| "exn_text (EnjiApiError _ m _ _) = m"
| "exn_text (HttpxError m) = m"
| "exn_text (RetryableResponseError m) = m"
| "exn_text (MutationOperationalError _ m _) = m"
| "exn_text (TerminalRevisionRequired _ m) = m"
| "exn_text (RecoveryRequired _ _ _) = ''refresh recovery is pending''"
| "exn_text (PostDispatchPersistence _ _ _ _ _) =
     ''refresh dispatch completed; persist retained replacement credential when storage recovers''"
| "exn_text (PreDispatchLocal m) = m"
| "exn_text (UnicodeDecodeError m) = m"
| "exn_text (CookieError m) = m"
| "exn_text (OverflowError m) = m"
| "exn_text CancelledError = []"
| "exn_text (ExceptionGroup m) = m"

text \<open>Sequencing: the rest runs only when the first part raised nothing.\<close>

definition bindR :: "'a result \<Rightarrow> ('a \<Rightarrow> 'b result) \<Rightarrow> 'b result" where
  "bindR r f = (case r of Inl e \<Rightarrow> Inl e | Inr x \<Rightarrow> f x)"

lemma bindR_Inl [simp, result_simps]: "bindR (Inl e) f = Inl e"
  by (simp add: bindR_def)

lemma bindR_Inr [simp, result_simps]: "bindR (Inr x) f = f x"
  by (simp add: bindR_def)

lemma bindR_eq_Inr [result_simps]: "bindR r f = Inr y \<longleftrightarrow> (\<exists>x. r = Inr x \<and> f x = Inr y)"
  by (cases r) auto

lemma bindR_eq_Inl [result_simps]:
  "bindR r f = Inl e \<longleftrightarrow> r = Inl e \<or> (\<exists>x. r = Inr x \<and> f x = Inl e)"
  by (cases r) auto

text \<open>A comprehension whose body may raise: elements in order, the first exception wins.\<close>

fun mapR :: "('a \<Rightarrow> 'b result) \<Rightarrow> 'a list \<Rightarrow> 'b list result" where
  "mapR f [] = Inr []"
| "mapR f (x # xs) = bindR (f x) (\<lambda>y. bindR (mapR f xs) (\<lambda>ys. Inr (y # ys)))"

lemma mapR_Inr_iff:
  "mapR f xs = Inr ys \<longleftrightarrow> list_all2 (\<lambda>x y. f x = Inr y) xs ys"
proof (induction xs arbitrary: ys)
  case Nil
  then show ?case by auto
next
  case (Cons x xs)
  then show ?case by (cases ys) (auto simp: result_simps)
qed

lemma mapR_total: "(\<And>x. x \<in> set xs \<Longrightarrow> f x = Inr (g x)) \<Longrightarrow> mapR f xs = Inr (map g xs)"
  by (induction xs) auto

lemma mapR_length: "mapR f xs = Inr ys \<Longrightarrow> length ys = length xs"
  by (auto simp: mapR_Inr_iff dest: list_all2_lengthD)

text \<open>The first exception of a comprehension is that of its first failing element.\<close>

lemma mapR_first_error:
  assumes "mapR f xs = Inl e"
  shows "\<exists>before x after. xs = before @ x # after \<and> f x = Inl e \<and> (\<forall>b\<in>set before. \<exists>y. f b = Inr y)"
  using assms
proof (induction xs)
  case Nil
  then show ?case by simp
next
  case (Cons x xs)
  show ?case
  proof (cases "f x")
    case (Inl e')
    with Cons.prems have "f x = Inl e" by simp
    then show ?thesis by (metis append_Nil empty_iff empty_set)
  next
    case (Inr y)
    with Cons.prems have "mapR f xs = Inl e" by (simp add: result_simps)
    then obtain before x' after where "xs = before @ x' # after" "f x' = Inl e"
      "\<forall>b\<in>set before. \<exists>y. f b = Inr y"
      using Cons.IH by blast
    with Inr show ?thesis
      by (intro exI [of _ "x # before"] exI [of _ x'] exI [of _ after]) auto
  qed
qed

subsection \<open>Strings\<close>

definition char_code :: "char \<Rightarrow> nat" where
  "char_code c = of_char c"

lemma char_code_char_of [simp]: "n < 256 \<Longrightarrow> char_code (char_of n) = n"
  by (simp add: char_code_def)

lemma char_code_bound: "char_code c < 256"
  by (simp add: char_code_def)

lemma char_of_char_code [simp]: "char_of (char_code c) = c"
  by (simp add: char_code_def)

definition py_isspace :: "char \<Rightarrow> bool" where
  "py_isspace c = (let n = char_code c in
     (9 \<le> n \<and> n \<le> 13) \<or> (28 \<le> n \<and> n \<le> 32) \<or> n = 133 \<or> n = 160)"

definition lower_char :: "char \<Rightarrow> char" where
  "lower_char c = (let n = char_code c in
     if (65 \<le> n \<and> n \<le> 90) \<or> (192 \<le> n \<and> n \<le> 222 \<and> n \<noteq> 215) then char_of (n + 32) else c)"

definition py_lower :: "string \<Rightarrow> string" where
  "py_lower s = map lower_char s"

definition casefold_char :: "char \<Rightarrow> string" where
  "casefold_char c = (if char_code c = 223 then ''ss'' else [lower_char c])"

definition py_casefold :: "string \<Rightarrow> string" where
  "py_casefold s = concat (map casefold_char s)"

definition py_lstrip :: "string \<Rightarrow> string" where
  "py_lstrip s = dropWhile py_isspace s"

definition py_rstrip_by :: "(char \<Rightarrow> bool) \<Rightarrow> string \<Rightarrow> string" where
  "py_rstrip_by p s = rev (dropWhile p (rev s))"

definition py_strip :: "string \<Rightarrow> string" where
  "py_strip s = py_rstrip_by py_isspace (py_lstrip s)"

text \<open>\<open>str.isdigit\<close>: the decimal digits and the three superscript digits below 256.\<close>

definition digit_char :: "char \<Rightarrow> bool" where
  "digit_char c = (let n = char_code c in (48 \<le> n \<and> n \<le> 57) \<or> n = 178 \<or> n = 179 \<or> n = 185)"

definition py_isdigit :: "string \<Rightarrow> bool" where
  "py_isdigit s = (s \<noteq> [] \<and> list_all digit_char s)"

definition decimal_char :: "char \<Rightarrow> bool" where
  "decimal_char c = (48 \<le> char_code c \<and> char_code c \<le> 57)"

definition decimal_value :: "string \<Rightarrow> nat" where
  "decimal_value s = foldl (\<lambda>acc c. 10 * acc + (char_code c - 48)) 0 s"

text \<open>\<open>int(s)\<close> for a string \<open>str.isdigit\<close> accepts: a superscript digit is a \<open>ValueError\<close>.\<close>

definition py_int :: "string \<Rightarrow> nat result" where
  "py_int s = (if s \<noteq> [] \<and> list_all decimal_char s then Inr (decimal_value s)
     else Inl (ValueError ''invalid literal for int() with base 10''))"

fun starts_with :: "string \<Rightarrow> string \<Rightarrow> bool" where
  "starts_with s [] = True"
| "starts_with [] (c # cs) = False"
| "starts_with (d # ds) (c # cs) = (d = c \<and> starts_with ds cs)"

definition ends_with :: "string \<Rightarrow> string \<Rightarrow> bool" where
  "ends_with s suf = starts_with (rev s) (rev suf)"

lemma starts_with_append [simp]: "starts_with (p @ s) p"
  by (induction p) auto

lemma starts_with_iff: "starts_with s p \<longleftrightarrow> (\<exists>t. s = p @ t)"
  by (induction s p rule: starts_with.induct) auto

lemma ends_with_append [simp]: "ends_with (s @ suf) suf"
  by (simp add: ends_with_def)

lemma ends_with_iff: "ends_with s suf \<longleftrightarrow> (\<exists>t. s = t @ suf)"
  by (auto simp: ends_with_def starts_with_iff) (metis rev_append rev_rev_ident)

text \<open>\<open>s.removeprefix(p)\<close>.\<close>

definition remove_prefix :: "string \<Rightarrow> string \<Rightarrow> string" where
  "remove_prefix s p = (if starts_with s p then drop (length p) s else s)"

text \<open>\<open>s.split(c)\<close>: always at least one part; and \<open>s.split(c, n)\<close> with at most \<open>n\<close> splits.\<close>

fun py_split :: "char \<Rightarrow> string \<Rightarrow> string list" where
  "py_split c [] = [[]]"
| "py_split c (d # ds) =
     (if d = c then [] # py_split c ds
      else (case py_split c ds of [] \<Rightarrow> [[d]] | p # ps \<Rightarrow> (d # p) # ps))"

fun py_split_max :: "nat \<Rightarrow> char \<Rightarrow> string \<Rightarrow> string list" where
  "py_split_max 0 c s = [s]"
| "py_split_max (Suc n) c [] = [[]]"
| "py_split_max (Suc n) c (d # ds) =
     (if d = c then [] # py_split_max n c ds
      else (case py_split_max (Suc n) c ds of [] \<Rightarrow> [[d]] | p # ps \<Rightarrow> (d # p) # ps))"

fun py_join :: "string \<Rightarrow> string list \<Rightarrow> string" where
  "py_join sep [] = []"
| "py_join sep [p] = p"
| "py_join sep (p # ps) = p @ sep @ py_join sep ps"

text \<open>\<open>s.replace(old, new)\<close>, left to right without overlaps, for a non-empty \<open>old\<close>.\<close>

fun py_replace :: "string \<Rightarrow> string \<Rightarrow> string \<Rightarrow> string" where
  "py_replace old new [] = []"
| "py_replace old new (c # cs) =
     (if old \<noteq> [] \<and> starts_with (c # cs) old then new @ py_replace old new (drop (length old - 1) cs)
      else c # py_replace old new cs)"

lemma py_split_max_none: "c \<notin> set a \<Longrightarrow> py_split_max (Suc n) c a = [a]"
  by (induction a) auto

lemma py_split_max_found: "c \<notin> set a \<Longrightarrow> py_split_max (Suc n) c (a @ c # b) = a # py_split_max n c b"
  by (induction a) auto

lemma py_split_nonempty [simp]: "py_split c s \<noteq> []"
  by (induction s) (auto split: list.splits)

lemma py_join_py_split: "py_join [c] (py_split c s) = s"
proof (induction s)
  case Nil
  then show ?case by simp
next
  case (Cons d s)
  obtain p ps where ps: "py_split c s = p # ps"
    by (cases "py_split c s") auto
  with Cons show ?case by (cases ps) auto
qed

lemma py_split_no_sep: "p \<in> set (py_split c s) \<Longrightarrow> c \<notin> set p"
  by (induction s arbitrary: p) (auto split: list.splits if_splits)

lemma length_py_split: "length (py_split c s) = Suc (count_list s c)"
  by (induction s) (auto split: list.splits)

subsection \<open>Truthiness of optional strings\<close>

text \<open>\<open>x or y\<close> on \<open>str | None\<close>: both \<open>None\<close> and the empty string are falsy.\<close>

fun truthy :: "string option \<Rightarrow> bool" where
  "truthy None = False"
| "truthy (Some s) = (s \<noteq> [])"

definition or_opt :: "string option \<Rightarrow> string option \<Rightarrow> string option" where
  "or_opt x y = (if truthy x then x else y)"

definition or_str :: "string option \<Rightarrow> string \<Rightarrow> string" where
  "or_str x d = (case x of Some s \<Rightarrow> if s \<noteq> [] then s else d | None \<Rightarrow> d)"

lemma or_str_None [simp]: "or_str None d = d"
  by (simp add: or_str_def)

lemma or_str_nonempty: "d \<noteq> [] \<Longrightarrow> or_str x d \<noteq> []"
  by (simp add: or_str_def split: option.splits)

definition nonblank :: "string option \<Rightarrow> bool" where
  "nonblank v = (case v of Some s \<Rightarrow> py_strip s \<noteq> [] | None \<Rightarrow> False)"

subsection \<open>Dictionaries built from sequences\<close>

text \<open>
  \<open>{key(x): x for x in xs}\<close>: a later element replaces an earlier one with the same key.
\<close>

definition dict_by :: "('a \<Rightarrow> 'k) \<Rightarrow> 'a list \<Rightarrow> 'k \<Rightarrow> 'a option" where
  "dict_by key xs k = find (\<lambda>x. key x = k) (rev xs)"

lemma set_map_filter: "set (List.map_filter f xs) = {y. \<exists>x\<in>set xs. f x = Some y}"
  by (induction xs) (auto simp: List.map_filter_simps split: option.split)

lemma find_SomeD: "find p xs = Some x \<Longrightarrow> x \<in> set xs \<and> p x"
  by (induction xs) (auto split: if_splits)

lemma dict_by_SomeD [dict_simps]: "dict_by key xs k = Some x \<Longrightarrow> x \<in> set xs \<and> key x = k"
  unfolding dict_by_def using find_SomeD [of _ "rev xs" x] by auto

lemma dict_by_None_iff [dict_simps]: "dict_by key xs k = None \<longleftrightarrow> k \<notin> key ` set xs"
  by (auto simp: dict_by_def find_None_iff)

lemma dict_by_unique:
  assumes "distinct (map key xs)" and "x \<in> set xs"
  shows "dict_by key xs (key x) = Some x"
proof -
  have "dict_by key xs (key x) \<noteq> None"
    using assms(2) by (simp add: dict_by_None_iff)
  then obtain y where y: "dict_by key xs (key x) = Some y" by auto
  then have "y \<in> set xs" "key y = key x" by (auto dest: dict_by_SomeD)
  with assms have "y = x" by (auto simp: distinct_map inj_on_def)
  with y show ?thesis by simp
qed

text \<open>
  \<open>groups.setdefault(key(x), []).append(x)\<close> over a sequence: groups in the order their
  keys first appear, members in sequence order.
\<close>

fun add_to_group :: "'k \<Rightarrow> 'a \<Rightarrow> ('k \<times> 'a list) list \<Rightarrow> ('k \<times> 'a list) list" where
  "add_to_group k x [] = [(k, [x])]"
| "add_to_group k x ((k', g) # rest) =
     (if k' = k then (k', g @ [x]) # rest else (k', g) # add_to_group k x rest)"

definition group_by :: "('a \<Rightarrow> 'k) \<Rightarrow> 'a list \<Rightarrow> ('k \<times> 'a list) list" where
  "group_by key xs = fold (\<lambda>x groups. add_to_group (key x) x groups) xs []"

lemma map_of_add_to_group:
  "map_of (add_to_group k x gs) =
     (map_of gs)(k \<mapsto> (case map_of gs k of None \<Rightarrow> [x] | Some g \<Rightarrow> g @ [x]))"
  by (induction gs) (auto split: option.splits)

lemma keys_add_to_group:
  "map fst (add_to_group k x gs) = (if k \<in> fst ` set gs then map fst gs else map fst gs @ [k])"
  by (induction gs) (force split: if_splits)+

lemma group_by_snoc [simp]:
  "group_by key (xs @ [x]) = add_to_group (key x) x (group_by key xs)"
  by (simp add: group_by_def)

lemma group_by_Nil [simp]: "group_by key [] = []"
  by (simp add: group_by_def)

lemma map_of_group_by [dict_simps]:
  "map_of (group_by key xs) k =
     (let g = filter (\<lambda>x. key x = k) xs in if g = [] then None else Some g)"
proof (induction xs rule: rev_induct)
  case Nil
  then show ?case by simp
next
  case (snoc x xs)
  then show ?case by (auto simp: map_of_add_to_group Let_def split: if_splits)
qed

lemma distinct_group_by: "distinct (map fst (group_by key xs))"
proof (induction xs rule: rev_induct)
  case Nil
  then show ?case by simp
next
  case (snoc x xs)
  then show ?case by (auto simp: keys_add_to_group)
qed

lemma group_by_member:
  assumes "(k, g) \<in> set (group_by key xs)"
  shows "g = filter (\<lambda>x. key x = k) xs \<and> g \<noteq> []"
proof -
  from assms have "map_of (group_by key xs) k = Some g"
    using distinct_group_by by (rule map_of_is_SomeI [rotated])
  then show ?thesis by (auto simp: map_of_group_by Let_def split: if_splits)
qed

lemma group_by_covers: "x \<in> set xs \<Longrightarrow> \<exists>g. (key x, g) \<in> set (group_by key xs) \<and> x \<in> set g"
proof -
  assume x: "x \<in> set xs"
  then have "map_of (group_by key xs) (key x) = Some (filter (\<lambda>y. key y = key x) xs)"
    by (auto simp: map_of_group_by Let_def filter_empty_conv)
  with x show ?thesis by (auto dest!: map_of_SomeD)
qed

text \<open>\<open>list(dict.fromkeys(xs))\<close>: first occurrences, in order.\<close>

fun dedup_onto :: "'a list \<Rightarrow> 'a list \<Rightarrow> 'a list" where
  "dedup_onto seen [] = seen"
| "dedup_onto seen (x # xs) = dedup_onto (if x \<in> set seen then seen else seen @ [x]) xs"

definition dedup :: "'a list \<Rightarrow> 'a list" where
  "dedup xs = dedup_onto [] xs"

lemma set_dedup_onto: "set (dedup_onto seen xs) = set seen \<union> set xs"
  by (induction seen xs rule: dedup_onto.induct) auto

lemma distinct_dedup_onto: "distinct seen \<Longrightarrow> distinct (dedup_onto seen xs)"
  by (induction seen xs rule: dedup_onto.induct) auto

lemma set_dedup [simp]: "set (dedup xs) = set xs"
  by (simp add: dedup_def set_dedup_onto)

lemma distinct_dedup [simp]: "distinct (dedup xs)"
  by (simp add: dedup_def distinct_dedup_onto)

subsection \<open>Selection by key\<close>

text \<open>\<open>max(xs, key=f)\<close>: the first element of greatest key; on an empty sequence it raises.\<close>

fun max_from :: "('a \<Rightarrow> 'k::linorder) \<Rightarrow> 'a \<Rightarrow> 'a list \<Rightarrow> 'a" where
  "max_from f best [] = best"
| "max_from f best (y # ys) = max_from f (if f best < f y then y else best) ys"

fun py_max :: "('a \<Rightarrow> 'k::linorder) \<Rightarrow> 'a list \<Rightarrow> 'a result" where
  "py_max f [] = Inl (ValueError ''max() iterable argument is empty'')"
| "py_max f (x # xs) = Inr (max_from f x xs)"

lemma max_from_in: "max_from f x xs \<in> insert x (set xs)"
  by (induction xs arbitrary: x) (auto split: if_splits)

lemma max_from_ge: "z \<in> insert x (set xs) \<Longrightarrow> f z \<le> f (max_from f x xs)"
proof (induction xs arbitrary: x z)
  case Nil
  then show ?case by simp
next
  case (Cons y ys)
  have "f (if f x < f y then y else x) \<le> f (max_from f (if f x < f y then y else x) ys)"
    by (rule Cons.IH) simp
  moreover have "f z \<le> f (max_from f (if f x < f y then y else x) ys)" if "z \<in> set ys"
    by (rule Cons.IH) (use that in simp)
  ultimately show ?case using Cons.prems by (auto split: if_splits)
qed

lemma py_max_nonempty: "xs \<noteq> [] \<Longrightarrow> \<exists>x. py_max f xs = Inr x \<and> x \<in> set xs \<and> (\<forall>y\<in>set xs. f y \<le> f x)"
proof (cases xs)
  case (Cons a as)
  have "max_from f a as \<in> set xs" using max_from_in [of f a as] Cons by simp
  moreover have "\<forall>y\<in>set xs. f y \<le> f (max_from f a as)"
    using max_from_ge [of _ a as f] Cons by simp
  ultimately show ?thesis using Cons by auto
qed simp

lemma py_max_InrD: "py_max f xs = Inr x \<Longrightarrow> x \<in> set xs \<and> (\<forall>y\<in>set xs. f y \<le> f x)"
  using py_max_nonempty [of xs f] by (cases xs) auto

text \<open>The greatest key does not depend on the order of the sequence.\<close>

lemma py_max_key_order:
  assumes "set xs = set ys" and "py_max f xs = Inr x" and "py_max f ys = Inr y"
  shows "f x = f y"
  using assms py_max_InrD [of f xs x] py_max_InrD [of f ys y] by (auto intro: antisym)

subsection \<open>Decimal rendering\<close>

fun show_nat :: "nat \<Rightarrow> string" where
  "show_nat n = (if n < 10 then [char_of (48 + n)]
     else show_nat (n div 10) @ [char_of (48 + n mod 10)])"

declare show_nat.simps [simp del]

definition show_int :: "int \<Rightarrow> string" where
  "show_int i = (if i < 0 then ''-'' @ show_nat (nat (- i)) else show_nat (nat i))"

definition show_pad2 :: "nat \<Rightarrow> string" where
  "show_pad2 n = (if n < 10 then ''0'' @ show_nat n else show_nat n)"

lemma char_code_digit [simp]: "d < 10 \<Longrightarrow> char_code (char_of (48 + d)) = 48 + d"
  by (simp add: char_code_def)

lemma decimal_value_snoc [simp]:
  "decimal_value (s @ [c]) = 10 * decimal_value s + (char_code c - 48)"
  by (simp add: decimal_value_def)

lemma decimal_value_Nil [simp]: "decimal_value [] = 0"
  by (simp add: decimal_value_def)

lemma show_nat_decimal: "show_nat n \<noteq> [] \<and> list_all decimal_char (show_nat n)
    \<and> decimal_value (show_nat n) = n"
proof (induction n rule: show_nat.induct)
  case (1 n)
  show ?case
  proof (cases "n < 10")
    case True
    then show ?thesis
      using decimal_value_snoc [of "[]" "char_of (48 + n)"]
      by (subst (1 2 3) show_nat.simps) (simp add: decimal_char_def)
  next
    case False
    with 1 have ih: "show_nat (n div 10) \<noteq> [] \<and> list_all decimal_char (show_nat (n div 10))
      \<and> decimal_value (show_nat (n div 10)) = n div 10" by simp
    have eq: "show_nat n = show_nat (n div 10) @ [char_of (48 + n mod 10)]"
      using False by (subst show_nat.simps) simp
    have code: "char_code (char_of (48 + n mod 10)) = 48 + n mod 10"
      by (rule char_code_digit) simp
    have last: "decimal_char (char_of (48 + n mod 10))"
      using code by (simp add: decimal_char_def less_Suc_eq_le [symmetric])
    show ?thesis unfolding eq using ih code last by simp
  qed
qed

lemma py_int_show_nat [simp]: "py_int (show_nat n) = Inr n"
  using show_nat_decimal [of n] by (simp add: py_int_def)

lemma decimal_no_colon: "list_all decimal_char s \<Longrightarrow> CHR '':'' \<notin> set s"
  by (auto simp: list_all_iff decimal_char_def char_code_def)

lemma decimal_char_digit: "decimal_char c \<Longrightarrow> digit_char c"
  by (simp add: decimal_char_def digit_char_def Let_def)

lemma py_isdigit_show_nat [simp]: "py_isdigit (show_nat n)"
  using show_nat_decimal [of n] decimal_char_digit by (auto simp: py_isdigit_def list_all_iff)

lemma show_pad2_decimal:
  "show_pad2 n \<noteq> [] \<and> list_all decimal_char (show_pad2 n) \<and> decimal_value (show_pad2 n) = n"
proof (cases "n < 10")
  case True
  have zero: "decimal_value (CHR ''0'' # s) = decimal_value s" for s
    by (simp add: decimal_value_def char_code_def)
  have "decimal_char CHR ''0''" by (simp add: decimal_char_def char_code_def)
  with True show ?thesis using show_nat_decimal [of n] zero by (simp add: show_pad2_def)
next
  case False
  then show ?thesis using show_nat_decimal [of n] by (simp add: show_pad2_def)
qed

end
