(* ===== verification/Auth_State_Machine.thy ===== *)
theory Auth_State_Machine
  imports Prelude
begin

section \<open>The rotation state machine (auth\_session/state\_machine.py)\<close>

text \<open>
  The pure model of one refresh-token generation: six states, eight events and the
  declarative effects of each transition.  An impossible event raises
  \<open>InvalidTransitionError\<close>, so \<open>transition\<close> returns a \<open>result\<close>.  A fresh successor revision
  (\<open>uuid4().hex\<close>, the default of the event field) is an argument of \<open>ExchangeSucceeded\<close>.
\<close>

subsection \<open>Safety policy\<close>

definition TOTAL_DISPATCH_CAP :: int where
  "TOTAL_DISPATCH_CAP = 6"

definition SAFE_RETRY_LIMIT :: int where
  "SAFE_RETRY_LIMIT = 4"

definition VALIDATION_RETRY_LIMIT :: int where
  "VALIDATION_RETRY_LIMIT = 1"

definition AMBIGUITY_REPLAY_LIMIT :: int where
  "AMBIGUITY_REPLAY_LIMIT = 1"

text \<open>Durations in microseconds.\<close>

record recovery_safety_policy =
  total_dispatch_cap_limit :: int
  safe_retry_limit :: int
  validation_retry_limit :: int
  ambiguity_replay_limit :: int
  recovery_window :: int
  safe_retry_delay :: int
  validation_retry_delay :: int
  ambiguity_replay_delay :: int

definition RECOVERY_SAFETY_POLICY :: recovery_safety_policy where
  "RECOVERY_SAFETY_POLICY =
    \<lparr>total_dispatch_cap_limit = 6, safe_retry_limit = 4, validation_retry_limit = 1,
     ambiguity_replay_limit = 1, recovery_window = 600000000, safe_retry_delay = 10000000,
     validation_retry_delay = 30000000, ambiguity_replay_delay = 30000000\<rparr>"

lemmas policy_defs = TOTAL_DISPATCH_CAP_def SAFE_RETRY_LIMIT_def VALIDATION_RETRY_LIMIT_def
  AMBIGUITY_REPLAY_LIMIT_def RECOVERY_SAFETY_POLICY_def

subsection \<open>States, events, effects\<close>

datatype rotation_state =
    Ready string
  | Reserved string
  | Requested string
  | Rotated string string string \<comment> \<open>source revision, replacement cookie header, successor revision\<close>
  | Rejected string string \<comment> \<open>source revision, reason\<close>
  | OutcomeUnknown string string

datatype lane = SafeRetry | ValidationRecovery | AmbiguityReplay

record recovery_authorization =
  continuation_lane :: lane
  auth_dispatch_count :: int
  auth_safe_retry_count :: int
  auth_validation_retry_count :: int
  auth_ambiguity_replay_count :: int
  auth_total_dispatch_cap :: int
  deadline_open :: bool
  cooldown_elapsed :: bool

datatype rotation_event =
    Begin string
  | DispatchBegun
  | ExchangeSucceeded string string \<comment> \<open>replacement cookie header, successor revision\<close>
  | ExchangeRejected string
  | ExchangeOutcomeUnknown string
  | Imported string
  | Recover
  | AuthorizeRecoveryDispatch recovery_authorization

datatype effect =
    PersistJournal rotation_state
  | DispatchExchange string
  | PersistReplacement string string string
  | DeleteJournal
  | WaitForTerminalRevision string

datatype transition_result = Transition (next_state: rotation_state) (effects: "effect list")

fun state_name :: "rotation_state \<Rightarrow> string" where
  "state_name (Ready _) = ''Ready''"
| "state_name (Reserved _) = ''Reserved''"
| "state_name (Requested _) = ''Requested''"
| "state_name (Rotated _ _ _) = ''Rotated''"
| "state_name (Rejected _ _) = ''Rejected''"
| "state_name (OutcomeUnknown _ _) = ''OutcomeUnknown''"

fun event_name :: "rotation_event \<Rightarrow> string" where
  "event_name (Begin _) = ''Begin''"
| "event_name DispatchBegun = ''DispatchBegun''"
| "event_name (ExchangeSucceeded _ _) = ''ExchangeSucceeded''"
| "event_name (ExchangeRejected _) = ''ExchangeRejected''"
| "event_name (ExchangeOutcomeUnknown _) = ''ExchangeOutcomeUnknown''"
| "event_name (Imported _) = ''Imported''"
| "event_name Recover = ''Recover''"
| "event_name (AuthorizeRecoveryDispatch _) = ''AuthorizeRecoveryDispatch''"

definition invalid_transition :: "rotation_state \<Rightarrow> rotation_event \<Rightarrow> transition_result result" where
  "invalid_transition s e =
     Inl (InvalidTransitionError (event_name e @ '' is invalid for '' @ state_name s))"

subsection \<open>Transitions\<close>

definition recovery_dispatch_is_authorized :: "recovery_authorization \<Rightarrow> bool" where
  "recovery_dispatch_is_authorized a =
     (let (lane_count, lane_limit) = (case continuation_lane a of
            SafeRetry \<Rightarrow> (auth_safe_retry_count a, SAFE_RETRY_LIMIT)
          | ValidationRecovery \<Rightarrow> (auth_validation_retry_count a, VALIDATION_RETRY_LIMIT)
          | AmbiguityReplay \<Rightarrow> (auth_ambiguity_replay_count a, AMBIGUITY_REPLAY_LIMIT))
      in deadline_open a
         \<and> cooldown_elapsed a
         \<and> auth_total_dispatch_cap a = TOTAL_DISPATCH_CAP
         \<and> auth_dispatch_count a \<le> auth_total_dispatch_cap a
         \<and> auth_dispatch_count a = 1 + auth_safe_retry_count a + auth_validation_retry_count a
             + auth_ambiguity_replay_count a
         \<and> 0 < lane_count \<and> lane_count \<le> lane_limit)"

fun ready_transition :: "rotation_state \<Rightarrow> rotation_event \<Rightarrow> transition_result result" where
  "ready_transition s (Begin r) = Inr (Transition (Reserved r) [PersistJournal (Reserved r)])"
| "ready_transition s (Imported r) = Inr (Transition (Ready r) [])"
| "ready_transition s e = invalid_transition s e"

fun reserved_transition :: "rotation_state \<Rightarrow> string \<Rightarrow> rotation_event \<Rightarrow> transition_result result" where
  "reserved_transition s src DispatchBegun =
     Inr (Transition (Requested src) [PersistJournal (Requested src), DispatchExchange src])"
| "reserved_transition s src Recover = Inr (Transition (Ready src) [DeleteJournal])"
| "reserved_transition s src (Imported r) = Inr (Transition (Ready r) [DeleteJournal])"
| "reserved_transition s src e = invalid_transition s e"

fun requested_transition :: "rotation_state \<Rightarrow> string \<Rightarrow> rotation_event \<Rightarrow> transition_result result" where
  "requested_transition s src (ExchangeSucceeded replacement successor) =
     Inr (Transition (Rotated src replacement successor)
       [PersistJournal (Rotated src replacement successor), PersistReplacement src replacement successor])"
| "requested_transition s src (ExchangeRejected reason) =
     Inr (Transition (Rejected src reason) [PersistJournal (Rejected src reason)])"
| "requested_transition s src (ExchangeOutcomeUnknown reason) =
     Inr (Transition (OutcomeUnknown src reason) [PersistJournal (OutcomeUnknown src reason)])"
| "requested_transition s src (Imported r) = Inr (Transition (Ready r) [DeleteJournal])"
| "requested_transition s src Recover =
     (let u = OutcomeUnknown src ''interrupted after refresh dispatch''
      in Inr (Transition u [PersistJournal u]))"
| "requested_transition s src e = invalid_transition s e"

fun rotated_transition ::
  "rotation_state \<Rightarrow> string \<Rightarrow> string \<Rightarrow> string \<Rightarrow> rotation_event \<Rightarrow> transition_result result" where
  "rotated_transition s src replacement successor Recover =
     Inr (Transition s [PersistReplacement src replacement successor])"
| "rotated_transition s src replacement successor (Imported r) =
     Inr (Transition (Ready r) [DeleteJournal])"
| "rotated_transition s src replacement successor e = invalid_transition s e"

fun is_outcome_unknown :: "rotation_state \<Rightarrow> bool" where
  "is_outcome_unknown (OutcomeUnknown _ _) = True"
| "is_outcome_unknown _ = False"

fun terminal_transition :: "rotation_state \<Rightarrow> string \<Rightarrow> rotation_event \<Rightarrow> transition_result result" where
  "terminal_transition s src (AuthorizeRecoveryDispatch a) =
     (if is_outcome_unknown s \<and> recovery_dispatch_is_authorized a
      then Inr (Transition (Reserved src) [PersistJournal (Reserved src)])
      else invalid_transition s (AuthorizeRecoveryDispatch a))"
| "terminal_transition s src (Imported r) = Inr (Transition (Ready r) [DeleteJournal])"
| "terminal_transition s src Recover = Inr (Transition s [WaitForTerminalRevision src])"
| "terminal_transition s src e = invalid_transition s e"

fun transition :: "rotation_state \<Rightarrow> rotation_event \<Rightarrow> transition_result result" where
  "transition (Ready r) e = ready_transition (Ready r) e"
| "transition (Reserved src) e = reserved_transition (Reserved src) src e"
| "transition (Requested src) e = requested_transition (Requested src) src e"
| "transition (Rotated src rep suc) e = rotated_transition (Rotated src rep suc) src rep suc e"
| "transition (Rejected src m) e = terminal_transition (Rejected src m) src e"
| "transition (OutcomeUnknown src m) e = terminal_transition (OutcomeUnknown src m) src e"

subsection \<open>Terminal outcome identity\<close>

datatype rotation_outcome = RotatedOutcome | RejectedOutcome | UnknownOutcome

fun outcome_text :: "rotation_outcome \<Rightarrow> string" where
  "outcome_text RotatedOutcome = ''rotated''"
| "outcome_text RejectedOutcome = ''rejected''"
| "outcome_text UnknownOutcome = ''outcome_unknown''"

definition rotation_event_key :: "string \<Rightarrow> rotation_outcome \<Rightarrow> string" where
  "rotation_event_key src outcome = ''auth-rotation:'' @ src @ '':'' @ outcome_text outcome"

text \<open>The metadata of a terminal state; the other states have none.\<close>

fun rotation_event_metadata :: "rotation_state \<Rightarrow> (rotation_outcome \<times> string) option" where
  "rotation_event_metadata (Rotated src _ _) = Some (RotatedOutcome, rotation_event_key src RotatedOutcome)"
| "rotation_event_metadata (Rejected src _) = Some (RejectedOutcome, rotation_event_key src RejectedOutcome)"
| "rotation_event_metadata (OutcomeUnknown src _) = Some (UnknownOutcome, rotation_event_key src UnknownOutcome)"
| "rotation_event_metadata _ = None"

fun source_revision :: "rotation_state \<Rightarrow> string" where
  "source_revision (Ready r) = r"
| "source_revision (Reserved r) = r"
| "source_revision (Requested r) = r"
| "source_revision (Rotated r _ _) = r"
| "source_revision (Rejected r _) = r"
| "source_revision (OutcomeUnknown r _) = r"

fun is_terminal_state :: "rotation_state \<Rightarrow> bool" where
  "is_terminal_state (Rotated _ _ _) = True"
| "is_terminal_state (Rejected _ _) = True"
| "is_terminal_state (OutcomeUnknown _ _) = True"
| "is_terminal_state _ = False"


subsection \<open>One transition\<close>

lemma invalid_transition_not_Inr [simp]: "invalid_transition s e \<noteq> Inr t"
  by (simp add: invalid_transition_def)

text \<open>The accepted transitions, one elimination for all states: every later proof splits on it.\<close>

lemma transition_cases [consumes 1]:
  assumes "transition s e = Inr t"
  obtains (reserve) r r' where "s = Ready r" "e = Begin r'" "t = Transition (Reserved r') [PersistJournal (Reserved r')]"
  | (import_ready) r r' where "s = Ready r" "e = Imported r'" "t = Transition (Ready r') []"
  | (dispatch) r where "s = Reserved r" "e = DispatchBegun"
      "t = Transition (Requested r) [PersistJournal (Requested r), DispatchExchange r]"
  | (unreserve) r where "s = Reserved r" "e = Recover" "t = Transition (Ready r) [DeleteJournal]"
  | (import_over) r where "e = Imported r" "\<forall>q. s \<noteq> Ready q" "t = Transition (Ready r) [DeleteJournal]"
  | (succeed) r c u where "s = Requested r" "e = ExchangeSucceeded c u"
      "t = Transition (Rotated r c u) [PersistJournal (Rotated r c u), PersistReplacement r c u]"
  | (reject) r m where "s = Requested r" "e = ExchangeRejected m"
      "t = Transition (Rejected r m) [PersistJournal (Rejected r m)]"
  | (lose) r m where "s = Requested r" "e = ExchangeOutcomeUnknown m"
      "t = Transition (OutcomeUnknown r m) [PersistJournal (OutcomeUnknown r m)]"
  | (interrupt) r where "s = Requested r" "e = Recover"
      "t = Transition (OutcomeUnknown r ''interrupted after refresh dispatch'')
             [PersistJournal (OutcomeUnknown r ''interrupted after refresh dispatch'')]"
  | (project) r c u where "s = Rotated r c u" "e = Recover" "t = Transition s [PersistReplacement r c u]"
  | (wait) "is_terminal_state s" "e = Recover" "t = Transition s [WaitForTerminalRevision (source_revision s)]"
  | (authorize) r m a where "s = OutcomeUnknown r m" "e = AuthorizeRecoveryDispatch a"
      "recovery_dispatch_is_authorized a" "t = Transition (Reserved r) [PersistJournal (Reserved r)]"
  using assms
  by (cases s; cases e) (auto simp: Let_def split: if_splits)

text \<open>Dispatching is announced only with its durable journal record first.\<close>

theorem dispatch_after_journal:
  assumes "transition s e = Inr t" and "DispatchExchange r \<in> set (effects t)"
  shows "s = Reserved r \<and> next_state t = Requested r
    \<and> effects t = [PersistJournal (Requested r), DispatchExchange r]"
  using assms by (cases rule: transition_cases) auto

text \<open>A journal record always carries the state the transition moves to, as its first effect.\<close>

theorem persisted_state_is_next:
  assumes "transition s e = Inr t"
  shows "(PersistJournal x \<in> set (effects t) \<longrightarrow> x = next_state t \<and> hd (effects t) = PersistJournal x)
    \<and> (next_state t \<noteq> s \<and> (\<forall>q. next_state t \<noteq> Ready q) \<longrightarrow> hd (effects t) = PersistJournal (next_state t))"
  using assms by (cases rule: transition_cases) auto

text \<open>Only an import (or the revision a new cycle begins with) changes the source revision.\<close>

theorem transition_revision:
  assumes "transition s e = Inr t"
  shows "source_revision (next_state t) =
    (case e of Imported r \<Rightarrow> r | Begin r \<Rightarrow> r | _ \<Rightarrow> source_revision s)"
  using assms by (cases rule: transition_cases) auto

text \<open>What an accepted authorization has spent.\<close>

theorem authorization_budget:
  assumes "recovery_dispatch_is_authorized a"
  shows "auth_dispatch_count a \<le> 6
    \<and> auth_dispatch_count a = 1 + auth_safe_retry_count a + auth_validation_retry_count a
        + auth_ambiguity_replay_count a
    \<and> (continuation_lane a = SafeRetry \<longrightarrow> 1 \<le> auth_safe_retry_count a \<and> auth_safe_retry_count a \<le> 4)
    \<and> (continuation_lane a = ValidationRecovery \<longrightarrow> auth_validation_retry_count a = 1)
    \<and> (continuation_lane a = AmbiguityReplay \<longrightarrow> auth_ambiguity_replay_count a = 1)
    \<and> deadline_open a \<and> cooldown_elapsed a"
  using assms
  by (cases "continuation_lane a") (auto simp: recovery_dispatch_is_authorized_def policy_defs)

subsection \<open>Runs\<close>

text \<open>A run applies events in order and collects the effects; it stops at the first invalid event.\<close>

fun run_events :: "rotation_state \<Rightarrow> rotation_event list \<Rightarrow> (rotation_state \<times> effect list) result" where
  "run_events s [] = Inr (s, [])"
| "run_events s (e # es) = bindR (transition s e) (\<lambda>t.
     bindR (run_events (next_state t) es) (\<lambda>(s', fx). Inr (s', effects t @ fx)))"

definition dispatches :: "effect list \<Rightarrow> nat" where
  "dispatches fx = length (filter (\<lambda>f. case f of DispatchExchange _ \<Rightarrow> True | _ \<Rightarrow> False) fx)"

definition authorizations :: "rotation_event list \<Rightarrow> nat" where
  "authorizations es = length (filter (\<lambda>e. case e of AuthorizeRecoveryDispatch _ \<Rightarrow> True | _ \<Rightarrow> False) es)"

definition import_count :: "rotation_event list \<Rightarrow> nat" where
  "import_count es = length (filter (\<lambda>e. case e of Imported _ \<Rightarrow> True | _ \<Rightarrow> False) es)"

lemma dispatches_simps [simp]:
  "dispatches [] = 0"
  "dispatches (xs @ ys) = dispatches xs + dispatches ys"
  "dispatches (f # fx) = (case f of DispatchExchange _ \<Rightarrow> Suc (dispatches fx) | _ \<Rightarrow> dispatches fx)"
  by (auto simp: dispatches_def split: effect.splits)

lemma authorizations_simps [simp]:
  "authorizations [] = 0"
  "authorizations (e # es) =
     (case e of AuthorizeRecoveryDispatch _ \<Rightarrow> Suc (authorizations es) | _ \<Rightarrow> authorizations es)"
  by (auto simp: authorizations_def split: rotation_event.splits)

lemma import_count_simps [simp]:
  "import_count [] = 0"
  "import_count (e # es) = (case e of Imported _ \<Rightarrow> Suc (import_count es) | _ \<Rightarrow> import_count es)"
  by (auto simp: import_count_def split: rotation_event.splits)

text \<open>The dispatch a state can still make without a new authorization or import.\<close>

fun dispatch_credit :: "rotation_state \<Rightarrow> nat" where
  "dispatch_credit (Ready _) = 1"
| "dispatch_credit (Reserved _) = 1"
| "dispatch_credit _ = 0"

lemma transition_credit:
  assumes "transition s e = Inr t"
  shows "dispatches (effects t) + dispatch_credit (next_state t)
    \<le> dispatch_credit s + authorizations [e] + import_count [e]"
  using assms by (cases rule: transition_cases) auto

lemma run_events_credit:
  "run_events s es = Inr (s', fx) \<Longrightarrow>
     dispatches fx + dispatch_credit s' \<le> dispatch_credit s + authorizations es + import_count es"
proof (induction es arbitrary: s fx)
  case Nil
  then show ?case by simp
next
  case (Cons e es)
  from Cons.prems obtain t fx' where t: "transition s e = Inr t"
    and rest: "run_events (next_state t) es = Inr (s', fx')" and fx: "fx = effects t @ fx'"
    by (auto simp: result_simps split: prod.splits)
  have "authorizations (e # es) = authorizations [e] + authorizations es"
    "import_count (e # es) = import_count [e] + import_count es"
    by (cases e; simp)+
  with transition_credit [OF t] Cons.IH [OF rest] fx show ?case by simp
qed

subsection \<open>Event keys\<close>

lemma outcome_text_inj: "outcome_text a = outcome_text b \<longleftrightarrow> a = b"
  by (cases a; cases b) simp_all

lemma rotation_event_key_inj:
  "rotation_event_key r a = rotation_event_key q b \<longleftrightarrow> r = q \<and> a = b"
proof
  assume "rotation_event_key r a = rotation_event_key q b"
  then have "rev (r @ '':'' @ outcome_text a) = rev (q @ '':'' @ outcome_text b)"
    by (simp add: rotation_event_key_def)
  then show "r = q \<and> a = b" by (cases a; cases b) simp_all
qed simp

lemma metadata_key:
  "rotation_event_metadata s = Some (outcome, key) \<Longrightarrow>
     key = rotation_event_key (source_revision s) outcome \<and> is_terminal_state s"
  by (cases s) auto

lemma metadata_Some_iff: "rotation_event_metadata s \<noteq> None \<longleftrightarrow> is_terminal_state s"
  by (cases s) auto

end
