(* ===== verification/Json.thy ===== *)
theory Json
  imports Complex_Main Prelude
begin

section \<open>Decoded JSON documents\<close>

text \<open>
  The values \<open>json.loads\<close> returns and the type tests the parsers of the sources apply to them.
  An object lists its members in order, each key once; a float is its exact value (the
  non-finite floats, which the sources never write, are not values of the type).
\<close>

datatype json =
    JNull
  | JBool bool
  | JInt int
  | JFloat rat
  | JStr string
  | JList "json list"
  | JObj "(string \<times> json) list"

type_synonym members = "(string \<times> json) list"

text \<open>\<open>payload.get(key)\<close>: a missing key reads as \<open>None\<close>.\<close>

definition jget :: "members \<Rightarrow> string \<Rightarrow> json" where
  "jget m k = (case map_of m k of Some v \<Rightarrow> v | None \<Rightarrow> JNull)"

definition jget_default :: "members \<Rightarrow> string \<Rightarrow> json \<Rightarrow> json" where
  "jget_default m k d = (case map_of m k of Some v \<Rightarrow> v | None \<Rightarrow> d)"

fun as_obj :: "json \<Rightarrow> members option" where
  "as_obj (JObj m) = Some m"
| "as_obj _ = None"

fun as_str :: "json \<Rightarrow> string option" where
  "as_str (JStr s) = Some s"
| "as_str _ = None"

fun as_list :: "json \<Rightarrow> json list option" where
  "as_list (JList xs) = Some xs"
| "as_list _ = None"

text \<open>\<open>isinstance(value, bool)\<close>, and \<open>isinstance(value, int)\<close> once booleans are excluded.\<close>

fun is_jbool :: "json \<Rightarrow> bool" where
  "is_jbool (JBool _) = True"
| "is_jbool _ = False"

fun as_bool :: "json \<Rightarrow> bool option" where
  "as_bool (JBool b) = Some b"
| "as_bool _ = None"

fun as_int :: "json \<Rightarrow> int option" where
  "as_int (JInt i) = Some i"
| "as_int _ = None"

text \<open>\<open>isinstance(value, str | None)\<close>: the outer option is the test, the inner one the value.\<close>

fun as_opt_str :: "json \<Rightarrow> string option option" where
  "as_opt_str JNull = Some None"
| "as_opt_str (JStr s) = Some (Some s)"
| "as_opt_str _ = None"

fun as_opt_int :: "json \<Rightarrow> int option option" where
  "as_opt_int JNull = Some None"
| "as_opt_int (JInt i) = Some (Some i)"
| "as_opt_int _ = None"

text \<open>\<open>value == n\<close> for an integer literal: Python compares booleans and floats numerically.\<close>

fun json_eq_int :: "json \<Rightarrow> int \<Rightarrow> bool" where
  "json_eq_int (JInt i) n = (i = n)"
| "json_eq_int (JFloat r) n = (r = of_int n)"
| "json_eq_int (JBool b) n = ((if b then 1 else 0) = n)"
| "json_eq_int _ n = False"

fun opt_json :: "string option \<Rightarrow> json" where
  "opt_json None = JNull"
| "opt_json (Some s) = JStr s"

fun opt_int_json :: "int option \<Rightarrow> json" where
  "opt_int_json None = JNull"
| "opt_int_json (Some i) = JInt i"

lemma as_opt_str_opt_json [simp]: "as_opt_str (opt_json x) = Some x"
  by (cases x) auto

lemma as_opt_int_opt_int_json [simp]: "as_opt_int (opt_int_json x) = Some x"
  by (cases x) auto

lemma as_str_opt_json [simp]: "as_str (opt_json x) = x"
  by (cases x) auto

lemma is_jbool_opt_json [simp]: "\<not> is_jbool (opt_json x)" "\<not> is_jbool (opt_int_json y)"
  by (cases x; simp) (cases y; simp)

lemma opt_json_eq_JNull [simp]: "opt_json x = JNull \<longleftrightarrow> x = None"
  by (cases x) auto

lemma as_obj_eq_Some [simp]: "as_obj v = Some m \<longleftrightarrow> v = JObj m"
  by (cases v) auto

lemma as_str_eq_Some [simp]: "as_str v = Some s \<longleftrightarrow> v = JStr s"
  by (cases v) auto

lemma as_list_eq_Some [simp]: "as_list v = Some s \<longleftrightarrow> v = JList s"
  by (cases v) auto

lemma as_int_eq_Some [simp]: "as_int v = Some i \<longleftrightarrow> v = JInt i"
  by (cases v) auto

lemma as_bool_eq_Some [simp]: "as_bool v = Some i \<longleftrightarrow> v = JBool i"
  by (cases v) auto

lemma as_opt_str_eq_Some [simp]: "as_opt_str v = Some s \<longleftrightarrow> v = opt_json s"
  by (cases v; cases s) auto

lemma as_opt_int_eq_Some [simp]: "as_opt_int v = Some s \<longleftrightarrow> v = opt_int_json s"
  by (cases v; cases s) auto

text \<open>\<open>round(x)\<close>: to the nearest integer, halves to the even one.\<close>

definition round_half_even :: "rat \<Rightarrow> int" where
  "round_half_even x = (let f = \<lfloor>x\<rfloor>; r = x - of_int f in
     if r < 1 / 2 \<or> (r = 1 / 2 \<and> even f) then f else f + 1)"

end
