(* ===== verification/Py_Datetime.thy ===== *)
theory Py_Datetime
  imports Prelude
begin

section \<open>Timestamps: the part of Python's datetime the sources use\<close>

text \<open>
  A \<open>datetime\<close> is its local clock reading, in microseconds since 0001-01-01T00:00, and its
  UTC offset in microseconds (\<open>None\<close> for a naive value).  \<open>isoformat\<close> and \<open>fromisoformat\<close>
  read and write calendar dates in extended or basic form with an optional time, fraction
  and offset; the week-date forms of ISO 8601 are not modelled (they are refused here).
  The lemma the rest of the development uses is the round trip \<open>from_isoformat_isoformat\<close>.
\<close>

datatype datetime = DateTime (local_micros: int) (utc_offset: "int option")

definition micros_per_second :: int where
  "micros_per_second = 1000000"

definition micros_per_day :: int where
  "micros_per_day = 86400000000"

text \<open>An aware value as the instant it denotes; \<open>astimezone(UTC)\<close>, \<open>timedelta\<close> and comparisons
  work on instants.\<close>

fun instant_of :: "datetime \<Rightarrow> int option" where
  "instant_of (DateTime l (Some off)) = Some (l - off)"
| "instant_of (DateTime l None) = None"

definition utc :: "int \<Rightarrow> datetime" where
  "utc i = DateTime i (Some 0)"

lemma instant_of_utc [simp]: "instant_of (utc i) = Some i"
  by (simp add: utc_def)

text \<open>\<open>value.replace(tzinfo=UTC)\<close> on a naive value, \<open>value.astimezone(UTC)\<close> on an aware one.\<close>

definition assume_utc :: "datetime \<Rightarrow> int" where
  "assume_utc d = (case instant_of d of Some i \<Rightarrow> i | None \<Rightarrow> local_micros d)"

lemma assume_utc_utc [simp]: "assume_utc (utc i) = i"
  by (simp add: assume_utc_def)

subsection \<open>The proleptic Gregorian calendar\<close>

definition is_leap :: "int \<Rightarrow> bool" where
  "is_leap y \<longleftrightarrow> y mod 4 = 0 \<and> (y mod 100 \<noteq> 0 \<or> y mod 400 = 0)"

definition days_before_year :: "int \<Rightarrow> int" where
  "days_before_year y = (let p = y - 1 in p * 365 + p div 4 - p div 100 + p div 400)"

definition days_before_month :: "bool \<Rightarrow> int \<Rightarrow> int" where
  "days_before_month leap m = (let l = (if leap then 1 else 0) in
     if m \<le> 1 then 0 else if m = 2 then 31 else if m = 3 then 59 + l else if m = 4 then 90 + l
     else if m = 5 then 120 + l else if m = 6 then 151 + l else if m = 7 then 181 + l
     else if m = 8 then 212 + l else if m = 9 then 243 + l else if m = 10 then 273 + l
     else if m = 11 then 304 + l else if m = 12 then 334 + l else 365 + l)"

definition days_in_month :: "int \<Rightarrow> int \<Rightarrow> int" where
  "days_in_month y m = days_before_month (is_leap y) (m + 1) - days_before_month (is_leap y) m"

definition ymd2ord :: "int \<Rightarrow> int \<Rightarrow> int \<Rightarrow> int" where
  "ymd2ord y m d = days_before_year y + days_before_month (is_leap y) m + (d - 1)"

definition month_of :: "bool \<Rightarrow> int \<Rightarrow> int" where
  "month_of leap doy = (let l = (if leap then 1 else 0) in
     if doy < 31 then 1 else if doy < 59 + l then 2 else if doy < 90 + l then 3
     else if doy < 120 + l then 4 else if doy < 151 + l then 5 else if doy < 181 + l then 6
     else if doy < 212 + l then 7 else if doy < 243 + l then 8 else if doy < 273 + l then 9
     else if doy < 304 + l then 10 else if doy < 334 + l then 11 else 12)"

text \<open>Year and day of the year of an ordinal (day 0 is 0001-01-01), by 400, 100, 4 and 1 years.\<close>

definition year_day :: "int \<Rightarrow> int \<times> int" where
  "year_day n =
     (let n400 = n div 146097; r400 = n mod 146097;
          n100 = r400 div 36524; r100 = r400 mod 36524;
          n4 = r100 div 1461; r4 = r100 mod 1461;
          n1 = r4 div 365; r1 = r4 mod 365;
          y = 400 * n400 + 100 * n100 + 4 * n4 + n1 + 1
      in if n1 = 4 \<or> n100 = 4 then (y - 1, 365) else (y, r1))"

definition ord2ymd :: "int \<Rightarrow> int \<times> int \<times> int" where
  "ord2ymd n = (case year_day n of (y, doy) \<Rightarrow>
     let m = month_of (is_leap y) doy
     in (y, m, doy - days_before_month (is_leap y) m + 1))"

lemma days_before_year_split:
  assumes "0 \<le> c" "c \<le> 24" "0 \<le> d" "d \<le> 3" "0 \<le> b" "b \<le> 3"
  shows "days_before_year (400 * a + 100 * b + 4 * c + d + 1)
    = 146097 * a + 36524 * b + 1461 * c + 365 * d"
proof -
  let ?p = "400 * a + 100 * b + 4 * c + d"
  have "?p div 4 = 100 * a + 25 * b + c"
    by (rule int_div_pos_eq [where r = d]) (use assms in simp_all)
  moreover have "?p div 100 = 4 * a + b"
    by (rule int_div_pos_eq [where r = "4 * c + d"]) (use assms in simp_all)
  moreover have "?p div 400 = a"
    by (rule int_div_pos_eq [where r = "100 * b + 4 * c + d"]) (use assms in simp_all)
  ultimately show ?thesis by (simp add: days_before_year_def Let_def)
qed

lemma year_day_ordinal:
  assumes "year_day n = (y, doy)"
  shows "days_before_year y + doy = n \<and> 0 \<le> doy \<and> doy < (if is_leap y then 366 else 365)"
proof -
  define a r where "a = n div 146097" and "r = n mod 146097"
  define b q where "b = r div 36524" and "q = r mod 36524"
  define c p where "c = q div 1461" and "p = q mod 1461"
  define d e where "d = p div 365" and "e = p mod 365"
  have n: "n = 146097 * a + r" "0 \<le> r" "r < 146097"
    unfolding a_def r_def by simp_all
  have r0: "r = 36524 * b + q" "0 \<le> q" "q < 36524"
    unfolding b_def q_def by simp_all
  have r: "r = 36524 * b + q" "0 \<le> q" "q < 36524" "0 \<le> b" "b \<le> 4"
    using r0 n by linarith+
  have q0: "q = 1461 * c + p" "0 \<le> p" "p < 1461"
    unfolding c_def p_def by simp_all
  have q: "q = 1461 * c + p" "0 \<le> p" "p < 1461" "0 \<le> c" "c \<le> 24"
    using q0 r by linarith+
  have p0: "p = 365 * d + e" "0 \<le> e" "e < 365"
    unfolding d_def e_def by simp_all
  have p: "p = 365 * d + e" "0 \<le> e" "e < 365" "0 \<le> d" "d \<le> 4"
    using p0 q by linarith+
  have yd: "year_day n = (let y = 400 * a + 100 * b + 4 * c + d + 1
      in if d = 4 \<or> b = 4 then (y - 1, 365) else (y, e))"
    unfolding year_day_def Let_def a_def r_def b_def q_def c_def p_def d_def e_def by simp
  consider (plain) "d \<le> 3" "b \<le> 3" | (d4) "d = 4" "b \<le> 3" | (b4) "b = 4"
    using p r by linarith
  then show ?thesis
  proof cases
    case plain
    then have "y = 400 * a + 100 * b + 4 * c + d + 1" "doy = e"
      using yd assms by (auto simp: Let_def)
    then show ?thesis using days_before_year_split [of c d b a] plain n r q p by simp
  next
    case d4
    then have e: "e = 0" using p q by simp
    from d4 have y: "y = 400 * a + 100 * b + 4 * c + 3 + 1" "doy = 365"
      using yd assms by (auto simp: Let_def)
    have "c \<le> 23" using d4 p q r by linarith
    have "y mod 100 = 4 * c + 4"
      by (rule int_mod_pos_eq [where q = "4 * a + b"]) (use y \<open>c \<le> 23\<close> q in simp_all)
    moreover have "y mod 4 = 0"
      by (rule int_mod_pos_eq [where q = "100 * a + 25 * b + c + 1"]) (use y in simp_all)
    ultimately have "is_leap y" using q by (simp add: is_leap_def)
    then show ?thesis using y days_before_year_split [of c 3 b a] d4 e n r q p by simp
  next
    case b4
    then have qz: "q = 0" using n r by simp
    then have cd: "c = 0" "d = 0" "e = 0" using q p by simp_all
    from b4 cd have y: "y = 400 * a + 100 * 3 + 4 * 24 + 3 + 1" "doy = 365"
      using yd assms by (auto simp: Let_def)
    have "y mod 400 = 0"
      by (rule int_mod_pos_eq [where q = "a + 1"]) (use y in simp_all)
    moreover have "y mod 4 = 0"
      by (rule int_mod_pos_eq [where q = "100 * a + 100"]) (use y in simp_all)
    ultimately have "is_leap y" by (simp add: is_leap_def)
    then show ?thesis using y days_before_year_split [of 24 3 3 a] b4 qz n r by simp
  qed
qed

lemma month_of_bounds:
  assumes "0 \<le> doy" and "doy < (if leap then 366 else 365)"
  shows "1 \<le> month_of leap doy \<and> month_of leap doy \<le> 12
    \<and> days_before_month leap (month_of leap doy) \<le> doy
    \<and> doy < days_before_month leap (month_of leap doy + 1)"
  using assms by (auto simp: month_of_def days_before_month_def Let_def)

lemma ord2ymd_correct:
  assumes "ord2ymd n = (y, m, d)"
  shows "ymd2ord y m d = n \<and> 1 \<le> m \<and> m \<le> 12 \<and> 1 \<le> d \<and> d \<le> days_in_month y m"
proof -
  obtain doy where yd: "year_day n = (y, doy)" and m: "m = month_of (is_leap y) doy"
    and d: "d = doy - days_before_month (is_leap y) m + 1"
    using assms by (auto simp: ord2ymd_def Let_def split: prod.splits)
  have n: "days_before_year y + doy = n" "0 \<le> doy" "doy < (if is_leap y then 366 else 365)"
    using year_day_ordinal [OF yd] by simp_all
  show ?thesis using month_of_bounds [OF n(2,3)] n(1)
    by (simp add: m d ymd2ord_def days_in_month_def)
qed

text \<open>Python's range: ordinals of the years 1 to 9999.\<close>

definition max_ordinal :: int where
  "max_ordinal = 3652059"

lemma year_day_range:
  assumes "year_day n = (y, doy)" and "0 \<le> n" and "n < max_ordinal"
  shows "1 \<le> y \<and> y \<le> 9999"
proof -
  have n: "days_before_year y + doy = n" "0 \<le> doy" "doy \<le> 365"
    using year_day_ordinal [OF assms(1)] by (auto split: if_splits)
  define a b c where "a = (y - 1) div 4" and "b = (y - 1) div 100" and "c = (y - 1) div 400"
  have days: "n = 365 * (y - 1) + a - b + c + doy"
    using n(1) by (simp add: days_before_year_def Let_def a_def b_def c_def)
  have ab: "100 * b \<le> y - 1" "y - 1 \<le> 100 * b + 99"
    unfolding b_def by linarith+
  have "\<not> y \<le> 0"
  proof
    assume y: "y \<le> 0"
    then have "a \<le> - 1" "c \<le> - 1" unfolding a_def c_def by linarith+
    with days ab n(2,3) assms(2) have "0 \<le> 36500 * (y - 1) - 100 * b + 36300" by simp
    with y ab show False by simp
  qed
  moreover have "\<not> 10000 \<le> y"
  proof
    assume y: "10000 \<le> y"
    then have "2499 \<le> a" "24 \<le> c" unfolding a_def c_def by linarith+
    with days ab n(2,3) assms(3)
    have "36500 * (y - 1) - 100 * b + 252300 \<le> 365205800"
      by (simp add: max_ordinal_def)
    with y ab show False by simp
  qed
  ultimately show ?thesis by linarith
qed


subsection \<open>Rendering\<close>

definition pad :: "nat \<Rightarrow> int \<Rightarrow> string" where
  "pad k n = (let s = show_nat (nat n) in replicate (k - length s) CHR ''0'' @ s)"

definition iso_date :: "int \<Rightarrow> string" where
  "iso_date days = (case ord2ymd days of (y, m, d) \<Rightarrow> pad 4 y @ ''-'' @ pad 2 m @ ''-'' @ pad 2 d)"

definition iso_clock :: "int \<Rightarrow> string" where
  "iso_clock micros =
     (let secs = micros div micros_per_second; us = micros mod micros_per_second
      in pad 2 (secs div 3600) @ '':'' @ pad 2 (secs div 60 mod 60) @ '':'' @ pad 2 (secs mod 60)
         @ (if us = 0 then [] else ''.'' @ pad 6 us))"

definition iso_offset :: "int \<Rightarrow> string" where
  "iso_offset off =
     (let a = \<bar>off\<bar>; secs = a div micros_per_second; us = a mod micros_per_second
      in (if off < 0 then ''-'' else ''+'') @ pad 2 (secs div 3600) @ '':'' @ pad 2 (secs div 60 mod 60)
         @ (if secs mod 60 = 0 \<and> us = 0 then []
            else '':'' @ pad 2 (secs mod 60) @ (if us = 0 then [] else ''.'' @ pad 6 us)))"

fun isoformat :: "datetime \<Rightarrow> string" where
  "isoformat (DateTime l off) =
     iso_date (l div micros_per_day) @ ''T'' @ iso_clock (l mod micros_per_day)
     @ (case off of None \<Rightarrow> [] | Some u \<Rightarrow> iso_offset u)"

subsection \<open>Reading\<close>

definition take_digits :: "nat \<Rightarrow> string \<Rightarrow> (int \<times> string) option" where
  "take_digits k s = (if k \<le> length s \<and> list_all decimal_char (take k s)
     then Some (int (decimal_value (take k s)), drop k s) else None)"

definition take_sep :: "string \<Rightarrow> string \<Rightarrow> string option" where
  "take_sep sep s = (if starts_with s sep then Some (drop (length sep) s) else None)"

text \<open>A fraction: one digit at least; digits past the sixth are dropped.\<close>

definition read_fraction :: "string \<Rightarrow> int option" where
  "read_fraction s = (case s of
       [] \<Rightarrow> None
     | c # ds \<Rightarrow>
         if (c = CHR ''.'' \<or> c = CHR '','') \<and> ds \<noteq> [] \<and> list_all decimal_char ds
         then Some (int (decimal_value (take 6 (ds @ ''00000''))))
         else None)"

text \<open>\<open>HH[:MM[:SS[.f]]]\<close>, with one separator style throughout: hours, minutes, seconds, micros.\<close>

definition read_clock_sep :: "string \<Rightarrow> int \<Rightarrow> string \<Rightarrow> (int \<times> int \<times> int \<times> int) option" where
  "read_clock_sep sep h s =
     (case Option.bind (take_sep sep s) (take_digits 2) of
        None \<Rightarrow> None
      | Some (m, s') \<Rightarrow>
          if s' = [] then Some (h, m, 0, 0)
          else (case Option.bind (take_sep sep s') (take_digits 2) of
              None \<Rightarrow> None
            | Some (sec, s'') \<Rightarrow>
                if s'' = [] then Some (h, m, sec, 0)
                else map_option (\<lambda>us. (h, m, sec, us)) (read_fraction s'')))"

definition read_clock :: "string \<Rightarrow> (int \<times> int \<times> int \<times> int) option" where
  "read_clock s = (case take_digits 2 s of
       None \<Rightarrow> None
     | Some (h, s') \<Rightarrow>
         if s' = [] then Some (h, 0, 0, 0)
         else read_clock_sep (if starts_with s' '':'' then '':'' else []) h s')"

definition read_date :: "string \<Rightarrow> ((int \<times> int \<times> int) \<times> string) option" where
  "read_date s = (case take_digits 4 s of
       None \<Rightarrow> None
     | Some (y, s1) \<Rightarrow>
         let sep = (if starts_with s1 ''-'' then ''-'' else [])
         in (case Option.bind (take_sep sep s1) (take_digits 2) of
               None \<Rightarrow> None
             | Some (m, s2) \<Rightarrow>
                 map_option (\<lambda>(d, s3). ((y, m, d), s3)) (Option.bind (take_sep sep s2) (take_digits 2))))"

definition zone_char :: "char \<Rightarrow> bool" where
  "zone_char c \<longleftrightarrow> c = CHR ''+'' \<or> c = CHR ''-'' \<or> c = CHR ''Z''"

text \<open>The offset after the time: \<open>Z\<close>, or a sign and a clock; \<open>None\<close> when it is malformed.\<close>

definition read_zone :: "string \<Rightarrow> int option option" where
  "read_zone s = (case s of
       [] \<Rightarrow> Some None
     | c # t \<Rightarrow>
         if c = CHR ''Z'' then (if t = [] then Some (Some 0) else None)
         else (case read_clock t of
             None \<Rightarrow> None
           | Some (h, m, sec, us) \<Rightarrow>
               let a = ((h * 60 + m) * 60 + sec) * micros_per_second + us
               in if m < 60 \<and> sec < 60 \<and> a < micros_per_day
                  then Some (Some (if c = CHR ''-'' then - a else a)) else None))"

definition valid_date :: "int \<Rightarrow> int \<Rightarrow> int \<Rightarrow> bool" where
  "valid_date y m d \<longleftrightarrow> 1 \<le> y \<and> y \<le> 9999 \<and> 1 \<le> m \<and> m \<le> 12 \<and> 1 \<le> d \<and> d \<le> days_in_month y m"

text \<open>Midnight written as hour 24 is the start of the next day.\<close>

definition build_datetime ::
  "int \<times> int \<times> int \<Rightarrow> int \<times> int \<times> int \<times> int \<Rightarrow> int option \<Rightarrow> datetime option" where
  "build_datetime date clock off = (case (date, clock) of ((y, m, d), (h, mi, sec, us)) \<Rightarrow>
     let days = ymd2ord y m d; time = ((h * 60 + mi) * 60 + sec) * micros_per_second + us
     in if valid_date y m d \<and> mi < 60 \<and> sec < 60
           \<and> (h < 24 \<or> (h = 24 \<and> mi = 0 \<and> sec = 0 \<and> us = 0 \<and> days + 1 < max_ordinal))
        then Some (DateTime (days * micros_per_day + time) off) else None)"

definition from_isoformat :: "string \<Rightarrow> datetime option" where
  "from_isoformat s = (case read_date s of
       None \<Rightarrow> None
     | Some (date, []) \<Rightarrow> build_datetime date (0, 0, 0, 0) None
     | Some (date, [_]) \<Rightarrow> build_datetime date (0, 0, 0, 0) None
     | Some (date, _ # t) \<Rightarrow>
         (case (read_clock (takeWhile (\<lambda>c. \<not> zone_char c) t),
                read_zone (dropWhile (\<lambda>c. \<not> zone_char c) t)) of
            (Some clock, Some off) \<Rightarrow> build_datetime date clock off
          | _ \<Rightarrow> None))"


subsection \<open>What is rendered is read back\<close>

lemma length_show_nat: "n < 10 ^ Suc k \<Longrightarrow> length (show_nat n) \<le> Suc k"
proof (induction k arbitrary: n)
  case 0
  then show ?case by (subst show_nat.simps) simp
next
  case (Suc k)
  show ?case
  proof (cases "n < 10")
    case True
    then show ?thesis by (subst show_nat.simps) simp
  next
    case False
    have "n div 10 < 10 ^ Suc k" using Suc.prems by (simp add: div_less_iff_less_mult mult.commute)
    then have "length (show_nat (n div 10)) \<le> Suc k" by (rule Suc.IH)
    with False show ?thesis by (subst show_nat.simps) simp
  qed
qed

lemma decimal_value_zeros: "decimal_value (replicate k CHR ''0'' @ s) = decimal_value s"
proof (induction k)
  case (Suc k)
  have "decimal_value (CHR ''0'' # t) = decimal_value t" for t
    by (simp add: decimal_value_def char_code_def)
  with Suc show ?case by simp
qed simp

lemma pad_digits:
  assumes "0 \<le> n" and "n < 10 ^ Suc k"
  shows "length (pad (Suc k) n) = Suc k \<and> list_all decimal_char (pad (Suc k) n)
    \<and> int (decimal_value (pad (Suc k) n)) = n"
proof -
  have "int (nat n) < int (10 ^ Suc k)" using assms by simp
  then have "nat n < 10 ^ Suc k" by (rule of_nat_less_imp_less)
  then have "length (show_nat (nat n)) \<le> Suc k" by (rule length_show_nat)
  moreover have "decimal_char CHR ''0''" by (simp add: decimal_char_def char_code_def)
  ultimately show ?thesis using show_nat_decimal [of "nat n"] assms(1)
    by (auto simp: pad_def Let_def decimal_value_zeros list_all_iff set_replicate_conv_if)
qed

lemma take_digits_pad:
  assumes "0 \<le> n" and "n < 10 ^ Suc k"
  shows "take_digits (Suc k) (pad (Suc k) n @ r) = Some (n, r)"
  using pad_digits [OF assms] by (simp add: take_digits_def)

lemma take_digits_pad2: "0 \<le> n \<Longrightarrow> n < 100 \<Longrightarrow> take_digits 2 (pad 2 n @ r) = Some (n, r)"
  using take_digits_pad [of n 1 r] by (simp add: numeral_2_eq_2)

lemma take_digits_pad4: "0 \<le> n \<Longrightarrow> n < 10000 \<Longrightarrow> take_digits 4 (pad 4 n @ r) = Some (n, r)"
  using take_digits_pad [of n 3 r] by (simp add: eval_nat_numeral)

lemma read_fraction_pad6:
  assumes "0 \<le> n" and "n < 1000000"
  shows "read_fraction (''.'' @ pad 6 n) = Some n"
proof -
  have p: "length (pad 6 n) = 6" "list_all decimal_char (pad 6 n)"
    "int (decimal_value (pad 6 n)) = n"
    using pad_digits [of n 5] assms by (simp_all add: eval_nat_numeral)
  then have "pad 6 n \<noteq> []" by auto
  with p show ?thesis by (simp add: read_fraction_def)
qed

lemma take_sep_append [simp]: "take_sep sep (sep @ r) = Some r"
  by (simp add: take_sep_def)

lemma days_in_month_small: "days_in_month y m \<le> 31"
  by (simp add: days_in_month_def days_before_month_def Let_def)

lemma read_date_iso_date:
  assumes "ord2ymd days = (y, m, d)" and "valid_date y m d"
  shows "read_date (iso_date days @ r) = Some ((y, m, d), r)"
proof -
  have d: "0 \<le> d" "d < 100" "0 \<le> m" "m < 100" "0 \<le> y" "y < 10000"
    using assms(2) days_in_month_small [of y m] by (auto simp: valid_date_def)
  have r: "iso_date days @ r = pad 4 y @ ''-'' @ pad 2 m @ ''-'' @ pad 2 d @ r"
    using assms(1) by (simp add: iso_date_def)
  show ?thesis unfolding read_date_def r
    using d take_sep_append [of "''-''"]
    by (simp add: take_digits_pad4 take_digits_pad2)
qed

lemma hms_split: "(s::int) = (s div 3600 * 60 + s div 60 mod 60) * 60 + s mod 60"
proof -
  have "s div 3600 = s div 60 div 60" by (simp add: zdiv_zmult2_eq [symmetric])
  then show ?thesis by simp
qed

lemma iso_clock_parts:
  assumes "0 \<le> t" and "t < micros_per_day"
  obtains h m sec us where "0 \<le> h" "h < 24" "0 \<le> m" "m < 60" "0 \<le> sec" "sec < 60"
    "0 \<le> us" "us < 1000000" "t = ((h * 60 + m) * 60 + sec) * micros_per_second + us"
    "iso_clock t = pad 2 h @ '':'' @ pad 2 m @ '':'' @ pad 2 sec @ (if us = 0 then [] else ''.'' @ pad 6 us)"
proof
  let ?s = "t div micros_per_second"
  have s: "0 \<le> ?s" "?s < 86400"
    using assms by (simp_all add: micros_per_second_def micros_per_day_def pos_imp_zdiv_nonneg_iff
        div_less_iff_less_mult int_div_less_self) 
  show "0 \<le> ?s div 3600" "?s div 3600 < 24" "0 \<le> ?s div 60 mod 60" "?s div 60 mod 60 < 60"
    "0 \<le> ?s mod 60" "?s mod 60 < 60"
    using s by (simp_all add: div_less_iff_less_mult pos_imp_zdiv_nonneg_iff)
  show "0 \<le> t mod micros_per_second" "t mod micros_per_second < 1000000"
    by (simp_all add: micros_per_second_def)
  have "?s = (?s div 3600 * 60 + ?s div 60 mod 60) * 60 + ?s mod 60" by (rule hms_split)
  moreover have "t = ?s * micros_per_second + t mod micros_per_second" by simp
  ultimately show "t = ((?s div 3600 * 60 + ?s div 60 mod 60) * 60 + ?s mod 60) * micros_per_second
      + t mod micros_per_second" by simp
  show "iso_clock t = pad 2 (?s div 3600) @ '':'' @ pad 2 (?s div 60 mod 60) @ '':'' @ pad 2 (?s mod 60)
      @ (if t mod micros_per_second = 0 then [] else ''.'' @ pad 6 (t mod micros_per_second))"
    by (simp add: iso_clock_def Let_def)
qed

lemma starts_with_colon [simp]: "starts_with (CHR '':'' # s) '':''"
  by simp

lemma read_clock_iso_clock:
  assumes "0 \<le> h" "h < 24" "0 \<le> m" "m < 60" "0 \<le> sec" "sec < 60" "0 \<le> us" "us < 1000000"
  shows "read_clock (pad 2 h @ '':'' @ pad 2 m @ '':'' @ pad 2 sec
      @ (if us = 0 then [] else ''.'' @ pad 6 us)) = Some (h, m, sec, us)"
proof -
  have step: "Option.bind (take_sep '':'' ('':'' @ pad 2 n @ r)) (take_digits 2) = Some (n, r)"
    if "0 \<le> n" "n < 60" for n r
    using that by (simp add: take_digits_pad2 del: append.simps)
  show ?thesis
    unfolding read_clock_def read_clock_sep_def
    using assms read_fraction_pad6 [of us] step [of m "'':'' @ pad 2 sec @ r" for r]
    by (simp add: take_digits_pad2 step [simplified] del: take_sep_append)
qed


lemma pad_no_zone: "0 \<le> n \<Longrightarrow> n < 10 ^ Suc k \<Longrightarrow> c \<in> set (pad (Suc k) n) \<Longrightarrow> \<not> zone_char c"
  using pad_digits [of n k] by (auto simp: list_all_iff zone_char_def decimal_char_def char_code_def)

lemma pad2_no_zone: "0 \<le> n \<Longrightarrow> n < 100 \<Longrightarrow> c \<in> set (pad 2 n) \<Longrightarrow> \<not> zone_char c"
  using pad_no_zone [of n 1 c] by (simp add: numeral_2_eq_2)

lemma pad6_no_zone: "0 \<le> n \<Longrightarrow> n < 1000000 \<Longrightarrow> c \<in> set (pad 6 n) \<Longrightarrow> \<not> zone_char c"
  using pad_no_zone [of n 5 c] by (simp add: eval_nat_numeral)

lemma separators_no_zone: "\<not> zone_char CHR '':''" "\<not> zone_char CHR ''.''"
  by (simp_all add: zone_char_def)

lemma ymd_valid:
  assumes "ord2ymd n = (y, m, d)" and "0 \<le> n" and "n < max_ordinal"
  shows "valid_date y m d \<and> ymd2ord y m d = n"
proof -
  obtain doy where "year_day n = (y, doy)"
    using assms(1) by (auto simp: ord2ymd_def Let_def split: prod.splits)
  then show ?thesis using ord2ymd_correct [OF assms(1)] year_day_range assms
    by (auto simp: valid_date_def)
qed

theorem from_isoformat_isoformat:
  assumes "0 \<le> i" and "i < max_ordinal * micros_per_day"
  shows "from_isoformat (isoformat (utc i)) = Some (utc i)"
proof -
  define days t where "days = i div micros_per_day" and "t = i mod micros_per_day"
  have i: "i = days * micros_per_day + t" by (simp add: days_def t_def)
  have t: "0 \<le> t" "t < micros_per_day" by (simp_all add: t_def micros_per_day_def)
  have days: "0 \<le> days" "days < max_ordinal"
    using assms by (simp_all add: days_def micros_per_day_def pos_imp_zdiv_nonneg_iff
        div_less_iff_less_mult)
  obtain y m d where ymd: "ord2ymd days = (y, m, d)" by (cases "ord2ymd days") auto
  have valid: "valid_date y m d" "ymd2ord y m d = days" using ymd_valid [OF ymd days] by auto
  obtain h mi sec us where clock: "0 \<le> h" "h < 24" "0 \<le> mi" "mi < 60" "0 \<le> sec" "sec < 60"
    "0 \<le> us" "us < 1000000" and t_eq: "t = ((h * 60 + mi) * 60 + sec) * micros_per_second + us"
    and clk: "iso_clock t = pad 2 h @ '':'' @ pad 2 mi @ '':'' @ pad 2 sec
      @ (if us = 0 then [] else ''.'' @ pad 6 us)"
    using iso_clock_parts [OF t] by blast
  have no_zone: "\<forall>c\<in>set (iso_clock t). \<not> zone_char c"
    using clock unfolding clk
    by (auto simp: separators_no_zone dest: pad2_no_zone [rotated 2] pad6_no_zone [rotated 2]
        split: if_splits)
  have zone_text: "iso_offset 0 = ''+00:00''" by code_simp
  have iso: "isoformat (utc i) = iso_date days @ CHR ''T'' # iso_clock t @ ''+00:00''"
    by (simp add: utc_def days_def t_def zone_text)
  have split: "takeWhile (\<lambda>c. \<not> zone_char c) (iso_clock t @ ''+00:00'') = iso_clock t"
    "dropWhile (\<lambda>c. \<not> zone_char c) (iso_clock t @ ''+00:00'') = ''+00:00''"
    using no_zone by (simp_all add: takeWhile_append2 dropWhile_append2 zone_char_def)
  have zone: "read_zone ''+00:00'' = Some (Some 0)" by code_simp
  have date: "read_date (isoformat (utc i)) = Some ((y, m, d), CHR ''T'' # iso_clock t @ ''+00:00'')"
    unfolding iso by (rule read_date_iso_date [OF ymd valid(1)])
  have build: "build_datetime (y, m, d) (h, mi, sec, us) (Some 0) = Some (utc i)"
    using valid clock by (simp add: build_datetime_def Let_def i t_eq utc_def)
  obtain c rest where ne: "iso_clock t @ ''+00:00'' = c # rest" by (cases "iso_clock t") auto
  show ?thesis
    unfolding from_isoformat_def date
    using split zone read_clock_iso_clock [OF clock, folded clk] build
    by (simp add: ne)
qed

end
