(* ===== verification/Auth_Store_Data.thy ===== *)
theory Auth_Store_Data
  imports Auth_State_Machine Json Py_Datetime
begin

section \<open>Durable authentication documents (auth\_session/store.py, data and parsers)\<close>

text \<open>
  The credential file, the refresh journal and the outcome outbox: their typed values, the
  parsers that admit a JSON document (every malformed document is a value of the load result)
  and the serializers.  Membership tests in a set of strings raise \<open>TypeError\<close> on a list or an
  object, as Python's hashing does, so the journal and outbox parsers return a \<open>result\<close>.
\<close>

subsection \<open>Values\<close>

datatype credential = CookieCredential string | BearerTokenCredential string

record stored_auth =
  revision :: string
  base_url :: string
  auth_credential :: credential
  imported_at :: string

datatype attempt_kind = NormalAttempt | LaneAttempt lane

datatype continuation = Continue lane | Stop

record rotation_attempt =
  rotation_id :: string
  attempt_kind :: attempt_kind
  dispatch_count :: int
  safe_retry_count :: int
  validation_retry_count :: int
  ambiguity_replay_count :: int
  recovery_deadline :: "string option"
  continuation :: "continuation option"
  owner_boot_id :: "string option"
  owner_pid :: "int option"
  owner_start_ticks :: "string option"
  next_attempt_at :: "string option"
  total_dispatch_cap :: int
  response_class :: "string option"
  stop_reason :: "string option"

text \<open>\<open>RotationAttempt(id, kind, count)\<close> with the defaults of the other fields.\<close>

definition new_attempt :: "string \<Rightarrow> attempt_kind \<Rightarrow> int \<Rightarrow> rotation_attempt" where
  "new_attempt rid kind count =
    \<lparr>rotation_id = rid, attempt_kind = kind, dispatch_count = count, safe_retry_count = 0,
     validation_retry_count = 0, ambiguity_replay_count = 0, recovery_deadline = None,
     continuation = None, owner_boot_id = None, owner_pid = None, owner_start_ticks = None,
     next_attempt_at = None, total_dispatch_cap = TOTAL_DISPATCH_CAP, response_class = None,
     stop_reason = None\<rparr>"

datatype auth_load_result =
    AuthAbsent
  | AuthCorrupt string
  | AuthUnsupported json
  | AuthIoFailure string string
  | AuthClockAnomaly
  | AuthLoaded stored_auth

datatype journal_load_result =
    JournalAbsent
  | JournalCorrupt string
  | JournalIoFailure string string
  | JournalLoaded rotation_state bool "rotation_attempt option" "int option"
      \<comment> \<open>state, outbox\_enqueued, attempt, migrated\_from\_version\<close>

record outbox_record =
  record_outcome :: rotation_outcome
  record_key :: string

datatype outbox_load_result =
    OutboxAbsent
  | OutboxCorrupt string
  | OutboxIoFailure string string
  | OutboxLoaded "outbox_record list"

definition AUTH_SCHEMA_VERSION :: int where
  "AUTH_SCHEMA_VERSION = 2"

definition JOURNAL_SCHEMA_VERSION :: int where
  "JOURNAL_SCHEMA_VERSION = 3"

definition PREVIOUS_JOURNAL_SCHEMA_VERSION :: int where
  "PREVIOUS_JOURNAL_SCHEMA_VERSION = 2"

definition IMPORTED_AT_FUTURE_TOLERANCE :: int where
  "IMPORTED_AT_FUTURE_TOLERANCE = 5000000"

subsection \<open>Names on the wire\<close>

fun lane_text :: "lane \<Rightarrow> string" where
  "lane_text SafeRetry = ''safe_retry''"
| "lane_text ValidationRecovery = ''validation_recovery''"
| "lane_text AmbiguityReplay = ''ambiguity_replay''"

fun kind_text :: "attempt_kind \<Rightarrow> string" where
  "kind_text NormalAttempt = ''normal''"
| "kind_text (LaneAttempt l) = lane_text l"

fun continuation_text :: "continuation \<Rightarrow> string" where
  "continuation_text (Continue l) = lane_text l"
| "continuation_text Stop = ''stop''"

definition lane_of_text :: "string \<Rightarrow> lane option" where
  "lane_of_text s = (if s = ''safe_retry'' then Some SafeRetry
     else if s = ''validation_recovery'' then Some ValidationRecovery
     else if s = ''ambiguity_replay'' then Some AmbiguityReplay else None)"

definition kind_of_text :: "string \<Rightarrow> attempt_kind option" where
  "kind_of_text s = (if s = ''normal'' then Some NormalAttempt
     else map_option LaneAttempt (lane_of_text s))"

definition continuation_of_text :: "string \<Rightarrow> continuation option" where
  "continuation_of_text s = (if s = ''stop'' then Some Stop
     else map_option Continue (lane_of_text s))"

definition outcome_of_text :: "string \<Rightarrow> rotation_outcome option" where
  "outcome_of_text s = (if s = ''rotated'' then Some RotatedOutcome
     else if s = ''rejected'' then Some RejectedOutcome
     else if s = ''outcome_unknown'' then Some UnknownOutcome else None)"

lemma lane_of_text_lane_text [simp]: "lane_of_text (lane_text l) = Some l"
  by (cases l) (simp_all add: lane_of_text_def)

lemma kind_of_text_kind_text [simp]: "kind_of_text (kind_text k) = Some k"
proof (cases k)
  case (LaneAttempt l)
  then show ?thesis by (cases l) (simp_all add: kind_of_text_def lane_of_text_def)
qed (simp add: kind_of_text_def)

lemma continuation_of_text_continuation_text [simp]:
  "continuation_of_text (continuation_text c) = Some c"
proof (cases c)
  case (Continue l)
  then show ?thesis by (cases l) (simp_all add: continuation_of_text_def lane_of_text_def)
qed (simp add: continuation_of_text_def)

lemma outcome_of_text_outcome_text [simp]: "outcome_of_text (outcome_text c) = Some c"
  by (cases c) (simp_all add: outcome_of_text_def)

text \<open>\<open>value in {...}\<close> for a set of strings.\<close>

fun json_in :: "json \<Rightarrow> string list \<Rightarrow> bool result" where
  "json_in (JStr s) xs = Inr (s \<in> set xs)"
| "json_in (JList _) xs = Inl (TypeError ''unhashable type: list'')"
| "json_in (JObj _) xs = Inl (TypeError ''unhashable type: dict'')"
| "json_in _ xs = Inr False"

subsection \<open>The credential file\<close>

definition credential_metadata :: "members \<Rightarrow> (string \<times> string \<times> string) option" where
  "credential_metadata payload =
     (case (jget payload ''revision'', jget payload ''base_url'', jget payload ''imported_at'') of
        (JStr r, JStr b, JStr i) \<Rightarrow> if r \<noteq> [] \<and> b \<noteq> [] \<and> i \<noteq> [] then Some (r, b, i) else None
      | _ \<Rightarrow> None)"

definition parse_utc_timestamp :: "string \<Rightarrow> int option" where
  "parse_utc_timestamp value = (case from_isoformat value of
       None \<Rightarrow> None
     | Some (DateTime l off) \<Rightarrow> if off = Some 0 then Some l else None)"

datatype imported_at_check = ImportedAt int | ImportedAtInvalid auth_load_result

definition validate_imported_at :: "string \<Rightarrow> int \<Rightarrow> imported_at_check" where
  "validate_imported_at value now = (case parse_utc_timestamp value of
       None \<Rightarrow> ImportedAtInvalid (AuthCorrupt ''credential imported_at must be an ISO 8601 UTC timestamp'')
     | Some parsed \<Rightarrow>
         if parsed > now + IMPORTED_AT_FUTURE_TOLERANCE then ImportedAtInvalid AuthClockAnomaly
         else ImportedAt parsed)"

definition parse_credential :: "json \<Rightarrow> credential option" where
  "parse_credential raw = (case raw of
       JObj m \<Rightarrow>
         (case (jget m ''type'', jget m ''cookie_header'', jget m ''token'') of
            (t, c, k) \<Rightarrow>
              if t = JStr ''cookie'' \<and> as_str c \<noteq> None then map_option CookieCredential (as_str c)
              else if t = JStr ''bearer_token'' \<and> as_str k \<noteq> None
                then map_option BearerTokenCredential (as_str k)
              else None)
     | _ \<Rightarrow> None)"

definition parse_auth :: "json \<Rightarrow> int \<Rightarrow> auth_load_result" where
  "parse_auth loaded now = (case as_obj loaded of
       None \<Rightarrow> AuthCorrupt ''credential payload must be an object''
     | Some m \<Rightarrow>
         if \<not> json_eq_int (jget m ''version'') AUTH_SCHEMA_VERSION
         then AuthUnsupported (jget m ''version'')
         else (case credential_metadata m of
             None \<Rightarrow> AuthCorrupt ''credential revision, base_url, and imported_at must be non-empty strings''
           | Some (r, b, i) \<Rightarrow>
               (case validate_imported_at i now of
                  ImportedAtInvalid failure \<Rightarrow> failure
                | ImportedAt _ \<Rightarrow>
                    (case parse_credential (jget m ''credential'') of
                       None \<Rightarrow> AuthCorrupt ''credential is invalid''
                     | Some c \<Rightarrow>
                         AuthLoaded \<lparr>revision = r, base_url = b, auth_credential = c, imported_at = i\<rparr>))))"

fun credential_payload :: "credential \<Rightarrow> json" where
  "credential_payload (CookieCredential c) = JObj [(''type'', JStr ''cookie''), (''cookie_header'', JStr c)]"
| "credential_payload (BearerTokenCredential t) = JObj [(''type'', JStr ''bearer_token''), (''token'', JStr t)]"

text \<open>The dictionary \<open>stored_auth\<close> builds is the payload that is written.\<close>

definition auth_payload :: "stored_auth \<Rightarrow> json" where
  "auth_payload a = JObj
     [(''version'', JInt AUTH_SCHEMA_VERSION), (''revision'', JStr (revision a)),
      (''base_url'', JStr (base_url a)), (''credential'', credential_payload (auth_credential a)),
      (''imported_at'', JStr (imported_at a))]"

subsection \<open>The recovery budget\<close>

definition rotation_attempt_is_valid :: "rotation_attempt \<Rightarrow> bool" where
  "rotation_attempt_is_valid a =
     (let retry_count = safe_retry_count a + validation_retry_count a + ambiguity_replay_count a;
          owner_absent = (owner_boot_id a = None \<and> owner_pid a = None \<and> owner_start_ticks a = None);
          owner_valid = (truthy (owner_boot_id a)
            \<and> (case owner_pid a of None \<Rightarrow> False | Some p \<Rightarrow> p > 0)
            \<and> truthy (owner_start_ticks a))
      in rotation_id a \<noteq> []
         \<and> dispatch_count a \<ge> 0
         \<and> 0 \<le> safe_retry_count a \<and> safe_retry_count a \<le> SAFE_RETRY_LIMIT
         \<and> 0 \<le> validation_retry_count a \<and> validation_retry_count a \<le> VALIDATION_RETRY_LIMIT
         \<and> 0 \<le> ambiguity_replay_count a \<and> ambiguity_replay_count a \<le> AMBIGUITY_REPLAY_LIMIT
         \<and> total_dispatch_cap a = TOTAL_DISPATCH_CAP
         \<and> dispatch_count a \<le> total_dispatch_cap a
         \<and> (dispatch_count a = retry_count \<or> dispatch_count a = 1 + retry_count)
         \<and> (owner_absent \<or> owner_valid))"

definition parse_attempt_counts ::
  "members \<Rightarrow> (string \<times> attempt_kind \<times> int \<times> int \<times> int \<times> int) option" where
  "parse_attempt_counts p =
     (case (as_str (jget p ''rotation_id''), Option.bind (as_str (jget p ''attempt_kind'')) kind_of_text,
            as_int (jget p ''dispatch_count''), as_int (jget p ''safe_retry_count''),
            as_int (jget p ''validation_retry_count''), as_int (jget p ''ambiguity_replay_count'')) of
        (Some rid, Some kind, Some d, Some s, Some v, Some a) \<Rightarrow> Some (rid, kind, d, s, v, a)
      | _ \<Rightarrow> None)"

fun as_continuation :: "json \<Rightarrow> continuation option option" where
  "as_continuation JNull = Some None"
| "as_continuation (JStr s) = map_option Some (continuation_of_text s)"
| "as_continuation _ = None"

definition parse_attempt_recovery ::
  "members \<Rightarrow> (string option \<times> continuation option \<times> string option \<times> int option \<times> string option
     \<times> string option \<times> int \<times> string option \<times> string option) option" where
  "parse_attempt_recovery p =
     (case (as_opt_str (jget p ''recovery_deadline''), as_continuation (jget p ''continuation''),
            as_opt_str (jget p ''owner_boot_id''), as_opt_int (jget p ''owner_pid''),
            as_opt_str (jget p ''owner_start_ticks''), as_opt_str (jget p ''next_attempt_at''),
            as_int (jget p ''total_dispatch_cap''), as_opt_str (jget p ''response_class''),
            as_opt_str (jget p ''stop_reason'')) of
        (Some rd, Some c, Some ob, Some op, Some os, Some na, Some cap, Some rc, Some sr) \<Rightarrow>
          Some (rd, c, ob, op, os, na, cap, rc, sr)
      | _ \<Rightarrow> None)"

definition parse_rotation_attempt :: "members \<Rightarrow> rotation_attempt option" where
  "parse_rotation_attempt p =
     (case (parse_attempt_counts p, parse_attempt_recovery p) of
        (Some (rid, kind, d, s, v, a), Some (rd, c, ob, op, os, na, cap, rc, sr)) \<Rightarrow>
          (let attempt = \<lparr>rotation_id = rid, attempt_kind = kind, dispatch_count = d,
                 safe_retry_count = s, validation_retry_count = v, ambiguity_replay_count = a,
                 recovery_deadline = rd, continuation = c, owner_boot_id = ob, owner_pid = op,
                 owner_start_ticks = os, next_attempt_at = na, total_dispatch_cap = cap,
                 response_class = rc, stop_reason = sr\<rparr>
           in if rotation_attempt_is_valid attempt then Some attempt else None)
      | _ \<Rightarrow> None)"

end
