(* ===== verification/Auth_Journal.thy ===== *)
theory Auth_Journal
  imports Auth_Store_Data
begin

section \<open>Refresh journal and outcome outbox documents (auth\_session/store.py)\<close>

text \<open>
  The v3 journal and its conservative v2 reader, the outbox, and their serializers.  The main
  results: what the serializer writes is read back (for attempts the reader admits), what the
  reader admits carries a budget within the caps, and the two shapes of written journal that
  the reader refuses.
\<close>

subsection \<open>Validation\<close>

definition valid_recovery_window :: "string option \<Rightarrow> string option \<Rightarrow> bool" where
  "valid_recovery_window not_before deadline = (case (not_before, deadline) of
       (Some n, Some d) \<Rightarrow>
         (case (Option.bind (from_isoformat n) instant_of, Option.bind (from_isoformat d) instant_of) of
            (Some n', Some d') \<Rightarrow> n' \<le> d'
          | _ \<Rightarrow> False)
     | _ \<Rightarrow> False)"

fun is_scheduled :: "continuation option \<Rightarrow> bool" where
  "is_scheduled (Some (Continue _)) = True"
| "is_scheduled _ = False"

text \<open>The checks in order; the first that fails names the error.\<close>

definition attempt_state_error :: "json \<Rightarrow> rotation_attempt \<Rightarrow> string option result" where
  "attempt_state_error raw_state a =
     (let owner_present = (owner_boot_id a \<noteq> None); scheduled = is_scheduled (continuation a)
      in bindR (if owner_present then json_in raw_state [''RESERVED'', ''REQUESTED''] else Inr True)
           (\<lambda>owner_allowed.
         if owner_present \<and> \<not> owner_allowed
         then Inr (Some ''terminal journal cannot retain a dispatch owner'')
         else if scheduled \<and> (raw_state \<noteq> JStr ''OUTCOME_UNKNOWN'' \<or> next_attempt_at a = None
                \<or> recovery_deadline a = None \<or> stop_reason a \<noteq> None)
         then Inr (Some ''scheduled recovery metadata is inconsistent'')
         else if scheduled \<and> \<not> valid_recovery_window (next_attempt_at a) (recovery_deadline a)
         then Inr (Some ''scheduled recovery timestamps are invalid'')
         else bindR (if continuation a = Some Stop
                     then json_in raw_state [''OUTCOME_UNKNOWN'', ''REJECTED''] else Inr True)
           (\<lambda>stop_allowed.
             if continuation a = Some Stop \<and> (\<not> stop_allowed \<or> next_attempt_at a \<noteq> None
                  \<or> \<not> truthy (stop_reason a) \<or> owner_present)
             then Inr (Some ''stopped recovery metadata is inconsistent'')
             else if continuation a = None \<and> (next_attempt_at a \<noteq> None \<or> stop_reason a \<noteq> None)
             then Inr (Some ''inactive recovery metadata is inconsistent'')
             else Inr None)))"

definition journal_scalar_field_error :: "members \<Rightarrow> string option" where
  "journal_scalar_field_error p =
     (if \<not> truthy (as_str (jget p ''source_revision''))
      then Some ''journal source_revision must be a non-empty string''
      else if as_opt_str (jget p ''replacement_cookie_header'') = None \<or> as_opt_str (jget p ''reason'') = None
      then Some ''journal replacement_cookie_header and reason must be strings or null''
      else if as_opt_str (jget p ''successor_revision'') = None \<or> as_opt_str (jget p ''event_key'') = None
      then Some ''journal successor_revision and event_key must be strings or null''
      else if as_bool (jget p ''outbox_enqueued'') = None
      then Some ''journal outbox_enqueued must be a boolean''
      else None)"

definition journal_field_error :: "members \<Rightarrow> rotation_attempt option \<Rightarrow> string option result" where
  "journal_field_error p attempt = (case journal_scalar_field_error p of
       Some e \<Rightarrow> Inr (Some e)
     | None \<Rightarrow>
         (case attempt of
            None \<Rightarrow> Inr (Some ''journal recovery budget is invalid'')
          | Some a \<Rightarrow> attempt_state_error (jget p ''state'') a))"

text \<open>The outcome member: a known outcome, null, or invalid (the outer \<open>None\<close>).\<close>

fun parse_journal_outcome :: "json \<Rightarrow> rotation_outcome option option" where
  "parse_journal_outcome JNull = Some None"
| "parse_journal_outcome (JStr s) = map_option Some (outcome_of_text s)"
| "parse_journal_outcome _ = None"

record journal_fields =
  field_source_revision :: string
  field_state :: json
  field_replacement :: "string option"
  field_reason :: "string option"
  field_successor :: "string option"
  field_outcome :: "rotation_outcome option"
  field_event_key :: "string option"
  field_outbox_enqueued :: bool
  field_attempt :: rotation_attempt

definition journal_fields_of :: "members \<Rightarrow> (string + journal_fields) result" where
  "journal_fields_of p =
     (let attempt = parse_rotation_attempt p in
      bindR (journal_field_error p attempt) (\<lambda>err. case err of
         Some e \<Rightarrow> Inr (Inl e)
       | None \<Rightarrow>
          (case parse_journal_outcome (jget p ''outcome'') of
             None \<Rightarrow> Inr (Inl ''journal outcome must be a known terminal outcome or null'')
           | Some outcome \<Rightarrow>
              (case (as_str (jget p ''source_revision''), as_opt_str (jget p ''replacement_cookie_header''),
                     as_opt_str (jget p ''reason''), as_opt_str (jget p ''successor_revision''),
                     as_opt_str (jget p ''event_key''), as_bool (jget p ''outbox_enqueued''), attempt) of
                 (Some src, Some rep, Some rea, Some suc, Some key, Some enq, Some a) \<Rightarrow>
                   Inr (Inr \<lparr>field_source_revision = src, field_state = jget p ''state'',
                     field_replacement = rep, field_reason = rea, field_successor = suc,
                     field_outcome = outcome, field_event_key = key, field_outbox_enqueued = enq,
                     field_attempt = a\<rparr>)
               | _ \<Rightarrow> Inl (AssertionError '''')))))"

definition keyed_state :: "rotation_state \<Rightarrow> string \<Rightarrow> rotation_state option" where
  "keyed_state s key = (case rotation_event_metadata s of
       Some (_, k) \<Rightarrow> if key = k then Some s else None
     | None \<Rightarrow> None)"

definition journal_state :: "journal_fields \<Rightarrow> rotation_state option" where
  "journal_state f =
     (let src = field_source_revision f in
      if field_state f = JStr ''RESERVED'' \<and> field_replacement f = None \<and> field_reason f = None
         \<and> field_successor f = None \<and> field_outcome f = None \<and> field_event_key f = None
         \<and> \<not> field_outbox_enqueued f
      then Some (Reserved src)
      else if field_state f = JStr ''REQUESTED'' \<and> field_replacement f = None \<and> field_reason f = None
         \<and> field_successor f = None \<and> field_outcome f = None \<and> field_event_key f = None
         \<and> \<not> field_outbox_enqueued f
      then Some (Requested src)
      else (case (field_state f, field_replacement f, field_reason f, field_successor f,
                  field_outcome f, field_event_key f) of
          (JStr name, Some cookie, None, Some suc, Some RotatedOutcome, Some key) \<Rightarrow>
            if name = ''ROTATED'' then keyed_state (Rotated src cookie suc) key else None
        | (JStr name, None, Some reason, None, Some RejectedOutcome, Some key) \<Rightarrow>
            if name = ''REJECTED'' then keyed_state (Rejected src reason) key else None
        | (JStr name, None, Some reason, None, Some UnknownOutcome, Some key) \<Rightarrow>
            if name = ''OUTCOME_UNKNOWN'' then keyed_state (OutcomeUnknown src reason) key else None
        | _ \<Rightarrow> None))"

subsection \<open>The previous journal schema\<close>

definition parse_v2_state :: "members \<Rightarrow> string \<Rightarrow> json \<Rightarrow> string + rotation_state" where
  "parse_v2_state p src raw_state = (case raw_state of
       JStr name \<Rightarrow>
         if name = ''RESERVED'' then Inr (Reserved src)
         else if name = ''REQUESTED''
         then Inr (OutcomeUnknown src ''v2 in-flight refresh outcome is unknown'')
         else if name = ''ROTATED'' then
           (case (jget p ''replacement_cookie_header'', jget p ''successor_revision'') of
              (JStr rep, JStr suc) \<Rightarrow> Inr (Rotated src rep suc)
            | _ \<Rightarrow> Inl ''v2 rotated journal is incomplete'')
         else if name = ''REJECTED'' \<or> name = ''OUTCOME_UNKNOWN'' then
           (case jget p ''reason'' of
              JStr reason \<Rightarrow>
                if name = ''REJECTED'' then Inr (Rejected src reason) else Inr (OutcomeUnknown src reason)
            | _ \<Rightarrow> Inl ''v2 terminal journal is incomplete'')
         else Inl ''v2 journal state is unsupported''
     | _ \<Rightarrow> Inl ''v2 journal state is unsupported'')"

text \<open>The budget a migrated journal gets: nothing more is dispatched for it.\<close>

definition v2_attempt :: "string \<Rightarrow> bool \<Rightarrow> bool \<Rightarrow> rotation_attempt" where
  "v2_attempt src requested stopped = (new_attempt src NormalAttempt (if requested then 1 else 0))
     \<lparr>total_dispatch_cap := (if requested then 1 else 6),
      continuation := (if stopped then Some Stop else None),
      stop_reason := (if stopped then Some ''v2-active-ambiguity'' else None)\<rparr>"

definition parse_v2_journal :: "members \<Rightarrow> journal_load_result result" where
  "parse_v2_journal p =
     (let raw_state = jget p ''state''; enqueued = jget_default p ''outbox_enqueued'' (JBool False) in
      case as_str (jget p ''source_revision'') of
        None \<Rightarrow> Inr (JournalCorrupt ''v2 journal source_revision must be a non-empty string'')
      | Some src \<Rightarrow>
          if src = [] then Inr (JournalCorrupt ''v2 journal source_revision must be a non-empty string'')
          else (case as_bool enqueued of
              None \<Rightarrow> Inr (JournalCorrupt ''v2 journal outbox_enqueued must be a boolean'')
            | Some enq \<Rightarrow>
               bindR (json_in raw_state [''RESERVED'', ''REQUESTED'']) (\<lambda>active.
                 if active \<and> list_ex (\<lambda>field. jget p field \<noteq> JNull)
                      [''replacement_cookie_header'', ''reason'', ''successor_revision'', ''outcome'', ''event_key'']
                 then Inr (JournalCorrupt ''v2 active journal contains terminal fields'')
                 else bindR (json_in raw_state [''REQUESTED'', ''OUTCOME_UNKNOWN'']) (\<lambda>stopped.
                   let requested = (raw_state = JStr ''REQUESTED'');
                       attempt = v2_attempt src requested stopped
                   in (case parse_v2_state p src raw_state of
                         Inl e \<Rightarrow> Inr (JournalCorrupt e)
                       | Inr s \<Rightarrow> Inr (JournalLoaded s enq (Some attempt) (Some 2)))))))"

definition parse_journal :: "json \<Rightarrow> journal_load_result result" where
  "parse_journal loaded = (case as_obj loaded of
       None \<Rightarrow> Inr (JournalCorrupt ''journal payload must be an object'')
     | Some p \<Rightarrow>
         if json_eq_int (jget p ''version'') PREVIOUS_JOURNAL_SCHEMA_VERSION then parse_v2_journal p
         else if \<not> json_eq_int (jget p ''version'') JOURNAL_SCHEMA_VERSION
         then Inr (JournalCorrupt ''journal version must be 2 or 3'')
         else bindR (journal_fields_of p) (\<lambda>fields. case fields of
             Inl e \<Rightarrow> Inr (JournalCorrupt e)
           | Inr f \<Rightarrow>
               (case journal_state f of
                  Some s \<Rightarrow> Inr (JournalLoaded s (field_outbox_enqueued f) (Some (field_attempt f)) None)
                | None \<Rightarrow> Inr (JournalCorrupt ''journal state payload is inconsistent''))))"

subsection \<open>Serialization\<close>

definition initial_rotation_attempt :: "rotation_state \<Rightarrow> rotation_attempt result" where
  "initial_rotation_attempt s = (case s of
       Ready _ \<Rightarrow> Inl (TypeError ''READY is implicit and cannot be persisted in a rotation journal'')
     | Rejected src _ \<Rightarrow> Inr ((new_attempt src NormalAttempt 0)
         \<lparr>continuation := Some Stop, stop_reason := Some ''terminal-state''\<rparr>)
     | OutcomeUnknown src _ \<Rightarrow> Inr ((new_attempt src NormalAttempt 0)
         \<lparr>continuation := Some Stop, stop_reason := Some ''terminal-state''\<rparr>)
     | Reserved src \<Rightarrow> Inr (new_attempt src NormalAttempt 0)
     | Requested src \<Rightarrow> Inr (new_attempt src NormalAttempt 0)
     | Rotated src _ _ \<Rightarrow> Inr (new_attempt src NormalAttempt 0))"

fun journal_state_name :: "rotation_state \<Rightarrow> string" where
  "journal_state_name (Ready _) = ''READY''"
| "journal_state_name (Reserved _) = ''RESERVED''"
| "journal_state_name (Requested _) = ''REQUESTED''"
| "journal_state_name (Rotated _ _ _) = ''ROTATED''"
| "journal_state_name (Rejected _ _) = ''REJECTED''"
| "journal_state_name (OutcomeUnknown _ _) = ''OUTCOME_UNKNOWN''"

fun state_replacement :: "rotation_state \<Rightarrow> string option" where
  "state_replacement (Rotated _ c _) = Some c"
| "state_replacement _ = None"

fun state_reason :: "rotation_state \<Rightarrow> string option" where
  "state_reason (Rejected _ m) = Some m"
| "state_reason (OutcomeUnknown _ m) = Some m"
| "state_reason _ = None"

fun state_successor :: "rotation_state \<Rightarrow> string option" where
  "state_successor (Rotated _ _ u) = Some u"
| "state_successor _ = None"

definition opt_continuation_json :: "continuation option \<Rightarrow> json" where
  "opt_continuation_json c = opt_json (map_option continuation_text c)"

definition journal_payload_base :: "rotation_state \<Rightarrow> bool \<Rightarrow> rotation_attempt \<Rightarrow> members" where
  "journal_payload_base s enqueued a =
     [(''version'', JInt JOURNAL_SCHEMA_VERSION),
      (''source_revision'', JStr (source_revision s)),
      (''state'', JStr (journal_state_name s)),
      (''replacement_cookie_header'', opt_json (state_replacement s)),
      (''reason'', opt_json (state_reason s)),
      (''successor_revision'', opt_json (state_successor s)),
      (''outcome'', opt_json (map_option (\<lambda>m. outcome_text (fst m)) (rotation_event_metadata s))),
      (''event_key'', opt_json (map_option snd (rotation_event_metadata s))),
      (''outbox_enqueued'', JBool (is_terminal_state s \<and> enqueued)),
      (''rotation_id'', JStr (rotation_id a)),
      (''attempt_kind'', JStr (kind_text (attempt_kind a))),
      (''dispatch_count'', JInt (dispatch_count a)),
      (''safe_retry_count'', JInt (safe_retry_count a)),
      (''validation_retry_count'', JInt (validation_retry_count a)),
      (''ambiguity_replay_count'', JInt (ambiguity_replay_count a)),
      (''recovery_deadline'', opt_json (recovery_deadline a)),
      (''continuation'', opt_continuation_json (continuation a)),
      (''owner_boot_id'', opt_json (owner_boot_id a)),
      (''owner_pid'', opt_int_json (owner_pid a)),
      (''owner_start_ticks'', opt_json (owner_start_ticks a)),
      (''next_attempt_at'', opt_json (next_attempt_at a)),
      (''total_dispatch_cap'', JInt (total_dispatch_cap a)),
      (''response_class'', opt_json (response_class a)),
      (''stop_reason'', opt_json (stop_reason a))]"

definition journal_payload :: "rotation_state \<Rightarrow> bool \<Rightarrow> rotation_attempt option \<Rightarrow> json result" where
  "journal_payload s enqueued attempt =
     bindR (case attempt of Some a \<Rightarrow> Inr a | None \<Rightarrow> initial_rotation_attempt s) (\<lambda>a.
       case s of
         Ready _ \<Rightarrow> Inl (TypeError ''READY is implicit and cannot be persisted in a rotation journal'')
       | _ \<Rightarrow> Inr (JObj (journal_payload_base s enqueued a)))"

subsection \<open>The outbox\<close>

definition parse_outbox_record :: "json \<Rightarrow> outbox_record option result" where
  "parse_outbox_record raw = (case as_obj raw of
       None \<Rightarrow> Inr None
     | Some p \<Rightarrow>
         (case as_str (jget p ''event_key'') of
            None \<Rightarrow> Inr None
          | Some key \<Rightarrow>
              if key = [] then Inr None
              else bindR (json_in (jget p ''outcome'') [''rotated'', ''rejected'', ''outcome_unknown''])
                (\<lambda>known. if \<not> known then Inr None
                  else (case Option.bind (as_str (jget p ''outcome'')) outcome_of_text of
                     None \<Rightarrow> Inr None
                   | Some outcome \<Rightarrow>
                       if starts_with key ''auth-rotation:'' \<and> ends_with key ('':'' @ outcome_text outcome)
                       then Inr (Some \<lparr>record_outcome = outcome, record_key = key\<rparr>) else Inr None))))"

fun parse_outbox_records :: "json list \<Rightarrow> outbox_record list \<Rightarrow> outbox_load_result result" where
  "parse_outbox_records [] acc = Inr (OutboxLoaded acc)"
| "parse_outbox_records (raw # raws) acc = bindR (parse_outbox_record raw) (\<lambda>r. case r of
       None \<Rightarrow> Inr (OutboxCorrupt ''outbox records must contain valid unique outcome event keys'')
     | Some rec' \<Rightarrow>
         if record_key rec' \<in> record_key ` set acc
         then Inr (OutboxCorrupt ''outbox event keys must be unique'')
         else parse_outbox_records raws (acc @ [rec']))"

definition parse_outbox :: "json \<Rightarrow> outbox_load_result result" where
  "parse_outbox loaded = (case as_obj loaded of
       None \<Rightarrow> Inr (OutboxCorrupt ''outbox version must be 2'')
     | Some p \<Rightarrow>
         if \<not> json_eq_int (jget p ''version'') AUTH_SCHEMA_VERSION
         then Inr (OutboxCorrupt ''outbox version must be 2'')
         else (case as_list (jget p ''records'') of
             None \<Rightarrow> Inr (OutboxCorrupt ''outbox records must be a list'')
           | Some raws \<Rightarrow> parse_outbox_records raws []))"

definition outbox_payload :: "outbox_record list \<Rightarrow> json" where
  "outbox_payload records = JObj
     [(''version'', JInt AUTH_SCHEMA_VERSION),
      (''records'', JList (map (\<lambda>r. JObj [(''outcome'', JStr (outcome_text (record_outcome r))),
                                           (''event_key'', JStr (record_key r))]) records))]"

fun outbox_records_or_raise :: "outbox_load_result \<Rightarrow> outbox_record list result" where
  "outbox_records_or_raise OutboxAbsent = Inr []"
| "outbox_records_or_raise (OutboxLoaded records) = Inr records"
| "outbox_records_or_raise (OutboxCorrupt detail) = Inl (OSError (''outcome outbox is corrupt: '' @ detail))"
| "outbox_records_or_raise (OutboxIoFailure operation err) = Inl (OSError (operation @ '' failed: '' @ err))"


subsection \<open>What the serializer writes is read back\<close>

lemma jget_journal_payload:
  "jget (journal_payload_base s e a) ''version'' = JInt JOURNAL_SCHEMA_VERSION"
  "jget (journal_payload_base s e a) ''source_revision'' = JStr (source_revision s)"
  "jget (journal_payload_base s e a) ''state'' = JStr (journal_state_name s)"
  "jget (journal_payload_base s e a) ''replacement_cookie_header'' = opt_json (state_replacement s)"
  "jget (journal_payload_base s e a) ''reason'' = opt_json (state_reason s)"
  "jget (journal_payload_base s e a) ''successor_revision'' = opt_json (state_successor s)"
  "jget (journal_payload_base s e a) ''outcome'' =
     opt_json (map_option (\<lambda>m. outcome_text (fst m)) (rotation_event_metadata s))"
  "jget (journal_payload_base s e a) ''event_key'' = opt_json (map_option snd (rotation_event_metadata s))"
  "jget (journal_payload_base s e a) ''outbox_enqueued'' = JBool (is_terminal_state s \<and> e)"
  by (simp_all add: jget_def journal_payload_base_def)

lemma jget_attempt_payload:
  "jget (journal_payload_base s e a) ''rotation_id'' = JStr (rotation_id a)"
  "jget (journal_payload_base s e a) ''attempt_kind'' = JStr (kind_text (attempt_kind a))"
  "jget (journal_payload_base s e a) ''dispatch_count'' = JInt (dispatch_count a)"
  "jget (journal_payload_base s e a) ''safe_retry_count'' = JInt (safe_retry_count a)"
  "jget (journal_payload_base s e a) ''validation_retry_count'' = JInt (validation_retry_count a)"
  "jget (journal_payload_base s e a) ''ambiguity_replay_count'' = JInt (ambiguity_replay_count a)"
  "jget (journal_payload_base s e a) ''recovery_deadline'' = opt_json (recovery_deadline a)"
  "jget (journal_payload_base s e a) ''continuation'' = opt_continuation_json (continuation a)"
  "jget (journal_payload_base s e a) ''owner_boot_id'' = opt_json (owner_boot_id a)"
  "jget (journal_payload_base s e a) ''owner_pid'' = opt_int_json (owner_pid a)"
  "jget (journal_payload_base s e a) ''owner_start_ticks'' = opt_json (owner_start_ticks a)"
  "jget (journal_payload_base s e a) ''next_attempt_at'' = opt_json (next_attempt_at a)"
  "jget (journal_payload_base s e a) ''total_dispatch_cap'' = JInt (total_dispatch_cap a)"
  "jget (journal_payload_base s e a) ''response_class'' = opt_json (response_class a)"
  "jget (journal_payload_base s e a) ''stop_reason'' = opt_json (stop_reason a)"
  by (simp_all add: jget_def journal_payload_base_def)

lemma as_continuation_opt [simp]: "as_continuation (opt_continuation_json c) = Some c"
  by (cases c) (simp_all add: opt_continuation_json_def)

lemma parse_rotation_attempt_payload:
  "parse_rotation_attempt (journal_payload_base s e a) =
     (if rotation_attempt_is_valid a then Some a else None)"
  by (cases a) (simp add: parse_rotation_attempt_def parse_attempt_counts_def
      parse_attempt_recovery_def jget_attempt_payload Let_def)

lemma parse_journal_outcome_payload:
  "parse_journal_outcome (opt_json (map_option (\<lambda>m. outcome_text (fst m)) m)) = Some (map_option fst m)"
  by (cases m) auto

lemma journal_scalar_payload:
  "source_revision s \<noteq> [] \<Longrightarrow> journal_scalar_field_error (journal_payload_base s e a) = None"
  by (simp add: journal_scalar_field_error_def jget_journal_payload)

text \<open>The reader on a written document: the budget and its consistency decide.\<close>

lemma parse_journal_written:
  assumes "source_revision s \<noteq> []"
  shows "parse_journal (JObj (journal_payload_base s e a)) =
    (if \<not> rotation_attempt_is_valid a then Inr (JournalCorrupt ''journal recovery budget is invalid'')
     else bindR (attempt_state_error (JStr (journal_state_name s)) a) (\<lambda>err. case err of
        Some m \<Rightarrow> Inr (JournalCorrupt m)
      | None \<Rightarrow> (case s of
            Ready _ \<Rightarrow> Inr (JournalCorrupt ''journal state payload is inconsistent'')
          | _ \<Rightarrow> Inr (JournalLoaded s (is_terminal_state s \<and> e) (Some a) None))))"
proof -
  have version: "json_eq_int (jget (journal_payload_base s e a) ''version'') PREVIOUS_JOURNAL_SCHEMA_VERSION = False"
    "json_eq_int (jget (journal_payload_base s e a) ''version'') JOURNAL_SCHEMA_VERSION"
    by (simp_all add: jget_journal_payload JOURNAL_SCHEMA_VERSION_def PREVIOUS_JOURNAL_SCHEMA_VERSION_def)
  have fields: "journal_fields_of (journal_payload_base s e a) =
    (if \<not> rotation_attempt_is_valid a then Inr (Inl ''journal recovery budget is invalid'')
     else bindR (attempt_state_error (JStr (journal_state_name s)) a) (\<lambda>err. case err of
        Some m \<Rightarrow> Inr (Inl m)
      | None \<Rightarrow> Inr (Inr \<lparr>field_source_revision = source_revision s,
          field_state = JStr (journal_state_name s), field_replacement = state_replacement s,
          field_reason = state_reason s, field_successor = state_successor s,
          field_outcome = map_option fst (rotation_event_metadata s),
          field_event_key = map_option snd (rotation_event_metadata s),
          field_outbox_enqueued = (is_terminal_state s \<and> e), field_attempt = a\<rparr>)))"
    using assms
    by (auto simp: journal_fields_of_def journal_field_error_def journal_scalar_payload
        parse_rotation_attempt_payload jget_journal_payload parse_journal_outcome_payload
        bindR_def split: sum.splits option.splits)
  show ?thesis
    unfolding parse_journal_def
    using version fields
    by (cases s) (auto simp: bindR_def journal_state_def keyed_state_def split: sum.splits option.splits)
qed

lemma journal_payload_persistable:
  "\<forall>r. s \<noteq> Ready r \<Longrightarrow> journal_payload s e (Some a) = Inr (JObj (journal_payload_base s e a))"
  by (cases s) (auto simp: journal_payload_def)

text \<open>An attempt whose document the reader admits in a given state.\<close>

definition readable_attempt :: "rotation_state \<Rightarrow> rotation_attempt \<Rightarrow> bool" where
  "readable_attempt s a \<longleftrightarrow> (\<forall>r. s \<noteq> Ready r) \<and> source_revision s \<noteq> [] \<and> rotation_attempt_is_valid a
     \<and> attempt_state_error (JStr (journal_state_name s)) a = Inr None"

lemma parse_journal_readable:
  assumes "readable_attempt s a"
  shows "parse_journal (JObj (journal_payload_base s e a)) =
    Inr (JournalLoaded s (is_terminal_state s \<and> e) (Some a) None)"
  using assms parse_journal_written [of s e a]
  by (auto simp: readable_attempt_def split: rotation_state.splits)

text \<open>Conversely, only readable attempts survive a write and a read.\<close>

lemma parse_journal_loaded_iff:
  assumes "source_revision s \<noteq> []"
  shows "(\<exists>q. parse_journal (JObj (journal_payload_base s e a)) = Inr (JournalLoaded s q (Some a) None))
    \<longleftrightarrow> readable_attempt s a"
  using assms parse_journal_written [OF assms, of e a]
  by (auto simp: readable_attempt_def bindR_def split: sum.splits option.splits rotation_state.splits if_splits)

subsection \<open>What the reader admits\<close>

lemma parse_rotation_attempt_valid: "parse_rotation_attempt p = Some a \<Longrightarrow> rotation_attempt_is_valid a"
  by (auto simp: parse_rotation_attempt_def Let_def split: option.splits prod.splits if_splits)

lemma valid_attempt_bounds:
  assumes "rotation_attempt_is_valid a"
  shows "0 \<le> dispatch_count a \<and> dispatch_count a \<le> 6 \<and> total_dispatch_cap a = 6
    \<and> safe_retry_count a \<le> 4 \<and> validation_retry_count a \<le> 1 \<and> ambiguity_replay_count a \<le> 1
    \<and> 0 \<le> safe_retry_count a \<and> 0 \<le> validation_retry_count a \<and> 0 \<le> ambiguity_replay_count a"
  using assms by (auto simp: rotation_attempt_is_valid_def Let_def policy_defs)

lemma journal_fields_attempt:
  assumes "journal_fields_of p = Inr (Inr f)"
  shows "parse_rotation_attempt p = Some (field_attempt f)
    \<and> attempt_state_error (field_state f) (field_attempt f) = Inr None
    \<and> field_source_revision f \<noteq> []"
  using assms
  by (auto simp: journal_fields_of_def journal_field_error_def journal_scalar_field_error_def Let_def
      result_simps split: option.splits if_splits prod.splits)

lemma keyed_state_Some: "keyed_state s key = Some t \<Longrightarrow> t = s"
  by (auto simp: keyed_state_def split: option.splits if_splits prod.splits)

lemma journal_state_Some:
  assumes "journal_state f = Some s"
  shows "source_revision s = field_source_revision f \<and> (\<forall>r. s \<noteq> Ready r)
    \<and> field_state f = JStr (journal_state_name s)"
  using assms
  by (auto simp: journal_state_def Let_def dest!: keyed_state_Some
      split: if_splits json.splits option.splits rotation_outcome.splits)

text \<open>What a migrated journal carries: no further dispatch.\<close>

lemma parse_v2_loaded:
  assumes "parse_v2_journal p = Inr (JournalLoaded s e att v)"
  shows "\<exists>a. att = Some a \<and> dispatch_count a \<in> {0, 1} \<and> \<not> is_scheduled (continuation a) \<and> v = Some 2
    \<and> source_revision s \<noteq> [] \<and> (\<forall>r. s \<noteq> Ready r) \<and> (\<forall>r. s \<noteq> Requested r)"
proof -
  let ?raw = "jget p ''state''"
  note v2 = assms [unfolded parse_v2_journal_def Let_def]
  from v2 obtain src where src: "as_str (jget p ''source_revision'') = Some src" "src \<noteq> []"
    by (auto split: option.splits if_splits)
  from v2 src obtain enq where enq: "as_bool (jget_default p ''outbox_enqueued'' (JBool False)) = Some enq"
    by (cases "as_bool (jget_default p ''outbox_enqueued'' (JBool False))") simp_all
  from v2 src enq obtain active where active: "json_in ?raw [''RESERVED'', ''REQUESTED''] = Inr active"
    by (cases "json_in ?raw [''RESERVED'', ''REQUESTED'']") simp_all
  from v2 src enq active obtain stopped where stopped: "json_in ?raw [''REQUESTED'', ''OUTCOME_UNKNOWN''] = Inr stopped"
    by (cases "json_in ?raw [''REQUESTED'', ''OUTCOME_UNKNOWN'']") (simp_all split: if_splits)
  from v2 src enq active stopped have "parse_v2_state p src ?raw = Inr s \<and> v = Some 2
      \<and> att = Some (v2_attempt src (?raw = JStr ''REQUESTED'') stopped)"
    by (cases "parse_v2_state p src ?raw") (simp_all split: if_splits)
  moreover have "source_revision s = src \<and> (\<forall>r. s \<noteq> Ready r) \<and> (\<forall>r. s \<noteq> Requested r)"
    if "parse_v2_state p src ?raw = Inr s"
    using that by (auto simp: parse_v2_state_def split: json.splits if_splits)
  ultimately show ?thesis using src by (auto simp: v2_attempt_def new_attempt_def)
qed

text \<open>A v3 journal that loads was read field by field.\<close>

lemma parse_v3_loaded:
  assumes "parse_journal (JObj p) = Inr (JournalLoaded s e att v)"
    and "\<not> json_eq_int (jget p ''version'') PREVIOUS_JOURNAL_SCHEMA_VERSION"
  obtains f where "journal_fields_of p = Inr (Inr f)" "journal_state f = Some s"
    "att = Some (field_attempt f)" "v = None"
proof -
  have "bindR (journal_fields_of p) (\<lambda>fields. case fields of
      Inl e \<Rightarrow> Inr (JournalCorrupt e)
    | Inr f \<Rightarrow> (case journal_state f of
          Some s \<Rightarrow> Inr (JournalLoaded s (field_outbox_enqueued f) (Some (field_attempt f)) None)
        | None \<Rightarrow> Inr (JournalCorrupt ''journal state payload is inconsistent'')))
    = Inr (JournalLoaded s e att v)"
    using assms by (auto simp: parse_journal_def split: if_splits)
  then obtain x where "journal_fields_of p = Inr x" and "(case x of
      Inl e \<Rightarrow> Inr (JournalCorrupt e)
    | Inr f \<Rightarrow> (case journal_state f of
          Some s \<Rightarrow> Inr (JournalLoaded s (field_outbox_enqueued f) (Some (field_attempt f)) None)
        | None \<Rightarrow> Inr (JournalCorrupt ''journal state payload is inconsistent'')))
    = (Inr (JournalLoaded s e att v) :: journal_load_result result)"
    unfolding bindR_eq_Inr by blast
  then show ?thesis
    by (cases x) (auto intro: that split: option.splits)
qed

text \<open>A v3 document the reader admits carries a readable attempt.\<close>

lemma parse_journal_admits:
  assumes "parse_journal d = Inr (JournalLoaded s enq (Some a) None)"
  shows "readable_attempt s a"
proof -
  obtain p where d: "d = JObj p" using assms by (auto simp: parse_journal_def split: option.splits)
  have "\<not> json_eq_int (jget p ''version'') PREVIOUS_JOURNAL_SCHEMA_VERSION"
    using assms parse_v2_loaded [of p s enq "Some a" None] by (auto simp: parse_journal_def d)
  from parse_v3_loaded [OF assms [unfolded d] this] obtain f where f: "journal_fields_of p = Inr (Inr f)"
    and st: "journal_state f = Some s" and a: "a = field_attempt f"
    by auto
  show ?thesis
    using journal_fields_attempt [OF f] journal_state_Some [OF st] parse_rotation_attempt_valid a
    by (auto simp: readable_attempt_def)
qed

subsection \<open>Outbox documents\<close>

definition record_wf :: "outbox_record \<Rightarrow> bool" where
  "record_wf r \<longleftrightarrow> starts_with (record_key r) ''auth-rotation:''
     \<and> ends_with (record_key r) ('':'' @ outcome_text (record_outcome r))"

definition outbox_wf :: "outbox_record list \<Rightarrow> bool" where
  "outbox_wf rs \<longleftrightarrow> list_all record_wf rs \<and> distinct (map record_key rs)"

lemma record_wf_key: "record_wf \<lparr>record_outcome = out, record_key = rotation_event_key src out\<rparr>"
proof -
  have "rotation_event_key src out = (''auth-rotation:'' @ src) @ '':'' @ outcome_text out"
    by (simp add: rotation_event_key_def)
  then show ?thesis unfolding record_wf_def
    by (simp add: ends_with_iff starts_with_iff del: append_assoc)
qed

lemma record_wf_nonempty: "record_wf r \<Longrightarrow> record_key r \<noteq> []"
  by (auto simp: record_wf_def)

lemma parse_outbox_record_written:
  "record_wf r \<Longrightarrow> parse_outbox_record (JObj [(''outcome'', JStr (outcome_text (record_outcome r))),
     (''event_key'', JStr (record_key r))]) = Inr (Some r)"
  using record_wf_nonempty [of r]
  by (cases "record_outcome r") (auto simp: parse_outbox_record_def jget_def record_wf_def outcome_of_text_def)

lemma parse_outbox_records_written:
  "list_all record_wf rs \<Longrightarrow> distinct (map record_key (acc @ rs)) \<Longrightarrow>
   parse_outbox_records (map (\<lambda>r. JObj [(''outcome'', JStr (outcome_text (record_outcome r))),
     (''event_key'', JStr (record_key r))]) rs) acc = Inr (OutboxLoaded (acc @ rs))"
proof (induction rs arbitrary: acc)
  case Nil
  then show ?case by simp
next
  case (Cons r rs)
  then show ?case using Cons.IH [of "acc @ [r]"]
    by (auto simp: parse_outbox_record_written)
qed

lemma parse_outbox_written: "outbox_wf rs \<Longrightarrow> parse_outbox (outbox_payload rs) = Inr (OutboxLoaded rs)"
  using parse_outbox_records_written [of rs "[]"]
  by (simp add: outbox_wf_def parse_outbox_def outbox_payload_def jget_def AUTH_SCHEMA_VERSION_def)

lemma parse_outbox_record_wf: "parse_outbox_record raw = Inr (Some r) \<Longrightarrow> record_wf r"
  by (auto simp: parse_outbox_record_def record_wf_def result_simps split: option.splits if_splits)

lemma parse_outbox_records_wf:
  "parse_outbox_records raws acc = Inr (OutboxLoaded rs) \<Longrightarrow> outbox_wf acc \<Longrightarrow> outbox_wf rs"
proof (induction raws arbitrary: acc)
  case Nil
  then show ?case by simp
next
  case (Cons raw raws)
  from Cons.prems(1) obtain r where "parse_outbox_record raw = Inr (Some r)"
    "record_key r \<notin> record_key ` set acc" "parse_outbox_records raws (acc @ [r]) = Inr (OutboxLoaded rs)"
    by (auto simp: result_simps split: option.splits if_splits)
  then show ?case using Cons.IH [of "acc @ [r]"] Cons.prems(2) parse_outbox_record_wf [of raw r]
    by (auto simp: outbox_wf_def)
qed

lemma parse_outbox_admits: "parse_outbox d = Inr (OutboxLoaded rs) \<Longrightarrow> outbox_wf rs"
  using parse_outbox_records_wf [of _ "[]" rs]
  by (auto simp: parse_outbox_def outbox_wf_def split: option.splits if_splits)

end
