(* ===== verification/Effects.thy ===== *)
theory Effects
  imports Prelude
begin

section \<open>Stateful computations that may raise\<close>

text \<open>
  A computation takes the state and returns a value or an exception together with the state
  it leaves behind: an exception does not undo the effects before it.  The components
  instantiate \<open>'s\<close> with the record of the files, clocks and logs they work on.
\<close>

type_synonym ('s, 'a) io = "'s \<Rightarrow> 'a result \<times> 's"

named_theorems io_simps "running the combinators"

definition retM :: "'a \<Rightarrow> ('s, 'a) io" where
  "retM x s = (Inr x, s)"

definition throwM :: "exn \<Rightarrow> ('s, 'a) io" where
  "throwM e s = (Inl e, s)"

definition bindM :: "('s, 'a) io \<Rightarrow> ('a \<Rightarrow> ('s, 'b) io) \<Rightarrow> ('s, 'b) io" where
  "bindM m f s = (case m s of (Inl e, s') \<Rightarrow> (Inl e, s') | (Inr x, s') \<Rightarrow> f x s')"

definition thenM :: "('s, 'a) io \<Rightarrow> ('s, 'b) io \<Rightarrow> ('s, 'b) io" where
  "thenM m k = bindM m (\<lambda>_. k)"

text \<open>\<open>try: m except p as e: h(e)\<close>.\<close>

definition handleM :: "('s, 'a) io \<Rightarrow> (exn \<Rightarrow> bool) \<Rightarrow> (exn \<Rightarrow> ('s, 'a) io) \<Rightarrow> ('s, 'a) io" where
  "handleM m p h s = (case m s of
       (Inl e, s') \<Rightarrow> if p e then h e s' else (Inl e, s')
     | (Inr x, s') \<Rightarrow> (Inr x, s'))"

text \<open>\<open>try: m finally: k\<close>: an exception of \<open>k\<close> replaces the outcome of \<open>m\<close>.\<close>

definition finallyM :: "('s, 'a) io \<Rightarrow> ('s, unit) io \<Rightarrow> ('s, 'a) io" where
  "finallyM m k s = (case m s of (r, s') \<Rightarrow>
     (case k s' of (Inl e, s'') \<Rightarrow> (Inl e, s'') | (Inr _, s'') \<Rightarrow> (r, s'')))"

definition getM :: "('s \<Rightarrow> 'a) \<Rightarrow> ('s, 'a) io" where
  "getM f s = (Inr (f s), s)"

definition putM :: "('s \<Rightarrow> 's) \<Rightarrow> ('s, unit) io" where
  "putM f s = (Inr (), f s)"

definition liftM :: "'a result \<Rightarrow> ('s, 'a) io" where
  "liftM r s = (r, s)"

fun forM :: "('a \<Rightarrow> ('s, unit) io) \<Rightarrow> 'a list \<Rightarrow> ('s, unit) io" where
  "forM f [] = retM ()"
| "forM f (x # xs) = thenM (f x) (forM f xs)"

fun mapM :: "('a \<Rightarrow> ('s, 'b) io) \<Rightarrow> 'a list \<Rightarrow> ('s, 'b list) io" where
  "mapM f [] = retM []"
| "mapM f (x # xs) = bindM (f x) (\<lambda>y. bindM (mapM f xs) (\<lambda>ys. retM (y # ys)))"

lemma io_run [io_simps]:
  "retM x s = (Inr x, s)"
  "throwM e s = (Inl e, s)"
  "getM f s = (Inr (f s), s)"
  "putM g s = (Inr (), g s)"
  "liftM r s = (r, s)"
  by (simp_all add: retM_def throwM_def getM_def putM_def liftM_def)

lemma bindM_run [io_simps]:
  "m s = (Inr x, s') \<Longrightarrow> bindM m f s = f x s'"
  "m s = (Inl e, s') \<Longrightarrow> bindM m f s = (Inl e, s')"
  by (simp_all add: bindM_def)

lemma thenM_run [io_simps]: "thenM m k s = bindM m (\<lambda>_. k) s"
  by (simp add: thenM_def)

lemma bindM_liftM [simp]:
  "bindM (liftM (Inr x)) f = f x"
  "bindM (liftM (Inl e)) f = throwM e"
  by (simp_all add: bindM_def liftM_def throwM_def fun_eq_iff)

text \<open>Inversion: how a composed computation can have ended.\<close>

lemma bindM_InrE:
  assumes "bindM m f s = (Inr y, t)"
  obtains x s' where "m s = (Inr x, s')" and "f x s' = (Inr y, t)"
  using assms by (auto simp: bindM_def split: prod.splits sum.splits)

lemma bindM_E:
  assumes "bindM m f s = (r, t)"
  obtains (raised) e where "m s = (Inl e, t)" and "r = Inl e"
  | (continued) x s' where "m s = (Inr x, s')" and "f x s' = (r, t)"
  using assms by (auto simp: bindM_def split: prod.splits sum.splits)

lemma thenM_E:
  assumes "thenM m k s = (r, t)"
  obtains (raised) e where "m s = (Inl e, t)" and "r = Inl e"
  | (continued) x s' where "m s = (Inr x, s')" and "k s' = (r, t)"
  using assms by (auto simp: thenM_def elim: bindM_E)

text \<open>
  A relation between the states before and after that holds of every step of a computation
  holds of the computation: the frame and monotonicity lemmas of the components.
\<close>

definition keeps :: "('s \<Rightarrow> 's \<Rightarrow> bool) \<Rightarrow> ('s, 'a) io \<Rightarrow> bool" where
  "keeps R m \<longleftrightarrow> (\<forall>s. R s (snd (m s)))"

definition preorder_rel :: "('s \<Rightarrow> 's \<Rightarrow> bool) \<Rightarrow> bool" where
  "preorder_rel R \<longleftrightarrow> (\<forall>s. R s s) \<and> (\<forall>s t u. R s t \<longrightarrow> R t u \<longrightarrow> R s u)"

lemma keepsD: "keeps R m \<Longrightarrow> m s = (r, t) \<Longrightarrow> R s t"
  unfolding keeps_def by (metis snd_conv)

lemma keeps_basic:
  assumes "preorder_rel R"
  shows "keeps R (retM x)" "keeps R (throwM e)" "keeps R (getM f)" "keeps R (liftM r)"
  using assms by (auto simp: keeps_def preorder_rel_def io_simps)

lemma keeps_putM: "(\<And>s. R s (f s)) \<Longrightarrow> keeps R (putM f)"
  by (simp add: keeps_def io_simps)

lemma keeps_bindM:
  assumes "preorder_rel R" and "keeps R m" and "\<And>x. keeps R (f x)"
  shows "keeps R (bindM m f)"
  unfolding keeps_def
proof
  fix s
  obtain r t where mt: "m s = (r, t)" by (cases "m s")
  then have st: "R s t" using assms(2) by (rule keepsD [rotated])
  show "R s (snd (bindM m f s))"
  proof (cases r)
    case (Inl e)
    with mt st show ?thesis by (simp add: bindM_def)
  next
    case (Inr x)
    have "R t (snd (f x t))" using assms(3) by (simp add: keeps_def)
    with assms(1) st mt Inr show ?thesis by (auto simp: bindM_def preorder_rel_def)
  qed
qed

lemma keeps_thenM:
  "preorder_rel R \<Longrightarrow> keeps R m \<Longrightarrow> keeps R k \<Longrightarrow> keeps R (thenM m k)"
  unfolding thenM_def by (rule keeps_bindM)

lemma keeps_handleM:
  assumes "preorder_rel R" and "keeps R m" and "\<And>e. keeps R (h e)"
  shows "keeps R (handleM m p h)"
  unfolding keeps_def
proof
  fix s
  obtain r t where mt: "m s = (r, t)" by (cases "m s")
  then have st: "R s t" using assms(2) by (rule keepsD [rotated])
  have "R t (snd (h e t))" for e using assms(3) by (simp add: keeps_def)
  with assms(1) st mt show "R s (snd (handleM m p h s))"
    by (cases r) (auto simp: handleM_def preorder_rel_def)
qed

lemma keeps_finallyM:
  assumes "preorder_rel R" and "keeps R m" and "keeps R k"
  shows "keeps R (finallyM m k)"
  unfolding keeps_def
proof
  fix s
  obtain r t where mt: "m s = (r, t)" by (cases "m s")
  then have st: "R s t" using assms(2) by (rule keepsD [rotated])
  obtain q u where ku: "k t = (q, u)" by (cases "k t")
  then have "R t u" using assms(3) by (rule keepsD [rotated])
  with assms(1) st mt ku show "R s (snd (finallyM m k s))"
    by (cases q) (auto simp: finallyM_def preorder_rel_def)
qed

lemma keeps_forM:
  "preorder_rel R \<Longrightarrow> (\<And>x. keeps R (f x)) \<Longrightarrow> keeps R (forM f xs)"
  by (induction xs) (auto intro: keeps_basic keeps_thenM)

lemma keeps_if: "keeps R a \<Longrightarrow> keeps R b \<Longrightarrow> keeps R (if c then a else b)"
  by simp

lemmas keeps_intros = keeps_basic keeps_bindM keeps_thenM keeps_handleM keeps_finallyM
  keeps_forM keeps_if

subsection \<open>Triples\<close>

text \<open>\<open>ensures P m Q\<close>: run from a state with \<open>P\<close>, the outcome and the state left satisfy \<open>Q\<close>,
  whether \<open>m\<close> returns or raises.\<close>

definition ensures :: "('s \<Rightarrow> bool) \<Rightarrow> ('s, 'a) io \<Rightarrow> ('a result \<Rightarrow> 's \<Rightarrow> bool) \<Rightarrow> bool" where
  "ensures P m Q \<longleftrightarrow> (\<forall>s. P s \<longrightarrow> (case m s of (r, t) \<Rightarrow> Q r t))"

lemma ensuresI: "(\<And>s r t. P s \<Longrightarrow> m s = (r, t) \<Longrightarrow> Q r t) \<Longrightarrow> ensures P m Q"
  by (auto simp: ensures_def)

lemma ensuresD: "ensures P m Q \<Longrightarrow> P s \<Longrightarrow> m s = (r, t) \<Longrightarrow> Q r t"
  by (auto simp: ensures_def)

lemma ensures_weaken:
  "ensures P m Q \<Longrightarrow> (\<And>s. P' s \<Longrightarrow> P s) \<Longrightarrow> (\<And>r t. Q r t \<Longrightarrow> Q' r t) \<Longrightarrow> ensures P' m Q'"
  by (fastforce simp: ensures_def)

lemma ensures_post: "ensures P m Q \<Longrightarrow> (\<And>r t. Q r t \<Longrightarrow> Q' r t) \<Longrightarrow> ensures P m Q'"
  by (fastforce simp: ensures_def)

lemma ensures_pre: "ensures P m Q \<Longrightarrow> (\<And>s. P' s \<Longrightarrow> P s) \<Longrightarrow> ensures P' m Q"
  by (fastforce simp: ensures_def)

lemma ensures_basic:
  "(\<And>s. P s \<Longrightarrow> Q (Inr x) s) \<Longrightarrow> ensures P (retM x) Q"
  "(\<And>s. P s \<Longrightarrow> Q (Inl e) s) \<Longrightarrow> ensures P (throwM e) Q"
  "(\<And>s. P s \<Longrightarrow> Q r s) \<Longrightarrow> ensures P (liftM r) Q"
  "(\<And>s. P s \<Longrightarrow> Q (Inr (f s)) s) \<Longrightarrow> ensures P (getM f) Q"
  by (auto simp: ensures_def io_simps)

lemma ensures_bindM:
  assumes "ensures P m (\<lambda>r t. case r of Inl e \<Rightarrow> Q (Inl e) t | Inr x \<Rightarrow> M x t)"
    and "\<And>x. ensures (M x) (f x) Q"
  shows "ensures P (bindM m f) Q"
proof (rule ensuresI)
  fix s r t
  assume "P s" and "bindM m f s = (r, t)"
  from this(2) show "Q r t"
  proof (cases rule: bindM_E)
    case (raised e)
    with ensuresD [OF assms(1) \<open>P s\<close>] show ?thesis by fastforce
  next
    case (continued x s')
    with ensuresD [OF assms(1) \<open>P s\<close>] have "M x s'" by fastforce
    with ensuresD [OF assms(2)] continued show ?thesis by blast
  qed
qed

lemma ensures_thenM:
  assumes "ensures P m (\<lambda>r t. case r of Inl e \<Rightarrow> Q (Inl e) t | Inr x \<Rightarrow> M t)" and "ensures M k Q"
  shows "ensures P (thenM m k) Q"
  unfolding thenM_def
  by (rule ensures_bindM [where M = "\<lambda>_. M"]) (use assms in \<open>auto split: sum.split\<close>)

text \<open>An invariant of the state: steps that keep it compose.\<close>

lemma ensures_invariant_bindM:
  "ensures I m (\<lambda>_. I) \<Longrightarrow> (\<And>x. ensures I (f x) (\<lambda>_. I)) \<Longrightarrow> ensures I (bindM m f) (\<lambda>_. I)"
  by (rule ensures_bindM [where M = "\<lambda>_. I"]) (auto split: sum.split elim: ensures_post)

lemma ensures_keeps:
  "keeps R m \<Longrightarrow> (\<And>s t. P s \<Longrightarrow> R s t \<Longrightarrow> Q t) \<Longrightarrow> ensures P m (\<lambda>_. Q)"
  by (auto intro!: ensuresI dest: keepsD)

lemma ensures_True: "ensures P m (\<lambda>_ _. True)"
  by (simp add: ensures_def split: prod.split)

end
