(* ===== verification/Atomic_Json.thy ===== *)
theory Atomic_Json
  imports Json Effects
begin

section \<open>Durable JSON files (atomic\_json.py)\<close>

text \<open>
  One file of the host, as its readers find it, and the steps of \<open>write_atomic_json\<close>.  Every
  step is one operation of the operating system that may fail: the fault plan says of the
  next operations whether they raise \<open>OSError\<close> (the failpoint of the sources, which fires
  immediately before the operation it names).  A crash is a plan that is never consumed to
  the end: it leaves the file as it is between two steps.
\<close>

datatype file_content =
    Missing
  | Unreadable string \<comment> \<open>reading raises \<open>OSError\<close>\<close>
  | NotUtf8
  | NotJson string
  | Document json

text \<open>
  \<open>content\<close>: what a reader of the path finds; \<open>temporary\<close>: a temporary file is left beside it;
  \<open>synced\<close>: the directory entry of the content is known to be on disk.
\<close>

record file_slot =
  content :: file_content
  temporary :: bool
  synced :: bool

type_synonym fault_plan = "bool list"

type_synonym slot_state = "file_slot \<times> fault_plan"

definition fs_op :: "string \<Rightarrow> (file_slot \<Rightarrow> file_slot) \<Rightarrow> (slot_state, unit) io" where
  "fs_op name f = (\<lambda>(slot, plan). case plan of
       [] \<Rightarrow> (Inr (), (f slot, []))
     | b # bs \<Rightarrow> if b then (Inl (OSError name), (slot, bs)) else (Inr (), (f slot, bs)))"

subsection \<open>Directory synchronisation\<close>

definition fsync_directory :: "(slot_state, unit) io" where
  "fsync_directory =
     thenM (fs_op ''parent_directory_open'' id)
       (finallyM (fs_op ''parent_directory_fsync'' (\<lambda>s. s\<lparr>synced := True\<rparr>))
         (fs_op ''parent_directory_close'' id))"

subsection \<open>Replacing a file\<close>

definition unlink_temporary :: "exn \<Rightarrow> (slot_state, unit) io" where
  "unlink_temporary original =
     thenM
       (handleM (fs_op ''unlink'' (\<lambda>s. s\<lparr>temporary := False\<rparr>)) is_os_error
         (\<lambda>_. throwM (ExceptionGroup ''atomic JSON persistence and cleanup failed'')))
       (throwM original)"

definition write_atomic_json :: "json \<Rightarrow> (slot_state, unit) io" where
  "write_atomic_json payload =
     thenM (fs_op ''parent_directory_mkdir'' id)
    (thenM (fs_op ''parent_directory_chmod'' id)
    (thenM (fs_op ''temporary_file'' (\<lambda>s. s\<lparr>temporary := True\<rparr>))
       (handleM
         (thenM (fs_op ''write'' id)
         (thenM (fs_op ''file_fsync'' id)
         (thenM (fs_op ''temporary_chmod'' id)
         (thenM (fs_op ''rename''
                  (\<lambda>s. s\<lparr>content := Document payload, temporary := False, synced := False\<rparr>))
         (thenM (fs_op ''destination_chmod'' id)
           fsync_directory)))))
         is_os_error unlink_temporary)))"

subsection \<open>The contract of an atomically replaced document\<close>

text \<open>
  What the callers rely on: a write that returns has replaced the document, and however a
  write ends, a reader finds the old content or the new document, never a mixture.
\<close>

locale atomic_document =
  fixes look :: "'s \<Rightarrow> file_content"
    and put :: "json \<Rightarrow> ('s, unit) io"
  assumes write_returned: "put d s = (Inr (), t) \<Longrightarrow> look t = Document d"
    and write_atomic: "put d s = (r, t) \<Longrightarrow> look t = look s \<or> look t = Document d"
begin

text \<open>Any sequence of puts, failing or not, leaves the first content or one of the documents.\<close>

fun puts :: "json list \<Rightarrow> 's \<Rightarrow> 's" where
  "puts [] s = s"
| "puts (d # ds) s = puts ds (snd (put d s))"

lemma puts_atomic: "look (puts ds s) = look s \<or> (\<exists>d\<in>set ds. look (puts ds s) = Document d)"
proof (induction ds arbitrary: s)
  case Nil
  then show ?case by simp
next
  case (Cons d ds)
  obtain r t where dt: "put d s = (r, t)" by (cases "put d s")
  from Cons.IH [of t] write_atomic [OF dt] dt show ?case by auto
qed

lemma write_failed_or_done: "look (snd (put d s)) \<noteq> Document d \<Longrightarrow> look (snd (put d s)) = look s"
  using write_atomic [of d s] by (cases "put d s") auto

end

lemma fs_op_id [simp]: "fst (snd (fs_op n id s)) = fst s"
  by (cases s) (auto simp: fs_op_def split: list.splits)

definition doc_kept :: "json \<Rightarrow> slot_state \<Rightarrow> slot_state \<Rightarrow> bool" where
  "doc_kept d s t \<longleftrightarrow> content (fst t) = content (fst s) \<or> content (fst t) = Document d"

lemma doc_kept_preorder: "preorder_rel (doc_kept d)"
  by (auto simp: preorder_rel_def doc_kept_def)

lemma keeps_fs_op:
  "(\<And>s. content (f s) = content s \<or> content (f s) = Document d) \<Longrightarrow> keeps (doc_kept d) (fs_op n f)"
  by (auto simp: keeps_def doc_kept_def fs_op_def split: list.splits)

lemma write_atomic_json_kept: "keeps (doc_kept d) (write_atomic_json d)"
  unfolding write_atomic_json_def unlink_temporary_def fsync_directory_def
  by (intro keeps_intros doc_kept_preorder keeps_fs_op) auto

text \<open>A step that leaves the content alone, or fails, does not undo the rename.\<close>

lemma fs_op_content:
  "fs_op n f s = (Inr (), t) \<Longrightarrow> fst t = f (fst s)"
  by (cases s) (auto simp: fs_op_def split: list.splits if_splits)

lemma fsync_directory_content:
  "fsync_directory s = (r, t) \<Longrightarrow> content (fst t) = content (fst s)"
  by (cases s) (auto simp: fsync_directory_def finallyM_def fs_op_def elim!: thenM_E
      split: list.splits if_splits prod.splits sum.splits)

lemma handleM_Inr_E:
  assumes "handleM m p h s = (Inr x, t)"
  obtains (plain) "m s = (Inr x, t)" | (handled) e u where "m s = (Inl e, u)" "h e u = (Inr x, t)"
  using assms by (auto simp: handleM_def split: prod.splits sum.splits if_splits)

lemma unlink_temporary_raises [simp]: "unlink_temporary e s \<noteq> (Inr x, t)"
  unfolding unlink_temporary_def by (auto elim!: thenM_E simp: throwM_def)

lemma write_atomic_json_returned:
  assumes "write_atomic_json d s = (Inr (), t)"
  shows "content (fst t) = Document d"
  using assms unfolding write_atomic_json_def
  by (auto elim!: thenM_E handleM_Inr_E dest!: fs_op_content fsync_directory_content)

interpretation slot: atomic_document "\<lambda>s :: slot_state. content (fst s)" write_atomic_json
proof
  show "content (fst t) = Document d" if "write_atomic_json d s = (Inr (), t)" for d s t
    using that by (rule write_atomic_json_returned)
  show "content (fst t) = content (fst s) \<or> content (fst t) = Document d"
    if "write_atomic_json d s = (r, t)" for d s r t
    using keepsD [OF write_atomic_json_kept that] by (simp add: doc_kept_def)
qed

end
