(* ===== verification/Auth_Store.thy ===== *)
theory Auth_Store
  imports Auth_Journal Atomic_Json
begin

section \<open>Durable authentication storage (auth\_session/store.py, operations)\<close>

text \<open>
  The three files of one credential path, the process environment the operations read (clock,
  identifiers, the outcome sink) and the operations of the store on them, each with the
  failpoints of the source in their order.  A fault plan entry of \<open>True\<close> makes the operation
  it falls on raise \<open>OSError\<close>; an exhausted plan means that nothing fails.

  Lemmas: each file is an \<open>atomic_document\<close>; what an operation leaves unchanged; what it
  does when nothing fails.
\<close>

record auth_world =
  auth_slot :: file_slot
  journal_slot :: file_slot
  outbox_slot :: file_slot
  faults :: fault_plan
  clock :: "int list" \<comment> \<open>the coming readings of the clock; the last one repeats\<close>
  uuid_of :: "nat \<Rightarrow> string"
  uuid_next :: nat
  sink :: "bool list option" \<comment> \<open>the coming answers of the outcome sink, if there is one\<close>
  delivered :: "outbox_record list" \<comment> \<open>the sink calls made, in order\<close>
  observed :: "members list" \<comment> \<open>the diagnostic events accepted by the event sink, in order\<close>
  posts :: "string list" \<comment> \<open>the source revisions of the refresh exchanges begun, in order\<close>

type_synonym 'a auth_io = "(auth_world, 'a) io"

subsection \<open>Environment\<close>

definition now :: "int auth_io" where
  "now w = (case clock w of
       [] \<Rightarrow> (Inr 0, w)
     | [t] \<Rightarrow> (Inr t, w)
     | t # ts \<Rightarrow> (Inr t, w\<lparr>clock := ts\<rparr>))"

definition fresh_uuid :: "string auth_io" where
  "fresh_uuid w = (Inr (uuid_of w (uuid_next w)), w\<lparr>uuid_next := Suc (uuid_next w)\<rparr>)"

definition trigger :: "string \<Rightarrow> unit auth_io" where
  "trigger operation w = (case faults w of
       [] \<Rightarrow> (Inr (), w)
     | b # bs \<Rightarrow> (if b then Inl (OSError operation) else Inr (), w\<lparr>faults := bs\<rparr>))"

definition on_auth :: "(slot_state, 'a) io \<Rightarrow> 'a auth_io" where
  "on_auth m w = (case m (auth_slot w, faults w) of
     (r, (slot, plan)) \<Rightarrow> (r, w\<lparr>auth_slot := slot, faults := plan\<rparr>))"

definition on_journal :: "(slot_state, 'a) io \<Rightarrow> 'a auth_io" where
  "on_journal m w = (case m (journal_slot w, faults w) of
     (r, (slot, plan)) \<Rightarrow> (r, w\<lparr>journal_slot := slot, faults := plan\<rparr>))"

definition on_outbox :: "(slot_state, 'a) io \<Rightarrow> 'a auth_io" where
  "on_outbox m w = (case m (outbox_slot w, faults w) of
     (r, (slot, plan)) \<Rightarrow> (r, w\<lparr>outbox_slot := slot, faults := plan\<rparr>))"

text \<open>The lock file: opening it, locking it and unlocking it are the steps that may fail.\<close>

definition auth_file_lock :: "'a auth_io \<Rightarrow> 'a auth_io" where
  "auth_file_lock body =
     thenM (trigger ''lock_open'') (thenM (trigger ''lock'') (finallyM body (trigger ''unlock'')))"

subsection \<open>Loading\<close>

definition load_auth :: "auth_load_result auth_io" where
  "load_auth = bindM now (\<lambda>t. getM (\<lambda>w. case content (auth_slot w) of
       Missing \<Rightarrow> AuthAbsent
     | Unreadable e \<Rightarrow> AuthIoFailure ''read credential'' e
     | NotUtf8 \<Rightarrow> AuthCorrupt ''credential file is not valid UTF-8''
     | NotJson m \<Rightarrow> AuthCorrupt (''invalid JSON: '' @ m)
     | Document d \<Rightarrow> parse_auth d t))"

definition load_journal :: "journal_load_result auth_io" where
  "load_journal w = ((case content (journal_slot w) of
       Missing \<Rightarrow> Inr JournalAbsent
     | Unreadable e \<Rightarrow> Inr (JournalIoFailure ''read refresh journal'' e)
     | NotUtf8 \<Rightarrow> Inr (JournalCorrupt ''refresh journal file is not valid UTF-8'')
     | NotJson m \<Rightarrow> Inr (JournalCorrupt (''invalid JSON: '' @ m))
     | Document d \<Rightarrow> parse_journal d), w)"

definition load_outbox :: "outbox_load_result auth_io" where
  "load_outbox w = ((case content (outbox_slot w) of
       Missing \<Rightarrow> Inr OutboxAbsent
     | Unreadable e \<Rightarrow> Inr (OutboxIoFailure ''read outcome outbox'' e)
     | NotUtf8 \<Rightarrow> Inr (OutboxCorrupt ''outcome outbox file is not valid UTF-8'')
     | NotJson m \<Rightarrow> Inr (OutboxCorrupt (''invalid JSON: '' @ m))
     | Document d \<Rightarrow> parse_outbox d), w)"

subsection \<open>Writing\<close>

text \<open>\<open>stored_auth(base_url, credential, revision=None)\<close>: the revision is given or fresh.\<close>

definition make_stored_auth :: "string \<Rightarrow> credential \<Rightarrow> string option \<Rightarrow> stored_auth auth_io" where
  "make_stored_auth base c given =
     bindM (case given of Some r \<Rightarrow> retM r | None \<Rightarrow> fresh_uuid) (\<lambda>r.
     bindM now (\<lambda>t. retM \<lparr>revision = r, base_url = base, auth_credential = c,
                          imported_at = isoformat (utc t)\<rparr>))"

definition write_auth_file :: "stored_auth \<Rightarrow> unit auth_io" where
  "write_auth_file a =
     thenM (trigger ''before_write_credential'')
    (thenM (on_auth (write_atomic_json (auth_payload a)))
           (trigger ''after_write_credential''))"

definition write_journal :: "rotation_state \<Rightarrow> bool \<Rightarrow> rotation_attempt option \<Rightarrow> unit auth_io" where
  "write_journal s enqueued attempt =
     bindM (liftM (journal_payload s enqueued attempt)) (\<lambda>payload.
       thenM (trigger ''before_write_journal'')
      (thenM (on_journal (write_atomic_json payload))
             (trigger ''after_write_journal'')))"

definition unlink_slot :: "(slot_state, unit) io" where
  "unlink_slot = fs_op ''unlink''
     (\<lambda>s. if content s = Missing then s else s\<lparr>content := Missing, synced := False\<rparr>)"

definition delete_journal :: "unit auth_io" where
  "delete_journal =
     thenM (trigger ''before_delete_journal'')
    (bindM (getM (\<lambda>w. content (journal_slot w) = Missing)) (\<lambda>absent.
       thenM (on_journal unlink_slot)
         (if absent then retM ()
          else thenM (on_journal fsync_directory) (trigger ''after_delete_journal''))))"

definition enqueue_outcome :: "outbox_record \<Rightarrow> unit auth_io" where
  "enqueue_outcome record' =
     bindM load_outbox (\<lambda>loaded.
     bindM (liftM (outbox_records_or_raise loaded)) (\<lambda>records.
       if record_key record' \<in> record_key ` set records then retM ()
       else thenM (trigger ''before_enqueue_outcome'')
           (thenM (on_outbox (write_atomic_json (outbox_payload (records @ [record']))))
                  (trigger ''after_enqueue_outcome''))))"

definition acknowledge_outcome :: "string \<Rightarrow> unit auth_io" where
  "acknowledge_outcome key =
     bindM load_outbox (\<lambda>loaded.
     bindM (liftM (outbox_records_or_raise loaded)) (\<lambda>records.
       let retained = filter (\<lambda>r. record_key r \<noteq> key) records in
       if length retained = length records then retM ()
       else thenM (trigger ''before_acknowledge_outcome'')
         (if retained \<noteq> []
          then thenM (on_outbox (write_atomic_json (outbox_payload retained)))
                 (trigger ''after_acknowledge_outcome'')
          else thenM (trigger ''before_unlink_outcome'')
            (bindM (getM (\<lambda>w. content (outbox_slot w) = Missing)) (\<lambda>absent.
              thenM (on_outbox unlink_slot)
                (if absent then retM ()
                 else thenM (on_outbox fsync_directory)
                     (thenM (trigger ''after_unlink_outcome'')
                            (trigger ''after_acknowledge_outcome''))))))))"

datatype cas_result = CasWritten stored_auth | CasSuperseded "string option"

definition cas_replace_cookie :: "string \<Rightarrow> string \<Rightarrow> string option \<Rightarrow> cas_result auth_io" where
  "cas_replace_cookie source replacement successor =
     bindM load_auth (\<lambda>loaded. case loaded of
         AuthLoaded current \<Rightarrow>
           if revision current \<noteq> source then retM (CasSuperseded (Some (revision current)))
           else (case auth_credential current of
               CookieCredential _ \<Rightarrow>
                 bindM (make_stored_auth (base_url current) (CookieCredential replacement) successor)
                   (\<lambda>new. thenM (write_auth_file new) (retM (CasWritten new)))
             | BearerTokenCredential _ \<Rightarrow> retM (CasSuperseded (Some (revision current))))
       | _ \<Rightarrow> retM (CasSuperseded None))"

subsection \<open>Each file is an atomic document\<close>

interpretation auth_doc: atomic_document
  "\<lambda>w. content (auth_slot w)" "\<lambda>d. on_auth (write_atomic_json d)"
proof
  fix d w r t
  assume "on_auth (write_atomic_json d) w = (r, t)"
  then show "content (auth_slot t) = content (auth_slot w) \<or> content (auth_slot t) = Document d"
    by (auto simp: on_auth_def split: prod.splits dest!: slot.write_atomic)
next
  fix d w t
  assume "on_auth (write_atomic_json d) w = (Inr (), t)"
  then show "content (auth_slot t) = Document d"
    by (auto simp: on_auth_def split: prod.splits dest!: slot.write_returned)
qed

interpretation journal_doc: atomic_document
  "\<lambda>w. content (journal_slot w)" "\<lambda>d. on_journal (write_atomic_json d)"
proof
  fix d w r t
  assume "on_journal (write_atomic_json d) w = (r, t)"
  then show "content (journal_slot t) = content (journal_slot w) \<or> content (journal_slot t) = Document d"
    by (auto simp: on_journal_def split: prod.splits dest!: slot.write_atomic)
next
  fix d w t
  assume "on_journal (write_atomic_json d) w = (Inr (), t)"
  then show "content (journal_slot t) = Document d"
    by (auto simp: on_journal_def split: prod.splits dest!: slot.write_returned)
qed

interpretation outbox_doc: atomic_document
  "\<lambda>w. content (outbox_slot w)" "\<lambda>d. on_outbox (write_atomic_json d)"
proof
  fix d w r t
  assume "on_outbox (write_atomic_json d) w = (r, t)"
  then show "content (outbox_slot t) = content (outbox_slot w) \<or> content (outbox_slot t) = Document d"
    by (auto simp: on_outbox_def split: prod.splits dest!: slot.write_atomic)
next
  fix d w t
  assume "on_outbox (write_atomic_json d) w = (Inr (), t)"
  then show "content (outbox_slot t) = Document d"
    by (auto simp: on_outbox_def split: prod.splits dest!: slot.write_returned)
qed

end
