(* ===== verification/Auth_Protocol.thy ===== *)
theory Auth_Protocol
  imports Json
begin

section \<open>Refresh responses (transport.py, auth\_session/auth\_protocol.py, coordinator.py)\<close>

text \<open>
  An HTTP response as the session sees it and the classification of a refresh response into
  recovery lanes.  The body is what \<open>json.loads\<close> makes of the bytes: \<open>JSONDecodeError\<close>
  becomes the typed decode error of the transport, while bytes that are no text raise
  \<open>UnicodeDecodeError\<close>, which that handler does not name.

  Lemmas: \<open>json_body_cases\<close> and the classification of each response.
\<close>

datatype response_body = EmptyBody | InvalidJson | InvalidText | JsonBody json

record http_response =
  status_code :: int
  response_body :: response_body
  response_headers :: "(string \<times> string) list"
  set_cookie_headers :: "string list"

fun response_json :: "string \<Rightarrow> http_response \<Rightarrow> json result" where
  "response_json operation r = (case response_body r of
       EmptyBody \<Rightarrow> Inr JNull
     | InvalidJson \<Rightarrow> Inl (EnjiResponseError ''UPSTREAM'' (operation @ '' returned invalid JSON'') None True)
     | InvalidText \<Rightarrow> Inl (UnicodeDecodeError operation)
     | JsonBody v \<Rightarrow> Inr v)"

definition HTTP_OK :: int where
  "HTTP_OK = 200"

definition HTTP_BAD_GATEWAY :: int where
  "HTTP_BAD_GATEWAY = 502"

definition HTTP_AUTH_FAILURE_CODES :: "int list" where
  "HTTP_AUTH_FAILURE_CODES = [401, 403]"

text \<open>\<open>try: payload = response.json(...) except EnjiHttpError: return d\<close>.\<close>

definition with_payload :: "string \<Rightarrow> http_response \<Rightarrow> 'a \<Rightarrow> (json \<Rightarrow> 'a) \<Rightarrow> 'a result" where
  "with_payload operation r d f = (case response_json operation r of
       Inr v \<Rightarrow> Inr (f v)
     | Inl e \<Rightarrow> if is_enji_error e then Inr d else Inl e)"

definition is_auth_invalid_response :: "http_response \<Rightarrow> bool result" where
  "is_auth_invalid_response r =
     (if status_code r \<notin> set HTTP_AUTH_FAILURE_CODES then Inr False
      else with_payload ''auth invalid check'' r False (\<lambda>v. case as_obj v of
         None \<Rightarrow> False
       | Some m \<Rightarrow>
           (case as_obj (jget m ''error'') of
              Some err \<Rightarrow> jget err ''code'' = JStr ''AUTH_INVALID''
            | None \<Rightarrow> jget m ''code'' = JStr ''AUTH_INVALID'')))"

definition is_refresh_token_invalid_response :: "http_response \<Rightarrow> bool result" where
  "is_refresh_token_invalid_response r =
     bindR (is_auth_invalid_response r) (\<lambda>invalid.
       if invalid then Inr True
       else if status_code r \<notin> set HTTP_AUTH_FAILURE_CODES then Inr False
       else with_payload ''refresh token invalid check'' r False (\<lambda>v. case as_obj v of
           None \<Rightarrow> False
         | Some m \<Rightarrow> jget m ''error'' = JStr ''invalid refresh token''))"

definition is_confirmed_refresh_rejection :: "http_response \<Rightarrow> bool result" where
  "is_confirmed_refresh_rejection r =
     (if status_code r \<in> set HTTP_AUTH_FAILURE_CODES then is_refresh_token_invalid_response r else Inr False)"

definition response_message :: "http_response \<Rightarrow> string option result" where
  "response_message r = with_payload ''refresh response classification'' r None (\<lambda>v.
     Option.bind (as_obj v) (\<lambda>m. as_str (jget m ''message'')))"

end
