(* ===== verification/Cookies.thy ===== *)
theory Cookies
  imports Json Py_Datetime
begin

section \<open>Cookie headers (auth\_session/cookies.py)\<close>

text \<open>
  Parsing and merging of cookie headers.  The first part is the \<open>SimpleCookie\<close> of Python's
  \<open>http.cookies\<close> as far as the sources use it: the matcher of one \<open>key=value\<close> chunk (the
  regular expression of the module with its backtracking resolved), quoting, the reserved
  attribute names and \<open>load\<close>.  The second part is the module itself.  The HTTP date parser
  (\<open>email.utils.parsedate_to_datetime\<close>) and the decoding of a JWT payload segment are
  arguments.

  Lemmas: a merge keeps only the auth cookies, and refuses an update that deletes one.
\<close>

subsection \<open>Characters\<close>

definition ascii_space :: "char \<Rightarrow> bool" where
  "ascii_space c \<longleftrightarrow> char_code c \<in> {9, 10, 11, 12, 13, 32}"

definition ascii_digit :: "char \<Rightarrow> bool" where
  "ascii_digit c \<longleftrightarrow> 48 \<le> char_code c \<and> char_code c \<le> 57"

definition word_char :: "char \<Rightarrow> bool" where
  "word_char c \<longleftrightarrow> ascii_digit c \<or> (65 \<le> char_code c \<and> char_code c \<le> 90)
     \<or> (97 \<le> char_code c \<and> char_code c \<le> 122) \<or> c = CHR ''_''"

definition key_char :: "char \<Rightarrow> bool" where
  "key_char c \<longleftrightarrow> word_char c \<or> char_code c = 39 \<or> c \<in> set ''!#%&~`><@,:/$*+-.^|)(?}{=''"

definition value_char :: "char \<Rightarrow> bool" where
  "value_char c \<longleftrightarrow> key_char c \<or> c \<in> set ''[]''"

definition legal_char :: "char \<Rightarrow> bool" where
  "legal_char c \<longleftrightarrow> word_char c \<or> char_code c = 39 \<or> c \<in> set ''!#$%&*+-.^`|~:''"

definition quote_char :: char where
  "quote_char = CHR 0x22"

definition backslash :: char where
  "backslash = CHR 0x5C"

subsection \<open>Matching one chunk\<close>

text \<open>The end of a chunk: blanks, then a blank, a semicolon or the end.\<close>

definition chunk_end :: "string \<Rightarrow> string option" where
  "chunk_end t = (let u = dropWhile ascii_space t in
     if u = [] then Some [] else if hd u = CHR '';'' then Some (tl u)
     else if u \<noteq> t then Some u else None)"

fun quoted_rest :: "string \<Rightarrow> string option" where
  "quoted_rest [] = None"
| "quoted_rest (c # cs) =
     (if c = quote_char then Some cs
      else if c = backslash then
        (case cs of [] \<Rightarrow> None | d # ds \<Rightarrow> if char_code d = 10 then None else quoted_rest ds)
      else quoted_rest cs)"

text \<open>The special case for dates, with \<open>n\<close> characters in the middle.\<close>

definition expires_rest :: "nat \<Rightarrow> string \<Rightarrow> string option" where
  "expires_rest n v =
     (let parts = [(3, word_char), (1, \<lambda>c. c = CHR '',''), (1, ascii_space),
                   (n, \<lambda>c. word_char c \<or> ascii_space c \<or> c = CHR ''-''), (1, ascii_space),
                   (8, \<lambda>c. ascii_digit c \<or> c = CHR '':''), (1, ascii_space),
                   (1, \<lambda>c. c = CHR ''G''), (1, \<lambda>c. c = CHR ''M''), (1, \<lambda>c. c = CHR ''T'')]
      in fold (\<lambda>(k, p) s. Option.bind s (\<lambda>t.
             if length t \<ge> k \<and> list_all p (take k t) then Some (drop k t) else None))
           parts (Some v))"

fun first_match :: "(string \<times> string) option list \<Rightarrow> (string \<times> string) option" where
  "first_match [] = None"
| "first_match (None # ms) = first_match ms"
| "first_match (Some m # ms) = Some m"

text \<open>A value that ends the chunk: the text of the value and what follows the chunk.\<close>

definition ending_at :: "string \<Rightarrow> string option \<Rightarrow> (string \<times> string) option" where
  "ending_at v rest = Option.bind rest (\<lambda>t.
     map_option (\<lambda>u. (take (length v - length t) v, u)) (chunk_end t))"

definition match_value :: "string \<Rightarrow> (string \<times> string) option" where
  "match_value v = first_match
     [if v \<noteq> [] \<and> hd v = quote_char then ending_at v (quoted_rest (tl v)) else None,
      ending_at v (expires_rest 11 v), ending_at v (expires_rest 10 v), ending_at v (expires_rest 9 v),
      ending_at v (Some (dropWhile value_char v))]"

text \<open>Blanks after the equal sign may be given back to end the chunk with an empty value.\<close>

definition match_assignment :: "string \<Rightarrow> (string \<times> string) option" where
  "match_assignment r =
     (case dropWhile ascii_space r of
        [] \<Rightarrow> None
      | c # r2 \<Rightarrow>
          if c \<noteq> CHR ''='' then None
          else (let v = dropWhile ascii_space r2 in
            case match_value v of
              Some m \<Rightarrow> Some m
            | None \<Rightarrow> if v \<noteq> r2 then Some ([], v) else None))"

text \<open>The key grows one character at a time until the chunk matches.\<close>

fun match_key :: "string \<Rightarrow> string \<Rightarrow> (string \<times> string option \<times> string) option" where
  "match_key key [] = (if key = [] then None else Some (key, None, []))"
| "match_key key (c # cs) =
     (case (if key = [] then None
            else (case match_assignment (c # cs) of
                Some (v, rest) \<Rightarrow> Some (key, Some v, rest)
              | None \<Rightarrow> map_option (\<lambda>rest. (key, None, rest)) (chunk_end (c # cs)))) of
        Some m \<Rightarrow> Some m
      | None \<Rightarrow> if key_char c then match_key (key @ [c]) cs else None)"

definition match_chunk :: "string \<Rightarrow> (string \<times> string option \<times> string) option" where
  "match_chunk s = match_key [] (dropWhile ascii_space s)"

text \<open>A chunk takes at least its key, so scanning a header ends.\<close>

lemma chunk_end_length: "chunk_end t = Some u \<Longrightarrow> length u \<le> length t"
  using length_dropWhile_le [of ascii_space t]
  by (auto simp: chunk_end_def Let_def split: if_splits)

lemma quoted_rest_length: "quoted_rest s = Some t \<Longrightarrow> length t < length s"
  by (induction s rule: quoted_rest.induct) (auto split: if_splits list.splits)

lemma ending_at_length:
  "ending_at v (Some t) = Some (x, u) \<Longrightarrow> length u \<le> length t"
  by (auto simp: ending_at_def dest: chunk_end_length)

lemma take_parts_length:
  "fold (\<lambda>(k, p) s. Option.bind s (\<lambda>t.
      if length t \<ge> k \<and> list_all p (take k t) then Some (drop k t) else None)) parts s = Some t
   \<Longrightarrow> \<exists>v. s = Some v \<and> length t \<le> length v"
proof (induction parts arbitrary: s)
  case Nil
  then show ?case by simp
next
  case (Cons part parts)
  from Cons.IH [OF Cons.prems [simplified fold_simps comp_def]] show ?case
    by (cases part; cases s) (auto split: if_splits)
qed

lemma expires_rest_length: "expires_rest n v = Some t \<Longrightarrow> length t \<le> length v"
  unfolding expires_rest_def Let_def by (drule take_parts_length) simp

lemma first_match_in: "first_match ms = Some m \<Longrightarrow> Some m \<in> set ms"
  by (induction ms rule: first_match.induct) auto

lemma match_value_length:
  assumes "match_value v = Some (x, u)"
  shows "length u \<le> length v"
proof -
  have ending: "length u \<le> length v"
    if "ending_at v rest = Some (x, u)" and "\<And>t. rest = Some t \<Longrightarrow> length t \<le> length v" for rest
    using that by (cases rest) (auto simp: ending_at_def dest: chunk_end_length ending_at_length intro: le_trans)
  have quoted: "length t \<le> length v" if "quoted_rest (tl v) = Some t" for t
    using quoted_rest_length [OF that] by (cases v) auto
  have plain: "length (dropWhile value_char v) \<le> length v" by (rule length_dropWhile_le)
  have "Some (x, u) \<in> {if v \<noteq> [] \<and> hd v = quote_char then ending_at v (quoted_rest (tl v)) else None,
      ending_at v (expires_rest 11 v), ending_at v (expires_rest 10 v), ending_at v (expires_rest 9 v),
      ending_at v (Some (dropWhile value_char v))}"
    using first_match_in [OF assms [unfolded match_value_def]] by simp
  then consider "ending_at v (quoted_rest (tl v)) = Some (x, u)"
    | n where "ending_at v (expires_rest n v) = Some (x, u)"
    | "ending_at v (Some (dropWhile value_char v)) = Some (x, u)"
    by (auto split: if_splits)
  then show ?thesis
  proof cases
    case 1
    then show ?thesis by (rule ending) (rule quoted)
  next
    case 2
    then show ?thesis by (rule ending) (rule expires_rest_length)
  next
    case 3
    then show ?thesis by (rule ending) (use plain in auto)
  qed
qed

lemma match_assignment_length:
  assumes "match_assignment r = Some (x, u)"
  shows "length u \<le> length r"
proof -
  obtain r2 where r2: "dropWhile ascii_space r = CHR ''='' # r2"
    and m: "match_value (dropWhile ascii_space r2) = Some (x, u) \<or> u = dropWhile ascii_space r2"
    using assms by (auto simp: match_assignment_def Let_def split: list.splits if_splits option.splits)
  have "length (dropWhile ascii_space r2) \<le> length r2" "Suc (length r2) \<le> length r"
    using length_dropWhile_le [of ascii_space r2] length_dropWhile_le [of ascii_space r] r2 by simp_all
  with m match_value_length show ?thesis by fastforce
qed

lemma match_key_length:
  "match_key key s = Some (k, v, rest) \<Longrightarrow> length rest + (if key = [] then 1 else 0) \<le> length s"
proof (induction key s rule: match_key.induct)
  case (1 key)
  then show ?case by (auto split: if_splits)
next
  case (2 key c cs)
  let ?here = "if key = [] then None
            else (case match_assignment (c # cs) of
                Some (v, rest) \<Rightarrow> Some (key, Some v, rest)
              | None \<Rightarrow> map_option (\<lambda>rest. (key, None, rest)) (chunk_end (c # cs)))"
  show ?case
  proof (cases ?here)
    case None
    with 2 show ?thesis by (auto split: if_splits)
  next
    case (Some m)
    with "2.prems" show ?thesis
      by (auto split: if_splits option.splits dest: match_assignment_length chunk_end_length)
  qed
qed

lemma match_chunk_length: "match_chunk s = Some (k, v, rest) \<Longrightarrow> length rest < length s"
  using match_key_length [of "[]"] length_dropWhile_le [of ascii_space s]
  by (fastforce simp: match_chunk_def)

subsection \<open>Quoting\<close>

definition octal_digit :: "char \<Rightarrow> bool" where
  "octal_digit c \<longleftrightarrow> 48 \<le> char_code c \<and> char_code c \<le> 55"

fun unescape :: "string \<Rightarrow> string" where
  "unescape (c # a # b # d # cs) =
     (if c = backslash \<and> octal_digit a \<and> char_code a \<le> 51 \<and> octal_digit b \<and> octal_digit d
      then char_of ((char_code a - 48) * 64 + (char_code b - 48) * 8 + (char_code d - 48)) # unescape cs
      else if c = backslash \<and> char_code a \<noteq> 10 then a # unescape (b # d # cs)
      else c # unescape (a # b # d # cs))"
| "unescape (c # a # cs) =
     (if c = backslash \<and> char_code a \<noteq> 10 then a # unescape cs else c # unescape (a # cs))"
| "unescape s = s"

definition py_unquote :: "string \<Rightarrow> string" where
  "py_unquote s = (if length s < 2 \<or> hd s \<noteq> quote_char \<or> last s \<noteq> quote_char then s
     else unescape (butlast (tl s)))"

definition octal_escape :: "nat \<Rightarrow> string" where
  "octal_escape n = [backslash, char_of (48 + n div 64), char_of (48 + n div 8 mod 8), char_of (48 + n mod 8)]"

definition quote_one :: "char \<Rightarrow> string" where
  "quote_one c =
     (if c = quote_char \<or> c = backslash then [backslash, c]
      else if legal_char c \<or> c \<in> set '' ()/<=>?@[]{}'' then [c]
      else octal_escape (char_code c))"

definition py_quote :: "string \<Rightarrow> string" where
  "py_quote s = (if s \<noteq> [] \<and> list_all legal_char s then s
     else quote_char # concat (map quote_one s) @ [quote_char])"

subsection \<open>Morsels\<close>

text \<open>An attribute is a string, or a value that is none (a flag that is set, a missing value).\<close>

record morsel =
  morsel_value :: string
  coded_value :: string
  attributes :: "(string \<times> string option) list"

type_synonym jar = "(string \<times> morsel) list"

definition reserved_attributes :: "string list" where
  "reserved_attributes = [''expires'', ''path'', ''comment'', ''domain'', ''max-age'', ''secure'',
     ''httponly'', ''version'', ''samesite'', ''partitioned'']"

definition flag_attributes :: "string list" where
  "flag_attributes = [''secure'', ''httponly'', ''partitioned'']"

fun jar_update :: "string \<Rightarrow> (morsel option \<Rightarrow> morsel) \<Rightarrow> jar \<Rightarrow> jar" where
  "jar_update k f [] = [(k, f None)]"
| "jar_update k f ((q, m) # js) = (if q = k then (k, f (Some m)) # js else (q, m) # jar_update k f js)"

text \<open>\<open>Morsel.set\<close> through \<open>__set\<close>: an existing morsel keeps its attributes.\<close>

definition jar_set :: "string \<Rightarrow> string \<Rightarrow> string \<Rightarrow> jar \<Rightarrow> jar result" where
  "jar_set key val coded jar =
     (if py_lower key \<in> set reserved_attributes then Inl (CookieError ''reserved key'')
      else if key = [] \<or> \<not> list_all legal_char key then Inl (CookieError ''illegal key'')
      else Inr (jar_update key (\<lambda>m. case m of
          None \<Rightarrow> \<lparr>morsel_value = val, coded_value = coded, attributes = []\<rparr>
        | Some m' \<Rightarrow> m'\<lparr>morsel_value := val, coded_value := coded\<rparr>) jar))"

definition morsel_attribute :: "morsel \<Rightarrow> string \<Rightarrow> string" where
  "morsel_attribute m name = (case map_of (attributes m) name of Some (Some s) \<Rightarrow> s | _ \<Rightarrow> [])"

definition jar_attribute :: "string \<Rightarrow> string \<Rightarrow> string option \<Rightarrow> jar \<Rightarrow> jar result" where
  "jar_attribute current name val jar =
     (if py_lower name \<notin> set reserved_attributes then Inl (CookieError ''invalid attribute'')
      else Inr (map (\<lambda>(k, m). if k = current then (k, m\<lparr>attributes := (py_lower name, val) # attributes m\<rparr>)
                              else (k, m)) jar))"

subsection \<open>\<open>SimpleCookie.load\<close>\<close>

datatype parsed_item = AttributeItem string "string option" | KeyValueItem string string string

text \<open>
  The first pass: \<open>None\<close> when the string is rejected as a whole.  A string that stops matching
  keeps the items before that point.
\<close>

function parse_items :: "bool \<Rightarrow> string \<Rightarrow> parsed_item list option" where
  "parse_items seen s = (if s = [] then Some [] else (case match_chunk s of
       None \<Rightarrow> Some []
     | Some (key, val, rest) \<Rightarrow>
         if hd key = CHR ''$'' then
           (if \<not> seen then parse_items seen rest
            else map_option ((#) (AttributeItem (tl key) val)) (parse_items seen rest))
         else if py_lower key \<in> set reserved_attributes then
           (if \<not> seen then None
            else (case val of
                None \<Rightarrow> if py_lower key \<in> set flag_attributes
                        then map_option ((#) (AttributeItem key None)) (parse_items seen rest) else None
              | Some v \<Rightarrow> map_option ((#) (AttributeItem key (Some (py_unquote v)))) (parse_items seen rest)))
         else (case val of
             None \<Rightarrow> None
           | Some v \<Rightarrow> map_option ((#) (KeyValueItem key (py_unquote v) v)) (parse_items True rest))))"
  by pat_completeness auto

termination
  by (relation "measure (\<lambda>(_, s). length s)") (auto dest: match_chunk_length)

declare parse_items.simps [simp del]

fun apply_items :: "string option \<Rightarrow> parsed_item list \<Rightarrow> jar \<Rightarrow> jar result" where
  "apply_items current [] jar = Inr jar"
| "apply_items current (KeyValueItem key val coded # items) jar =
     bindR (jar_set key val coded jar) (apply_items (Some key) items)"
| "apply_items current (AttributeItem name val # items) jar = (case current of
       None \<Rightarrow> Inl (AssertionError [])
     | Some key \<Rightarrow> bindR (jar_attribute key name val jar) (apply_items current items))"

definition load_cookies :: "string \<Rightarrow> jar \<Rightarrow> jar result" where
  "load_cookies raw jar = (case parse_items False raw of
       None \<Rightarrow> Inr jar
     | Some items \<Rightarrow> apply_items None items jar)"

subsection \<open>The module\<close>

definition AUTH_COOKIE_NAMES :: "string list" where
  "AUTH_COOKIE_NAMES = [''access_token'', ''refresh_token'']"

text \<open>
  The HTTP date parser (\<open>None\<close>: it raises \<open>TypeError\<close> or \<open>ValueError\<close>) and the clock reading
  are arguments of the deletion test.
\<close>

type_synonym date_parser = "string \<Rightarrow> datetime option"

definition morsel_deletes_cookie :: "date_parser \<Rightarrow> int \<Rightarrow> morsel \<Rightarrow> bool" where
  "morsel_deletes_cookie http_date now m =
     (let max_age = py_strip (morsel_attribute m ''max-age'');
          expires = py_strip (morsel_attribute m ''expires'') in
      if starts_with max_age ''-'' \<or> max_age = ''0'' then True
      else if expires = [] then False
      else (case http_date expires of
          None \<Rightarrow> False
        | Some d \<Rightarrow> assume_utc d \<le> now))"

definition is_persistable_auth_cookie_update :: "date_parser \<Rightarrow> int \<Rightarrow> string \<Rightarrow> morsel \<Rightarrow> bool" where
  "is_persistable_auth_cookie_update http_date now name m =
     (if name \<notin> set AUTH_COOKIE_NAMES then True
      else morsel_value m \<noteq> [] \<and> \<not> morsel_deletes_cookie http_date now m)"

definition validate_auth_cookie_update :: "date_parser \<Rightarrow> int \<Rightarrow> string \<Rightarrow> morsel \<Rightarrow> unit result" where
  "validate_auth_cookie_update http_date now name m =
     (if name \<notin> set AUTH_COOKIE_NAMES then Inr ()
      else if is_persistable_auth_cookie_update http_date now name m then Inr ()
      else Inl (ValueError (''auth refresh returned non-persistable '' @ name @ '' cookie'')))"

definition auth_cookie_header :: "jar \<Rightarrow> (string \<times> nat) result" where
  "auth_cookie_header jar =
     (let auth_items = filter (\<lambda>(name, _). name \<in> set AUTH_COOKIE_NAMES) jar in
      if auth_items = [] then Inl (ValueError ''cookie input does not contain auth cookie pairs'')
      else Inr (py_join ''; '' (map (\<lambda>(name, m). name @ ''='' @ coded_value m) auth_items),
                length auth_items))"

text \<open>\<open>str.splitlines\<close> and the last line of a header that was copied with its name.\<close>

definition line_break :: "char \<Rightarrow> bool" where
  "line_break c \<longleftrightarrow> char_code c \<in> {10, 11, 12, 13, 28, 29, 30, 133}"

function py_splitlines :: "string \<Rightarrow> string list" where
  "py_splitlines s = (if s = [] then [] else
     (let line = takeWhile (\<lambda>c. \<not> line_break c) s; rest = dropWhile (\<lambda>c. \<not> line_break c) s in
      line # (case rest of
          [] \<Rightarrow> []
        | c # cs \<Rightarrow> if char_code c = 13 \<and> cs \<noteq> [] \<and> char_code (hd cs) = 10
                    then py_splitlines (tl cs) else py_splitlines cs)))"
  by pat_completeness auto

termination
proof (relation "measure length", goal_cases)
  case (2 s line rest c cs)
  then have "length (c # cs) \<le> length s" by (metis length_dropWhile_le)
  then show ?case by (simp add: less_Suc_eq_le le_diff_conv)
next
  case (3 s line rest c cs)
  then have "length (c # cs) \<le> length s" by (metis length_dropWhile_le)
  then show ?case by simp
qed simp

declare py_splitlines.simps [simp del]

fun after_colon :: "string \<Rightarrow> string" where
  "after_colon [] = []"
| "after_colon (c # cs) = (if c = CHR '':'' then cs else after_colon cs)"

definition extract_cookie_line :: "string \<Rightarrow> string" where
  "extract_cookie_line raw =
     (let stripped = py_strip raw in
      if stripped = [] then []
      else (case find (\<lambda>line. starts_with (py_lower (py_strip line)) ''cookie:'') (py_splitlines stripped) of
          Some line \<Rightarrow> py_strip (after_colon (py_strip line))
        | None \<Rightarrow> stripped))"

definition normalize_cookie_header :: "string \<Rightarrow> (string \<times> nat) result" where
  "normalize_cookie_header raw =
     (let cookie_line = extract_cookie_line raw in
      if cookie_line = [] then Inl (ValueError ''cookie input is empty'')
      else bindR (load_cookies cookie_line []) (\<lambda>jar.
        if jar = [] then Inl (ValueError ''cookie input does not contain cookie pairs'')
        else auth_cookie_header jar))"

fun merge_updates :: "date_parser \<Rightarrow> int \<Rightarrow> jar \<Rightarrow> jar \<Rightarrow> jar result" where
  "merge_updates http_date now [] jar = Inr jar"
| "merge_updates http_date now ((name, m) # updates) jar =
     bindR (validate_auth_cookie_update http_date now name m) (\<lambda>_.
     bindR (if name \<in> set AUTH_COOKIE_NAMES
            then jar_set name (morsel_value m) (py_quote (morsel_value m)) jar else Inr jar)
       (merge_updates http_date now updates))"

fun merge_headers :: "date_parser \<Rightarrow> int \<Rightarrow> string list \<Rightarrow> jar \<Rightarrow> jar result" where
  "merge_headers http_date now [] jar = Inr jar"
| "merge_headers http_date now (h # hs) jar =
     bindR (load_cookies h []) (\<lambda>updates.
     bindR (merge_updates http_date now updates jar) (merge_headers http_date now hs))"

definition merge_set_cookie_headers ::
  "date_parser \<Rightarrow> int \<Rightarrow> string \<Rightarrow> string list \<Rightarrow> (string \<times> nat) result" where
  "merge_set_cookie_headers http_date now header set_cookies =
     bindR (load_cookies header []) (\<lambda>jar.
     bindR (merge_headers http_date now set_cookies jar) auth_cookie_header)"

fun load_all :: "string list \<Rightarrow> jar \<Rightarrow> jar result" where
  "load_all [] jar = Inr jar"
| "load_all (h # hs) jar = bindR (load_cookies h jar) (load_all hs)"

definition set_cookie_names :: "string list \<Rightarrow> string list result" where
  "set_cookie_names set_cookies = bindR (load_all set_cookies []) (\<lambda>jar. Inr (sort (map fst jar)))"

definition cookie_value :: "string \<Rightarrow> string \<Rightarrow> string option result" where
  "cookie_value header name =
     bindR (load_cookies header []) (\<lambda>jar. Inr (map_option morsel_value (map_of jar name)))"

text \<open>
  \<open>jwt_expires_at\<close>: \<open>payload_of\<close> decodes a payload segment (\<open>None\<close>: one of the exceptions the
  source catches).  A number of seconds outside the calendar raises \<open>ValueError\<close>.
\<close>

definition epoch_micros :: int where
  "epoch_micros = 719162 * micros_per_day"

definition from_timestamp :: "rat \<Rightarrow> int result" where
  "from_timestamp seconds =
     (let micros = epoch_micros + round_half_even (seconds * 1000000) in
      if 0 \<le> micros \<and> micros < max_ordinal * micros_per_day then Inr micros
      else Inl (ValueError ''year is out of range''))"

definition jwt_expires_at :: "(string \<Rightarrow> json option) \<Rightarrow> string \<Rightarrow> int option result" where
  "jwt_expires_at payload_of token =
     (case py_split CHR ''.'' token of
        _ # segment # _ \<Rightarrow>
          (case Option.bind (payload_of segment) as_obj of
             None \<Rightarrow> Inr None
           | Some m \<Rightarrow>
               (case jget m ''exp'' of
                  JInt n \<Rightarrow> bindR (from_timestamp (of_int n)) (\<lambda>t. Inr (Some t))
                | JFloat x \<Rightarrow> bindR (from_timestamp x) (\<lambda>t. Inr (Some t))
                | _ \<Rightarrow> Inr None))
      | _ \<Rightarrow> Inr None)"

end
