(* ===== verification/Auth_Coordinator.thy ===== *)
theory Auth_Coordinator
  imports Auth_Store Auth_Recovery Cookies
begin

section \<open>The refresh coordinator (auth\_session/coordinator.py)\<close>

text \<open>
  The operations of \<open>RefreshCoordinator\<close> on the files of one credential path: preparing a
  dispatch, committing the response of an exchange, recovering a journal left by another
  process, projecting a retained successor and importing a credential.  Each operation runs
  under the file lock, so it is one step of the interleaving of processes; the exchange
  itself happens between two of them.
\<close>

subsection \<open>Environment of one coordinator\<close>

text \<open>
  What a coordinator is built with.  \<open>owner_fn\<close> and \<open>owner_alive_fn\<close> are the dependencies of
  those names; \<open>event_sink\<close> is the diagnostic sink, if there is one: whether it accepts an
  event (a sink that raises does not).  \<open>http_date\<close> and \<open>jwt_payload\<close> are the library parsers
  of the cookie functions.
\<close>

record coordinator_env =
  owner_fn :: "refresh_owner result"
  owner_alive_fn :: "refresh_owner \<Rightarrow> bool"
  event_sink :: "(members \<Rightarrow> bool) option"
  http_date :: date_parser
  jwt_payload :: "string \<Rightarrow> json option"

datatype preparation =
    Dispatch stored_auth
  | ReturnAuth stored_auth
  | WaitForRevision string

record retained_successor =
  retained_source :: string
  retained_auth :: stored_auth

datatype projection = SuccessorProjected stored_auth | SuccessorSuperseded "string option"

subsection \<open>Helpers\<close>

fun loaded_or_raise :: "auth_load_result \<Rightarrow> stored_auth result" where
  "loaded_or_raise (AuthLoaded a) = Inr a"
| "loaded_or_raise AuthAbsent = Inl (EnjiHttpError ''AUTH_REQUIRED'' ''auth file does not exist'')"
| "loaded_or_raise AuthClockAnomaly =
     Inl (EnjiHttpError ''AUTH_CLOCK_ANOMALY'' ''auth file imported_at is in the future'')"
| "loaded_or_raise (AuthCorrupt detail) =
     Inl (EnjiHttpError ''AUTH_CORRUPT'' (''auth file is corrupt: '' @ detail))"
| "loaded_or_raise (AuthUnsupported version) =
     Inl (EnjiHttpError ''AUTH_UNSUPPORTED'' ''auth file version is unsupported'')"
| "loaded_or_raise (AuthIoFailure operation err) =
     Inl (EnjiHttpError ''AUTH_IO_FAILURE'' (operation @ '' failed: '' @ err))"

fun current_revision :: "auth_load_result \<Rightarrow> string option" where
  "current_revision (AuthLoaded a) = Some (revision a)"
| "current_revision _ = None"

definition outbox_record_of :: "rotation_state \<Rightarrow> outbox_record result" where
  "outbox_record_of s = (case rotation_event_metadata s of
       Some (outcome, key) \<Rightarrow> Inr \<lparr>record_outcome = outcome, record_key = key\<rparr>
     | None \<Rightarrow> Inl (AssertionError ''state has no terminal outcome''))"

fun journal_error_message :: "journal_load_result \<Rightarrow> string" where
  "journal_error_message (JournalCorrupt detail) = ''refresh journal is corrupt: '' @ detail"
| "journal_error_message (JournalIoFailure operation err) = operation @ '' failed: '' @ err"
| "journal_error_message _ = []"

definition is_superseded :: "string \<Rightarrow> bool auth_io" where
  "is_superseded source = bindM load_auth (\<lambda>loaded. retM (current_revision loaded \<noteq> Some source))"

definition reload_or_raise :: "stored_auth auth_io" where
  "reload_or_raise = bindM load_auth (\<lambda>loaded. liftM (loaded_or_raise loaded))"

text \<open>\<open>transition(state, event).state\<close>, with the assertion on the class of the new state.\<close>

definition step_to :: "rotation_state \<Rightarrow> rotation_event \<Rightarrow> rotation_state auth_io" where
  "step_to s e = liftM (case transition s e of Inl x \<Rightarrow> Inl x | Inr t \<Rightarrow> Inr (next_state t))"

definition assertM :: "bool \<Rightarrow> unit auth_io" where
  "assertM b = (if b then retM () else throwM (AssertionError []))"

definition recovery_deadline_now :: "string auth_io" where
  "recovery_deadline_now = bindM now (\<lambda>t. retM (recovery_deadline_from t))"

text \<open>The merged cookie header, when the response carries both auth cookies; malformed cookie
  data is no success.\<close>

definition is_cookie_failure :: "exn \<Rightarrow> bool" where
  "is_cookie_failure e = (is_value_error e \<or> (case e of CookieError _ \<Rightarrow> True | _ \<Rightarrow> False))"

definition successful_replacement ::
  "coordinator_env \<Rightarrow> int \<Rightarrow> stored_auth \<Rightarrow> http_response \<Rightarrow> string option result" where
  "successful_replacement env t source r =
     (if status_code r \<noteq> HTTP_OK then Inr None
      else (case auth_credential source of
          BearerTokenCredential _ \<Rightarrow> Inr None
        | CookieCredential header \<Rightarrow>
            (case bindR (set_cookie_names (set_cookie_headers r)) (\<lambda>names.
                if \<not> {''access_token'', ''refresh_token''} \<subseteq> set names then Inr None
                else bindR (merge_set_cookie_headers (http_date env) t header (set_cookie_headers r))
                       (\<lambda>(merged, _). Inr (Some merged))) of
               Inr v \<Rightarrow> Inr v
             | Inl e \<Rightarrow> if is_cookie_failure e then Inr None else Inl e)))"

subsection \<open>Diagnostics\<close>

definition bounded_header :: "(string \<times> string) list \<Rightarrow> string \<Rightarrow> string option" where
  "bounded_header headers name = (case find (\<lambda>(k, _). py_casefold k = name) headers of
       None \<Rightarrow> None
     | Some (_, raw) \<Rightarrow> if py_strip raw = [] then None else Some (take 256 (py_strip raw)))"

definition opt_member :: "string \<Rightarrow> string option \<Rightarrow> members" where
  "opt_member k v = (case v of None \<Rightarrow> [] | Some x \<Rightarrow> [(k, JStr x)])"

text \<open>\<open>int(delta.total_seconds())\<close> truncates towards zero.\<close>

definition whole_seconds :: "int \<Rightarrow> int" where
  "whole_seconds micros = (if micros < 0 then - ((- micros) div 1000000) else micros div 1000000)"

definition refresh_diagnostic_fields ::
  "coordinator_env \<Rightarrow> stored_auth \<Rightarrow> http_response option \<Rightarrow> string option \<Rightarrow> int \<Rightarrow> members result" where
  "refresh_diagnostic_fields env source response replacement t =
     (case auth_credential source of
        BearerTokenCredential _ \<Rightarrow> Inr []
      | CookieCredential header \<Rightarrow>
          bindR (cookie_value header ''access_token'') (\<lambda>access.
          bindR (case access of None \<Rightarrow> Inr None | Some token \<Rightarrow> jwt_expires_at (jwt_payload env) token) (\<lambda>expiry.
          bindR (case replacement of
                   None \<Rightarrow> Inr (None, None)
                 | Some rep \<Rightarrow> bindR (cookie_value header ''refresh_token'') (\<lambda>old.
                     bindR (cookie_value rep ''refresh_token'') (\<lambda>new. Inr (old, new)))) (\<lambda>(old, new).
            let headers = (case response of Some r \<Rightarrow> response_headers r | None \<Rightarrow> []) in
            Inr ((case expiry of Some e \<Rightarrow> [(''access_expires_in_seconds'', JInt (whole_seconds (e - t)))] | None \<Rightarrow> [])
              @ (case (old, new) of (Some x, Some y) \<Rightarrow> [(''refresh_token_changed'', JBool (x \<noteq> y))] | _ \<Rightarrow> [])
              @ opt_member ''upstream_request_id'' (bounded_header headers ''x-request-id'')
              @ opt_member ''cf_ray'' (bounded_header headers ''cf-ray''))))))"

text \<open>
  The event of one exchange.  The sink's own failures are swallowed; reading the journal,
  classifying the response and computing the diagnostic fields are not guarded.
\<close>

definition attempt_fields :: "journal_load_result \<Rightarrow> members" where
  "attempt_fields loaded = (case loaded of
       JournalLoaded _ _ (Some a) _ \<Rightarrow>
         [(''attempt_kind'', JStr (kind_text (attempt_kind a))),
          (''attempt_number'', JInt (dispatch_count a)),
          (''dispatch_budget_remaining'', JInt (max 0 (total_dispatch_cap a - dispatch_count a)))]
         @ opt_member ''next_attempt_at'' (next_attempt_at a)
         @ opt_member ''recovery_deadline'' (recovery_deadline a)
         @ opt_member ''stop_reason'' (stop_reason a)
     | _ \<Rightarrow> [])"

definition emit_refresh_observation :: "coordinator_env \<Rightarrow> stored_auth \<Rightarrow> http_response option \<Rightarrow>
    string option \<Rightarrow> rotation_outcome \<Rightarrow> string option \<Rightarrow> unit auth_io" where
  "emit_refresh_observation env source response replacement outcome successor =
     (case event_sink env of
        None \<Rightarrow> retM ()
      | Some accepts \<Rightarrow>
          bindM load_journal (\<lambda>loaded.
          bindM (liftM (case response of
                   None \<Rightarrow> Inr None
                 | Some r \<Rightarrow> bindR (normalized_response_class r) (\<lambda>c. Inr (Some c)))) (\<lambda>rclass.
          bindM now (\<lambda>t.
          bindM (liftM (refresh_diagnostic_fields env source response replacement t)) (\<lambda>diagnostics.
            let fields = [(''outcome'', JStr (outcome_text outcome)), (''source_revision'', JStr (revision source))]
                  @ attempt_fields loaded @ opt_member ''response_class'' rclass
                  @ opt_member ''successor_revision'' successor @ diagnostics in
            if accepts fields then putM (\<lambda>w. w\<lparr>observed := observed w @ [fields]\<rparr>) else retM ())))))"

subsection \<open>Terminal outcomes\<close>

text \<open>The sink answers whether it has taken the record; without a sink nothing is delivered.\<close>

definition deliver_outbox_record :: "outbox_record \<Rightarrow> bool auth_io" where
  "deliver_outbox_record r w = (case sink w of
       None \<Rightarrow> (Inr False, w)
     | Some answers \<Rightarrow>
         (case answers of
            [] \<Rightarrow> (Inr True, w\<lparr>delivered := delivered w @ [r]\<rparr>)
          | b # bs \<Rightarrow> (Inr b, w\<lparr>sink := Some bs, delivered := (if b then delivered w @ [r] else delivered w)\<rparr>)))"

definition drain_outbox :: "unit auth_io" where
  "drain_outbox = bindM load_outbox (\<lambda>outbox. case outbox of
       OutboxCorrupt detail \<Rightarrow> throwM (EnjiHttpError ''STORAGE'' (''outcome outbox is corrupt: '' @ detail))
     | OutboxIoFailure operation err \<Rightarrow> throwM (EnjiHttpError ''STORAGE'' (operation @ '' failed: '' @ err))
     | OutboxAbsent \<Rightarrow> retM ()
     | OutboxLoaded records \<Rightarrow> forM (\<lambda>r. bindM (deliver_outbox_record r) (\<lambda>taken.
         if taken then acknowledge_outcome (record_key r) else retM ())) records)"

definition outbox_contains :: "string \<Rightarrow> bool auth_io" where
  "outbox_contains key = bindM load_outbox (\<lambda>outbox. case outbox of
       OutboxCorrupt detail \<Rightarrow> throwM (EnjiHttpError ''STORAGE'' (''outcome outbox is corrupt: '' @ detail))
     | OutboxIoFailure operation err \<Rightarrow> throwM (EnjiHttpError ''STORAGE'' (operation @ '' failed: '' @ err))
     | OutboxAbsent \<Rightarrow> retM False
     | OutboxLoaded records \<Rightarrow> retM (key \<in> record_key ` set records))"

definition record_terminal_outcome :: "rotation_state \<Rightarrow> rotation_attempt \<Rightarrow> bool \<Rightarrow> unit auth_io" where
  "record_terminal_outcome s attempt enqueued =
     thenM (if enqueued then retM ()
            else bindM (liftM (outbox_record_of s)) (\<lambda>r.
                   thenM (enqueue_outcome r) (write_journal s True (Some attempt))))
    (thenM drain_outbox
       (case s of
          Rotated _ _ _ \<Rightarrow> bindM (liftM (outbox_record_of s)) (\<lambda>r.
            bindM (outbox_contains (record_key r)) (\<lambda>pending.
              if pending then retM () else delete_journal))
        | _ \<Rightarrow> retM ()))"

definition discard_rotation_state :: "rotation_state \<Rightarrow> bool \<Rightarrow> unit auth_io" where
  "discard_rotation_state s enqueued =
     thenM (if is_terminal_state s \<and> \<not> enqueued
            then bindM (liftM (outbox_record_of s)) enqueue_outcome else retM ())
       delete_journal"

subsection \<open>Preparing a dispatch\<close>

definition owned_by :: "refresh_owner \<Rightarrow> rotation_attempt \<Rightarrow> rotation_attempt" where
  "owned_by owner a = a\<lparr>continuation := None, owner_boot_id := Some (boot_id owner),
     owner_pid := Some (pid owner), owner_start_ticks := Some (start_ticks owner),
     next_attempt_at := None, stop_reason := None\<rparr>"

fun kind_lane :: "attempt_kind \<Rightarrow> lane result" where
  "kind_lane (LaneAttempt l) = Inr l"
| "kind_lane NormalAttempt = Inl (KeyError ''normal'')"

definition authorization_of :: "lane \<Rightarrow> rotation_attempt \<Rightarrow> int \<Rightarrow> int \<Rightarrow> recovery_authorization" where
  "authorization_of l a t1 t2 =
     \<lparr>continuation_lane = l, auth_dispatch_count = dispatch_count a,
      auth_safe_retry_count = safe_retry_count a, auth_validation_retry_count = validation_retry_count a,
      auth_ambiguity_replay_count = ambiguity_replay_count a,
      auth_total_dispatch_cap = total_dispatch_cap a,
      deadline_open = (\<not> deadline_passed (recovery_deadline a) t1),
      cooldown_elapsed = (seconds_until (next_attempt_at a) t2 \<le> 0)\<rparr>"

definition prepare_dispatch ::
  "coordinator_env \<Rightarrow> stored_auth \<Rightarrow> rotation_attempt \<Rightarrow> rotation_state option \<Rightarrow> preparation auth_io" where
  "prepare_dispatch env current attempt recovery_state =
     bindM (liftM (owner_fn env)) (\<lambda>owner.
     bindM (case recovery_state of
         Some s \<Rightarrow> bindM (liftM (kind_lane (attempt_kind attempt))) (\<lambda>l.
             bindM now (\<lambda>t1. bindM now (\<lambda>t2.
               step_to s (AuthorizeRecoveryDispatch (authorization_of l attempt t1 t2)))))
       | None \<Rightarrow> step_to (Ready (revision current)) (Begin (revision current))) (\<lambda>reserved.
     thenM (write_journal reserved False (Some (owned_by owner attempt)))
    (bindM (step_to reserved DispatchBegun) (\<lambda>requested.
     thenM (write_journal requested False (Some (owned_by owner attempt)))
       (retM (Dispatch current))))))"

definition next_recovery :: "rotation_attempt \<Rightarrow> rotation_attempt option auth_io" where
  "next_recovery a =
     (if \<not> is_scheduled (continuation a) \<or> dispatch_count a \<ge> total_dispatch_cap a then retM None
      else bindM now (\<lambda>t. retM (next_recovery_attempt a t)))"

text \<open>The attempt that has no further dispatch: its scheduled time is left as it is.\<close>

definition stopped_attempt :: "rotation_attempt \<Rightarrow> rotation_attempt" where
  "stopped_attempt a = a\<lparr>continuation := Some Stop, owner_boot_id := None, owner_pid := None,
     owner_start_ticks := None, stop_reason := Some (or_str (stop_reason a) ''recovery-budget-exhausted'')\<rparr>"

definition recover_unknown ::
  "coordinator_env \<Rightarrow> stored_auth \<Rightarrow> rotation_state \<Rightarrow> rotation_attempt \<Rightarrow> preparation auth_io" where
  "recover_unknown env current s attempt =
     bindM (next_recovery attempt) (\<lambda>following. case following of
         None \<Rightarrow> thenM (write_journal s False (Some (stopped_attempt attempt)))
                  (retM (WaitForRevision (source_revision s)))
       | Some next_attempt \<Rightarrow>
           bindM now (\<lambda>t. let retry_after = seconds_until (next_attempt_at next_attempt) t in
             if retry_after > 0
             then throwM (RecoveryRequired (source_revision s)
                    (case continuation next_attempt of Some c \<Rightarrow> continuation_text c | None \<Rightarrow> []) retry_after)
             else prepare_dispatch env current next_attempt (Some s)))"

definition owner_alive :: "coordinator_env \<Rightarrow> rotation_attempt \<Rightarrow> bool" where
  "owner_alive env attempt = (case attempt_owner attempt of
       Some owner \<Rightarrow> owner_alive_fn env owner | None \<Rightarrow> False)"

text \<open>The abandoned dispatch becomes an unknown outcome with its schedule.\<close>

definition mark_unknown :: "rotation_state \<Rightarrow> rotation_attempt \<Rightarrow> string
    \<Rightarrow> (rotation_state \<times> rotation_attempt) auth_io" where
  "mark_unknown s attempt reason =
     bindM (step_to s (ExchangeOutcomeUnknown reason)) (\<lambda>unknown.
     bindM recovery_deadline_now (\<lambda>deadline.
     bindM now (\<lambda>t. let unknown_attempt = with_continuation attempt AmbiguityReplay deadline t in
       thenM (write_journal unknown False (Some unknown_attempt))
      (thenM (record_terminal_outcome unknown unknown_attempt False)
         (retM (unknown, unknown_attempt))))))"

definition recover_requested ::
  "coordinator_env \<Rightarrow> stored_auth \<Rightarrow> rotation_state \<Rightarrow> rotation_attempt \<Rightarrow> preparation auth_io" where
  "recover_requested env current s attempt =
     (if owner_alive env attempt then retM (WaitForRevision (source_revision s))
      else bindM (mark_unknown s attempt ''interrupted after refresh dispatch'')
        (\<lambda>(unknown, unknown_attempt). recover_unknown env current unknown unknown_attempt))"

definition recover_rotated :: "rotation_state \<Rightarrow> rotation_attempt \<Rightarrow> bool \<Rightarrow> stored_auth auth_io" where
  "recover_rotated s attempt enqueued = (case s of
       Rotated source replacement successor \<Rightarrow>
         bindM (cas_replace_cookie source replacement (Some successor)) (\<lambda>recovered. case recovered of
             CasWritten a \<Rightarrow> thenM (record_terminal_outcome s attempt enqueued) (retM a)
           | CasSuperseded _ \<Rightarrow> reload_or_raise)
     | _ \<Rightarrow> throwM (AssertionError []))"

definition recover_matching_state :: "coordinator_env \<Rightarrow> stored_auth \<Rightarrow> rotation_state
    \<Rightarrow> rotation_attempt \<Rightarrow> bool \<Rightarrow> preparation option auth_io" where
  "recover_matching_state env current s attempt enqueued = (case s of
       Rotated _ _ _ \<Rightarrow> bindM (recover_rotated s attempt enqueued) (\<lambda>a. retM (Some (ReturnAuth a)))
     | Reserved _ \<Rightarrow> thenM delete_journal (retM None)
     | Requested _ \<Rightarrow> bindM (recover_requested env current s attempt) (\<lambda>p. retM (Some p))
     | OutcomeUnknown _ _ \<Rightarrow>
         thenM (record_terminal_outcome s attempt enqueued)
           (bindM (recover_unknown env current s attempt) (\<lambda>p. retM (Some p)))
     | Rejected source _ \<Rightarrow>
         thenM (record_terminal_outcome s attempt enqueued) (retM (Some (WaitForRevision source)))
     | Ready _ \<Rightarrow> retM None)"

definition recover_or_wait :: "coordinator_env \<Rightarrow> stored_auth \<Rightarrow> preparation option auth_io" where
  "recover_or_wait env current = bindM load_journal (\<lambda>journal. case journal of
       JournalCorrupt _ \<Rightarrow> throwM (EnjiHttpError ''STORAGE'' (journal_error_message journal))
     | JournalIoFailure _ _ \<Rightarrow> throwM (EnjiHttpError ''STORAGE'' (journal_error_message journal))
     | JournalAbsent \<Rightarrow> retM None
     | JournalLoaded s enqueued opt_attempt _ \<Rightarrow>
         (case opt_attempt of
            None \<Rightarrow> throwM (EnjiHttpError ''STORAGE'' ''refresh journal is missing its recovery budget'')
          | Some attempt \<Rightarrow>
              (case s of
                 Ready _ \<Rightarrow> throwM (EnjiHttpError ''STORAGE'' ''refresh journal contains an invalid ready state'')
               | _ \<Rightarrow>
                  if state_successor s = Some (revision current)
                  then thenM (record_terminal_outcome s attempt enqueued) (retM (Some (ReturnAuth current)))
                  else if source_revision s \<noteq> revision current
                  then thenM (discard_rotation_state s enqueued) (retM None)
                  else recover_matching_state env current s attempt enqueued)))"

definition initial_attempt :: "string \<Rightarrow> string \<Rightarrow> rotation_attempt" where
  "initial_attempt r deadline = (new_attempt r NormalAttempt 1)\<lparr>recovery_deadline := Some deadline\<rparr>"

definition prepare_locked :: "coordinator_env \<Rightarrow> string option \<Rightarrow> preparation auth_io" where
  "prepare_locked env expected =
     bindM load_auth (\<lambda>loaded.
     bindM (liftM (loaded_or_raise loaded)) (\<lambda>current. case auth_credential current of
         BearerTokenCredential _ \<Rightarrow>
           throwM (EnjiHttpError ''AUTH_REQUIRED'' ''stored credential is not cookie based'')
       | CookieCredential _ \<Rightarrow>
           bindM (recover_or_wait env current) (\<lambda>journal_preparation. case journal_preparation of
               Some p \<Rightarrow> retM p
             | None \<Rightarrow>
                 thenM drain_outbox
                   (if expected \<noteq> None \<and> Some (revision current) \<noteq> expected
                    then retM (ReturnAuth current)
                    else bindM recovery_deadline_now (\<lambda>deadline.
                      prepare_dispatch env current (initial_attempt (revision current) deadline) None)))))"

definition prepare :: "coordinator_env \<Rightarrow> string option \<Rightarrow> preparation auth_io" where
  "prepare env expected = auth_file_lock (prepare_locked env expected)"

subsection \<open>Committing an exchange\<close>

fun is_ready :: "rotation_state \<Rightarrow> bool" where
  "is_ready (Ready _) = True"
| "is_ready _ = False"

definition attempt_for_source :: "string \<Rightarrow> rotation_attempt auth_io" where
  "attempt_for_source source = bindM load_journal (\<lambda>journal. retM (case journal of
       JournalLoaded s _ (Some attempt) _ \<Rightarrow>
         if \<not> is_ready s \<and> source_revision s = source then attempt
         else new_attempt source NormalAttempt 1
     | _ \<Rightarrow> new_attempt source NormalAttempt 1))"

text \<open>The body of \<open>_commit_success\<close> under the lock.\<close>

definition persist_rotated :: "rotation_state \<Rightarrow> stored_auth auth_io" where
  "persist_rotated s = (case s of
       Rotated source replacement successor \<Rightarrow>
         bindM (is_superseded source) (\<lambda>superseded.
           if superseded then reload_or_raise
           else bindM (attempt_for_source source) (\<lambda>found. let attempt = without_owner found in
             thenM (write_journal s False (Some attempt))
            (bindM (cas_replace_cookie source replacement (Some successor)) (\<lambda>result. case result of
                CasWritten a \<Rightarrow> thenM (record_terminal_outcome s attempt False) (retM a)
              | CasSuperseded _ \<Rightarrow> reload_or_raise))))
     | _ \<Rightarrow> throwM (AssertionError []))"

definition commit_success ::
  "coordinator_env \<Rightarrow> stored_auth \<Rightarrow> string \<Rightarrow> http_response \<Rightarrow> stored_auth auth_io" where
  "commit_success env source cookie_header r =
     bindM fresh_uuid (\<lambda>successor_revision.
     bindM (step_to (Requested (revision source)) (ExchangeSucceeded cookie_header successor_revision)) (\<lambda>rotated.
     thenM (emit_refresh_observation env source (Some r) (Some cookie_header) RotatedOutcome
              (Some successor_revision))
    (bindM (make_stored_auth (base_url source) (CookieCredential cookie_header) (Some successor_revision))
       (\<lambda>successor.
         handleM (auth_file_lock (persist_rotated rotated)) is_os_error
           (\<lambda>_. throwM (PostDispatchPersistence (revision source) (revision successor) (base_url successor)
                          cookie_header (imported_at successor)))))))"

definition commit_rejected :: "string \<Rightarrow> string \<Rightarrow> stored_auth auth_io" where
  "commit_rejected source reason =
     bindM (auth_file_lock (bindM (is_superseded source) (\<lambda>superseded.
       if superseded then bindM reload_or_raise (\<lambda>a. retM (Some a))
       else bindM (step_to (Requested source) (ExchangeRejected reason)) (\<lambda>s.
            bindM (attempt_for_source source) (\<lambda>found. let attempt = without_owner found in
              thenM (write_journal s False (Some attempt))
             (thenM (record_terminal_outcome s attempt False) (retM None)))))))
     (\<lambda>returned. case returned of
         Some a \<Rightarrow> retM a
       | None \<Rightarrow> throwM (TerminalRevisionRequired source ''stored refresh cookie is not authenticated''))"

text \<open>The body of \<open>_commit_unknown\<close> under the lock: the superseding credential, or the
  attempt that was recorded.\<close>

definition persist_unknown :: "coordinator_env \<Rightarrow> string \<Rightarrow> string \<Rightarrow> lane
    \<Rightarrow> (stored_auth \<times> http_response) option \<Rightarrow> (stored_auth + rotation_attempt) auth_io" where
  "persist_unknown env source reason l observation =
     bindM (is_superseded source) (\<lambda>superseded.
       if superseded then bindM reload_or_raise (\<lambda>a. retM (Inl a))
       else bindM (step_to (Requested source) (ExchangeOutcomeUnknown reason)) (\<lambda>s.
            bindM (attempt_for_source source) (\<lambda>found.
            bindM recovery_deadline_now (\<lambda>deadline.
            bindM now (\<lambda>t.
            bindM (liftM (case observation of
                     None \<Rightarrow> Inr None
                   | Some (_, r) \<Rightarrow> bindR (normalized_response_class r) (\<lambda>c. Inr (Some c)))) (\<lambda>rclass.
              let attempt = (with_continuation found l deadline t)\<lparr>response_class := rclass\<rparr> in
              thenM (write_journal s False (Some attempt))
             (thenM (case observation of
                       None \<Rightarrow> retM ()
                     | Some (a, r) \<Rightarrow> emit_refresh_observation env a (Some r) None UnknownOutcome None)
             (thenM (record_terminal_outcome s attempt False) (retM (Inr attempt))))))))))"

definition commit_unknown :: "coordinator_env \<Rightarrow> string \<Rightarrow> string \<Rightarrow> lane
    \<Rightarrow> (stored_auth \<times> http_response) option \<Rightarrow> stored_auth auth_io" where
  "commit_unknown env source reason l observation =
     bindM (auth_file_lock (persist_unknown env source reason l observation)) (\<lambda>r. case r of
         Inl a \<Rightarrow> retM a
       | Inr attempt \<Rightarrow>
           if continuation attempt = Some Stop
           then throwM (TerminalRevisionRequired source
                  ''refresh recovery is exhausted; import a fresh browser credential'')
           else throwM (RecoveryRequired source (lane_text l) 0))"

definition commit_response :: "coordinator_env \<Rightarrow> stored_auth \<Rightarrow> http_response \<Rightarrow> stored_auth auth_io" where
  "commit_response env source r =
     bindM now (\<lambda>t.
     bindM (liftM (successful_replacement env t source r)) (\<lambda>replacement. case replacement of
         Some cookie_header \<Rightarrow> commit_success env source cookie_header r
       | None \<Rightarrow>
           bindM (liftM (response_continuation r)) (\<lambda>c. case c of
               Stop \<Rightarrow>
                 thenM (emit_refresh_observation env source (Some r) None RejectedOutcome None)
                   (commit_rejected (revision source)
                     (''refresh rejected with HTTP '' @ show_int (status_code r)))
             | Continue l \<Rightarrow>
                 commit_unknown env (revision source)
                   (''refresh response HTTP '' @ show_int (status_code r)) l (Some (source, r)))))"

subsection \<open>Recovery without a request\<close>

definition retained_rotated_state :: "retained_successor \<Rightarrow> rotation_state result" where
  "retained_rotated_state retained = (case auth_credential (retained_auth retained) of
       CookieCredential header \<Rightarrow>
         Inr (Rotated (retained_source retained) header (revision (retained_auth retained)))
     | BearerTokenCredential _ \<Rightarrow>
         Inl (EnjiHttpError ''AUTH_UNSUPPORTED'' ''retained refresh successor is not cookie based''))"

definition projected_auth_or_none :: "auth_load_result \<Rightarrow> retained_successor \<Rightarrow> stored_auth option" where
  "projected_auth_or_none loaded retained = (case loaded of
       AuthLoaded a \<Rightarrow> if revision a = revision (retained_auth retained) then Some a else None
     | _ \<Rightarrow> None)"

definition project_locked :: "retained_successor \<Rightarrow> projection auth_io" where
  "project_locked retained =
     bindM load_auth (\<lambda>loaded.
     bindM (liftM (retained_rotated_state retained)) (\<lambda>s.
     bindM (attempt_for_source (retained_source retained)) (\<lambda>found. let attempt = without_owner found in
       case projected_auth_or_none loaded retained of
         Some a \<Rightarrow> thenM (record_terminal_outcome s attempt False) (retM (SuccessorProjected a))
       | None \<Rightarrow>
           if current_revision loaded \<noteq> Some (retained_source retained)
           then retM (SuccessorSuperseded (current_revision loaded))
           else thenM (write_journal s False (Some attempt))
            (case s of
               Rotated source replacement successor \<Rightarrow>
                 bindM (cas_replace_cookie source replacement (Some successor)) (\<lambda>result. case result of
                     CasWritten a \<Rightarrow> thenM (record_terminal_outcome s attempt False) (retM (SuccessorProjected a))
                   | CasSuperseded r \<Rightarrow> retM (SuccessorSuperseded r))
             | _ \<Rightarrow> throwM (AssertionError [])))))"

definition project_retained_successor :: "retained_successor \<Rightarrow> projection auth_io" where
  "project_retained_successor retained = auth_file_lock (project_locked retained)"

definition recover_startup_journal :: "coordinator_env \<Rightarrow> stored_auth \<Rightarrow> stored_auth auth_io" where
  "recover_startup_journal env current = bindM load_journal (\<lambda>journal. case journal of
       JournalLoaded s enqueued opt_attempt _ \<Rightarrow>
         (case opt_attempt of
            None \<Rightarrow> throwM (EnjiHttpError ''STORAGE'' ''refresh journal is missing its recovery budget'')
          | Some attempt \<Rightarrow>
              if is_ready s
              then throwM (EnjiHttpError ''STORAGE'' ''refresh journal contains an invalid ready state'')
              else if state_successor s = Some (revision current)
              then thenM (record_terminal_outcome s attempt enqueued) (retM current)
              else if source_revision s \<noteq> revision current
              then thenM (discard_rotation_state s enqueued) (retM current)
              else (case s of
                  Rotated _ _ _ \<Rightarrow> recover_rotated s attempt enqueued
                | Reserved _ \<Rightarrow> thenM delete_journal (retM current)
                | Requested _ \<Rightarrow>
                    if owner_alive env attempt then retM current
                    else bindM (mark_unknown s attempt ''process exited after refresh dispatch'')
                           (\<lambda>_. retM current)
                | _ \<Rightarrow> thenM (record_terminal_outcome s attempt enqueued) (retM current)))
     | _ \<Rightarrow> retM current)"

definition recover_startup :: "coordinator_env \<Rightarrow> stored_auth option auth_io" where
  "recover_startup env = auth_file_lock (bindM load_auth (\<lambda>loaded. case loaded of
       AuthLoaded current \<Rightarrow>
         thenM drain_outbox (bindM (recover_startup_journal env current) (\<lambda>a. retM (Some a)))
     | _ \<Rightarrow> retM None))"

definition import_credential :: "stored_auth \<Rightarrow> stored_auth auth_io" where
  "import_credential a = auth_file_lock
     (thenM (write_auth_file a)
     (bindM load_journal (\<lambda>journal.
       thenM (case journal of
           JournalLoaded s enqueued _ _ \<Rightarrow>
             if is_terminal_state s \<and> \<not> enqueued
             then bindM (liftM (outbox_record_of s)) enqueue_outcome else retM ()
         | _ \<Rightarrow> retM ())
      (thenM delete_journal (retM a)))))"

subsection \<open>One refresh\<close>

datatype exchange_outcome = Responded http_response | Raised exn | Cancelled

fun os_error_name :: "exn \<Rightarrow> string" where
  "os_error_name (FileNotFoundError _) = ''FileNotFoundError''"
| "os_error_name (TimeoutError _) = ''TimeoutError''"
| "os_error_name (PreDispatchLocal _) = ''PreDispatchLocalError''"
| "os_error_name _ = ''OSError''"

definition begin_exchange :: "stored_auth \<Rightarrow> unit auth_io" where
  "begin_exchange a = putM (\<lambda>w. w\<lparr>posts := posts w @ [revision a]\<rparr>)"

text \<open>What follows the exchange: the outcome is whatever the network seam returned or raised.\<close>

definition commit_outcome :: "coordinator_env \<Rightarrow> stored_auth \<Rightarrow> exchange_outcome \<Rightarrow> stored_auth auth_io" where
  "commit_outcome env a outcome = (case outcome of
       Cancelled \<Rightarrow>
         thenM (handleM
             (thenM (emit_refresh_observation env a None None UnknownOutcome None)
               (thenM (commit_unknown env (revision a) ''refresh task cancelled'' AmbiguityReplay None) (retM ())))
             (\<lambda>e. enji_code e \<in> {Some ''AUTH_IMPORT_REQUIRED'', Some ''AUTH_RECOVERY_PENDING''})
             (\<lambda>_. retM ()))
           (throwM CancelledError)
     | Raised e \<Rightarrow>
         (case enji_code e of
            Some code \<Rightarrow>
              thenM (emit_refresh_observation env a None None UnknownOutcome None)
                (commit_unknown env (revision a) (''transport failure: '' @ code) AmbiguityReplay None)
          | None \<Rightarrow>
              if is_os_error e
              then thenM (emit_refresh_observation env a None None UnknownOutcome None)
                (commit_unknown env (revision a) (''transport failure: '' @ os_error_name e) AmbiguityReplay None)
              else throwM e)
     | Responded r \<Rightarrow>
         handleM (commit_response env a r) is_os_error
           (\<lambda>_. throwM (TerminalRevisionRequired (revision a)
                  ''refresh dispatch completed; import a fresh browser credential'')))"

definition prepare_or_local_failure :: "coordinator_env \<Rightarrow> string option \<Rightarrow> preparation auth_io" where
  "prepare_or_local_failure env expected =
     handleM (prepare env expected) is_os_error (\<lambda>e. throwM (PreDispatchLocal (exn_text e)))"

text \<open>
  \<open>wait_for_terminal_revision\<close>: what each poll finds, in order: the revision that was read, the
  credential that is loaded when it has changed, and the time that remains.  A list that ends
  before the deadline is a wait that has not returned yet.
\<close>

fun wait_for_terminal_revision ::
  "string \<Rightarrow> (string option \<times> auth_load_result \<times> int) list \<Rightarrow> stored_auth result option" where
  "wait_for_terminal_revision source [] = None"
| "wait_for_terminal_revision source ((found, loaded, remaining) # polls) =
     (case (found \<noteq> None \<and> found \<noteq> Some source, loaded) of
        (True, AuthLoaded a) \<Rightarrow> Some (Inr a)
      | _ \<Rightarrow> if remaining \<le> 0
             then Some (Inl (TerminalRevisionRequired source
                    ''refresh outcome is terminal; import a fresh browser credential''))
             else wait_for_terminal_revision source polls)"

text \<open>
  \<open>refresh\<close> with the outcome of the exchange and the polls of the wait it may need; \<open>None\<close> is a
  wait that has not returned.
\<close>

definition refresh :: "coordinator_env \<Rightarrow> string option \<Rightarrow> (stored_auth \<Rightarrow> exchange_outcome)
    \<Rightarrow> (string option \<times> auth_load_result \<times> int) list \<Rightarrow> stored_auth option auth_io" where
  "refresh env expected exchange polls =
     bindM (prepare_or_local_failure env expected) (\<lambda>prepared. case prepared of
         ReturnAuth a \<Rightarrow> retM (Some a)
       | WaitForRevision source \<Rightarrow>
           (case wait_for_terminal_revision source polls of
              None \<Rightarrow> retM None
            | Some r \<Rightarrow> bindM (liftM r) (\<lambda>a. retM (Some a)))
       | Dispatch a \<Rightarrow>
           thenM (begin_exchange a) (bindM (commit_outcome env a (exchange a)) (\<lambda>b. retM (Some b))))"

end
