(* ===== verification/Auth_Frames.thy ===== *)
theory Auth_Frames
  imports Auth_Coordinator
begin

section \<open>What the operations leave alone\<close>

text \<open>
  A relation between the world before and after that every primitive step keeps is kept by
  the composed operations.  The locales collect the primitive steps a group of operations is
  built from; their interpretations are the frames of the model: which operation writes which
  file, that no operation but the exchange posts, and that no outcome record is lost.
\<close>

subsection \<open>The environment steps\<close>

locale world_frame =
  fixes R :: "auth_world \<Rightarrow> auth_world \<Rightarrow> bool"
  assumes preorder: "preorder_rel R"
    and now_kept: "keeps R now"
    and uuid_kept: "keeps R fresh_uuid"
    and trigger_kept: "keeps R (trigger operation)"
begin

lemmas intros = keeps_basic [OF preorder] keeps_bindM [OF preorder] keeps_thenM [OF preorder]
  keeps_handleM [OF preorder] keeps_finallyM [OF preorder] keeps_forM [OF preorder]
  now_kept uuid_kept trigger_kept

lemma pure_kept: "(\<And>w. snd (m w) = w) \<Longrightarrow> keeps R m"
  using preorder by (simp add: keeps_def preorder_rel_def)

lemma load_auth_kept: "keeps R load_auth"
  unfolding load_auth_def by (intro intros)

lemma load_journal_kept: "keeps R load_journal"
  by (rule pure_kept) (simp add: load_journal_def)

lemma load_outbox_kept: "keeps R load_outbox"
  by (rule pure_kept) (simp add: load_outbox_def)

lemma make_stored_auth_kept: "keeps R (make_stored_auth base c given)"
  unfolding make_stored_auth_def by (cases given) (auto intro!: intros)

lemma auth_file_lock_kept: "keeps R body \<Longrightarrow> keeps R (auth_file_lock body)"
  unfolding auth_file_lock_def by (intro intros)

lemma is_superseded_kept: "keeps R (is_superseded source)"
  unfolding is_superseded_def by (intro intros load_auth_kept)

lemma reload_kept: "keeps R reload_or_raise"
  unfolding reload_or_raise_def by (intro intros load_auth_kept)

lemma step_to_kept: "keeps R (step_to s e)"
  unfolding step_to_def by (intro intros)

lemma deadline_kept: "keeps R recovery_deadline_now"
  unfolding recovery_deadline_now_def by (intro intros)

lemma outbox_contains_kept: "keeps R (outbox_contains key)"
  unfolding outbox_contains_def
  by (intro intros load_outbox_kept) (auto split: outbox_load_result.split intro: intros)

lemma attempt_for_source_kept: "keeps R (attempt_for_source source)"
  unfolding attempt_for_source_def by (intro intros load_journal_kept)

lemma next_recovery_kept: "keeps R (next_recovery a)"
  unfolding next_recovery_def by (auto intro!: intros)

lemma emit_from:
  assumes "\<And>event. keeps R (putM (\<lambda>w. w\<lparr>observed := observed w @ [event]\<rparr>))"
  shows "keeps R (emit_refresh_observation env source response replacement outcome successor)"
  unfolding emit_refresh_observation_def Let_def
  by (cases "event_sink env") (auto intro!: intros load_journal_kept assms)

lemmas loads_kept = load_auth_kept load_journal_kept load_outbox_kept make_stored_auth_kept
  is_superseded_kept reload_kept step_to_kept deadline_kept outbox_contains_kept
  attempt_for_source_kept next_recovery_kept

end

subsection \<open>The journal and the outbox\<close>

locale journal_frame = world_frame +
  assumes write_journal_kept: "keeps R (write_journal s enqueued attempt)"
    and delete_journal_kept: "keeps R delete_journal"
    and enqueue_kept: "outbox_record_of s = Inr r \<Longrightarrow> keeps R (enqueue_outcome r)"
    and drain_kept: "keeps R drain_outbox"
begin

lemma with_record_kept:
  "(\<And>r. outbox_record_of s = Inr r \<Longrightarrow> keeps R (f r)) \<Longrightarrow> keeps R (bindM (liftM (outbox_record_of s)) f)"
  using preorder by (cases "outbox_record_of s") (auto simp: keeps_def throwM_def preorder_rel_def)

lemma enqueue_record_kept: "keeps R (bindM (liftM (outbox_record_of s)) enqueue_outcome)"
  by (rule with_record_kept) (rule enqueue_kept)

lemma record_terminal_outcome_kept: "keeps R (record_terminal_outcome s attempt enqueued)"
  unfolding record_terminal_outcome_def
  by (cases s) (auto intro!: intros with_record_kept loads_kept write_journal_kept delete_journal_kept
      enqueue_kept drain_kept)

lemma discard_kept: "keeps R (discard_rotation_state s enqueued)"
  unfolding discard_rotation_state_def
  by (auto intro!: intros delete_journal_kept enqueue_record_kept)

lemma prepare_dispatch_kept: "keeps R (prepare_dispatch env current attempt recovery_state)"
  unfolding prepare_dispatch_def
  by (cases recovery_state) (auto intro!: intros loads_kept write_journal_kept)

lemma recover_unknown_kept: "keeps R (recover_unknown env current s attempt)"
  unfolding recover_unknown_def Let_def
  by (intro intros loads_kept)
     (auto split: option.split intro!: intros loads_kept write_journal_kept prepare_dispatch_kept)

lemma mark_unknown_kept: "keeps R (mark_unknown s attempt reason)"
  unfolding mark_unknown_def Let_def
  by (intro intros loads_kept write_journal_kept record_terminal_outcome_kept)

lemma recover_requested_kept: "keeps R (recover_requested env current s attempt)"
  unfolding recover_requested_def
  by (auto intro!: intros mark_unknown_kept recover_unknown_kept)

lemmas journal_ops_kept = loads_kept write_journal_kept delete_journal_kept enqueue_record_kept drain_kept
  record_terminal_outcome_kept discard_kept prepare_dispatch_kept recover_unknown_kept
  mark_unknown_kept recover_requested_kept

end

subsection \<open>The credential file\<close>

locale coordinator_frame = journal_frame +
  assumes cas_kept: "keeps R (cas_replace_cookie source replacement successor)"
    and observe_kept: "keeps R (putM (\<lambda>w. w\<lparr>observed := observed w @ [event]\<rparr>))"
begin

lemma emit_kept: "keeps R (emit_refresh_observation env source response replacement outcome successor)"
  by (rule emit_from) (rule observe_kept)

lemma recover_rotated_kept: "keeps R (recover_rotated s attempt enqueued)"
  unfolding recover_rotated_def
  by (cases s) (auto intro!: intros journal_ops_kept cas_kept split: cas_result.split)

lemma recover_matching_kept: "keeps R (recover_matching_state env current s attempt enqueued)"
  unfolding recover_matching_state_def
  by (cases s) (auto intro!: intros journal_ops_kept recover_rotated_kept)

lemma recover_or_wait_kept: "keeps R (recover_or_wait env current)"
  unfolding recover_or_wait_def
  by (intro intros loads_kept)
     (auto split: journal_load_result.split option.split rotation_state.split
       intro!: intros journal_ops_kept recover_matching_kept)

lemma prepare_kept: "keeps R (prepare env expected)"
  unfolding prepare_def prepare_locked_def
  by (intro auth_file_lock_kept intros loads_kept)
     (auto split: credential.split option.split intro!: intros journal_ops_kept recover_or_wait_kept)

lemma persist_rotated_kept: "keeps R (persist_rotated s)"
  unfolding persist_rotated_def Let_def
  by (cases s) (auto intro!: intros journal_ops_kept cas_kept split: cas_result.split)

lemma commit_success_kept: "keeps R (commit_success env source header r)"
  unfolding commit_success_def
  by (intro intros loads_kept emit_kept auth_file_lock_kept persist_rotated_kept)

lemma commit_rejected_kept: "keeps R (commit_rejected source reason)"
  unfolding commit_rejected_def Let_def
  by (intro intros auth_file_lock_kept) (auto intro!: intros journal_ops_kept split: option.split)

lemma commit_unknown_kept: "keeps R (commit_unknown env source reason l observation)"
  unfolding commit_unknown_def persist_unknown_def Let_def
  by (intro intros auth_file_lock_kept)
     (auto intro!: intros journal_ops_kept emit_kept split: option.split sum.split)

lemma commit_response_kept: "keeps R (commit_response env source r)"
  unfolding commit_response_def
  by (intro intros)
     (auto intro!: intros commit_success_kept emit_kept commit_rejected_kept commit_unknown_kept
       split: option.split continuation.split)

lemma commit_outcome_kept: "keeps R (commit_outcome env a outcome)"
  unfolding commit_outcome_def
  by (auto intro!: intros commit_response_kept emit_kept commit_unknown_kept
      split: exchange_outcome.split option.split)

lemma project_kept: "keeps R (project_retained_successor retained)"
  unfolding project_retained_successor_def project_locked_def Let_def
  by (intro auth_file_lock_kept intros loads_kept)
     (auto split: option.split rotation_state.split cas_result.split
       intro!: intros journal_ops_kept cas_kept)

lemma recover_startup_kept: "keeps R (recover_startup env)"
  unfolding recover_startup_def recover_startup_journal_def
  by (intro auth_file_lock_kept intros loads_kept)
     (auto split: auth_load_result.split journal_load_result.split option.split rotation_state.split
       intro!: intros journal_ops_kept recover_rotated_kept)

lemma import_kept:
  assumes "\<And>a. keeps R (write_auth_file a)"
  shows "keeps R (import_credential a)"
  unfolding import_credential_def
  by (intro auth_file_lock_kept intros loads_kept assms)
     (auto split: journal_load_result.split intro!: intros journal_ops_kept)

end

subsection \<open>Primitive steps\<close>

text \<open>A function of the world that a step does not change.\<close>

definition same :: "(auth_world \<Rightarrow> 'a) \<Rightarrow> auth_world \<Rightarrow> auth_world \<Rightarrow> bool" where
  "same f w t \<longleftrightarrow> f t = f w"

lemma same_preorder: "preorder_rel (same f)"
  by (simp add: preorder_rel_def same_def)

lemma environment_run:
  "snd (now w) = w\<lparr>clock := (case clock w of a # b # c \<Rightarrow> b # c | c \<Rightarrow> c)\<rparr>"
  "snd (fresh_uuid w) = w\<lparr>uuid_next := Suc (uuid_next w)\<rparr>"
  "snd (trigger operation w) = w\<lparr>faults := tl (faults w)\<rparr>"
  by (auto simp: now_def fresh_uuid_def trigger_def split: list.split)

lemma on_slot_run:
  "snd (on_auth m w) = w\<lparr>auth_slot := fst (snd (m (auth_slot w, faults w))),
     faults := snd (snd (m (auth_slot w, faults w)))\<rparr>"
  "snd (on_journal m' w) = w\<lparr>journal_slot := fst (snd (m' (journal_slot w, faults w))),
     faults := snd (snd (m' (journal_slot w, faults w)))\<rparr>"
  "snd (on_outbox m'' w) = w\<lparr>outbox_slot := fst (snd (m'' (outbox_slot w, faults w))),
     faults := snd (snd (m'' (outbox_slot w, faults w)))\<rparr>"
  by (auto simp: on_auth_def on_journal_def on_outbox_def split: prod.split)

text \<open>A function that reads none of the fields the environment steps change.\<close>

definition quiet :: "(auth_world \<Rightarrow> 'a) \<Rightarrow> bool" where
  "quiet f \<longleftrightarrow> (\<forall>w c n p. f (w\<lparr>clock := c\<rparr>) = f w \<and> f (w\<lparr>uuid_next := n\<rparr>) = f w \<and> f (w\<lparr>faults := p\<rparr>) = f w)"

lemma quiet_frame: "quiet f \<Longrightarrow> world_frame (same f)"
  by unfold_locales (auto simp: same_preorder keeps_def environment_run same_def quiet_def)

lemma quiet_on_slot:
  assumes "quiet f"
  shows "(\<And>w s. f (w\<lparr>auth_slot := s\<rparr>) = f w) \<Longrightarrow> keeps (same f) (on_auth m)"
    and "(\<And>w s. f (w\<lparr>journal_slot := s\<rparr>) = f w) \<Longrightarrow> keeps (same f) (on_journal m)"
    and "(\<And>w s. f (w\<lparr>outbox_slot := s\<rparr>) = f w) \<Longrightarrow> keeps (same f) (on_outbox m)"
  using assms by (auto simp: keeps_def same_def on_slot_run quiet_def)

text \<open>The three ways a file is changed.\<close>

definition file_operation :: "(slot_state, unit) io \<Rightarrow> bool" where
  "file_operation m \<longleftrightarrow> (\<exists>d. m = write_atomic_json d) \<or> m = unlink_slot \<or> m = fsync_directory"

lemma file_operation_intros:
  "file_operation (write_atomic_json d)" "file_operation unlink_slot" "file_operation fsync_directory"
  by (auto simp: file_operation_def)

context world_frame
begin

lemma write_auth_from:
  assumes "\<And>d. keeps R (on_auth (write_atomic_json d))"
  shows "keeps R (write_auth_file a)"
  unfolding write_auth_file_def by (intro intros assms)

lemma cas_from:
  assumes "\<And>d. keeps R (on_auth (write_atomic_json d))"
  shows "keeps R (cas_replace_cookie source replacement successor)"
  unfolding cas_replace_cookie_def
  by (intro intros loads_kept)
     (auto split: auth_load_result.split credential.split intro!: intros loads_kept write_auth_from assms)

lemma write_journal_from:
  assumes "\<And>d. keeps R (on_journal (write_atomic_json d))"
  shows "keeps R (write_journal s enqueued attempt)"
  unfolding write_journal_def by (intro intros assms)

lemma delete_journal_from:
  assumes "\<And>m. file_operation m \<Longrightarrow> keeps R (on_journal m)"
  shows "keeps R delete_journal"
  unfolding delete_journal_def by (auto intro!: intros assms file_operation_intros)

lemma enqueue_from:
  assumes "\<And>m. file_operation m \<Longrightarrow> keeps R (on_outbox m)"
  shows "keeps R (enqueue_outcome r)"
  unfolding enqueue_outcome_def by (auto intro!: intros loads_kept assms file_operation_intros)

lemma acknowledge_from:
  assumes "\<And>m. file_operation m \<Longrightarrow> keeps R (on_outbox m)"
  shows "keeps R (acknowledge_outcome key)"
  unfolding acknowledge_outcome_def Let_def by (auto intro!: intros loads_kept assms file_operation_intros)

lemma drain_from:
  assumes "\<And>m. file_operation m \<Longrightarrow> keeps R (on_outbox m)" and "\<And>r. keeps R (deliver_outbox_record r)"
  shows "keeps R drain_outbox"
  unfolding drain_outbox_def
  by (intro intros loads_kept)
     (auto split: outbox_load_result.split intro!: intros acknowledge_from assms)

end

lemma deliver_run:
  "auth_slot (snd (deliver_outbox_record r w)) = auth_slot w
   \<and> journal_slot (snd (deliver_outbox_record r w)) = journal_slot w
   \<and> outbox_slot (snd (deliver_outbox_record r w)) = outbox_slot w
   \<and> posts (snd (deliver_outbox_record r w)) = posts w"
  by (auto simp: deliver_outbox_record_def split: option.split list.split)

subsection \<open>No operation of the coordinator posts\<close>

text \<open>Frames of a quiet function: what is left is which of the three files it reads.\<close>

lemma quiet_journal_frame:
  assumes q: "quiet f"
    and journal: "\<And>w s. f (w\<lparr>journal_slot := s\<rparr>) = f w" and outbox: "\<And>w s. f (w\<lparr>outbox_slot := s\<rparr>) = f w"
    and deliver: "\<And>r. keeps (same f) (deliver_outbox_record r)"
  shows "journal_frame (same f)"
proof -
  note frame = quiet_frame [OF q]
  show ?thesis
    by (intro journal_frame.intro frame journal_frame_axioms.intro
        world_frame.write_journal_from [OF frame] world_frame.delete_journal_from [OF frame]
        world_frame.enqueue_from [OF frame] world_frame.drain_from [OF frame]
        quiet_on_slot [OF q] journal outbox deliver)
qed

lemma quiet_coordinator_frame:
  assumes q: "quiet f"
    and auth: "\<And>w s. f (w\<lparr>auth_slot := s\<rparr>) = f w"
    and journal: "\<And>w s. f (w\<lparr>journal_slot := s\<rparr>) = f w" and outbox: "\<And>w s. f (w\<lparr>outbox_slot := s\<rparr>) = f w"
    and deliver: "\<And>r. keeps (same f) (deliver_outbox_record r)"
    and observe: "\<And>w e. f (w\<lparr>observed := e\<rparr>) = f w"
  shows "coordinator_frame (same f)"
  by (intro coordinator_frame.intro coordinator_frame_axioms.intro quiet_journal_frame
      world_frame.cas_from quiet_frame quiet_on_slot assms keeps_putM)
     (simp add: same_def observe)

interpretation posts_frame: coordinator_frame "same posts"
  by (rule quiet_coordinator_frame) (auto simp: quiet_def keeps_def same_def deliver_run)

interpretation auth_frame: journal_frame "same auth_slot"
  by (rule quiet_journal_frame) (auto simp: quiet_def keeps_def same_def deliver_run)

text \<open>What an operation that keeps a frame does to a run.\<close>

lemma same_run: "keeps (same f) m \<Longrightarrow> m w = (r, t) \<Longrightarrow> f t = f w"
  by (auto simp: keeps_def same_def dest: spec [of _ w])

subsection \<open>An exhausted fault plan stays exhausted\<close>

definition calm :: "auth_world \<Rightarrow> auth_world \<Rightarrow> bool" where
  "calm w t \<longleftrightarrow> (faults w = [] \<longrightarrow> faults t = [])"

definition plan_kept :: "slot_state \<Rightarrow> slot_state \<Rightarrow> bool" where
  "plan_kept s t \<longleftrightarrow> (snd s = [] \<longrightarrow> snd t = [])"

lemma plan_preorder: "preorder_rel plan_kept"
  by (auto simp: preorder_rel_def plan_kept_def)

lemma plan_fs_op: "keeps plan_kept (fs_op n f)"
  by (auto simp: keeps_def plan_kept_def fs_op_def split: list.split)

lemma file_operation_plan: "file_operation m \<Longrightarrow> keeps plan_kept m"
  unfolding file_operation_def write_atomic_json_def unlink_temporary_def fsync_directory_def unlink_slot_def
  by (elim disjE exE; hypsubst; intro keeps_intros plan_preorder plan_fs_op)

lemma calm_on_slot:
  assumes "file_operation m"
  shows "keeps calm (on_auth m)" "keeps calm (on_journal m)" "keeps calm (on_outbox m)"
  using file_operation_plan [OF assms] by (auto simp: keeps_def calm_def plan_kept_def on_slot_run)

lemma calm_world: "world_frame calm"
  by unfold_locales (auto simp: preorder_rel_def calm_def keeps_def environment_run)

lemma deliver_calm: "keeps calm (deliver_outbox_record r)"
  by (auto simp: keeps_def calm_def deliver_outbox_record_def split: option.split list.split)

interpretation calm_frame: coordinator_frame calm
  by (intro coordinator_frame.intro coordinator_frame_axioms.intro journal_frame.intro
      journal_frame_axioms.intro calm_world deliver_calm
      world_frame.write_journal_from [OF calm_world] world_frame.delete_journal_from [OF calm_world]
      world_frame.enqueue_from [OF calm_world] world_frame.drain_from [OF calm_world]
      world_frame.cas_from [OF calm_world] calm_on_slot file_operation_intros keeps_putM)
     (simp_all add: calm_def)

text \<open>What the outbox operations and the diagnostics leave alone: both other files.\<close>

definition files :: "auth_world \<Rightarrow> file_slot \<times> file_slot" where
  "files w = (auth_slot w, journal_slot w)"

lemma files_quiet: "quiet files"
  by (simp add: quiet_def files_def)

lemma files_world: "world_frame (same files)"
  by (rule quiet_frame [OF files_quiet])

lemma deliver_files: "keeps (same files) (deliver_outbox_record r)"
  by (simp add: keeps_def same_def files_def deliver_run)

lemmas files_kept =
  world_frame.enqueue_from [OF files_world quiet_on_slot(3) [OF files_quiet]]
  world_frame.drain_from [OF files_world quiet_on_slot(3) [OF files_quiet] deliver_files]

end
