(* ===== verification/Auth_Budget.thy ===== *)
theory Auth_Budget
  imports Auth_Frames
begin

section \<open>The dispatch budget of one credential (auth\_session/coordinator.py)\<close>

text \<open>
  Between two replacements of the stored credential at most six exchanges are authorised,
  whatever processes prepare, commit, recover, crash or import, in any order, as long as the
  files can be written.  The invariant relates the number of authorised exchanges to the
  dispatch count of the journal.
\<close>

subsection \<open>Reading the files\<close>

definition read_journal :: "file_slot \<Rightarrow> journal_load_result result" where
  "read_journal j = (case content j of
       Missing \<Rightarrow> Inr JournalAbsent
     | Unreadable e \<Rightarrow> Inr (JournalIoFailure ''read refresh journal'' e)
     | NotUtf8 \<Rightarrow> Inr (JournalCorrupt ''refresh journal file is not valid UTF-8'')
     | NotJson m \<Rightarrow> Inr (JournalCorrupt (''invalid JSON: '' @ m))
     | Document d \<Rightarrow> parse_journal d)"

lemma load_journal_read: "load_journal w = (read_journal (journal_slot w), w)"
  by (simp add: load_journal_def read_journal_def)

definition stored_revision :: "file_slot \<Rightarrow> string option" where
  "stored_revision a = (case content a of
       Document d \<Rightarrow> Option.bind (as_obj d) (\<lambda>m. as_str (jget m ''revision''))
     | _ \<Rightarrow> None)"

lemma validate_not_loaded [simp]: "validate_imported_at i t \<noteq> ImportedAtInvalid (AuthLoaded a)"
  by (auto simp: validate_imported_at_def split: option.split)

lemma parse_auth_revision:
  "parse_auth d t = AuthLoaded a \<Longrightarrow> (\<exists>m. d = JObj m \<and> jget m ''revision'' = JStr (revision a)) \<and> revision a \<noteq> []"
  by (auto simp: parse_auth_def credential_metadata_def split: option.splits if_splits json.splits
      imported_at_check.splits prod.splits)

lemma load_auth_revision:
  assumes "load_auth w = (Inr (AuthLoaded a), t)"
  shows "stored_revision (auth_slot w) = Some (revision a) \<and> revision a \<noteq> []
    \<and> auth_slot t = auth_slot w \<and> journal_slot t = journal_slot w"
  using assms
  by (auto simp: load_auth_def bindM_def now_def getM_def stored_revision_def
      split: list.splits file_content.splits dest!: parse_auth_revision)

lemma stored_revision_written: "content s = Document (auth_payload a) \<Longrightarrow> stored_revision s = Some (revision a)"
  by (simp add: stored_revision_def auth_payload_def jget_def)

subsection \<open>What a journal says about the exchanges made\<close>

text \<open>A journal record counts against the stored credential when it is about its revision and
  has been dispatched.\<close>

definition counts_for :: "string option \<Rightarrow> rotation_state \<Rightarrow> bool" where
  "counts_for rv s \<longleftrightarrow> Some (source_revision s) = rv \<and> (\<forall>r. s \<noteq> Reserved r) \<and> state_successor s \<noteq> rv"

definition covers :: "nat \<Rightarrow> string option \<Rightarrow> rotation_state \<Rightarrow> rotation_attempt \<Rightarrow> bool" where
  "covers g rv s a \<longleftrightarrow> (if counts_for rv s then int g \<le> dispatch_count a else g = 0)"

definition spent :: "nat \<Rightarrow> file_slot \<Rightarrow> file_slot \<Rightarrow> bool" where
  "spent g a j \<longleftrightarrow> g \<le> 6 \<and> (case read_journal j of
       Inr JournalAbsent \<Rightarrow> g = 0
     | Inr (JournalLoaded s _ (Some att) _) \<Rightarrow> covers g (stored_revision a) s att
     | _ \<Rightarrow> True)"

text \<open>What every journal that loads satisfies, the migrated ones included.\<close>

lemma loaded_journal:
  assumes "parse_journal d = Inr (JournalLoaded s e att v)"
  obtains a where "att = Some a" "0 \<le> dispatch_count a" "dispatch_count a \<le> 6"
    "source_revision s \<noteq> []" "\<forall>r. s \<noteq> Ready r"
    "is_scheduled (continuation a) \<Longrightarrow> rotation_attempt_is_valid a"
    "\<And>r. s = Requested r \<Longrightarrow> rotation_attempt_is_valid a"
proof -
  obtain p where d: "d = JObj p" using assms by (auto simp: parse_journal_def split: option.splits)
  show ?thesis
  proof (cases "json_eq_int (jget p ''version'') PREVIOUS_JOURNAL_SCHEMA_VERSION")
    case True
    with assms d have "parse_v2_journal p = Inr (JournalLoaded s e att v)" by (simp add: parse_journal_def)
    from parse_v2_loaded [OF this] show ?thesis by (auto intro: that)
  next
    case False
    obtain a where "att = Some a" "v = None"
      using assms [unfolded d] False by (rule parse_v3_loaded) blast
    with assms have "readable_attempt s a" by (simp add: parse_journal_admits)
    with \<open>att = Some a\<close> show ?thesis
      using valid_attempt_bounds [of a] by (intro that [of a]) (auto simp: readable_attempt_def)
  qed
qed

lemma read_journal_loaded:
  assumes "read_journal j = Inr (JournalLoaded s e att v)"
  obtains a where "att = Some a" "0 \<le> dispatch_count a" "dispatch_count a \<le> 6"
    "source_revision s \<noteq> []" "\<forall>r. s \<noteq> Ready r"
    "is_scheduled (continuation a) \<Longrightarrow> rotation_attempt_is_valid a"
    "\<And>r. s = Requested r \<Longrightarrow> rotation_attempt_is_valid a"
  using assms by (auto simp: read_journal_def split: file_content.splits elim: loaded_journal)

lemma spent_0 [simp]: "spent 0 a j"
  by (auto simp: spent_def covers_def split: sum.split journal_load_result.split option.split
      elim: read_journal_loaded)

text \<open>A journal that has been written reads as what was written, or not at all.\<close>

lemma read_journal_written:
  assumes "content j = Document (JObj (journal_payload_base s e a))" and "\<forall>r. s \<noteq> Ready r"
  shows "(readable_attempt s a \<and> read_journal j = Inr (JournalLoaded s (is_terminal_state s \<and> e) (Some a) None))
    \<or> (\<not> readable_attempt s a \<and> (\<exists>m. read_journal j = Inr (JournalCorrupt m)))"
proof (cases "source_revision s = []")
  case True
  then have "journal_fields_of (journal_payload_base s e a)
      = Inr (Inl ''journal source_revision must be a non-empty string'')"
    by (simp add: journal_fields_of_def journal_field_error_def journal_scalar_field_error_def
        jget_journal_payload Let_def)
  with assms True show ?thesis
    by (simp add: read_journal_def readable_attempt_def parse_journal_def jget_journal_payload
        JOURNAL_SCHEMA_VERSION_def PREVIOUS_JOURNAL_SCHEMA_VERSION_def)
next
  case False
  have total: "attempt_state_error (JStr n) a \<noteq> Inl m" for n m
    by (auto simp: attempt_state_error_def Let_def)
  with parse_journal_written [OF False, of e a] assms False show ?thesis
    by (cases s) (auto simp: read_journal_def readable_attempt_def bindR_def split: sum.splits option.splits)
qed

lemma spent_written:
  assumes "content j = Document (JObj (journal_payload_base s e a))" and "\<forall>r. s \<noteq> Ready r"
    and "g \<le> 6" and "covers g (stored_revision A) s a"
  shows "spent g A j"
  using read_journal_written [OF assms(1,2)] assms(3,4) by (auto simp: spent_def)

lemma spent_missing: "content j = Missing \<Longrightarrow> spent g A j \<longleftrightarrow> g = 0"
  by (auto simp: spent_def read_journal_def)

lemma spent_loaded:
  "spent g A j \<Longrightarrow> read_journal j = Inr (JournalLoaded s e (Some a) v) \<Longrightarrow> g \<le> 6 \<and> covers g (stored_revision A) s a"
  by (simp add: spent_def)

subsection \<open>Steps that nothing disturbs\<close>

lemma write_atomic_calm:
  "write_atomic_json d (sl, []) = (Inr (), (sl\<lparr>content := Document d, temporary := False, synced := True\<rparr>, []))"
  by (simp add: write_atomic_json_def fsync_directory_def thenM_def bindM_def handleM_def finallyM_def fs_op_def)

lemma trigger_calm: "faults w = [] \<Longrightarrow> trigger operation w = (Inr (), w)"
  by (simp add: trigger_def)

lemma write_journal_calm:
  assumes "faults w = []" and "\<forall>r. s \<noteq> Ready r"
  shows "write_journal s e (Some a) w = (Inr (), w\<lparr>journal_slot := (journal_slot w)
    \<lparr>content := Document (JObj (journal_payload_base s e a)), temporary := False, synced := True\<rparr>, faults := []\<rparr>)"
  using assms
  by (simp add: write_journal_def journal_payload_persistable bindM_def liftM_def thenM_def
      trigger_calm on_journal_def write_atomic_calm)

lemma write_auth_calm:
  assumes "faults w = []"
  shows "write_auth_file a w = (Inr (), w\<lparr>auth_slot := (auth_slot w)
    \<lparr>content := Document (auth_payload a), temporary := False, synced := True\<rparr>, faults := []\<rparr>)"
  using assms
  by (simp add: write_auth_file_def bindM_def thenM_def trigger_calm on_auth_def write_atomic_calm)

lemma delete_journal_calm:
  assumes "faults w = []"
  shows "\<exists>j. delete_journal w = (Inr (), w\<lparr>journal_slot := j, faults := []\<rparr>) \<and> content j = Missing"
proof -
  have same: "w\<lparr>faults := []\<rparr> = w\<lparr>journal_slot := journal_slot w, faults := []\<rparr>" by simp
  show ?thesis
    using assms
    by (auto simp: delete_journal_def bindM_def thenM_def trigger_calm on_journal_def unlink_slot_def
        fsync_directory_def finallyM_def fs_op_def getM_def retM_def intro: same)
qed

lemma lock_ensures:
  assumes "ensures P body Q" and "\<And>w. P w \<Longrightarrow> faults w = []" and "keeps calm body"
  shows "ensures P (auth_file_lock body) Q"
proof (rule ensuresI)
  fix w r t
  assume "P w" and run: "auth_file_lock body w = (r, t)"
  obtain q u where body: "body w = (q, u)" by (cases "body w")
  have "faults w = []" "faults u = []"
    using assms(2) [OF \<open>P w\<close>] keepsD [OF assms(3) body] by (auto simp: calm_def)
  with run body have "r = q \<and> t = u"
    by (simp add: auth_file_lock_def thenM_def bindM_def trigger_calm finallyM_def)
  with ensuresD [OF assms(1) \<open>P w\<close> body] show "Q r t" by simp
qed

subsection \<open>The invariant of one credential\<close>

text \<open>\<open>g\<close> exchanges have been authorised since the credential in \<open>A\<close> was stored.\<close>

definition within_budget :: "nat \<Rightarrow> file_slot \<Rightarrow> auth_world \<Rightarrow> bool" where
  "within_budget g A w \<longleftrightarrow> faults w = [] \<and> auth_slot w = A \<and> spent g A (journal_slot w)"

lemma inv_steady:
  assumes "keeps (same files) m" and "keeps calm m"
  shows "ensures (within_budget g A) m (\<lambda>_. within_budget g A)"
  using keepsD [OF assms(1)] keepsD [OF assms(2)]
  by (auto intro!: ensuresI simp: within_budget_def same_def files_def calm_def)

lemma inv_enqueue: "ensures (within_budget g A) (enqueue_outcome r) (\<lambda>_. within_budget g A)"
proof (rule inv_steady)
  show "keeps calm (enqueue_outcome r)"
    by (rule world_frame.enqueue_from [OF calm_world]) (rule calm_on_slot)
  show "keeps (same files) (enqueue_outcome r)"
    by (rule files_kept(1)) (simp_all add: files_def)
qed

lemma inv_drain: "ensures (within_budget g A) drain_outbox (\<lambda>_. within_budget g A)"
  by (rule inv_steady [OF _ calm_frame.drain_kept]) (rule files_kept(2), simp_all add: files_def)

lemma inv_pure: "(\<And>w. m w = (fst (m w), w)) \<Longrightarrow> ensures (within_budget g A) m (\<lambda>_. within_budget g A)"
  by (auto intro!: ensuresI) (metis snd_conv)

lemma inv_write_journal:
  assumes "covers g (stored_revision A) s a" and "g \<le> 6" and "\<forall>r. s \<noteq> Ready r"
  shows "ensures (\<lambda>w. faults w = [] \<and> auth_slot w = A) (write_journal s e (Some a)) (\<lambda>r w. r = Inr () \<and> within_budget g A w)"
proof (rule ensuresI)
  fix w r t
  assume w: "faults w = [] \<and> auth_slot w = A" and run: "write_journal s e (Some a) w = (r, t)"
  have "spent g A (j\<lparr>content := Document (JObj (journal_payload_base s e a)), temporary := False, synced := True\<rparr>)" for j
    by (rule spent_written [OF _ assms(3,2,1)]) simp
  with w run assms(3) show "r = Inr () \<and> within_budget g A t"
    by (auto simp: write_journal_calm within_budget_def)
qed

lemma inv_delete_journal:
  "ensures (\<lambda>w. faults w = [] \<and> auth_slot w = A) delete_journal (\<lambda>r w. r = Inr () \<and> within_budget 0 A w)"
proof (rule ensuresI)
  fix w r t
  assume w: "faults w = [] \<and> auth_slot w = A" and run: "delete_journal w = (r, t)"
  from w run delete_journal_calm [of w] show "r = Inr () \<and> within_budget 0 A t" by (auto simp: within_budget_def)
qed

text \<open>Recording a terminal outcome rewrites the same journal, or deletes that of a rotation.\<close>

lemma inv_record_terminal:
  assumes "covers g (stored_revision A) s a" and "g \<le> 6" and "\<forall>r. s \<noteq> Ready r"
    and "\<And>x y z. s = Rotated x y z \<Longrightarrow> g = 0"
  shows "ensures (within_budget g A) (record_terminal_outcome s a e) (\<lambda>_. within_budget g A)"
proof -
  have written: "ensures (within_budget g A) (write_journal s True (Some a)) (\<lambda>_. within_budget g A)"
    by (rule ensures_weaken [OF inv_write_journal [OF assms(1-3)]]) (auto simp: within_budget_def)
  have contains: "ensures (within_budget g A) (outbox_contains k) (\<lambda>_. within_budget g A)" for k
    by (rule inv_steady [OF world_frame.outbox_contains_kept [OF files_world] calm_frame.outbox_contains_kept])
  have delete: "ensures (within_budget g A) delete_journal (\<lambda>_. within_budget g A)" if "s = Rotated x y z" for x y z
    using assms(4) [OF that] by (intro ensures_weaken [OF inv_delete_journal]) (auto simp: within_budget_def)
  have tail: "ensures (within_budget g A) (case s of
          Rotated _ _ _ \<Rightarrow> bindM (liftM (outbox_record_of s)) (\<lambda>r.
            bindM (outbox_contains (record_key r)) (\<lambda>pending.
              if pending then retM () else delete_journal))
        | _ \<Rightarrow> retM ()) (\<lambda>_. within_budget g A)"
    using delete
    by (cases s) (auto intro!: ensures_basic ensures_invariant_bindM contains)
  show ?thesis
    unfolding record_terminal_outcome_def thenM_def
    by (auto intro!: ensures_basic ensures_invariant_bindM inv_drain inv_enqueue written tail)
qed

subsection \<open>Authorising a dispatch\<close>

definition valid_owner :: "refresh_owner \<Rightarrow> bool" where
  "valid_owner p \<longleftrightarrow> boot_id p \<noteq> [] \<and> pid p > 0 \<and> start_ticks p \<noteq> []"

lemma valid_without_owner: "rotation_attempt_is_valid a \<Longrightarrow> rotation_attempt_is_valid (without_owner a)"
  by (auto simp: rotation_attempt_is_valid_def without_owner_def Let_def)

lemma owned_readable:
  assumes "rotation_attempt_is_valid (without_owner a)" and "valid_owner p" and "r \<noteq> []"
  shows "readable_attempt (Requested r) (owned_by p a)"
  using assms
  by (auto simp: readable_attempt_def owned_by_def rotation_attempt_is_valid_def without_owner_def
      valid_owner_def attempt_state_error_def Let_def)

lemma owned_owner [simp]: "attempt_owner (owned_by p a) = Some p"
  by (simp add: attempt_owner_def owned_by_def)

lemma owned_count [simp]: "dispatch_count (owned_by p a) = dispatch_count a"
  by (simp add: owned_by_def)

text \<open>The dispatch of \<open>a\<close> by process \<open>p\<close> is on record, and counted.\<close>

definition granted :: "nat \<Rightarrow> file_slot \<Rightarrow> refresh_owner \<Rightarrow> stored_auth \<Rightarrow> auth_world \<Rightarrow> bool" where
  "granted g A p a w \<longleftrightarrow> faults w = [] \<and> auth_slot w = A \<and> stored_revision A = Some (revision a)
     \<and> (\<exists>att. read_journal (journal_slot w) = Inr (JournalLoaded (Requested (revision a)) False (Some att) None)
          \<and> attempt_owner att = Some p \<and> int g \<le> dispatch_count att)"

definition dispatch_post :: "nat \<Rightarrow> file_slot \<Rightarrow> refresh_owner \<Rightarrow> preparation result \<Rightarrow> auth_world \<Rightarrow> bool" where
  "dispatch_post g A p r w = (case r of
       Inr (Dispatch a) \<Rightarrow> granted (Suc g) A p a w
     | _ \<Rightarrow> within_budget g A w)"

lemma dispatch_post_other [simp]:
  "dispatch_post g A p (Inl e) w = within_budget g A w"
  "dispatch_post g A p (Inr (ReturnAuth b)) w = within_budget g A w"
  "dispatch_post g A p (Inr (WaitForRevision q)) w = within_budget g A w"
  "dispatch_post g A p (Inr (Dispatch a)) w = granted (Suc g) A p a w"
  by (simp_all add: dispatch_post_def)

lemma step_to_run:
  "transition s e = Inr t \<Longrightarrow> step_to s e w = (Inr (next_state t), w)"
  "transition s e = Inl x \<Longrightarrow> step_to s e w = (Inl x, w)"
  by (simp_all add: step_to_def liftM_def)

text \<open>The two writes of a dispatch.\<close>

lemma write_requested:
  assumes valid: "rotation_attempt_is_valid (without_owner a)" and p: "valid_owner p"
    and rv: "stored_revision A = Some (revision current)" "revision current \<noteq> []"
    and count: "int (Suc g) \<le> dispatch_count a"
  shows "ensures (\<lambda>w. faults w = [] \<and> auth_slot w = A)
     (thenM (write_journal (Reserved (revision current)) False (Some (owned_by p a)))
    (bindM (step_to (Reserved (revision current)) DispatchBegun) (\<lambda>requested.
     thenM (write_journal requested False (Some (owned_by p a))) (retM (Dispatch current)))))
     (dispatch_post g A p)"
proof (rule ensuresI)
  fix w r t
  assume w: "faults w = [] \<and> auth_slot w = A"
    and run: "thenM (write_journal (Reserved (revision current)) False (Some (owned_by p a)))
    (bindM (step_to (Reserved (revision current)) DispatchBegun) (\<lambda>requested.
     thenM (write_journal requested False (Some (owned_by p a))) (retM (Dispatch current)))) w = (r, t)"
  let ?doc = "JObj (journal_payload_base (Requested (revision current)) False (owned_by p a))"
  have "r = Inr (Dispatch current) \<and> faults t = [] \<and> auth_slot t = A \<and> content (journal_slot t) = Document ?doc"
    using w run by (auto simp: thenM_def bindM_def write_journal_calm step_to_def liftM_def retM_def)
  moreover have "readable_attempt (Requested (revision current)) (owned_by p a)"
    by (rule owned_readable) (use assms in auto)
  ultimately show "dispatch_post g A p r t"
    using read_journal_written [of "journal_slot t" "Requested (revision current)" False "owned_by p a"] rv count
    by (auto simp: granted_def)
qed

lemma prepare_dispatch_post:
  assumes owner: "owner_fn env = Inr p" and valid: "rotation_attempt_is_valid (without_owner a)"
    and p: "valid_owner p" and rv: "stored_revision A = Some (revision current)" "revision current \<noteq> []"
    and count: "int (Suc g) \<le> dispatch_count a"
    and state: "\<And>s. recovery = Some s \<Longrightarrow> \<exists>m. s = OutcomeUnknown (revision current) m"
  shows "ensures (within_budget g A) (prepare_dispatch env current a recovery) (dispatch_post g A p)"
proof -
  have authorise: "ensures (within_budget g A) (case recovery of
         Some s \<Rightarrow> bindM (liftM (kind_lane (attempt_kind a))) (\<lambda>l.
             bindM now (\<lambda>t1. bindM now (\<lambda>t2.
               step_to s (AuthorizeRecoveryDispatch (authorization_of l a t1 t2)))))
       | None \<Rightarrow> step_to (Ready (revision current)) (Begin (revision current)))
     (\<lambda>r w. within_budget g A w \<and> (\<forall>s. r = Inr s \<longrightarrow> s = Reserved (revision current)))"
  proof (cases recovery)
    case None
    then show ?thesis by (auto intro!: ensuresI simp: step_to_def liftM_def)
  next
    case (Some s)
    with state obtain m where s: "s = OutcomeUnknown (revision current) m" by blast
    have clock: "ensures (within_budget g A) now (\<lambda>_. within_budget g A)"
      by (rule inv_steady [OF world_frame.now_kept [OF files_world] calm_frame.now_kept])
    have last: "ensures (within_budget g A) (step_to s (AuthorizeRecoveryDispatch x))
        (\<lambda>r w. within_budget g A w \<and> (\<forall>s. r = Inr s \<longrightarrow> s = Reserved (revision current)))" for x
      by (auto intro!: ensuresI simp: step_to_def liftM_def s split: sum.splits if_splits)
    show ?thesis
      unfolding Some option.case
      by (rule ensures_bindM [where M = "\<lambda>_. within_budget g A"], rule ensures_basic(3), simp split: sum.split)
         (rule ensures_bindM [where M = "\<lambda>_. within_budget g A"], rule ensures_post [OF clock], simp split: sum.split,
          rule ensures_bindM [where M = "\<lambda>_. within_budget g A"], rule ensures_post [OF clock], simp split: sum.split,
          rule last)
  qed
  show ?thesis
    unfolding prepare_dispatch_def owner bindM_liftM
  proof (rule ensures_bindM [where M = "\<lambda>s w. s = Reserved (revision current) \<and> within_budget g A w"])
    show "ensures (within_budget g A) (case recovery of
         Some s \<Rightarrow> bindM (liftM (kind_lane (attempt_kind a))) (\<lambda>l.
             bindM now (\<lambda>t1. bindM now (\<lambda>t2.
               step_to s (AuthorizeRecoveryDispatch (authorization_of l a t1 t2)))))
       | None \<Rightarrow> step_to (Ready (revision current)) (Begin (revision current)))
      (\<lambda>r w. case r of Inl e \<Rightarrow> dispatch_post g A p (Inl e) w
         | Inr s \<Rightarrow> s = Reserved (revision current) \<and> within_budget g A w)"
      by (rule ensures_post [OF authorise]) (simp split: sum.split)
    show "ensures (\<lambda>w. reserved = Reserved (revision current) \<and> within_budget g A w)
      (thenM (write_journal reserved False (Some (owned_by p a)))
        (bindM (step_to reserved DispatchBegun) (\<lambda>requested.
          thenM (write_journal requested False (Some (owned_by p a))) (retM (Dispatch current)))))
      (dispatch_post g A p)" for reserved
    proof (cases "reserved = Reserved (revision current)")
      case True
      then show ?thesis
        by (auto intro!: ensures_pre [OF write_requested [OF valid p rv count]] simp: within_budget_def)
    qed (simp add: ensures_def)
  qed
qed

subsection \<open>Recovering an unknown outcome\<close>

lemma counts_unknown [simp]: "counts_for (Some r) (OutcomeUnknown q m) \<longleftrightarrow> q = r"
  by (simp add: counts_for_def)

lemma recovery_attempt_valid:
  assumes "rotation_attempt_is_valid a" and "dispatch_count a < total_dispatch_cap a"
    and "lane_count l a < lane_limit l"
  shows "rotation_attempt_is_valid (without_owner (recovery_attempt l a))
    \<and> dispatch_count (recovery_attempt l a) = dispatch_count a + 1"
  using assms
  by (cases l) (auto simp: rotation_attempt_is_valid_def recovery_attempt_def without_owner_def Let_def)

lemma next_recovery_attempt_SomeD:
  assumes "next_recovery_attempt a t = Some b"
  obtains l where "continuation a = Some (Continue l)" "b = recovery_attempt l a"
    "dispatch_count a < total_dispatch_cap a" "lane_count l a < lane_limit l"
    "\<not> deadline_passed (recovery_deadline a) t"
  using assms by (auto simp: next_recovery_attempt_def split: option.splits continuation.splits if_splits)

lemma with_continuation_valid:
  assumes "rotation_attempt_is_valid a"
  shows "rotation_attempt_is_valid (with_continuation a l d t)"
proof -
  have stop: "rotation_attempt_is_valid (stop_attempt a x y)" for x y
    using assms by (auto simp: rotation_attempt_is_valid_def stop_attempt_def Let_def)
  have go: "rotation_attempt_is_valid (a\<lparr>recovery_deadline := x, continuation := c, owner_boot_id := None,
      owner_pid := None, owner_start_ticks := None, next_attempt_at := y, stop_reason := None\<rparr>)" for x y c
    using assms by (auto simp: rotation_attempt_is_valid_def Let_def)
  show ?thesis
    by (auto simp: with_continuation_def Let_def stop go split: option.split)
qed

lemma with_continuation_count [simp]: "dispatch_count (with_continuation a l d t) = dispatch_count a"
  by (auto simp: with_continuation_def stop_attempt_def Let_def split: option.split)

lemma inv_now: "ensures (within_budget g A) now (\<lambda>_. within_budget g A)"
  by (rule inv_steady [OF world_frame.now_kept [OF files_world] calm_frame.now_kept])

text \<open>Sequencing under an invariant, with what the first part returns.\<close>

lemma invariant_bind:
  assumes "ensures I m (\<lambda>r w. I w \<and> (\<forall>x. r = Inr x \<longrightarrow> V x))"
    and "\<And>x. V x \<Longrightarrow> ensures I (f x) Q" and "\<And>e w. I w \<Longrightarrow> Q (Inl e) w"
  shows "ensures I (bindM m f) Q"
proof (rule ensures_bindM [where M = "\<lambda>x w. V x \<and> I w"])
  show "ensures I m (\<lambda>r w. case r of Inl e \<Rightarrow> Q (Inl e) w | Inr x \<Rightarrow> V x \<and> I w)"
    by (rule ensures_post [OF assms(1)]) (auto intro: assms(3) split: sum.split)
  show "ensures (\<lambda>w. V x \<and> I w) (f x) Q" for x
    using assms(2) [of x] by (cases "V x") (auto simp: ensures_def)
qed

lemma invariant_read:
  assumes "ensures I m (\<lambda>_. I)" and "\<And>x. ensures I (f x) Q" and "\<And>e w. I w \<Longrightarrow> Q (Inl e) w"
  shows "ensures I (bindM m f) Q"
  by (rule invariant_bind [where V = "\<lambda>_. True"]) (use assms in auto)

lemma recover_unknown_post:
  assumes owner: "owner_fn env = Inr p" "valid_owner p"
    and rv: "stored_revision A = Some (revision current)" "revision current \<noteq> []"
    and s: "s = OutcomeUnknown (revision current) m"
    and count: "g \<le> 6" "int g \<le> dispatch_count a"
    and sched: "is_scheduled (continuation a) \<Longrightarrow> rotation_attempt_is_valid a"
  shows "ensures (within_budget g A) (recover_unknown env current s a) (dispatch_post g A p)"
  unfolding recover_unknown_def
proof (rule invariant_bind [where V = "\<lambda>b. b = None \<or> (\<exists>t. b = next_recovery_attempt a t)"])
  show "ensures (within_budget g A) (next_recovery a) (\<lambda>r w. within_budget g A w
      \<and> (\<forall>b. r = Inr b \<longrightarrow> b = None \<or> (\<exists>t. b = next_recovery_attempt a t)))"
  proof (rule ensuresI)
    fix w r t
    assume w: "within_budget g A w" and run: "next_recovery a w = (r, t)"
    have "within_budget g A t"
      by (rule ensuresD [OF inv_steady [OF world_frame.next_recovery_kept [OF files_world]
            calm_frame.next_recovery_kept] w run])
    with run show "within_budget g A t \<and> (\<forall>b. r = Inr b \<longrightarrow> b = None \<or> (\<exists>t. b = next_recovery_attempt a t))"
      by (auto simp: next_recovery_def bindM_def retM_def split: if_splits prod.splits sum.splits)
  qed
next
  fix following
  assume f: "following = None \<or> (\<exists>t. following = next_recovery_attempt a t)"
  show "ensures (within_budget g A) (case following of
         None \<Rightarrow> thenM (write_journal s False (Some (stopped_attempt a)))
                  (retM (WaitForRevision (source_revision s)))
       | Some next_attempt \<Rightarrow>
           bindM now (\<lambda>t. let retry_after = seconds_until (next_attempt_at next_attempt) t in
             if retry_after > 0
             then throwM (RecoveryRequired (source_revision s)
                    (case continuation next_attempt of Some c \<Rightarrow> continuation_text c | None \<Rightarrow> []) retry_after)
             else prepare_dispatch env current next_attempt (Some s))) (dispatch_post g A p)"
  proof (cases following)
    case None
    have "ensures (within_budget g A) (write_journal s False (Some (stopped_attempt a)))
        (\<lambda>r w. r = Inr () \<and> within_budget g A w)"
      by (rule ensures_pre [OF inv_write_journal])
         (use rv s count in \<open>auto simp: within_budget_def covers_def stopped_attempt_def\<close>)
    then show ?thesis
      unfolding None option.case thenM_def
      by (intro invariant_read) (auto elim: ensures_post intro!: ensures_basic)
  next
    case (Some b)
    with f obtain t where "next_recovery_attempt a t = Some b" by auto
    then obtain l where l: "continuation a = Some (Continue l)" "b = recovery_attempt l a"
      "dispatch_count a < total_dispatch_cap a" "lane_count l a < lane_limit l"
      by (rule next_recovery_attempt_SomeD)
    have valid: "rotation_attempt_is_valid (without_owner b)" "int (Suc g) \<le> dispatch_count b"
      using recovery_attempt_valid [of a l] l sched count by auto
    show ?thesis
      unfolding Some option.case Let_def
      by (intro invariant_read inv_now)
         (auto intro!: ensures_basic prepare_dispatch_post owner valid rv simp: s)
  qed
qed simp

subsection \<open>Recovering the other states\<close>

lemma covers_0: "0 \<le> dispatch_count a \<Longrightarrow> covers 0 rv s a"
  by (simp add: covers_def)

lemma mark_unknown_post:
  assumes rv: "stored_revision A = Some r" and count: "g \<le> 6" "int g \<le> dispatch_count a"
    and valid: "rotation_attempt_is_valid a"
  shows "ensures (within_budget g A) (mark_unknown (Requested r) a reason)
    (\<lambda>q w. within_budget g A w \<and> (\<forall>x. q = Inr x \<longrightarrow> fst x = OutcomeUnknown r reason
        \<and> dispatch_count (snd x) = dispatch_count a \<and> rotation_attempt_is_valid (snd x)))"
proof -
  let ?s = "OutcomeUnknown r reason"
  have steps: "mark_unknown (Requested r) a reason = bindM recovery_deadline_now (\<lambda>deadline.
     bindM now (\<lambda>t. let b = with_continuation a AmbiguityReplay deadline t in
       thenM (write_journal ?s False (Some b)) (thenM (record_terminal_outcome ?s b False) (retM (?s, b)))))"
    by (simp add: mark_unknown_def step_to_def)
  have covers: "covers g (stored_revision A) ?s (with_continuation a l d t)" for l d t
    using rv count by (simp add: covers_def)
  have recorded: "ensures (within_budget g A) (record_terminal_outcome ?s (with_continuation a l d t) e)
      (\<lambda>_. within_budget g A)" for l d t e
    by (rule inv_record_terminal) (use covers count in auto)
  have wrote: "ensures (within_budget g A) (write_journal ?s False (Some (with_continuation a l d t)))
      (\<lambda>_. within_budget g A)" for l d t
    by (rule ensures_weaken [OF inv_write_journal]) (use covers count in \<open>auto simp: within_budget_def\<close>)
  show ?thesis
    unfolding steps Let_def thenM_def
    by (intro invariant_read inv_now recorded wrote
        inv_steady [OF world_frame.deadline_kept [OF files_world] calm_frame.deadline_kept] ensures_basic)
       (auto intro: with_continuation_valid valid)
qed

lemma recover_requested_post:
  assumes owner: "owner_fn env = Inr p" "valid_owner p"
    and rv: "stored_revision A = Some (revision current)" "revision current \<noteq> []"
    and count: "g \<le> 6" "int g \<le> dispatch_count a" and valid: "rotation_attempt_is_valid a"
  shows "ensures (within_budget g A) (recover_requested env current (Requested (revision current)) a)
    (dispatch_post g A p)"
proof (cases "owner_alive env a")
  case True
  then show ?thesis by (auto simp: recover_requested_def intro: ensures_basic)
next
  case False
  show ?thesis
    unfolding recover_requested_def if_not_P [OF False]
  proof (rule invariant_bind [OF mark_unknown_post [OF rv(1) count valid]])
    fix x
    assume x: "fst x = OutcomeUnknown (revision current) ''interrupted after refresh dispatch''
        \<and> dispatch_count (snd x) = dispatch_count a \<and> rotation_attempt_is_valid (snd x)"
    then show "ensures (within_budget g A) (case x of (unknown, unknown_attempt) \<Rightarrow>
        recover_unknown env current unknown unknown_attempt) (dispatch_post g A p)"
      by (cases x) (auto intro!: recover_unknown_post owner rv count(1) simp: count(2))
  qed simp
qed

text \<open>Projecting a rotation replaces the credential: the count starts again.\<close>

definition settled :: "nat \<Rightarrow> file_slot \<Rightarrow> auth_world \<Rightarrow> bool" where
  "settled g A w \<longleftrightarrow> within_budget (if stored_revision (auth_slot w) = stored_revision A then g else 0) (auth_slot w) w"

lemma settled_within: "within_budget g A w \<Longrightarrow> settled g A w"
  by (simp add: settled_def within_budget_def)

lemma settled_replaced: "within_budget 0 (auth_slot w) w \<Longrightarrow> stored_revision (auth_slot w) \<noteq> stored_revision A \<Longrightarrow> settled g A w"
  by (simp add: settled_def)

lemma inv_load_auth:
  "ensures (within_budget g A) load_auth (\<lambda>r w. within_budget g A w
     \<and> (\<forall>x. r = Inr x \<longrightarrow> (\<forall>a. x = AuthLoaded a \<longrightarrow> stored_revision A = Some (revision a) \<and> revision a \<noteq> [])))"
proof (rule ensuresI)
  fix w r t
  assume w: "within_budget g A w" and run: "load_auth w = (r, t)"
  have "within_budget g A t"
    by (rule ensuresD [OF inv_steady [OF world_frame.load_auth_kept [OF files_world] calm_frame.load_auth_kept] w run])
  moreover have "stored_revision A = Some (revision a) \<and> revision a \<noteq> []" if "r = Inr (AuthLoaded a)" for a
    using load_auth_revision [of w a t] run that w by (simp add: within_budget_def)
  ultimately show "within_budget g A t
     \<and> (\<forall>x. r = Inr x \<longrightarrow> (\<forall>a. x = AuthLoaded a \<longrightarrow> stored_revision A = Some (revision a) \<and> revision a \<noteq> []))"
    by simp
qed

lemma cas_post:
  "ensures (within_budget g A) (cas_replace_cookie source replacement (Some successor)) (\<lambda>r w. case r of
      Inr (CasWritten a) \<Rightarrow> faults w = [] \<and> stored_revision (auth_slot w) = Some successor
        \<and> spent g A (journal_slot w) \<and> stored_revision A = Some source
    | _ \<Rightarrow> within_budget g A w)"
  unfolding cas_replace_cookie_def
proof (rule invariant_bind [OF inv_load_auth])
  fix x
  assume x: "\<forall>a. x = AuthLoaded a \<longrightarrow> stored_revision A = Some (revision a) \<and> revision a \<noteq> []"
  show "ensures (within_budget g A) (case x of
         AuthLoaded current \<Rightarrow>
           if revision current \<noteq> source then retM (CasSuperseded (Some (revision current)))
           else (case auth_credential current of
               CookieCredential _ \<Rightarrow>
                 bindM (make_stored_auth (base_url current) (CookieCredential replacement) (Some successor))
                   (\<lambda>new. thenM (write_auth_file new) (retM (CasWritten new)))
             | BearerTokenCredential _ \<Rightarrow> retM (CasSuperseded (Some (revision current))))
       | _ \<Rightarrow> retM (CasSuperseded None)) (\<lambda>r w. case r of
      Inr (CasWritten a) \<Rightarrow> faults w = [] \<and> stored_revision (auth_slot w) = Some successor
        \<and> spent g A (journal_slot w) \<and> stored_revision A = Some source
    | _ \<Rightarrow> within_budget g A w)" (is "ensures _ ?m ?Q")
  proof (cases "\<exists>current h. x = AuthLoaded current \<and> revision current = source \<and> auth_credential current = CookieCredential h")
    case False
    then show ?thesis
      by (cases x) (auto intro!: ensures_basic split: credential.split)
  next
    case True
    then obtain current h where c: "x = AuthLoaded current" "revision current = source"
      "auth_credential current = CookieCredential h" by blast
    with x have rv: "stored_revision A = Some source" by simp
    have made: "make_stored_auth b cr (Some successor) w = (q, u)
        \<Longrightarrow> faults u = faults w \<and> auth_slot u = auth_slot w \<and> journal_slot u = journal_slot w
          \<and> (\<exists>new. q = Inr new \<and> revision new = successor)" for b cr w q u
      by (auto simp: make_stored_auth_def bindM_def retM_def now_def split: list.splits)
    show ?thesis
    proof (rule ensuresI)
      fix w r t
      assume w: "within_budget g A w" and run: "?m w = (r, t)"
      obtain q u where m: "make_stored_auth (base_url current) (CookieCredential replacement) (Some successor) w = (q, u)"
        by (cases "make_stored_auth (base_url current) (CookieCredential replacement) (Some successor) w")
      from made [OF m] obtain new where q: "q = Inr new" "revision new = successor"
        and u: "faults u = faults w" "auth_slot u = auth_slot w" "journal_slot u = journal_slot w" by blast
      from run c m q u w rv show "?Q r t"
        by (auto simp: bindM_def thenM_def write_auth_calm within_budget_def retM_def stored_revision_written)
    qed
  qed
qed simp

text \<open>A rotation is projected: the credential is replaced and the outcome recorded.\<close>

lemma cas_then_record:
  assumes fresh: "Some successor \<noteq> stored_revision A" and nonneg: "0 \<le> dispatch_count a"
    and superseded: "\<And>q. ensures (within_budget g A) (k q) (\<lambda>_. within_budget g A)"
  shows "ensures (within_budget g A)
    (bindM (cas_replace_cookie source replacement (Some successor)) (\<lambda>result. case result of
        CasWritten b \<Rightarrow> thenM (record_terminal_outcome (Rotated source replacement successor) a e) (retM (f b))
      | CasSuperseded q \<Rightarrow> k q)) (\<lambda>_ w. settled g A w)"
proof (rule ensuresI)
  fix w r t
  assume w: "within_budget g A w" and run: "bindM (cas_replace_cookie source replacement (Some successor))
      (\<lambda>result. case result of
        CasWritten b \<Rightarrow> thenM (record_terminal_outcome (Rotated source replacement successor) a e) (retM (f b))
      | CasSuperseded q \<Rightarrow> k q) w = (r, t)"
  from run show "settled g A t"
  proof (cases rule: bindM_E)
    case (raised x)
    with ensuresD [OF cas_post w] show ?thesis by (fastforce intro: settled_within)
  next
    case (continued x u)
    note post = ensuresD [OF cas_post w continued(1)]
    show ?thesis
    proof (cases x)
      case (CasSuperseded q)
      with post have "within_budget g A u" by simp
      from ensuresD [OF superseded this] continued(2) CasSuperseded show ?thesis
        by (auto intro: settled_within)
    next
      case (CasWritten b)
      let ?B = "auth_slot u"
      from CasWritten post have rvB: "stored_revision ?B = Some successor" and "faults u = []" by auto
      then have u: "within_budget 0 ?B u" by (simp add: within_budget_def)
      have "ensures (within_budget 0 ?B) (thenM (record_terminal_outcome (Rotated source replacement successor) a e)
          (retM (f b))) (\<lambda>_. within_budget 0 ?B)"
        unfolding thenM_def
        by (intro ensures_invariant_bindM inv_record_terminal covers_0 nonneg ensures_basic) auto
      from ensuresD [OF this u] continued(2) CasWritten have t: "within_budget 0 ?B t" by auto
      then have "auth_slot t = ?B" by (simp add: within_budget_def)
      with t rvB fresh show ?thesis by (auto intro: settled_replaced)
    qed
  qed
qed

lemma inv_reload: "ensures (within_budget g A) reload_or_raise (\<lambda>_. within_budget g A)"
  by (rule inv_steady [OF world_frame.reload_kept [OF files_world] calm_frame.reload_kept])

lemma recover_rotated_post:
  assumes "Some u \<noteq> stored_revision A" and "0 \<le> dispatch_count a"
  shows "ensures (within_budget g A) (recover_rotated (Rotated source c u) a e) (\<lambda>_ w. settled g A w)"
  unfolding recover_rotated_def rotation_state.case
  using cas_then_record [OF assms inv_reload, where f = "\<lambda>b. b"] by simp

subsection \<open>Preparing\<close>

text \<open>What a preparation leaves: a dispatch on record, or a settled budget.\<close>

definition prepared_post :: "nat \<Rightarrow> file_slot \<Rightarrow> refresh_owner \<Rightarrow> preparation result \<Rightarrow> auth_world \<Rightarrow> bool" where
  "prepared_post g A p r w = (case r of
       Inr (Dispatch a) \<Rightarrow> granted (Suc g) A p a w
     | _ \<Rightarrow> settled g A w)"

lemma prepared_post_simps [simp]:
  "prepared_post g A p (Inl e) w = settled g A w"
  "prepared_post g A p (Inr (ReturnAuth b)) w = settled g A w"
  "prepared_post g A p (Inr (WaitForRevision q)) w = settled g A w"
  "prepared_post g A p (Inr (Dispatch a)) w = granted (Suc g) A p a w"
  by (simp_all add: prepared_post_def)

lemma dispatch_prepared: "dispatch_post g A p r w \<Longrightarrow> prepared_post g A p r w"
  by (auto simp: dispatch_post_def prepared_post_def settled_within split: sum.splits preparation.splits)

text \<open>Nothing is left to recover: no exchange has been counted.\<close>

definition recovered_post :: "nat \<Rightarrow> file_slot \<Rightarrow> refresh_owner \<Rightarrow> preparation option result \<Rightarrow> auth_world \<Rightarrow> bool" where
  "recovered_post g A p r w = (case r of
       Inr None \<Rightarrow> within_budget 0 A w \<and> g = 0
     | Inr (Some q) \<Rightarrow> prepared_post g A p (Inr q) w
     | Inl e \<Rightarrow> settled g A w)"

lemma recovered_post_simps [simp]:
  "recovered_post g A p (Inl e) w = settled g A w"
  "recovered_post g A p (Inr None) w = (within_budget 0 A w \<and> g = 0)"
  "recovered_post g A p (Inr (Some q)) w = prepared_post g A p (Inr q) w"
  by (simp_all add: recovered_post_def)

lemma wrap_some:
  assumes "ensures P m (\<lambda>r w. prepared_post g A p r w)"
  shows "ensures P (bindM m (\<lambda>q. retM (Some q))) (recovered_post g A p)"
  by (rule ensures_bindM [where M = "\<lambda>q. prepared_post g A p (Inr q)"])
     (auto intro: ensures_post [OF assms] ensures_basic split: sum.split)

lemma discard_post:
  assumes "g = 0"
  shows "ensures (within_budget g A) (discard_rotation_state s e) (\<lambda>_. within_budget 0 A)"
proof -
  have "ensures (within_budget 0 A) delete_journal (\<lambda>_. within_budget 0 A)"
    by (rule ensures_weaken [OF inv_delete_journal]) (auto simp: within_budget_def)
  then show ?thesis
    unfolding discard_rotation_state_def thenM_def assms
    by (auto intro!: ensures_invariant_bindM ensures_basic inv_enqueue)
qed

lemma journal_of_current:
  assumes "within_budget g A w" and "read_journal (journal_slot w) = Inr (JournalLoaded s e (Some a) v)"
    and "stored_revision A = Some r"
  shows "g \<le> 6" "covers g (stored_revision A) s a" "0 \<le> dispatch_count a"
    "source_revision s = r \<Longrightarrow> int g \<le> dispatch_count a"
    "source_revision s \<noteq> r \<or> state_successor s = Some r \<or> s = Reserved r \<Longrightarrow> g = 0"
proof -
  show 1: "g \<le> 6" and 2: "covers g (stored_revision A) s a"
    using spent_loaded [OF _ assms(2), of g A] assms(1) by (simp_all add: within_budget_def)
  show 3: "0 \<le> dispatch_count a" using assms(2) by (auto elim: read_journal_loaded)
  show "int g \<le> dispatch_count a" if "source_revision s = r"
    using 2 3 that assms(3) by (auto simp: covers_def split: if_splits)
  show "g = 0" if "source_revision s \<noteq> r \<or> state_successor s = Some r \<or> s = Reserved r"
    using 2 that assms(3) by (auto simp: covers_def counts_for_def split: if_splits)
qed

lemma recover_matching_post:
  assumes owner: "owner_fn env = Inr p" "valid_owner p"
    and rv: "stored_revision A = Some (revision current)" "revision current \<noteq> []"
    and w: "within_budget g A w" and j: "read_journal (journal_slot w) = Inr (JournalLoaded s e (Some a) v)"
    and current: "source_revision s = revision current" "state_successor s \<noteq> Some (revision current)"
    and run: "recover_matching_state env current s a e w = (r, t)"
  shows "recovered_post g A p r t"
proof -
  note facts = journal_of_current [OF w j rv(1)]
  from read_journal_loaded [OF j] have sched: "is_scheduled (continuation a) \<Longrightarrow> rotation_attempt_is_valid a"
    and requested: "\<And>r. s = Requested r \<Longrightarrow> rotation_attempt_is_valid a" and not_ready: "\<forall>r. s \<noteq> Ready r"
    by auto
  have recorded: "ensures (within_budget g A) (record_terminal_outcome s a e) (\<lambda>_. within_budget g A)"
    if "\<forall>x y z. s \<noteq> Rotated x y z"
    by (rule inv_record_terminal) (use facts not_ready that in auto)
  have "ensures (within_budget g A) (recover_matching_state env current s a e) (recovered_post g A p)"
  proof (cases s)
    case (Ready q)
    with not_ready show ?thesis by blast
  next
    case (Reserved q)
    with current have "g = 0" by (intro facts(5)) simp
    have deleted: "ensures (within_budget g A) delete_journal (\<lambda>_. within_budget 0 A)"
      by (rule ensures_weaken [OF inv_delete_journal]) (auto simp: within_budget_def)
    show ?thesis
      unfolding recover_matching_state_def Reserved rotation_state.case
      by (rule ensures_thenM [where M = "within_budget 0 A"], rule ensures_post [OF deleted])
         (auto simp: \<open>g = 0\<close> settled_within split: sum.split intro: ensures_basic)
  next
    case (Requested q)
    then show ?thesis
      using current facts requested
      by (auto simp: recover_matching_state_def intro!: wrap_some
          ensures_post [OF recover_requested_post [OF owner rv]] dispatch_prepared)
  next
    case (Rotated x y z)
    have "ensures (within_budget g A) (recover_rotated s a e) (\<lambda>_ w. settled g A w)"
      unfolding Rotated by (rule recover_rotated_post) (use rv current Rotated facts in auto)
    then show ?thesis
      unfolding recover_matching_state_def Rotated rotation_state.case
      by (rule ensures_bindM [where M = "\<lambda>_ w. settled g A w", OF ensures_post])
         (auto split: sum.split intro: ensures_basic)
  next
    case (Rejected q m)
    with recorded show ?thesis
      unfolding recover_matching_state_def Rejected rotation_state.case
      by (intro ensures_thenM [where M = "within_budget g A"])
         (auto elim: ensures_post split: sum.split intro!: ensures_basic settled_within)
  next
    case (OutcomeUnknown q m)
    have "ensures (within_budget g A) (bindM (recover_unknown env current s a) (\<lambda>p. retM (Some p)))
        (recovered_post g A p)"
      by (rule wrap_some, rule ensures_post [OF recover_unknown_post [OF owner rv]])
         (use OutcomeUnknown current facts sched in \<open>auto intro: dispatch_prepared\<close>)
    then show ?thesis
      unfolding recover_matching_state_def OutcomeUnknown rotation_state.case
      by (intro ensures_thenM [where M = "within_budget g A"])
         (use recorded OutcomeUnknown in \<open>auto elim: ensures_post split: sum.split intro: settled_within\<close>)
  qed
  from ensuresD [OF this w run] show ?thesis .
qed

lemma recover_or_wait_post:
  assumes owner: "owner_fn env = Inr p" "valid_owner p"
    and rv: "stored_revision A = Some (revision current)" "revision current \<noteq> []"
  shows "ensures (within_budget g A) (recover_or_wait env current) (recovered_post g A p)"
proof (rule ensuresI)
  fix w r t
  assume w: "within_budget g A w" and run: "recover_or_wait env current w = (r, t)"
  let ?j = "read_journal (journal_slot w)"
  have absent: "g = 0" if "?j = Inr JournalAbsent"
    using w that by (simp add: within_budget_def spent_def)
  show "recovered_post g A p r t"
  proof (cases "\<exists>s e a v. ?j = Inr (JournalLoaded s e (Some a) v)")
    case False
    have "(r, t) = ((case ?j of Inl e \<Rightarrow> Inl e | Inr JournalAbsent \<Rightarrow> Inr None
        | Inr (JournalLoaded s e None v) \<Rightarrow> Inl (EnjiHttpError ''STORAGE'' ''refresh journal is missing its recovery budget'')
        | Inr j \<Rightarrow> Inl (EnjiHttpError ''STORAGE'' (journal_error_message j))), w)"
      using run False
      by (auto simp: recover_or_wait_def bindM_def load_journal_read throwM_def retM_def
          split: sum.splits journal_load_result.splits option.splits)
    with w absent show ?thesis
      by (auto split: sum.splits journal_load_result.splits option.splits intro: settled_within)
  next
    case True
    then obtain s e a v where j: "?j = Inr (JournalLoaded s e (Some a) v)" by blast
    note facts = journal_of_current [OF w j rv(1)]
    from read_journal_loaded [OF j] have not_ready: "\<forall>q. s \<noteq> Ready q" by blast
    have body: "(if state_successor s = Some (revision current)
        then thenM (record_terminal_outcome s a e) (retM (Some (ReturnAuth current)))
        else if source_revision s \<noteq> revision current
        then thenM (discard_rotation_state s e) (retM None)
        else recover_matching_state env current s a e) w = (r, t)"
      using run not_ready
      by (cases s) (auto simp: recover_or_wait_def bindM_def load_journal_read j)
    consider (finished) "state_successor s = Some (revision current)"
      | (stale) "state_successor s \<noteq> Some (revision current)" "source_revision s \<noteq> revision current"
      | (current) "state_successor s \<noteq> Some (revision current)" "source_revision s = revision current"
      by blast
    then show ?thesis
    proof cases
      case finished
      then have g: "g = 0" by (intro facts(5)) simp
      have "ensures (within_budget g A) (thenM (record_terminal_outcome s a e) (retM (Some (ReturnAuth current))))
          (recovered_post g A p)"
        by (rule ensures_thenM [where M = "within_budget g A"],
            rule ensures_post [OF inv_record_terminal])
           (use facts not_ready g in \<open>auto split: sum.split intro!: ensures_basic settled_within\<close>)
      from ensuresD [OF this w] body finished show ?thesis by simp
    next
      case stale
      then have g: "g = 0" by (intro facts(5)) simp
      have "ensures (within_budget g A) (thenM (discard_rotation_state s e) (retM None)) (recovered_post g A p)"
        by (rule ensures_thenM [where M = "within_budget 0 A"], rule ensures_post [OF discard_post [OF g]])
           (use g in \<open>auto split: sum.split intro!: ensures_basic settled_within\<close>)
      from ensuresD [OF this w] body stale show ?thesis by simp
    next
      case current
      with body show ?thesis
        by (intro recover_matching_post [OF owner rv w j]) auto
    qed
  qed
qed

lemma initial_attempt_valid:
  "r \<noteq> [] \<Longrightarrow> rotation_attempt_is_valid (without_owner (initial_attempt r d)) \<and> dispatch_count (initial_attempt r d) = 1"
  by (simp add: initial_attempt_def new_attempt_def without_owner_def rotation_attempt_is_valid_def
      Let_def policy_defs)

theorem prepare_post:
  assumes owner: "owner_fn env = Inr p" "valid_owner p"
  shows "ensures (within_budget g A) (prepare env expected) (prepared_post g A p)"
  unfolding prepare_def
proof (rule lock_ensures)
  show "ensures (within_budget g A) (prepare_locked env expected) (prepared_post g A p)"
    unfolding prepare_locked_def
  proof (rule invariant_bind [OF inv_load_auth])
    fix loaded
    assume l: "\<forall>a. loaded = AuthLoaded a \<longrightarrow> stored_revision A = Some (revision a) \<and> revision a \<noteq> []"
    let ?body = "\<lambda>current. case auth_credential current of
         BearerTokenCredential _ \<Rightarrow>
           throwM (EnjiHttpError ''AUTH_REQUIRED'' ''stored credential is not cookie based'')
       | CookieCredential _ \<Rightarrow>
           bindM (recover_or_wait env current) (\<lambda>journal_preparation. case journal_preparation of
               Some p \<Rightarrow> retM p
             | None \<Rightarrow>
                 thenM drain_outbox
                   (if expected \<noteq> None \<and> Some (revision current) \<noteq> expected
                    then retM (ReturnAuth current)
                    else bindM recovery_deadline_now (\<lambda>deadline.
                      prepare_dispatch env current (initial_attempt (revision current) deadline) None)))"
    have body: "ensures (within_budget g A) (?body current) (prepared_post g A p)"
      if rv: "stored_revision A = Some (revision current)" "revision current \<noteq> []" for current
    proof (cases "auth_credential current")
      case (BearerTokenCredential k)
      then show ?thesis by (auto intro!: ensures_basic settled_within)
    next
      case (CookieCredential h)
      have fresh: "ensures (within_budget g A) (thenM drain_outbox
                   (if expected \<noteq> None \<and> Some (revision current) \<noteq> expected
                    then retM (ReturnAuth current)
                    else bindM recovery_deadline_now (\<lambda>deadline.
                      prepare_dispatch env current (initial_attempt (revision current) deadline) None)))
          (prepared_post g A p)" if "g = 0"
        unfolding thenM_def
        using initial_attempt_valid [OF rv(2)] that
        by (auto intro!: invariant_read inv_drain ensures_basic settled_within
            inv_steady [OF world_frame.deadline_kept [OF files_world] calm_frame.deadline_kept]
            ensures_post [OF prepare_dispatch_post [OF owner(1) _ owner(2) rv]] dispatch_prepared)
      have rest: "ensures (recovered_post g A p (Inr q)) (case q of Some p \<Rightarrow> retM p
             | None \<Rightarrow> thenM drain_outbox
                   (if expected \<noteq> None \<and> Some (revision current) \<noteq> expected
                    then retM (ReturnAuth current)
                    else bindM recovery_deadline_now (\<lambda>deadline.
                      prepare_dispatch env current (initial_attempt (revision current) deadline) None)))
          (prepared_post g A p)" for q
      proof (cases q)
        case None
        show ?thesis
        proof (cases "g = 0")
          case True
          then show ?thesis unfolding None option.case by (intro ensures_pre [OF fresh]) simp_all
        qed (simp add: None ensures_def)
      qed (auto intro!: ensures_basic)
      show ?thesis
        unfolding CookieCredential credential.case
        by (rule ensures_bindM [where M = "\<lambda>q. recovered_post g A p (Inr q)", OF _ rest],
            rule ensures_post [OF recover_or_wait_post [OF owner rv]])
           (auto split: sum.split)
    qed
    show "ensures (within_budget g A) (bindM (liftM (loaded_or_raise loaded)) ?body) (prepared_post g A p)"
      using body l by (cases loaded) (auto intro!: ensures_basic settled_within)
  qed (simp add: settled_within)
next
  show "keeps calm (prepare_locked env expected)"
    unfolding prepare_locked_def
    by (intro calm_frame.intros calm_frame.loads_kept)
       (auto split: credential.split option.split intro!: calm_frame.intros
         calm_frame.journal_ops_kept calm_frame.recover_or_wait_kept)
qed (simp add: within_budget_def)

end
