(* ===== verification/Auth_Commits.thy ===== *)
theory Auth_Commits
  imports Auth_Budget
begin

section \<open>Committing, recovering and importing within the budget (auth\_session/coordinator.py)\<close>

text \<open>
  The remaining operations against the invariant of \<open>Auth_Budget\<close>: what a commit, a startup
  recovery and an import leave, and which of them must not touch the files at all: a commit
  of a superseded revision, and every preparation while a live process owns the dispatch.
\<close>

subsection \<open>Committing\<close>

definition on_record :: "string \<Rightarrow> file_slot \<Rightarrow> bool" where
  "on_record r j \<longleftrightarrow> (\<exists>s e a v. read_journal j = Inr (JournalLoaded s e (Some a) v) \<and> source_revision s = r)"

definition committing :: "nat \<Rightarrow> file_slot \<Rightarrow> string \<Rightarrow> auth_world \<Rightarrow> bool" where
  "committing g A source w \<longleftrightarrow> within_budget g A w
     \<and> (stored_revision A = Some source \<longrightarrow> on_record source (journal_slot w))"

lemma committing_within: "committing g A source w \<Longrightarrow> within_budget g A w"
  by (simp add: committing_def)

lemma committing_steady:
  assumes "keeps (same files) m" and "keeps calm m"
  shows "ensures (committing g A source) m (\<lambda>_. committing g A source)"
  using keepsD [OF assms(1)] keepsD [OF assms(2)]
  by (auto intro!: ensuresI simp: within_budget_def committing_def same_def files_def calm_def)

lemma committing_superseded:
  "ensures (committing g A source) (is_superseded source) (\<lambda>r w. committing g A source w
     \<and> (\<forall>x. r = Inr x \<longrightarrow> (\<not> x \<longrightarrow> stored_revision A = Some source)))"
proof (rule ensuresI)
  fix w r t
  assume w: "committing g A source w" and run: "is_superseded source w = (r, t)"
  have "committing g A source t"
    by (rule ensuresD [OF committing_steady [OF world_frame.is_superseded_kept [OF files_world]
          calm_frame.is_superseded_kept] w run])
  moreover have "stored_revision A = Some source" if "r = Inr False"
    using run that w
    by (auto simp: is_superseded_def bindM_def retM_def committing_def within_budget_def
        split: prod.splits sum.splits elim!: current_revision.elims dest!: load_auth_revision)
  ultimately show "committing g A source t \<and> (\<forall>x. r = Inr x \<longrightarrow> (\<not> x \<longrightarrow> stored_revision A = Some source))"
    by auto
qed

lemma committing_attempt:
  "ensures (committing g A source) (attempt_for_source source) (\<lambda>r w. committing g A source w
     \<and> (\<forall>a. r = Inr a \<longrightarrow> 0 \<le> dispatch_count a
          \<and> (stored_revision A = Some source \<longrightarrow> g \<le> 6 \<and> int g \<le> dispatch_count a)))"
proof (rule ensuresI)
  fix w r t
  assume w: "committing g A source w" and run: "attempt_for_source source w = (r, t)"
  let ?j = "read_journal (journal_slot w)"
  have t: "t = w"
    using run by (auto simp: attempt_for_source_def bindM_def load_journal_read retM_def split: sum.splits)
  have ok: "0 \<le> dispatch_count a \<and> (stored_revision A = Some source \<longrightarrow> g \<le> 6 \<and> int g \<le> dispatch_count a)"
    if r: "r = Inr a" for a
  proof (cases "\<exists>s e b v. ?j = Inr (JournalLoaded s e (Some b) v) \<and> source_revision s = source")
    case True
    then obtain s e b v where j: "?j = Inr (JournalLoaded s e (Some b) v)" "source_revision s = source" by blast
    have "\<forall>q. s \<noteq> Ready q" using j(1) by (auto elim: read_journal_loaded)
    then have "a = b"
      using run r j by (cases s) (auto simp: attempt_for_source_def bindM_def load_journal_read retM_def)
    with journal_of_current [OF committing_within [OF w] j(1)] j(2) read_journal_loaded [OF j(1)]
    show ?thesis by auto
  next
    case False
    then have none: "stored_revision A \<noteq> Some source"
      using w by (auto simp: committing_def on_record_def)
    have "a = new_attempt source NormalAttempt 1"
      using run r False
      by (auto simp: attempt_for_source_def bindM_def load_journal_read retM_def
          split: sum.splits journal_load_result.splits option.splits if_splits)
    with none show ?thesis by (simp add: new_attempt_def)
  qed
  with w t show "committing g A source t \<and> (\<forall>a. r = Inr a \<longrightarrow> 0 \<le> dispatch_count a
      \<and> (stored_revision A = Some source \<longrightarrow> g \<le> 6 \<and> int g \<le> dispatch_count a))" by blast
qed

text \<open>The terminal state of a dispatch is written and recorded with the attempt's count.\<close>

lemma covers_source:
  assumes "int g \<le> dispatch_count a" and "stored_revision A = Some source"
    and "source_revision s = source" and "state_successor s \<noteq> Some source" and "\<forall>r. s \<noteq> Reserved r"
  shows "covers g (stored_revision A) s a"
  using assms by (simp add: covers_def counts_for_def)

lemma write_terminal:
  assumes "covers g (stored_revision A) s a" and "g \<le> 6" and "\<forall>r. s \<noteq> Ready r"
  shows "ensures (within_budget g A) (write_journal s e (Some a)) (\<lambda>_. within_budget g A)"
  by (rule ensures_weaken [OF inv_write_journal [OF assms]]) (auto simp: within_budget_def)

lemma persist_rotated_post:
  assumes fresh: "Some u \<noteq> stored_revision A"
  shows "ensures (committing g A source) (persist_rotated (Rotated source c u)) (\<lambda>_ w. settled g A w)"
  unfolding persist_rotated_def rotation_state.case
proof (rule invariant_bind [OF committing_superseded])
  fix superseded :: bool
  assume live: "\<not> superseded \<longrightarrow> stored_revision A = Some source"
  show "ensures (committing g A source) (if superseded then reload_or_raise
      else bindM (attempt_for_source source) (\<lambda>found. let attempt = without_owner found in
             thenM (write_journal (Rotated source c u) False (Some attempt))
            (bindM (cas_replace_cookie source c (Some u)) (\<lambda>result. case result of
                CasWritten a \<Rightarrow> thenM (record_terminal_outcome (Rotated source c u) attempt False) (retM a)
              | CasSuperseded _ \<Rightarrow> reload_or_raise)))) (\<lambda>_ w. settled g A w)"
  proof (cases superseded)
    case True
    then show ?thesis
      using ensures_weaken [OF inv_reload [of g A], of "committing g A source" "\<lambda>_. settled g A"]
      by (simp add: committing_within settled_within)
  next
    case False
    with live have rv: "stored_revision A = Some source" by simp
    have body: "ensures (within_budget g A) (thenM (write_journal (Rotated source c u) False (Some a))
        (bindM (cas_replace_cookie source c (Some u)) (\<lambda>result. case result of
                CasWritten b \<Rightarrow> thenM (record_terminal_outcome (Rotated source c u) a False) (retM b)
              | CasSuperseded _ \<Rightarrow> reload_or_raise))) (\<lambda>_ w. settled g A w)"
      if a: "0 \<le> dispatch_count a" "g \<le> 6" "int g \<le> dispatch_count a" for a
      unfolding thenM_def
      by (rule invariant_read [OF write_terminal], rule covers_source [OF a(3) rv])
         (use fresh rv a cas_then_record [OF fresh a(1) inv_reload, where f = "\<lambda>b. b", unfolded thenM_def]
          in \<open>auto intro: settled_within\<close>)
    show ?thesis
      unfolding if_not_P [OF False] Let_def
      by (rule invariant_bind [OF committing_attempt])
         (auto intro!: ensures_pre [OF body] committing_within settled_within simp: rv without_owner_def)
  qed
qed (auto intro: settled_within committing_within)

lemma record_outcome:
  assumes "int g \<le> dispatch_count a" "g \<le> 6" and "stored_revision A = Some source"
    and "s = Rejected source m \<or> s = OutcomeUnknown source m"
  shows "ensures (within_budget g A) (write_journal s False (Some a)) (\<lambda>_. within_budget g A)"
    and "ensures (within_budget g A) (record_terminal_outcome s a False) (\<lambda>_. within_budget g A)"
proof -
  have "covers g (stored_revision A) s a"
    using assms by (auto simp: covers_def counts_for_def)
  then show "ensures (within_budget g A) (write_journal s False (Some a)) (\<lambda>_. within_budget g A)"
    and "ensures (within_budget g A) (record_terminal_outcome s a False) (\<lambda>_. within_budget g A)"
    using assms by (auto intro!: write_terminal inv_record_terminal)
qed

lemma inv_emit: "ensures (within_budget g A) (emit_refresh_observation env a r h outcome u) (\<lambda>_. within_budget g A)"
  by (rule inv_steady [OF world_frame.emit_from [OF files_world] calm_frame.emit_kept])
     (auto intro: keeps_putM simp: same_def files_def)

lemma committing_emit:
  "ensures (committing g A source) (emit_refresh_observation env a r h outcome u) (\<lambda>_. committing g A source)"
  by (rule committing_steady [OF world_frame.emit_from [OF files_world] calm_frame.emit_kept])
     (auto intro: keeps_putM simp: same_def files_def)

lemma superseded_reload:
  "ensures (committing g A source) (bindM reload_or_raise (\<lambda>a. retM (f a))) (\<lambda>_. within_budget g A)"
  by (rule ensures_pre [of "within_budget g A"])
     (auto intro!: ensures_invariant_bindM inv_reload ensures_basic committing_within)

lemma commit_rejected_post:
  "ensures (committing g A source) (commit_rejected source reason) (\<lambda>_. within_budget g A)"
proof -
  let ?body = "bindM (is_superseded source) (\<lambda>superseded.
       if superseded then bindM reload_or_raise (\<lambda>a. retM (Some a))
       else bindM (step_to (Requested source) (ExchangeRejected reason)) (\<lambda>s.
            bindM (attempt_for_source source) (\<lambda>found. let attempt = without_owner found in
              thenM (write_journal s False (Some attempt))
             (thenM (record_terminal_outcome s attempt False) (retM None)))))"
  have step: "step_to (Requested source) (ExchangeRejected reason) = liftM (Inr (Rejected source reason))"
    by (simp add: step_to_def)
  have inner: "ensures (committing g A source) ?body (\<lambda>_. within_budget g A)"
  proof (rule invariant_bind [OF committing_superseded])
    fix superseded :: bool
    assume live: "\<not> superseded \<longrightarrow> stored_revision A = Some source"
    show "ensures (committing g A source) (if superseded then bindM reload_or_raise (\<lambda>a. retM (Some a))
       else bindM (step_to (Requested source) (ExchangeRejected reason)) (\<lambda>s.
            bindM (attempt_for_source source) (\<lambda>found. let attempt = without_owner found in
              thenM (write_journal s False (Some attempt))
             (thenM (record_terminal_outcome s attempt False) (retM None))))) (\<lambda>_. within_budget g A)"
    proof (cases superseded)
      case True
      then show ?thesis by (simp add: superseded_reload)
    next
      case False
      with live have rv: "stored_revision A = Some source" by simp
      show ?thesis
        unfolding if_not_P [OF False] step bindM_liftM Let_def thenM_def
      proof (rule invariant_bind [OF committing_attempt])
        fix a :: rotation_attempt
        assume a: "0 \<le> dispatch_count a \<and> (stored_revision A = Some source \<longrightarrow> g \<le> 6 \<and> int g \<le> dispatch_count a)"
        then have "int g \<le> dispatch_count (without_owner a)" "g \<le> 6"
          using rv by (simp_all add: without_owner_def)
        note ops = record_outcome [OF this rv, of "Rejected source reason" reason, simplified]
        show "ensures (committing g A source) (bindM (write_journal (Rejected source reason) False (Some (without_owner a)))
            (\<lambda>_. bindM (record_terminal_outcome (Rejected source reason) (without_owner a) False) (\<lambda>_. retM None)))
            (\<lambda>_. within_budget g A)"
          by (rule ensures_pre [of "within_budget g A"])
             (auto intro!: ensures_invariant_bindM ops ensures_basic committing_within)
      qed (simp add: committing_within)
    qed
  qed (simp add: committing_within)
  have locked: "ensures (committing g A source) (auth_file_lock ?body) (\<lambda>_. within_budget g A)"
  proof (rule lock_ensures [OF inner])
    show "keeps calm ?body"
      unfolding Let_def by (auto intro!: calm_frame.intros calm_frame.journal_ops_kept)
  qed (simp add: committing_def within_budget_def)
  show ?thesis
    unfolding commit_rejected_def
    by (rule ensures_bindM [where M = "\<lambda>_. within_budget g A"], rule ensures_post [OF locked])
       (auto split: sum.split option.split intro!: ensures_basic)
qed

lemma persist_unknown_post:
  "ensures (committing g A source) (persist_unknown env source reason l observation) (\<lambda>_. within_budget g A)"
  unfolding persist_unknown_def
proof (rule invariant_bind [OF committing_superseded])
  fix superseded :: bool
  assume live: "\<not> superseded \<longrightarrow> stored_revision A = Some source"
  let ?s = "OutcomeUnknown source reason"
  have step: "step_to (Requested source) (ExchangeOutcomeUnknown reason) = liftM (Inr ?s)"
    by (simp add: step_to_def)
  show "ensures (committing g A source) (if superseded then bindM reload_or_raise (\<lambda>a. retM (Inl a))
       else bindM (step_to (Requested source) (ExchangeOutcomeUnknown reason)) (\<lambda>s.
            bindM (attempt_for_source source) (\<lambda>found.
            bindM recovery_deadline_now (\<lambda>deadline.
            bindM now (\<lambda>t.
            bindM (liftM (case observation of
                     None \<Rightarrow> Inr None
                   | Some (_, r) \<Rightarrow> bindR (normalized_response_class r) (\<lambda>c. Inr (Some c)))) (\<lambda>rclass.
              let attempt = (with_continuation found l deadline t)\<lparr>response_class := rclass\<rparr> in
              thenM (write_journal s False (Some attempt))
             (thenM (case observation of
                       None \<Rightarrow> retM ()
                     | Some (a, r) \<Rightarrow> emit_refresh_observation env a (Some r) None UnknownOutcome None)
             (thenM (record_terminal_outcome s attempt False) (retM (Inr attempt)))))))))) (\<lambda>_. within_budget g A)"
  proof (cases superseded)
    case True
    then show ?thesis by (simp add: superseded_reload)
  next
    case False
    with live have rv: "stored_revision A = Some source" by simp
    show ?thesis
      unfolding if_not_P [OF False] step bindM_liftM(1)
    proof (rule invariant_bind [OF committing_attempt])
      fix a :: rotation_attempt
      assume "0 \<le> dispatch_count a \<and> (stored_revision A = Some source \<longrightarrow> g \<le> 6 \<and> int g \<le> dispatch_count a)"
      then have count: "int g \<le> dispatch_count ((with_continuation a l d t)\<lparr>response_class := x\<rparr>)" and "g \<le> 6" for d t x
        using rv by simp_all
      note ops = record_outcome [OF this rv, of ?s reason, simplified]
      show "ensures (committing g A source) (bindM recovery_deadline_now (\<lambda>deadline.
            bindM now (\<lambda>t.
            bindM (liftM (case observation of
                     None \<Rightarrow> Inr None
                   | Some (_, r) \<Rightarrow> bindR (normalized_response_class r) (\<lambda>c. Inr (Some c)))) (\<lambda>rclass.
              let attempt = (with_continuation a l deadline t)\<lparr>response_class := rclass\<rparr> in
              thenM (write_journal ?s False (Some attempt))
             (thenM (case observation of
                       None \<Rightarrow> retM ()
                     | Some (a, r) \<Rightarrow> emit_refresh_observation env a (Some r) None UnknownOutcome None)
             (thenM (record_terminal_outcome ?s attempt False) (retM (Inr attempt)))))))) (\<lambda>_. within_budget g A)"
        unfolding Let_def thenM_def
        by (rule ensures_pre [of "within_budget g A"])
           (auto intro!: ensures_invariant_bindM ops ensures_basic committing_within inv_now inv_emit
             inv_steady [OF world_frame.deadline_kept [OF files_world] calm_frame.deadline_kept]
             split: option.split)
    qed (simp add: committing_within)
  qed
qed (simp add: committing_within)

lemma commit_unknown_post:
  "ensures (committing g A source) (commit_unknown env source reason l observation) (\<lambda>_. within_budget g A)"
proof -
  have calm_body: "keeps calm (persist_unknown env source reason l observation)"
    unfolding persist_unknown_def Let_def
    by (auto intro!: calm_frame.intros calm_frame.journal_ops_kept calm_frame.emit_kept split: option.split)
  have locked: "ensures (committing g A source)
      (auth_file_lock (persist_unknown env source reason l observation)) (\<lambda>_. within_budget g A)"
    by (rule lock_ensures [OF persist_unknown_post _ calm_body]) (simp add: committing_def within_budget_def)
  show ?thesis
    unfolding commit_unknown_def
    by (rule ensures_bindM [where M = "\<lambda>_. within_budget g A"], rule ensures_post [OF locked])
       (auto split: sum.split intro!: ensures_basic)
qed

text \<open>The identifier the next success draws is not that of the stored credential.\<close>

definition fresh_successor :: "nat \<Rightarrow> file_slot \<Rightarrow> string \<Rightarrow> auth_world \<Rightarrow> bool" where
  "fresh_successor g A source w \<longleftrightarrow> committing g A source w \<and> Some (uuid_of w (uuid_next w)) \<noteq> stored_revision A"

lemma committing_settled: "committing g A source w \<Longrightarrow> settled g A w"
  by (simp add: committing_within settled_within)

lemma commit_success_post:
  assumes "revision a = source"
  shows "ensures (fresh_successor g A source) (commit_success env a header r) (\<lambda>_ w. settled g A w)"
  unfolding commit_success_def
proof (rule ensures_bindM [where M = "\<lambda>u w. Some u \<noteq> stored_revision A \<and> committing g A source w"])
  show "ensures (fresh_successor g A source) fresh_uuid (\<lambda>r t. case r of Inl e \<Rightarrow> settled g A t
      | Inr u \<Rightarrow> Some u \<noteq> stored_revision A \<and> committing g A source t)"
    by (auto intro!: ensuresI simp: fresh_uuid_def fresh_successor_def committing_def within_budget_def)
  fix u
  show "ensures (\<lambda>w. Some u \<noteq> stored_revision A \<and> committing g A source w)
    (bindM (step_to (Requested (revision a)) (ExchangeSucceeded header u)) (\<lambda>rotated.
     thenM (emit_refresh_observation env a (Some r) (Some header) RotatedOutcome (Some u))
    (bindM (make_stored_auth (base_url a) (CookieCredential header) (Some u))
       (\<lambda>successor.
         handleM (auth_file_lock (persist_rotated rotated)) is_os_error
           (\<lambda>_. throwM (PostDispatchPersistence (revision a) (revision successor) (base_url successor)
                          header (imported_at successor))))))) (\<lambda>_ w. settled g A w)"
  proof (cases "Some u = stored_revision A")
    case True
    then show ?thesis by (simp add: ensures_def)
  next
    case False
    have lock: "ensures (committing g A source) (auth_file_lock (persist_rotated (Rotated source header u)))
        (\<lambda>_ w. settled g A w)"
      by (rule lock_ensures [OF persist_rotated_post [OF False] _ calm_frame.persist_rotated_kept])
         (simp add: committing_def within_budget_def)
    have handled: "ensures (committing g A source) (handleM (auth_file_lock (persist_rotated (Rotated source header u)))
        is_os_error (\<lambda>_. throwM x)) (\<lambda>_ w. settled g A w)" for x
    proof (rule ensuresI)
      fix w q t
      assume w: "committing g A source w" and "handleM (auth_file_lock (persist_rotated (Rotated source header u)))
        is_os_error (\<lambda>_. throwM x) w = (q, t)"
      moreover obtain q' t' where "auth_file_lock (persist_rotated (Rotated source header u)) w = (q', t')"
        by (cases "auth_file_lock (persist_rotated (Rotated source header u)) w")
      ultimately show "settled g A t"
        using ensuresD [OF lock w]
        by (auto simp: handleM_def throwM_def split: sum.splits if_splits)
    qed
    have make: "ensures (committing g A source) (make_stored_auth b c (Some u)) (\<lambda>_. committing g A source)" for b c
      by (rule committing_steady [OF world_frame.make_stored_auth_kept [OF files_world]
            calm_frame.make_stored_auth_kept])
    have step: "step_to (Requested (revision a)) (ExchangeSucceeded header u)
        = liftM (Inr (Rotated source header u))"
      using assms by (simp add: step_to_def)
    have "ensures (committing g A source)
      (thenM (emit_refresh_observation env a (Some r) (Some header) RotatedOutcome (Some u))
    (bindM (make_stored_auth (base_url a) (CookieCredential header) (Some u))
       (\<lambda>successor.
         handleM (auth_file_lock (persist_rotated (Rotated source header u))) is_os_error
           (\<lambda>_. throwM (PostDispatchPersistence (revision a) (revision successor) (base_url successor)
                          header (imported_at successor)))))) (\<lambda>_ w. settled g A w)"
      unfolding thenM_def
      by (intro invariant_read committing_emit make handled) (auto intro: committing_settled)
    then show ?thesis
      unfolding step bindM_liftM by (rule ensures_pre) simp
  qed
qed

lemma commit_response_post:
  assumes "revision a = source"
  shows "ensures (fresh_successor g A source) (commit_response env a r) (\<lambda>_ w. settled g A w)"
proof -
  have clock: "ensures (fresh_successor g A source) now (\<lambda>_. fresh_successor g A source)"
    by (auto intro!: ensuresI simp: fresh_successor_def committing_def within_budget_def now_def
        split: list.splits)
  have weak: "ensures (fresh_successor g A source) m (\<lambda>_ w. settled g A w)"
    if "ensures (committing g A source) m (\<lambda>_. within_budget g A)" for m :: "stored_auth auth_io"
    using ensures_weaken [OF that, of "fresh_successor g A source" "\<lambda>_. settled g A"]
    by (simp add: settled_within fresh_successor_def)
  have stop: "ensures (committing g A source)
      (thenM (emit_refresh_observation env a (Some r) None RejectedOutcome None)
        (commit_rejected (revision a) reason)) (\<lambda>_. within_budget g A)" for reason
    unfolding thenM_def assms
    by (intro invariant_read committing_emit commit_rejected_post) (auto intro: committing_within)
  have settle: "ensures (fresh_successor g A source) (throwM x) (\<lambda>_ w. settled g A w)" for x
    by (rule ensures_basic) (auto simp: fresh_successor_def intro: committing_settled)
  show ?thesis
    unfolding commit_response_def
  proof (rule invariant_read [OF clock])
    fix t
    show "ensures (fresh_successor g A source)
      (bindM (liftM (successful_replacement env t a r)) (\<lambda>replacement. case replacement of
         Some cookie_header \<Rightarrow> commit_success env a cookie_header r
       | None \<Rightarrow>
           bindM (liftM (response_continuation r)) (\<lambda>c. case c of
               Stop \<Rightarrow>
                 thenM (emit_refresh_observation env a (Some r) None RejectedOutcome None)
                   (commit_rejected (revision a)
                     (''refresh rejected with HTTP '' @ show_int (status_code r)))
             | Continue l \<Rightarrow>
                 commit_unknown env (revision a)
                   (''refresh response HTTP '' @ show_int (status_code r)) l (Some (a, r)))))
      (\<lambda>_ w. settled g A w)"
    proof (cases "successful_replacement env t a r")
      case (Inl x)
      then show ?thesis by (simp add: settle)
    next
      case (Inr replacement)
      have tail: "ensures (fresh_successor g A source) (bindM (liftM (response_continuation r)) (\<lambda>c. case c of
               Stop \<Rightarrow>
                 thenM (emit_refresh_observation env a (Some r) None RejectedOutcome None)
                   (commit_rejected (revision a)
                     (''refresh rejected with HTTP '' @ show_int (status_code r)))
             | Continue l \<Rightarrow>
                 commit_unknown env (revision a)
                   (''refresh response HTTP '' @ show_int (status_code r)) l (Some (a, r))))
         (\<lambda>_ w. settled g A w)"
      proof (cases "response_continuation r")
        case (Inr c)
        then show ?thesis
        proof (cases c)
          case (Continue l)
          show ?thesis
            unfolding Inr Continue bindM_liftM continuation.case assms
            by (rule weak) (rule commit_unknown_post)
        next
          case Stop
          show ?thesis
            unfolding Inr Stop bindM_liftM continuation.case by (rule weak) (rule stop)
        qed
      qed (simp add: settle)
      show ?thesis
      proof (cases replacement)
        case None
        show ?thesis unfolding Inr None bindM_liftM option.case by (rule tail)
      next
        case (Some header)
        show ?thesis unfolding Inr Some bindM_liftM option.case by (rule commit_success_post [OF assms])
      qed
    qed
  qed (auto simp: fresh_successor_def intro: committing_settled)
qed

lemma commit_outcome_post:
  assumes "revision a = source"
  shows "ensures (fresh_successor g A source) (commit_outcome env a outcome) (\<lambda>_ w. settled g A w)"
proof -
  have observe: "ensures (committing g A source)
      (thenM (emit_refresh_observation env a None None UnknownOutcome None)
        (commit_unknown env (revision a) reason AmbiguityReplay None)) (\<lambda>_. within_budget g A)" for reason
    unfolding thenM_def assms
    by (intro invariant_read committing_emit commit_unknown_post) (auto intro: committing_within)
  note weak = ensures_weaken [of "committing g A source" _ "\<lambda>_. within_budget g A" "fresh_successor g A source"
      "\<lambda>_ w. settled g A w"]
  show ?thesis
  proof (cases outcome)
    case (Responded r)
    show ?thesis
      unfolding commit_outcome_def Responded exchange_outcome.case
    proof (rule ensuresI)
      fix w q t
      assume w: "fresh_successor g A source w" and "handleM (commit_response env a r) is_os_error
        (\<lambda>_. throwM (TerminalRevisionRequired (revision a)
                  ''refresh dispatch completed; import a fresh browser credential'')) w = (q, t)"
      then show "settled g A t"
        using ensuresD [OF commit_response_post [OF assms] w]
        by (cases "commit_response env a r w") (auto simp: handleM_def throwM_def split: sum.splits if_splits)
    qed
  next
    case (Raised e)
    then show ?thesis
      by (auto simp: commit_outcome_def fresh_successor_def committing_settled settled_within split: option.split
          intro!: weak observe ensures_basic)
  next
    case Cancelled
    let ?guarded = "thenM (emit_refresh_observation env a None None UnknownOutcome None)
        (thenM (commit_unknown env (revision a) ''refresh task cancelled'' AmbiguityReplay None) (retM ()))"
    have inner: "ensures (committing g A source) ?guarded (\<lambda>_. within_budget g A)"
      unfolding thenM_def assms
    proof (rule invariant_read [OF committing_emit])
      show "ensures (committing g A source) (bindM (commit_unknown env source ''refresh task cancelled'' AmbiguityReplay None)
          (\<lambda>_. retM ())) (\<lambda>_. within_budget g A)"
        by (rule ensures_bindM [where M = "\<lambda>_. within_budget g A", OF ensures_post [OF commit_unknown_post]])
           (auto split: sum.split intro: ensures_basic)
    qed (simp add: committing_within)
    show ?thesis
      unfolding commit_outcome_def Cancelled exchange_outcome.case
    proof (rule ensuresI)
      fix w q t
      assume w: "fresh_successor g A source w" and "thenM (handleM ?guarded
             (\<lambda>e. enji_code e \<in> {Some ''AUTH_IMPORT_REQUIRED'', Some ''AUTH_RECOVERY_PENDING''})
             (\<lambda>_. retM ())) (throwM CancelledError) w = (q, t)"
      then show "settled g A t"
        using ensuresD [OF inner, of w] w
        by (cases "?guarded w") (auto simp: handleM_def thenM_def bindM_def retM_def throwM_def
            fresh_successor_def settled_within split: sum.splits if_splits)
    qed
  qed
qed

subsection \<open>Operations that must not touch the files\<close>

definition untouched :: "file_slot \<times> file_slot \<Rightarrow> auth_world \<Rightarrow> bool" where
  "untouched F w \<longleftrightarrow> files w = F"

lemma untouched_steady: "keeps (same files) m \<Longrightarrow> ensures (untouched F) m (\<lambda>_. untouched F)"
  by (auto intro!: ensuresI dest: keepsD simp: untouched_def same_def)

lemmas untouched_env =
  untouched_steady [OF world_frame.trigger_kept [OF files_world]]
  untouched_steady [OF world_frame.now_kept [OF files_world]]
  untouched_steady [OF world_frame.uuid_kept [OF files_world]]
  untouched_steady [OF world_frame.reload_kept [OF files_world]]
  untouched_steady [OF world_frame.make_stored_auth_kept [OF files_world]]
  untouched_steady [OF world_frame.step_to_kept [OF files_world]]

lemma untouched_emit: "ensures (untouched F) (emit_refresh_observation env a r h outcome u) (\<lambda>_. untouched F)"
  by (rule untouched_steady, rule world_frame.emit_from [OF files_world])
     (auto intro: keeps_putM simp: same_def files_def)

lemma untouched_lock:
  assumes "ensures (untouched F) body (\<lambda>r w. untouched F w \<and> Q r)"
    and "\<And>e. Q (Inl e)"
  shows "ensures (untouched F) (auth_file_lock body) (\<lambda>r w. untouched F w \<and> Q r)"
proof -
  have final: "ensures (untouched F) (finallyM body (trigger ''unlock'')) (\<lambda>r w. untouched F w \<and> Q r)"
  proof (rule ensuresI)
    fix w r t
    assume w: "untouched F w" and run: "finallyM body (trigger ''unlock'') w = (r, t)"
    obtain q u where body: "body w = (q, u)" by (cases "body w")
    obtain q' t' where unlock: "trigger ''unlock'' u = (q', t')" by (cases "trigger ''unlock'' u")
    from ensuresD [OF assms(1) w body] have u: "untouched F u" "Q q" by auto
    from ensuresD [OF untouched_env(1) u(1) unlock] run body unlock u assms(2)
    show "untouched F t \<and> Q r" by (auto simp: finallyM_def split: sum.splits)
  qed
  show ?thesis
    unfolding auth_file_lock_def thenM_def
    by (intro invariant_read untouched_env final) (auto simp: assms(2))
qed

lemma ensures_handleM:
  assumes "ensures I m (\<lambda>_. I)" and "\<And>e. ensures I (h e) (\<lambda>_. I)"
  shows "ensures I (handleM m p h) (\<lambda>_. I)"
proof (rule ensuresI)
  fix w r t
  assume w: "I w" and run: "handleM m p h w = (r, t)"
  obtain q u where m: "m w = (q, u)" by (cases "m w")
  have u: "I u" by (rule ensuresD [OF assms(1) w m])
  have "(r, t) = (q, u) \<or> (\<exists>e. h e u = (r, t))"
    using run m by (cases q) (auto simp: handleM_def split: if_splits)
  with u show "I t" using ensuresD [OF assms(2) u] by auto
qed

text \<open>The stored credential has moved on: committing an exchange of an older revision reads only.\<close>

lemma superseded_true:
  assumes "stored_revision (fst F) \<noteq> Some source"
  shows "ensures (untouched F) (is_superseded source) (\<lambda>r w. untouched F w \<and> (\<forall>x. r = Inr x \<longrightarrow> x))"
proof (rule ensuresI)
  fix w r t
  assume w: "untouched F w" and run: "is_superseded source w = (r, t)"
  have "untouched F t"
    by (rule ensuresD [OF untouched_steady [OF world_frame.is_superseded_kept [OF files_world]] w run])
  moreover have "x" if x: "r = Inr x" for x
  proof -
    obtain q u where load: "load_auth w = (q, u)" by (cases "load_auth w")
    with run x obtain loaded where q: "q = Inr loaded" and x': "x \<longleftrightarrow> current_revision loaded \<noteq> Some source"
      by (cases q) (auto simp: is_superseded_def bindM_def retM_def)
    have "current_revision loaded \<noteq> Some source"
      using load_auth_revision [of w _ u] load q w assms
      by (cases loaded) (auto simp: untouched_def files_def)
    with x' show x by simp
  qed
  ultimately show "untouched F t \<and> (\<forall>x. r = Inr x \<longrightarrow> x)" by blast
qed

lemma untouched_if_superseded:
  assumes F: "stored_revision (fst F) \<noteq> Some source"
    and keep: "ensures (untouched F) m (\<lambda>_. untouched F)"
  shows "ensures (untouched F) (bindM (is_superseded source) (\<lambda>x. if x then m else k)) (\<lambda>_. untouched F)"
  by (rule invariant_bind [OF superseded_true [OF F]]) (use keep in auto)

lemma superseded_commit_untouched:
  assumes F: "stored_revision (fst F) \<noteq> Some (revision a)"
  shows "ensures (untouched F) (commit_outcome env a outcome) (\<lambda>_. untouched F)"
proof -
  note lock = untouched_lock [where Q = "\<lambda>_. True", simplified]
  have reload: "ensures (untouched F) (bindM reload_or_raise (\<lambda>b. retM (f b))) (\<lambda>_. untouched F)" for f :: "stored_auth \<Rightarrow> 'a"
    by (intro ensures_invariant_bindM untouched_env ensures_basic)
  have rotated: "ensures (untouched F) (persist_rotated (Rotated (revision a) h u)) (\<lambda>_. untouched F)" for h u
    unfolding persist_rotated_def rotation_state.case
    by (rule untouched_if_superseded [OF F untouched_env(4)])
  have success: "ensures (untouched F) (commit_success env a h r) (\<lambda>_. untouched F)" for h r
    unfolding commit_success_def step_to_def transition.simps requested_transition.simps sum.case
      transition_result.sel bindM_liftM thenM_def
    by (intro ensures_invariant_bindM untouched_env untouched_emit ensures_handleM lock rotated ensures_basic)
  have rejected: "ensures (untouched F) (commit_rejected (revision a) m) (\<lambda>_. untouched F)" for m
    unfolding commit_rejected_def
    by (intro ensures_invariant_bindM lock untouched_if_superseded [OF F reload])
       (auto split: option.split intro: ensures_basic)
  have unknown: "ensures (untouched F) (commit_unknown env (revision a) m l x) (\<lambda>_. untouched F)" for m l x
    unfolding commit_unknown_def persist_unknown_def
    by (intro ensures_invariant_bindM lock untouched_if_superseded [OF F reload])
       (auto split: sum.split intro: ensures_basic)
  have response: "ensures (untouched F) (commit_response env a r) (\<lambda>_. untouched F)" for r
    unfolding commit_response_def thenM_def
    by (intro ensures_invariant_bindM untouched_env ensures_basic)
       (auto split: option.split continuation.split
         intro!: ensures_invariant_bindM ensures_basic success rejected unknown untouched_emit)
  show ?thesis
    unfolding commit_outcome_def thenM_def
    by (auto split: exchange_outcome.split option.split
        intro!: ensures_handleM ensures_invariant_bindM ensures_basic response unknown untouched_emit)
qed

text \<open>A dispatch of a live process is on record: preparing and starting up only read.\<close>

definition live_dispatch :: "coordinator_env \<Rightarrow> file_slot \<times> file_slot \<Rightarrow> bool" where
  "live_dispatch env F \<longleftrightarrow> (\<exists>r e a v. read_journal (snd F) = Inr (JournalLoaded (Requested r) e (Some a) v)
     \<and> stored_revision (fst F) = Some r \<and> owner_alive env a)"

lemma load_auth_untouched:
  "ensures (untouched F) load_auth (\<lambda>r w. untouched F w
     \<and> (\<forall>x. r = Inr x \<longrightarrow> (\<forall>a. x = AuthLoaded a \<longrightarrow> stored_revision (fst F) = Some (revision a))))"
proof (rule ensuresI)
  fix w r t
  assume w: "untouched F w" and run: "load_auth w = (r, t)"
  have "untouched F t"
    by (rule ensuresD [OF untouched_steady [OF world_frame.load_auth_kept [OF files_world]] w run])
  moreover have "stored_revision (fst F) = Some (revision a)" if "r = Inr (AuthLoaded a)" for a
    using load_auth_revision [of w a t] run that w by (auto simp: untouched_def files_def)
  ultimately show "untouched F t
     \<and> (\<forall>x. r = Inr x \<longrightarrow> (\<forall>a. x = AuthLoaded a \<longrightarrow> stored_revision (fst F) = Some (revision a)))"
    by simp
qed

lemma live_dispatch_waits:
  assumes "live_dispatch env F"
  shows "ensures (untouched F) (prepare env expected) (\<lambda>r w. untouched F w \<and> (\<forall>a. r \<noteq> Inr (Dispatch a)))"
  unfolding prepare_def
proof (rule untouched_lock)
  from assms obtain q e a v where j: "read_journal (snd F) = Inr (JournalLoaded (Requested q) e (Some a) v)"
    and rv: "stored_revision (fst F) = Some q" and alive: "owner_alive env a"
    by (auto simp: live_dispatch_def)
  have wait: "recover_or_wait env current w = (Inr (Some (WaitForRevision q)), w)"
    if "untouched F w" "revision current = q" for current w
    using that j alive
    by (auto simp: recover_or_wait_def bindM_def load_journal_read untouched_def files_def
        recover_matching_state_def recover_requested_def retM_def)
  show "ensures (untouched F) (prepare_locked env expected) (\<lambda>r w. untouched F w \<and> (\<forall>a. r \<noteq> Inr (Dispatch a)))"
    unfolding prepare_locked_def
  proof (rule invariant_bind [OF load_auth_untouched])
    fix x
    assume x: "\<forall>a. x = AuthLoaded a \<longrightarrow> stored_revision (fst F) = Some (revision a)"
    then have "revision b = q" if "x = AuthLoaded b" for b
      using that rv by simp
    then show "ensures (untouched F) (bindM (liftM (loaded_or_raise x)) (\<lambda>current. case auth_credential current of
         BearerTokenCredential _ \<Rightarrow>
           throwM (EnjiHttpError ''AUTH_REQUIRED'' ''stored credential is not cookie based'')
       | CookieCredential _ \<Rightarrow>
           bindM (recover_or_wait env current) (\<lambda>journal_preparation. case journal_preparation of
               Some p \<Rightarrow> retM p
             | None \<Rightarrow>
                 thenM drain_outbox
                   (if expected \<noteq> None \<and> Some (revision current) \<noteq> expected
                    then retM (ReturnAuth current)
                    else bindM recovery_deadline_now (\<lambda>deadline.
                      prepare_dispatch env current (initial_attempt (revision current) deadline) None)))))
       (\<lambda>r w. untouched F w \<and> (\<forall>a. r \<noteq> Inr (Dispatch a)))"
      by (cases x) (auto intro!: ensuresI simp: wait bindM_def retM_def throwM_def split: credential.splits)
  qed simp
qed simp

lemma live_dispatch_startup:
  assumes "live_dispatch env F"
  shows "ensures (untouched F) (recover_startup env) (\<lambda>_. untouched F)"
proof -
  from assms obtain q e a v where j: "read_journal (snd F) = Inr (JournalLoaded (Requested q) e (Some a) v)"
    and rv: "stored_revision (fst F) = Some q" and alive: "owner_alive env a"
    by (auto simp: live_dispatch_def)
  have journal: "ensures (untouched F) (recover_startup_journal env current) (\<lambda>_. untouched F)"
    if "revision current = q" for current
    using that j alive
    by (auto intro!: ensuresI simp: recover_startup_journal_def bindM_def load_journal_read untouched_def
        files_def retM_def)
  have drain: "ensures (untouched F) drain_outbox (\<lambda>_. untouched F)"
    by (rule untouched_steady, rule files_kept(2)) (simp_all add: files_def)
  have "ensures (untouched F) (bindM load_auth (\<lambda>loaded. case loaded of
       AuthLoaded current \<Rightarrow>
         thenM drain_outbox (bindM (recover_startup_journal env current) (\<lambda>a. retM (Some a)))
     | _ \<Rightarrow> retM None)) (\<lambda>_. untouched F)"
  proof (rule invariant_bind [OF load_auth_untouched])
    fix x
    assume "\<forall>a. x = AuthLoaded a \<longrightarrow> stored_revision (fst F) = Some (revision a)"
    with rv show "ensures (untouched F) (case x of
       AuthLoaded current \<Rightarrow>
         thenM drain_outbox (bindM (recover_startup_journal env current) (\<lambda>a. retM (Some a)))
     | _ \<Rightarrow> retM None) (\<lambda>_. untouched F)"
      unfolding thenM_def
      by (cases x) (auto intro!: ensures_basic ensures_invariant_bindM drain journal)
  qed simp
  then show ?thesis
    unfolding recover_startup_def using untouched_lock [where Q = "\<lambda>_. True", simplified] by blast
qed

subsection \<open>Startup and import\<close>

lemma startup_journal_post:
  assumes rv: "stored_revision A = Some (revision current)"
  shows "ensures (within_budget g A) (recover_startup_journal env current) (\<lambda>_ w. settled g A w)"
proof (rule ensuresI)
  fix w r t
  assume w: "within_budget g A w" and run: "recover_startup_journal env current w = (r, t)"
  let ?j = "read_journal (journal_slot w)"
  show "settled g A t"
  proof (cases "\<exists>s e a v. ?j = Inr (JournalLoaded s e (Some a) v)")
    case False
    then have "t = w"
      using run by (auto simp: recover_startup_journal_def bindM_def load_journal_read throwM_def retM_def
          split: sum.splits journal_load_result.splits option.splits)
    with w show ?thesis by (simp add: settled_within)
  next
    case True
    then obtain s e a v where j: "?j = Inr (JournalLoaded s e (Some a) v)" by blast
    note facts = journal_of_current [OF w j rv]
    from read_journal_loaded [OF j] have not_ready: "\<forall>q. s \<noteq> Ready q"
      and valid: "\<And>q. s = Requested q \<Longrightarrow> rotation_attempt_is_valid a" by blast+
    have ready: "is_ready s = False" using not_ready by (cases s) auto
    let ?body = "if state_successor s = Some (revision current)
              then thenM (record_terminal_outcome s a e) (retM current)
              else if source_revision s \<noteq> revision current
              then thenM (discard_rotation_state s e) (retM current)
              else (case s of
                  Rotated _ _ _ \<Rightarrow> recover_rotated s a e
                | Reserved _ \<Rightarrow> thenM delete_journal (retM current)
                | Requested _ \<Rightarrow>
                    if owner_alive env a then retM current
                    else bindM (mark_unknown s a ''process exited after refresh dispatch'') (\<lambda>_. retM current)
                | _ \<Rightarrow> thenM (record_terminal_outcome s a e) (retM current))"
    have body: "?body w = (r, t)"
      using run ready by (simp only: recover_startup_journal_def bindM_def load_journal_read j prod.case
          sum.case journal_load_result.case option.case if_False)
    have settle: "ensures (within_budget g A) m (\<lambda>_ w. settled g A w)"
      if "ensures (within_budget g A) m (\<lambda>_. within_budget h A)" "h = g" for m :: "stored_auth auth_io" and h
      using that by (auto elim!: ensures_post intro: settled_within)
    have recorded: "ensures (within_budget g A) (thenM (record_terminal_outcome s a e) (retM current))
        (\<lambda>_ w. settled g A w)" if "\<And>x y z. s = Rotated x y z \<Longrightarrow> g = 0"
      unfolding thenM_def
      by (intro settle [where h = g] ensures_invariant_bindM inv_record_terminal ensures_basic)
         (use facts not_ready that in auto)
    have "ensures (within_budget g A) ?body (\<lambda>_ w. settled g A w)"
    proof (cases "state_successor s = Some (revision current)")
      case True
      then have "g = 0" by (intro facts(5)) simp
      then show ?thesis unfolding if_P [OF True] by (intro recorded)
    next
      case False
      show ?thesis
      proof (cases "source_revision s = revision current")
        case stale: False
        then have g: "g = 0" by (intro facts(5)) simp
        have "ensures (within_budget g A) (thenM (discard_rotation_state s e) (retM current))
            (\<lambda>_. within_budget 0 A)"
          by (rule ensures_thenM [where M = "within_budget 0 A"], rule ensures_post [OF discard_post [OF g]])
             (auto split: sum.split intro: ensures_basic)
        then show ?thesis
          unfolding if_not_P [OF False] if_P [OF stale] by (rule settle) (simp add: g)
      next
        case current: True
        have deleted: "ensures (within_budget g A) (thenM delete_journal (retM current)) (\<lambda>_. within_budget 0 A)"
          by (rule ensures_thenM [where M = "within_budget 0 A"], rule ensures_weaken [OF inv_delete_journal])
             (auto split: sum.split intro: ensures_basic simp: within_budget_def)
        have marked: "ensures (within_budget g A) (bindM (mark_unknown s a m) (\<lambda>_. retM current))
            (\<lambda>_. within_budget g A)" if "s = Requested q" for q m
          by (rule ensures_bindM [where M = "\<lambda>_. within_budget g A"], rule ensures_post,
              unfold that, rule mark_unknown_post)
             (use rv facts valid current that in \<open>auto split: sum.split intro: ensures_basic\<close>)
        have rotated: "ensures (within_budget g A) (recover_rotated s a e) (\<lambda>_ w. settled g A w)"
          if "s = Rotated x y z" for x y z
          unfolding that by (rule recover_rotated_post) (use that False rv facts in auto)
        have waiting: "ensures (within_budget g A) (retM current) (\<lambda>_ w. settled g A w)"
          by (rule ensures_basic) (rule settled_within)
        show ?thesis
        proof (cases s)
          case (Reserved q)
          then have "g = 0" using current by (intro facts(5)) simp
          with Reserved current settle [OF deleted] show ?thesis by simp
        next
          case (Requested q)
          then show ?thesis
            using current settle [OF marked [OF Requested] refl] waiting by simp
        next
          case (Rotated x y z)
          then show ?thesis using False current rotated [OF Rotated] by simp
        qed (use not_ready recorded current in auto)
      qed
    qed
    then show ?thesis
      by (rule ensuresD [where m = ?body and P = "within_budget g A", OF _ w body])
  qed
qed

lemma startup_post: "ensures (within_budget g A) (recover_startup env) (\<lambda>_ w. settled g A w)"
  unfolding recover_startup_def
proof (rule lock_ensures)
  show "ensures (within_budget g A) (bindM load_auth (\<lambda>loaded. case loaded of
       AuthLoaded current \<Rightarrow>
         thenM drain_outbox (bindM (recover_startup_journal env current) (\<lambda>a. retM (Some a)))
     | _ \<Rightarrow> retM None)) (\<lambda>_ w. settled g A w)"
  proof (rule invariant_bind [OF inv_load_auth])
    fix x
    assume x: "\<forall>a. x = AuthLoaded a \<longrightarrow> stored_revision A = Some (revision a) \<and> revision a \<noteq> []"
    have "ensures (within_budget g A) (bindM (recover_startup_journal env current) (\<lambda>a. retM (Some a)))
        (\<lambda>_ w. settled g A w)" if "x = AuthLoaded current" for current
      using x that
      by (intro ensures_bindM [where M = "\<lambda>_ w. settled g A w", OF ensures_post [OF startup_journal_post]])
         (auto split: sum.split intro: ensures_basic)
    then show "ensures (within_budget g A) (case x of
       AuthLoaded current \<Rightarrow>
         thenM drain_outbox (bindM (recover_startup_journal env current) (\<lambda>a. retM (Some a)))
     | _ \<Rightarrow> retM None) (\<lambda>_ w. settled g A w)"
      unfolding thenM_def
      by (cases x) (auto intro!: invariant_read inv_drain ensures_basic settled_within)
  qed (simp add: settled_within)
  show "keeps calm (bindM load_auth (\<lambda>loaded. case loaded of
       AuthLoaded current \<Rightarrow>
         thenM drain_outbox (bindM (recover_startup_journal env current) (\<lambda>a. retM (Some a)))
     | _ \<Rightarrow> retM None))"
    unfolding recover_startup_journal_def
    by (intro calm_frame.intros calm_frame.loads_kept)
       (auto split: auth_load_result.split journal_load_result.split option.split rotation_state.split
         intro!: calm_frame.intros calm_frame.journal_ops_kept calm_frame.recover_rotated_kept)
qed (simp add: within_budget_def)

lemma import_post:
  "ensures (\<lambda>w. faults w = []) (import_credential a)
     (\<lambda>_ w. within_budget 0 (auth_slot w) w \<and> stored_revision (auth_slot w) = Some (revision a))"
  unfolding import_credential_def
proof (rule lock_ensures)
  let ?tail = "bindM load_journal (\<lambda>journal.
       thenM (case journal of
           JournalLoaded s enqueued _ _ \<Rightarrow>
             if is_terminal_state s \<and> \<not> enqueued
             then bindM (liftM (outbox_record_of s)) enqueue_outcome else retM ()
         | _ \<Rightarrow> retM ())
      (thenM delete_journal (retM a)))"
  have tail: "ensures (within_budget 0 B) ?tail (\<lambda>_. within_budget 0 B)" for B
  proof -
    have deleted: "ensures (within_budget 0 B) delete_journal (\<lambda>_. within_budget 0 B)"
      by (rule ensures_weaken [OF inv_delete_journal]) (auto simp: within_budget_def)
    have load: "ensures (within_budget 0 B) load_journal (\<lambda>_. within_budget 0 B)"
      by (rule inv_pure) (simp add: load_journal_read)
    show ?thesis
      unfolding thenM_def
      by (auto intro!: ensures_invariant_bindM ensures_basic deleted load inv_enqueue
          split: journal_load_result.split)
  qed
  show "ensures (\<lambda>w. faults w = []) (thenM (write_auth_file a) ?tail)
     (\<lambda>_ w. within_budget 0 (auth_slot w) w \<and> stored_revision (auth_slot w) = Some (revision a))"
  proof (rule ensuresI)
    fix w r t
    assume w: "faults w = []" and run: "thenM (write_auth_file a) ?tail w = (r, t)"
    obtain u where u: "write_auth_file a w = (Inr (), u)" "faults u = []"
      "content (auth_slot u) = Document (auth_payload a)"
      using write_auth_calm [OF w, of a] by simp
    then have "within_budget 0 (auth_slot u) u" by (simp add: within_budget_def)
    from ensuresD [OF tail this] run u have "within_budget 0 (auth_slot u) t"
      by (simp add: thenM_def bindM_def)
    then show "within_budget 0 (auth_slot t) t \<and> stored_revision (auth_slot t) = Some (revision a)"
      using u by (simp add: within_budget_def stored_revision_written)
  qed
  show "keeps calm (thenM (write_auth_file a) ?tail)"
    by (intro calm_frame.intros calm_frame.loads_kept calm_frame.write_auth_from calm_on_slot file_operation_intros)
       (auto split: journal_load_result.split intro!: calm_frame.intros calm_frame.journal_ops_kept)
qed simp

end
