(* ===== verification/Auth_Processes.thy ===== *)
theory Auth_Processes
  imports Auth_Commits
begin

section \<open>Processes sharing one credential (auth\_session/coordinator.py)\<close>

text \<open>
  The interleaving of the coordinators of several processes over the same files: preparing,
  committing, recovering at startup, importing, crashing and starting, each locked section
  one step (\<open>flock\<close> makes it so), the exchange between two of them.  The main result bounds
  the exchanges begun on one stored credential.
\<close>

subsection \<open>The system\<close>

text \<open>
  \<open>begun\<close>: the exchanges begun since the stored credential was last replaced;
  \<open>in_flight\<close>: the exchanges a process has begun and not committed; \<open>alive\<close>: the processes.
\<close>

record system =
  world :: auth_world
  begun :: nat
  in_flight :: "(refresh_owner \<times> stored_auth) set"
  alive :: "refresh_owner set"

definition revision_now :: "system \<Rightarrow> string option" where
  "revision_now s = stored_revision (auth_slot (world s))"

text \<open>The count starts again when an operation has replaced the credential.\<close>

definition settle :: "auth_world \<Rightarrow> system \<Rightarrow> system" where
  "settle w s = s\<lparr>world := w,
     begun := (if stored_revision (auth_slot w) = revision_now s then begun s else 0)\<rparr>"

definition coordinator_of :: "system \<Rightarrow> refresh_owner \<Rightarrow> coordinator_env \<Rightarrow> bool" where
  "coordinator_of s p env \<longleftrightarrow> owner_fn env = Inr p \<and> (\<forall>q. owner_alive_fn env q \<longleftrightarrow> q \<in> alive s)"

text \<open>Revision identifiers are unique: a new one is not that of an exchange in flight.\<close>

definition unique_revision :: "system \<Rightarrow> auth_world \<Rightarrow> bool" where
  "unique_revision s w \<longleftrightarrow> (stored_revision (auth_slot w) \<noteq> revision_now s \<longrightarrow>
     (\<forall>(p, a) \<in> in_flight s. stored_revision (auth_slot w) \<noteq> Some (revision a)))"

definition idle :: "system \<Rightarrow> refresh_owner \<Rightarrow> bool" where
  "idle s p \<longleftrightarrow> p \<in> alive s \<and> (\<forall>a. (p, a) \<notin> in_flight s)"

inductive step :: "system \<Rightarrow> system \<Rightarrow> bool" where
  dispatch:
    "idle s p \<Longrightarrow> coordinator_of s p env
     \<Longrightarrow> prepare_or_local_failure env expected (world s) = (Inr (Dispatch a), w)
     \<Longrightarrow> begin_exchange a w = (Inr (), w')
     \<Longrightarrow> step s (s\<lparr>world := w', begun := Suc (begun s), in_flight := insert (p, a) (in_flight s)\<rparr>)"
| no_dispatch:
    "idle s p \<Longrightarrow> coordinator_of s p env
     \<Longrightarrow> prepare_or_local_failure env expected (world s) = (r, w) \<Longrightarrow> \<forall>a. r \<noteq> Inr (Dispatch a)
     \<Longrightarrow> unique_revision s w
     \<Longrightarrow> step s (settle w s)"
| commit:
    "(p, a) \<in> in_flight s \<Longrightarrow> coordinator_of s p env
     \<Longrightarrow> commit_outcome env a outcome (world s) = (r, w)
     \<Longrightarrow> Some (uuid_of (world s) (uuid_next (world s))) \<noteq> revision_now s \<Longrightarrow> unique_revision s w
     \<Longrightarrow> step s (settle w s\<lparr>in_flight := in_flight s - {(p, a)}\<rparr>)"
| startup:
    "p \<in> alive s \<Longrightarrow> coordinator_of s p env \<Longrightarrow> recover_startup env (world s) = (r, w)
     \<Longrightarrow> unique_revision s w
     \<Longrightarrow> step s (settle w s)"
| import_new:
    "import_credential a (world s) = (r, w) \<Longrightarrow> \<forall>(p, b) \<in> in_flight s. revision b \<noteq> revision a
     \<Longrightarrow> step s (s\<lparr>world := w, begun := 0\<rparr>)"
| crash:
    "step s (s\<lparr>in_flight := {x \<in> in_flight s. fst x \<noteq> p}, alive := alive s - {p}\<rparr>)"
| start:
    "valid_owner p \<Longrightarrow> step s (s\<lparr>alive := insert p (alive s)\<rparr>)"
| environment:
    "step s (s\<lparr>world := (world s)\<lparr>clock := c, sink := k\<rparr>\<rparr>)"

definition initial :: "system \<Rightarrow> bool" where
  "initial s \<longleftrightarrow> faults (world s) = [] \<and> begun s = 0 \<and> in_flight s = {} \<and> (\<forall>p\<in>alive s. valid_owner p)"

subsection \<open>The invariant\<close>

text \<open>An exchange in flight for the stored credential is the one on record.\<close>

definition recorded :: "file_slot \<times> file_slot \<Rightarrow> refresh_owner \<Rightarrow> stored_auth \<Rightarrow> bool" where
  "recorded F p a \<longleftrightarrow> (stored_revision (fst F) = Some (revision a) \<longrightarrow>
     (\<exists>e att v. read_journal (snd F) = Inr (JournalLoaded (Requested (revision a)) e (Some att) v)
        \<and> attempt_owner att = Some p))"

definition system_inv :: "system \<Rightarrow> bool" where
  "system_inv s \<longleftrightarrow> within_budget (begun s) (auth_slot (world s)) (world s)
     \<and> (\<forall>p\<in>alive s. valid_owner p)
     \<and> (\<forall>(p, a)\<in>in_flight s. p \<in> alive s \<and> recorded (files (world s)) p a)
     \<and> (\<forall>p a b. (p, a) \<in> in_flight s \<longrightarrow> (p, b) \<in> in_flight s \<longrightarrow> a = b)"

lemma recorded_owner:
  "recorded F p a \<Longrightarrow> recorded F q b \<Longrightarrow> stored_revision (fst F) = Some (revision a)
     \<Longrightarrow> stored_revision (fst F) = Some (revision b) \<Longrightarrow> p = q"
  by (auto simp: recorded_def)

lemma in_flightD:
  "system_inv s \<Longrightarrow> (p, a) \<in> in_flight s \<Longrightarrow> p \<in> alive s \<and> recorded (files (world s)) p a"
  by (auto simp: system_inv_def)

lemma initial_inv: "initial s \<Longrightarrow> system_inv s"
  by (simp add: initial_def system_inv_def within_budget_def)

lemma prepare_or_local_post:
  assumes "owner_fn env = Inr p" "valid_owner p"
  shows "ensures (within_budget g A) (prepare_or_local_failure env expected) (prepared_post g A p)"
proof (rule ensuresI)
  fix w r t
  assume w: "within_budget g A w" and run: "prepare_or_local_failure env expected w = (r, t)"
  obtain q u where prep: "prepare env expected w = (q, u)" by (cases "prepare env expected w")
  from ensuresD [OF prepare_post [OF assms] w prep] run prep show "prepared_post g A p r t"
    by (cases q) (auto simp: prepare_or_local_failure_def handleM_def throwM_def split: if_splits)
qed

lemma prepare_or_local_waits:
  assumes "live_dispatch env F"
  shows "ensures (untouched F) (prepare_or_local_failure env expected)
     (\<lambda>r w. untouched F w \<and> (\<forall>a. r \<noteq> Inr (Dispatch a)))"
proof (rule ensuresI)
  fix w r t
  assume w: "untouched F w" and run: "prepare_or_local_failure env expected w = (r, t)"
  obtain q u where prep: "prepare env expected w = (q, u)" by (cases "prepare env expected w")
  from ensuresD [OF live_dispatch_waits [OF assms] w prep] run prep
  show "untouched F t \<and> (\<forall>a. r \<noteq> Inr (Dispatch a))"
    by (cases q) (auto simp: prepare_or_local_failure_def handleM_def throwM_def split: if_splits)
qed

lemma in_flight_live:
  assumes "system_inv s" and "(p, a) \<in> in_flight s" and "revision_now s = Some (revision a)"
    and "coordinator_of s q env"
  shows "live_dispatch env (files (world s))"
  using assms
  by (fastforce simp: system_inv_def recorded_def live_dispatch_def files_def revision_now_def
      coordinator_of_def owner_alive_def)

lemma settled_settle:
  "settled (begun s) (auth_slot (world s)) w \<Longrightarrow>
     within_budget (begun (settle w s)) (auth_slot (world (settle w s))) (world (settle w s))"
  by (auto simp: settled_def settle_def revision_now_def split: if_splits)

text \<open>What survives a step that leaves the exchanges in flight alone.\<close>

lemma inv_after:
  assumes inv: "system_inv s" and settled: "settled (begun s) (auth_slot (world s)) w"
    and unique: "unique_revision s w" and fl: "fl \<subseteq> in_flight s"
    and kept: "\<And>p a. (p, a) \<in> fl \<Longrightarrow> revision_now s = Some (revision a) \<Longrightarrow> files w = files (world s)"
  shows "system_inv (settle w s\<lparr>in_flight := fl\<rparr>)"
proof -
  have "recorded (files w) p a" if pa: "(p, a) \<in> fl" for p a
  proof (cases "revision_now s = Some (revision a)")
    case True
    with kept [OF pa] inv pa fl show ?thesis by (auto simp: system_inv_def)
  next
    case False
    with unique pa fl show ?thesis
      by (fastforce simp: unique_revision_def recorded_def files_def)
  qed
  moreover have "within_budget (begun (settle w s)) (auth_slot w) w"
    using settled_settle [OF settled] by (simp add: settle_def)
  moreover have "a = b" if "(p, a) \<in> fl" "(p, b) \<in> fl" for p a b
    using inv that subsetD [OF fl that(1)] subsetD [OF fl that(2)] unfolding system_inv_def by blast
  ultimately show ?thesis
    using inv fl unfolding system_inv_def by (auto simp: settle_def)
qed

lemma step_inv:
  assumes "step s t" and inv: "system_inv s"
  shows "system_inv t"
  using assms(1)
proof cases
  case (dispatch p env expected a w w')
  let ?A = "auth_slot (world s)"
  from inv dispatch have owner: "owner_fn env = Inr p" "valid_owner p"
    by (auto simp: system_inv_def coordinator_of_def idle_def)
  have w: "within_budget (begun s) ?A (world s)" using inv by (simp add: system_inv_def)
  have granted: "granted (Suc (begun s)) ?A p a w"
    using ensuresD [OF prepare_or_local_post [OF owner] w dispatch(4)] by simp
  have w': "files w' = files w" "faults w' = faults w" "auth_slot w' = auth_slot w" "journal_slot w' = journal_slot w"
    using dispatch(5) by (auto simp: begin_exchange_def putM_def files_def)
  from granted obtain att where g: "faults w = []" "auth_slot w = ?A" "stored_revision ?A = Some (revision a)"
    "read_journal (journal_slot w) = Inr (JournalLoaded (Requested (revision a)) False (Some att) None)"
    "attempt_owner att = Some p" "int (Suc (begun s)) \<le> dispatch_count att"
    by (auto simp: granted_def)
  have "dispatch_count att \<le> 6" using g(4) by (auto elim: read_journal_loaded)
  with g w' have budget: "within_budget (Suc (begun s)) (auth_slot w') w'"
    by (simp add: within_budget_def spent_def covers_def counts_for_def)
  have none: "revision_now s \<noteq> Some (revision b)" if "(q, b) \<in> in_flight s" for q b
  proof
    assume "revision_now s = Some (revision b)"
    with in_flight_live [OF inv that _ dispatch(3)] have "live_dispatch env (files (world s))" by simp
    from ensuresD [OF prepare_or_local_waits [OF this] _ dispatch(4)] show False
      by (simp add: untouched_def)
  qed
  have "recorded (files w') q b" if "(q, b) \<in> insert (p, a) (in_flight s)" for q b
  proof (cases "(q, b) = (p, a)")
    case True
    with g w' show ?thesis by (auto simp: recorded_def files_def intro!: exI [of _ False])
  next
    case False
    with that none [of q b] g w' show ?thesis by (auto simp: recorded_def files_def revision_now_def)
  qed
  with dispatch(1,2) inv budget show ?thesis
    by (auto simp: system_inv_def idle_def)
next
  case (no_dispatch p env expected r w)
  let ?A = "auth_slot (world s)"
  from inv no_dispatch have owner: "owner_fn env = Inr p" "valid_owner p"
    by (auto simp: system_inv_def coordinator_of_def idle_def)
  have w: "within_budget (begun s) ?A (world s)" using inv by (simp add: system_inv_def)
  have "settled (begun s) ?A w"
    using ensuresD [OF prepare_or_local_post [OF owner] w no_dispatch(4)] no_dispatch(5)
    by (auto simp: prepared_post_def split: sum.splits preparation.splits)
  moreover have "files w = files (world s)" if "(q, b) \<in> in_flight s" "revision_now s = Some (revision b)" for q b
    using ensuresD [OF prepare_or_local_waits [OF in_flight_live [OF inv that no_dispatch(3)]] _ no_dispatch(4)]
    by (simp add: untouched_def)
  ultimately show ?thesis
    using inv_after [OF inv _ no_dispatch(6), of "in_flight s"] no_dispatch(1) by (simp add: settle_def)
next
  case (commit p a env outcome r w)
  let ?A = "auth_slot (world s)"
  have "fresh_successor (begun s) ?A (revision a) (world s)"
    using inv commit(2,5)
    by (fastforce simp: system_inv_def fresh_successor_def committing_def recorded_def files_def on_record_def
        revision_now_def)
  from ensuresD [OF commit_outcome_post [OF refl] this commit(4)]
  have settled: "settled (begun s) ?A w" by simp
  have kept: "files w = files (world s)" if "(q, b) \<in> in_flight s - {(p, a)}" "revision_now s = Some (revision b)" for q b
  proof -
    have "revision_now s \<noteq> Some (revision a)"
    proof
      assume "revision_now s = Some (revision a)"
      with in_flightD [OF inv commit(2)] in_flightD [OF inv, of q b] that have "p = q"
        by (auto simp: revision_now_def files_def intro: recorded_owner)
      with inv commit(2) that show False by (auto simp: system_inv_def)
    qed
    with ensuresD [OF superseded_commit_untouched [of "files (world s)" a] _ commit(4)]
    show ?thesis by (simp add: untouched_def files_def revision_now_def)
  qed
  show ?thesis
    using inv_after [OF inv settled commit(6), of "in_flight s - {(p, a)}"] kept commit(1) by auto
next
  case (startup p env r w)
  let ?A = "auth_slot (world s)"
  have w: "within_budget (begun s) ?A (world s)" using inv by (simp add: system_inv_def)
  have "settled (begun s) ?A w" by (rule ensuresD [OF startup_post w startup(4)])
  moreover have "files w = files (world s)" if "(q, b) \<in> in_flight s" "revision_now s = Some (revision b)" for q b
    using ensuresD [OF live_dispatch_startup [OF in_flight_live [OF inv that startup(3)]] _ startup(4)]
    by (simp add: untouched_def)
  ultimately show ?thesis
    using inv_after [OF inv _ startup(5), of "in_flight s"] startup(1) by (simp add: settle_def)
next
  case (import_new a r w)
  have "faults (world s) = []" using inv by (simp add: system_inv_def within_budget_def)
  from ensuresD [OF import_post this import_new(2)] import_new(1,3) inv show ?thesis
    by (fastforce simp: system_inv_def recorded_def files_def)
next
  case (crash p)
  with inv show ?thesis by (auto simp: system_inv_def)
next
  case (start p)
  with inv show ?thesis by (auto simp: system_inv_def)
next
  case (environment c k)
  with inv show ?thesis by (auto simp: system_inv_def within_budget_def files_def)
qed

lemma reachable_inv: "step\<^sup>*\<^sup>* s t \<Longrightarrow> initial s \<Longrightarrow> system_inv t"
  by (induction rule: rtranclp_induct) (auto intro: initial_inv step_inv)

end
