(* ===== verification/Auth_Outbox.thy ===== *)
theory Auth_Outbox
  imports Auth_Frames
begin

section \<open>No terminal outcome is lost (auth\_session/store.py, coordinator.py)\<close>

text \<open>
  The records of the outbox and the sink calls, over every operation of the coordinator and
  every fault plan: a record leaves the outbox only after the sink has taken it.
\<close>

definition pending :: "auth_world \<Rightarrow> outbox_record list" where
  "pending w = (case content (outbox_slot w) of
       Document d \<Rightarrow> (case parse_outbox d of Inr (OutboxLoaded rs) \<Rightarrow> rs | _ \<Rightarrow> [])
     | _ \<Rightarrow> [])"

definition accounted :: "auth_world \<Rightarrow> outbox_record set" where
  "accounted w = set (pending w) \<union> set (delivered w)"

definition lossless :: "auth_world \<Rightarrow> auth_world \<Rightarrow> bool" where
  "lossless w t \<longleftrightarrow> accounted w \<subseteq> accounted t"

lemma lossless_preorder: "preorder_rel lossless"
  by (auto simp: preorder_rel_def lossless_def)

lemma pending_wf: "outbox_wf (pending w)"
  by (auto simp: pending_def outbox_wf_def split: file_content.split sum.split outbox_load_result.split
      dest!: parse_outbox_admits [unfolded outbox_wf_def])

lemma pending_written: "content (outbox_slot w) = Document (outbox_payload rs) \<Longrightarrow> outbox_wf rs \<Longrightarrow> pending w = rs"
  by (simp add: pending_def parse_outbox_written)

lemma pending_content: "content (outbox_slot t) = content (outbox_slot w) \<Longrightarrow> pending t = pending w"
  by (simp add: pending_def)

text \<open>Reading the records: what is there, or an exception.\<close>

lemma load_records:
  assumes "bindM load_outbox (\<lambda>loaded. bindM (liftM (outbox_records_or_raise loaded)) f) w = (r, t)"
  obtains (raised) e where "r = Inl e" "t = w" | (loaded) "f (pending w) w = (r, t)"
  using assms
  by (auto simp: bindM_def liftM_def load_outbox_def pending_def split: sum.splits prod.splits
      file_content.splits outbox_load_result.splits elim!: outbox_records_or_raise.elims)

lemma key_determines_record: "record_wf a \<Longrightarrow> record_wf b \<Longrightarrow> record_key a = record_key b \<Longrightarrow> a = b"
  by (cases a; cases b; cases "record_outcome a"; cases "record_outcome b")
     (auto simp: record_wf_def ends_with_iff)

text \<open>The contents an operation may leave in the outbox file, the sink calls untouched.\<close>

definition outbox_within :: "file_content set \<Rightarrow> auth_world \<Rightarrow> auth_world \<Rightarrow> bool" where
  "outbox_within C w t \<longleftrightarrow> delivered t = delivered w
     \<and> (content (outbox_slot t) = content (outbox_slot w) \<or> content (outbox_slot t) \<in> C)"

lemma within_frame: "world_frame (outbox_within C)"
  by unfold_locales (auto simp: preorder_rel_def outbox_within_def keeps_def environment_run)

lemma within_write: "Document d \<in> C \<Longrightarrow> keeps (outbox_within C) (on_outbox (write_atomic_json d))"
  using outbox_doc.write_atomic [of d] unfolding keeps_def outbox_within_def
  by (metis on_slot_run(3) prod.collapse auth_world.select_convs(9) auth_world.surjective
      auth_world.update_convs(3) auth_world.update_convs(4))

lemma within_fsync: "keeps (outbox_within C) (on_outbox fsync_directory)"
  by (auto simp: keeps_def outbox_within_def on_slot_run)
     (metis fsync_directory_content fst_conv prod.collapse)

lemma within_unlink: "Missing \<in> C \<Longrightarrow> keeps (outbox_within C) (on_outbox unlink_slot)"
  by (auto simp: keeps_def outbox_within_def on_slot_run unlink_slot_def fs_op_def split: list.split)

lemma within_lossless:
  assumes "outbox_within C w t" and "set (pending w) \<subseteq> set rs \<union> set (delivered w)"
    and "\<forall>c\<in>C. c = Document (outbox_payload rs) \<and> outbox_wf rs \<or> c = Missing \<and> rs = []"
  shows "lossless w t"
proof -
  have missing: "content (outbox_slot t) = Missing \<Longrightarrow> pending t = []" by (simp add: pending_def)
  from assms(1) consider "content (outbox_slot t) = content (outbox_slot w)" | "content (outbox_slot t) \<in> C"
    by (auto simp: outbox_within_def)
  then have "pending t = pending w \<or> pending t = rs"
  proof cases
    case 1
    then show ?thesis by (intro disjI1 pending_content)
  next
    case 2
    with assms(3) have "content (outbox_slot t) = Document (outbox_payload rs) \<and> outbox_wf rs
        \<or> content (outbox_slot t) = Missing \<and> rs = []" by blast
    with pending_written [of t rs] missing show ?thesis by blast
  qed
  with assms(1,2) show ?thesis by (auto simp: lossless_def accounted_def outbox_within_def)
qed

lemma enqueue_lossless:
  assumes "record_wf r"
  shows "keeps lossless (enqueue_outcome r)"
  unfolding keeps_def
proof
  fix w
  obtain q t where run: "enqueue_outcome r w = (q, t)" by (cases "enqueue_outcome r w")
  let ?rs = "pending w @ [r]" and ?C = "{Document (outbox_payload (pending w @ [r]))}"
  have refl: "lossless w w" by (simp add: lossless_def)
  from run [unfolded enqueue_outcome_def] show "lossless w (snd (enqueue_outcome r w))"
  proof (cases rule: load_records)
    case raised
    with run refl show ?thesis by simp
  next
    case loaded
    show ?thesis
    proof (cases "record_key r \<in> record_key ` set (pending w)")
      case True
      with loaded run refl show ?thesis by (simp add: retM_def)
    next
      case False
      have "keeps (outbox_within ?C) (thenM (trigger ''before_enqueue_outcome'')
          (thenM (on_outbox (write_atomic_json (outbox_payload ?rs))) (trigger ''after_enqueue_outcome'')))"
        by (intro world_frame.intros [OF within_frame] within_write) simp
      then have "outbox_within ?C w t"
        using loaded False by (auto dest: keepsD)
      moreover have "outbox_wf ?rs"
        using False assms pending_wf [of w] by (auto simp: outbox_wf_def)
      ultimately show ?thesis
        using run by (auto intro: within_lossless [where rs = ?rs])
    qed
  qed
qed

text \<open>Acknowledging removes the one record of that key, which the sink has taken by then.\<close>

lemma acknowledge_lossless:
  assumes run: "acknowledge_outcome key w = (q, t)"
    and taken: "\<And>r. r \<in> set (pending w) \<Longrightarrow> record_key r = key \<Longrightarrow> r \<in> set (delivered w)"
  shows "lossless w t"
proof -
  define rs where "rs = filter (\<lambda>r. record_key r \<noteq> key) (pending w)"
  have rs_wf: "outbox_wf rs"
    using pending_wf [of w] by (auto simp: rs_def outbox_wf_def list_all_iff distinct_map inj_on_def)
  have kept: "set (pending w) \<subseteq> set rs \<union> set (delivered w)"
    using taken by (auto simp: rs_def)
  note frame = world_frame.intros [OF within_frame]
  from run [unfolded acknowledge_outcome_def] show ?thesis
  proof (cases rule: load_records)
    case raised
    then show ?thesis by (simp add: lossless_def)
  next
    case loaded
    then consider "t = w"
      | "thenM (trigger ''before_acknowledge_outcome'')
          (thenM (on_outbox (write_atomic_json (outbox_payload rs))) (trigger ''after_acknowledge_outcome'')) w = (q, t)"
      | "rs = []" "thenM (trigger ''before_acknowledge_outcome'') (thenM (trigger ''before_unlink_outcome'')
            (bindM (getM (\<lambda>w. content (outbox_slot w) = Missing)) (\<lambda>absent.
              thenM (on_outbox unlink_slot)
                (if absent then retM ()
                 else thenM (on_outbox fsync_directory)
                     (thenM (trigger ''after_unlink_outcome'') (trigger ''after_acknowledge_outcome'')))))) w = (q, t)"
      unfolding rs_def [symmetric] Let_def by (auto simp: retM_def split: if_splits)
    then show ?thesis
    proof cases
      case 1
      then show ?thesis by (simp add: lossless_def)
    next
      case 2
      moreover have "keeps (outbox_within {Document (outbox_payload rs)}) (thenM (trigger ''before_acknowledge_outcome'')
          (thenM (on_outbox (write_atomic_json (outbox_payload rs))) (trigger ''after_acknowledge_outcome'')))"
        by (intro frame within_write) simp
      ultimately show ?thesis
        by (auto dest!: keepsD intro!: within_lossless [OF _ kept] simp: rs_wf)
    next
      case 3
      have "keeps (outbox_within {Missing}) (thenM (trigger ''before_acknowledge_outcome'')
          (thenM (trigger ''before_unlink_outcome'')
            (bindM (getM (\<lambda>w. content (outbox_slot w) = Missing)) (\<lambda>absent.
              thenM (on_outbox unlink_slot)
                (if absent then retM ()
                 else thenM (on_outbox fsync_directory)
                     (thenM (trigger ''after_unlink_outcome'') (trigger ''after_acknowledge_outcome'')))))))"
        by (auto intro!: frame within_unlink within_fsync)
      with 3 show ?thesis
        by (auto dest!: keepsD intro!: within_lossless [OF _ kept])
    qed
  qed
qed

definition sink_answer :: "auth_world \<Rightarrow> bool" where
  "sink_answer w = (case sink w of None \<Rightarrow> False | Some [] \<Rightarrow> True | Some (b # _) \<Rightarrow> b)"

lemma deliver_answer:
  "fst (deliver_outbox_record r w) = Inr (sink_answer w)"
  "delivered (snd (deliver_outbox_record r w)) = (if sink_answer w then delivered w @ [r] else delivered w)"
  by (auto simp: deliver_outbox_record_def sink_answer_def split: option.split list.split)

lemma deliver_then_acknowledge:
  assumes "record_wf r"
  shows "keeps lossless (bindM (deliver_outbox_record r) (\<lambda>taken.
           if taken then acknowledge_outcome (record_key r) else retM ()))"
  unfolding keeps_def
proof
  fix w
  obtain q u where d: "deliver_outbox_record r w = (q, u)" by (cases "deliver_outbox_record r w")
  define b where "b = sink_answer w"
  have b: "q = Inr b" and same_file: "content (outbox_slot u) = content (outbox_slot w)"
    and calls: "set (delivered u) = (if b then insert r (set (delivered w)) else set (delivered w))"
    using deliver_answer [of r w] deliver_run [of r w] unfolding d b_def by auto
  have pending_u: "pending u = pending w" by (rule pending_content [OF same_file])
  have step: "lossless w u"
    using calls pending_u by (auto simp: lossless_def accounted_def)
  show "lossless w (snd (bindM (deliver_outbox_record r) (\<lambda>taken.
           if taken then acknowledge_outcome (record_key r) else retM ()) w))"
  proof (cases b)
    case False
    with d b step show ?thesis by (simp add: bindM_def retM_def)
  next
    case True
    obtain q' t where a: "acknowledge_outcome (record_key r) u = (q', t)"
      by (cases "acknowledge_outcome (record_key r) u")
    have "lossless u t"
      using a
    proof (rule acknowledge_lossless)
      fix x
      assume "x \<in> set (pending u)" "record_key x = record_key r"
      with pending_wf [of u] assms have "x = r"
        by (auto simp: outbox_wf_def list_all_iff intro: key_determines_record)
      with calls True show "x \<in> set (delivered u)" by simp
    qed
    with d b True a step show ?thesis by (auto simp: bindM_def lossless_def)
  qed
qed

lemma drain_lossless: "keeps lossless drain_outbox"
proof -
  have loop: "list_all record_wf rs \<Longrightarrow> keeps lossless (forM (\<lambda>r. bindM (deliver_outbox_record r)
      (\<lambda>taken. if taken then acknowledge_outcome (record_key r) else retM ())) rs)" for rs
    by (induction rs)
       (auto intro!: keeps_thenM [OF lossless_preorder] keeps_basic [OF lossless_preorder]
         deliver_then_acknowledge)
  show ?thesis
    unfolding keeps_def
  proof
    fix w
    show "lossless w (snd (drain_outbox w))"
    proof (cases "fst (load_outbox w)")
      case (Inl e)
      then show ?thesis
        by (simp add: drain_outbox_def bindM_def load_outbox_def lossless_def split: prod.split)
    next
      case (Inr outbox)
      have rest: "drain_outbox w = (case outbox of
           OutboxCorrupt detail \<Rightarrow> throwM (EnjiHttpError ''STORAGE'' (''outcome outbox is corrupt: '' @ detail))
         | OutboxIoFailure operation err \<Rightarrow> throwM (EnjiHttpError ''STORAGE'' (operation @ '' failed: '' @ err))
         | OutboxAbsent \<Rightarrow> retM ()
         | OutboxLoaded records \<Rightarrow> forM (\<lambda>r. bindM (deliver_outbox_record r) (\<lambda>taken.
             if taken then acknowledge_outcome (record_key r) else retM ())) records) w"
        using Inr by (auto simp: drain_outbox_def bindM_def load_outbox_def)
      have "list_all record_wf records" if "outbox = OutboxLoaded records" for records
        using Inr that
        by (auto simp: load_outbox_def outbox_wf_def split: file_content.splits dest!: parse_outbox_admits)
      then show ?thesis
        using loop unfolding rest
        by (cases outbox) (auto simp: keeps_def throwM_def retM_def lossless_def)
    qed
  qed
qed

lemma outbox_record_of_wf: "outbox_record_of s = Inr r \<Longrightarrow> record_wf r"
  by (cases s) (auto simp: outbox_record_of_def record_wf_key)

lemma lossless_on_other_slots:
  "keeps lossless (on_auth m)" "keeps lossless (on_journal m')"
  by (auto simp: keeps_def lossless_def accounted_def pending_def on_slot_run)

lemma lossless_world: "world_frame lossless"
  by unfold_locales
     (auto simp: lossless_preorder keeps_def environment_run lossless_def accounted_def pending_def)

interpretation outcome_frame: coordinator_frame lossless
  by (intro coordinator_frame.intro coordinator_frame_axioms.intro journal_frame.intro
      journal_frame_axioms.intro lossless_world drain_lossless enqueue_lossless outbox_record_of_wf
      world_frame.write_journal_from [OF lossless_world] world_frame.delete_journal_from [OF lossless_world]
      world_frame.cas_from [OF lossless_world] lossless_on_other_slots keeps_putM)
     (auto simp: lossless_def accounted_def pending_def)

lemma refresh_lossless: "keeps lossless (refresh env expected exchange polls)"
  unfolding refresh_def prepare_or_local_failure_def begin_exchange_def
  by (intro outcome_frame.intros outcome_frame.prepare_kept)
     (auto split: preparation.split option.split intro!: outcome_frame.intros
       outcome_frame.commit_outcome_kept keeps_putM simp: lossless_def accounted_def pending_def)

lemma import_lossless: "keeps lossless (import_credential a)"
  by (intro outcome_frame.import_kept outcome_frame.write_auth_from lossless_on_other_slots)

end
