(* ===== verification/Auth_Facts.thy ===== *)
theory Auth_Facts
  imports Auth_Processes Auth_Outbox
begin

section \<open>One refresh under any fault plan (auth\_session/coordinator.py)\<close>

text \<open>
  Facts about single operations that hold however the file operations fail: the journal is
  on disk before an exchange begins, a refresh begins at most one exchange, the credential
  file is replaced as a whole, and a successor that could not be stored is handed on.  The
  last part holds the journals the coordinator writes and then refuses to read.
\<close>

subsection \<open>The journal is durable before the exchange\<close>

definition on_disk :: "coordinator_env \<Rightarrow> stored_auth \<Rightarrow> auth_world \<Rightarrow> bool" where
  "on_disk env a w \<longleftrightarrow> (\<exists>att owner. owner_fn env = Inr owner \<and> attempt_owner att = Some owner
     \<and> continuation att = None
     \<and> content (journal_slot w) = Document (JObj (journal_payload_base (Requested (revision a)) False att)))"

definition dispatch_on_disk :: "coordinator_env \<Rightarrow> preparation result \<Rightarrow> auth_world \<Rightarrow> bool" where
  "dispatch_on_disk env r w \<longleftrightarrow> (\<forall>a. r = Inr (Dispatch a) \<longrightarrow> on_disk env a w)"

lemma dispatch_on_disk_simps [simp]:
  "dispatch_on_disk env (Inl e) w" "dispatch_on_disk env (Inr (ReturnAuth b)) w"
  "dispatch_on_disk env (Inr (WaitForRevision q)) w"
  "dispatch_on_disk env (Inr (Dispatch a)) w \<longleftrightarrow> on_disk env a w"
  by (simp_all add: dispatch_on_disk_def)

text \<open>Sequencing when only the last part matters.\<close>

lemma last_bind:
  assumes "\<And>x. ensures (\<lambda>_. True) (f x) Q" and "\<And>e w. Q (Inl e) w"
  shows "ensures (\<lambda>_. True) (bindM m f) Q"
proof (rule ensures_bindM [where M = "\<lambda>_ _. True"])
  show "ensures (\<lambda>_. True) m (\<lambda>r t. case r of Inl e \<Rightarrow> Q (Inl e) t | Inr x \<Rightarrow> True)"
    by (auto intro!: ensuresI simp: assms(2) split: sum.split)
qed (rule assms(1))

lemma last_bind_value:
  assumes "ensures (\<lambda>_. True) m (\<lambda>r _. \<forall>x. r = Inr x \<longrightarrow> V x)"
    and "\<And>x. V x \<Longrightarrow> ensures (\<lambda>_. True) (f x) Q" and "\<And>e w. Q (Inl e) w"
  shows "ensures (\<lambda>_. True) (bindM m f) Q"
  by (rule invariant_bind [where V = V]) (use assms in auto)

lemma write_journal_durable:
  assumes "\<forall>r. s \<noteq> Ready r"
  shows "ensures (\<lambda>_. True) (write_journal s e (Some a))
     (\<lambda>r w. r = Inr () \<longrightarrow> content (journal_slot w) = Document (JObj (journal_payload_base s e a)))"
proof -
  let ?d = "JObj (journal_payload_base s e a)"
  have put: "ensures (\<lambda>_. True) (on_journal (write_atomic_json ?d))
      (\<lambda>r w. r = Inr () \<longrightarrow> content (journal_slot w) = Document ?d)"
    by (auto intro!: ensuresI dest: journal_doc.write_returned)
  have after: "ensures (\<lambda>w. content (journal_slot w) = Document ?d) (trigger ''after_write_journal'')
      (\<lambda>r w. r = Inr () \<longrightarrow> content (journal_slot w) = Document ?d)"
    by (auto intro!: ensuresI simp: trigger_def split: list.splits)
  have tail: "ensures (\<lambda>_. True) (thenM (on_journal (write_atomic_json ?d)) (trigger ''after_write_journal''))
      (\<lambda>r w. r = Inr () \<longrightarrow> content (journal_slot w) = Document ?d)"
    by (rule ensures_thenM [OF _ after], rule ensures_post [OF put]) (auto split: sum.split)
  show ?thesis
    unfolding write_journal_def journal_payload_persistable [OF assms] bindM_liftM(1)
    by (subst thenM_def) (rule last_bind, rule tail, simp)
qed

lemma prepare_dispatch_on_disk:
  "(\<And>s. recovery = Some s \<Longrightarrow> source_revision s = revision current \<and> (\<forall>r. s \<noteq> Reserved r)) \<Longrightarrow>
   ensures (\<lambda>_. True) (prepare_dispatch env current a recovery) (dispatch_on_disk env)"
proof (cases "owner_fn env")
  case (Inl e)
  then show ?thesis by (simp add: prepare_dispatch_def ensures_basic)
next
  case (Inr owner)
  assume state: "\<And>s. recovery = Some s \<Longrightarrow> source_revision s = revision current \<and> (\<forall>r. s \<noteq> Reserved r)"
  have reserve: "ensures (\<lambda>_. True) (case recovery of
         Some s \<Rightarrow> bindM (liftM (kind_lane (attempt_kind a))) (\<lambda>l.
             bindM now (\<lambda>t1. bindM now (\<lambda>t2.
               step_to s (AuthorizeRecoveryDispatch (authorization_of l a t1 t2)))))
       | None \<Rightarrow> step_to (Ready (revision current)) (Begin (revision current)))
      (\<lambda>r _. \<forall>x. r = Inr x \<longrightarrow> x = Reserved (revision current))"
  proof (cases recovery)
    case None
    then show ?thesis by (simp add: step_to_def ensures_basic)
  next
    case (Some s)
    with state have "source_revision s = revision current" by blast
    then have "ensures (\<lambda>_. True) (step_to s (AuthorizeRecoveryDispatch x))
        (\<lambda>r _. \<forall>x. r = Inr x \<longrightarrow> x = Reserved (revision current))" for x
      by (cases s) (auto intro!: ensures_basic simp: step_to_def invalid_transition_def)
    then show ?thesis
      unfolding Some option.case by (intro last_bind) auto
  qed
  have dispatch: "ensures (\<lambda>_. True) (thenM (write_journal (Reserved (revision current)) False (Some (owned_by owner a)))
    (bindM (step_to (Reserved (revision current)) DispatchBegun) (\<lambda>requested.
     thenM (write_journal requested False (Some (owned_by owner a))) (retM (Dispatch current)))))
     (dispatch_on_disk env)"
  proof -
    have fin: "ensures (\<lambda>w. content (journal_slot w) =
          Document (JObj (journal_payload_base (Requested (revision current)) False (owned_by owner a))))
        (retM (Dispatch current)) (dispatch_on_disk env)"
      using Inr by (intro ensures_basic) (auto simp: on_disk_def owned_by_def attempt_owner_def
          intro!: exI [of _ "owned_by owner a"])
    have "ensures (\<lambda>_. True) (thenM (write_journal (Requested (revision current)) False (Some (owned_by owner a)))
        (retM (Dispatch current))) (dispatch_on_disk env)"
      by (rule ensures_thenM [OF _ fin], rule ensures_post [OF write_journal_durable]) (auto split: sum.split)
    then have second: "ensures (\<lambda>_. True) (bindM (step_to (Reserved (revision current)) DispatchBegun) (\<lambda>requested.
        thenM (write_journal requested False (Some (owned_by owner a))) (retM (Dispatch current))))
        (dispatch_on_disk env)"
      by (simp add: step_to_def)
    show ?thesis by (subst thenM_def, rule last_bind, rule second) simp
  qed
  show ?thesis
    unfolding prepare_dispatch_def Inr bindM_liftM
    by (rule last_bind_value [OF reserve]) (use dispatch in auto)
qed

lemma recover_unknown_on_disk:
  assumes "source_revision s = revision current" and "\<forall>r. s \<noteq> Reserved r"
  shows "ensures (\<lambda>_. True) (recover_unknown env current s a) (dispatch_on_disk env)"
  unfolding recover_unknown_def Let_def thenM_def
  by (intro last_bind)
     (auto split: option.split intro!: last_bind ensures_basic prepare_dispatch_on_disk simp: assms)

lemma mark_unknown_state:
  "ensures (\<lambda>_. True) (mark_unknown (Requested q) a reason)
     (\<lambda>r _. \<forall>x. r = Inr x \<longrightarrow> fst x = OutcomeUnknown q reason)"
  unfolding mark_unknown_def Let_def thenM_def step_to_def
  by (auto intro!: last_bind ensures_basic)

lemma recover_matching_on_disk:
  assumes "source_revision s = revision current"
  shows "ensures (\<lambda>_. True) (recover_matching_state env current s a e)
    (\<lambda>r w. \<forall>p. r = Inr (Some p) \<longrightarrow> dispatch_on_disk env (Inr p) w)"
proof -
  have wrap: "ensures (\<lambda>_. True) (bindM m (\<lambda>p. retM (Some p)))
      (\<lambda>r w. \<forall>p. r = Inr (Some p) \<longrightarrow> dispatch_on_disk env (Inr p) w)"
    if "ensures (\<lambda>_. True) m (dispatch_on_disk env)" for m
    by (rule ensures_bindM [where M = "\<lambda>p w. dispatch_on_disk env (Inr p) w", OF ensures_post [OF that]])
       (auto split: sum.split intro!: ensures_basic)
  have requested: "ensures (\<lambda>_. True) (recover_requested env current (Requested (revision current)) a)
      (dispatch_on_disk env)"
    unfolding recover_requested_def
    by (auto intro!: ensures_basic last_bind_value [OF mark_unknown_state] recover_unknown_on_disk
        split: prod.split)
  show ?thesis
    using assms
    by (cases s) (auto simp: recover_matching_state_def thenM_def
        intro!: last_bind ensures_basic wrap requested recover_unknown_on_disk)
qed

lemma recover_or_wait_on_disk:
  "ensures (\<lambda>_. True) (recover_or_wait env current)
    (\<lambda>r w. \<forall>p. r = Inr (Some p) \<longrightarrow> dispatch_on_disk env (Inr p) w)"
  unfolding recover_or_wait_def thenM_def
  by (intro last_bind)
     (auto split: journal_load_result.split option.split rotation_state.split
       intro!: ensures_basic last_bind recover_matching_on_disk)

lemma dispatch_lock:
  assumes "ensures (\<lambda>_. True) body (dispatch_on_disk env)"
  shows "ensures (\<lambda>_. True) (auth_file_lock body) (dispatch_on_disk env)"
proof -
  have "ensures (\<lambda>_. True) (finallyM body (trigger ''unlock'')) (dispatch_on_disk env)"
  proof (rule ensuresI)
    fix w r t
    assume run: "finallyM body (trigger ''unlock'') w = (r, t)"
    obtain q u where body: "body w = (q, u)" by (cases "body w")
    have q: "dispatch_on_disk env q u" using ensuresD [OF assms _ body] by simp
    have "journal_slot (snd (trigger ''unlock'' u)) = journal_slot u" by (simp add: environment_run)
    with q run body show "dispatch_on_disk env r t"
      by (cases "trigger ''unlock'' u")
         (auto simp: finallyM_def dispatch_on_disk_def on_disk_def split: sum.splits)
  qed
  then show ?thesis
    unfolding auth_file_lock_def thenM_def by (intro last_bind) auto
qed

lemma prepare_on_disk: "ensures (\<lambda>_. True) (prepare env expected) (dispatch_on_disk env)"
  unfolding prepare_def
proof (rule dispatch_lock)
  have rest: "ensures (\<lambda>w. \<forall>p. q = Some p \<longrightarrow> dispatch_on_disk env (Inr p) w) (case q of
               Some p \<Rightarrow> retM p
             | None \<Rightarrow>
                 thenM drain_outbox
                   (if expected \<noteq> None \<and> Some (revision current) \<noteq> expected
                    then retM (ReturnAuth current)
                    else bindM recovery_deadline_now (\<lambda>deadline.
                      prepare_dispatch env current (initial_attempt (revision current) deadline) None)))
      (dispatch_on_disk env)" for q current
    unfolding thenM_def
    by (cases q) (auto intro!: last_bind ensures_basic prepare_dispatch_on_disk)
  have body: "ensures (\<lambda>_. True) (bindM (recover_or_wait env current) (\<lambda>journal_preparation.
      case journal_preparation of
               Some p \<Rightarrow> retM p
             | None \<Rightarrow>
                 thenM drain_outbox
                   (if expected \<noteq> None \<and> Some (revision current) \<noteq> expected
                    then retM (ReturnAuth current)
                    else bindM recovery_deadline_now (\<lambda>deadline.
                      prepare_dispatch env current (initial_attempt (revision current) deadline) None))))
      (dispatch_on_disk env)" for current
    by (rule ensures_bindM [OF ensures_post [OF recover_or_wait_on_disk] rest]) (simp split: sum.split)
  have credential: "ensures (\<lambda>_. True) (case auth_credential current of
         BearerTokenCredential _ \<Rightarrow>
           throwM (EnjiHttpError ''AUTH_REQUIRED'' ''stored credential is not cookie based'')
       | CookieCredential _ \<Rightarrow>
           bindM (recover_or_wait env current) (\<lambda>journal_preparation. case journal_preparation of
               Some p \<Rightarrow> retM p
             | None \<Rightarrow>
                 thenM drain_outbox
                   (if expected \<noteq> None \<and> Some (revision current) \<noteq> expected
                    then retM (ReturnAuth current)
                    else bindM recovery_deadline_now (\<lambda>deadline.
                      prepare_dispatch env current (initial_attempt (revision current) deadline) None))))
      (dispatch_on_disk env)" for current
  proof (cases "auth_credential current")
    case (CookieCredential h)
    show ?thesis unfolding CookieCredential credential.case by (rule body)
  qed (simp add: ensures_basic)
  show "ensures (\<lambda>_. True) (prepare_locked env expected) (dispatch_on_disk env)"
    unfolding prepare_locked_def by (intro last_bind credential) simp_all
qed

subsection \<open>One exchange at most, and one credential file\<close>

lemma refresh_posts:
  assumes "refresh env expected exchange polls w = (r, t)"
  shows "posts t = posts w \<or> (\<exists>a u. prepare_or_local_failure env expected w = (Inr (Dispatch a), u)
     \<and> posts t = posts w @ [revision a])"
proof -
  obtain q u where prep: "prepare_or_local_failure env expected w = (q, u)"
    by (cases "prepare_or_local_failure env expected w")
  have "keeps (same posts) (prepare_or_local_failure env expected)"
    unfolding prepare_or_local_failure_def by (intro posts_frame.intros posts_frame.prepare_kept)
  from same_run [OF this prep] have u: "posts u = posts w" .
  show ?thesis
  proof (cases "\<exists>a. q = Inr (Dispatch a)")
    case True
    then obtain a where q: "q = Inr (Dispatch a)" by blast
    let ?m = "bindM (commit_outcome env a (exchange a)) (\<lambda>b. retM (Some b))"
    have "keeps (same posts) ?m"
      by (intro posts_frame.intros posts_frame.commit_outcome_kept)
    moreover have "?m (u\<lparr>posts := posts u @ [revision a]\<rparr>) = (r, t)"
      using assms prep q by (simp add: refresh_def bindM_def thenM_def begin_exchange_def putM_def)
    ultimately have "posts t = posts u @ [revision a]" by (auto dest: same_run)
    with u prep q show ?thesis by simp
  next
    case False
    with assms prep have "t = u"
      by (auto simp: refresh_def bindM_def retM_def liftM_def
          split: sum.splits preparation.splits option.splits)
    with u show ?thesis by simp
  qed
qed

text \<open>A reader of the credential file finds the old content or a complete credential.\<close>

definition whole :: "auth_world \<Rightarrow> auth_world \<Rightarrow> bool" where
  "whole w t \<longleftrightarrow> content (auth_slot t) = content (auth_slot w)
     \<or> (\<exists>a. content (auth_slot t) = Document (auth_payload a))"

lemma whole_world: "world_frame whole"
  by unfold_locales (auto simp: preorder_rel_def whole_def keeps_def environment_run)

lemma whole_other: "keeps (same auth_slot) m \<Longrightarrow> keeps whole m"
  by (auto simp: keeps_def same_def whole_def)

lemma whole_write: "keeps whole (write_auth_file a)"
  unfolding write_auth_file_def
proof (intro world_frame.intros [OF whole_world])
  show "keeps whole (on_auth (write_atomic_json (auth_payload a)))"
    unfolding keeps_def whole_def by (metis auth_doc.write_atomic prod.collapse)
qed

lemma whole_cas: "keeps whole (cas_replace_cookie source c u)"
  unfolding cas_replace_cookie_def
  by (intro world_frame.intros [OF whole_world] world_frame.loads_kept [OF whole_world])
     (auto split: auth_load_result.split credential.split
       intro!: world_frame.intros [OF whole_world] world_frame.loads_kept [OF whole_world] whole_write)

interpretation whole_frame: coordinator_frame whole
  by (intro coordinator_frame.intro coordinator_frame_axioms.intro journal_frame.intro
      journal_frame_axioms.intro whole_world whole_cas)
     (auto intro: whole_other auth_frame.write_journal_kept auth_frame.delete_journal_kept
       auth_frame.enqueue_kept auth_frame.drain_kept keeps_putM simp: whole_def)

text \<open>An \<open>OSError\<close> while a successor is stored hands the successor on.\<close>

lemma commit_success_raises:
  assumes quiet_sink: "event_sink env = None"
    and run: "commit_success env a header r w = (Inl e, t)"
  shows "\<exists>q u. auth_file_lock (persist_rotated (Rotated (revision a) header (uuid_of w (uuid_next w)))) u = (Inl q, t)
    \<and> (if is_os_error q
        then \<exists>i. e = PostDispatchPersistence (revision a) (uuid_of w (uuid_next w)) (base_url a) header i
        else e = q)"
proof -
  let ?u = "uuid_of w (uuid_next w)"
  obtain b w1 where make: "make_stored_auth (base_url a) (CookieCredential header) (Some ?u) (snd (fresh_uuid w)) = (Inr b, w1)"
    and b: "revision b = ?u" "base_url b = base_url a"
    by (cases "now (snd (fresh_uuid w))")
       (auto simp: make_stored_auth_def bindM_def retM_def now_def split: list.splits)
  have "handleM (auth_file_lock (persist_rotated (Rotated (revision a) header ?u))) is_os_error
      (\<lambda>_. throwM (PostDispatchPersistence (revision a) (revision b) (base_url b) header (imported_at b))) w1 = (Inl e, t)"
    using run make quiet_sink
    by (simp add: commit_success_def bindM_def thenM_def fresh_uuid_def step_to_def liftM_def
        emit_refresh_observation_def retM_def)
  then have "\<exists>q. auth_file_lock (persist_rotated (Rotated (revision a) header ?u)) w1 = (Inl q, t)
    \<and> (if is_os_error q
        then \<exists>i. e = PostDispatchPersistence (revision a) ?u (base_url a) header i else e = q)"
    using b by (auto simp: handleM_def throwM_def split: prod.splits sum.splits if_splits)
  then show ?thesis by blast
qed

subsection \<open>Journals that are written and then refused\<close>

text \<open>Stopping a scheduled recovery whose deadline has passed keeps its scheduled time.\<close>

lemma stopped_scheduled_unreadable:
  assumes "readable_attempt (OutcomeUnknown r m) a" and "continuation a = Some (Continue l)"
  shows "parse_journal (JObj (journal_payload_base (OutcomeUnknown r m) e (stopped_attempt a)))
    = Inr (JournalCorrupt ''stopped recovery metadata is inconsistent'')"
proof -
  have "next_attempt_at a \<noteq> None" "owner_boot_id a = None" "r \<noteq> []" "rotation_attempt_is_valid a"
    using assms by (auto simp: readable_attempt_def attempt_state_error_def Let_def split: if_splits)
  moreover have "rotation_attempt_is_valid (stopped_attempt a)"
    using \<open>rotation_attempt_is_valid a\<close> by (auto simp: rotation_attempt_is_valid_def stopped_attempt_def Let_def)
  ultimately show ?thesis
    using parse_journal_written [of "OutcomeUnknown r m" e "stopped_attempt a"]
    by (simp add: attempt_state_error_def stopped_attempt_def Let_def)
qed

lemma recover_unknown_stops:
  assumes "faults w = []" and "next_recovery a w = (Inr None, u)"
  shows "\<exists>t. recover_unknown env current (OutcomeUnknown r m) a w = (Inr (WaitForRevision r), t)
    \<and> content (journal_slot t) = Document (JObj (journal_payload_base (OutcomeUnknown r m) False (stopped_attempt a)))"
proof -
  have "faults u = []"
    using assms keepsD [OF calm_frame.next_recovery_kept assms(2)] by (simp add: calm_def)
  with assms show ?thesis
    by (simp add: recover_unknown_def bindM_def thenM_def write_journal_calm retM_def)
qed

text \<open>A v2 journal in flight carries a total budget of one, which the v3 reader refuses.\<close>

lemma v2_requested_unreadable:
  assumes "src \<noteq> []"
  shows "parse_journal (JObj (journal_payload_base (OutcomeUnknown src m) e
      (stopped_attempt (v2_attempt src True True)))) = Inr (JournalCorrupt ''journal recovery budget is invalid'')"
  using parse_journal_written [of "OutcomeUnknown src m" e "stopped_attempt (v2_attempt src True True)"] assms
  by (simp add: v2_attempt_def stopped_attempt_def new_attempt_def rotation_attempt_is_valid_def Let_def policy_defs)

lemma corrupt_journal_blocks:
  assumes "read_journal (journal_slot w) = Inr (JournalCorrupt detail)"
  shows "recover_or_wait env current w = (Inl (EnjiHttpError ''STORAGE'' (''refresh journal is corrupt: '' @ detail)), w)"
  using assms by (simp add: recover_or_wait_def bindM_def load_journal_read throwM_def)

text \<open>A reservation left behind is dropped with its budget.\<close>

lemma reserved_restarts:
  assumes w: "faults w = []" "load_auth w = (Inr (AuthLoaded c), w1)" "auth_credential c = CookieCredential h"
    and j: "read_journal (journal_slot w) = Inr (JournalLoaded (Reserved (revision c)) e (Some a) v)"
    and outbox: "content (outbox_slot w) = Missing" and owner: "owner_fn env = Inr p" "valid_owner p"
  shows "\<exists>t att. prepare env None w = (Inr (Dispatch c), t) \<and> dispatch_count att = 1
    \<and> read_journal (journal_slot t) = Inr (JournalLoaded (Requested (revision c)) False (Some att) None)"
proof -
  from load_auth_revision [OF w(2)] have c: "revision c \<noteq> []" and w1: "journal_slot w1 = journal_slot w" by auto
  have w1': "faults w1 = []" "outbox_slot w1 = outbox_slot w"
    using w(1,2) by (auto simp: load_auth_def bindM_def getM_def now_def split: list.splits)
  obtain s where del: "delete_journal w1 = (Inr (), w1\<lparr>journal_slot := s, faults := []\<rparr>)" "content s = Missing"
    using delete_journal_calm [OF w1'(1)] by blast
  let ?w2 = "w1\<lparr>journal_slot := s, faults := []\<rparr>"
  obtain d w3 where d: "recovery_deadline_now ?w2 = (Inr d, w3)" and w3: "faults w3 = []"
    by (cases "now ?w2") (auto simp: recovery_deadline_now_def bindM_def retM_def now_def split: list.splits)
  let ?att = "owned_by p (initial_attempt (revision c) d)"
  have locked: "\<exists>t. prepare_locked env None w = (Inr (Dispatch c), t) \<and> faults t = []
      \<and> content (journal_slot t) = Document (JObj (journal_payload_base (Requested (revision c)) False ?att))"
    using w j w1 w1' del d w3 outbox owner
    by (simp add: prepare_locked_def bindM_def liftM_def recover_or_wait_def load_journal_read
        recover_matching_state_def thenM_def retM_def drain_outbox_def load_outbox_def
        prepare_dispatch_def step_to_def write_journal_calm)
  then obtain t where t: "prepare_locked env None w = (Inr (Dispatch c), t)" "faults t = []"
      "content (journal_slot t) = Document (JObj (journal_payload_base (Requested (revision c)) False ?att))" by blast
  have "prepare env None w = (Inr (Dispatch c), t)"
    using t w(1) by (simp add: prepare_def auth_file_lock_def thenM_def bindM_def trigger_calm finallyM_def)
  moreover have "readable_attempt (Requested (revision c)) ?att"
    using initial_attempt_valid [OF c] owner(2) c by (intro owned_readable) auto
  then have "read_journal (journal_slot t) = Inr (JournalLoaded (Requested (revision c)) False (Some ?att) None)"
    using read_journal_written [OF t(3)] by simp
  moreover have "dispatch_count ?att = 1" using initial_attempt_valid [OF c] by simp
  ultimately show ?thesis by blast
qed

text \<open>Projecting a successor that is already stored replaces whatever journal is there.\<close>

lemma rotated_record_overwrites:
  "ensures (\<lambda>w. faults w = []) (record_terminal_outcome (Rotated src c u) a False)
     (\<lambda>r w. r = Inr () \<longrightarrow> content (journal_slot w) = Missing
        \<or> content (journal_slot w) = Document (JObj (journal_payload_base (Rotated src c u) True a)))"
proof -
  let ?s = "Rotated src c u"
  let ?there = "\<lambda>w. faults w = [] \<and> content (journal_slot w) = Document (JObj (journal_payload_base ?s True a))"
  let ?Q = "\<lambda>r w. r = Inr () \<longrightarrow> content (journal_slot w) = Missing
        \<or> content (journal_slot w) = Document (JObj (journal_payload_base ?s True a))"
  have steady: "ensures ?there m (\<lambda>_. ?there)" if "keeps (same files) m" "keeps calm m" for m :: "'a auth_io"
    using keepsD [OF that(1)] keepsD [OF that(2)]
    by (auto intro!: ensuresI simp: same_def files_def calm_def)
  have plan: "ensures (\<lambda>w. faults w = []) m (\<lambda>_ w. faults w = [])" if "keeps calm m" for m :: "'a auth_io"
    using keepsD [OF that] by (auto intro!: ensuresI simp: calm_def)
  obtain r where r: "outbox_record_of ?s = Inr r" by (simp add: outbox_record_of_def)
  have written: "ensures (\<lambda>w. faults w = []) (write_journal ?s True (Some a)) (\<lambda>_. ?there)"
    by (auto intro!: ensuresI simp: write_journal_calm)
  have drained: "ensures ?there drain_outbox (\<lambda>_. ?there)"
    by (rule steady [OF _ calm_frame.drain_kept]) (rule files_kept(2), simp_all add: files_def)
  have looked: "ensures ?there (outbox_contains k) (\<lambda>_. ?there)" for k
    by (rule steady [OF world_frame.outbox_contains_kept [OF files_world] calm_frame.outbox_contains_kept])
  have deleted: "ensures ?there delete_journal ?Q"
    using delete_journal_calm by (fastforce intro!: ensuresI)
  have tail: "ensures ?there (bindM (liftM (outbox_record_of ?s)) (\<lambda>r.
            bindM (outbox_contains (record_key r)) (\<lambda>pending. if pending then retM () else delete_journal))) ?Q"
    unfolding r bindM_liftM
    by (rule invariant_read [OF looked]) (auto intro: ensures_basic deleted)
  have enqueue: "ensures (\<lambda>w. faults w = []) (bindM (enqueue_outcome r) (\<lambda>_. write_journal ?s True (Some a)))
      (\<lambda>r w. case r of Inl e \<Rightarrow> True | Inr _ \<Rightarrow> ?there w)"
    by (rule ensures_bindM [where M = "\<lambda>_ w. faults w = []"],
        rule ensures_post [OF plan [OF calm_frame.enqueue_kept [OF r]]])
       (auto split: sum.split intro: ensures_post [OF written])
  show ?thesis
    unfolding record_terminal_outcome_def r bindM_liftM if_False rotation_state.case thenM_def
    by (rule ensures_bindM [where M = "\<lambda>_. ?there"], rule ensures_post [OF enqueue])
       (auto split: sum.split intro!: invariant_read drained tail [unfolded r bindM_liftM])
qed

text \<open>A response whose body is no text stops the commit before anything is recorded.\<close>

lemma undecodable_response:
  assumes "event_sink env = None" and "status_code r \<noteq> HTTP_OK" and "response_body r = InvalidText"
  shows "\<exists>t. commit_outcome env a (Responded r) w = (Inl (UnicodeDecodeError ''refresh response classification''), t)
    \<and> files t = files w"
proof -
  obtain t u where now: "now w = (Inr t, u)" and u: "files u = files w"
    by (cases "now w") (auto simp: now_def files_def split: list.splits)
  have "response_continuation r = Inl (UnicodeDecodeError ''refresh response classification'')"
    using assms(3) by (simp add: response_continuation_def response_message_def with_payload_def is_enji_error_def)
  with now assms(2) have "commit_response env a r w = (Inl (UnicodeDecodeError ''refresh response classification''), u)"
    by (simp add: commit_response_def bindM_def successful_replacement_def liftM_def throwM_def)
  with u show ?thesis by (simp add: commit_outcome_def handleM_def)
qed

subsection \<open>A successful rotation\<close>

lemma load_auth_constant:
  "clock w = [t] \<Longrightarrow> load_auth w = (Inr x, u) \<Longrightarrow> u = w
     \<and> (\<forall>v. clock v = [t] \<and> auth_slot v = auth_slot w \<longrightarrow> load_auth v = (Inr x, v))"
  by (auto simp: load_auth_def bindM_def now_def getM_def)

lemma commit_success_replaces:
  assumes w: "faults w = []" "clock w = [t]" and loaded: "load_auth w = (Inr (AuthLoaded c), w')"
    and c: "revision c = revision a" "auth_credential c = CookieCredential h"
    and journal: "read_journal (journal_slot w) = Inr j"
    and quiet_sink: "event_sink env = None" and run: "commit_success env a header r w = (q, v)"
  shows "\<exists>b. content (auth_slot v) = Document (auth_payload b) \<and> revision b = uuid_of w (uuid_next w)
    \<and> base_url b = base_url c \<and> auth_credential b = CookieCredential header"
proof -
  let ?u = "uuid_of w (uuid_next w)" and ?w1 = "w\<lparr>uuid_next := Suc (uuid_next w)\<rparr>"
  let ?s = "Rotated (revision a) header ?u"
  have load: "load_auth x = (Inr (AuthLoaded c), x)" if "clock x = [t]" "auth_slot x = auth_slot w" for x
    using load_auth_constant [OF w(2) loaded] that by blast
  have made: "make_stored_auth b (CookieCredential header) (Some ?u) x
      = (Inr \<lparr>revision = ?u, base_url = b, auth_credential = CookieCredential header,
              imported_at = isoformat (utc t)\<rparr>, x)" if "clock x = [t]" for x b
    using that by (simp add: make_stored_auth_def bindM_def retM_def now_def)
  let ?b = "\<lparr>revision = ?u, base_url = base_url c, auth_credential = CookieCredential header,
              imported_at = isoformat (utc t)\<rparr>"
  obtain att where att: "attempt_for_source (revision a) ?w1 = (Inr att, ?w1)"
    using journal by (simp add: attempt_for_source_def bindM_def load_journal_read retM_def)
  obtain q4 w4 where end4: "persist_rotated ?s ?w1 = (q4, w4)" by (cases "persist_rotated ?s ?w1")
  have stored: "content (auth_slot w4) = Document (auth_payload ?b) \<and> faults w4 = []"
  proof -
    let ?att = "without_owner att"
    let ?w2 = "?w1\<lparr>journal_slot := (journal_slot w)\<lparr>content := Document (JObj (journal_payload_base ?s False ?att)),
        temporary := False, synced := True\<rparr>, faults := []\<rparr>"
    let ?w3 = "?w2\<lparr>auth_slot := (auth_slot w)\<lparr>content := Document (auth_payload ?b), temporary := False,
        synced := True\<rparr>, faults := []\<rparr>"
    obtain q5 w5 where rec5: "record_terminal_outcome ?s ?att False ?w3 = (q5, w5)"
      by (cases "record_terminal_outcome ?s ?att False ?w3")
    have w5: "auth_slot w5 = auth_slot ?w3" "faults w5 = []"
      using same_run [OF auth_frame.record_terminal_outcome_kept rec5]
        keepsD [OF calm_frame.record_terminal_outcome_kept rec5] by (simp_all add: calm_def)
    have sup: "is_superseded (revision a) ?w1 = (Inr False, ?w1)"
      using load [of ?w1] w c by (simp add: is_superseded_def bindM_def retM_def)
    have wj: "write_journal ?s False (Some ?att) ?w1 = (Inr (), ?w2)"
      using w by (simp add: write_journal_calm)
    have cas: "cas_replace_cookie (revision a) header (Some ?u) ?w2 = (Inr (CasWritten ?b), ?w3)"
      using load [of ?w2] made [of ?w2] w c
      by (simp add: cas_replace_cookie_def bindM_def thenM_def write_auth_calm retM_def)
    have "persist_rotated ?s ?w1 = bindM (record_terminal_outcome ?s ?att False) (\<lambda>_. retM ?b) ?w3"
      by (simp only: persist_rotated_def rotation_state.case thenM_def bindM_def sup att Let_def wj cas
          prod.case sum.case if_False cas_result.case)
    with end4 rec5 have "w4 = w5" by (cases q5) (simp_all add: bindM_def retM_def)
    with w5 show ?thesis by simp
  qed
  have "auth_file_lock (persist_rotated ?s) ?w1 = (q4, w4)"
    using end4 stored w by (simp add: auth_file_lock_def thenM_def bindM_def trigger_calm finallyM_def)
  then have "v = w4"
    using run quiet_sink made [of ?w1] w
    by (auto simp: commit_success_def bindM_def thenM_def fresh_uuid_def step_to_def liftM_def
        emit_refresh_observation_def retM_def handleM_def throwM_def split: sum.splits if_splits)
  with stored show ?thesis by auto
qed

end
