(* ===== verification/Auth_Operations.thy ===== *)
theory Auth_Operations
  imports Auth_Facts
begin

section \<open>Runs of operations (auth\_session/coordinator.py)\<close>

text \<open>
  The operations of the credential path as values, so that a property can speak of any
  sequence of them, by any coordinators and under any fault plan; and what an import leaves
  behind when it returns.
\<close>

subsection \<open>Sequences\<close>

datatype operation =
    Refresh coordinator_env "string option" "stored_auth \<Rightarrow> exchange_outcome"
      "(string option \<times> auth_load_result \<times> int) list"
  | Startup coordinator_env
  | Project retained_successor
  | Import stored_auth

fun perform :: "operation \<Rightarrow> auth_world \<Rightarrow> auth_world" where
  "perform (Refresh env expected exchange polls) w = snd (refresh env expected exchange polls w)"
| "perform (Startup env) w = snd (recover_startup env w)"
| "perform (Project retained) w = snd (project_retained_successor retained w)"
| "perform (Import a) w = snd (import_credential a w)"

fun is_refresh :: "operation \<Rightarrow> bool" where
  "is_refresh (Refresh _ _ _ _) = True"
| "is_refresh _ = False"

lemma perform_lossless: "lossless w (perform x w)"
  using refresh_lossless outcome_frame.recover_startup_kept outcome_frame.project_kept import_lossless
  by (cases x) (auto simp: keeps_def)

lemma run_lossless: "accounted w \<subseteq> accounted (fold perform xs w)"
proof (induction xs arbitrary: w)
  case (Cons x xs)
  then show ?case using perform_lossless [of w x] by (force simp: lossless_def)
qed simp

lemma refresh_whole: "keeps whole (refresh env expected exchange polls)"
  unfolding refresh_def prepare_or_local_failure_def begin_exchange_def
  by (intro whole_frame.intros whole_frame.prepare_kept)
     (auto split: preparation.split option.split intro!: whole_frame.intros
       whole_frame.commit_outcome_kept keeps_putM simp: whole_def)

lemma perform_whole: "whole w (perform x w)"
  using refresh_whole whole_frame.recover_startup_kept whole_frame.project_kept
    whole_frame.import_kept [OF whole_write]
  by (cases x) (auto simp: keeps_def)

lemma run_whole: "whole w (fold perform xs w)"
proof (induction xs arbitrary: w)
  case (Cons x xs)
  then show ?case using perform_whole [of w x] by (force simp: whole_def)
qed (simp add: whole_def)

lemma perform_posts: "length (posts (perform x w)) \<le> length (posts w) + (if is_refresh x then 1 else 0)"
proof (cases x)
  case (Refresh env expected exchange polls)
  obtain r t where "refresh env expected exchange polls w = (r, t)"
    by (cases "refresh env expected exchange polls w")
  with refresh_posts [OF this] Refresh show ?thesis by auto
next
  case (Import a)
  have "keeps (same posts) (import_credential a)"
    by (intro posts_frame.import_kept posts_frame.write_auth_from quiet_on_slot) (auto simp: quiet_def)
  with Import show ?thesis by (simp add: keeps_def same_def)
qed (use posts_frame.recover_startup_kept posts_frame.project_kept in \<open>simp_all add: keeps_def same_def\<close>)

lemma run_posts: "length (posts (fold perform xs w)) \<le> length (posts w) + length (filter is_refresh xs)"
proof (induction xs arbitrary: w)
  case (Cons x xs)
  have "length (posts (fold perform xs (perform x w))) \<le> length (posts (perform x w)) + length (filter is_refresh xs)"
    by (rule Cons.IH)
  with perform_posts [of x w] show ?case by (auto split: if_splits)
qed simp

subsection \<open>Import\<close>

lemma trigger_state: "trigger operation w = (r, u) \<Longrightarrow> u = w\<lparr>faults := tl (faults w)\<rparr>"
  by (auto simp: trigger_def split: list.splits)

lemma write_auth_returned:
  assumes "write_auth_file a w = (Inr (), t)"
  shows "content (auth_slot t) = Document (auth_payload a) \<and> journal_slot t = journal_slot w
    \<and> outbox_slot t = outbox_slot w \<and> delivered t = delivered w"
proof -
  obtain u v where "trigger ''before_write_credential'' w = (Inr (), u)"
    and put: "on_auth (write_atomic_json (auth_payload a)) u = (Inr (), v)"
    and "trigger ''after_write_credential'' v = (Inr (), t)"
    using assms by (auto simp: write_auth_file_def elim!: thenM_E)
  with auth_doc.write_returned [OF put] show ?thesis
    by (auto simp: trigger_def on_auth_def split: list.splits prod.splits)
qed

lemma fsync_returned: "on_journal fsync_directory w = (r, t) \<Longrightarrow> content (journal_slot t) = content (journal_slot w)"
  by (auto simp: on_journal_def split: prod.splits dest!: fsync_directory_content)

lemma delete_returned:
  assumes "delete_journal w = (Inr (), t)"
  shows "content (journal_slot t) = Missing"
proof -
  obtain u v where unlink: "on_journal unlink_slot u = (Inr (), v)"
    and rest: "v = t \<or> (\<exists>x. on_journal fsync_directory v = (Inr (), x)
      \<and> trigger ''after_delete_journal'' x = (Inr (), t))"
    using assms by (auto simp: delete_journal_def retM_def elim!: thenM_E bindM_E split: if_splits)
  have "content (journal_slot v) = Missing"
    using unlink by (auto simp: on_journal_def unlink_slot_def split: prod.splits dest!: fs_op_content)
  with rest show ?thesis
    by (auto dest!: trigger_state fsync_returned)
qed

lemma enqueue_returned:
  assumes wf: "record_wf r" and run: "enqueue_outcome r w = (Inr (), t)"
  shows "r \<in> set (pending t)"
  using run [unfolded enqueue_outcome_def]
proof (cases rule: load_records)
  case loaded
  show ?thesis
  proof (cases "record_key r \<in> record_key ` set (pending w)")
    case True
    then obtain q where "q \<in> set (pending w)" "record_key q = record_key r" by auto
    with pending_wf [of w] wf have "r \<in> set (pending w)"
      by (auto simp: outbox_wf_def list_all_iff dest: key_determines_record)
    with True loaded show ?thesis by (simp add: retM_def)
  next
    case False
    then obtain u v where put: "on_outbox (write_atomic_json (outbox_payload (pending w @ [r]))) u = (Inr (), v)"
      and "trigger ''after_enqueue_outcome'' v = (Inr (), t)"
      using loaded by (auto elim!: thenM_E)
    with outbox_doc.write_returned [OF put]
    have "content (outbox_slot t) = Document (outbox_payload (pending w @ [r]))"
      by (auto simp: trigger_def split: list.splits)
    moreover have "outbox_wf (pending w @ [r])"
      using False wf pending_wf [of w] by (auto simp: outbox_wf_def)
    ultimately show ?thesis by (simp add: pending_written)
  qed
qed simp

lemma accounted_faults [simp]: "accounted (w\<lparr>faults := p\<rparr>) = accounted w"
  by (simp add: accounted_def pending_def)

lemma lock_returned:
  assumes "auth_file_lock body w = (Inr x, t)"
  obtains p q v where "body (w\<lparr>faults := p\<rparr>) = (Inr x, v)" "t = v\<lparr>faults := q\<rparr>"
proof -
  obtain u u' where "trigger ''lock_open'' w = (Inr (), u)" "trigger ''lock'' u = (Inr (), u')"
    and fin: "finallyM body (trigger ''unlock'') u' = (Inr x, t)"
    using assms by (auto simp: auth_file_lock_def elim!: thenM_E)
  then have u': "u' = w\<lparr>faults := tl (tl (faults w))\<rparr>" by (auto dest!: trigger_state)
  obtain r v where body: "body u' = (r, v)" by (cases "body u'")
  obtain r' v' where unlock: "trigger ''unlock'' v = (r', v')" by (cases "trigger ''unlock'' v")
  with fin body have "r = Inr x" "t = v'" by (auto simp: finallyM_def split: sum.splits)
  with body u' trigger_state [OF unlock] show ?thesis by (intro that) auto
qed

lemma import_returned:
  assumes run: "import_credential a w = (Inr b, t)"
  shows "b = a \<and> content (auth_slot t) = Document (auth_payload a) \<and> content (journal_slot t) = Missing"
    and "read_journal (journal_slot w) = Inr (JournalLoaded s False att v) \<Longrightarrow> is_terminal_state s
      \<Longrightarrow> \<exists>r. outbox_record_of s = Inr r \<and> r \<in> accounted t"
proof -
  let ?keep = "\<lambda>journal. case journal of
           JournalLoaded s enqueued _ _ \<Rightarrow>
             if is_terminal_state s \<and> \<not> enqueued
             then bindM (liftM (outbox_record_of s)) enqueue_outcome else retM ()
         | _ \<Rightarrow> retM ()"
  obtain p q x where body: "thenM (write_auth_file a) (bindM load_journal (\<lambda>journal.
       thenM (?keep journal) (thenM delete_journal (retM a)))) (w\<lparr>faults := p\<rparr>) = (Inr b, x)"
    and t: "t = x\<lparr>faults := q\<rparr>"
    using lock_returned [OF run [unfolded import_credential_def]] by blast
  obtain w1 w2 journal where auth: "write_auth_file a (w\<lparr>faults := p\<rparr>) = (Inr (), w1)"
    and load: "load_journal w1 = (Inr journal, w1)"
    and keep: "?keep journal w1 = (Inr (), w2)" and del: "delete_journal w2 = (Inr (), x)" and b: "b = a"
    using body by (fastforce simp: load_journal_read retM_def elim!: thenM_E bindM_E)
  note w1 = write_auth_returned [OF auth]
  have keep_frame: "keeps (same auth_slot) (?keep journal)"
    by (auto intro!: auth_frame.intros auth_frame.enqueue_record_kept split: journal_load_result.split)
  have "auth_slot x = auth_slot w1"
    using same_run [OF keep_frame keep] same_run [OF auth_frame.delete_journal_kept del] by simp
  with w1 t b delete_returned [OF del]
  show "b = a \<and> content (auth_slot t) = Document (auth_payload a) \<and> content (journal_slot t) = Missing"
    by simp
  show "\<exists>r. outbox_record_of s = Inr r \<and> r \<in> accounted t"
    if j: "read_journal (journal_slot w) = Inr (JournalLoaded s False att v)" and s: "is_terminal_state s"
  proof -
    have "journal = JournalLoaded s False att v"
      using load j w1 by (simp add: load_journal_read)
    with keep s obtain r where r: "outbox_record_of s = Inr r" "enqueue_outcome r w1 = (Inr (), w2)"
      by (auto elim!: bindM_E simp: liftM_def)
    have "r \<in> accounted w2"
      using enqueue_returned [OF outbox_record_of_wf [OF r(1)] r(2)] by (simp add: accounted_def)
    then have "r \<in> accounted x"
      using keepsD [OF outcome_frame.delete_journal_kept del] by (auto simp: lossless_def)
    with r(1) t show ?thesis by auto
  qed
qed

end
