(* ===== verification/Cookie_Facts.thy ===== *)
theory Cookie_Facts
  imports Cookies
begin

section \<open>Quoting and merging cookies (auth\_session/cookies.py)\<close>

text \<open>
  A value that is quoted reads back; a merged header carries auth cookies only, refuses a
  response that would delete one, and takes the last value the response sets.
\<close>

subsection \<open>Quoting\<close>

lemma special_chars: "\<not> legal_char quote_char" "\<not> legal_char backslash" "quote_char \<noteq> backslash"
  "quote_char \<notin> set '' ()/<=>?@[]{}''" "backslash \<notin> set '' ()/<=>?@[]{}''"
  by (code_simp)+

lemma unescape_plain: "c \<noteq> backslash \<Longrightarrow> unescape (c # s) = c # unescape s"
  by (cases s rule: unescape.cases; simp)

lemma unescape_escaped:
  "c = quote_char \<or> c = backslash \<Longrightarrow> unescape (backslash # c # s) = c # unescape s"
proof -
  assume c: "c = quote_char \<or> c = backslash"
  have "\<not> octal_digit c" "char_code c \<noteq> 10"
    using c by (auto simp: octal_digit_def char_code_def quote_char_def backslash_def)
  then show ?thesis
    by (cases s rule: unescape.cases) (auto simp: unescape_plain)
qed

lemma unescape_octal:
  assumes "n < 256"
  shows "unescape (octal_escape n @ s) = char_of n # unescape s"
proof -
  have digits: "n div 64 \<le> 3" "n div 8 mod 8 \<le> 7" "n mod 8 \<le> 7"
    using assms by auto
  have total: "n div 64 * 64 + n div 8 mod 8 * 8 + n mod 8 = n"
  proof -
    have "n div 64 = n div 8 div 8" using div_mult2_eq [of n 8 8] by simp
    moreover have "n div 8 div 8 * 8 + n div 8 mod 8 = n div 8" "n div 8 * 8 + n mod 8 = n"
      by (rule div_mult_mod_eq)+
    ultimately show ?thesis by linarith
  qed
  have small: "48 + n div 64 < 256" "48 + n div 8 mod 8 < 256" "48 + n mod 8 < 256"
    using digits by linarith+
  show ?thesis
    using digits total small
    by (simp add: octal_escape_def octal_digit_def)
qed

lemma unescape_quote_one: "unescape (quote_one c @ s) = c # unescape s"
  using unescape_octal [OF char_code_bound, of c s]
  by (auto simp: quote_one_def unescape_plain unescape_escaped)

lemma unescape_quoted: "unescape (concat (map quote_one s)) = s"
  by (induction s) (simp_all add: unescape_quote_one)

lemma unquote_quote: "py_unquote (py_quote s) = s"
proof (cases "s \<noteq> [] \<and> list_all legal_char s")
  case True
  then have "hd s \<noteq> quote_char" using special_chars(1) by (cases s) auto
  with True show ?thesis by (simp add: py_quote_def py_unquote_def)
next
  case False
  then show ?thesis by (auto simp: py_quote_def py_unquote_def unescape_quoted)
qed

subsection \<open>Merging\<close>

lemma jar_update_names: "fst ` set (jar_update k f jar) = insert k (fst ` set jar)"
  by (induction k f jar rule: jar_update.induct) auto

lemma jar_update_distinct: "distinct (map fst jar) \<Longrightarrow> distinct (map fst (jar_update k f jar))"
proof (induction k f jar rule: jar_update.induct)
  case (2 k f q m js)
  then show ?case using jar_update_names [of k f js] by (auto simp: image_iff)
qed simp

lemma map_of_jar_update: "map_of (jar_update k f jar) q = (if q = k then Some (f (map_of jar k)) else map_of jar q)"
  by (induction k f jar rule: jar_update.induct) auto

lemma jar_set_lookup:
  assumes "jar_set k v c jar = Inr jar'"
  shows "map_option morsel_value (map_of jar' q) = (if q = k then Some v else map_option morsel_value (map_of jar q))"
  using assms by (auto simp: jar_set_def map_of_jar_update split: if_splits option.splits)

text \<open>The value an auth cookie has after the updates: the last one, or the one before.\<close>

definition last_value :: "string \<Rightarrow> jar \<Rightarrow> string option \<Rightarrow> string option" where
  "last_value name updates before = fold (\<lambda>(k, m) v. if k = name then Some (morsel_value m) else v) updates before"

lemma merge_updates_result:
  assumes "merge_updates http_date now updates jar = Inr jar'"
  shows "(\<forall>(k, m) \<in> set updates. is_persistable_auth_cookie_update http_date now k m)
    \<and> (\<forall>name \<in> set AUTH_COOKIE_NAMES. map_option morsel_value (map_of jar' name)
         = last_value name updates (map_option morsel_value (map_of jar name)))"
  using assms
proof (induction updates arbitrary: jar)
  case Nil
  then show ?case by (simp add: last_value_def)
next
  case (Cons u updates)
  obtain k m where u: "u = (k, m)" by (cases u)
  from Cons.prems obtain jar1 where valid: "validate_auth_cookie_update http_date now k m = Inr ()"
    and set: "(if k \<in> set AUTH_COOKIE_NAMES then jar_set k (morsel_value m) (py_quote (morsel_value m)) jar
               else Inr jar) = Inr jar1"
    and rest: "merge_updates http_date now updates jar1 = Inr jar'"
    by (auto simp: u result_simps)
  have "is_persistable_auth_cookie_update http_date now k m"
    using valid by (auto simp: validate_auth_cookie_update_def is_persistable_auth_cookie_update_def split: if_splits)
  moreover have "map_option morsel_value (map_of jar1 name)
      = (if k = name then Some (morsel_value m) else map_option morsel_value (map_of jar name))"
    if "name \<in> set AUTH_COOKIE_NAMES" for name
    using set that jar_set_lookup by (cases "k \<in> set AUTH_COOKIE_NAMES") fastforce+
  ultimately show ?case
    using Cons.IH [OF rest] by (auto simp: u last_value_def)
qed

lemma auth_cookie_header_count: "auth_cookie_header jar = Inr (h, n) \<Longrightarrow> 0 < n"
  by (auto simp: auth_cookie_header_def Let_def split: if_splits)

lemma merge_headers_persistable:
  assumes "merge_headers http_date now hs jar = Inr jar'" and "h \<in> set hs"
  shows "\<exists>updates. load_cookies h [] = Inr updates
    \<and> (\<forall>(k, m) \<in> set updates. is_persistable_auth_cookie_update http_date now k m)"
  using assms
proof (induction hs arbitrary: jar)
  case Nil
  then show ?case by simp
next
  case (Cons g hs)
  then obtain updates jar1 where "load_cookies g [] = Inr updates"
    and "merge_updates http_date now updates jar = Inr jar1" and "merge_headers http_date now hs jar1 = Inr jar'"
    by (auto simp: result_simps)
  with Cons show ?case using merge_updates_result by (cases "h = g") (blast | auto)+
qed

end
