(* ===== verification/Auth_Samples.thy ===== *)
theory Auth_Samples
  imports Auth_Operations Cookie_Facts
begin

section \<open>Sample worlds for the credential path\<close>

text \<open>Concrete files and coordinators on which the properties of the credential path are run.\<close>

definition sample_auth :: stored_auth where
  "sample_auth = \<lparr>revision = ''r1'', base_url = ''https://guard'',
     auth_credential = CookieCredential ''access_token=a; refresh_token=b'',
     imported_at = ''2026-01-01T00:00:00+00:00''\<rparr>"

definition sample_file :: "json \<Rightarrow> file_slot" where
  "sample_file d = \<lparr>content = Document d, temporary = False, synced = True\<rparr>"

definition no_file :: file_slot where
  "no_file = \<lparr>content = Missing, temporary = False, synced = True\<rparr>"

text \<open>One day after the import, with a fault plan.\<close>

definition sample_world :: "fault_plan \<Rightarrow> file_slot \<Rightarrow> auth_world" where
  "sample_world plan journal = \<lparr>auth_slot = sample_file (auth_payload sample_auth), journal_slot = journal,
     outbox_slot = no_file, faults = plan, clock = [63902908800000000],
     uuid_of = (\<lambda>n. CHR ''u'' # show_nat n), uuid_next = 0, sink = None, delivered = [],
     observed = [], posts = []\<rparr>"

definition sample_owner :: refresh_owner where
  "sample_owner = \<lparr>boot_id = ''boot'', pid = 7, start_ticks = ''99''\<rparr>"

definition sample_env :: coordinator_env where
  "sample_env = \<lparr>owner_fn = Inr sample_owner, owner_alive_fn = (\<lambda>q. q = sample_owner), event_sink = None,
     http_date = (\<lambda>_. None), jwt_payload = (\<lambda>_. None)\<rparr>"

text \<open>Running the preparation on it: the journal is written and the dispatch is granted.\<close>

lemma sample_prepare: "fst (prepare sample_env None (sample_world [] no_file)) = Inr (Dispatch sample_auth)"
  by code_simp

subsection \<open>A process and its first exchange\<close>

text \<open>One process, before and after it begins its first exchange.\<close>

definition sample_system :: system where
  "sample_system = \<lparr>world = sample_world [] no_file, begun = 0, in_flight = {}, alive = {sample_owner}\<rparr>"

definition sample_prepared :: auth_world where
  "sample_prepared = snd (prepare sample_env None (sample_world [] no_file))"

definition sample_dispatched :: system where
  "sample_dispatched = \<lparr>world = snd (begin_exchange sample_auth sample_prepared), begun = 1,
     in_flight = {(sample_owner, sample_auth)}, alive = {sample_owner}\<rparr>"

lemma sample_prepare_run:
  "prepare sample_env None (sample_world [] no_file) = (Inr (Dispatch sample_auth), sample_prepared)"
  using sample_prepare by (simp add: sample_prepared_def prod_eq_iff)

lemma sample_initial: "initial sample_system"
  by (simp add: initial_def sample_system_def sample_world_def valid_owner_def sample_owner_def)

lemma sample_coordinator: "alive s = {sample_owner} \<Longrightarrow> coordinator_of s sample_owner sample_env"
  by (simp add: coordinator_of_def sample_env_def)

lemma sample_step: "step sample_system sample_dispatched"
proof -
  have "step sample_system (sample_system\<lparr>world := snd (begin_exchange sample_auth sample_prepared),
      begun := Suc (begun sample_system),
      in_flight := insert (sample_owner, sample_auth) (in_flight sample_system)\<rparr>)"
  proof (rule step.dispatch)
    show "prepare_or_local_failure sample_env None (world sample_system)
        = (Inr (Dispatch sample_auth), sample_prepared)"
      by (simp add: prepare_or_local_failure_def handleM_def sample_system_def sample_prepare_run)
    show "begin_exchange sample_auth sample_prepared = (Inr (), snd (begin_exchange sample_auth sample_prepared))"
      by (simp add: begin_exchange_def putM_def)
  qed (simp_all add: idle_def sample_system_def sample_coordinator)
  then show ?thesis by (simp add: sample_system_def sample_dispatched_def)
qed

lemma sample_reachable: "step\<^sup>*\<^sup>* sample_system sample_dispatched"
  using sample_step by (rule r_into_rtranclp)

lemma sample_revision: "revision_now sample_dispatched = Some ''r1''"
proof -
  have "within_budget 0 (auth_slot (sample_world [] no_file)) (sample_world [] no_file)"
    using initial_inv [OF sample_initial] by (simp add: system_inv_def sample_system_def)
  moreover have "owner_fn sample_env = Inr sample_owner" "valid_owner sample_owner"
    by (simp_all add: sample_env_def sample_owner_def valid_owner_def)
  ultimately have "granted (Suc 0) (auth_slot (sample_world [] no_file)) sample_owner sample_auth sample_prepared"
    using ensuresD [OF prepare_post _ sample_prepare_run] by fastforce
  then show ?thesis
    by (simp add: granted_def revision_now_def sample_dispatched_def begin_exchange_def putM_def sample_auth_def)
qed

end
