(* ===== verification/Auth_Properties.thy ===== *)
theory Auth_Properties
  imports Auth_Samples
begin

section \<open>Properties of the credential path\<close>

text \<open>
  What the coordinator, the journal and the outbox promise, each with an application to the
  sample worlds.
\<close>

subsection \<open>Processes\<close>

text \<open>C1: Whatever processes share the credential files, and however they prepare, commit, recover,
  import, crash and start between locked sections, at most six exchanges are begun on one stored
  credential before it is replaced (one dispatch and the five recovery dispatches of the policy),
  provided that no file operation fails.\<close>

theorem dispatch_budget:
  assumes "initial s" and "step\<^sup>*\<^sup>* s t"
  shows "begun t \<le> 6"
  using reachable_inv [OF assms(2,1)] by (simp add: system_inv_def within_budget_def spent_def)

theorem dispatch_budget_witness: "begun sample_dispatched = 1 \<and> begun sample_dispatched \<le> 6"
  using dispatch_budget [OF sample_initial sample_reachable] by (simp add: sample_dispatched_def)





subsection \<open>One operation\<close>



text \<open>A commit of an exchange whose credential has been superseded changes neither the credential
  nor the journal, whatever the exchange returned or raised and whatever operations fail.\<close>

lemma superseded_commit_inert:
  assumes "stored_revision (auth_slot w) \<noteq> Some (revision a)"
    and "commit_outcome env a outcome w = (r, t)"
  shows "auth_slot t = auth_slot w \<and> journal_slot t = journal_slot w"
  using ensuresD [OF superseded_commit_untouched [of "files w" a] _ assms(2)] assms(1)
  by (simp add: untouched_def files_def)

lemma superseded_commit_inert_witness:
  "auth_slot (snd (commit_outcome sample_env (sample_auth\<lparr>revision := ''r0''\<rparr>) Cancelled (sample_world [] no_file)))
    = sample_file (auth_payload sample_auth)"
proof -
  let ?run = "commit_outcome sample_env (sample_auth\<lparr>revision := ''r0''\<rparr>) Cancelled (sample_world [] no_file)"
  have "stored_revision (auth_slot (sample_world [] no_file)) = Some ''r1''"
    by (subst stored_revision_written [of _ sample_auth]) (simp_all add: sample_world_def sample_file_def sample_auth_def)
  then show ?thesis
    using superseded_commit_inert [of "sample_world [] no_file" "sample_auth\<lparr>revision := ''r0''\<rparr>"
        sample_env Cancelled "fst ?run" "snd ?run"]
    by (simp add: sample_world_def)
qed

text \<open>C34: In any sequence of operations, by any coordinators and under any faults, every refresh begins
  at most one exchange and nothing else begins one.\<close>

theorem at_most_one_post:
  "length (posts (fold perform xs w)) \<le> length (posts w) + length (filter is_refresh xs)"
  by (rule run_posts)

text \<open>C5: No terminal outcome is lost: in any sequence of operations, by any coordinators and under any
  faults, a record that is in the outbox, or was taken by the sink, still is or was.\<close>

theorem outcomes_never_lost: "accounted w \<subseteq> accounted (fold perform xs w)"
  by (rule run_lossless)

text \<open>C6: A reader of the credential file always finds what was there or one complete credential, in any
  sequence of operations and under any faults.\<close>

theorem credential_file_whole:
  "content (auth_slot (fold perform xs w)) = content (auth_slot w)
    \<or> (\<exists>a. content (auth_slot (fold perform xs w)) = Document (auth_payload a))"
  using run_whole [of w xs] by (auto simp: whole_def)

end
