(* ===== verification/Commit_Properties.thy ===== *)
theory Commit_Properties
  imports Auth_Samples
begin

section \<open>Properties of commits, imports and recoveries\<close>

text \<open>
  What a commit and an import leave in the files, and the journals the coordinator writes
  and then refuses to read or drops with their budget.
\<close>

subsection \<open>Sample runs\<close>

definition sample_response :: http_response where
  "sample_response = \<lparr>status_code = 401, response_body = InvalidText, response_headers = [], set_cookie_headers = []\<rparr>"

lemma sample_load: "load_auth (sample_world plan j) = (Inr (AuthLoaded sample_auth), sample_world plan j)"
proof -
  have "parse_auth (auth_payload sample_auth) 63902908800000000 = AuthLoaded sample_auth" by code_simp
  then show ?thesis by (simp add: load_auth_def bindM_def now_def getM_def sample_world_def sample_file_def)
qed

lemma sample_read_missing: "read_journal no_file = Inr JournalAbsent"
  by (simp add: read_journal_def no_file_def)

definition sample_rejected :: file_slot where
  "sample_rejected = sample_file (JObj (journal_payload_base (Rejected ''r1'' ''no'') False
     (new_attempt ''r1'' NormalAttempt 1)))"

definition sample_reserved :: file_slot where
  "sample_reserved = sample_file (JObj (journal_payload_base (Reserved ''r1'') False
     ((new_attempt ''r1'' (LaneAttempt SafeRetry) 5)\<lparr>safe_retry_count := 4\<rparr>)))"

lemma sample_read_rejected:
  "read_journal sample_rejected
    = Inr (JournalLoaded (Rejected ''r1'' ''no'') False (Some (new_attempt ''r1'' NormalAttempt 1)) None)"
  by code_simp

lemma sample_read_reserved:
  "read_journal sample_reserved = Inr (JournalLoaded (Reserved ''r1'') False
     (Some ((new_attempt ''r1'' (LaneAttempt SafeRetry) 5)\<lparr>safe_retry_count := 4\<rparr>)) None)"
  by code_simp

subsection \<open>Commits\<close>





text \<open>An import that returns has replaced the credential and removed the journal, and a terminal
  outcome that journal had not yet queued is in the outbox or was taken by the sink.\<close>

lemma import_supersedes:
  assumes "import_credential a w = (Inr b, t)"
    and "read_journal (journal_slot w) = Inr (JournalLoaded s False att v)" and "is_terminal_state s"
  shows "b = a \<and> content (auth_slot t) = Document (auth_payload a) \<and> content (journal_slot t) = Missing
    \<and> (\<exists>r. outbox_record_of s = Inr r \<and> r \<in> accounted t)"
  using import_returned [OF assms(1)] assms(2,3) by blast

lemma import_supersedes_witness:
  "\<exists>t. import_credential sample_auth (sample_world [] sample_rejected) = (Inr sample_auth, t)
     \<and> \<lparr>record_outcome = RejectedOutcome, record_key = ''auth-rotation:r1:rejected''\<rparr> \<in> accounted t"
proof -
  have run: "fst (import_credential sample_auth (sample_world [] sample_rejected)) = Inr sample_auth" by code_simp
  have key: "rotation_event_key ''r1'' RejectedOutcome = ''auth-rotation:r1:rejected''" by code_simp
  from import_supersedes [of sample_auth "sample_world [] sample_rejected" sample_auth
      "snd (import_credential sample_auth (sample_world [] sample_rejected))" "Rejected ''r1'' ''no''"]
    run sample_read_rejected key
  show ?thesis
    by (auto simp: prod_eq_iff sample_world_def outbox_record_of_def)
qed

end
