(* ===== verification/Recovery_Gaps.thy ===== *)
theory Recovery_Gaps
  imports Commit_Properties
begin

section \<open>Where recovery does not do what it means to\<close>

text \<open>
  Journals the coordinator writes and then refuses to read, a reservation dropped with its
  budget, a journal replaced under its owner and a response that stops its commit: each is a
  theorem over the operations, with a run on a sample world.
\<close>

subsection \<open>Journals that are refused\<close>

definition blocked :: "file_slot \<Rightarrow> string \<Rightarrow> bool" where
  "blocked j detail \<longleftrightarrow> (\<forall>env c u. journal_slot u = j \<longrightarrow>
     recover_or_wait env c u = (Inl (EnjiHttpError ''STORAGE'' (''refresh journal is corrupt: '' @ detail)), u))"

lemma blocked_corrupt: "content j = Document d \<Longrightarrow> parse_journal d = Inr (JournalCorrupt m) \<Longrightarrow> blocked j m"
  unfolding blocked_def by (intro allI impI corrupt_journal_blocks) (simp add: read_journal_def)

lemma recover_unknown_record:
  assumes w: "faults w = []" and j: "read_journal (journal_slot w) = Inr (JournalLoaded (OutcomeUnknown r m) e (Some a) v)"
    and r: "revision current = r" and run: "recover_or_wait env current w = (Inr p, t)"
  obtains u q where "record_terminal_outcome (OutcomeUnknown r m) a e w = (Inr (), u)" "faults u = []"
    "recover_unknown env current (OutcomeUnknown r m) a u = (Inr q, t)" "p = Some q"
proof -
  obtain u where u: "record_terminal_outcome (OutcomeUnknown r m) a e w = (Inr (), u)"
    and "bindM (recover_unknown env current (OutcomeUnknown r m) a) (\<lambda>p. retM (Some p)) u = (Inr p, t)"
    using run j r by (auto simp: recover_or_wait_def bindM_def load_journal_read recover_matching_state_def elim!: thenM_E
        split: sum.splits prod.splits)
  moreover have "faults u = []"
    using keepsD [OF calm_frame.record_terminal_outcome_kept u] w by (simp add: calm_def)
  ultimately show ?thesis by (auto simp: retM_def intro: that elim!: bindM_E)
qed

text \<open>A version 2 journal whose dispatch was in flight is migrated with a total budget of one and
  written back as version 3, whose reader demands the budget of six: once recovery has handled it,
  the journal is corrupt and every later recovery fails with a storage error.\<close>

lemma migrated_dispatch_blocks:
  assumes "faults w = []" and "r \<noteq> []" and "revision current = r"
    and "read_journal (journal_slot w)
       = Inr (JournalLoaded (OutcomeUnknown r m) e (Some (v2_attempt r True True)) (Some 2))"
    and "recover_or_wait env current w = (Inr p, t)"
  shows "p = Some (WaitForRevision r) \<and> blocked (journal_slot t) ''journal recovery budget is invalid''"
proof -
  obtain u q where u: "faults u = []"
    "recover_unknown env current (OutcomeUnknown r m) (v2_attempt r True True) u = (Inr q, t)" "p = Some q"
    using recover_unknown_record [OF assms(1,4,3,5)] by blast
  have "next_recovery (v2_attempt r True True) u = (Inr None, u)"
    by (simp add: next_recovery_def v2_attempt_def new_attempt_def retM_def)
  from recover_unknown_stops [OF u(1) this, of env current r m] u v2_requested_unreadable [OF assms(2), of m False]
  show ?thesis by (auto intro: blocked_corrupt)
qed

definition sample_v2 :: file_slot where
  "sample_v2 = sample_file (JObj [(''version'', JInt 2), (''state'', JStr ''REQUESTED''),
     (''source_revision'', JStr ''r1'')])"

lemma migrated_dispatch_blocks_witness:
  "\<exists>t. recover_or_wait sample_env sample_auth (sample_world [] sample_v2) = (Inr (Some (WaitForRevision ''r1'')), t)
     \<and> blocked (journal_slot t) ''journal recovery budget is invalid''"
proof -
  obtain m where j: "read_journal sample_v2
      = Inr (JournalLoaded (OutcomeUnknown ''r1'' m) False (Some (v2_attempt ''r1'' True True)) (Some 2))"
    by (rule that, code_simp)
  have run: "fst (recover_or_wait sample_env sample_auth (sample_world [] sample_v2)) = Inr (Some (WaitForRevision ''r1''))"
    by code_simp
  from migrated_dispatch_blocks [of "sample_world [] sample_v2" "''r1''" sample_auth m False sample_env
      "Some (WaitForRevision ''r1'')" "snd (recover_or_wait sample_env sample_auth (sample_world [] sample_v2))"]
    run j show ?thesis
    by (auto simp: prod_eq_iff sample_world_def sample_auth_def)
qed

text \<open>When a scheduled recovery comes too late for its deadline, the attempt is stopped with its
  scheduled time still set, which the reader refuses: the journal is corrupt from then on and every
  later recovery fails with a storage error instead of asking for a fresh import.\<close>

lemma late_recovery_blocks:
  assumes "faults w = []" and "clock w = [now']" and "content (outbox_slot w) = Missing" and "revision current = r"
    and "read_journal (journal_slot w) = Inr (JournalLoaded (OutcomeUnknown r m) True (Some a) None)"
    and "continuation a = Some (Continue l)" and "deadline_passed (recovery_deadline a) now'"
  shows "\<exists>t. recover_or_wait env current w = (Inr (Some (WaitForRevision r)), t)
    \<and> blocked (journal_slot t) ''stopped recovery metadata is inconsistent''"
proof -
  have readable: "readable_attempt (OutcomeUnknown r m) a"
    using assms(5) by (auto simp: read_journal_def split: file_content.splits dest: parse_journal_admits)
  have rec: "record_terminal_outcome (OutcomeUnknown r m) a True w = (Inr (), w)"
    using assms(3) by (simp add: record_terminal_outcome_def drain_outbox_def load_outbox_def thenM_def bindM_def retM_def)
  have "next_recovery a w = (Inr None, w)"
    using assms(2,6,7) by (simp add: next_recovery_def bindM_def now_def retM_def next_recovery_attempt_def)
  from recover_unknown_stops [OF assms(1) this, of env current r m] obtain t where
    t: "recover_unknown env current (OutcomeUnknown r m) a w = (Inr (WaitForRevision r), t)"
    "content (journal_slot t) = Document (JObj (journal_payload_base (OutcomeUnknown r m) False (stopped_attempt a)))"
    by blast
  have "recover_or_wait env current w = (Inr (Some (WaitForRevision r)), t)"
    using assms(4,5) rec t
    by (simp add: recover_or_wait_def bindM_def load_journal_read recover_matching_state_def thenM_def retM_def)
  with blocked_corrupt [OF t(2) stopped_scheduled_unreadable [OF readable assms(6)]] show ?thesis by blast
qed

definition sample_late_attempt :: rotation_attempt where
  "sample_late_attempt = (new_attempt ''r1'' NormalAttempt 1)\<lparr>recovery_deadline := Some ''2025-12-31T00:00:00+00:00'',
     continuation := Some (Continue SafeRetry), next_attempt_at := Some ''2025-12-30T00:00:00+00:00''\<rparr>"

definition sample_late :: file_slot where
  "sample_late = sample_file (JObj (journal_payload_base (OutcomeUnknown ''r1'' ''m'') True sample_late_attempt))"

lemma late_recovery_blocks_witness:
  "\<exists>t. recover_or_wait sample_env sample_auth (sample_world [] sample_late) = (Inr (Some (WaitForRevision ''r1'')), t)
     \<and> blocked (journal_slot t) ''stopped recovery metadata is inconsistent''"
proof -
  have j: "read_journal sample_late
      = Inr (JournalLoaded (OutcomeUnknown ''r1'' ''m'') True (Some sample_late_attempt) None)"
    by code_simp
  have late: "deadline_passed (recovery_deadline sample_late_attempt) 63902908800000000" by code_simp
  have cont: "continuation sample_late_attempt = Some (Continue SafeRetry)" by (simp add: sample_late_attempt_def)
  show ?thesis
    by (rule late_recovery_blocks [OF _ _ _ _ _ cont late])
       (use j in \<open>simp_all add: sample_world_def sample_auth_def no_file_def\<close>)
qed

subsection \<open>A budget that starts again\<close>

text \<open>A reservation left by a process that stopped between its two journal writes is dropped with
  the dispatches it had already counted: the next refresh of the same credential is granted with a
  fresh count of one, however much of the budget was spent.\<close>

lemma reservation_restarts_budget:
  assumes "faults w = []" and "load_auth w = (Inr (AuthLoaded c), w1)" and "auth_credential c = CookieCredential h"
    and "read_journal (journal_slot w) = Inr (JournalLoaded (Reserved (revision c)) e (Some a) v)"
    and "content (outbox_slot w) = Missing" and "owner_fn env = Inr p" and "valid_owner p"
  shows "\<exists>t att. prepare env None w = (Inr (Dispatch c), t) \<and> dispatch_count att = 1
    \<and> read_journal (journal_slot t) = Inr (JournalLoaded (Requested (revision c)) False (Some att) None)"
  by (rule reserved_restarts [OF assms])

lemma reservation_restarts_budget_witness:
  "\<exists>t att. prepare sample_env None (sample_world [] sample_reserved) = (Inr (Dispatch sample_auth), t)
     \<and> dispatch_count att = 1
     \<and> read_journal (journal_slot t) = Inr (JournalLoaded (Requested ''r1'') False (Some att) None)"
  using reservation_restarts_budget [OF _ sample_load, of "[]" sample_reserved _ False _ None sample_env sample_owner]
    sample_read_reserved
  by (simp add: sample_world_def sample_auth_def sample_env_def no_file_def valid_owner_def sample_owner_def)

subsection \<open>A journal replaced under its owner\<close>

text \<open>Projecting a retained successor that is already the stored credential replaces whatever the
  journal holds, the record of an exchange another process has in flight for that successor included:
  afterwards the journal is gone, or is the record of the old rotation.\<close>

lemma projection_drops_journal:
  assumes "faults w = []" and "load_auth w = (Inr (AuthLoaded c), w1)"
    and "revision c = revision (retained_auth retained)" and "auth_credential (retained_auth retained) = CookieCredential h"
    and "project_retained_successor retained w = (Inr p, t)"
  shows "content (journal_slot t) = Missing
    \<or> (\<exists>att. content (journal_slot t) = Document (JObj (journal_payload_base
          (Rotated (retained_source retained) h (revision c)) True att)))"
proof -
  let ?s = "Rotated (retained_source retained) h (revision c)"
  have fin: "finallyM (project_locked retained) (trigger ''unlock'') w = (Inr p, t)"
    using assms(1,5) by (simp add: project_retained_successor_def auth_file_lock_def thenM_def bindM_def trigger_calm)
  obtain r v where body: "project_locked retained w = (r, v)" by (cases "project_locked retained w")
  obtain r' v' where unlock: "trigger ''unlock'' v = (r', v')" by (cases "trigger ''unlock'' v")
  from fin body unlock have r: "r = Inr p" and t: "t = v'" by (auto simp: finallyM_def split: sum.splits)
  have w1: "faults w1 = []"
    using assms(1,2) keepsD [OF calm_frame.load_auth_kept assms(2)] by (simp add: calm_def)
  obtain att where att: "attempt_for_source (retained_source retained) w1 = (Inr att, w1)"
    using body r assms(2,4)
    by (auto simp: project_locked_def bindM_def retained_rotated_state_def attempt_for_source_def load_journal_read
        liftM_def retM_def split: sum.splits)
  have "bindM (record_terminal_outcome ?s (without_owner att) False) (\<lambda>_. retM (SuccessorProjected c)) w1 = (Inr p, v)"
    using body r att assms(2,3,4)
    by (simp add: project_locked_def bindM_def thenM_def retained_rotated_state_def liftM_def
        projected_auth_or_none_def Let_def)
  then obtain x where "record_terminal_outcome ?s (without_owner att) False w1 = (Inr (), x)" "v = x"
    by (auto simp: retM_def elim!: bindM_E)
  with ensuresD [OF rotated_record_overwrites w1] trigger_state [OF unlock] t show ?thesis by fastforce
qed

definition sample_requested :: file_slot where
  "sample_requested = sample_file (JObj (journal_payload_base (Requested ''r1'') False
     (owned_by sample_owner (new_attempt ''r1'' NormalAttempt 1))))"

definition sample_retained :: retained_successor where
  "sample_retained = \<lparr>retained_source = ''r0'', retained_auth = sample_auth\<rparr>"

lemma projection_drops_journal_witness:
  "fst (recover_or_wait sample_env sample_auth (sample_world [] sample_requested)) = Inr (Some (WaitForRevision ''r1''))
    \<and> (\<exists>t. project_retained_successor sample_retained (sample_world [] sample_requested)
          = (Inr (SuccessorProjected sample_auth), t)
        \<and> (content (journal_slot t) = Missing
            \<or> (\<exists>att. content (journal_slot t) = Document (JObj (journal_payload_base
                (Rotated ''r0'' ''access_token=a; refresh_token=b'' ''r1'') True att)))))"
proof -
  let ?run = "project_retained_successor sample_retained (sample_world [] sample_requested)"
  have waits: "fst (recover_or_wait sample_env sample_auth (sample_world [] sample_requested))
      = Inr (Some (WaitForRevision ''r1''))" by code_simp
  have "fst ?run = Inr (SuccessorProjected sample_auth)" by code_simp
  then have run: "?run = (Inr (SuccessorProjected sample_auth), snd ?run)" by (simp add: prod_eq_iff)
  from projection_drops_journal [OF _ sample_load _ _ run] waits run show ?thesis
    by (fastforce simp: sample_world_def sample_retained_def sample_auth_def)
qed

subsection \<open>A response that is no text\<close>

text \<open>A failed exchange whose response body is not decodable text stops its commit with a decoding
  error before anything is recorded: the credential and the journal stay as they are, so the journal
  still says that its live owner's dispatch is in flight.\<close>

lemma undecodable_response_unrecorded:
  assumes "event_sink env = None" and "status_code r \<noteq> HTTP_OK" and "response_body r = InvalidText"
  shows "\<exists>t. commit_outcome env a (Responded r) w = (Inl (UnicodeDecodeError ''refresh response classification''), t)
    \<and> auth_slot t = auth_slot w \<and> journal_slot t = journal_slot w"
  using undecodable_response [OF assms, of a w] by (auto simp: files_def)

lemma undecodable_response_unrecorded_witness:
  "journal_slot (snd (commit_outcome sample_env sample_auth (Responded sample_response)
      (sample_world [] sample_requested))) = sample_requested"
proof -
  have "event_sink sample_env = None" "status_code sample_response \<noteq> HTTP_OK"
    "response_body sample_response = InvalidText"
    by (simp_all add: sample_env_def sample_response_def HTTP_OK_def)
  from undecodable_response_unrecorded [OF this, of sample_auth "sample_world [] sample_requested"]
  show ?thesis by (auto simp: sample_world_def)
qed

end
