(* ===== verification/Document_Properties.thy ===== *)
theory Document_Properties
  imports Auth_Samples
begin

section \<open>Properties of the state machine, the documents and the cookies\<close>

text \<open>
  What the pure parts promise: the state machine over runs and its agreement with the
  coordinator's scheduling, the documents on disk, and the cookie header.
\<close>

subsection \<open>The state machine\<close>

text \<open>Every dispatch of an effect list follows its durable journal record immediately.\<close>

fun journaled :: "effect list \<Rightarrow> bool" where
  "journaled (PersistJournal s # DispatchExchange r # fx) = (s = Requested r \<and> journaled fx)"
| "journaled (DispatchExchange r # fx) = False"
| "journaled (f # fx) = journaled fx"
| "journaled [] = True"

lemma journaled_persist: "journaled ys \<Longrightarrow> journaled (PersistJournal s # ys)"
proof (cases ys)
  case (Cons f fx)
  then show "journaled ys \<Longrightarrow> ?thesis" by (cases f) auto
qed simp

lemma journaled_append: "journaled xs \<Longrightarrow> journaled ys \<Longrightarrow> journaled (xs @ ys)"
  by (induction xs rule: journaled.induct) (auto simp: journaled_persist)

lemma run_events_journaled: "run_events s es = Inr (s', fx) \<Longrightarrow> journaled fx"
proof (induction es arbitrary: s fx)
  case (Cons e es)
  from Cons.prems obtain t fx' where t: "transition s e = Inr t"
    and rest: "run_events (next_state t) es = Inr (s', fx')" and fx: "fx = effects t @ fx'"
    by (auto simp: result_simps split: prod.splits)
  have "journaled (effects t)" using t by (cases rule: transition_cases) auto
  with Cons.IH [OF rest] fx show ?case by (simp add: journaled_append)
qed simp

text \<open>Over any sequence of events from any state, every dispatch effect comes immediately after the
  effect that persists its \<open>REQUESTED\<close> journal, and there is at most one dispatch for the state's
  own pending one, each authorised recovery and each import.\<close>

lemma dispatches_journaled_and_bounded:
  assumes "run_events s es = Inr (s', fx)"
  shows "journaled fx \<and> dispatches fx + dispatch_credit s' \<le> dispatch_credit s + authorizations es + import_count es"
  using run_events_journaled [OF assms] run_events_credit [OF assms] by simp

lemma dispatches_journaled_and_bounded_witness:
  "\<exists>fx. run_events (Ready ''r'') [Begin ''r'', DispatchBegun, ExchangeSucceeded ''c'' ''q'', Recover, Imported ''p''] = Inr (Ready ''p'', fx)
     \<and> dispatches fx = 1 \<and> journaled fx"
proof -
  let ?es = "[Begin ''r'', DispatchBegun, ExchangeSucceeded ''c'' ''q'', Recover, Imported ''p'']"
  obtain fx where run: "run_events (Ready ''r'') ?es = Inr (Ready ''p'', fx)" and n: "dispatches fx = 1"
    by (simp add: result_simps)
  with dispatches_journaled_and_bounded [OF run] show ?thesis by blast
qed

text \<open>An authorised recovery dispatch is at most the sixth of its generation, its counters add up,
  its own lane still had a retry left, and its deadline and cooldown allow it.\<close>

lemma authorization_within_policy:
  assumes "recovery_dispatch_is_authorized a"
  shows "auth_dispatch_count a \<le> 6
    \<and> auth_dispatch_count a = 1 + auth_safe_retry_count a + auth_validation_retry_count a + auth_ambiguity_replay_count a
    \<and> (case continuation_lane a of
         SafeRetry \<Rightarrow> 1 \<le> auth_safe_retry_count a \<and> auth_safe_retry_count a \<le> 4
       | ValidationRecovery \<Rightarrow> auth_validation_retry_count a = 1
       | AmbiguityReplay \<Rightarrow> auth_ambiguity_replay_count a = 1)
    \<and> deadline_open a \<and> cooldown_elapsed a"
  using authorization_budget [OF assms] by (simp split: lane.split)

definition sample_authorization :: recovery_authorization where
  "sample_authorization = \<lparr>continuation_lane = SafeRetry, auth_dispatch_count = 5, auth_safe_retry_count = 4,
     auth_validation_retry_count = 0, auth_ambiguity_replay_count = 0, auth_total_dispatch_cap = 6,
     deadline_open = True, cooldown_elapsed = True\<rparr>"

lemma authorization_within_policy_witness:
  "recovery_dispatch_is_authorized sample_authorization \<and> auth_dispatch_count sample_authorization \<le> 6"
proof -
  have "recovery_dispatch_is_authorized sample_authorization" by code_simp
  with authorization_within_policy [OF this] show ?thesis by blast
qed


definition sample_scheduled :: rotation_attempt where
  "sample_scheduled = (new_attempt ''r1'' NormalAttempt 1)\<lparr>recovery_deadline := Some ''2026-01-02T00:10:00+00:00'',
     continuation := Some (Continue AmbiguityReplay), next_attempt_at := Some ''2026-01-01T23:59:30+00:00''\<rparr>"


subsection \<open>Documents\<close>

text \<open>C39: A journal that is written reads back as the state and attempt it was written from, exactly
  when the attempt's metadata is consistent with its state.\<close>

theorem journal_roundtrip:
  assumes "source_revision s \<noteq> []"
  shows "parse_journal (JObj (journal_payload_base s e a)) = Inr (JournalLoaded s (is_terminal_state s \<and> e) (Some a) None)
    \<longleftrightarrow> readable_attempt s a"
  using parse_journal_loaded_iff [OF assms, of e a] parse_journal_readable [of s a e] by metis

theorem journal_roundtrip_witness:
  "parse_journal (JObj (journal_payload_base (OutcomeUnknown ''r1'' ''m'') True sample_scheduled))
      = Inr (JournalLoaded (OutcomeUnknown ''r1'' ''m'') True (Some sample_scheduled) None)"
proof -
  have "readable_attempt (OutcomeUnknown ''r1'' ''m'') sample_scheduled"
    by (simp add: readable_attempt_def) code_simp
  then show ?thesis
    using journal_roundtrip [of "OutcomeUnknown ''r1'' ''m''" True sample_scheduled] by simp
qed

text \<open>No document makes the reader admit a journal outside the policy: whatever it says, a journal
  that loads has an attempt whose dispatch count is within the budget; a version 3 journal has all
  its counters within their limits and metadata consistent with its state, and a migrated one never
  schedules or continues a dispatch.\<close>

lemma journal_admits_budget:
  assumes "parse_journal d = Inr (JournalLoaded s e att v)"
  shows "\<exists>a. att = Some a \<and> 0 \<le> dispatch_count a \<and> dispatch_count a \<le> 6
    \<and> source_revision s \<noteq> [] \<and> (\<forall>r. s \<noteq> Ready r)
    \<and> (case v of
         None \<Rightarrow> readable_attempt s a \<and> total_dispatch_cap a = 6 \<and> safe_retry_count a \<le> 4
            \<and> validation_retry_count a \<le> 1 \<and> ambiguity_replay_count a \<le> 1
       | Some n \<Rightarrow> n = 2 \<and> (\<forall>r. s \<noteq> Requested r) \<and> \<not> is_scheduled (continuation a))"
proof -
  from assms obtain a where a: "att = Some a" "0 \<le> dispatch_count a" "dispatch_count a \<le> 6"
    "source_revision s \<noteq> []" "\<forall>r. s \<noteq> Ready r"
    by (rule loaded_journal)
  show ?thesis
  proof (cases v)
    case None
    with assms a have "readable_attempt s a" by (simp add: parse_journal_admits)
    with None a valid_attempt_bounds [of a] show ?thesis by (simp add: readable_attempt_def)
  next
    case (Some n)
    obtain p where d: "d = JObj p" using assms by (auto simp: parse_journal_def split: option.splits)
    have "json_eq_int (jget p ''version'') PREVIOUS_JOURNAL_SCHEMA_VERSION"
    proof (rule ccontr)
      assume "\<not> ?thesis"
      with assms Some show False unfolding d by (elim parse_v3_loaded) simp_all
    qed
    then have "parse_v2_journal p = Inr (JournalLoaded s e att v)" using assms by (simp add: d parse_journal_def)
    from parse_v2_loaded [OF this] a Some show ?thesis by auto
  qed
qed

lemma journal_admits_budget_witness:
  "\<exists>e att v a. parse_journal (JObj (journal_payload_base (OutcomeUnknown ''r1'' ''m'') True sample_scheduled))
      = Inr (JournalLoaded (OutcomeUnknown ''r1'' ''m'') e att v) \<and> att = Some a \<and> dispatch_count a \<le> 6"
proof -
  have "parse_journal (JObj (journal_payload_base (OutcomeUnknown ''r1'' ''m'') True sample_scheduled))
      = Inr (JournalLoaded (OutcomeUnknown ''r1'' ''m'') True (Some sample_scheduled) None)" by code_simp
  with journal_admits_budget [OF this] show ?thesis by blast
qed

text \<open>A credential that is made and written reads back as itself, at any later reading of the clock
  and up to the tolerance before.\<close>

lemma credential_roundtrip:
  assumes "make_stored_auth base c given w = (Inr a, w')"
    and "base \<noteq> []" and "given \<noteq> Some []" and "\<forall>n. uuid_of w n \<noteq> []"
    and "clock w = [t]" and "0 \<le> t" and "t < max_ordinal * micros_per_day"
    and "t \<le> t' + IMPORTED_AT_FUTURE_TOLERANCE"
  shows "parse_auth (auth_payload a) t' = AuthLoaded a"
proof -
  obtain r where r: "r \<noteq> []" and a: "a = \<lparr>revision = r, base_url = base, auth_credential = c, imported_at = isoformat (utc t)\<rparr>"
    using assms(1,3,4,5)
    by (cases given) (auto simp: make_stored_auth_def bindM_def retM_def fresh_uuid_def now_def)
  have time: "from_isoformat (isoformat (utc t)) = Some (utc t)"
    using assms(6,7) by (rule from_isoformat_isoformat)
  have "from_isoformat [] = None" by code_simp
  with time have shown: "isoformat (utc t) \<noteq> []" by auto
  have check: "validate_imported_at (isoformat (utc t)) t' = ImportedAt t"
    using time assms(8) by (simp add: validate_imported_at_def parse_utc_timestamp_def utc_def)
  have cred: "parse_credential (credential_payload c) = Some c"
    by (cases c) (simp_all add: parse_credential_def jget_def)
  show ?thesis
    unfolding a
    by (simp add: parse_auth_def auth_payload_def jget_def credential_metadata_def r assms(2) shown check cred
        AUTH_SCHEMA_VERSION_def)
qed

lemma credential_roundtrip_witness:
  "\<exists>a. fst (make_stored_auth ''https://guard'' (CookieCredential ''c'') (Some ''r2'') (sample_world [] no_file)) = Inr a
     \<and> parse_auth (auth_payload a) 63902908800000000 = AuthLoaded a"
proof -
  let ?run = "make_stored_auth ''https://guard'' (CookieCredential ''c'') (Some ''r2'') (sample_world [] no_file)"
  obtain a where a: "fst ?run = Inr a" by (simp add: make_stored_auth_def bindM_def retM_def now_def sample_world_def)
  then have run: "?run = (Inr a, snd ?run)" by (simp add: prod_eq_iff)
  have "parse_auth (auth_payload a) 63902908800000000 = AuthLoaded a"
    by (rule credential_roundtrip [OF run, where t = 63902908800000000])
       (simp_all add: sample_world_def IMPORTED_AT_FUTURE_TOLERANCE_def max_ordinal_def micros_per_day_def)
  with a show ?thesis by blast
qed

text \<open>The outbox reads back what was written exactly when its records are well formed: every key
  names its own outcome and no key occurs twice.\<close>

lemma outbox_roundtrip: "parse_outbox (outbox_payload rs) = Inr (OutboxLoaded rs) \<longleftrightarrow> outbox_wf rs"
  using parse_outbox_written parse_outbox_admits by blast

subsection \<open>Cookies\<close>

text \<open>Merging the cookies of a response into the header's gives each auth cookie the last value the
  response sets for it, quoted so that it reads back as that value, and keeps the others' values.\<close>

lemma merge_takes_last_value:
  assumes "merge_updates parse t updates jar = Inr jar'" and "name \<in> set AUTH_COOKIE_NAMES"
  shows "map_option morsel_value (map_of jar' name) = last_value name updates (map_option morsel_value (map_of jar name))
    \<and> (\<forall>(k, m) \<in> set updates. is_persistable_auth_cookie_update parse t k m)
    \<and> (\<forall>v. py_unquote (py_quote v) = v)"
  using merge_updates_result [OF assms(1)] assms(2) unquote_quote by blast

definition sample_updates :: jar where
  "sample_updates = (case load_cookies ''access_token=x; access_token=y'' [] of Inr j \<Rightarrow> j | Inl _ \<Rightarrow> [])"

lemma merge_takes_last_value_witness:
  "\<exists>jar'. load_cookies ''access_token=x; access_token=y'' [] = Inr sample_updates
     \<and> merge_updates (\<lambda>_. None) 0 sample_updates [] = Inr jar'
     \<and> map_option morsel_value (map_of jar' ''access_token'') = Some ''y''"
proof -
  have load: "load_cookies ''access_token=x; access_token=y'' [] = Inr sample_updates"
    and last: "last_value ''access_token'' sample_updates None = Some ''y''"
    and ok: "case merge_updates (\<lambda>_. None) 0 sample_updates [] of Inl _ \<Rightarrow> False | Inr _ \<Rightarrow> True"
    by code_simp+
  from ok obtain jar' where jar': "merge_updates (\<lambda>_. None) 0 sample_updates [] = Inr jar'"
    by (auto split: sum.splits)
  have "''access_token'' \<in> set AUTH_COOKIE_NAMES" by (simp add: AUTH_COOKIE_NAMES_def)
  from merge_takes_last_value [OF jar' this] last load jar' show ?thesis by auto
qed
text \<open>A header merged from a refresh response always carries an auth cookie, and no set-cookie header
  of the response deleted or emptied one.\<close>

lemma merged_header_persistable:
  assumes "merge_set_cookie_headers parse t header set_cookies = Inr (merged, n)"
  shows "0 < n \<and> (\<forall>h \<in> set set_cookies. \<exists>updates. load_cookies h [] = Inr updates
    \<and> (\<forall>(k, m) \<in> set updates. is_persistable_auth_cookie_update parse t k m))"
  using assms merge_headers_persistable auth_cookie_header_count
  by (fastforce simp: merge_set_cookie_headers_def result_simps)

lemma merged_header_persistable_witness:
  "\<exists>merged n. merge_set_cookie_headers (\<lambda>_. None) 0 ''access_token=a; refresh_token=b''
      [''access_token=x; Path=/'', ''refresh_token=y''] = Inr (merged, n) \<and> 0 < n"
proof -
  have "merge_set_cookie_headers (\<lambda>_. None) 0 ''access_token=a; refresh_token=b''
      [''access_token=x; Path=/'', ''refresh_token=y''] = Inr (''access_token=x; refresh_token=y'', 2)" by code_simp
  from merged_header_persistable [OF this] this show ?thesis by blast
qed

end
