(* ===== verification/Audit_Data.thy ===== *)
theory Audit_Data
  imports Json Py_Datetime
begin

section \<open>The values of the audit domain (audit/ports.py, audit/models.py)\<close>

text \<open>
  The dataclasses that cross the ports of the audit domain.  Field names carry a prefix of
  their class.  A timestamp that is a \<open>datetime\<close> in the sources is its instant in
  microseconds; a timestamp that is a string stays one.  A dictionary of heads is a map.
\<close>

subsection \<open>Actions and the catalog\<close>

record audit_catalog_action =
  action_action_key :: string
  action_title :: string
  action_category :: "string option"
  action_status :: "string option"
  action_metric_group :: "string option"
  action_runbook_kind :: "string option"
  action_runbook_id :: "string option"
  action_schema_name :: "string option"
  action_schema_version :: "string option"
  action_template :: "string option"

record catalog_improvement =
  improvement_action_key :: string
  improvement_variant_key :: string
  improvement_title :: "string option"
  improvement_description :: "string option"
  improvement_runbook_id :: "string option"
  improvement_status :: "string option"
  improvement_sort_order :: "int option"

datatype change_kind = Added | Removed | Changed

record audit_catalog_change =
  change_kind :: change_kind
  change_action_key :: string
  changed_fields :: "string list"

record audit_catalog_result =
  catalog_actions :: "audit_catalog_action list"
  catalog_improvements :: "catalog_improvement list"
  catalog_changes :: "audit_catalog_change list"

record audit_definition =
  audit_action_key :: string
  audit_title :: string
  audit_metric_group :: "string option"
  audit_runbook_kind :: string
  audit_runbook_id :: "string option"
  audit_schema_name :: "string option"
  audit_schema_version :: "string option"
  audit_template :: "string option"

record audit_catalog =
  published_audits :: "audit_definition list"
  recon :: audit_definition

text \<open>The selector is the action key after \<open>audit.\<close>, which it must have.\<close>

definition audit_selector :: "audit_definition \<Rightarrow> string result" where
  "audit_selector a = (let key = audit_action_key a in
     if \<not> starts_with key ''audit.'' \<or> length key = length ''audit.''
     then Inl (ValueError (''audit action key must start with audit.: '' @ key))
     else Inr (remove_prefix key ''audit.''))"

subsection \<open>Repositories and tasks\<close>

type_synonym audit_flow_config = members

record audit_task_body =
  body_title :: string
  body_description :: string
  body_project_id :: string
  body_execution_flow :: string
  body_flow_config :: audit_flow_config
  body_runbook_id :: string
  body_scope_owner :: string
  body_provider :: string
  body_locator :: string
  body_web_url :: "string option"

record audit_repository =
  repository_id :: string
  repository_provider :: string
  repository_locator :: string
  repository_connected :: bool
  repository_web_url :: "string option"

record audit_website =
  website_url :: string
  website_repo_ids :: "string list"

record audit_project =
  audit_project_id :: string
  audit_repositories :: "audit_repository list"
  linked_websites :: "audit_website list"

record audit_run_request =
  request_repo_id :: string
  request_project_id :: string
  request_action_key :: string
  request_task_body :: audit_task_body

record audit_runbook =
  runbook_id :: string
  runbook_title :: "string option"
  runbook_description :: "string option"
  suggested_flow :: "string option"
  suggested_flow_config :: audit_flow_config

subsection \<open>Runs, links and details\<close>

record audit_run =
  run_task_id :: "string option"
  run_action_key :: "string option"
  run_status :: "string option"
  run_created_at :: "string option"
  run_started_at :: "string option"
  run_completed_at :: "string option"
  run_projection_source :: "string option"
  run_status_source :: "string option"
  run_expires_at :: "string option"
  run_current_head :: "string option"
  run_audited_head :: "string option"

record audit_run_start =
  start_repo_id :: string
  start_project_id :: string
  start_action_key :: string
  start_task_id :: "string option"
  start_task_status :: "string option"
  start_current_head :: "string option"
  start_audited_head :: "string option"

record audit_rerun_state =
  rerun_current_head :: "string option"
  rerun_audited_head :: "string option"
  rerun_allowed :: "bool option"
  rerun_last_task_id :: "string option"
  rerun_audited_heads :: "string \<Rightarrow> string option"

record audit_task_link =
  link_task_id :: "string option"
  link_action_key :: "string option"
  link_status :: "string option"
  link_schema_name :: "string option"
  link_created_at :: "string option"
  link_started_at :: "string option"
  link_completed_at :: "string option"

record audit_task_detail =
  detail_task_id :: string
  detail_status :: "string option"
  detail_created_at :: "string option"
  detail_started_at :: "string option"
  detail_completed_at :: "string option"

record audit_run_result =
  result_task_id :: "string option"
  result_status :: "string option"

datatype audit_run_state = Started | AlreadyQueued | AlreadyRunning | UpToDate | Failed

record audit_ledger_entry =
  entry_repo_id :: string
  entry_project_id :: string
  entry_audit_key :: string
  entry_task_id :: "string option"
  entry_task_status :: "string option"
  entry_current_head :: "string option"
  entry_audited_head :: "string option"
  entry_observed_at :: int
  entry_started_at :: "string option"
  entry_expires_at :: int

subsection \<open>Reports\<close>

record audit_artifact =
  artifact_audit_key :: string
  artifact_body :: string
  artifact_score :: "rat option"
  artifact_generated_at :: "string option"
  artifact_task_id :: "string option"
  artifact_completed_at :: "string option"
  artifact_collected_at :: "string option"

record audit_report_ref =
  ref_task_id :: "string option"
  ref_completed_at :: "string option"
  ref_collected_at :: "string option"
  ref_has_report :: bool

subsection \<open>Status\<close>

datatype freshness_state = Fresh | Stale | UnknownFreshness

datatype lifecycle_state = NoTask | TaskQueued | TaskRunning | TaskFailed | TaskCompleted

datatype current_head_state =
  HeadReady | HeadQueued | HeadRunning | HeadUnverified | HeadMissing | HeadBlocked | HeadUnknown

datatype current_head_action =
  NoAction | WaitForRun | StartRun | InspectRun | ResolveUnknownHead

record audit_newer_run =
  newer_task_id :: string
  newer_status :: "string option"
  newer_created_at :: "string option"
  newer_started_at :: "string option"
  newer_state :: lifecycle_state

record audit_freshness =
  freshness_current_head :: "string option"
  freshness_audited_head :: "string option"
  freshness_state :: freshness_state

text \<open>\<open>stale\<close>: no answer when the freshness is unknown.\<close>

fun freshness_stale :: "audit_freshness \<Rightarrow> bool option" where
  "freshness_stale f = (case freshness_state f of
     Fresh \<Rightarrow> Some False | Stale \<Rightarrow> Some True | UnknownFreshness \<Rightarrow> None)"

record audit_current_head_status =
  head_state :: current_head_state
  head_action :: current_head_action
  head_task_id :: "string option"
  head_task_status :: "string option"
  head_task_current_head :: "string option"
  head_stale_task_id :: "string option"
  head_stale_current_head :: "string option"

record audit_status_item =
  item_audit_key :: string
  item_title :: string
  item_freshness :: audit_freshness
  item_can_read :: bool
  item_lifecycle :: lifecycle_state
  item_task_id :: "string option"
  item_task_status :: "string option"
  item_created_at :: "string option"
  item_started_at :: "string option"
  item_completed_at :: "string option"
  item_current_head :: audit_current_head_status

record audit_status =
  status_repo_id :: string
  status_current_head :: "string option"
  status_items :: "audit_status_item list"

definition item_active :: "audit_status_item \<Rightarrow> bool" where
  "item_active i = (item_lifecycle i \<in> {TaskQueued, TaskRunning})"

definition status_keys :: "(audit_status_item \<Rightarrow> bool) \<Rightarrow> audit_status \<Rightarrow> string list" where
  "status_keys p s = map item_audit_key (filter p (status_items s))"

definition status_readable :: "audit_status \<Rightarrow> string list" where
  "status_readable = status_keys item_can_read"

definition status_active :: "audit_status \<Rightarrow> string list" where
  "status_active = status_keys item_active"

definition status_stale :: "audit_status \<Rightarrow> string list" where
  "status_stale = status_keys (\<lambda>i. freshness_state (item_freshness i) = Stale)"

definition status_missing :: "audit_status \<Rightarrow> string list" where
  "status_missing = status_keys (\<lambda>i. \<not> item_can_read i)"

definition status_failed :: "audit_status \<Rightarrow> string list" where
  "status_failed = status_keys (\<lambda>i. item_lifecycle i = TaskFailed)"

definition status_complete :: "audit_status \<Rightarrow> bool" where
  "status_complete s = (status_active s = [] \<and> status_missing s = [] \<and> status_failed s = [])"

definition status_fresh :: "audit_status \<Rightarrow> bool" where
  "status_fresh s = (status_stale s = [])"

definition status_partial :: "audit_status \<Rightarrow> bool" where
  "status_partial s = (status_readable s \<noteq> [] \<and> status_missing s \<noteq> [])"

definition status_mixed :: "audit_status \<Rightarrow> bool" where
  "status_mixed s = (length (dedup (map (\<lambda>i. freshness_state (item_freshness i)) (status_items s))) > 1)"

end
