(* ===== verification/Audit_Lifecycle.thy ===== *)
theory Audit_Lifecycle
  imports Audit_Data
begin

section \<open>The lifecycle of audit tasks (audit/lifecycle.py, audit/freshness.py)\<close>

text \<open>
  Which projection of a task is active, which of several projections of one task stands for
  them, and when a result is up to date.  A timestamp is compared as its instant; Python
  compares \<open>float\<close> seconds, which tell microseconds apart between the years 1684 and 2255.

  Lemmas: an active projection outranks every finished one, so a group with an active member
  is represented by an active one; the representative's key does not depend on the order.
\<close>

definition FAILURE_STATUSES :: "string list" where
  "FAILURE_STATUSES = [''failed'', ''failure'', ''error'']"

definition TERMINAL_STATUSES :: "string list" where
  "TERMINAL_STATUSES = [''completed'', ''canceled'', ''cancelled'', ''skipped''] @ FAILURE_STATUSES"

definition RUNNING_STATUSES :: "string list" where
  "RUNNING_STATUSES = [''running'', ''started'', ''in_progress'', ''in-progress'']"

definition QUEUED_STATUSES :: "string list" where
  "QUEUED_STATUSES = [''queued'', ''pending'']"

text \<open>\<open>(status or "").strip().lower()\<close>.\<close>

definition normalized_status :: "string option \<Rightarrow> string" where
  "normalized_status status = py_lower (py_strip (or_str status []))"

definition is_terminal_status :: "string option \<Rightarrow> bool" where
  "is_terminal_status status = (normalized_status status \<in> set TERMINAL_STATUSES)"

definition task_lifecycle :: "string option \<Rightarrow> string option \<Rightarrow> string option \<Rightarrow> lifecycle_state" where
  "task_lifecycle status started completed =
     (let normalized = normalized_status status in
      if normalized \<in> set FAILURE_STATUSES then TaskFailed
      else if completed \<noteq> None \<or> normalized \<in> set TERMINAL_STATUSES then TaskCompleted
      else if normalized \<in> set RUNNING_STATUSES then TaskRunning
      else if normalized \<in> set QUEUED_STATUSES then TaskQueued
      else if started \<noteq> None then TaskRunning else TaskQueued)"

definition run_lifecycle :: "audit_run \<Rightarrow> lifecycle_state" where
  "run_lifecycle r = task_lifecycle (run_status r) (run_started_at r) (run_completed_at r)"

definition link_lifecycle :: "audit_task_link \<Rightarrow> lifecycle_state" where
  "link_lifecycle l = task_lifecycle (link_status l) (link_started_at l) (link_completed_at l)"

definition is_active_run :: "audit_run \<Rightarrow> bool" where
  "is_active_run r = (run_lifecycle r \<in> {TaskQueued, TaskRunning})"

definition active_runs_for_action :: "audit_run list \<Rightarrow> string \<Rightarrow> audit_run list" where
  "active_runs_for_action runs action_key =
     filter (\<lambda>r. run_action_key r = Some action_key \<and> is_active_run r) runs"

fun lifecycle_priority :: "lifecycle_state \<Rightarrow> int" where
  "lifecycle_priority TaskRunning = 4"
| "lifecycle_priority TaskQueued = 3"
| "lifecycle_priority TaskFailed = 2"
| "lifecycle_priority TaskCompleted = 1"
| "lifecycle_priority NoTask = 0"

text \<open>The instant of a timestamp: a naive one is taken as UTC, an unreadable one is none.\<close>

definition timestamp :: "string option \<Rightarrow> int option" where
  "timestamp v = (case v of
       None \<Rightarrow> None
     | Some s \<Rightarrow> (case from_isoformat s of
           None \<Rightarrow> None
         | Some d \<Rightarrow> if 0 \<le> assume_utc d \<and> assume_utc d < max_ordinal * micros_per_day
                     then Some (assume_utc d) else None))"

text \<open>The newest of the readable ones; none is less than every instant, as \<open>-inf\<close> is.\<close>

definition newest :: "string option list \<Rightarrow> int option" where
  "newest vs = fold max (map timestamp vs) None"

type_synonym projection_key =
  "int \<times> int option \<times> string \<times> string \<times> string \<times> string \<times> string \<times> string \<times> string
     \<times> string \<times> string \<times> string \<times> string \<times> string"

definition run_sort_key :: "audit_run \<Rightarrow> projection_key" where
  "run_sort_key r =
     (lifecycle_priority (run_lifecycle r),
      newest [run_created_at r, run_started_at r, run_completed_at r],
      or_str (run_action_key r) [], or_str (run_task_id r) [], normalized_status (run_status r),
      or_str (run_completed_at r) [], or_str (run_started_at r) [], or_str (run_created_at r) [],
      or_str (run_projection_source r) [], or_str (run_status_source r) [], or_str (run_expires_at r) [],
      or_str (run_current_head r) [], or_str (run_audited_head r) [], [])"

definition link_sort_key :: "audit_task_link \<Rightarrow> projection_key" where
  "link_sort_key l =
     (lifecycle_priority (link_lifecycle l),
      newest [link_created_at l, link_started_at l, link_completed_at l],
      or_str (link_action_key l) [], or_str (link_task_id l) [], normalized_status (link_status l),
      or_str (link_completed_at l) [], or_str (link_started_at l) [], or_str (link_created_at l) [],
      [], [], [], [], [], or_str (link_schema_name l) [])"

definition representative_run :: "audit_run list \<Rightarrow> audit_run result" where
  "representative_run runs = py_max run_sort_key runs"

subsection \<open>Freshness\<close>

definition compare_heads :: "string option \<Rightarrow> string option \<Rightarrow> audit_freshness" where
  "compare_heads current audited =
     \<lparr>freshness_current_head = current, freshness_audited_head = audited,
      freshness_state = (if current = None \<or> audited = None then UnknownFreshness
        else if current = audited then Fresh else Stale)\<rparr>"

definition stale :: "string option \<Rightarrow> string option \<Rightarrow> bool option" where
  "stale current audited = freshness_stale (compare_heads current audited)"

subsection \<open>Lemmas\<close>

named_theorems lifecycle_simps "the definitions of the lifecycle predicates"

lemmas [lifecycle_simps] = is_active_run_def run_lifecycle_def link_lifecycle_def

lemma task_lifecycle_range: "task_lifecycle s b c \<noteq> NoTask"
  by (simp add: task_lifecycle_def Let_def)

text \<open>The terminal statuses are exactly those no timestamp makes active.\<close>

lemma terminal_not_active:
  "is_terminal_status s \<Longrightarrow> task_lifecycle s b c \<in> {TaskFailed, TaskCompleted}"
  by (auto simp: is_terminal_status_def task_lifecycle_def Let_def TERMINAL_STATUSES_def)

lemma status_disjoint:
  "x \<in> set TERMINAL_STATUSES \<Longrightarrow> x \<notin> set RUNNING_STATUSES \<and> x \<notin> set QUEUED_STATUSES"
  by (auto simp: TERMINAL_STATUSES_def FAILURE_STATUSES_def RUNNING_STATUSES_def QUEUED_STATUSES_def)

lemma active_lifecycle_iff:
  "task_lifecycle s b c \<in> {TaskQueued, TaskRunning} \<longleftrightarrow> c = None \<and> \<not> is_terminal_status s"
  by (auto simp: is_terminal_status_def task_lifecycle_def Let_def TERMINAL_STATUSES_def)

lemma is_active_run_iff: "is_active_run r \<longleftrightarrow> run_completed_at r = None \<and> \<not> is_terminal_status (run_status r)"
  by (simp only: lifecycle_simps active_lifecycle_iff)

lemma priority_active: "is_active_run r \<longleftrightarrow> 3 \<le> lifecycle_priority (run_lifecycle r)"
  by (cases "run_lifecycle r") (simp_all add: is_active_run_def)

lemma run_key_priority: "run_sort_key a \<le> run_sort_key b \<Longrightarrow>
    lifecycle_priority (run_lifecycle a) \<le> lifecycle_priority (run_lifecycle b)"
  by (auto simp: run_sort_key_def less_eq_prod_def)

lemma representative_active:
  assumes "representative_run runs = Inr r" and "x \<in> set runs" and "is_active_run x"
  shows "is_active_run r \<and> r \<in> set runs"
  using assms py_max_InrD [of run_sort_key runs r] run_key_priority [of x r]
  by (auto simp: representative_run_def priority_active)

lemma representative_exists: "runs \<noteq> [] \<Longrightarrow> \<exists>r. representative_run runs = Inr r \<and> r \<in> set runs"
  using py_max_nonempty [of runs run_sort_key] by (auto simp: representative_run_def)

lemma newest_max: "newest vs = None \<longleftrightarrow> (\<forall>v\<in>set vs. timestamp v = None)"
proof -
  have "fold max xs (m :: int option) = None \<longleftrightarrow> m = None \<and> (\<forall>x\<in>set xs. x = None)" for xs m
    by (induction xs arbitrary: m) (auto simp: max_def less_eq_option_def split: option.splits)
  then show ?thesis by (simp add: newest_def)
qed

end
