(* ===== verification/Audit_Ledger.thy ===== *)
theory Audit_Ledger
  imports Audit_Lifecycle Atomic_Json
begin

section \<open>The ledger of started runs (audit/ledger.py)\<close>

text \<open>
  The runs this client has started, kept until the service projects them: one JSON file,
  read and replaced under a lock.  A state is the file with the fault plan of its next
  operations.  The lookups of \<open>reconcile\<close> are network calls made without the lock: what the
  other processes do to the file meanwhile is an argument (\<open>interfere\<close>), one function of the
  state per gap between two locked sections.
\<close>

type_synonym 'a ledger_io = "(slot_state, 'a) io"

subsection \<open>Entries on disk\<close>

definition encode_entry :: "audit_ledger_entry \<Rightarrow> json" where
  "encode_entry e = JObj
     [(''repo_id'', JStr (entry_repo_id e)), (''project_id'', JStr (entry_project_id e)),
      (''audit_key'', JStr (entry_audit_key e)), (''task_id'', opt_json (entry_task_id e)),
      (''task_status'', opt_json (entry_task_status e)),
      (''current_head_sha'', opt_json (entry_current_head e)),
      (''audited_head_sha'', opt_json (entry_audited_head e)),
      (''observed_at'', JStr (isoformat (utc (entry_observed_at e)))),
      (''started_at'', opt_json (entry_started_at e)),
      (''expires_at'', JStr (isoformat (utc (entry_expires_at e))))]"

text \<open>\<open>_utc\<close> on a parsed timestamp: an instant outside the calendar raises \<open>OverflowError\<close>.\<close>

definition utc_instant :: "datetime \<Rightarrow> int result" where
  "utc_instant d = (if 0 \<le> assume_utc d \<and> assume_utc d < max_ordinal * micros_per_day then Inr (assume_utc d)
     else Inl (OverflowError ''date value out of range''))"

fun required_text :: "json \<Rightarrow> string option" where
  "required_text (JStr s) = (if s = [] then None else Some s)"
| "required_text _ = None"

definition decode_entry :: "json \<Rightarrow> audit_ledger_entry option result" where
  "decode_entry v = (case as_obj v of
       None \<Rightarrow> Inr None
     | Some m \<Rightarrow>
         (case (required_text (jget m ''repo_id''), required_text (jget m ''project_id''),
                required_text (jget m ''audit_key''), required_text (jget m ''observed_at''),
                required_text (jget m ''expires_at'')) of
            (Some repo, Some project, Some key, Some observed, Some expires) \<Rightarrow>
              (case (from_isoformat observed, from_isoformat expires) of
                 (Some observed', Some expires') \<Rightarrow>
                   bindR (utc_instant observed') (\<lambda>o'. bindR (utc_instant expires') (\<lambda>x.
                     Inr (Some \<lparr>entry_repo_id = repo, entry_project_id = project, entry_audit_key = key,
                       entry_task_id = as_str (jget m ''task_id''),
                       entry_task_status = as_str (jget m ''task_status''),
                       entry_current_head = as_str (jget m ''current_head_sha''),
                       entry_audited_head = as_str (jget m ''audited_head_sha''),
                       entry_observed_at = o', entry_started_at = as_str (jget m ''started_at''),
                       entry_expires_at = x\<rparr>)))
               | _ \<Rightarrow> Inr None)
          | _ \<Rightarrow> Inr None))"

definition decode_entries :: "json list \<Rightarrow> audit_ledger_entry list result" where
  "decode_entries items = bindR (mapR decode_entry items) (\<lambda>es. Inr (List.map_filter id es))"

text \<open>\<open>_read\<close>: a file that cannot be read or parsed is an empty ledger, but bytes that are not
  UTF-8 raise.\<close>

definition read_ledger :: "audit_ledger_entry list ledger_io" where
  "read_ledger s = ((case content (fst s) of
       Missing \<Rightarrow> Inr []
     | Unreadable e \<Rightarrow> Inr []
     | NotUtf8 \<Rightarrow> Inl (UnicodeDecodeError ''invalid start byte'')
     | NotJson m \<Rightarrow> Inr []
     | Document d \<Rightarrow>
         (case Option.bind (as_obj d) (\<lambda>m. as_list (jget m ''entries'')) of
            None \<Rightarrow> Inr []
          | Some items \<Rightarrow> decode_entries items)), s)"

definition ledger_payload :: "audit_ledger_entry list \<Rightarrow> json" where
  "ledger_payload es = JObj [(''entries'', JList (map encode_entry es))]"

definition write_ledger :: "audit_ledger_entry list \<Rightarrow> unit ledger_io" where
  "write_ledger es = write_atomic_json (ledger_payload es)"

text \<open>The lock: creating the directory, opening the lock file, locking and unlocking may fail.\<close>

definition transaction :: "'a ledger_io \<Rightarrow> 'a ledger_io" where
  "transaction body =
     thenM (fs_op ''mkdir'' id) (thenM (fs_op ''lock_open'' id) (thenM (fs_op ''flock'' id)
       (finallyM body (fs_op ''unlock'' id))))"

subsection \<open>Recording a started run\<close>

definition new_entry :: "audit_run_start \<Rightarrow> int \<Rightarrow> string option \<Rightarrow> int \<Rightarrow> audit_ledger_entry" where
  "new_entry started observed started_at ttl_seconds =
     \<lparr>entry_repo_id = start_repo_id started, entry_project_id = start_project_id started,
      entry_audit_key = start_action_key started, entry_task_id = start_task_id started,
      entry_task_status = start_task_status started, entry_current_head = start_current_head started,
      entry_audited_head = start_audited_head started, entry_observed_at = observed,
      entry_started_at = started_at, entry_expires_at = observed + ttl_seconds * micros_per_second\<rparr>"

definition same_identity :: "audit_ledger_entry \<Rightarrow> audit_ledger_entry \<Rightarrow> bool" where
  "same_identity a b = (entry_repo_id a = entry_repo_id b \<and> entry_audit_key a = entry_audit_key b
     \<and> (if entry_task_id a = None \<or> entry_task_id b = None
        then entry_task_id a = None \<and> entry_task_id b = None
        else entry_task_id a = entry_task_id b))"

definition record_started :: "audit_ledger_entry \<Rightarrow> unit ledger_io" where
  "record_started entry = transaction (bindM read_ledger (\<lambda>es.
     write_ledger (filter (\<lambda>e. \<not> same_identity e entry) es @ [entry])))"

subsection \<open>Reconciling with the service\<close>

datatype task_lookup_result = TaskFound audit_task_detail | LookupFailed exn

type_synonym lookup_cache = "(string \<times> task_lookup_result) list"

record entry_reconciliation =
  outcome_retained :: bool
  suppress_task_id :: "string option"
  outcome_projected :: "audit_run option"

definition expired :: "audit_ledger_entry \<Rightarrow> int \<Rightarrow> bool" where
  "expired e now = (entry_expires_at e \<le> now)"

definition from_detail :: "(audit_task_detail \<Rightarrow> 'a option) \<Rightarrow> audit_task_detail option \<Rightarrow> 'a option" where
  "from_detail f detail = Option.bind detail f"

definition project :: "audit_ledger_entry \<Rightarrow> audit_task_detail option \<Rightarrow> audit_run" where
  "project e detail =
     \<lparr>run_task_id = or_opt (map_option detail_task_id detail) (entry_task_id e),
      run_action_key = Some (entry_audit_key e),
      run_status = or_opt (from_detail detail_status detail) (entry_task_status e),
      run_created_at = or_opt (from_detail detail_created_at detail)
         (Some (isoformat (utc (entry_observed_at e)))),
      run_started_at = or_opt (from_detail detail_started_at detail) (entry_started_at e),
      run_completed_at = from_detail detail_completed_at detail,
      run_projection_source = Some ''local_started_task_ledger'',
      run_status_source = Some (if detail = None then ''ledger'' else ''task_by_id''),
      run_expires_at = Some (isoformat (utc (entry_expires_at e))),
      run_current_head = entry_current_head e, run_audited_head = entry_audited_head e\<rparr>"

definition reconcile_entry :: "int \<Rightarrow> audit_ledger_entry \<Rightarrow> task_lookup_result option \<Rightarrow> int \<Rightarrow> bool
    \<Rightarrow> entry_reconciliation" where
  "reconcile_entry grace_seconds e result now has_upstream =
     (let keep = (\<lambda>suppress run. \<lparr>outcome_retained = True, suppress_task_id = suppress, outcome_projected = run\<rparr>);
          drop_it = (\<lambda>suppress. \<lparr>outcome_retained = False, suppress_task_id = suppress, outcome_projected = None\<rparr>) in
      if entry_task_id e = None then keep None (if has_upstream then None else Some (project e None))
      else (case result of
          None \<Rightarrow> keep (entry_task_id e) (Some (project e None))
        | Some (LookupFailed err) \<Rightarrow>
            if is_audit_not_found err \<and> now - entry_observed_at e > grace_seconds * micros_per_second
            then drop_it None else keep (entry_task_id e) (Some (project e None))
        | Some (TaskFound d) \<Rightarrow>
            (let run = project e (Some d) in
             if \<not> is_active_run run then drop_it (entry_task_id e) else keep (entry_task_id e) (Some run))))"

text \<open>The lookups of the task ids of one round: three exceptions are answers, others propagate.\<close>

fun is_lookup_error :: "exn \<Rightarrow> bool" where
  "is_lookup_error (AuditUpstreamError _) = True"
| "is_lookup_error (AuditMalformedError _) = True"
| "is_lookup_error e = is_audit_not_found e"

fun resolve_lookups :: "string list \<Rightarrow> (string \<Rightarrow> audit_task_detail result) \<Rightarrow> lookup_cache \<Rightarrow> lookup_cache result" where
  "resolve_lookups [] lookup cache = Inr cache"
| "resolve_lookups (t # ts) lookup cache = (case lookup t of
       Inr d \<Rightarrow> resolve_lookups ts lookup ((t, TaskFound d) # cache)
     | Inl e \<Rightarrow> if is_lookup_error e then resolve_lookups ts lookup ((t, LookupFailed e) # cache) else Inl e)"

definition needs_lookup :: "string \<Rightarrow> int \<Rightarrow> lookup_cache \<Rightarrow> audit_ledger_entry \<Rightarrow> string option" where
  "needs_lookup repo now cache e = (case entry_task_id e of
       None \<Rightarrow> None
     | Some t \<Rightarrow> if t \<in> fst ` set cache then None
                 else if entry_repo_id e \<noteq> repo \<or> expired e now \<or> is_terminal_status (entry_task_status e) then None
                 else Some t)"

definition pending_lookups :: "string \<Rightarrow> int \<Rightarrow> lookup_cache \<Rightarrow> string list ledger_io" where
  "pending_lookups repo now cache = bindM (transaction read_ledger) (\<lambda>es.
     retM (dedup (List.map_filter (needs_lookup repo now cache) es)))"

text \<open>The three rounds; \<open>interfere n\<close> is what happens to the file before the next locked section.\<close>

definition MAX_LOOKUP_ROUNDS :: nat where
  "MAX_LOOKUP_ROUNDS = 3"

fun lookup_rounds :: "nat \<Rightarrow> string \<Rightarrow> int \<Rightarrow> (string \<Rightarrow> audit_task_detail result)
    \<Rightarrow> (nat \<Rightarrow> slot_state \<Rightarrow> slot_state) \<Rightarrow> lookup_cache \<Rightarrow> lookup_cache ledger_io" where
  "lookup_rounds 0 repo now lookup interfere cache = retM cache"
| "lookup_rounds (Suc n) repo now lookup interfere cache =
     bindM (pending_lookups repo now cache) (\<lambda>pending.
       if pending = [] then retM cache
       else bindM (liftM (resolve_lookups pending lookup cache)) (\<lambda>cache'.
         thenM (putM (interfere n)) (lookup_rounds n repo now lookup interfere cache')))"

text \<open>What one pass over the entries decides about each of them.\<close>

datatype entry_decision =
    Foreign \<comment> \<open>of another repository: kept\<close>
  | Outdated \<comment> \<open>expired or finished: dropped\<close>
  | Decided entry_reconciliation

definition entry_outcome :: "int \<Rightarrow> string \<Rightarrow> audit_run list \<Rightarrow> lookup_cache \<Rightarrow> int \<Rightarrow> audit_ledger_entry
    \<Rightarrow> entry_decision" where
  "entry_outcome grace_seconds repo upstream cache now e =
     (if entry_repo_id e \<noteq> repo then Foreign
      else if expired e now \<or> is_terminal_status (entry_task_status e) then Outdated
      else Decided (reconcile_entry grace_seconds e
        (case entry_task_id e of None \<Rightarrow> None | Some t \<Rightarrow> map_of cache t) now
        (\<exists>r\<in>set upstream. run_action_key r = Some (entry_audit_key e) \<and> is_active_run r)))"

fun outcome_keeps :: "entry_decision \<Rightarrow> bool" where
  "outcome_keeps Foreign = True"
| "outcome_keeps Outdated = False"
| "outcome_keeps (Decided r) = outcome_retained r"

fun outcome_run :: "entry_decision \<Rightarrow> audit_run option" where
  "outcome_run (Decided r) = (if outcome_retained r then outcome_projected r else None)"
| "outcome_run _ = None"

fun outcome_suppresses :: "entry_decision \<Rightarrow> string option" where
  "outcome_suppresses (Decided r) = suppress_task_id r"
| "outcome_suppresses _ = None"

record reconciliation_commit =
  commit_projected :: "audit_run list"
  commit_suppressed :: "string list"

definition commit_reconciliation :: "int \<Rightarrow> string \<Rightarrow> audit_run list \<Rightarrow> lookup_cache \<Rightarrow> int
    \<Rightarrow> reconciliation_commit ledger_io" where
  "commit_reconciliation grace_seconds repo upstream cache now =
     transaction (bindM read_ledger (\<lambda>es.
       let decide = entry_outcome grace_seconds repo upstream cache now;
           retained = filter (\<lambda>e. outcome_keeps (decide e)) es in
       thenM (if retained = es then retM () else write_ledger retained)
         (retM \<lparr>commit_projected = List.map_filter (\<lambda>e. outcome_run (decide e)) es,
                commit_suppressed = List.map_filter (\<lambda>e. outcome_suppresses (decide e)) es\<rparr>)))"

definition run_identity :: "audit_run \<Rightarrow> string option \<times> string option" where
  "run_identity r = (if run_task_id r \<noteq> None then (run_task_id r, None) else (None, run_action_key r))"

definition dedupe_runs :: "audit_run list \<Rightarrow> audit_run list result" where
  "dedupe_runs runs = mapR (\<lambda>(_, g). representative_run g) (group_by run_identity runs)"

definition reconcile :: "int \<Rightarrow> string \<Rightarrow> audit_run list \<Rightarrow> (string \<Rightarrow> audit_task_detail result)
    \<Rightarrow> (nat \<Rightarrow> slot_state \<Rightarrow> slot_state) \<Rightarrow> int \<Rightarrow> audit_run list ledger_io" where
  "reconcile grace_seconds repo upstream lookup interfere now =
     bindM (lookup_rounds MAX_LOOKUP_ROUNDS repo now lookup interfere []) (\<lambda>cache.
     thenM (putM (interfere MAX_LOOKUP_ROUNDS))
    (bindM (commit_reconciliation grace_seconds repo upstream cache now) (\<lambda>c.
       liftM (dedupe_runs (commit_projected c
         @ filter (\<lambda>r. case run_task_id r of None \<Rightarrow> True | Some t \<Rightarrow> t \<notin> set (commit_suppressed c)) upstream)))))"

subsection \<open>Pruning\<close>

definition fresh_for :: "audit_ledger_entry \<Rightarrow> string option \<Rightarrow> (string \<times> string) list option \<Rightarrow> bool" where
  "fresh_for e current heads =
     (let audited = (case heads of
          Some (h # hs) \<Rightarrow> map_of (h # hs) (entry_audit_key e) | _ \<Rightarrow> entry_audited_head e)
      in current \<noteq> None \<and> audited \<noteq> None \<and> current = audited)"

definition prune :: "int \<Rightarrow> string option \<Rightarrow> (string \<times> string) list option \<Rightarrow> nat ledger_io" where
  "prune now current heads = transaction (bindM read_ledger (\<lambda>es.
     let retained = filter (\<lambda>e. \<not> expired e now \<and> \<not> is_terminal_status (entry_task_status e)
           \<and> \<not> fresh_for e current heads) es;
         removed = length es - length retained in
     thenM (if removed > 0 then write_ledger retained else retM ()) (retM removed)))"

subsection \<open>The file\<close>

text \<open>The entries a ledger file holds: those a reader gets.\<close>

definition held :: "slot_state \<Rightarrow> audit_ledger_entry list" where
  "held s = (case fst (read_ledger s) of Inr es \<Rightarrow> es | Inl _ \<Rightarrow> [])"

definition entry_wf :: "audit_ledger_entry \<Rightarrow> bool" where
  "entry_wf e \<longleftrightarrow> entry_repo_id e \<noteq> [] \<and> entry_project_id e \<noteq> [] \<and> entry_audit_key e \<noteq> []
     \<and> 0 \<le> entry_observed_at e \<and> entry_observed_at e < max_ordinal * micros_per_day
     \<and> 0 \<le> entry_expires_at e \<and> entry_expires_at e < max_ordinal * micros_per_day"

lemma isoformat_nonempty: "0 \<le> i \<Longrightarrow> i < max_ordinal * micros_per_day \<Longrightarrow> isoformat (utc i) \<noteq> []"
proof
  assume "0 \<le> i" "i < max_ordinal * micros_per_day" and empty: "isoformat (utc i) = []"
  then have "from_isoformat [] = Some (utc i)" using from_isoformat_isoformat [of i] by simp
  moreover have "from_isoformat [] = None" by code_simp
  ultimately show False by simp
qed

lemma required_text_nonempty [simp]: "s \<noteq> [] \<Longrightarrow> required_text (JStr s) = Some s"
  by simp

lemma required_text_Some: "required_text v = Some s \<Longrightarrow> s \<noteq> []"
  by (cases v) (auto split: if_splits)

lemma decode_encode: "entry_wf e \<Longrightarrow> decode_entry (encode_entry e) = Inr (Some e)"
  by (simp add: decode_entry_def encode_entry_def jget_def entry_wf_def isoformat_nonempty
      from_isoformat_isoformat utc_instant_def del: required_text.simps)

lemma utc_instant_range: "utc_instant d = Inr i \<Longrightarrow> 0 \<le> i \<and> i < max_ordinal * micros_per_day"
  by (auto simp: utc_instant_def split: if_splits)

lemma decode_wf: "decode_entry v = Inr (Some e) \<Longrightarrow> entry_wf e"
  unfolding decode_entry_def entry_wf_def
  by (auto simp: result_simps dest: required_text_Some utc_instant_range split: option.splits)

lemma map_filter_id_Some: "List.map_filter id (map Some xs) = xs"
  by (induction xs) (simp_all add: List.map_filter_simps)

lemma decode_entries_wf:
  assumes "decode_entries items = Inr es"
  shows "list_all entry_wf es"
proof -
  obtain ys where ys: "mapR decode_entry items = Inr ys" and es: "es = List.map_filter id ys"
    using assms by (auto simp: decode_entries_def result_simps)
  have "Some e \<in> set ys \<Longrightarrow> entry_wf e" for e
    using ys
  proof (induction items arbitrary: ys)
    case (Cons v items)
    then show ?case by (auto simp: result_simps dest: decode_wf)
  qed simp
  then show ?thesis by (auto simp: es list_all_iff List.map_filter_def)
qed

lemma held_wf: "list_all entry_wf (held s)"
  by (auto simp: held_def read_ledger_def split: file_content.split option.split sum.split
      dest: decode_entries_wf)

lemma decode_entries_encoded: "list_all entry_wf es \<Longrightarrow> decode_entries (map encode_entry es) = Inr es"
proof -
  assume "list_all entry_wf es"
  then have "mapR decode_entry (map encode_entry es) = Inr (map Some es)"
    by (induction es) (simp_all add: decode_encode)
  then show ?thesis by (simp add: decode_entries_def map_filter_id_Some)
qed

lemma held_written: "content (fst s) = Document (ledger_payload es) \<Longrightarrow> list_all entry_wf es \<Longrightarrow> held s = es"
  by (simp add: held_def read_ledger_def ledger_payload_def jget_def decode_entries_encoded)

lemma held_content: "content (fst t) = content (fst s) \<Longrightarrow> held t = held s"
  by (simp add: held_def read_ledger_def)

lemma read_ledger_run: "read_ledger s = (r, t) \<Longrightarrow> t = s \<and> (\<forall>es. r = Inr es \<longrightarrow> es = held s)"
  by (auto simp: held_def read_ledger_def)

lemma read_written:
  "content (fst s) = Document (ledger_payload es) \<Longrightarrow> list_all entry_wf es \<Longrightarrow> read_ledger s = (Inr es, s)"
  by (simp add: read_ledger_def ledger_payload_def jget_def decode_entries_encoded)

text \<open>When nothing fails.\<close>

lemma transaction_calm: "snd s = [] \<Longrightarrow> body s = (r, t) \<Longrightarrow> snd t = [] \<Longrightarrow> transaction body s = (r, t)"
  by (cases s; cases t) (simp add: transaction_def thenM_def bindM_def fs_op_def finallyM_def)

lemma write_ledger_calm: "write_ledger es (f, [])
    = (Inr (), (f\<lparr>content := Document (ledger_payload es), temporary := False, synced := True\<rparr>, []))"
  by (simp add: write_ledger_def write_atomic_json_def fsync_directory_def thenM_def bindM_def handleM_def
      finallyM_def fs_op_def)

lemma fs_op_id_run: "fs_op n id s = (r, t) \<Longrightarrow> fst t = fst s"
  using fs_op_id [of n s] by simp

text \<open>A transaction that returned ran its body on the same file.\<close>

lemma transaction_returned:
  assumes "transaction body s = (Inr x, t)"
  obtains u v where "fst u = fst s" "body u = (Inr x, v)" "fst t = fst v"
proof -
  obtain u where u: "fst u = fst s" and run: "finallyM body (fs_op ''unlock'' id) u = (Inr x, t)"
    using assms by (auto simp: transaction_def elim!: thenM_E dest!: fs_op_id_run)
  obtain r v where body: "body u = (r, v)" by (cases "body u")
  obtain r' v' where unlock: "fs_op ''unlock'' id v = (r', v')" by (cases "fs_op ''unlock'' id v")
  from run body unlock have "r = Inr x" "t = v'" by (auto simp: finallyM_def split: sum.splits)
  with body u fs_op_id_run [OF unlock] show ?thesis by (intro that) auto
qed

lemma write_ledger_held: "write_ledger es u = (Inr (), v) \<Longrightarrow> list_all entry_wf es \<Longrightarrow> held v = es"
  using slot.write_returned [of "ledger_payload es" u v] by (simp add: write_ledger_def held_written)

subsection \<open>Recording\<close>

lemma record_started_held:
  assumes "entry_wf e" and "record_started e s = (Inr (), t)"
  shows "held t = filter (\<lambda>x. \<not> same_identity x e) (held s) @ [e]"
proof -
  obtain u v where u: "fst u = fst s" and t: "fst t = fst v"
    and body: "bindM read_ledger (\<lambda>es. write_ledger (filter (\<lambda>x. \<not> same_identity x e) es @ [e])) u = (Inr (), v)"
    using transaction_returned [OF assms(2) [unfolded record_started_def]] .
  obtain es u' where r: "read_ledger u = (Inr es, u')"
    and w: "write_ledger (filter (\<lambda>x. \<not> same_identity x e) es @ [e]) u' = (Inr (), v)"
    using body by (rule bindM_InrE)
  have es: "es = held s" using read_ledger_run [OF r] u held_content [of u s] by simp
  have "list_all entry_wf (filter (\<lambda>x. \<not> same_identity x e) es @ [e])"
    using held_wf [of s] assms(1) unfolding es by (simp add: list_all_iff)
  from write_ledger_held [OF w this] t es show ?thesis using held_content [of t v] by simp
qed

text \<open>What a client that starts runs relies on: a recorded run is held, and recording another
  one does not drop it.\<close>

locale run_ledger =
  fixes record_run :: "audit_ledger_entry \<Rightarrow> ('s, unit) io"
    and kept :: "'s \<Rightarrow> audit_ledger_entry list"
    and valid :: "audit_ledger_entry \<Rightarrow> bool"
  assumes recorded: "valid e \<Longrightarrow> record_run e s = (Inr (), t) \<Longrightarrow> e \<in> set (kept t)"
    and others_kept: "valid e \<Longrightarrow> record_run e s = (Inr (), t) \<Longrightarrow> x \<in> set (kept s)
      \<Longrightarrow> \<not> same_identity x e \<Longrightarrow> x \<in> set (kept t)"
begin

lemma record_all:
  assumes "forM record_run es s = (Inr (), t)" and "list_all valid es"
  shows "(\<forall>x\<in>set (kept s). (\<forall>e\<in>set es. \<not> same_identity x e) \<longrightarrow> x \<in> set (kept t))
    \<and> (sorted_wrt (\<lambda>a b. \<not> same_identity a b) es \<longrightarrow> set es \<subseteq> set (kept t))"
  using assms
proof (induction es arbitrary: s)
  case Nil
  then show ?case by (simp add: io_simps)
next
  case (Cons e es)
  obtain u where u: "record_run e s = (Inr (), u)" and rest: "forM record_run es u = (Inr (), t)"
    using Cons.prems(1) by (auto elim!: thenM_E)
  from Cons.IH [OF rest] Cons.prems(2) recorded [OF _ u] others_kept [OF _ u] show ?case by auto
qed

end

interpretation ledger: run_ledger record_started held entry_wf
  by unfold_locales (auto simp: record_started_held)

end
