(* ===== verification/Audit_Runs.thy ===== *)
theory Audit_Runs
  imports Audit_Ledger
begin

section \<open>Starting audit runs (audit/tasks.py, audit/runs.py, audit/start.py)\<close>

text \<open>
  The task body of a run, the guards before a run is started, and the recording of the started
  run in the ledger.  The service is a record of functions (\<open>audit_gateway\<close>); its answer to a
  start may depend on the starts before it.  The world is the ledger file, the number of clock
  readings so far and the start requests sent so far.
\<close>

subsection \<open>Task bodies\<close>

record audit_task_context =
  task_project :: audit_project
  task_audit :: audit_definition
  task_runbook :: audit_runbook
  task_runbook_id :: string
  task_schema_name :: string
  task_schema_version :: string
  task_template :: "string option"
  task_repo_id :: "string option"

definition newline :: string where
  "newline = [char_of (10 :: nat)]"

definition DEFAULT_EXECUTION_FLOW :: string where
  "DEFAULT_EXECUTION_FLOW = ''single''"

text \<open>\<open>repr(s)\<close>: quotes and the characters that do not print are escaped.\<close>

definition repr_char :: "char \<Rightarrow> char \<Rightarrow> string" where
  "repr_char quote c = (let n = char_code c; hex = (\<lambda>d. char_of (if d < 10 then 48 + d else 87 + d)) in
     if c = quote \<or> n = 92 then [char_of (92 :: nat), c]
     else if n = 9 then [char_of (92 :: nat), CHR ''t'']
     else if n = 10 then [char_of (92 :: nat), CHR ''n'']
     else if n = 13 then [char_of (92 :: nat), CHR ''r'']
     else if n < 32 \<or> (127 \<le> n \<and> n \<le> 160) \<or> n = 173
          then [char_of (92 :: nat), CHR ''x'', hex (n div 16), hex (n mod 16)]
     else [c])"

definition py_repr :: "string \<Rightarrow> string" where
  "py_repr s = (let single = char_of (39 :: nat); double = char_of (34 :: nat);
       quote = (if single \<in> set s \<and> double \<notin> set s then double else single) in
     [quote] @ concat (map (repr_char quote) s) @ [quote])"

definition default_template :: string where
  "default_template =
     ''{{recurring_prefix}}'' @ newline @ newline @ ''Repository:'' @ newline @ ''- locator: {{repository_locator}}''
     @ newline @ ''- url: {{repository_url}}'' @ newline @ newline @ ''Linked websites:'' @ newline
     @ ''{{linked_websites}}'' @ newline @ newline @ ''Artifact contract for this run:'' @ newline
     @ ''- structured artifact metadata.schema_name={{artifact_schema_name}}'' @ newline
     @ ''- structured artifact metadata.schema_version={{artifact_schema_version}}'' @ newline
     @ ''- {{artifact_contract}}'' @ newline @ newline @ ''Constraints:'' @ newline @ ''{{constraints}}''"

definition description_values :: "audit_task_context \<Rightarrow> string \<Rightarrow> string option \<Rightarrow> string option
    \<Rightarrow> (string \<times> string) list" where
  "description_values context locator repo web_url =
     (let linked = map website_url (filter (\<lambda>w. case repo of None \<Rightarrow> False | Some r \<Rightarrow> r \<in> set (website_repo_ids w))
          (linked_websites (task_project context))) in
      [(''recurring_prefix'', ''Task created from '' @ audit_action_key (task_audit context) @ '' for '' @ locator @ ''.''),
       (''repository_locator'', locator),
       (''repository_url'', or_str web_url []),
       (''linked_websites'', if linked \<noteq> [] then py_join newline (map (\<lambda>u. ''- '' @ u) linked)
          else ''- none linked yet''),
       (''artifact_schema_name'', task_schema_name context),
       (''artifact_schema_version'', task_schema_version context),
       (''artifact_contract'', ''structured artifact metadata is machine-readable and deterministic''),
       (''constraints'', ''- use task title and description only'')])"

definition description :: "audit_task_context \<Rightarrow> string \<Rightarrow> string option \<Rightarrow> string option \<Rightarrow> string" where
  "description context locator repo web_url =
     fold (\<lambda>(name, v) template. py_replace (''{{'' @ name @ ''}}'') v template)
       (description_values context locator repo web_url) (or_str (task_template context) default_template)"

definition task_for_repo :: "audit_task_context \<Rightarrow> string \<Rightarrow> audit_task_body result" where
  "task_for_repo context repo =
     (case find (\<lambda>r. repository_id r = repo) (audit_repositories (task_project context)) of
        None \<Rightarrow> Inl (AuditRepositoryUnusableError (''project does not contain repo id: '' @ repo))
      | Some r \<Rightarrow>
          (let locator = repository_locator r in
           if \<not> repository_connected r
           then Inl (AuditRepositoryUnusableError (''repo is not connected: '' @ locator))
           else if py_strip locator = [] \<or> locator \<in> {''/'', ''//''}
           then Inl (AuditRepositoryUnusableError (''repository has incomplete locator: '' @ py_repr locator))
           else if py_strip (task_schema_name context) = []
           then Inl (AuditActionUnusableError ''audit task is missing artifact schema name'')
           else if py_strip (task_schema_version context) = []
           then Inl (AuditActionUnusableError ''audit task is missing artifact schema version'')
           else if py_strip (task_runbook_id context) = []
           then Inl (AuditActionUnusableError ''audit task is missing runbook id'')
           else Inr \<lparr>body_title = audit_title (task_audit context) @ '' for '' @ locator,
             body_description = description context locator (Some repo) (repository_web_url r),
             body_project_id = audit_project_id (task_project context),
             body_execution_flow = or_str (suggested_flow (task_runbook context)) DEFAULT_EXECUTION_FLOW,
             body_flow_config = suggested_flow_config (task_runbook context),
             body_runbook_id = task_runbook_id context,
             body_scope_owner = audit_project_id (task_project context),
             body_provider = repository_provider r, body_locator = locator,
             body_web_url = repository_web_url r\<rparr>))"

subsection \<open>The service and the world\<close>

text \<open>
  What the client calls; \<open>interference\<close> is what the other processes do to the ledger file before
  the locked section of each number, \<open>clock\<close> the readings of the clock.
\<close>

record audit_gateway =
  gateway_active_runs :: "string \<Rightarrow> audit_run list result"
  gateway_rerun_state :: "string \<Rightarrow> audit_rerun_state result"
  gateway_task_detail :: "string \<Rightarrow> audit_task_detail result"
  gateway_runbook :: "string \<Rightarrow> audit_runbook result"
  gateway_start :: "audit_run_request list \<Rightarrow> audit_run_request \<Rightarrow> audit_run_result result"
  gateway_project :: "string \<Rightarrow> audit_project result"
  interference :: "nat \<Rightarrow> slot_state \<Rightarrow> slot_state"
  clock :: "nat \<Rightarrow> int"
  grace_seconds :: int
  ttl_seconds :: int

record audit_world =
  ledger :: slot_state
  clock_readings :: nat
  requests :: "audit_run_request list"

type_synonym 'a audit_io = "(audit_world, 'a) io"

definition on_ledger :: "'a ledger_io \<Rightarrow> 'a audit_io" where
  "on_ledger m w = (let (r, s) = m (ledger w) in (r, w\<lparr>ledger := s\<rparr>))"

definition read_clock_now :: "audit_gateway \<Rightarrow> int audit_io" where
  "read_clock_now g w = (Inr (clock g (clock_readings w)), w\<lparr>clock_readings := clock_readings w + 1\<rparr>)"

text \<open>\<open>gateway.start_audit_run\<close>: the request is sent whatever the answer.\<close>

definition send_start :: "audit_gateway \<Rightarrow> audit_run_request \<Rightarrow> audit_run_result audit_io" where
  "send_start g request w = (gateway_start g (requests w) request, w\<lparr>requests := requests w @ [request]\<rparr>)"

subsection \<open>The runs that are active now\<close>

definition current_active_runs :: "audit_gateway \<Rightarrow> string \<Rightarrow> audit_run list audit_io" where
  "current_active_runs g repo =
     bindM (liftM (gateway_active_runs g repo)) (\<lambda>upstream.
     bindM (read_clock_now g) (\<lambda>now.
       on_ledger (reconcile (grace_seconds g) repo upstream (gateway_task_detail g) (interference g) now)))"

subsection \<open>Starting\<close>

record start_audits_context =
  context_repo_id :: string
  context_project_id :: string
  context_audits :: "audit_definition list"
  context_catalog :: audit_catalog

record start_one_state =
  start_rerun :: audit_rerun_state
  start_runs :: "audit_run list"
  start_project :: audit_project

record batch_item =
  batch_action_key :: string
  batch_state :: audit_run_state
  batch_current_head :: "string option"
  batch_audited_head :: "string option"
  batch_reason :: "string option"
  batch_task_id :: "string option"
  batch_task_status :: "string option"

definition batch_result_item :: "string \<Rightarrow> audit_run_state \<Rightarrow> string option \<times> string option
    \<Rightarrow> string option \<times> string option \<Rightarrow> string option \<Rightarrow> batch_item" where
  "batch_result_item key state heads task reason =
     \<lparr>batch_action_key = key, batch_state = state, batch_current_head = fst heads, batch_audited_head = snd heads,
      batch_reason = reason, batch_task_id = fst task, batch_task_status = snd task\<rparr>"

definition out_of_date :: "string option \<Rightarrow> string option \<Rightarrow> bool option" where
  "out_of_date current audited = (if current = None \<or> audited = None then None else Some (current \<noteq> audited))"

definition current_head_active_runs :: "audit_run list \<Rightarrow> string option \<Rightarrow> audit_run list" where
  "current_head_active_runs runs current =
     (if current = None then runs else filter (\<lambda>r. run_current_head r \<in> {None, current}) runs)"

definition audit_run_task_body :: "audit_gateway \<Rightarrow> start_audits_context \<Rightarrow> audit_project \<Rightarrow> string
    \<Rightarrow> audit_task_body result" where
  "audit_run_task_body g context target key =
     (case find (\<lambda>a. audit_action_key a = key) (published_audits (context_catalog context) @ [recon (context_catalog context)]) of
        None \<Rightarrow> Inl (AuditActionUnusableError (''catalog does not contain runbook for action key: '' @ key))
      | Some action \<Rightarrow>
          (case audit_runbook_id action of
             None \<Rightarrow> Inl (AuditActionUnusableError (''catalog does not contain runbook for action key: '' @ key))
           | Some book \<Rightarrow>
               if py_strip book = []
               then Inl (AuditActionUnusableError (''catalog does not contain runbook for action key: '' @ key))
               else bindR (gateway_runbook g book) (\<lambda>runbook.
                 task_for_repo \<lparr>task_project = target, task_audit = action, task_runbook = runbook,
                   task_runbook_id = book, task_schema_name = or_str (audit_schema_name action) [],
                   task_schema_version = or_str (audit_schema_version action) [],
                   task_template = audit_template action, task_repo_id = Some (context_repo_id context)\<rparr>
                   (context_repo_id context))))"

fun is_action_unusable :: "exn \<Rightarrow> bool" where
  "is_action_unusable (AuditActionUnusableError _) = True"
| "is_action_unusable _ = False"

fun is_start_failure :: "exn \<Rightarrow> bool" where
  "is_start_failure (AuditUpstreamError _) = True"
| "is_start_failure (AuditMalformedError _) = True"
| "is_start_failure _ = False"

definition record_started_run :: "audit_gateway \<Rightarrow> audit_run_start \<Rightarrow> unit audit_io" where
  "record_started_run g started =
     bindM (read_clock_now g) (\<lambda>now.
     bindM (getM requests) (\<lambda>sent.
     thenM (on_ledger (putM (interference g (Suc MAX_LOOKUP_ROUNDS + length sent))))
       (on_ledger (record_started (new_entry started now None (ttl_seconds g))))))"

definition start_one_audit :: "audit_gateway \<Rightarrow> start_audits_context \<Rightarrow> start_one_state \<Rightarrow> audit_definition
    \<Rightarrow> batch_item audit_io" where
  "start_one_audit g context state audit =
     (let key = audit_action_key audit;
          current = rerun_current_head (start_rerun state);
          audited = rerun_audited_heads (start_rerun state) key;
          matching = current_head_active_runs (active_runs_for_action (start_runs state) key) current in
      if matching \<noteq> []
      then bindM (liftM (representative_run matching)) (\<lambda>r.
        retM (batch_result_item key (if run_lifecycle r = TaskRunning then AlreadyRunning else AlreadyQueued)
          (current, audited) (run_task_id r, run_status r) None))
      else if out_of_date current audited = Some False
      then retM (batch_result_item key UpToDate (current, audited) (None, None) None)
      else (case audit_run_task_body g context (start_project state) key of
          Inl e \<Rightarrow> if is_action_unusable e
            then retM (batch_result_item key Failed (current, audited) (None, None) (Some (exn_text e)))
            else throwM e
        | Inr body \<Rightarrow>
            (\<lambda>w. case send_start g \<lparr>request_repo_id = context_repo_id context,
                request_project_id = context_project_id context, request_action_key = key,
                request_task_body = body\<rparr> w of
               (Inl e, w') \<Rightarrow> if is_start_failure e
                 then (Inr (batch_result_item key Failed (current, audited) (None, None) (Some (exn_text e))), w')
                 else (Inl e, w')
             | (Inr response, w') \<Rightarrow>
                 thenM (record_started_run g \<lparr>start_repo_id = context_repo_id context,
                     start_project_id = context_project_id context, start_action_key = key,
                     start_task_id = result_task_id response, start_task_status = result_status response,
                     start_current_head = current, start_audited_head = audited\<rparr>)
                   (retM (batch_result_item key Started (current, audited)
                     (result_task_id response, result_status response) None)) w')))"

definition start_batch :: "audit_gateway \<Rightarrow> start_audits_context \<Rightarrow> start_one_state \<Rightarrow> batch_item list audit_io" where
  "start_batch g context state = mapM (start_one_audit g context state) (context_audits context)"

definition start_audits_for_target :: "audit_gateway \<Rightarrow> start_audits_context \<Rightarrow> batch_item list audit_io" where
  "start_audits_for_target g context =
     bindM (liftM (gateway_rerun_state g (context_repo_id context))) (\<lambda>rerun.
     bindM (current_active_runs g (context_repo_id context)) (\<lambda>runs.
     bindM (liftM (gateway_project g (context_project_id context))) (\<lambda>target.
       start_batch g context \<lparr>start_rerun = rerun, start_runs = runs, start_project = target\<rparr>)))"

end
