(* ===== verification/Audit_Catalog.thy ===== *)
theory Audit_Catalog
  imports Audit_Lifecycle Atomic_Json
begin

section \<open>The audit catalog (audit/catalog.py, audit/catalog\_observation.py, audit/workflows.py)\<close>

text \<open>
  Building the catalog of published audits from the actions of the service, choosing audits by
  selector, and observing what has changed since the snapshot on disk.
\<close>

subsection \<open>Building the catalog\<close>

definition RECON_ACTION_KEY :: string where
  "RECON_ACTION_KEY = ''audit.recon''"

definition required :: "string option \<Rightarrow> string \<Rightarrow> string result" where
  "required v message = (case v of
       None \<Rightarrow> Inl (ValueError message)
     | Some s \<Rightarrow> if py_strip s = [] then Inl (ValueError message) else Inr s)"

definition audit_definition_of :: "audit_catalog_action \<Rightarrow> string option \<Rightarrow> audit_definition result" where
  "audit_definition_of a metric_group =
     bindR (required (Some (action_action_key a)) ''curated action is missing action key'') (\<lambda>key.
     bindR (required (Some (action_title a)) ''curated action is missing title'') (\<lambda>title.
     bindR (required (action_runbook_kind a) ''curated action is missing runbook kind'') (\<lambda>kind.
       Inr \<lparr>audit_action_key = key, audit_title = title, audit_metric_group = metric_group,
         audit_runbook_kind = kind, audit_runbook_id = action_runbook_id a,
         audit_schema_name = action_schema_name a, audit_schema_version = action_schema_version a,
         audit_template = action_template a\<rparr>)))"

text \<open>A set comprehension over the selectors: the first key without the prefix raises.\<close>

definition require_unique_action_keys :: "audit_definition list \<Rightarrow> unit result" where
  "require_unique_action_keys audits =
     (if \<not> distinct (map audit_action_key audits)
      then Inl (ValueError ''catalog contains duplicate audit action keys'')
      else bindR (mapR audit_selector audits) (\<lambda>selectors.
        if \<not> distinct selectors then Inl (ValueError ''catalog contains duplicate audit selectors'') else Inr ()))"

definition is_published_audit :: "audit_catalog_action \<Rightarrow> bool" where
  "is_published_audit a = (action_action_key a \<noteq> RECON_ACTION_KEY \<and> action_category a = Some ''audit''
     \<and> action_status a = Some ''published'')"

definition parse_catalog_result :: "audit_catalog_result \<Rightarrow> audit_catalog result" where
  "parse_catalog_result r =
     (case filter (\<lambda>a. action_action_key a = RECON_ACTION_KEY) (catalog_actions r) of
        [a] \<Rightarrow>
          bindR (audit_definition_of a None) (\<lambda>recon_audit.
          bindR (mapR (\<lambda>a. bindR (required (action_metric_group a) ''published audit action is missing metric group'')
                   (\<lambda>g. audit_definition_of a (Some g))) (filter is_published_audit (catalog_actions r))) (\<lambda>published.
          bindR (require_unique_action_keys (recon_audit # published)) (\<lambda>_.
            Inr \<lparr>published_audits = published, recon = recon_audit\<rparr>)))
      | _ \<Rightarrow> Inl (ValueError ''catalog must contain exactly one audit.recon action''))"

subsection \<open>Choosing audits\<close>

definition by_selector :: "audit_definition list \<Rightarrow> (string \<Rightarrow> audit_definition option) result" where
  "by_selector audits = bindR (mapR (\<lambda>a. bindR (audit_selector a) (\<lambda>s. Inr (s, a))) audits)
     (\<lambda>pairs. Inr (\<lambda>s. map_option snd (dict_by fst pairs s)))"

definition required_audit :: "(string \<Rightarrow> audit_definition option) \<Rightarrow> string \<Rightarrow> audit_definition result" where
  "required_audit lookup s = (case lookup s of
       Some a \<Rightarrow> Inr a | None \<Rightarrow> Inl (ValueError (''unknown audit selector: '' @ s)))"

definition choose_audits :: "audit_catalog \<Rightarrow> string list \<Rightarrow> bool \<Rightarrow> audit_definition list result" where
  "choose_audits catalog selectors all_audits =
     (if all_audits
      then (if selectors \<noteq> [] then Inl (ValueError ''pass audit selectors or --all, not both'')
            else Inr (published_audits catalog))
      else if selectors = [] then Inl (ValueError ''pass at least one audit selector or --all'')
      else bindR (by_selector (published_audits catalog)) (\<lambda>lookup. mapR (required_audit lookup) selectors))"

subsection \<open>Observing changes\<close>

definition action_field_values :: "audit_catalog_action \<Rightarrow> (string \<times> string option) list" where
  "action_field_values a =
     [(''title'', Some (action_title a)), (''category'', action_category a), (''status'', action_status a),
      (''metric_group'', action_metric_group a), (''runbook_kind'', action_runbook_kind a),
      (''runbook_id'', action_runbook_id a), (''artifact_schema_name'', action_schema_name a),
      (''artifact_schema_version'', action_schema_version a), (''task_description_template'', action_template a)]"

definition differing_fields :: "audit_catalog_action \<Rightarrow> audit_catalog_action \<Rightarrow> string list" where
  "differing_fields old new =
     map (fst \<circ> fst) (filter (\<lambda>((_, x), (_, y)). x \<noteq> y) (zip (action_field_values old) (action_field_values new)))"

definition change_of :: "audit_catalog_action option \<Rightarrow> audit_catalog_action option \<Rightarrow> string
    \<Rightarrow> audit_catalog_change option" where
  "change_of old new key = (case (old, new) of
       (None, Some _) \<Rightarrow> Some \<lparr>change_kind = Added, change_action_key = key, changed_fields = []\<rparr>
     | (Some _, None) \<Rightarrow> Some \<lparr>change_kind = Removed, change_action_key = key, changed_fields = []\<rparr>
     | (Some a, Some b) \<Rightarrow> if a \<noteq> b
         then Some \<lparr>change_kind = Changed, change_action_key = key, changed_fields = differing_fields a b\<rparr> else None
     | (None, None) \<Rightarrow> None)"

fun change_order :: "change_kind \<Rightarrow> int" where
  "change_order Added = 0"
| "change_order Removed = 1"
| "change_order Changed = 2"

definition catalog_diff :: "audit_catalog_action list \<Rightarrow> audit_catalog_action list \<Rightarrow> audit_catalog_change list" where
  "catalog_diff previous current =
     (let old = dict_by action_action_key previous; new = dict_by action_action_key current;
          keys = sort (dedup (map action_action_key previous @ map action_action_key current)) in
      sort_key (\<lambda>c. (change_order (change_kind c), change_action_key c))
        (List.map_filter (\<lambda>k. change_of (old k) (new k) k) keys))"

text \<open>The snapshot file: an object of payloads by action key, a later action replacing an earlier one.\<close>

definition action_payload :: "audit_catalog_action \<Rightarrow> json" where
  "action_payload a = JObj (map (\<lambda>(k, v). (k, opt_json v)) (action_field_values a))"

definition snapshot_payload :: "audit_catalog_action list \<Rightarrow> json" where
  "snapshot_payload actions = JObj [(''schema_version'', JInt 2),
     (''audits'', JObj (map (\<lambda>k. (k, action_payload (the (dict_by action_action_key actions k))))
        (dedup (map action_action_key actions))))]"

definition action_from_snapshot :: "string \<Rightarrow> members \<Rightarrow> audit_catalog_action" where
  "action_from_snapshot key m =
     \<lparr>action_action_key = key, action_title = or_str (as_str (jget m ''title'')) [],
      action_category = as_str (jget m ''category''), action_status = as_str (jget m ''status''),
      action_metric_group = as_str (jget m ''metric_group''), action_runbook_kind = as_str (jget m ''runbook_kind''),
      action_runbook_id = as_str (jget m ''runbook_id''),
      action_schema_name = as_str (jget m ''artifact_schema_name''),
      action_schema_version = as_str (jget m ''artifact_schema_version''),
      action_template = as_str (jget m ''task_description_template'')\<rparr>"

definition parse_snapshot :: "json \<Rightarrow> audit_catalog_action list option" where
  "parse_snapshot d = (case as_obj d of
       None \<Rightarrow> None
     | Some m \<Rightarrow> if \<not> json_eq_int (jget m ''schema_version'') 2 then None
         else (case as_obj (jget m ''audits'') of
             None \<Rightarrow> None
           | Some actions \<Rightarrow> Some (map (\<lambda>(k, v). action_from_snapshot k (the (as_obj v)))
               (sort_key fst (filter (\<lambda>(_, v). as_obj v \<noteq> None) actions)))))"

definition load_snapshot :: "(slot_state, audit_catalog_action list option) io" where
  "load_snapshot s = ((case content (fst s) of
       NotUtf8 \<Rightarrow> Inl (UnicodeDecodeError ''invalid start byte'')
     | Document d \<Rightarrow> Inr (parse_snapshot d)
     | _ \<Rightarrow> Inr None), s)"

definition save_snapshot :: "audit_catalog_action list \<Rightarrow> (slot_state, unit) io" where
  "save_snapshot actions = write_atomic_json (snapshot_payload actions)"

definition observe_catalog :: "audit_catalog_result \<Rightarrow> (slot_state, audit_catalog_result) io" where
  "observe_catalog r = bindM load_snapshot (\<lambda>previous.
     let current = filter is_published_audit (catalog_actions r);
         changes = (case previous of None \<Rightarrow> [] | Some p \<Rightarrow> catalog_diff p current) in
     thenM (if previous = None \<or> changes \<noteq> [] then save_snapshot current else retM ())
       (retM \<lparr>catalog_actions = catalog_actions r, catalog_improvements = catalog_improvements r,
              catalog_changes = changes\<rparr>))"

subsection \<open>Lemmas: the catalog and its selectors\<close>

lemma required_InrD: "required v m = Inr s \<Longrightarrow> v = Some s"
  by (auto simp: required_def split: option.splits if_splits)

text \<open>A catalog that parses gives every published audit a selector, and no two the same.\<close>

lemma parsed_selectors:
  assumes "parse_catalog_result r = Inr c"
  obtains selectors where "mapR audit_selector (published_audits c) = Inr selectors" and "distinct selectors"
proof -
  from assms obtain a where unique: "require_unique_action_keys (a # published_audits c) = Inr ()"
    by (auto simp: parse_catalog_result_def result_simps split: list.splits)
  then obtain s ss where "mapR audit_selector (published_audits c) = Inr ss" "distinct (s # ss)"
    by (auto simp: require_unique_action_keys_def result_simps split: if_splits)
  with that show ?thesis by simp
qed

lemma by_selector_lookup:
  assumes "mapR audit_selector audits = Inr selectors" and "distinct selectors"
  shows "\<exists>lookup. by_selector audits = Inr lookup
    \<and> (\<forall>a s. a \<in> set audits \<longrightarrow> audit_selector a = Inr s \<longrightarrow> lookup s = Some a)"
proof -
  have pairs: "mapR (\<lambda>a. bindR (audit_selector a) (\<lambda>s. Inr (s, a))) audits = Inr (zip selectors audits)"
    using assms(1) by (auto simp: mapR_Inr_iff list_all2_conv_all_nth result_simps)
  have len: "length selectors = length audits" using mapR_length [OF assms(1)] .
  have "map_option snd (dict_by fst (zip selectors audits) s) = Some a"
    if a: "a \<in> set audits" "audit_selector a = Inr s" for a s
  proof -
    from a(1) obtain i where i: "i < length audits" "audits ! i = a" by (auto simp: in_set_conv_nth)
    with assms(1) a(2) have "selectors ! i = s" by (auto simp: mapR_Inr_iff list_all2_conv_all_nth)
    with i len have "(s, a) \<in> set (zip selectors audits)" by (auto simp: set_zip)
    then show ?thesis using dict_by_unique [of fst "zip selectors audits" "(s, a)"] assms(2) len by simp
  qed
  with pairs show ?thesis by (auto simp: by_selector_def result_simps)
qed

subsection \<open>Lemmas: the snapshot\<close>

lemma action_field_roundtrip [simp]: "action_from_snapshot (action_action_key a) (map (\<lambda>(k, v). (k, opt_json v)) (action_field_values a)) = a"
  by (cases a) (simp add: action_from_snapshot_def action_field_values_def jget_def or_str_def)

lemma change_of_None: "change_of old new k = None \<longleftrightarrow> old = new"
  by (auto simp: change_of_def split: option.splits)

text \<open>There is nothing to report exactly when both snapshots hold the same action under every key.\<close>

lemma catalog_diff_empty: "catalog_diff old new = [] \<longleftrightarrow> dict_by action_action_key old = dict_by action_action_key new"
proof -
  let ?old = "dict_by action_action_key old" and ?new = "dict_by action_action_key new"
  have "catalog_diff old new = [] \<longleftrightarrow> (\<forall>k \<in> action_action_key ` (set old \<union> set new). ?old k = ?new k)"
    by (auto simp: catalog_diff_def Let_def List.map_filter_def filter_empty_conv change_of_None image_Un
        simp flip: set_empty2)
  also have "\<dots> \<longleftrightarrow> ?old = ?new"
  proof
    assume same: "\<forall>k \<in> action_action_key ` (set old \<union> set new). ?old k = ?new k"
    show "?old = ?new"
    proof
      fix k
      show "?old k = ?new k"
      proof (cases "k \<in> action_action_key ` (set old \<union> set new)")
        case False
        then have "?old k = None" "?new k = None" by (simp_all add: dict_by_None_iff image_Un)
        then show ?thesis by simp
      qed (use same in blast)
    qed
  qed simp
  finally show ?thesis .
qed

text \<open>Reading a written snapshot gives back the action each key had.\<close>

lemma dict_by_distinct_set:
  assumes "distinct (map key xs)" and "set ys = set xs" and "distinct (map key ys)"
  shows "dict_by key ys = dict_by key xs"
proof
  fix k
  show "dict_by key ys k = dict_by key xs k"
  proof (cases "dict_by key xs k")
    case None
    then have "k \<notin> key ` set ys" using assms(2) by (simp add: dict_by_None_iff)
    then show ?thesis using None by (simp only: dict_by_None_iff [symmetric])
  next
    case (Some x)
    then have "x \<in> set ys" "key x = k" using assms(2) by (auto dest: dict_by_SomeD)
    with dict_by_unique [OF assms(3), of x] Some show ?thesis by simp
  qed
qed

lemma dict_by_latest:
  assumes "ks = dedup (map key xs)"
  shows "dict_by key (map (\<lambda>k. the (dict_by key xs k)) ks) = dict_by key xs"
proof
  fix k
  let ?ys = "map (\<lambda>k. the (dict_by key xs k)) ks"
  have found: "dict_by key xs k = Some (the (dict_by key xs k)) \<and> key (the (dict_by key xs k)) = k"
    if "k \<in> set ks" for k
  proof -
    from that assms have "dict_by key xs k \<noteq> None" by (simp add: dict_by_None_iff)
    then show ?thesis by (auto dest: dict_by_SomeD)
  qed
  then have keys: "map key ?ys = ks" by (simp add: map_idI)
  show "dict_by key ?ys k = dict_by key xs k"
  proof (cases "k \<in> set ks")
    case True
    then have "the (dict_by key xs k) \<in> set ?ys" by simp
    with dict_by_unique [of key ?ys "the (dict_by key xs k)"] keys assms found [OF True]
    show ?thesis by simp
  next
    case False
    with keys assms have "dict_by key ?ys k = None" "dict_by key xs k = None"
      by (auto simp: dict_by_None_iff simp flip: set_map)
    then show ?thesis by simp
  qed
qed

lemma snapshot_roundtrip:
  obtains snapshot where "parse_snapshot (snapshot_payload actions) = Some snapshot"
    and "dict_by action_action_key snapshot = dict_by action_action_key actions"
proof -
  let ?ks = "dedup (map action_action_key actions)"
  let ?act = "\<lambda>k. the (dict_by action_action_key actions k)"
  let ?members = "map (\<lambda>k. (k, action_payload (?act k))) ?ks"
  let ?read = "\<lambda>(k, v). action_from_snapshot k (the (as_obj v))"
  have objects: "filter (\<lambda>(_, v). as_obj v \<noteq> None) ?members = ?members"
    by (intro filter_True) (auto simp: action_payload_def)
  have parsed: "parse_snapshot (snapshot_payload actions) = Some (map ?read (sort_key fst ?members))"
    using objects by (simp add: parse_snapshot_def snapshot_payload_def jget_def)
  have key: "action_action_key (?act k) = k" if "k \<in> set ?ks" for k
  proof -
    from that have "dict_by action_action_key actions k \<noteq> None" by (simp add: dict_by_None_iff)
    then show ?thesis by (auto dest: dict_by_SomeD)
  qed
  have read: "?read (k, action_payload (?act k)) = ?act k" if "k \<in> set ?ks" for k
    using key [OF that] action_field_roundtrip [of "?act k"] by (simp add: action_payload_def)
  let ?snapshot = "map ?read (sort_key fst ?members)"
  have set: "set ?snapshot = set (map ?act ?ks)" using read by (auto simp: image_image)
  have keys: "map action_action_key (map ?act ?ks) = ?ks"
    unfolding map_map by (rule map_idI) (use key in simp)
  have "map action_action_key ?snapshot = map fst (sort_key fst ?members)"
    unfolding map_map by (rule map_cong) (auto simp: action_from_snapshot_def)
  moreover have "distinct (map fst (sort_key fst ?members))"
    by (simp add: distinct_map distinct_sort comp_def inj_on_def)
  ultimately have "distinct (map action_action_key ?snapshot)" by (simp only:)
  then have "dict_by action_action_key ?snapshot = dict_by action_action_key (map ?act ?ks)"
    using set keys by (intro dict_by_distinct_set) auto
  with dict_by_latest [OF refl, of action_action_key actions] parsed that show ?thesis by simp
qed

end
