(* ===== verification/Audit_Status.thy ===== *)
theory Audit_Status
  imports Audit_Catalog
begin

section \<open>Building audit status, and waiting for it (audit/status.py, audit/wait.py)\<close>

text \<open>
  The status of each published audit from the projections of the service, and the polling
  loop that waits for completion.  Seconds are rationals; the loop runs over the list of what
  its polls find (a status or an exception, and the clock reading after it), its value \<open>None\<close>
  saying that it has not returned yet.
\<close>

subsection \<open>Status\<close>

definition head_evidence_priority :: "audit_run \<Rightarrow> string option \<Rightarrow> int" where
  "head_evidence_priority r current =
     (if current \<noteq> None \<and> run_current_head r = current then 2
      else if run_current_head r \<noteq> None then 1 else 0)"

definition run_by_action :: "audit_run list \<Rightarrow> string option \<Rightarrow> string \<Rightarrow> audit_run option" where
  "run_by_action runs current action =
     (case py_max (\<lambda>r. (head_evidence_priority r current, run_sort_key r)) (active_runs_for_action runs action) of
        Inr r \<Rightarrow> Some r | Inl _ \<Rightarrow> None)"

definition representative_link :: "audit_task_link list \<Rightarrow> audit_task_link option" where
  "representative_link links =
     (let terminal = filter (\<lambda>l. link_lifecycle l \<in> {TaskCompleted, TaskFailed}) links;
          readable = filter (\<lambda>l. link_lifecycle l = TaskCompleted) terminal in
      case py_max link_sort_key (if readable \<noteq> [] then readable else terminal) of
        Inr l \<Rightarrow> Some l | Inl _ \<Rightarrow> None)"

definition link_by_action :: "audit_task_link list \<Rightarrow> string \<Rightarrow> audit_task_link option" where
  "link_by_action links action = representative_link (filter (\<lambda>l. link_action_key l = Some action) links)"

definition head_status :: "current_head_state \<Rightarrow> current_head_action \<Rightarrow> audit_current_head_status" where
  "head_status state action = \<lparr>head_state = state, head_action = action, head_task_id = None,
     head_task_status = None, head_task_current_head = None, head_stale_task_id = None,
     head_stale_current_head = None\<rparr>"

definition active_current_head_status ::
  "string option \<Rightarrow> audit_run \<Rightarrow> lifecycle_state \<Rightarrow> audit_current_head_status result" where
  "active_current_head_status current r lifecycle =
     (let run_sha = run_current_head r in
      if current \<noteq> None \<and> run_sha \<noteq> None \<and> run_sha \<noteq> current
      then Inr ((head_status HeadBlocked StartRun)
        \<lparr>head_stale_task_id := run_task_id r, head_stale_current_head := run_sha\<rparr>)
      else if run_sha = None
      then Inr ((head_status HeadUnverified InspectRun)
        \<lparr>head_task_id := run_task_id r, head_task_status := run_status r\<rparr>)
      else if lifecycle \<in> {TaskQueued, TaskRunning}
      then Inr ((head_status (if lifecycle = TaskQueued then HeadQueued else HeadRunning) WaitForRun)
        \<lparr>head_task_id := run_task_id r, head_task_status := run_status r, head_task_current_head := run_sha\<rparr>)
      else Inl (AssertionError ''active run has non-active lifecycle''))"

definition current_head_status ::
  "freshness_state \<Rightarrow> string option \<Rightarrow> audit_run option \<Rightarrow> lifecycle_state \<Rightarrow> audit_current_head_status result" where
  "current_head_status freshness current active lifecycle = (case freshness of
       Fresh \<Rightarrow> Inr (head_status HeadReady NoAction)
     | UnknownFreshness \<Rightarrow> Inr (head_status HeadUnknown ResolveUnknownHead)
     | Stale \<Rightarrow> (case active of
           None \<Rightarrow> Inr (head_status HeadMissing StartRun)
         | Some r \<Rightarrow> active_current_head_status current r lifecycle))"

definition artifact_expected :: "string option \<Rightarrow> lifecycle_state \<Rightarrow> bool" where
  "artifact_expected audited lifecycle = (audited \<noteq> None \<or> lifecycle = TaskCompleted)"

text \<open>The projection an item shows: the active run, or else a link that is finished.\<close>

definition item_source :: "audit_task_link option \<Rightarrow> audit_run option \<Rightarrow> lifecycle_state \<times> string option
    \<times> string option \<times> string option \<times> string option \<times> string option" where
  "item_source link active = (case active of
       Some r \<Rightarrow> (run_lifecycle r, run_status r, run_task_id r, run_created_at r, run_started_at r, run_completed_at r)
     | None \<Rightarrow> (case link of
           Some l \<Rightarrow> if link_lifecycle l \<in> {TaskFailed, TaskCompleted}
             then (link_lifecycle l, link_status l, link_task_id l, link_created_at l, link_started_at l,
                   link_completed_at l)
             else (NoTask, None, None, None, None, None)
         | None \<Rightarrow> (NoTask, None, None, None, None, None)))"

definition status_item :: "audit_definition \<Rightarrow> audit_task_link option \<Rightarrow> audit_run option \<Rightarrow> string option
    \<Rightarrow> audit_rerun_state option \<Rightarrow> audit_status_item result" where
  "status_item audit link active current rerun =
     (let audited = Option.bind rerun (\<lambda>s. rerun_audited_heads s (audit_action_key audit));
          active_lifecycle = (case active of Some r \<Rightarrow> run_lifecycle r | None \<Rightarrow> NoTask);
          (lifecycle, status, task, created, started, completed) = item_source link active;
          freshness = compare_heads current audited in
      bindR (current_head_status (freshness_state freshness) current active active_lifecycle) (\<lambda>head.
        Inr \<lparr>item_audit_key = audit_action_key audit, item_title = audit_title audit,
          item_freshness = freshness, item_can_read = artifact_expected audited lifecycle,
          item_lifecycle = lifecycle, item_task_id = task, item_task_status = status,
          item_created_at = created, item_started_at = started, item_completed_at = completed,
          item_current_head = head\<rparr>))"

definition build_status :: "string \<Rightarrow> audit_catalog \<Rightarrow> audit_task_link list \<Rightarrow> audit_run list
    \<Rightarrow> audit_rerun_state option \<Rightarrow> audit_status result" where
  "build_status repo catalog links active rerun =
     (let current = Option.bind rerun rerun_current_head in
      bindR (mapR (\<lambda>audit. status_item audit (link_by_action links (audit_action_key audit))
          (run_by_action active current (audit_action_key audit)) current rerun) (published_audits catalog))
        (\<lambda>items. Inr \<lparr>status_repo_id = repo, status_current_head = current, status_items = items\<rparr>))"

subsection \<open>Waiting\<close>

record audit_wait_options =
  poll_seconds :: rat
  timeout_seconds :: rat
  heartbeat_seconds :: rat

datatype wait_reason = WaitComplete | WaitWaiting | WaitFailed | WaitMissing | WaitTimeout

record audit_wait_result =
  wait_repo_id :: string
  wait_status :: audit_status
  wait_complete :: bool
  wait_timed_out :: bool
  wait_reason :: wait_reason
  wait_elapsed :: int

definition validate_wait_options :: "audit_wait_options \<Rightarrow> unit result" where
  "validate_wait_options options =
     (if poll_seconds options \<le> 0 then Inl (ValueError ''poll interval must be positive'')
      else if timeout_seconds options < 0 then Inl (ValueError ''timeout must not be negative'')
      else if heartbeat_seconds options \<le> 0 then Inl (ValueError ''heartbeat interval must be positive'')
      else Inr ())"

definition wait_result :: "string \<Rightarrow> audit_status \<Rightarrow> rat \<Rightarrow> bool \<Rightarrow> rat \<Rightarrow> audit_wait_result" where
  "wait_result repo status started timed_out now =
     \<lparr>wait_repo_id = repo, wait_status = status,
      wait_complete = (status_complete status \<and> \<not> timed_out), wait_timed_out = timed_out,
      wait_reason =
        (if status_failed status \<noteq> [] then WaitFailed
         else if timed_out then WaitTimeout
         else if status_active status \<noteq> [] then WaitWaiting
         else if status_missing status \<noteq> [] then WaitMissing
         else WaitComplete),
      wait_elapsed = round_half_even (now - started)\<rparr>"

text \<open>What the loop has done: the heartbeats it sent and the sleeps it asked for, in order.\<close>

record wait_trace =
  trace_heartbeats :: "audit_wait_result list"
  trace_sleeps :: "rat list"

fun wait_loop :: "string \<Rightarrow> audit_wait_options \<Rightarrow> rat \<Rightarrow> rat \<Rightarrow> (audit_status result \<times> rat) list
    \<Rightarrow> wait_trace \<Rightarrow> audit_wait_result result option \<times> wait_trace" where
  "wait_loop repo options started next_heartbeat [] trace = (None, trace)"
| "wait_loop repo options started next_heartbeat ((Inl e, now) # polls) trace = (Some (Inl e), trace)"
| "wait_loop repo options started next_heartbeat ((Inr status, now) # polls) trace =
     (let deadline = started + timeout_seconds options;
          timed_out = (now \<ge> deadline);
          result = wait_result repo status started timed_out now in
      if wait_complete result \<or> wait_reason result \<in> {WaitFailed, WaitMissing} \<or> timed_out
      then (Some (Inr result), trace)
      else wait_loop repo options started
        (if now \<ge> next_heartbeat then next_heartbeat + heartbeat_seconds options else next_heartbeat) polls
        (trace\<lparr>trace_heartbeats := trace_heartbeats trace @ (if now \<ge> next_heartbeat then [result] else []),
               trace_sleeps := trace_sleeps trace @ [min (poll_seconds options) (deadline - now)]\<rparr>))"

definition wait_for_completion :: "string \<Rightarrow> audit_wait_options \<Rightarrow> rat \<Rightarrow> (audit_status result \<times> rat) list
    \<Rightarrow> audit_wait_result result option \<times> wait_trace" where
  "wait_for_completion repo options started polls =
     (case validate_wait_options options of
        Inl e \<Rightarrow> (Some (Inl e), \<lparr>trace_heartbeats = [], trace_sleeps = []\<rparr>)
      | Inr _ \<Rightarrow> wait_loop repo options started started polls \<lparr>trace_heartbeats = [], trace_sleeps = []\<rparr>)"

subsection \<open>Lemmas: status\<close>

lemma active_runs_for_action_iff:
  "r \<in> set (active_runs_for_action runs a) \<longleftrightarrow> r \<in> set runs \<and> run_action_key r = Some a \<and> is_active_run r"
  by (auto simp: active_runs_for_action_def)

lemma run_by_action_None: "run_by_action runs current a = None \<longleftrightarrow> active_runs_for_action runs a = []"
  by (cases "active_runs_for_action runs a") (auto simp: run_by_action_def)

text \<open>The run shown for an audit is an active one, with the best evidence for the current head.\<close>

lemma run_by_action_SomeD:
  assumes "run_by_action runs current a = Some r"
  shows "r \<in> set (active_runs_for_action runs a)
    \<and> (\<forall>x \<in> set (active_runs_for_action runs a). head_evidence_priority x current \<le> head_evidence_priority r current)"
  using assms py_max_InrD [of "\<lambda>r. (head_evidence_priority r current, run_sort_key r)" "active_runs_for_action runs a" r]
  by (auto simp: run_by_action_def less_eq_prod_def split: sum.splits)

lemma shown_run_on_head:
  assumes "run_by_action runs (Some h) a = Some r" and "x \<in> set (active_runs_for_action runs a)"
    and "run_current_head x = Some h"
  shows "run_current_head r = Some h"
  using run_by_action_SomeD [OF assms(1)] assms(2,3)
  by (auto simp: head_evidence_priority_def split: if_splits)

lemma active_head_action:
  "active_current_head_status (Some h) r lifecycle = Inr c \<Longrightarrow>
     (head_action c = WaitForRun \<longrightarrow> run_current_head r = Some h)
     \<and> (head_action c = StartRun \<longrightarrow> run_current_head r \<noteq> Some h) \<and> head_action c \<noteq> NoAction"
  by (auto simp: active_current_head_status_def Let_def head_status_def split: if_splits)

lemma settled_head_action:
  "current_head_status f current active lifecycle = Inr c \<Longrightarrow> f \<noteq> Stale \<Longrightarrow>
     head_action c = (if f = Fresh then NoAction else ResolveUnknownHead)"
  by (cases f) (auto simp: current_head_status_def head_status_def)

lemma active_current_head_status_total:
  "is_active_run r \<Longrightarrow> \<exists>s. active_current_head_status current r (run_lifecycle r) = Inr s"
  by (auto simp: active_current_head_status_def Let_def is_active_run_def)

lemma current_head_status_total:
  "(\<And>r. active = Some r \<Longrightarrow> is_active_run r \<and> lifecycle = run_lifecycle r)
    \<Longrightarrow> \<exists>s. current_head_status f current active lifecycle = Inr s"
  using active_current_head_status_total [of _ current]
  by (cases f) (auto simp: current_head_status_def split: option.splits)

text \<open>What the item of an audit says, in terms of what it was built from.\<close>

lemma status_item_parts:
  assumes "status_item audit link active current rerun = Inr i"
  shows "item_audit_key i = audit_action_key audit"
    and "item_lifecycle i = fst (item_source link active)"
    and "current_head_status (freshness_state (item_freshness i)) current active
       (case active of Some r \<Rightarrow> run_lifecycle r | None \<Rightarrow> NoTask) = Inr (item_current_head i)"
    and "freshness_current_head (item_freshness i) = current"
  using assms by (auto simp: status_item_def Let_def result_simps compare_heads_def split: prod.splits)

lemma status_item_total:
  "(\<And>r. active = Some r \<Longrightarrow> is_active_run r) \<Longrightarrow> \<exists>i. status_item audit link active current rerun = Inr i"
proof -
  assume "\<And>r. active = Some r \<Longrightarrow> is_active_run r"
  then obtain h where "current_head_status (freshness_state (compare_heads current
      (Option.bind rerun (\<lambda>s. rerun_audited_heads s (audit_action_key audit))))) current active
      (case active of Some r \<Rightarrow> run_lifecycle r | None \<Rightarrow> NoTask) = Inr h"
    using current_head_status_total [of active "case active of Some r \<Rightarrow> run_lifecycle r | None \<Rightarrow> NoTask"]
    by (metis option.simps(5))
  then show ?thesis by (auto simp: status_item_def Let_def split: prod.splits)
qed

lemma item_source_active:
  "fst (item_source link active) \<in> {TaskQueued, TaskRunning} \<longleftrightarrow> (\<exists>r. active = Some r \<and> is_active_run r)"
  by (auto simp: item_source_def is_active_run_def split: option.splits)

text \<open>A status is always built, of one item per published audit.\<close>

lemma build_status_total:
  "\<exists>s. build_status repo catalog links active rerun = Inr s
     \<and> map item_audit_key (status_items s) = map audit_action_key (published_audits catalog)"
proof -
  let ?current = "Option.bind rerun rerun_current_head"
  let ?item = "\<lambda>a. status_item a (link_by_action links (audit_action_key a))
      (run_by_action active ?current (audit_action_key a)) ?current rerun"
  have "is_active_run r" if "run_by_action active ?current k = Some r" for k r
    using run_by_action_SomeD [OF that] by (simp add: active_runs_for_action_iff)
  then have "\<exists>i. ?item a = Inr i" for a using status_item_total by blast
  then obtain item where item: "?item a = Inr (item a)" for a by metis
  have "mapR ?item (published_audits catalog) = Inr (map item (published_audits catalog))"
    by (rule mapR_total) (rule item)
  then show ?thesis by (simp add: build_status_def Let_def status_item_parts(1) [OF item])
qed

lemma build_status_item:
  assumes "build_status repo catalog links active rerun = Inr s" and "i \<in> set (status_items s)"
  obtains a where "status_item a (link_by_action links (audit_action_key a))
      (run_by_action active (Option.bind rerun rerun_current_head) (audit_action_key a))
      (Option.bind rerun rerun_current_head) rerun = Inr i"
    and "status_current_head s = Option.bind rerun rerun_current_head"
  using assms by (auto simp: build_status_def Let_def result_simps mapR_Inr_iff in_set_conv_nth list_all2_conv_all_nth)

lemma item_active_iff:
  assumes "status_item a link (run_by_action active current (audit_action_key a)) current rerun = Inr i"
  shows "item_active i \<longleftrightarrow> (\<exists>r \<in> set active. run_action_key r = Some (item_audit_key i) \<and> is_active_run r)"
proof -
  have "item_active i \<longleftrightarrow> run_by_action active current (audit_action_key a) \<noteq> None"
    unfolding item_active_def status_item_parts(2) [OF assms] item_source_active
    using run_by_action_SomeD [of active current "audit_action_key a"] by (auto simp: active_runs_for_action_iff)
  also have "\<dots> \<longleftrightarrow> (\<exists>r. r \<in> set (active_runs_for_action active (audit_action_key a)))"
    by (simp add: run_by_action_None ex_in_conv)
  finally show ?thesis by (auto simp: active_runs_for_action_iff status_item_parts(1) [OF assms])
qed

subsection \<open>Lemmas: waiting\<close>

definition waiting :: "audit_wait_result \<Rightarrow> bool" where
  "waiting r = (wait_reason r = WaitWaiting \<and> \<not> wait_complete r \<and> \<not> wait_timed_out r)"

lemma wait_result_complete_iff:
  "wait_complete (wait_result repo s started late now) \<longleftrightarrow> wait_reason (wait_result repo s started late now) = WaitComplete"
  by (auto simp: wait_result_def status_complete_def)

lemma wait_goes_on:
  "\<not> (wait_complete (wait_result repo s started False now)
      \<or> wait_reason (wait_result repo s started False now) \<in> {WaitFailed, WaitMissing})
    \<Longrightarrow> waiting (wait_result repo s started False now)"
  by (auto simp: wait_result_def waiting_def status_complete_def split: if_splits)

text \<open>Where the loop stops: at the first poll that raises, is decisive or is late.\<close>

definition decisive :: "string \<Rightarrow> audit_wait_options \<Rightarrow> rat \<Rightarrow> audit_status \<times> rat \<Rightarrow> bool" where
  "decisive repo options started = (\<lambda>(s, now).
     (let late = (now \<ge> started + timeout_seconds options); r = wait_result repo s started late now in
      wait_complete r \<or> wait_reason r \<in> {WaitFailed, WaitMissing} \<or> late))"

definition stops :: "string \<Rightarrow> audit_wait_options \<Rightarrow> rat \<Rightarrow> audit_status result \<times> rat \<Rightarrow> bool" where
  "stops repo options started = (\<lambda>(p, now). case p of Inl e \<Rightarrow> True | Inr s \<Rightarrow> decisive repo options started (s, now))"

fun poll_outcome :: "string \<Rightarrow> audit_wait_options \<Rightarrow> rat \<Rightarrow> audit_status result \<times> rat \<Rightarrow> audit_wait_result result" where
  "poll_outcome repo options started (Inl e, now) = Inl e"
| "poll_outcome repo options started (Inr s, now) =
     Inr (wait_result repo s started (now \<ge> started + timeout_seconds options) now)"

lemma wait_loop_outcome:
  "fst (wait_loop repo options started nh polls trace) =
     map_option (poll_outcome repo options started) (find (stops repo options started) polls)"
  by (induction repo options started nh polls trace rule: wait_loop.induct)
     (auto simp: Let_def stops_def decisive_def)

text \<open>The sleeps and the heartbeats, by induction over the polls that go on.\<close>

lemma wait_loop_trace:
  fixes options :: audit_wait_options and started :: rat
  defines "ok \<equiv> \<lambda>t. (\<forall>d \<in> set (trace_sleeps t). 0 < d \<and> d \<le> poll_seconds options \<and> d \<le> timeout_seconds options)
    \<and> (\<forall>h \<in> set (trace_heartbeats t). waiting h)"
  assumes "poll_seconds options > 0" and "\<forall>(_, now) \<in> set polls. started \<le> now" and "ok trace"
  shows "ok (snd (wait_loop repo options started nh polls trace))"
  using assms(3,4)
proof (induction polls arbitrary: nh trace)
  case Nil
  then show ?case by simp
next
  case (Cons p polls)
  obtain x now where p: "p = (x, now)" by (cases p)
  show ?case
  proof (cases x)
    case (Inl e)
    with Cons.prems p show ?thesis by simp
  next
    case (Inr s)
    let ?late = "now \<ge> started + timeout_seconds options"
    let ?r = "wait_result repo s started ?late now"
    let ?stop = "wait_complete ?r \<or> wait_reason ?r \<in> {WaitFailed, WaitMissing} \<or> ?late"
    show ?thesis
    proof (cases ?stop)
      case True
      with Cons.prems p Inr show ?thesis by (simp add: Let_def)
    next
      case False
      then have going: "waiting ?r" and early: "now < started + timeout_seconds options"
        using wait_goes_on [of repo s started now] by (auto simp: not_le)
      let ?trace = "trace\<lparr>trace_heartbeats := trace_heartbeats trace @ (if now \<ge> nh then [?r] else []),
               trace_sleeps := trace_sleeps trace @ [min (poll_seconds options) (started + timeout_seconds options - now)]\<rparr>"
      have "started \<le> now" using Cons.prems(1) p by simp
      then have "ok ?trace"
        using Cons.prems(2) going early assms(2) by (auto simp: ok_def min_def)
      moreover have "\<forall>(_, now) \<in> set polls. started \<le> now" using Cons.prems(1) by simp
      moreover have "wait_loop repo options started nh (p # polls) trace = wait_loop repo options started
          (if now \<ge> nh then nh + heartbeat_seconds options else nh) polls ?trace"
        unfolding p Inr wait_loop.simps Let_def using False by (simp only: if_False)
      ultimately show ?thesis using Cons.IH [of ?trace] by simp
    qed
  qed
qed

end
