(* ===== verification/Ledger_Properties.thy ===== *)
theory Ledger_Properties
  imports Audit_Ledger
begin

section \<open>Properties of the ledger of started runs\<close>

text \<open>
  A run this client has started is guarded until the service has answered for it, whatever
  other processes do to the file between the locked sections and whatever operations fail.
\<close>

subsection \<open>The lookups\<close>

definition answers :: "(string \<Rightarrow> audit_task_detail result) \<Rightarrow> lookup_cache \<Rightarrow> bool" where
  "answers lookup cache \<longleftrightarrow> distinct (map fst cache)
     \<and> (\<forall>(q, a) \<in> set cache. case a of TaskFound d \<Rightarrow> lookup q = Inr d | LookupFailed e \<Rightarrow> lookup q = Inl e)"

lemma resolve_answers:
  "resolve_lookups qs lookup cache = Inr cache' \<Longrightarrow> answers lookup cache \<Longrightarrow> distinct qs
     \<Longrightarrow> set qs \<inter> fst ` set cache = {} \<Longrightarrow> answers lookup cache'"
proof (induction qs arbitrary: cache)
  case (Cons q qs)
  from Cons.prems(1) obtain a where a: "case a of TaskFound d \<Rightarrow> lookup q = Inr d | LookupFailed e \<Rightarrow> lookup q = Inl e"
    and rest: "resolve_lookups qs lookup ((q, a) # cache) = Inr cache'"
  proof (cases "lookup q")
    case (Inl e)
    with Cons.prems(1) that [of "LookupFailed e"] show ?thesis by (auto split: if_splits)
  next
    case (Inr d)
    with Cons.prems(1) that [of "TaskFound d"] show ?thesis by simp
  qed
  from a Cons.prems have "answers lookup ((q, a) # cache)" by (auto simp: answers_def)
  from Cons.IH [OF rest this] Cons.prems show ?case by auto
qed simp

lemma needs_lookup_new: "needs_lookup repo now cache e = Some q \<Longrightarrow> q \<notin> fst ` set cache"
  by (auto simp only: needs_lookup_def split: option.splits if_splits)

lemma pending_lookups_new:
  assumes "pending_lookups repo now cache s = (Inr qs, t)"
  shows "distinct qs \<and> set qs \<inter> fst ` set cache = {}"
proof -
  obtain es where "qs = dedup (List.map_filter (needs_lookup repo now cache) es)"
    using assms by (auto simp: pending_lookups_def retM_def elim!: bindM_E)
  then show ?thesis by (auto simp: set_map_filter dest!: needs_lookup_new)
qed

lemma lookup_rounds_answers:
  "lookup_rounds n repo now lookup interfere cache s = (Inr cache', t) \<Longrightarrow> answers lookup cache
     \<Longrightarrow> answers lookup cache'"
proof (induction n arbitrary: cache s)
  case 0
  then show ?case by (simp add: io_simps)
next
  case (Suc n)
  from Suc.prems(1) obtain qs u where p: "pending_lookups repo now cache s = (Inr qs, u)"
    and rest: "(if qs = [] then retM cache
       else bindM (liftM (resolve_lookups qs lookup cache)) (\<lambda>cache'.
         thenM (putM (interfere n)) (lookup_rounds n repo now lookup interfere cache'))) u = (Inr cache', t)"
    by (auto elim!: bindM_InrE)
  show ?case
  proof (cases "qs = []")
    case True
    with rest Suc.prems(2) show ?thesis by (simp add: io_simps)
  next
    case False
    with rest obtain c v where c: "resolve_lookups qs lookup cache = Inr c"
      and r: "lookup_rounds n repo now lookup interfere c v = (Inr cache', t)"
      by (auto simp: io_simps elim!: bindM_InrE thenM_E)
    have "answers lookup c"
      using resolve_answers [OF c Suc.prems(2)] pending_lookups_new [OF p] by simp
    with Suc.IH [OF r] show ?thesis by simp
  qed
qed

subsection \<open>The commit\<close>

lemma commit_returned:
  assumes "commit_reconciliation grace repo upstream cache now s = (Inr c, t)"
  shows "held t = filter (\<lambda>e. outcome_keeps (entry_outcome grace repo upstream cache now e)) (held s)
    \<and> commit_projected c = List.map_filter (\<lambda>e. outcome_run (entry_outcome grace repo upstream cache now e)) (held s)
    \<and> commit_suppressed c = List.map_filter (\<lambda>e. outcome_suppresses (entry_outcome grace repo upstream cache now e)) (held s)"
proof -
  let ?decide = "entry_outcome grace repo upstream cache now"
  let ?keep = "filter (\<lambda>e. outcome_keeps (?decide e))"
  let ?body = "bindM read_ledger (\<lambda>es.
       thenM (if ?keep es = es then retM () else write_ledger (?keep es))
         (retM \<lparr>commit_projected = List.map_filter (\<lambda>e. outcome_run (?decide e)) es,
                commit_suppressed = List.map_filter (\<lambda>e. outcome_suppresses (?decide e)) es\<rparr>))"
  obtain u v where u: "fst u = fst s" and t: "fst t = fst v" and body: "?body u = (Inr c, v)"
    using transaction_returned [OF assms [unfolded commit_reconciliation_def Let_def]] .
  obtain es u' where r: "read_ledger u = (Inr es, u')"
    and rest: "thenM (if ?keep es = es then retM () else write_ledger (?keep es))
         (retM \<lparr>commit_projected = List.map_filter (\<lambda>e. outcome_run (?decide e)) es,
                commit_suppressed = List.map_filter (\<lambda>e. outcome_suppresses (?decide e)) es\<rparr>) u' = (Inr c, v)"
    using body by (rule bindM_InrE)
  have es: "es = held s" and u': "u' = u" using read_ledger_run [OF r] u held_content [of u s] by simp_all
  have "list_all entry_wf (?keep es)"
    using held_wf [of s] unfolding es by (auto simp: list_all_iff)
  moreover from rest obtain x where "(if ?keep es = es then retM () else write_ledger (?keep es)) u' = (Inr (), x)"
    and "retM \<lparr>commit_projected = List.map_filter (\<lambda>e. outcome_run (?decide e)) es,
           commit_suppressed = List.map_filter (\<lambda>e. outcome_suppresses (?decide e)) es\<rparr> x = (Inr c, v)"
    by (auto elim!: thenM_E)
  ultimately have "held v = ?keep es" "c = \<lparr>commit_projected = List.map_filter (\<lambda>e. outcome_run (?decide e)) es,
           commit_suppressed = List.map_filter (\<lambda>e. outcome_suppresses (?decide e)) es\<rparr>"
    using write_ledger_held [of "?keep es" u' x] es u' held_content [of u s] u
    by (auto simp: retM_def split: if_splits)
  with t es held_content [of t v] show ?thesis by simp
qed

lemma reconcile_steps:
  assumes "reconcile grace repo upstream lookup interfere now s = (Inr runs, t)"
  obtains cache u c where "answers lookup cache"
    "commit_reconciliation grace repo upstream cache now u = (Inr c, t)"
    "dedupe_runs (commit_projected c
       @ filter (\<lambda>r. case run_task_id r of None \<Rightarrow> True | Some q \<Rightarrow> q \<notin> set (commit_suppressed c)) upstream) = Inr runs"
proof -
  obtain cache v where cache: "lookup_rounds MAX_LOOKUP_ROUNDS repo now lookup interfere [] s = (Inr cache, v)"
    and rest: "thenM (putM (interfere MAX_LOOKUP_ROUNDS))
    (bindM (commit_reconciliation grace repo upstream cache now) (\<lambda>c.
       liftM (dedupe_runs (commit_projected c
         @ filter (\<lambda>r. case run_task_id r of None \<Rightarrow> True | Some t \<Rightarrow> t \<notin> set (commit_suppressed c)) upstream)))) v
      = (Inr runs, t)"
    using assms unfolding reconcile_def by (rule bindM_InrE)
  have "answers lookup cache" using lookup_rounds_answers [OF cache] by (simp add: answers_def)
  moreover obtain c u' where "commit_reconciliation grace repo upstream cache now (interfere MAX_LOOKUP_ROUNDS v) = (Inr c, u')"
    and "liftM (dedupe_runs (commit_projected c
         @ filter (\<lambda>r. case run_task_id r of None \<Rightarrow> True | Some t \<Rightarrow> t \<notin> set (commit_suppressed c)) upstream)) u'
      = (Inr runs, t)"
    using rest by (auto simp: thenM_def io_simps elim!: bindM_InrE)
  ultimately show ?thesis by (intro that [of cache _ c]) (auto simp: liftM_def)
qed

lemma dedupe_member:
  assumes "dedupe_runs runs = Inr result" and "x \<in> set runs"
  shows "\<exists>r\<in>set result. run_identity r = run_identity x \<and> (is_active_run x \<longrightarrow> is_active_run r)"
proof -
  obtain g where g: "(run_identity x, g) \<in> set (group_by run_identity runs)" "x \<in> set g"
    using group_by_covers [OF assms(2)] by blast
  have "list_all2 (\<lambda>p r. representative_run (snd p) = Inr r) (group_by run_identity runs) result"
    using assms(1) by (simp add: dedupe_runs_def mapR_Inr_iff case_prod_beta)
  with g(1) obtain r where r: "r \<in> set result" "representative_run g = Inr r"
    by (fastforce simp: list_all2_conv_all_nth in_set_conv_nth)
  have "r \<in> set g" using r(2) py_max_InrD [of run_sort_key g r] by (simp add: representative_run_def)
  then have "run_identity r = run_identity x" using group_by_member [OF g(1)] by auto
  moreover have "is_active_run x \<longrightarrow> is_active_run r" using representative_active [OF r(2) g(2)] by blast
  ultimately show ?thesis using r(1) by blast
qed

lemma dedupe_distinct:
  assumes "dedupe_runs runs = Inr result"
  shows "distinct (map run_identity result) \<and> set result \<subseteq> set runs"
proof -
  have pairs: "list_all2 (\<lambda>p r. representative_run (snd p) = Inr r) (group_by run_identity runs) result"
    using assms by (simp add: dedupe_runs_def mapR_Inr_iff case_prod_beta)
  have member: "run_identity r = fst p \<and> r \<in> set runs"
    if "p \<in> set (group_by run_identity runs)" "representative_run (snd p) = Inr r" for p r
    using that group_by_member [of "fst p" "snd p" run_identity runs] py_max_InrD [of run_sort_key "snd p" r]
    by (auto simp: representative_run_def)
  have each: "i < length result \<Longrightarrow> run_identity (result ! i) = fst (group_by run_identity runs ! i)
      \<and> result ! i \<in> set runs" for i
    using pairs by (intro member) (auto simp: list_all2_conv_all_nth)
  have "length result = length (group_by run_identity runs)" using pairs by (simp add: list_all2_lengthD)
  then have "map run_identity result = map fst (group_by run_identity runs)"
    using each by (intro nth_equalityI) auto
  moreover have "set result \<subseteq> set runs" using each by (auto simp: in_set_conv_nth)
  ultimately show ?thesis using distinct_group_by by simp
qed

text \<open>A kept entry with a task id is projected as an active run of that id.\<close>

lemma kept_entry_projected:
  assumes "outcome_keeps (entry_outcome grace repo upstream cache now e)" and "entry_repo_id e = repo"
    and "entry_task_id e = Some q" and "\<And>d. map_of cache q = Some (TaskFound d) \<Longrightarrow> detail_task_id d = q"
  shows "\<exists>r. outcome_run (entry_outcome grace repo upstream cache now e) = Some r
    \<and> run_task_id r = Some q \<and> is_active_run r"
proof -
  have "is_active_run (project e None)" if "\<not> is_terminal_status (entry_task_status e)"
    using that by (auto simp: is_active_run_iff project_def from_detail_def or_opt_def)
  with assms show ?thesis
    by (auto simp: entry_outcome_def reconcile_entry_def Let_def project_def or_opt_def
        split: option.splits task_lookup_result.splits if_splits)
qed

subsection \<open>A sample ledger\<close>

definition sample_entry :: audit_ledger_entry where
  "sample_entry = \<lparr>entry_repo_id = ''r'', entry_project_id = ''p'', entry_audit_key = ''audit.tests'',
     entry_task_id = Some ''t1'', entry_task_status = Some ''queued'', entry_current_head = None,
     entry_audited_head = None, entry_observed_at = 63902908000000000, entry_started_at = None,
     entry_expires_at = 63902929600000000\<rparr>"

definition sample_ledger :: slot_state where
  "sample_ledger = (\<lparr>content = Document (ledger_payload [sample_entry]), temporary = False, synced = True\<rparr>, [])"

definition sample_lookup :: "string \<Rightarrow> audit_task_detail result" where
  "sample_lookup q = Inr \<lparr>detail_task_id = q, detail_status = Some ''running'', detail_created_at = None,
     detail_started_at = None, detail_completed_at = None\<rparr>"

definition sample_reconcile :: "audit_run list result \<times> slot_state" where
  "sample_reconcile = reconcile 300 ''r'' [] sample_lookup (\<lambda>_. id) 63902908800000000 sample_ledger"

lemma sample_entry_wf: "entry_wf sample_entry"
  by (simp add: entry_wf_def sample_entry_def max_ordinal_def micros_per_day_def)

lemma sample_read: "read_ledger sample_ledger = (Inr [sample_entry], sample_ledger)"
  by (rule read_written) (simp_all add: sample_ledger_def sample_entry_wf)

lemma sample_ledger_held: "held sample_ledger = [sample_entry]"
  by (simp add: held_def sample_read)

lemma sample_calm: "snd sample_ledger = []"
  by (simp add: sample_ledger_def)

lemma sample_entry_live: "\<not> expired sample_entry 63902908800000000"
    "\<not> is_terminal_status (entry_task_status sample_entry)"
  by (simp add: expired_def sample_entry_def) (simp add: sample_entry_def, code_simp)

lemma sample_entry_names: "entry_repo_id sample_entry = ''r''" "entry_task_id sample_entry = Some ''t1''"
  by (simp_all add: sample_entry_def)

lemma sample_run_active: "is_active_run (project sample_entry (Some (projr (sample_lookup ''t1''))))"
proof -
  have "\<not> is_terminal_status (Some ''running'')" by code_simp
  then show ?thesis by (simp add: is_active_run_iff project_def from_detail_def sample_lookup_def or_opt_def)
qed

lemma sample_cache: "lookup_rounds MAX_LOOKUP_ROUNDS ''r'' 63902908800000000 sample_lookup (\<lambda>_. id) [] sample_ledger
    = (Inr [(''t1'', TaskFound (projr (sample_lookup ''t1'')))], sample_ledger)"
proof -
  have once: "pending_lookups ''r'' 63902908800000000 c sample_ledger
      = (Inr (if ''t1'' \<in> fst ` set c then [] else [''t1'']), sample_ledger)" for c
    using transaction_calm [of sample_ledger read_ledger "Inr [sample_entry]" sample_ledger] sample_calm sample_read sample_entry_live
    by (simp add: pending_lookups_def bindM_def retM_def List.map_filter_simps needs_lookup_def sample_entry_names
        dedup_def)
  have answer: "sample_lookup ''t1'' = Inr (projr (sample_lookup ''t1''))" by (simp add: sample_lookup_def)
  show ?thesis
    by (simp add: MAX_LOOKUP_ROUNDS_def numeral_3_eq_3 bindM_def once)
       (subst answer, simp add: liftM_def thenM_def bindM_def putM_def once retM_def)
qed

lemma sample_commit:
  "fst (commit_reconciliation 300 ''r'' [] [(''t1'', TaskFound (projr (sample_lookup ''t1'')))] 63902908800000000 sample_ledger)
    = Inr \<lparr>commit_projected = [project sample_entry (Some (projr (sample_lookup ''t1'')))], commit_suppressed = [''t1'']\<rparr>
   \<and> snd (commit_reconciliation 300 ''r'' [] [(''t1'', TaskFound (projr (sample_lookup ''t1'')))] 63902908800000000 sample_ledger)
    = sample_ledger"
proof -
  have "entry_outcome 300 ''r'' [] [(''t1'', TaskFound (projr (sample_lookup ''t1'')))] 63902908800000000 sample_entry
      = Decided \<lparr>outcome_retained = True, suppress_task_id = Some ''t1'',
          outcome_projected = Some (project sample_entry (Some (projr (sample_lookup ''t1''))))\<rparr>"
    using sample_entry_live sample_run_active
    by (simp add: entry_outcome_def sample_entry_names reconcile_entry_def Let_def)
  then show ?thesis
    by (simp add: commit_reconciliation_def transaction_calm [OF sample_calm _ sample_calm] bindM_def sample_read
        thenM_def retM_def List.map_filter_simps)
qed

lemma sample_reconcile_run:
  "sample_reconcile = (Inr [project sample_entry (Some (projr (sample_lookup ''t1'')))], sample_ledger)"
proof -
  have "commit_reconciliation 300 ''r'' [] [(''t1'', TaskFound (projr (sample_lookup ''t1'')))] 63902908800000000
      sample_ledger = (Inr \<lparr>commit_projected = [project sample_entry (Some (projr (sample_lookup ''t1'')))],
         commit_suppressed = [''t1'']\<rparr>, sample_ledger)"
    using sample_commit by (simp add: prod_eq_iff)
  then show ?thesis
    by (simp add: sample_reconcile_def reconcile_def bindM_def sample_cache thenM_def putM_def liftM_def
      dedupe_runs_def group_by_def representative_run_def)
qed

subsection \<open>Properties\<close>

text \<open>C14: The duplicate guard never loses a started run: after a reconciliation, every run of the
  repository that is still in the ledger is reported as an active run under its task id, whatever
  other processes wrote between the locked sections, whatever the service projects, and whichever
  lookups failed.\<close>

theorem started_run_guarded:
  assumes "reconcile grace repo upstream lookup interfere now s = (Inr runs, t)"
    and "\<And>q d. lookup q = Inr d \<Longrightarrow> detail_task_id d = q"
    and "e \<in> set (held t)" and "entry_repo_id e = repo" and "entry_task_id e = Some task"
  shows "\<exists>r\<in>set runs. run_task_id r = Some task \<and> is_active_run r"
proof -
  obtain cache u c where cache: "answers lookup cache"
    and commit: "commit_reconciliation grace repo upstream cache now u = (Inr c, t)"
    and dedupe: "dedupe_runs (commit_projected c
       @ filter (\<lambda>r. case run_task_id r of None \<Rightarrow> True | Some q \<Rightarrow> q \<notin> set (commit_suppressed c)) upstream) = Inr runs"
    using reconcile_steps [OF assms(1)] .
  note c = commit_returned [OF commit]
  from c assms(3) have e: "e \<in> set (held u)" "outcome_keeps (entry_outcome grace repo upstream cache now e)" by auto
  have found: "detail_task_id d = task" if "map_of cache task = Some (TaskFound d)" for d
    using that cache assms(2) [of task d] by (auto simp: answers_def dest!: map_of_SomeD)
  obtain r where r: "outcome_run (entry_outcome grace repo upstream cache now e) = Some r"
    "run_task_id r = Some task" "is_active_run r"
    using kept_entry_projected [OF e(2) assms(4,5) found] by blast
  have "r \<in> set (commit_projected c)" using c e(1) r(1) by (auto simp: set_map_filter)
  with dedupe_member [OF dedupe, of r] r(2,3) show ?thesis
    by (force simp: run_identity_def split: if_splits)
qed

theorem started_run_guarded_witness:
  "\<exists>runs. fst sample_reconcile = Inr runs \<and> (\<exists>r\<in>set runs. run_task_id r = Some ''t1'' \<and> is_active_run r)"
proof -
  obtain runs where runs: "reconcile 300 ''r'' [] sample_lookup (\<lambda>_. id) 63902908800000000 sample_ledger
      = (Inr runs, sample_ledger)"
    using sample_reconcile_run by (simp add: sample_reconcile_def)
  have "\<exists>r\<in>set runs. run_task_id r = Some ''t1'' \<and> is_active_run r"
    by (rule started_run_guarded [OF runs, of sample_entry])
       (auto simp: sample_ledger_held sample_lookup_def sample_entry_names)
  with runs show ?thesis by (simp add: sample_reconcile_def)
qed

text \<open>C35: A reconciliation keeps every ledger entry it has no final answer for, in order: what it removes
  is an entry of its own repository that has expired, was finished already, whose task the service
  reports as finished, or whose task the service does not know any more after the grace period.\<close>

theorem reconciliation_removes_finished:
  assumes "commit_reconciliation grace repo upstream cache now s = (Inr c, t)"
  shows "(\<exists>p. held t = filter p (held s))
    \<and> (\<forall>e \<in> set (held s) - set (held t). entry_repo_id e = repo
      \<and> (entry_expires_at e \<le> now \<or> is_terminal_status (entry_task_status e)
         \<or> (\<exists>q d. entry_task_id e = Some q \<and> map_of cache q = Some (TaskFound d) \<and> \<not> is_active_run (project e (Some d)))
         \<or> (\<exists>q x. entry_task_id e = Some q \<and> map_of cache q = Some (LookupFailed x) \<and> is_audit_not_found x
              \<and> now - entry_observed_at e > grace * micros_per_second)))"
proof -
  let ?why = "\<lambda>e. entry_repo_id e = repo
      \<and> (entry_expires_at e \<le> now \<or> is_terminal_status (entry_task_status e)
         \<or> (\<exists>q d. entry_task_id e = Some q \<and> map_of cache q = Some (TaskFound d) \<and> \<not> is_active_run (project e (Some d)))
         \<or> (\<exists>q x. entry_task_id e = Some q \<and> map_of cache q = Some (LookupFailed x) \<and> is_audit_not_found x
              \<and> now - entry_observed_at e > grace * micros_per_second))"
  have why: "?why e" if "\<not> outcome_keeps (entry_outcome grace repo upstream cache now e)" for e
    using that
    by (auto simp: entry_outcome_def expired_def reconcile_entry_def Let_def
        split: option.splits task_lookup_result.splits if_splits)
  with commit_returned [OF assms] show ?thesis by (intro conjI) auto
qed

theorem reconciliation_removes_finished_witness:
  "\<exists>c t. commit_reconciliation 300 ''r'' [] [(''t1'', TaskFound (projr (sample_lookup ''t1'')))] 63902908800000000
       sample_ledger = (Inr c, t) \<and> (\<exists>p. held t = filter p [sample_entry])"
proof -
  let ?run = "commit_reconciliation 300 ''r'' [] [(''t1'', TaskFound (projr (sample_lookup ''t1'')))] 63902908800000000
       sample_ledger"
  obtain c where run: "?run = (Inr c, sample_ledger)" using sample_commit by (simp add: prod_eq_iff)
  have "\<exists>p. held sample_ledger = filter p [sample_entry]"
    using reconciliation_removes_finished [OF run] unfolding sample_ledger_held by (rule conjunct1)
  with run show ?thesis by blast
qed

text \<open>Every recorded start stays recorded: after a batch of successful starts with different identities,
  each of their entries reads back from the file, and so does every earlier entry none of them replaces.\<close>

lemma recorded_starts_held:
  assumes "forM record_started es s = (Inr (), t)" and "list_all entry_wf es"
    and "sorted_wrt (\<lambda>a b. \<not> same_identity a b) es"
  shows "set es \<subseteq> set (held t)
    \<and> (\<forall>x \<in> set (held s). (\<forall>e \<in> set es. \<not> same_identity x e) \<longrightarrow> x \<in> set (held t))"
  using ledger.record_all [OF assms(1,2)] assms(3) by blast

lemma recorded_starts_held_witness:
  "\<exists>t. forM record_started [sample_entry\<lparr>entry_task_id := Some ''t2''\<rparr>] sample_ledger = (Inr (), t)
     \<and> sample_entry \<in> set (held t)"
proof -
  let ?e = "sample_entry\<lparr>entry_task_id := Some ''t2''\<rparr>"
  let ?es = "filter (\<lambda>x. \<not> same_identity x ?e) [sample_entry] @ [?e]"
  obtain t where t: "write_ledger ?es sample_ledger = (Inr (), t)" "snd t = []"
    using write_ledger_calm [of ?es "fst sample_ledger"] sample_calm by (metis prod.collapse snd_conv)
  let ?body = "bindM read_ledger (\<lambda>es. write_ledger (filter (\<lambda>x. \<not> same_identity x ?e) es @ [?e]))"
  have "?body sample_ledger = (Inr (), t)"
    using t(1) unfolding bindM_def sample_read by simp
  with transaction_calm [of sample_ledger ?body "Inr ()" t] sample_calm t(2) have run: "forM record_started [?e] sample_ledger = (Inr (), t)"
    by (simp add: record_started_def thenM_def bindM_def retM_def)
  have wf: "list_all entry_wf [?e]" using sample_entry_wf by (simp add: entry_wf_def)
  have different: "\<not> same_identity sample_entry ?e" by (simp add: same_identity_def sample_entry_def)
  from recorded_starts_held [OF run wf] different have "sample_entry \<in> set (held t)"
    unfolding sample_ledger_held by simp
  with run show ?thesis by blast
qed

text \<open>The reported runs have one row per task (per action where there is no task id), and each row is
  one of the projections it was chosen from.\<close>

lemma runs_deduplicated:
  assumes "dedupe_runs runs = Inr result"
  shows "distinct (map run_identity result) \<and> set result \<subseteq> set runs
    \<and> run_identity ` set result = run_identity ` set runs
    \<and> (\<forall>x \<in> set runs. is_active_run x \<longrightarrow> (\<exists>r \<in> set result. run_identity r = run_identity x \<and> is_active_run r))"
proof -
  note member = dedupe_member [OF assms]
  have "run_identity ` set runs \<subseteq> run_identity ` set result" using member by (metis image_eqI image_subsetI)
  moreover have "run_identity ` set result \<subseteq> run_identity ` set runs" using dedupe_distinct [OF assms] by blast
  ultimately have "run_identity ` set result = run_identity ` set runs" by blast
  moreover have "\<forall>x \<in> set runs. is_active_run x
      \<longrightarrow> (\<exists>r \<in> set result. run_identity r = run_identity x \<and> is_active_run r)"
    using member by metis
  ultimately show ?thesis using dedupe_distinct [OF assms] by simp
qed

lemma runs_deduplicated_witness:
  "\<exists>result. dedupe_runs [project sample_entry None, project sample_entry None] = Inr result
     \<and> distinct (map run_identity result)"
proof -
  have "dedupe_runs [project sample_entry None, project sample_entry None] = Inr [project sample_entry None]"
    by (simp add: dedupe_runs_def group_by_def representative_run_def)
  from runs_deduplicated [OF this] this show ?thesis by blast
qed

text \<open>An entry reads back as what was encoded exactly when its names are not empty and its instants lie
  in the calendar.\<close>

lemma entry_roundtrip: "decode_entry (encode_entry e) = Inr (Some e) \<longleftrightarrow> entry_wf e"
  using decode_encode decode_wf by blast

text \<open>A ledger file that is not UTF-8 blocks every reconciliation and every recorded start for good: both
  raise the decoding error and leave the file as it is (a file that is not JSON is an empty ledger).\<close>

lemma undecodable_ledger_blocks:
  assumes "content (fst s) = NotUtf8" and "snd s = []"
  shows "record_started e s = (Inl (UnicodeDecodeError ''invalid start byte''), s)
    \<and> reconcile grace repo upstream lookup interfere now s = (Inl (UnicodeDecodeError ''invalid start byte''), s)"
proof -
  obtain f where s: "s = (f, [])" and f: "content f = NotUtf8" using assms by (cases s) auto
  have raises: "transaction (bindM read_ledger k) s = (Inl (UnicodeDecodeError ''invalid start byte''), s)" for k
    using f by (simp add: s transaction_def thenM_def bindM_def fs_op_def finallyM_def read_ledger_def)
  have "transaction read_ledger s = (Inl (UnicodeDecodeError ''invalid start byte''), s)"
    using f by (simp add: s transaction_def thenM_def bindM_def fs_op_def finallyM_def read_ledger_def)
  then have "pending_lookups repo now [] s = (Inl (UnicodeDecodeError ''invalid start byte''), s)"
    by (simp add: pending_lookups_def bindM_def)
  then have "lookup_rounds MAX_LOOKUP_ROUNDS repo now lookup interfere [] s
      = (Inl (UnicodeDecodeError ''invalid start byte''), s)"
    by (simp add: MAX_LOOKUP_ROUNDS_def numeral_3_eq_3 bindM_def)
  with raises show ?thesis by (simp add: record_started_def reconcile_def bindM_def)
qed

lemma undecodable_ledger_blocks_witness:
  "fst (record_started sample_entry (\<lparr>content = NotUtf8, temporary = False, synced = True\<rparr>, []))
     = Inl (UnicodeDecodeError ''invalid start byte'')"
  using undecodable_ledger_blocks [of "(\<lparr>content = NotUtf8, temporary = False, synced = True\<rparr>, [])" sample_entry] by simp

end
