(* ===== verification/Status_Properties.thy ===== *)
theory Status_Properties
  imports Audit_Status Ledger_Properties
begin

section \<open>Properties of the catalog, of status and of waiting\<close>

text \<open>
  The theorems about \<open>Audit_Catalog\<close> and \<open>Audit_Status\<close>, each with a witness on a sample
  catalog of one audit and a sample queued run.
\<close>

subsection \<open>A sample catalog, run and snapshot\<close>

definition sample_action :: "string \<Rightarrow> audit_catalog_action" where
  "sample_action key = \<lparr>action_action_key = key, action_title = ''Tests'', action_category = Some ''audit'',
     action_status = Some ''published'', action_metric_group = Some ''quality'', action_runbook_kind = Some ''audit'',
     action_runbook_id = Some ''rb'', action_schema_name = Some ''report'', action_schema_version = Some ''1'',
     action_template = None\<rparr>"

definition sample_catalog_result :: audit_catalog_result where
  "sample_catalog_result = \<lparr>catalog_actions = [sample_action ''audit.tests'', sample_action ''audit.recon''],
     catalog_improvements = [], catalog_changes = []\<rparr>"

definition sample_audit :: "string \<Rightarrow> string option \<Rightarrow> audit_definition" where
  "sample_audit key g = \<lparr>audit_action_key = key, audit_title = ''Tests'', audit_metric_group = g,
     audit_runbook_kind = ''audit'', audit_runbook_id = Some ''rb'', audit_schema_name = Some ''report'',
     audit_schema_version = Some ''1'', audit_template = None\<rparr>"

definition sample_catalog :: audit_catalog where
  "sample_catalog = \<lparr>published_audits = [sample_audit ''audit.tests'' (Some ''quality'')],
     recon = sample_audit ''audit.recon'' None\<rparr>"

definition sample_run :: "string option \<Rightarrow> audit_run" where
  "sample_run head = \<lparr>run_task_id = Some ''t1'', run_action_key = Some ''audit.tests'', run_status = Some ''queued'',
     run_created_at = None, run_started_at = None, run_completed_at = None, run_projection_source = None,
     run_status_source = None, run_expires_at = None, run_current_head = head, run_audited_head = None\<rparr>"

definition sample_rerun :: audit_rerun_state where
  "sample_rerun = \<lparr>rerun_current_head = Some ''h2'', rerun_audited_head = None, rerun_allowed = None,
     rerun_last_task_id = None, rerun_audited_heads = [''audit.tests'' \<mapsto> ''h1'']\<rparr>"

lemma sample_catalog_parsed: "parse_catalog_result sample_catalog_result = Inr sample_catalog"
  by code_simp

lemma sample_run_queued: "run_lifecycle (sample_run head) = TaskQueued"
proof -
  have "task_lifecycle (Some ''queued'') None None = TaskQueued" by code_simp
  then show ?thesis by (simp add: run_lifecycle_def sample_run_def)
qed

lemma sample_run_is_active: "is_active_run (sample_run head)"
  by (simp add: is_active_run_def sample_run_queued)

lemma sample_run_action: "run_action_key (sample_run head) = Some ''audit.tests''"
  by (simp add: sample_run_def)

definition missing_file :: slot_state where
  "missing_file = (\<lparr>content = Missing, temporary = False, synced = False\<rparr>, [])"

lemma write_calm: "write_atomic_json d (f, []) = (Inr (), (\<lparr>content = Document d, temporary = False, synced = True\<rparr>, []))"
  by (cases f) (simp add: write_atomic_json_def fsync_directory_def fs_op_def thenM_def bindM_def handleM_def finallyM_def)

subsection \<open>Choosing audits\<close>

text \<open>A selector names one audit: over a catalog that parses, the selectors of any non-empty
  choice of published audits resolve back to exactly that choice, in order.\<close>

lemma selection_roundtrip:
  assumes "parse_catalog_result r = Inr catalog"
    and "set audits \<subseteq> set (published_audits catalog)" and "audits \<noteq> []"
    and "mapR audit_selector audits = Inr selectors"
  shows "choose_audits catalog selectors False = Inr audits"
proof -
  obtain all where all: "mapR audit_selector (published_audits catalog) = Inr all" "distinct all"
    using parsed_selectors [OF assms(1)] .
  obtain lookup where lookup: "by_selector (published_audits catalog) = Inr lookup"
    and found: "a \<in> set (published_audits catalog) \<Longrightarrow> audit_selector a = Inr s \<Longrightarrow> lookup s = Some a" for a s
    using by_selector_lookup [OF all] by blast
  have pairs: "list_all2 (\<lambda>a s. audit_selector a = Inr s) audits selectors"
    using assms(4) by (simp add: mapR_Inr_iff)
  have "lookup (selectors ! i) = Some (audits ! i)" if "i < length audits" for i
    using that pairs assms(2) nth_mem [OF that] by (intro found) (auto simp: list_all2_conv_all_nth)
  then have "list_all2 (\<lambda>s a. required_audit lookup s = Inr a) selectors audits"
    using pairs by (simp add: list_all2_conv_all_nth required_audit_def)
  moreover have "selectors \<noteq> []" using pairs assms(3) by auto
  ultimately show ?thesis using lookup by (simp add: choose_audits_def mapR_Inr_iff)
qed

lemma selection_roundtrip_witness:
  "choose_audits sample_catalog [''tests''] False = Inr [sample_audit ''audit.tests'' (Some ''quality'')]"
proof (rule selection_roundtrip [OF sample_catalog_parsed])
  show "mapR audit_selector [sample_audit ''audit.tests'' (Some ''quality'')] = Inr [''tests'']" by code_simp
qed (simp_all add: sample_catalog_def)

subsection \<open>Observing the catalog\<close>

text \<open>Observation settles: once a catalog has been observed, observing it again reports no change
  and writes nothing, so a change is reported by exactly one observation that returns.\<close>

lemma observation_settles:
  assumes "observe_catalog r s = (Inr x, t)"
  shows "observe_catalog r t = (Inr (x\<lparr>catalog_changes := []\<rparr>), t)"
proof -
  let ?current = "filter is_published_audit (catalog_actions r)"
  have settled: "observe_catalog r t = (Inr \<lparr>catalog_actions = catalog_actions r,
      catalog_improvements = catalog_improvements r, catalog_changes = []\<rparr>, t)"
    if "load_snapshot t = (Inr (Some p), t)" "catalog_diff p ?current = []" for p
    using that by (simp add: observe_catalog_def bindM_def thenM_def retM_def)
  have x: "x\<lparr>catalog_changes := []\<rparr> = \<lparr>catalog_actions = catalog_actions r,
      catalog_improvements = catalog_improvements r, catalog_changes = []\<rparr>"
    using assms by (auto simp: observe_catalog_def Let_def elim!: bindM_InrE thenM_E split: if_splits)
      (auto simp: retM_def bindM_def split: prod.splits sum.splits)
  obtain previous where load: "load_snapshot s = (Inr previous, s)"
    using assms by (auto simp: observe_catalog_def load_snapshot_def bindM_def split: sum.splits)
  let ?changes = "case previous of None \<Rightarrow> [] | Some p \<Rightarrow> catalog_diff p ?current"
  show ?thesis
  proof (cases "previous = None \<or> ?changes \<noteq> []")
    case True
    then have "save_snapshot ?current s = (Inr (), t)"
      using assms load by (auto simp: observe_catalog_def bindM_def thenM_def retM_def Let_def
          split: prod.splits sum.splits)
    then have "content (fst t) = Document (snapshot_payload ?current)"
      unfolding save_snapshot_def by (rule write_atomic_json_returned)
    moreover obtain snapshot where "parse_snapshot (snapshot_payload ?current) = Some snapshot"
      "dict_by action_action_key snapshot = dict_by action_action_key ?current"
      using snapshot_roundtrip .
    ultimately show ?thesis
      using settled [of snapshot] x by (simp add: load_snapshot_def catalog_diff_empty)
  next
    case False
    then have "t = s" using assms load by (auto simp: observe_catalog_def bindM_def thenM_def retM_def Let_def)
    with False load x settled show ?thesis by auto
  qed
qed

lemma observation_settles_witness:
  "\<exists>x t. observe_catalog sample_catalog_result missing_file = (Inr x, t)
     \<and> observe_catalog sample_catalog_result t = (Inr (x\<lparr>catalog_changes := []\<rparr>), t)"
proof -
  obtain x t where first: "observe_catalog sample_catalog_result missing_file = (Inr x, t)"
    by (simp add: observe_catalog_def load_snapshot_def missing_file_def save_snapshot_def write_calm bindM_def
        thenM_def retM_def)
  from observation_settles [OF this] first show ?thesis by blast
qed

subsection \<open>Status\<close>

text \<open>Building a status never fails, lists the published audits in catalog order, and calls an audit
  active exactly when the service or the ledger projects an active run of it.\<close>

lemma status_reflects_runs:
  "\<exists>s. build_status repo catalog links active rerun = Inr s
     \<and> map item_audit_key (status_items s) = map audit_action_key (published_audits catalog)
     \<and> (\<forall>i \<in> set (status_items s). item_active i
          \<longleftrightarrow> (\<exists>r \<in> set active. run_action_key r = Some (item_audit_key i) \<and> is_active_run r))"
proof -
  obtain s where s: "build_status repo catalog links active rerun = Inr s"
    and keys: "map item_audit_key (status_items s) = map audit_action_key (published_audits catalog)"
    using build_status_total by blast
  have "item_active i \<longleftrightarrow> (\<exists>r \<in> set active. run_action_key r = Some (item_audit_key i) \<and> is_active_run r)"
    if "i \<in> set (status_items s)" for i
    by (rule build_status_item [OF s that]) (rule item_active_iff)
  with s keys show ?thesis by simp
qed

lemma status_reflects_runs_witness:
  "\<exists>s. build_status ''r'' sample_catalog [] [sample_run None] None = Inr s \<and> status_active s = [''audit.tests'']"
proof -
  obtain s where s: "build_status ''r'' sample_catalog [] [sample_run None] None = Inr s"
    "map item_audit_key (status_items s) = map audit_action_key (published_audits sample_catalog)"
    "\<forall>i \<in> set (status_items s). item_active i
       \<longleftrightarrow> (\<exists>r \<in> set [sample_run None]. run_action_key r = Some (item_audit_key i) \<and> is_active_run r)"
    using status_reflects_runs by blast
  from s(2) have "map item_audit_key (status_items s) = [''audit.tests'']"
    by (simp add: sample_catalog_def sample_audit_def)
  then obtain i where i: "status_items s = [i]" "item_audit_key i = ''audit.tests''" by (auto simp: map_eq_Cons_conv)
  with s(3) have "item_active i" by (simp add: sample_run_is_active sample_run_action)
  with s(1) i show ?thesis by (simp add: status_active_def status_keys_def)
qed

text \<open>The advice of a status is sound: it says to wait only for an active run of the audit that is
  known to be on the current head, to start a run only when the result is stale and no active run is
  known to be on the current head, and to do nothing exactly when the result is of the current head.\<close>

lemma head_advice_sound:
  assumes "build_status repo catalog links active rerun = Inr s" and "i \<in> set (status_items s)"
  shows "(head_action (item_current_head i) = WaitForRun \<longrightarrow> status_current_head s \<noteq> None
        \<and> (\<exists>r \<in> set active. run_action_key r = Some (item_audit_key i) \<and> is_active_run r
             \<and> run_current_head r = status_current_head s))
    \<and> (head_action (item_current_head i) = StartRun \<longrightarrow> freshness_state (item_freshness i) = Stale
        \<and> \<not> (\<exists>r \<in> set active. run_action_key r = Some (item_audit_key i) \<and> is_active_run r
             \<and> run_current_head r = status_current_head s))
    \<and> (head_action (item_current_head i) = NoAction \<longleftrightarrow> freshness_state (item_freshness i) = Fresh)"
proof -
  let ?current = "Option.bind rerun rerun_current_head"
  obtain a where a: "status_item a (link_by_action links (audit_action_key a))
      (run_by_action active ?current (audit_action_key a)) ?current rerun = Inr i"
    and current: "status_current_head s = ?current"
    using build_status_item [OF assms] .
  note parts = status_item_parts [OF a]
  let ?shown = "run_by_action active ?current (audit_action_key a)"
  have head: "freshness_state (item_freshness i) = Stale \<Longrightarrow> ?current \<noteq> None"
    using a by (auto simp: status_item_def Let_def result_simps compare_heads_def split: prod.splits if_splits)
  have shown: "r \<in> set active \<and> run_action_key r = Some (item_audit_key i) \<and> is_active_run r" if "?shown = Some r" for r
    using run_by_action_SomeD [OF that] parts(1) by (simp add: active_runs_for_action_iff)
  have on_head: "run_current_head r = ?current" if "?shown = Some r" "?current = Some h" "x \<in> set active"
      "run_action_key x = Some (item_audit_key i)" "is_active_run x" "run_current_head x = ?current" for r h x
    using shown_run_on_head [of active h "audit_action_key a" r x] that parts(1) by (simp add: active_runs_for_action_iff)
  have none: "?shown = None \<Longrightarrow> x \<in> set active \<Longrightarrow> run_action_key x = Some (item_audit_key i) \<Longrightarrow> \<not> is_active_run x" for x
    unfolding run_by_action_None using parts(1)
    by (auto simp: active_runs_for_action_def filter_empty_conv)
  show ?thesis
  proof (cases "freshness_state (item_freshness i)")
    case Stale
    then obtain h where h: "?current = Some h" using head by auto
    show ?thesis
    proof (cases ?shown)
      case None
      with parts(3) Stale have "item_current_head i = head_status HeadMissing StartRun"
        by (simp add: current_head_status_def)
      with None Stale none show ?thesis by (auto simp: head_status_def)
    next
      case (Some r)
      then have "active_current_head_status (Some h) r (run_lifecycle r) = Inr (item_current_head i)"
        using parts(3) Stale h by (simp add: current_head_status_def)
      note advice = active_head_action [OF this]
      have others: "run_current_head r \<noteq> Some h \<Longrightarrow> \<not> (\<exists>x \<in> set active. run_action_key x = Some (item_audit_key i)
          \<and> is_active_run x \<and> run_current_head x = Some h)"
        using on_head [OF Some h] h by auto
      show ?thesis
        unfolding current h by (intro conjI impI) (use advice Stale shown [OF Some] others in auto)
    qed
  qed (use settled_head_action [OF parts(3)] in simp_all)
qed

lemma head_advice_sound_witness:
  "\<exists>s i. build_status ''r'' sample_catalog [] [sample_run (Some ''h2'')] (Some sample_rerun) = Inr s
     \<and> status_items s = [i] \<and> head_action (item_current_head i) \<noteq> StartRun"
proof -
  obtain s where s: "build_status ''r'' sample_catalog [] [sample_run (Some ''h2'')] (Some sample_rerun) = Inr s"
    "map item_audit_key (status_items s) = map audit_action_key (published_audits sample_catalog)"
    using build_status_total by blast
  then obtain i where i: "status_items s = [i]" "item_audit_key i = ''audit.tests''"
    by (auto simp: map_eq_Cons_conv sample_catalog_def sample_audit_def)
  have "status_current_head s = Some ''h2''" using s(1) by (auto simp: build_status_def sample_rerun_def Let_def result_simps)
  with head_advice_sound [OF s(1), of i] i have "head_action (item_current_head i) \<noteq> StartRun"
    by (auto simp: sample_run_is_active sample_run_action) (simp add: sample_run_def)
  with s(1) i show ?thesis by blast
qed

subsection \<open>Waiting\<close>

text \<open>C37: Waiting ends and its answer is final: a wait returns no later than the first poll at or after the
  deadline, its reason is never that it is still waiting and is completion exactly when the result
  says so, it describes the status of one of the polls, every sleep is positive and no longer than
  the poll interval or the timeout, and every heartbeat reports a wait that goes on.\<close>

theorem wait_returns:
  fixes options :: audit_wait_options
  assumes "validate_wait_options options = Inr ()" and "\<forall>(p, now) \<in> set polls. started \<le> now"
  shows "((\<exists>(p, now) \<in> set polls. started + timeout_seconds options \<le> now)
          \<longrightarrow> fst (wait_for_completion repo options started polls) \<noteq> None)
    \<and> (\<forall>r. fst (wait_for_completion repo options started polls) = Some (Inr r)
          \<longrightarrow> wait_reason r \<noteq> WaitWaiting \<and> (wait_complete r \<longleftrightarrow> wait_reason r = WaitComplete)
            \<and> (\<exists>now. (Inr (wait_status r), now) \<in> set polls
                 \<and> (wait_timed_out r \<longleftrightarrow> started + timeout_seconds options \<le> now)))
    \<and> (\<forall>d \<in> set (trace_sleeps (snd (wait_for_completion repo options started polls))).
         0 < d \<and> d \<le> poll_seconds options \<and> d \<le> timeout_seconds options)
    \<and> (\<forall>h \<in> set (trace_heartbeats (snd (wait_for_completion repo options started polls))).
         wait_reason h = WaitWaiting \<and> \<not> wait_complete h \<and> \<not> wait_timed_out h)"
proof -
  let ?loop = "wait_loop repo options started started polls \<lparr>trace_heartbeats = [], trace_sleeps = []\<rparr>"
  have run: "wait_for_completion repo options started polls = ?loop"
    using assms(1) by (simp add: wait_for_completion_def)
  have poll: "poll_seconds options > 0" using assms(1) by (auto simp: validate_wait_options_def split: if_splits)
  have late: "stops repo options started (p, now)" if "started + timeout_seconds options \<le> now" for p now
    using that by (auto simp: stops_def decisive_def Let_def split: sum.splits)
  have ends: "fst ?loop \<noteq> None" if "(p, now) \<in> set polls" "started + timeout_seconds options \<le> now" for p now
    using that late [of now p] by (auto simp: wait_loop_outcome find_None_iff)
  have answer: "wait_reason r \<noteq> WaitWaiting \<and> (wait_complete r \<longleftrightarrow> wait_reason r = WaitComplete)
      \<and> (\<exists>now. (Inr (wait_status r), now) \<in> set polls \<and> (wait_timed_out r \<longleftrightarrow> started + timeout_seconds options \<le> now))"
    if "fst ?loop = Some (Inr r)" for r
  proof -
    from that obtain s now where found: "(Inr s, now) \<in> set polls" "stops repo options started (Inr s, now)"
      and r: "r = wait_result repo s started (now \<ge> started + timeout_seconds options) now"
      by (auto simp: wait_loop_outcome dest!: find_SomeD elim!: poll_outcome.elims)
    from found(2) have "wait_reason r \<noteq> WaitWaiting"
      unfolding r stops_def decisive_def
      by (auto simp: Let_def wait_result_complete_iff) (auto simp: wait_result_def split: if_splits)
    moreover have "wait_status r = s" "wait_timed_out r \<longleftrightarrow> started + timeout_seconds options \<le> now"
      by (simp_all add: r wait_result_def)
    moreover have "wait_complete r \<longleftrightarrow> wait_reason r = WaitComplete" unfolding r by (rule wait_result_complete_iff)
    ultimately show ?thesis using found(1) by metis
  qed
  have trace: "(\<forall>d \<in> set (trace_sleeps (snd ?loop)). 0 < d \<and> d \<le> poll_seconds options \<and> d \<le> timeout_seconds options)
      \<and> (\<forall>h \<in> set (trace_heartbeats (snd ?loop)). waiting h)"
    using assms(2) by (intro wait_loop_trace poll) auto
  show ?thesis unfolding run using ends answer trace by (auto simp: waiting_def)
qed

theorem wait_returns_witness:
  "\<exists>r. fst (wait_for_completion ''r'' \<lparr>poll_seconds = 5, timeout_seconds = 60, heartbeat_seconds = 30\<rparr> 100
      [(Inr \<lparr>status_repo_id = ''r'', status_current_head = None, status_items = []\<rparr>, 160)]) = Some r"
proof -
  let ?options = "\<lparr>poll_seconds = 5, timeout_seconds = 60, heartbeat_seconds = 30\<rparr>"
  have "validate_wait_options ?options = Inr ()" by (simp add: validate_wait_options_def)
  from wait_returns [OF this, of "[(Inr \<lparr>status_repo_id = ''r'', status_current_head = None, status_items = []\<rparr>, 160)]" 100
      "''r''"] show ?thesis by auto
qed

end
