(* ===== verification/Start_Properties.thy ===== *)
theory Start_Properties
  imports Audit_Runs Status_Properties
begin

section \<open>Properties of starting audit runs\<close>

text \<open>
  Which requests a batch sends, what it records, and how the guard before a start and the ledger
  work together so that a run this client has started is not started again.
\<close>

subsection \<open>What one audit of a batch does\<close>

definition startable :: "start_one_state \<Rightarrow> string \<Rightarrow> bool" where
  "startable state key \<longleftrightarrow>
     (let current = rerun_current_head (start_rerun state) in
      (\<forall>r \<in> set (start_runs state). run_action_key r = Some key \<and> is_active_run r
          \<longrightarrow> current \<noteq> None \<and> run_current_head r \<notin> {None, current})
      \<and> (current = None \<or> rerun_audited_heads (start_rerun state) key \<noteq> current))"

lemma startable_iff:
  "startable state key \<longleftrightarrow>
     current_head_active_runs (active_runs_for_action (start_runs state) key) (rerun_current_head (start_rerun state)) = []
     \<and> out_of_date (rerun_current_head (start_rerun state)) (rerun_audited_heads (start_rerun state) key) \<noteq> Some False"
  by (auto simp: startable_def Let_def current_head_active_runs_def active_runs_for_action_def out_of_date_def
      filter_empty_conv)

definition request_for :: "start_audits_context \<Rightarrow> audit_run_request \<Rightarrow> bool" where
  "request_for context q \<longleftrightarrow> request_repo_id q = context_repo_id context
     \<and> request_project_id q = context_project_id context"

text \<open>The accounting of a computation: the requests it appends.\<close>

definition sends :: "(audit_run_request list \<Rightarrow> bool) \<Rightarrow> 'a audit_io \<Rightarrow> bool" where
  "sends P m \<longleftrightarrow> (\<forall>w. \<exists>qs. requests (snd (m w)) = requests w @ qs \<and> P qs)"

lemma sendsD: "sends P m \<Longrightarrow> m w = (r, t) \<Longrightarrow> \<exists>qs. requests t = requests w @ qs \<and> P qs"
  unfolding sends_def by (metis snd_conv)

definition quiet :: "audit_world \<Rightarrow> audit_world \<Rightarrow> bool" where
  "quiet s t \<longleftrightarrow> requests t = requests s"

lemma quiet_preorder: "preorder_rel quiet"
  by (auto simp: preorder_rel_def quiet_def)

lemma quiet_steps: "keeps quiet (on_ledger m)" "keeps quiet (read_clock_now g)"
  by (auto simp: keeps_def quiet_def on_ledger_def read_clock_now_def Let_def split: prod.split)

lemma record_started_run_quiet: "keeps quiet (record_started_run g started)"
  unfolding record_started_run_def by (intro keeps_intros quiet_preorder quiet_steps)

lemma current_active_runs_quiet: "keeps quiet (current_active_runs g repo)"
  unfolding current_active_runs_def by (intro keeps_intros quiet_preorder quiet_steps)

lemma record_started_run_requests: "record_started_run g started w = (r, t) \<Longrightarrow> requests t = requests w"
  using keepsD [OF record_started_run_quiet] by (simp add: quiet_def)

definition start_request :: "start_audits_context \<Rightarrow> audit_definition \<Rightarrow> audit_task_body \<Rightarrow> audit_run_request" where
  "start_request context audit body = \<lparr>request_repo_id = context_repo_id context,
     request_project_id = context_project_id context, request_action_key = audit_action_key audit,
     request_task_body = body\<rparr>"

text \<open>A guarded audit sends nothing, an audit without a task body neither, and any other one exactly
  one request.\<close>

lemma start_one_requests:
  assumes "start_one_audit g context state audit w = (r, t)"
  shows "requests t = requests w @
    (if startable state (audit_action_key audit)
     then (case audit_run_task_body g context (start_project state) (audit_action_key audit) of
         Inl e \<Rightarrow> [] | Inr body \<Rightarrow> [start_request context audit body])
     else [])"
proof (cases "startable state (audit_action_key audit)")
  case False
  then show ?thesis
    using assms unfolding startable_iff start_one_audit_def Let_def
    by (auto simp: bindM_def liftM_def retM_def split: if_splits sum.splits)
next
  case True
  note guards = True [unfolded startable_iff]
  show ?thesis
  proof (cases "audit_run_task_body g context (start_project state) (audit_action_key audit)")
    case (Inl e)
    with assms guards True show ?thesis
      unfolding start_one_audit_def Let_def by (auto simp: retM_def throwM_def split: if_splits)
  next
    case (Inr body)
    have "requests t = requests w @ [start_request context audit body]"
      using assms guards Inr unfolding start_one_audit_def Let_def
      by (auto simp: send_start_def start_request_def thenM_def retM_def dest!: record_started_run_requests
          split: sum.splits if_splits elim!: bindM_E)
    with True Inr show ?thesis by simp
  qed
qed

lemma start_one_sends:
  "sends (\<lambda>qs. qs = [] \<or> (\<exists>q. qs = [q] \<and> request_for context q \<and> request_action_key q = audit_action_key audit
     \<and> startable state (audit_action_key audit))) (start_one_audit g context state audit)"
  unfolding sends_def
proof
  fix w
  show "\<exists>qs. requests (snd (start_one_audit g context state audit w)) = requests w @ qs
    \<and> (qs = [] \<or> (\<exists>q. qs = [q] \<and> request_for context q \<and> request_action_key q = audit_action_key audit
       \<and> startable state (audit_action_key audit)))"
    using start_one_requests [of g "context" state audit w, OF prod.collapse [symmetric]]
    by (auto simp: request_for_def start_request_def split: if_splits sum.splits)
qed

lemma start_batch_sends:
  "sends (\<lambda>qs. length qs \<le> length audits
     \<and> (\<forall>q \<in> set qs. request_for context q \<and> startable state (request_action_key q)
          \<and> request_action_key q \<in> audit_action_key ` set audits)) (mapM (start_one_audit g context state) audits)"
proof (induction audits)
  case Nil
  then show ?case by (simp add: sends_def retM_def)
next
  case (Cons a audits)
  let ?P = "\<lambda>audits qs. length qs \<le> length audits \<and> (\<forall>q \<in> set qs. request_for context q
      \<and> startable state (request_action_key q) \<and> request_action_key q \<in> audit_action_key ` set audits)"
  have "\<exists>qs. requests t = requests w @ qs \<and> ?P (a # audits) qs"
    if run: "mapM (start_one_audit g context state) (a # audits) w = (r, t)" for w r t
  proof -
    from run have "bindM (start_one_audit g context state a)
        (\<lambda>y. bindM (mapM (start_one_audit g context state) audits) (\<lambda>ys. retM (y # ys))) w = (r, t)" by simp
    then show ?thesis
    proof (cases rule: bindM_E)
      case (raised e)
      with sendsD [OF start_one_sends raised(1)] show ?thesis by auto
    next
      case (continued x v)
      obtain qs where qs: "requests v = requests w @ qs" "?P [a] qs"
        using sendsD [OF start_one_sends continued(1)] by auto
      obtain r' where "mapM (start_one_audit g context state) audits v = (r', t)"
        using continued(2) by (auto simp: retM_def elim: bindM_E)
      from sendsD [OF Cons.IH this] obtain qs' where "requests t = requests v @ qs'" "?P audits qs'" by blast
      with qs have "requests t = requests w @ (qs @ qs')" "?P (a # audits) (qs @ qs')" by auto
      then show ?thesis by blast
    qed
  qed
  then show ?case unfolding sends_def by (metis prod.collapse)
qed

text \<open>The steps of a batch that reached its audits.\<close>

lemma start_audits_E:
  assumes "start_audits_for_target g context w = (r, t)"
  obtains (aborted) "requests t = requests w"
  | (batch) rerun runs target u where "gateway_rerun_state g (context_repo_id context) = Inr rerun"
      "current_active_runs g (context_repo_id context) w = (Inr runs, u)" "requests u = requests w"
      "start_batch g context \<lparr>start_rerun = rerun, start_runs = runs, start_project = target\<rparr> u = (r, t)"
proof -
  from assms show ?thesis unfolding start_audits_for_target_def
  proof (cases rule: bindM_E)
    case (raised e)
    then show ?thesis by (intro aborted) (simp add: liftM_def)
  next
    case (continued rerun v)
    then have rerun: "gateway_rerun_state g (context_repo_id context) = Inr rerun" "v = w" by (simp_all add: liftM_def)
    from continued(2) show ?thesis
    proof (cases rule: bindM_E)
      case (raised e)
      with keepsD [OF current_active_runs_quiet raised(1)] rerun(2) show ?thesis by (intro aborted) (simp add: quiet_def)
    next
      case (continued runs u)
      then have u: "requests u = requests w"
        using keepsD [OF current_active_runs_quiet continued(1)] rerun(2) by (simp add: quiet_def)
      from continued(2) show ?thesis
      proof (cases rule: bindM_E)
        case (raised e)
        with u show ?thesis by (intro aborted) (simp add: liftM_def)
      next
        case inner: (continued target u')
        then have "u' = u" by (simp add: liftM_def)
        with inner(2) continued(1) rerun u show ?thesis by (intro batch) simp_all
      qed
    qed
  qed
qed


subsection \<open>What a batch records\<close>

definition tracked :: "slot_state \<Rightarrow> string \<Rightarrow> string \<Rightarrow> string option \<Rightarrow> bool" where
  "tracked l repo key task \<longleftrightarrow>
     (\<exists>e \<in> set (held l). entry_repo_id e = repo \<and> entry_audit_key e = key \<and> entry_task_id e = task)"

text \<open>What the batch needs of its surroundings: clock readings in the calendar, and other processes
  that do not drop entries while the batch runs.\<close>

definition orderly :: "audit_gateway \<Rightarrow> bool" where
  "orderly g \<longleftrightarrow> (\<forall>n. 0 \<le> clock g n \<and> clock g n + max 0 (ttl_seconds g * micros_per_second) < max_ordinal * micros_per_day
       \<and> 0 \<le> clock g n + ttl_seconds g * micros_per_second)
     \<and> (\<forall>n > MAX_LOOKUP_ROUNDS. \<forall>l. set (held l) \<subseteq> set (held (interference g n l)))"

lemma tracked_recorded:
  assumes "entry_wf e" and "record_started e l = (Inr (), l')"
  shows "tracked l' (entry_repo_id e) (entry_audit_key e) (entry_task_id e)"
    and "tracked l repo key task \<Longrightarrow> tracked l' repo key task"
proof -
  note held = record_started_held [OF assms]
  show "tracked l' (entry_repo_id e) (entry_audit_key e) (entry_task_id e)" by (auto simp: tracked_def held)
  assume "tracked l repo key task"
  then show "tracked l' repo key task"
    by (fastforce simp: tracked_def held same_identity_def split: if_splits)
qed

lemma record_started_run_tracked:
  assumes "record_started_run g started w = (Inr (), t)" and "orderly g"
    and "start_repo_id started \<noteq> []" and "start_project_id started \<noteq> []" and "start_action_key started \<noteq> []"
  shows "tracked (ledger t) (start_repo_id started) (start_action_key started) (start_task_id started)
    \<and> (tracked (ledger w) repo key task \<longrightarrow> tracked (ledger t) repo key task)"
proof -
  let ?e = "new_entry started (clock g (clock_readings w)) None (ttl_seconds g)"
  let ?l = "interference g (Suc MAX_LOOKUP_ROUNDS + length (requests w)) (ledger w)"
  have run: "record_started ?e ?l = (Inr (), ledger t)"
    using assms(1) by (auto simp: record_started_run_def read_clock_now_def getM_def putM_def on_ledger_def
        bindM_def thenM_def Let_def split: prod.splits sum.splits)
  have wf: "entry_wf ?e"
    using assms(2-5) unfolding orderly_def by (auto simp: entry_wf_def new_entry_def max_def split: if_splits)
       (smt (verit))+
  have "set (held (ledger w)) \<subseteq> set (held ?l)" using assms(2)
    unfolding orderly_def by (metis less_add_Suc1 add_Suc)
  then have "tracked (ledger w) repo key task \<Longrightarrow> tracked ?l repo key task" by (auto simp: tracked_def)
  with tracked_recorded [OF wf run] show ?thesis by (simp add: new_entry_def)
qed

lemma start_one_tracked:
  assumes "start_one_audit g context state audit w = (Inr i, t)" and "orderly g"
    and "context_repo_id context \<noteq> []" and "context_project_id context \<noteq> []" and "audit_action_key audit \<noteq> []"
  shows "(batch_state i = Started \<longrightarrow> tracked (ledger t) (context_repo_id context) (batch_action_key i) (batch_task_id i))
    \<and> (tracked (ledger w) repo key task \<longrightarrow> tracked (ledger t) repo key task)"
proof (cases "startable state (audit_action_key audit)")
  case False
  then have "ledger t = ledger w \<and> batch_state i \<noteq> Started"
    using assms(1) unfolding startable_iff start_one_audit_def Let_def
    by (auto simp: bindM_def liftM_def retM_def batch_result_item_def split: if_splits sum.splits)
  then show ?thesis by simp
next
  case True
  note guards = True [unfolded startable_iff]
  show ?thesis
  proof (cases "audit_run_task_body g context (start_project state) (audit_action_key audit)")
    case (Inl e)
    then have "ledger t = ledger w \<and> batch_state i \<noteq> Started"
      using assms(1) guards unfolding start_one_audit_def Let_def
      by (auto simp: retM_def throwM_def batch_result_item_def split: if_splits)
    then show ?thesis by simp
  next
    case (Inr body)
    let ?q = "start_request context audit body"
    let ?v = "w\<lparr>requests := requests w @ [?q]\<rparr>"
    show ?thesis
    proof (cases "gateway_start g (requests w) ?q")
      case (Inl e)
      then have "ledger t = ledger w \<and> batch_state i \<noteq> Started"
        using assms(1) guards Inr unfolding start_one_audit_def Let_def
        by (auto simp: send_start_def start_request_def batch_result_item_def split: if_splits)
      then show ?thesis by simp
    next
      case inner: (Inr response)
      let ?started = "\<lparr>start_repo_id = context_repo_id context, start_project_id = context_project_id context,
        start_action_key = audit_action_key audit, start_task_id = result_task_id response,
        start_task_status = result_status response, start_current_head = rerun_current_head (start_rerun state),
        start_audited_head = rerun_audited_heads (start_rerun state) (audit_action_key audit)\<rparr>"
      have run: "record_started_run g ?started ?v = (Inr (), t)"
        and i: "batch_action_key i = audit_action_key audit" "batch_task_id i = result_task_id response"
        using assms(1) guards Inr inner unfolding start_one_audit_def Let_def
        by (auto simp: send_start_def start_request_def batch_result_item_def thenM_def retM_def elim!: bindM_InrE)
      show ?thesis
        using record_started_run_tracked [OF run assms(2)] assms(3-5) i by simp
    qed
  qed
qed

lemma start_batch_tracked:
  assumes "mapM (start_one_audit g context state) audits w = (Inr items, t)" and "orderly g"
    and "context_repo_id context \<noteq> []" and "context_project_id context \<noteq> []"
    and "\<forall>a \<in> set audits. audit_action_key a \<noteq> []"
  shows "(\<forall>i \<in> set items. batch_state i = Started
        \<longrightarrow> tracked (ledger t) (context_repo_id context) (batch_action_key i) (batch_task_id i))
    \<and> (\<forall>repo key task. tracked (ledger w) repo key task \<longrightarrow> tracked (ledger t) repo key task)"
  using assms(1,5)
proof (induction audits arbitrary: w items)
  case Nil
  then show ?case by (simp add: retM_def)
next
  case (Cons a audits)
  from Cons.prems(1) obtain i v rest_items where a: "start_one_audit g context state a w = (Inr i, v)"
    and rest: "mapM (start_one_audit g context state) audits v = (Inr rest_items, t)" and items: "items = i # rest_items"
    by (auto simp: retM_def elim!: bindM_InrE)
  from Cons.prems(2) have key: "audit_action_key a \<noteq> []" "\<forall>a \<in> set audits. audit_action_key a \<noteq> []" by simp_all
  note IH = Cons.IH [OF rest key(2)]
  show ?case using start_one_tracked [OF a assms(2-4) key(1)] IH unfolding items by simp
qed

subsection \<open>What the ledger reports\<close>

lemma reconcile_entry_projected:
  "outcome_projected (reconcile_entry grace e result now has) = Some r
    \<Longrightarrow> \<exists>d. r = project e d \<and> (\<forall>x. d = Some x \<longrightarrow> entry_task_id e \<noteq> None \<and> result = Some (TaskFound x))"
  by (auto simp: reconcile_entry_def Let_def split: option.splits task_lookup_result.splits if_splits)

lemma outcome_run_projected:
  assumes "outcome_run (entry_outcome grace repo upstream cache now e) = Some r"
  shows "\<exists>d. r = project e d
    \<and> (\<forall>x. d = Some x \<longrightarrow> (\<exists>q. entry_task_id e = Some q \<and> map_of cache q = Some (TaskFound x)))"
proof -
  let ?result = "case entry_task_id e of None \<Rightarrow> None | Some t \<Rightarrow> map_of cache t"
  from assms obtain has where "outcome_projected (reconcile_entry grace e ?result now has) = Some r"
    by (auto simp: entry_outcome_def split: if_splits)
  from reconcile_entry_projected [OF this] obtain d where "r = project e d"
    "\<And>x. d = Some x \<Longrightarrow> entry_task_id e \<noteq> None \<and> ?result = Some (TaskFound x)" by blast
  then show ?thesis by (intro exI [of _ d]) (auto split: option.splits)
qed

text \<open>The row of a held run is the projection of its entry, when no other entry has its task id.\<close>

lemma held_run_reported:
  assumes "reconcile grace repo upstream lookup interfere now s = (Inr runs, t)"
    and "\<And>q d. lookup q = Inr d \<Longrightarrow> detail_task_id d = q"
    and "e \<in> set (held t)" and "entry_repo_id e = repo" and "entry_task_id e = Some task"
    and "\<forall>x \<in> set (held t). entry_task_id x = Some task \<longrightarrow> x = e"
  shows "\<exists>r \<in> set runs. is_active_run r \<and> run_action_key r = Some (entry_audit_key e)
    \<and> run_current_head r = entry_current_head e"
proof -
  obtain cache u c where cache: "answers lookup cache"
    and commit: "commit_reconciliation grace repo upstream cache now u = (Inr c, t)"
    and dedupe: "dedupe_runs (commit_projected c
       @ filter (\<lambda>r. case run_task_id r of None \<Rightarrow> True | Some q \<Rightarrow> q \<notin> set (commit_suppressed c)) upstream) = Inr runs"
    using reconcile_steps [OF assms(1)] .
  let ?decide = "entry_outcome grace repo upstream cache now"
  note c = commit_returned [OF commit]
  have found: "detail_task_id d = q" if "map_of cache q = Some (TaskFound d)" for q d
    using that cache assms(2) [of q d] by (auto simp: answers_def dest!: map_of_SomeD)
  from c assms(3) have e: "e \<in> set (held u)" "outcome_keeps (?decide e)" by auto
  obtain r where r: "outcome_run (?decide e) = Some r" "run_task_id r = Some task" "is_active_run r"
    using kept_entry_projected [OF e(2) assms(4,5) found] by blast
  have suppressed: "task \<in> set (commit_suppressed c)"
  proof -
    have "outcome_suppresses (?decide e) = Some task"
      using e(2) assms(4,5) by (auto simp: entry_outcome_def reconcile_entry_def Let_def
          split: option.splits task_lookup_result.splits if_splits)
    with c e(1) show ?thesis by (auto simp: set_map_filter)
  qed
  have "r \<in> set (commit_projected c)" using c e(1) r(1) by (auto simp: set_map_filter)
  then obtain r' where r': "r' \<in> set runs" "run_identity r' = run_identity r" "is_active_run r'"
    using dedupe_member [OF dedupe, of r] r(3) by auto
  then have task: "run_task_id r' = Some task" using r(2) by (auto simp: run_identity_def split: if_splits)
  have "r' \<in> set (commit_projected c)"
    using dedupe_distinct [OF dedupe] r'(1) task suppressed by auto
  then obtain e' where e': "e' \<in> set (held u)" "outcome_run (?decide e') = Some r'" using c by (auto simp: set_map_filter)
  have kept: "outcome_keeps (?decide e')" using e'(2) by (cases "?decide e'") (auto split: if_splits)
  have fields: "run_action_key r' = Some (entry_audit_key e') \<and> run_current_head r' = entry_current_head e'
      \<and> (run_task_id r' = Some task \<longrightarrow> entry_task_id e' = Some task)"
  proof -
    obtain d where d: "r' = project e' d"
      "\<forall>x. d = Some x \<longrightarrow> (\<exists>q. entry_task_id e' = Some q \<and> map_of cache q = Some (TaskFound x))"
      using outcome_run_projected [OF e'(2)] by blast
    then show ?thesis using found by (cases d) (auto simp: project_def or_opt_def split: if_splits)
  qed
  have "e' \<in> set (held t)" using c e'(1) kept by simp
  with assms(6) fields task have "e' = e" by blast
  with fields r'(1,3) show ?thesis by blast
qed

subsection \<open>A sample service\<close>

definition sample_project :: audit_project where
  "sample_project = \<lparr>audit_project_id = ''p'', audit_repositories = [\<lparr>repository_id = ''r'',
     repository_provider = ''github'', repository_locator = ''o/r'', repository_connected = True,
     repository_web_url = None\<rparr>], linked_websites = []\<rparr>"

definition sample_gateway :: audit_gateway where
  "sample_gateway = \<lparr>gateway_active_runs = \<lambda>_. Inr [], gateway_rerun_state = \<lambda>_. Inr sample_rerun,
     gateway_task_detail = sample_lookup,
     gateway_runbook = \<lambda>b. Inr \<lparr>runbook_id = b, runbook_title = None, runbook_description = None,
       suggested_flow = None, suggested_flow_config = []\<rparr>,
     gateway_start = \<lambda>sent q. Inr \<lparr>result_task_id = Some ''t9'', result_status = Some ''queued''\<rparr>,
     gateway_project = \<lambda>_. Inr sample_project, interference = \<lambda>_. id, clock = \<lambda>_. 63902908800000000,
     grace_seconds = 300, ttl_seconds = 21600\<rparr>"

definition sample_context :: "audit_definition list \<Rightarrow> start_audits_context" where
  "sample_context audits = \<lparr>context_repo_id = ''r'', context_project_id = ''p'', context_audits = audits,
     context_catalog = sample_catalog\<rparr>"

abbreviation tests_audit :: audit_definition where
  "tests_audit \<equiv> sample_audit ''audit.tests'' (Some ''quality'')"

definition world_with :: "slot_state \<Rightarrow> audit_world" where
  "world_with l = \<lparr>ledger = l, clock_readings = 0, requests = []\<rparr>"

lemma sample_orderly: "orderly sample_gateway"
  by (simp add: orderly_def sample_gateway_def max_ordinal_def micros_per_day_def micros_per_second_def)

lemma sample_body: "\<exists>body. audit_run_task_body sample_gateway (sample_context audits) sample_project ''audit.tests'' = Inr body"
proof -
  have "py_strip ''rb'' \<noteq> []" "py_strip ''o/r'' \<noteq> []" "py_strip ''report'' \<noteq> []" "py_strip ''1'' \<noteq> []" by code_simp+
  then show ?thesis
    by (simp add: audit_run_task_body_def sample_context_def sample_catalog_def sample_audit_def sample_gateway_def
        task_for_repo_def sample_project_def or_str_def Let_def)
qed

text \<open>The ledger with the sample entry reports it as a running task.\<close>

lemma sample_active_runs:
  "current_active_runs sample_gateway ''r'' (world_with sample_ledger)
    = (Inr [project sample_entry (Some (projr (sample_lookup ''t1'')))], world_with sample_ledger\<lparr>clock_readings := 1\<rparr>)"
  using sample_reconcile_run unfolding sample_reconcile_def id_def
  by (simp add: current_active_runs_def bindM_def liftM_def read_clock_now_def on_ledger_def world_with_def
      sample_gateway_def id_def)

lemma missing_active_runs:
  "current_active_runs sample_gateway ''r'' (world_with missing_file)
    = (Inr [], world_with missing_file\<lparr>clock_readings := 1\<rparr>)"
proof -
  have read: "transaction read_ledger missing_file = (Inr [], missing_file)"
    by (rule transaction_calm) (simp_all add: missing_file_def read_ledger_def)
  have "lookup_rounds MAX_LOOKUP_ROUNDS ''r'' n sample_lookup (\<lambda>_. id) [] missing_file = (Inr [], missing_file)" for n
    by (simp add: MAX_LOOKUP_ROUNDS_def numeral_3_eq_3 pending_lookups_def bindM_def read retM_def dedup_def
        List.map_filter_simps)
  moreover have "commit_reconciliation 300 ''r'' [] [] n missing_file
      = (Inr \<lparr>commit_projected = [], commit_suppressed = []\<rparr>, missing_file)" for n
    unfolding commit_reconciliation_def
    by (rule transaction_calm) (simp_all add: missing_file_def read_ledger_def bindM_def thenM_def retM_def
        List.map_filter_simps)
  ultimately show ?thesis
    by (simp add: current_active_runs_def bindM_def liftM_def read_clock_now_def on_ledger_def world_with_def
        sample_gateway_def reconcile_def thenM_def putM_def dedupe_runs_def group_by_def)
qed

lemma sample_startable:
  "startable \<lparr>start_rerun = sample_rerun, start_runs = [], start_project = sample_project\<rparr> ''audit.tests''"
  by (simp add: startable_def sample_rerun_def)

text \<open>Recording works while the ledger can be read and nothing fails.\<close>

lemma record_started_run_calm:
  assumes "snd (ledger w) = []" and "read_ledger (ledger w) = (Inr es, ledger w)" and "list_all entry_wf es"
    and "entry_wf (new_entry started 63902908800000000 None 21600)"
  shows "\<exists>t es'. record_started_run sample_gateway started w = (Inr (), t) \<and> snd (ledger t) = []
    \<and> read_ledger (ledger t) = (Inr es', ledger t) \<and> list_all entry_wf es'"
proof -
  let ?e = "new_entry started 63902908800000000 None 21600"
  let ?es = "filter (\<lambda>x. \<not> same_identity x ?e) es @ [?e]"
  let ?l = "(fst (ledger w)\<lparr>content := Document (ledger_payload ?es), temporary := False, synced := True\<rparr>, [])"
  have "bindM read_ledger (\<lambda>es. write_ledger (filter (\<lambda>x. \<not> same_identity x ?e) es @ [?e])) (ledger w) = (Inr (), ?l)"
    using assms(1,2) write_ledger_calm [of ?es "fst (ledger w)"] by (simp add: bindM_def) (metis prod.collapse)
  from transaction_calm [of "ledger w" "bindM read_ledger
      (\<lambda>es. write_ledger (filter (\<lambda>x. \<not> same_identity x ?e) es @ [?e]))" "Inr ()" ?l] assms(1) this have "record_started ?e (ledger w) = (Inr (), ?l)"
    by (simp add: record_started_def)
  then have "record_started_run sample_gateway started w
      = (Inr (), w\<lparr>clock_readings := clock_readings w + 1, ledger := ?l\<rparr>)"
    by (simp add: record_started_run_def read_clock_now_def getM_def putM_def on_ledger_def bindM_def thenM_def
        sample_gateway_def)
  moreover have wf: "list_all entry_wf ?es" using assms(3,4) by (auto simp: list_all_iff)
  have "read_ledger ?l = (Inr ?es, ?l)" by (rule read_written [OF _ wf]) simp
  ultimately show ?thesis using wf by (intro exI conjI) auto
qed

lemma sample_start_one:
  assumes "snd (ledger w) = []" and "read_ledger (ledger w) = (Inr es, ledger w)" and "list_all entry_wf es"
  shows "\<exists>i t es'. start_one_audit sample_gateway (sample_context audits)
      \<lparr>start_rerun = sample_rerun, start_runs = [], start_project = sample_project\<rparr> tests_audit w = (Inr i, t)
    \<and> batch_state i = Started \<and> snd (ledger t) = []
    \<and> read_ledger (ledger t) = (Inr es', ledger t) \<and> list_all entry_wf es'"
proof -
  obtain body where body: "audit_run_task_body sample_gateway (sample_context audits) sample_project ''audit.tests'' = Inr body"
    using sample_body by blast
  let ?started = "\<lparr>start_repo_id = ''r'', start_project_id = ''p'', start_action_key = ''audit.tests'',
    start_task_id = Some ''t9'', start_task_status = Some ''queued'', start_current_head = Some ''h2'',
    start_audited_head = Some ''h1''\<rparr>"
  let ?w = "w\<lparr>requests := requests w @ [start_request (sample_context audits) tests_audit body]\<rparr>"
  have "entry_wf (new_entry ?started 63902908800000000 None 21600)"
    by (simp add: entry_wf_def new_entry_def max_ordinal_def micros_per_day_def micros_per_second_def)
  from record_started_run_calm [of ?w, OF _ _ assms(3) this] assms(1,2)
  obtain t es' where t: "record_started_run sample_gateway ?started ?w = (Inr (), t)" "snd (ledger t) = []"
    "read_ledger (ledger t) = (Inr es', ledger t)" "list_all entry_wf es'" by auto
  note guards = sample_startable [unfolded startable_iff]
  have "gateway_start sample_gateway sent q = Inr \<lparr>result_task_id = Some ''t9'', result_status = Some ''queued''\<rparr>" for sent q
    by (simp add: sample_gateway_def)
  then have "start_one_audit sample_gateway (sample_context audits)
      \<lparr>start_rerun = sample_rerun, start_runs = [], start_project = sample_project\<rparr> tests_audit w
    = (Inr (batch_result_item ''audit.tests'' Started (Some ''h2'', Some ''h1'') (Some ''t9'', Some ''queued'') None), t)"
    using guards body t(1) unfolding start_one_audit_def Let_def
    by (simp add: sample_audit_def send_start_def start_request_def sample_context_def sample_rerun_def thenM_def
        bindM_def retM_def)
  with t show ?thesis by (auto simp: batch_result_item_def)
qed

lemma missing_readable:
  "snd (ledger (world_with missing_file\<lparr>clock_readings := 1\<rparr>)) = []"
  "read_ledger (ledger (world_with missing_file\<lparr>clock_readings := 1\<rparr>))
    = (Inr [], ledger (world_with missing_file\<lparr>clock_readings := 1\<rparr>))"
  by (simp_all add: world_with_def missing_file_def read_ledger_def)

lemma entries_none: "list_all entry_wf []"
  by simp

lemma sample_start:
  obtains i t where "start_audits_for_target sample_gateway (sample_context [tests_audit]) (world_with missing_file)
      = (Inr [i], t)" and "batch_state i = Started"
proof -
  obtain i t where i: "start_one_audit sample_gateway (sample_context [tests_audit])
      \<lparr>start_rerun = sample_rerun, start_runs = [], start_project = sample_project\<rparr> tests_audit
      (world_with missing_file\<lparr>clock_readings := 1\<rparr>) = (Inr i, t)" "batch_state i = Started"
    using sample_start_one [OF missing_readable entries_none, of "[tests_audit]"] by blast
  have parts: "context_repo_id (sample_context audits) = ''r''" "context_audits (sample_context audits) = audits" for audits
    by (simp_all add: sample_context_def)
  have answers: "gateway_rerun_state sample_gateway x = Inr sample_rerun" "gateway_project sample_gateway x = Inr sample_project" for x
    by (simp_all add: sample_gateway_def)
  have "start_audits_for_target sample_gateway (sample_context [tests_audit]) (world_with missing_file) = (Inr [i], t)"
    using i(1) missing_active_runs
    by (simp add: start_audits_for_target_def start_batch_def parts answers bindM_def liftM_def retM_def)
  with i(2) that show ?thesis by blast
qed

subsection \<open>Properties\<close>



text \<open>C13: The ledger and the guard together: while an entry of the ledger stands for a run of an audit on the
  current head (or on an unknown one) and no other entry has its task id, no batch sends a start
  request for that audit, whatever the service projects as active.\<close>

theorem held_run_not_restarted:
  assumes "start_audits_for_target g context w = (r, t)"
    and "current_active_runs g (context_repo_id context) w = (Inr runs, u)"
    and "\<forall>q d. gateway_task_detail g q = Inr d \<longrightarrow> detail_task_id d = q"
    and "gateway_rerun_state g (context_repo_id context) = Inr rerun"
    and "e \<in> set (held (ledger u))" and "entry_repo_id e = context_repo_id context"
    and "entry_task_id e = Some task" and "\<forall>x \<in> set (held (ledger u)). entry_task_id x = Some task \<longrightarrow> x = e"
    and "rerun_current_head rerun = None \<or> entry_current_head e \<in> {None, rerun_current_head rerun}"
  shows "\<exists>qs. requests t = requests w @ qs \<and> entry_audit_key e \<notin> request_action_key ` set qs"
  using assms(1)
proof (cases rule: start_audits_E)
  case aborted
  then show ?thesis by simp
next
  case (batch rerun' runs' target u')
  with assms(2,4) have same: "rerun' = rerun" "runs' = runs" by simp_all
  obtain upstream now where "reconcile (grace_seconds g) (context_repo_id context) upstream (gateway_task_detail g)
      (interference g) now (ledger w) = (Inr runs, ledger u)"
    using assms(2) by (auto simp: current_active_runs_def liftM_def read_clock_now_def on_ledger_def Let_def
        elim!: bindM_InrE split: prod.splits)
  from held_run_reported [OF this _ assms(5,6,7,8)] assms(3) obtain x where x: "x \<in> set runs" "is_active_run x"
    "run_action_key x = Some (entry_audit_key e)" "run_current_head x = entry_current_head e" by blast
  then have "\<not> startable \<lparr>start_rerun = rerun, start_runs = runs, start_project = target\<rparr> (entry_audit_key e)"
    using assms(9) by (auto simp: startable_def Let_def)
  with sendsD [OF start_batch_sends batch(4) [unfolded start_batch_def]] batch(3) same show ?thesis by auto
qed

theorem held_run_not_restarted_witness:
  "''audit.tests'' \<notin> request_action_key `
     set (requests (snd (start_audits_for_target sample_gateway (sample_context [tests_audit]) (world_with sample_ledger))))"
proof -
  obtain r t where run: "start_audits_for_target sample_gateway (sample_context [tests_audit]) (world_with sample_ledger)
      = (r, t)"
    by (cases "start_audits_for_target sample_gateway (sample_context [tests_audit]) (world_with sample_ledger)")
  have "\<exists>qs. requests t = requests (world_with sample_ledger) @ qs \<and> entry_audit_key sample_entry \<notin> request_action_key ` set qs"
  proof (rule held_run_not_restarted [OF run])
    show "current_active_runs sample_gateway (context_repo_id (sample_context [tests_audit])) (world_with sample_ledger)
        = (Inr [project sample_entry (Some (projr (sample_lookup ''t1'')))], world_with sample_ledger\<lparr>clock_readings := 1\<rparr>)"
      using sample_active_runs by (simp add: sample_context_def)
    show "gateway_rerun_state sample_gateway (context_repo_id (sample_context [tests_audit])) = Inr sample_rerun"
      by (simp add: sample_gateway_def)
    show "\<forall>q d. gateway_task_detail sample_gateway q = Inr d \<longrightarrow> detail_task_id d = q"
      by (auto simp: sample_gateway_def sample_lookup_def)
  qed (auto simp: world_with_def sample_ledger_held sample_entry_def sample_context_def)
  with run show ?thesis by (simp add: world_with_def sample_entry_def)
qed



text \<open>An audit named twice in one batch is started twice: the active runs are read once, before the first
  start, so when both starts go through, the same request has been sent two times.\<close>

lemma repeated_audit_started_twice:
  assumes "start_batch g context state w = (Inr items, t)" and "context_audits context = [a, a]"
    and "startable state (audit_action_key a)"
    and "audit_run_task_body g context (start_project state) (audit_action_key a) = Inr body"
  shows "requests t = requests w @ [start_request context a body, start_request context a body]"
proof -
  obtain i v j where "start_one_audit g context state a w = (Inr i, v)" "start_one_audit g context state a v = (Inr j, t)"
    using assms(1,2) by (auto simp: start_batch_def retM_def elim!: bindM_InrE)
  from start_one_requests [OF this(1)] start_one_requests [OF this(2)] assms(3,4) show ?thesis by simp
qed

lemma repeated_audit_started_twice_witness:
  "\<exists>items t. start_batch sample_gateway (sample_context [tests_audit, tests_audit])
       \<lparr>start_rerun = sample_rerun, start_runs = [], start_project = sample_project\<rparr>
       (world_with missing_file\<lparr>clock_readings := 1\<rparr>) = (Inr items, t) \<and> length (requests t) = 2"
proof -
  let ?state = "\<lparr>start_rerun = sample_rerun, start_runs = [], start_project = sample_project\<rparr>"
  let ?batch = "sample_context [tests_audit, tests_audit]"
  let ?w = "world_with missing_file\<lparr>clock_readings := 1\<rparr>"
  obtain i u es where first: "start_one_audit sample_gateway ?batch ?state tests_audit ?w = (Inr i, u)"
    and u: "snd (ledger u) = []" "read_ledger (ledger u) = (Inr es, ledger u)" "list_all entry_wf es"
    using sample_start_one [OF missing_readable entries_none, of "[tests_audit, tests_audit]"] by blast
  obtain j t where second: "start_one_audit sample_gateway ?batch ?state tests_audit u = (Inr j, t)"
    using sample_start_one [OF u] by blast
  have run: "start_batch sample_gateway ?batch ?state ?w = (Inr [i, j], t)"
    using first second by (simp add: start_batch_def bindM_def retM_def) (simp add: sample_context_def bindM_def retM_def)
  obtain body where body: "audit_run_task_body sample_gateway ?batch (start_project ?state) (audit_action_key tests_audit) = Inr body"
    using sample_body by (auto simp: sample_audit_def)
  have "requests t = requests ?w @ [start_request ?batch tests_audit body, start_request ?batch tests_audit body]"
    by (rule repeated_audit_started_twice [OF run _ _ body])
       (simp_all add: sample_context_def sample_audit_def sample_startable)
  with run show ?thesis by (simp add: world_with_def)
qed

text \<open>The advice of a status can be refused: when one active run of a stale audit is on another head and
  another one on an unknown head, the status of the audit is blocked with the advice to start a run,
  but a start sends no request for it and reports it as running or queued already.\<close>

lemma blocked_advice_refused:
  assumes "published_audits catalog = [a]" and "rerun_current_head rerun = Some h"
    and "rerun_audited_heads rerun (audit_action_key a) = Some h'" and "h' \<noteq> h"
    and "is_active_run x" and "run_action_key x = Some (audit_action_key a)" and "run_current_head x = Some h''"
    and "h'' \<noteq> h" and "is_active_run y" and "run_action_key y = Some (audit_action_key a)" and "run_current_head y = None"
  shows "\<exists>s i. build_status repo catalog links [x, y] (Some rerun) = Inr s \<and> status_items s = [i]
    \<and> head_state (item_current_head i) = HeadBlocked \<and> head_action (item_current_head i) = StartRun
    \<and> (\<exists>b. start_one_audit g context \<lparr>start_rerun = rerun, start_runs = [x, y], start_project = target\<rparr> a w = (Inr b, w)
         \<and> batch_state b \<in> {AlreadyRunning, AlreadyQueued})"
proof -
  have shown: "run_by_action [x, y] (Some h) (audit_action_key a) = Some x"
    using assms by (simp add: run_by_action_def active_runs_for_action_def head_evidence_priority_def)
  have status: "\<exists>s i. build_status repo catalog links [x, y] (Some rerun) = Inr s \<and> status_items s = [i]
      \<and> head_state (item_current_head i) = HeadBlocked \<and> head_action (item_current_head i) = StartRun"
    using assms shown by (simp add: build_status_def status_item_def Let_def compare_heads_def current_head_status_def
        active_current_head_status_def head_status_def split: prod.split)
  let ?matching = "current_head_active_runs (active_runs_for_action [x, y] (audit_action_key a)) (rerun_current_head rerun)"
  have "?matching \<noteq> []" using assms by (simp add: current_head_active_runs_def active_runs_for_action_def)
  moreover from this obtain r where "representative_run ?matching = Inr r" using representative_exists by blast
  ultimately have "\<exists>b. start_one_audit g context \<lparr>start_rerun = rerun, start_runs = [x, y], start_project = target\<rparr> a w
      = (Inr b, w) \<and> batch_state b \<in> {AlreadyRunning, AlreadyQueued}"
    by (simp add: start_one_audit_def Let_def bindM_def liftM_def retM_def batch_result_item_def)
  with status show ?thesis by blast
qed

lemma blocked_advice_refused_witness:
  "\<exists>s i. build_status ''r'' sample_catalog [] [sample_run (Some ''h0''), sample_run None] (Some sample_rerun) = Inr s
     \<and> status_items s = [i] \<and> head_action (item_current_head i) = StartRun"
proof -
  have published: "published_audits sample_catalog = [tests_audit]" by (simp add: sample_catalog_def)
  have heads: "rerun_current_head sample_rerun = Some ''h2''"
    "rerun_audited_heads sample_rerun (audit_action_key tests_audit) = Some ''h1''" "''h1'' \<noteq> ''h2''"
    by (simp_all add: sample_rerun_def sample_audit_def)
  have run: "run_action_key (sample_run k) = Some (audit_action_key tests_audit)" "run_current_head (sample_run k) = k" for k
    by (simp_all add: sample_run_def sample_audit_def)
  have "''h0'' \<noteq> ''h2''" by simp
  from blocked_advice_refused [OF published heads sample_run_is_active run this sample_run_is_active run, of "''r''" "[]"]
  show ?thesis by blast
qed

end
