(* ===== verification/Portfolio_Selectors.thy ===== *)
theory Portfolio_Selectors
  imports Audit_Lifecycle Effects
begin

section \<open>Projects, repositories and their selectors (portfolio/models.py, scopes.py, selectors.py)\<close>

text \<open>
  The identity of a repository, the resolution of what an operator types to one project or one
  repository, and the explicit scopes of a write.  The service is a record of computations
  (\<open>portfolio\_gateway\<close>) over a state of its own; the similarity search behind the hints of an
  error message (\<open>difflib.get\_close\_matches\<close>) is an argument.
\<close>

subsection \<open>Models\<close>

datatype repository_provider = GitHub | GitLab

datatype identity_source = FromProvider | FromEnji

fun provider_value :: "repository_provider \<Rightarrow> string" where
  "provider_value GitHub = ''github''"
| "provider_value GitLab = ''gitlab''"

fun identity_source_value :: "identity_source \<Rightarrow> string" where
  "identity_source_value FromProvider = ''provider''"
| "identity_source_value FromEnji = ''enji''"

record repository_identity =
  identity_provider :: repository_provider
  identity_locator :: string
  identity_host :: string

definition MAX_PORT :: nat where
  "MAX_PORT = 65535"

text \<open>\<open>urlsplit("https://" + host)\<close>: tabs and line ends are dropped, the port follows the first
  colon.  A bracketed host is refused; Python refuses it too, but for the form
  \<open>[v1.name]\<close> that names no address.\<close>

definition canonical_host_port :: "string \<Rightarrow> string option" where
  "canonical_host_port host =
     (let kept = filter (\<lambda>c. char_code c \<notin> {9, 10, 13}) host in
      if CHR ''['' \<in> set kept \<or> CHR '']'' \<in> set kept then None
      else (case py_split_max 1 (CHR '':'') kept of
          [name, port] \<Rightarrow>
            if name = [] \<or> port = [] \<or> \<not> list_all decimal_char port then None
            else let n = decimal_value port in
              if 1 \<le> n \<and> n \<le> MAX_PORT then Some (py_casefold (py_lower name) @ '':'' @ show_nat n) else None
        | _ \<Rightarrow> None))"

definition HOST_MESSAGE :: string where
  "HOST_MESSAGE = ''repository host must be a canonical hostname''"

definition canonical_host :: "repository_provider \<Rightarrow> string \<Rightarrow> string result" where
  "canonical_host provider given =
     (let host = py_rstrip_by (\<lambda>c. c = CHR ''/'') (py_casefold (py_strip given)) in
      if host = [] \<or> (\<exists>c \<in> set ''/@?#''. c \<in> set host) then Inl (ValueError HOST_MESSAGE)
      else if CHR '':'' \<notin> set host then Inr host
      else if provider \<noteq> GitLab then Inl (ValueError HOST_MESSAGE)
      else (case canonical_host_port host of Some h \<Rightarrow> Inr h | None \<Rightarrow> Inl (ValueError HOST_MESSAGE)))"

text \<open>\<open>RepositoryIdentity.__post_init__\<close>: what a constructed identity carries.\<close>

definition make_identity :: "repository_provider \<Rightarrow> string \<Rightarrow> string \<Rightarrow> repository_identity result" where
  "make_identity provider given_locator given_host =
     bindR (canonical_host provider given_host) (\<lambda>host.
       let locator = py_strip given_locator; parts = py_split (CHR ''/'') locator in
       if locator = [] \<or> length parts < 2 \<or> starts_with locator ''/'' \<or> ends_with locator ''/'' \<or> [] \<in> set parts
       then Inl (ValueError ''repository locator must be a non-empty provider-native path'')
       else if provider = GitHub \<and> length parts \<noteq> 2
       then Inl (ValueError ''GitHub repository locator must contain exactly owner/name'')
       else Inr \<lparr>identity_provider = provider, identity_locator = locator, identity_host = host\<rparr>)"

definition canonical_locator :: "repository_identity \<Rightarrow> string" where
  "canonical_locator i =
     (if identity_provider i = GitHub then py_casefold (identity_locator i) else identity_locator i)"

definition canonical_key :: "repository_identity \<Rightarrow> string \<times> string \<times> string" where
  "canonical_key i = (provider_value (identity_provider i), identity_host i, canonical_locator i)"

definition identity_matches :: "repository_identity \<Rightarrow> repository_identity \<Rightarrow> bool" where
  "identity_matches i j = (canonical_key i = canonical_key j)"

record project_ref =
  project_ref_id :: string
  project_name :: "string option"

record repository_ref =
  repo_ref_id :: string
  repo_project_id :: string
  repo_project_name :: "string option"
  repo_identity :: repository_identity
  repo_web_url :: string
  repo_provider_id :: string
  repo_connected :: "bool option"
  repo_recon_done :: "bool option"
  repo_scores :: "(string \<times> rat option) list"
  repo_identity_source :: identity_source

definition stable_identity_key :: "repository_ref \<Rightarrow> string \<times> string \<times> string \<times> string" where
  "stable_identity_key r = (identity_source_value (repo_identity_source r),
     provider_value (identity_provider (repo_identity r)), identity_host (repo_identity r), repo_provider_id r)"

record project_detail =
  detail_project :: project_ref
  detail_repositories :: "repository_ref list"
  detail_websites :: "string list"
  detail_website_repos :: "string \<Rightarrow> string list"

record portfolio_active_run =
  active_repo_id :: string
  active_task_id :: "string option"
  active_action_key :: "string option"
  active_status :: "string option"
  active_created_at :: "string option"
  active_started_at :: "string option"
  active_completed_at :: "string option"

record move_preflight =
  move_allowed :: bool
  schedule_replacements :: "string list"
  move_message :: "string option"

subsection \<open>The service\<close>

record 's portfolio_gateway =
  list_projects :: "('s, project_ref list) io"
  read_project_detail :: "string \<Rightarrow> ('s, project_detail) io"
  project_active_runs :: "string \<Rightarrow> ('s, portfolio_active_run list) io"
  gateway_create_project :: "string \<Rightarrow> ('s, project_ref) io"
  gateway_rename_project :: "string \<Rightarrow> string \<Rightarrow> ('s, project_ref) io"
  gateway_delete_project :: "string \<Rightarrow> ('s, unit) io"
  gateway_add_repository :: "string \<Rightarrow> repository_identity \<Rightarrow> string option \<Rightarrow> ('s, repository_ref) io"
  gateway_remove_repository :: "string \<Rightarrow> string \<Rightarrow> ('s, unit) io"
  gateway_connect_repository :: "string \<Rightarrow> string \<Rightarrow> ('s, repository_ref) io"
  gateway_preflight_move :: "string \<Rightarrow> string \<Rightarrow> string \<Rightarrow> ('s, move_preflight) io"
  gateway_move_repository :: "string \<Rightarrow> string \<Rightarrow> string \<Rightarrow> ('s, repository_ref) io"

text \<open>A pool of independent reads: each finds the state the batch began with and leaves it; the
  results come in the order of the items, the first exception in that order is raised.\<close>

definition fanout_reads :: "('a \<Rightarrow> ('s, 'b) io) \<Rightarrow> 'a list \<Rightarrow> ('s, 'b list) io" where
  "fanout_reads read items s = (mapR (\<lambda>x. fst (read x s)) items, s)"

subsection \<open>Projects\<close>

definition project_matches :: "project_ref \<Rightarrow> string \<Rightarrow> bool" where
  "project_matches p selector = (py_casefold (project_ref_id p) = py_casefold selector
     \<or> (case project_name p of Some n \<Rightarrow> py_casefold n = py_casefold selector | None \<Rightarrow> False))"

definition project_candidates :: "project_ref list \<Rightarrow> string" where
  "project_candidates projects = py_join '', ''
     (map (\<lambda>p. if truthy (project_name p) then the (project_name p) @ '' ('' @ project_ref_id p @ '')''
        else project_ref_id p) projects)"

definition resolve_project :: "project_ref list \<Rightarrow> string option \<Rightarrow> project_ref result" where
  "resolve_project projects selector = (case selector of
       None \<Rightarrow> (case projects of
           [p] \<Rightarrow> Inr p
         | _ \<Rightarrow> Inl (ValueError (''project selector is ambiguous; pass --project. candidates: ''
               @ project_candidates projects)))
     | Some s \<Rightarrow> (case filter (\<lambda>p. project_matches p s) projects of
           [] \<Rightarrow> Inl (PortfolioNotFoundError (''project selector matched no projects: '' @ s @ ''. candidates: ''
               @ project_candidates projects))
         | [p] \<Rightarrow> Inr p
         | matches \<Rightarrow> Inl (ValueError (''project selector is ambiguous; pass --project. candidates: ''
               @ project_candidates matches))))"

subsection \<open>Repositories\<close>

definition provider_of :: "string \<Rightarrow> repository_provider option" where
  "provider_of name = (if name = ''github'' then Some GitHub else if name = ''gitlab'' then Some GitLab else None)"

definition selector_host_locator :: "string \<Rightarrow> (string \<times> string) result" where
  "selector_host_locator remainder = (case py_split_max 2 (CHR '':'') remainder of
       [host, locator] \<Rightarrow> Inr (host, locator)
     | [name, port, locator] \<Rightarrow>
         if \<not> py_isdigit port then Inl (ValueError ''repo selector has an invalid host port'')
         else bindR (py_int port) (\<lambda>n.
           if n < 1 \<or> n > MAX_PORT then Inl (ValueError ''repo selector has an invalid host port'')
           else Inr (name @ '':'' @ show_nat n, locator))
     | parts \<Rightarrow> Inr (hd parts, py_join '':'' (tl parts)))"

definition parse_repository_selector :: "string \<Rightarrow> repository_identity result" where
  "parse_repository_selector v =
     (let raw = py_strip v in
      if CHR ''@'' \<notin> set raw \<or> CHR '':'' \<notin> set raw
      then Inl (ValueError ''repo must include provider and host, such as github@github.com:owner/name'')
      else (case py_split_max 1 (CHR ''@'') raw of
          [prefix, remainder] \<Rightarrow> bindR (selector_host_locator remainder) (\<lambda>(host, locator).
            (case provider_of (py_casefold prefix) of
               None \<Rightarrow> Inl (ValueError (''unsupported repository provider: '' @ prefix))
             | Some provider \<Rightarrow>
                 (case make_identity provider (py_join ''/'' (map py_strip (py_split (CHR ''/'') locator))) host of
                    Inr i \<Rightarrow> Inr i
                  | Inl e \<Rightarrow> Inl (ValueError (''repo must be a '' @ provider_value provider @ '' provider-native path'')))))
        | _ \<Rightarrow> Inl (ValueError ''not enough values to unpack'')))"

definition repository_matches :: "repository_ref \<Rightarrow> string \<Rightarrow> bool" where
  "repository_matches r selector =
     (py_casefold (repo_ref_id r) = py_casefold selector
      \<or> (case parse_repository_selector selector of
           Inr i \<Rightarrow> identity_matches (repo_identity r) i | Inl e \<Rightarrow> False))"

definition repository_locator_matches :: "repository_ref \<Rightarrow> string \<Rightarrow> bool" where
  "repository_locator_matches r selector =
     (let v = py_strip selector in
      canonical_locator (repo_identity r) = (if identity_provider (repo_identity r) = GitHub then py_casefold v else v))"

definition repository_label :: "repository_ref \<Rightarrow> string" where
  "repository_label r = (let i = repo_identity r in
     provider_value (identity_provider i) @ ''@'' @ identity_host i @ '':'' @ identity_locator i)"

definition repository_candidate :: "repository_ref \<Rightarrow> string" where
  "repository_candidate r = repository_label r @ '' in '' @ or_str (repo_project_name r) (repo_project_id r)
     @ '' ('' @ repo_ref_id r @ '')''"

definition set_default :: "'k \<Rightarrow> 'v \<Rightarrow> ('k \<times> 'v) list \<Rightarrow> ('k \<times> 'v) list" where
  "set_default k v m = (if k \<in> fst ` set m then m else m @ [(k, v)])"

definition repository_hint :: "(string \<Rightarrow> string list \<Rightarrow> string list) \<Rightarrow> repository_ref list \<Rightarrow> string
    \<Rightarrow> string option \<Rightarrow> string" where
  "repository_hint close_matches scoped selector project =
     (let listing = (case project of None \<Rightarrow> ''run `status`'' | Some p \<Rightarrow> ''run `status --project '' @ p @ ''`'') in
      if scoped = [] then ''no repositories in scope; '' @ listing @ '' to list them''
      else
        let suggestions = fold (\<lambda>r m. set_default (py_casefold (repository_label r)) (repository_candidate r)
                (set_default (py_casefold (identity_locator (repo_identity r))) (repository_candidate r) m))
              (sort_key (\<lambda>r. (repository_label r, repo_ref_id r)) scoped) [];
            close = close_matches (py_casefold (py_strip selector)) (sort (map fst suggestions));
            listed = dedup (map (\<lambda>k. the (map_of suggestions k)) close) in
        if listed = [] then ''no close match; '' @ listing @ '' to list them''
        else ''did you mean: '' @ py_join '', '' (take 3 listed))"

definition in_project :: "string option \<Rightarrow> repository_ref \<Rightarrow> bool" where
  "in_project project r = (case project of
       None \<Rightarrow> True
     | Some p \<Rightarrow> py_casefold p \<in> {py_casefold (repo_project_id r), py_casefold (or_str (repo_project_name r) [])})"

definition resolve_repository :: "(string \<Rightarrow> string list \<Rightarrow> string list) \<Rightarrow> repository_ref list \<Rightarrow> string
    \<Rightarrow> string option \<Rightarrow> repository_ref result" where
  "resolve_repository close_matches targets selector project =
     (let scoped = filter (in_project project) targets;
          exact = filter (\<lambda>r. repository_matches r selector) scoped;
          matches = (if exact \<noteq> [] then exact else filter (\<lambda>r. repository_locator_matches r selector) scoped) in
      (case matches of
         [] \<Rightarrow> Inl (PortfolioNotFoundError (''repo selector matched no repos: '' @ selector @ ''. ''
               @ repository_hint close_matches scoped selector project))
       | [r] \<Rightarrow> Inr r
       | rs \<Rightarrow> Inl (ValueError (''repo selector is ambiguous: '' @ selector @ ''. candidates: ''
               @ py_join '', '' (map repository_candidate rs)))))"

definition validated_project_name :: "string \<Rightarrow> string result" where
  "validated_project_name name = (let v = py_strip name in
     if v = [] then Inl (ValueError ''project name must not be empty'') else Inr v)"

subsection \<open>Scopes of a write\<close>

datatype mutation_scope =
    OneRepo string "string option"
  | AllRepos string
  | AllProjects

definition scope_from_args :: "string option \<Rightarrow> string option \<Rightarrow> bool \<Rightarrow> bool \<Rightarrow> string \<Rightarrow> mutation_scope result" where
  "scope_from_args repo project all_repos all_projects operation =
     (if all_repos \<and> all_projects
      then Inl (ValueError (operation @ '': pass --all-repos or --all-projects, not both''))
      else if all_projects
      then (if repo \<noteq> None \<or> project \<noteq> None
            then Inl (ValueError (operation @ '': --all-projects cannot be combined with REPO or --project''))
            else Inr AllProjects)
      else if all_repos
      then (if repo \<noteq> None then Inl (ValueError (operation @ '': REPO cannot be combined with --all-repos''))
            else (case project of
                None \<Rightarrow> Inl (ValueError (operation @ '': --all-repos requires --project''))
              | Some p \<Rightarrow> Inr (AllRepos p)))
      else (case repo of
          None \<Rightarrow> Inl (ValueError (operation @ '': pass REPO, --all-repos with --project, or --all-projects''))
        | Some r \<Rightarrow> Inr (OneRepo r project)))"

definition repository_targets :: "project_detail list \<Rightarrow> repository_ref list" where
  "repository_targets details = concat (map detail_repositories details)"

definition selected_projects :: "project_ref list \<Rightarrow> string option \<Rightarrow> project_ref list result" where
  "selected_projects projects project = (case project of
       None \<Rightarrow> Inr projects
     | Some p \<Rightarrow> bindR (resolve_project projects (Some p)) (\<lambda>r. Inr [r]))"

definition targets_in :: "'s portfolio_gateway \<Rightarrow> string option \<Rightarrow> ('s, repository_ref list) io" where
  "targets_in g project =
     bindM (list_projects g) (\<lambda>projects.
     bindM (liftM (selected_projects projects project)) (\<lambda>selected.
     bindM (fanout_reads (\<lambda>p. read_project_detail g (project_ref_id p)) selected) (\<lambda>details.
       retM (repository_targets details))))"

definition resolve_repository_in :: "(string \<Rightarrow> string list \<Rightarrow> string list) \<Rightarrow> 's portfolio_gateway \<Rightarrow> string
    \<Rightarrow> string option \<Rightarrow> ('s, repository_ref) io" where
  "resolve_repository_in close_matches g selector project =
     bindM (targets_in g project) (\<lambda>rs. liftM (resolve_repository close_matches rs selector project))"

definition target_repositories :: "(string \<Rightarrow> string list \<Rightarrow> string list) \<Rightarrow> 's portfolio_gateway \<Rightarrow> string option \<Rightarrow> string option
    \<Rightarrow> ('s, repository_ref list) io" where
  "target_repositories close_matches g repo project = (case repo of
       None \<Rightarrow> targets_in g project
     | Some s \<Rightarrow> bindM (resolve_repository_in close_matches g s project) (\<lambda>r. retM [r]))"

definition write_targets :: "(string \<Rightarrow> string list \<Rightarrow> string list) \<Rightarrow> 's portfolio_gateway \<Rightarrow> string option
    \<Rightarrow> string option \<Rightarrow> bool \<Rightarrow> bool \<Rightarrow> string \<Rightarrow> ('s, repository_ref list) io" where
  "write_targets close_matches g repo project all_repos all_projects operation =
     bindM (liftM (scope_from_args repo project all_repos all_projects operation)) (\<lambda>scope. case scope of
         AllProjects \<Rightarrow> target_repositories close_matches g None None
       | AllRepos p \<Rightarrow> target_repositories close_matches g None (Some p)
       | OneRepo r p \<Rightarrow> target_repositories close_matches g (Some r) p)"

end
