(* ===== verification/Audit_Schedules.thy ===== *)
theory Audit_Schedules
  imports Audit_Catalog
begin

section \<open>Schedules, improvement jobs and completion email (audit/scheduling.py, schedules.py, improvement\_jobs.py, email.py)\<close>

text \<open>
  Planning of updates to the recurring settings of an audit.  Which time zones are installed is an
  argument (\<open>zone\<close>): what \<open>ZoneInfo\<close> does with a name.  The service is a parameter too: what it
  lists, and what it answers to a write.
\<close>

subsection \<open>Validation\<close>

definition CADENCES :: "string list" where
  "CADENCES = [''daily'', ''workdays'', ''weekly-3x'', ''weekly-2x'', ''weekly'', ''monthly'']"

definition WEEK_DAYS :: "string list" where
  "WEEK_DAYS = [''mon'', ''tue'', ''wed'', ''thu'', ''fri'', ''sat'', ''sun'']"

definition DEFAULT_WORKDAYS :: "string list" where
  "DEFAULT_WORKDAYS = [''mon'', ''tue'', ''wed'', ''thu'', ''fri'']"

definition MAX_HOUR :: nat where
  "MAX_HOUR = 23"

definition MAX_MINUTE :: nat where
  "MAX_MINUTE = 59"

datatype time_source = Auto | User

record schedule_time_selection =
  selected_time :: string
  selected_source :: time_source

type_synonym zones = "string \<Rightarrow> unit result"

text \<open>\<open>ZoneInfoNotFoundError\<close> is a \<open>KeyError\<close>.\<close>

fun is_zone_error :: "exn \<Rightarrow> bool" where
  "is_zone_error (KeyError _) = True"
| "is_zone_error e = is_value_error e"

definition validate_timezone :: "zones \<Rightarrow> string option \<Rightarrow> unit result" where
  "validate_timezone zone v = (case v of
       None \<Rightarrow> Inr ()
     | Some name \<Rightarrow> (case zone name of
           Inr _ \<Rightarrow> Inr ()
         | Inl e \<Rightarrow> if is_zone_error e then Inl (ValueError (''unknown IANA timezone: '' @ name)) else Inl e))"

definition validate_cadence :: "string option \<Rightarrow> string \<Rightarrow> unit result" where
  "validate_cadence v subject = (case v of
       None \<Rightarrow> Inr ()
     | Some c \<Rightarrow> if c \<notin> set CADENCES then Inl (ValueError (''unknown '' @ subject @ '' frequency: '' @ c)) else Inr ())"

definition validate_week_days :: "string list option \<Rightarrow> string \<Rightarrow> unit result" where
  "validate_week_days days subject = (case days of
       None \<Rightarrow> Inr ()
     | Some ds \<Rightarrow>
         (let invalid = filter (\<lambda>d. d \<notin> set WEEK_DAYS) ds;
              duplicate = sort (dedup (filter (\<lambda>d. count_list ds d > 1) ds)) in
          if ds = [] then Inl (ValueError (''pass one or more '' @ subject @ '' days''))
          else if invalid \<noteq> [] then Inl (ValueError (''unknown '' @ subject @ '' day(s): '' @ py_join '', '' invalid))
          else if duplicate \<noteq> [] then Inl (ValueError (''duplicate '' @ subject @ '' day(s): '' @ py_join '', '' duplicate))
          else Inr ()))"

definition validate_schedule_time :: "string \<Rightarrow> string result" where
  "validate_schedule_time v = (case py_split_max 1 (CHR '':'') v of
       [h, m] \<Rightarrow>
         if \<not> (py_isdigit h \<and> py_isdigit m) then Inl (ValueError ''schedule time must be auto or HH:MM'')
         else bindR (py_int h) (\<lambda>hour. bindR (py_int m) (\<lambda>minute.
           if hour > MAX_HOUR \<or> minute > MAX_MINUTE then Inl (ValueError ''schedule time must be auto or HH:MM'')
           else Inr (show_pad2 hour @ '':'' @ show_pad2 minute)))
     | _ \<Rightarrow> Inl (ValueError ''schedule time must be auto or HH:MM''))"

definition validate_time_update :: "string option \<Rightarrow> unit result" where
  "validate_time_update v = (case v of
       None \<Rightarrow> Inr ()
     | Some t \<Rightarrow> if t = ''auto'' then Inr () else bindR (validate_schedule_time t) (\<lambda>_. Inr ()))"

subsection \<open>Selecting the time\<close>

definition select_schedule_time :: "string option \<Rightarrow> string option \<Rightarrow> time_source option \<Rightarrow> string
    \<Rightarrow> schedule_time_selection result" where
  "select_schedule_time requested existing_time existing_source auto_default_time = (case requested of
       Some t \<Rightarrow> if t = ''auto'' then Inr \<lparr>selected_time = auto_default_time, selected_source = Auto\<rparr>
         else bindR (validate_schedule_time t) (\<lambda>n. Inr \<lparr>selected_time = n, selected_source = User\<rparr>)
     | None \<Rightarrow> if existing_source = Some User
         then Inr \<lparr>selected_time = or_str existing_time auto_default_time, selected_source = User\<rparr>
         else Inr \<lparr>selected_time = auto_default_time, selected_source = Auto\<rparr>)"

definition select_preserved_auto_time :: "string option \<Rightarrow> string option \<Rightarrow> time_source option \<Rightarrow> string
    \<Rightarrow> schedule_time_selection result" where
  "select_preserved_auto_time requested existing_time existing_source auto_default_time =
     (if requested = Some ''auto''
      then Inr \<lparr>selected_time = or_str existing_time auto_default_time, selected_source = Auto\<rparr>
      else select_schedule_time requested existing_time existing_source auto_default_time)"

subsection \<open>Audit schedules\<close>

record audit_schedule =
  schedule_audit_key :: string
  schedule_enabled :: bool
  schedule_cadence :: "string option"
  schedule_day :: "string option"
  schedule_day_of_month :: "int option"
  schedule_time :: "string option"
  schedule_source :: "time_source option"
  schedule_timezone :: "string option"
  window_days :: "string list"
  window_start_time :: "string option"
  window_end_time :: "string option"
  window_mode :: "string option"

record audit_schedule_update =
  update_enabled :: "bool option"
  update_cadence :: "string option"
  update_window_days :: "string list option"
  update_time :: "string option"
  update_timezone :: "string option"

definition schedule_update_empty :: "audit_schedule_update \<Rightarrow> bool" where
  "schedule_update_empty u = (update_enabled u = None \<and> update_cadence u = None \<and> update_window_days u = None
     \<and> update_time u = None \<and> update_timezone u = None)"

definition validate_window :: "audit_schedule_update \<Rightarrow> unit result" where
  "validate_window u =
     (if update_window_days u = None then Inr ()
      else if update_cadence u = None then Inl (ValueError ''pass --frequency when overriding window days'')
      else validate_week_days (update_window_days u) ''window'')"

definition validate_schedule_update :: "zones \<Rightarrow> audit_schedule_update \<Rightarrow> unit result" where
  "validate_schedule_update zone u =
     (if schedule_update_empty u then Inl (ValueError ''pass --enabled, --frequency, or --timezone'')
      else bindR (validate_window u) (\<lambda>_. bindR (validate_cadence (update_cadence u) ''schedule'') (\<lambda>_.
        bindR (validate_time_update (update_time u)) (\<lambda>_. validate_timezone zone (update_timezone u)))))"

definition audit_auto_run_key :: "string \<Rightarrow> string result" where
  "audit_auto_run_key key =
     (if \<not> starts_with key ''audit.'' \<or> length key = length ''audit.''
      then Inl (ValueError (''schedule action key must be an exact audit action key: '' @ key)) else Inr key)"

definition selected_schedule_time :: "audit_schedule option \<Rightarrow> audit_schedule_update \<Rightarrow> schedule_time_selection result" where
  "selected_schedule_time existing u =
     select_schedule_time (update_time u) (Option.bind existing schedule_time) (Option.bind existing schedule_source) ''00:00''"

text \<open>\<open>x or y\<close> and \<open>x if x is not None else y\<close> over the fields of an update.\<close>

definition override :: "'a option \<Rightarrow> 'a \<Rightarrow> 'a" where
  "override x y = (case x of Some v \<Rightarrow> v | None \<Rightarrow> y)"

definition plan_schedule_update :: "zones \<Rightarrow> audit_schedule option \<Rightarrow> string \<Rightarrow> audit_schedule_update
    \<Rightarrow> audit_schedule option result" where
  "plan_schedule_update zone existing key u =
     bindR (validate_schedule_update zone u) (\<lambda>_.
     bindR (audit_auto_run_key key) (\<lambda>_.
       if existing = None \<and> update_enabled u \<noteq> Some True then Inr None
       else bindR (selected_schedule_time existing u) (\<lambda>selected. Inr (Some
         \<lparr>schedule_audit_key = key,
          schedule_enabled = override (update_enabled u) (case existing of Some e \<Rightarrow> schedule_enabled e | None \<Rightarrow> False),
          schedule_cadence = Some (or_str (update_cadence u) (or_str (Option.bind existing schedule_cadence) ''workdays'')),
          schedule_day = Option.bind existing schedule_day,
          schedule_day_of_month = (case existing of Some e \<Rightarrow> schedule_day_of_month e | None \<Rightarrow> Some 1),
          schedule_time = Some (selected_time selected),
          schedule_source = Some (selected_source selected),
          schedule_timezone = Some (or_str (update_timezone u) (or_str (Option.bind existing schedule_timezone) ''UTC'')),
          window_days = override (update_window_days u) (case existing of Some e \<Rightarrow> window_days e | None \<Rightarrow> []),
          window_start_time = Option.bind existing window_start_time,
          window_end_time = Option.bind existing window_end_time,
          window_mode = (case existing of Some e \<Rightarrow> window_mode e | None \<Rightarrow> Some ''anytime'')\<rparr>))))"

definition schedule_for_audit :: "string \<Rightarrow> audit_schedule list \<Rightarrow> audit_schedule" where
  "schedule_for_audit key schedules = (case find (\<lambda>s. schedule_audit_key s = key) schedules of
       Some s \<Rightarrow> s
     | None \<Rightarrow> \<lparr>schedule_audit_key = key, schedule_enabled = False, schedule_cadence = None, schedule_day = None,
         schedule_day_of_month = None, schedule_time = None, schedule_source = None, schedule_timezone = None,
         window_days = [], window_start_time = None, window_end_time = None, window_mode = None\<rparr>)"

definition auto_time :: "audit_schedule \<Rightarrow> string option \<Rightarrow> audit_schedule" where
  "auto_time s timezone = s\<lparr>schedule_time := Some ''00:00'', schedule_source := Some Auto,
     schedule_timezone := or_opt timezone (schedule_timezone s)\<rparr>"

text \<open>\<open>set_for_targets\<close> and \<open>auto_time_for_targets\<close> write through the service, whose state is the
  world: what it lists for a repository, and what it answers to a write of one schedule.\<close>

record 's schedule_gateway =
  list_schedules :: "string \<Rightarrow> ('s, audit_schedule list) io"
  set_schedule :: "string \<Rightarrow> string \<Rightarrow> audit_schedule \<Rightarrow> ('s, audit_schedule) io"

definition set_one_schedule :: "zones \<Rightarrow> 's schedule_gateway \<Rightarrow> string \<Rightarrow> (string \<Rightarrow> audit_schedule option)
    \<Rightarrow> audit_schedule_update \<Rightarrow> string \<Rightarrow> ('s, audit_schedule option) io" where
  "set_one_schedule zone g repo existing u key =
     bindM (liftM (plan_schedule_update zone (existing key) key u)) (\<lambda>desired. case desired of
         None \<Rightarrow> retM None
       | Some d \<Rightarrow> if existing key = Some d then retM (Some d)
           else bindM (set_schedule g repo key d) (\<lambda>s. retM (Some s)))"

definition set_for_target :: "zones \<Rightarrow> 's schedule_gateway \<Rightarrow> string list \<Rightarrow> audit_schedule_update \<Rightarrow> string
    \<Rightarrow> ('s, audit_schedule list) io" where
  "set_for_target zone g published u repo =
     bindM (list_schedules g repo) (\<lambda>schedules.
     bindM (mapM (set_one_schedule zone g repo (dict_by schedule_audit_key schedules) u) published) (\<lambda>rows.
       retM (List.map_filter id rows)))"

definition set_for_targets :: "zones \<Rightarrow> 's schedule_gateway \<Rightarrow> string list \<Rightarrow> string list \<Rightarrow> audit_schedule_update
    \<Rightarrow> ('s, audit_schedule list) io" where
  "set_for_targets zone g targets published u =
     bindM (liftM (validate_schedule_update zone u)) (\<lambda>_.
     bindM (mapM (set_for_target zone g published u) targets) (\<lambda>rows. retM (concat rows)))"

definition auto_time_for_targets :: "'s schedule_gateway \<Rightarrow> string list \<Rightarrow> string list \<Rightarrow> ('s, audit_schedule list) io" where
  "auto_time_for_targets g targets published =
     bindM (mapM (\<lambda>repo. bindM (list_schedules g repo) (\<lambda>schedules.
       mapM (\<lambda>current. let desired = auto_time current None in
           if desired = current then retM current else set_schedule g repo (schedule_audit_key current) desired)
         (filter (\<lambda>s. schedule_audit_key s \<in> set published) schedules))) targets) (\<lambda>rows. retM (concat rows))"

text \<open>Batch reads: the pool keeps the order of the items and raises the first exception in that
  order; the reads themselves change nothing.\<close>

definition fanout_map :: "('a \<Rightarrow> 'b result) \<Rightarrow> 'a list \<Rightarrow> 'b list result" where
  "fanout_map operation items =
     (let outcomes = map operation items in mapR id outcomes)"

definition list_for_targets :: "(string \<Rightarrow> audit_schedule list result) \<Rightarrow> string list \<Rightarrow> string list
    \<Rightarrow> (string \<times> audit_schedule list) list result" where
  "list_for_targets read targets published =
     fanout_map (\<lambda>repo. bindR (read repo) (\<lambda>schedules.
       Inr (repo, map (\<lambda>key. schedule_for_audit key schedules) published))) targets"

end
