(* ===== verification/Audit_Improvements.thy ===== *)
theory Audit_Improvements
  imports Audit_Schedules
begin

section \<open>Improvement jobs and completion email (audit/improvement\_jobs.py, audit/email.py)\<close>

text \<open>
  Which improvements a catalog offers, the job an update asks for, when a write is needed at all,
  and the batch reads and writes of the email preferences.
\<close>

subsection \<open>Definitions and selection\<close>

record improvement_definition =
  improvement_key :: string
  improvement_variant :: string
  improvement_name :: "string option"
  improvement_text :: "string option"
  source_audit :: "string option"
  improvement_kind :: "string option"
  supported :: bool
  improvement_runbook :: "string option"
  sort_order :: "int option"

definition improvement_selector :: "improvement_definition \<Rightarrow> string" where
  "improvement_selector d = or_str (improvement_kind d) (remove_prefix (improvement_key d) ''improvement.'')"

definition RELATIONSHIPS :: "(string \<times> string \<times> string) list" where
  "RELATIONSHIPS = [(''improvement.vuln-fix'', ''audit.security'', ''vuln-fix''),
     (''improvement.test-writing'', ''audit.tests'', ''test-writing''),
     (''improvement.dependency-update'', ''audit.dependency-hygiene'', ''dependency-update'')]"

definition SEPARATE_ACTIONS :: "string list" where
  "SEPARATE_ACTIONS = [''audit.pentest'', ''improvement.pentest'']"

definition is_visible :: "catalog_improvement \<Rightarrow> bool" where
  "is_visible i = (improvement_status i = Some ''published'' \<and> improvement_action_key i \<notin> set SEPARATE_ACTIONS)"

definition definition_of :: "string list \<Rightarrow> catalog_improvement \<Rightarrow> improvement_definition" where
  "definition_of published i =
     (let relation = map_of RELATIONSHIPS (improvement_action_key i); source = map_option fst relation in
      \<lparr>improvement_key = improvement_action_key i, improvement_variant = improvement_variant_key i,
       improvement_name = improvement_title i, improvement_text = improvement_description i, source_audit = source,
       improvement_kind = map_option snd relation,
       supported = (case source of Some a \<Rightarrow> a \<in> set published | None \<Rightarrow> False),
       improvement_runbook = improvement_runbook_id i, sort_order = improvement_sort_order i\<rparr>)"

definition order_value :: "int option \<Rightarrow> int" where
  "order_value v = (case v of Some n \<Rightarrow> n | None \<Rightarrow> 0)"

definition definitions :: "audit_catalog_result \<Rightarrow> improvement_definition list" where
  "definitions c =
     (let published = map action_action_key
            (filter (\<lambda>a. action_category a = Some ''audit'' \<and> action_status a = Some ''published'') (catalog_actions c)) in
      sort_key (\<lambda>d. (sort_order d = None, order_value (sort_order d), improvement_key d, improvement_variant d))
        (map (definition_of published) (filter is_visible (catalog_improvements c))))"

definition selected_definition :: "(string \<Rightarrow> improvement_definition option) \<Rightarrow> string \<Rightarrow> improvement_definition result" where
  "selected_definition lookup s = (case lookup s of
       None \<Rightarrow> Inl (ValueError (''unknown improvement selector: '' @ s))
     | Some d \<Rightarrow> if \<not> supported d
         then Inl (ValueError (''improvement selector is unsupported until a relationship is defined: '' @ s))
         else Inr d)"

definition select :: "string list \<Rightarrow> improvement_definition list \<Rightarrow> improvement_definition list result" where
  "select selectors available =
     (if selectors = [] then Inl (ValueError ''pass one or more IMPROVEMENTS or --all'')
      else let wanted = (if selectors = [''__all__''] then map improvement_selector available else selectors) in
        bindR (mapR (selected_definition (dict_by improvement_selector available)) wanted) (\<lambda>ds. Inr (dedup ds)))"

subsection \<open>Jobs\<close>

record improvement_job =
  job_key :: string
  job_variant :: string
  job_kind :: "string option"
  job_enabled :: "bool option"
  job_automatic :: "bool option"
  job_provider_variant :: "string option"
  job_frequency :: "string option"
  job_days :: "string list"
  job_time :: "string option"
  job_source :: "time_source option"
  job_timezone :: "string option"
  pentest_mode :: "string option"

record improvement_job_update =
  change_enabled :: "bool option"
  change_frequency :: "string option"
  change_timezone :: "string option"
  change_days :: "string list option"
  change_time :: "string option"
  change_automatic :: "bool option"

definition job_update_empty :: "improvement_job_update \<Rightarrow> bool" where
  "job_update_empty u = (change_enabled u = None \<and> change_automatic u = None \<and> change_frequency u = None
     \<and> change_days u = None \<and> change_time u = None \<and> change_timezone u = None)"

definition validate_improvement_job_update :: "zones \<Rightarrow> improvement_job_update \<Rightarrow> unit result" where
  "validate_improvement_job_update zone u =
     (if job_update_empty u
      then Inl (ValueError ''pass --enabled, --automatic-execution, --frequency, --days, --time, or --timezone'')
      else bindR (validate_cadence (change_frequency u) ''improvement job'') (\<lambda>_.
        bindR (validate_week_days (change_days u) ''improvement job'') (\<lambda>_.
        bindR (validate_time_update (change_time u)) (\<lambda>_. validate_timezone zone (change_timezone u)))))"

definition selected_timing :: "improvement_job option \<Rightarrow> improvement_job_update \<Rightarrow> schedule_time_selection result" where
  "selected_timing existing u =
     select_preserved_auto_time (change_time u) (Option.bind existing job_time) (Option.bind existing job_source) ''09:00''"

definition job_days_or_default :: "improvement_job option \<Rightarrow> string list" where
  "job_days_or_default existing = (case existing of
       Some j \<Rightarrow> if job_days j \<noteq> [] then job_days j else DEFAULT_WORKDAYS
     | None \<Rightarrow> DEFAULT_WORKDAYS)"

definition first_some :: "'a option \<Rightarrow> 'a option \<Rightarrow> 'a option" where
  "first_some x y = (if x \<noteq> None then x else y)"

definition desired_job :: "zones \<Rightarrow> improvement_job option \<Rightarrow> improvement_definition \<Rightarrow> improvement_job_update
    \<Rightarrow> improvement_job option result" where
  "desired_job zone existing d u =
     bindR (validate_improvement_job_update zone u) (\<lambda>_.
       if existing = None \<and> change_enabled u \<noteq> Some True then Inr None
       else (case or_opt (change_timezone u) (Option.bind existing job_timezone) of
           None \<Rightarrow> Inl (ValueError ''pass --timezone when enabling an absent improvement job'')
         | Some timezone \<Rightarrow> bindR (selected_timing existing u) (\<lambda>timing. Inr (Some
             \<lparr>job_key = improvement_key d, job_variant = improvement_variant d,
              job_kind = (case existing of Some j \<Rightarrow> job_kind j | None \<Rightarrow> improvement_kind d),
              job_enabled = first_some (change_enabled u) (case existing of Some j \<Rightarrow> job_enabled j | None \<Rightarrow> Some True),
              job_automatic = first_some (change_automatic u)
                (case existing of Some j \<Rightarrow> job_automatic j | None \<Rightarrow> Some True),
              job_provider_variant = or_opt (Option.bind existing job_provider_variant) (Some (improvement_variant d)),
              job_frequency = Some (or_str (change_frequency u) (or_str (Option.bind existing job_frequency) ''workdays'')),
              job_days = override (change_days u) (job_days_or_default existing),
              job_time = Some (selected_time timing), job_source = Some (selected_source timing),
              job_timezone = Some timezone,
              pentest_mode = or_opt (Option.bind existing pentest_mode) (Some ''off'')\<rparr>))))"

text \<open>What two jobs are compared by: not the key and not the kind.\<close>

definition effective :: "improvement_job \<Rightarrow> improvement_job" where
  "effective j = j\<lparr>job_key := [], job_kind := None\<rparr>"

record improvement_write =
  write_definition :: improvement_definition
  write_changed :: bool
  write_job :: "improvement_job option"

definition set_one :: "zones \<Rightarrow> improvement_definition \<Rightarrow> improvement_job option \<Rightarrow> improvement_job_update
    \<Rightarrow> (string \<Rightarrow> improvement_job \<Rightarrow> improvement_job result) \<Rightarrow> improvement_write result" where
  "set_one zone d existing u send =
     (let unchanged = (\<lambda>j. Inr \<lparr>write_definition = d, write_changed = False, write_job = j\<rparr>) in
      if \<not> supported d
      then Inl (ValueError (''improvement selector is unsupported until a relationship is defined: '' @ improvement_selector d))
      else bindR (validate_improvement_job_update zone u) (\<lambda>_.
        if existing = None \<and> change_enabled u = Some False then unchanged None
        else bindR (desired_job zone existing d u) (\<lambda>desired. case desired of
            None \<Rightarrow> unchanged None
          | Some j \<Rightarrow>
              if (case existing of Some e \<Rightarrow> effective e = effective j | None \<Rightarrow> False) then unchanged existing
              else bindR (send (or_str (improvement_kind d) (improvement_selector d)) j)
                (\<lambda>saved. Inr \<lparr>write_definition = d, write_changed = True, write_job = Some saved\<rparr>))))"

subsection \<open>Completion email\<close>

record email_preference =
  email_audit_key :: string
  email_manual :: "bool option"
  email_scheduled :: "bool option"

record email_update =
  email_set_manual :: "bool option"
  email_set_scheduled :: "bool option"

definition validate_update :: "email_update \<Rightarrow> email_update result" where
  "validate_update u =
     (if email_set_manual u = None \<and> email_set_scheduled u = None
      then Inl (ValueError ''pass --manual or --scheduled'') else Inr u)"

text \<open>One pool over all pairs of a target and an audit; the results are cut into one slice per target.\<close>

definition email_list_for_targets :: "(string \<Rightarrow> string \<Rightarrow> email_preference result) \<Rightarrow> string list \<Rightarrow> string list
    \<Rightarrow> (string \<times> email_preference list) list result" where
  "email_list_for_targets read targets keys =
     (let jobs = concat (map (\<lambda>t. map (\<lambda>k. (t, k)) keys) targets); width = length keys in
      if jobs = [] then Inr (map (\<lambda>t. (t, [])) targets)
      else bindR (fanout_map (\<lambda>(t, k). read t k) jobs) (\<lambda>preferences.
        Inr (map (\<lambda>(index, t). (t, take width (drop (index * width) preferences))) (enumerate 0 targets))))"

definition email_set_for_targets :: "(string \<Rightarrow> string \<Rightarrow> email_update \<Rightarrow> ('s, email_preference) io) \<Rightarrow> string list
    \<Rightarrow> string list \<Rightarrow> email_update \<Rightarrow> ('s, email_preference list) io" where
  "email_set_for_targets send targets keys u =
     bindM (liftM (validate_update u)) (\<lambda>typed.
       mapM (\<lambda>(t, k). send t k typed) (concat (map (\<lambda>t. map (\<lambda>k. (t, k)) keys) targets)))"

end
