(* ===== verification/Subscriptions.thy ===== *)
theory Subscriptions
  imports Portfolio_Selectors Audit_Improvements
begin

section \<open>Batch mutations and subscriptions (application/mutations.py, application/subscriptions.py)\<close>

text \<open>
  A batch is planned first, from reads, and then applied in order until a write fails.  The views
  of a repository carry the fields of its reference, so the reference stands for them.
\<close>

subsection \<open>Executing a batch\<close>

datatype mutation_reason = Applied | AlreadyEffective | NotConfigured | OutcomeUnknown

record mutation_target =
  target_repository :: repository_ref
  target_selector :: string

record 's mutation_decision =
  decision_target :: mutation_target
  decision_changed :: bool
  decision_reason :: mutation_reason
  decision_apply :: "('s, unit) io"

datatype mutation_status = OutcomeChanged | OutcomeUnchanged | OutcomeFailed

record mutation_outcome =
  mutation_target :: mutation_target
  mutation_status :: mutation_status
  mutation_reason :: "mutation_reason option"
  mutation_code :: "string option"
  mutation_message :: "string option"

datatype batch_status = BatchCompleted | BatchPartial | BatchFailed

record batch_mutation_result =
  batch_status :: batch_status
  batch_total :: nat
  batch_completed :: nat
  batch_remaining :: nat
  batch_changed :: nat
  batch_unchanged :: nat
  batch_failed :: nat
  batch_results :: "mutation_outcome list"

definition outcome_of :: "'s mutation_decision \<Rightarrow> mutation_outcome" where
  "outcome_of d = \<lparr>mutation_target = decision_target d,
     mutation_status = (if decision_changed d then OutcomeChanged else OutcomeUnchanged),
     mutation_reason = Some (decision_reason d), mutation_code = None, mutation_message = None\<rparr>"

definition failed_outcome :: "'s mutation_decision \<Rightarrow> string \<Rightarrow> string \<Rightarrow> bool \<Rightarrow> mutation_outcome" where
  "failed_outcome d code message unknown = \<lparr>mutation_target = decision_target d, mutation_status = OutcomeFailed,
     mutation_reason = (if unknown then Some OutcomeUnknown else None), mutation_code = Some code,
     mutation_message = Some message\<rparr>"

fun execute_from :: "nat \<Rightarrow> nat \<Rightarrow> nat \<Rightarrow> mutation_outcome list \<Rightarrow> 's mutation_decision list
    \<Rightarrow> ('s, batch_mutation_result) io" where
  "execute_from planned changed unchanged outcomes [] s =
     (Inr \<lparr>batch_status = BatchCompleted, batch_total = planned, batch_completed = planned, batch_remaining = 0,
        batch_changed = changed, batch_unchanged = unchanged, batch_failed = 0, batch_results = outcomes\<rparr>, s)"
| "execute_from planned changed unchanged outcomes (d # ds) s =
     (if \<not> decision_changed d
      then execute_from planned changed (unchanged + 1) (outcomes @ [outcome_of d]) ds s
      else (case decision_apply d s of
          (Inr _, t) \<Rightarrow> execute_from planned (changed + 1) unchanged (outcomes @ [outcome_of d]) ds t
        | (Inl (MutationOperationalError code message unknown), t) \<Rightarrow>
            (let completed = changed + unchanged in
             (Inr \<lparr>batch_status = (if completed > 0 then BatchPartial else BatchFailed), batch_total = planned,
                batch_completed = completed, batch_remaining = planned - completed, batch_changed = changed,
                batch_unchanged = unchanged, batch_failed = 1,
                batch_results = outcomes @ [failed_outcome d code message unknown]\<rparr>, t))
        | (Inl e, t) \<Rightarrow> (Inl e, t)))"

definition execute_batch :: "'s mutation_decision list \<Rightarrow> ('s, batch_mutation_result) io" where
  "execute_batch ds = execute_from (length ds) 0 0 [] ds"

subsection \<open>Decisions\<close>

text \<open>Which failures of a write become an outcome of the batch; others escape.\<close>

definition translated_write_error :: "exn \<Rightarrow> exn" where
  "translated_write_error e = (case e of
       EnjiApiError code message _ _ \<Rightarrow> MutationOperationalError code message True
     | PortfolioNotFoundError m \<Rightarrow> MutationOperationalError ''NOT_FOUND'' m True
     | AuditUpstreamError m \<Rightarrow> MutationOperationalError ''UPSTREAM'' m True
     | PortfolioUpstreamError m \<Rightarrow> MutationOperationalError ''UPSTREAM'' m True
     | _ \<Rightarrow>
         (if is_audit_not_found e then MutationOperationalError ''NOT_FOUND'' (exn_text e) True
          else if is_os_error e then MutationOperationalError ''UPSTREAM'' (exn_text e) True
          else e))"

definition operational_write :: "('s, 'a) io \<Rightarrow> ('s, unit) io" where
  "operational_write send s = (case send s of
       (Inr _, t) \<Rightarrow> (Inr (), t) | (Inl e, t) \<Rightarrow> (Inl (translated_write_error e), t))"

definition unchanged_decision :: "mutation_target \<Rightarrow> mutation_reason \<Rightarrow> 's mutation_decision" where
  "unchanged_decision target reason = \<lparr>decision_target = target, decision_changed = False,
     decision_reason = reason, decision_apply = retM ()\<rparr>"

definition changed_decision :: "mutation_target \<Rightarrow> ('s, 'a) io \<Rightarrow> 's mutation_decision" where
  "changed_decision target send = \<lparr>decision_target = target, decision_changed = True, decision_reason = Applied,
     decision_apply = operational_write send\<rparr>"

definition target_of :: "repository_ref \<Rightarrow> string \<Rightarrow> mutation_target" where
  "target_of r selector = \<lparr>target_repository = r, target_selector = selector\<rparr>"

subsection \<open>The service\<close>

record 's subscription_gateway = "'s schedule_gateway" +
  list_improvement_jobs :: "string \<Rightarrow> ('s, improvement_job list) io"
  set_improvement_job :: "string \<Rightarrow> string \<Rightarrow> improvement_job \<Rightarrow> ('s, improvement_job) io"
  get_email_preferences :: "string \<Rightarrow> string \<Rightarrow> ('s, email_preference) io"
  set_email_preference :: "string \<Rightarrow> string \<Rightarrow> email_update \<Rightarrow> ('s, email_preference) io"

subsection \<open>Schedules\<close>

definition schedule_decision :: "('s, 'x) schedule_gateway_scheme \<Rightarrow> repository_ref \<Rightarrow> string \<Rightarrow> audit_schedule option
    \<Rightarrow> audit_schedule option \<Rightarrow> 's mutation_decision" where
  "schedule_decision g target key current desired =
     (let mutation = target_of target (remove_prefix key ''audit.'') in
      (case desired of
         None \<Rightarrow> unchanged_decision mutation NotConfigured
       | Some d \<Rightarrow> if current = Some d then unchanged_decision mutation AlreadyEffective
           else changed_decision mutation (set_schedule g (repo_ref_id target) key d)))"

definition plan_target_schedules :: "zones \<Rightarrow> ('s, 'x) schedule_gateway_scheme \<Rightarrow> string list \<Rightarrow> audit_schedule_update
    \<Rightarrow> repository_ref \<Rightarrow> ('s, 's mutation_decision list) io" where
  "plan_target_schedules zone g keys u target =
     bindM (list_schedules g (repo_ref_id target)) (\<lambda>schedules.
       let existing = dict_by schedule_audit_key schedules in
       liftM (mapR (\<lambda>key. bindR (plan_schedule_update zone (existing key) key u) (\<lambda>desired.
         Inr (schedule_decision g target key (existing key) desired))) keys))"

definition apply_schedules :: "zones \<Rightarrow> ('s, 'x) schedule_gateway_scheme \<Rightarrow> string list \<Rightarrow> audit_schedule_update
    \<Rightarrow> repository_ref list \<Rightarrow> ('s, batch_mutation_result) io" where
  "apply_schedules zone g keys u rs =
     bindM (mapM (plan_target_schedules zone g keys u) rs) (\<lambda>plans. execute_batch (concat plans))"

text \<open>The keys come from the live catalog, the targets from the explicit scope of the command.\<close>

definition set_schedules :: "zones \<Rightarrow> ('s, 'x) schedule_gateway_scheme \<Rightarrow> ('s, string list) io
    \<Rightarrow> ('s, repository_ref list) io \<Rightarrow> audit_schedule_update \<Rightarrow> ('s, batch_mutation_result) io" where
  "set_schedules zone g published scope u =
     bindM (liftM (validate_schedule_update zone u)) (\<lambda>_.
     bindM published (\<lambda>keys. bindM scope (\<lambda>rs. apply_schedules zone g keys u rs)))"

definition auto_time_decision :: "('s, 'x) schedule_gateway_scheme \<Rightarrow> repository_ref \<Rightarrow> audit_schedule
    \<Rightarrow> 's mutation_decision" where
  "auto_time_decision g target current =
     (let desired = auto_time current None; key = schedule_audit_key current;
          mutation = target_of target (remove_prefix key ''audit.'') in
      if desired = current then unchanged_decision mutation AlreadyEffective
      else changed_decision mutation (set_schedule g (repo_ref_id target) key desired))"

definition schedule_auto_time :: "('s, 'x) schedule_gateway_scheme \<Rightarrow> ('s, string list) io
    \<Rightarrow> ('s, repository_ref list) io \<Rightarrow> ('s, batch_mutation_result) io" where
  "schedule_auto_time g published scope =
     bindM published (\<lambda>keys. bindM scope (\<lambda>rs.
     bindM (mapM (\<lambda>target. bindM (list_schedules g (repo_ref_id target)) (\<lambda>schedules.
         retM (map (auto_time_decision g target)
           (filter (\<lambda>s. schedule_audit_key s \<in> set keys) schedules)))) rs) (\<lambda>plans.
       execute_batch (concat plans))))"

subsection \<open>Improvement jobs\<close>

definition normalize_improvement_jobs :: "improvement_job list \<Rightarrow> improvement_job list" where
  "normalize_improvement_jobs jobs =
     rev (snd (foldl (\<lambda>(seen, kept) j. if (job_key j, job_variant j) \<in> set seen then (seen, kept)
        else ((job_key j, job_variant j) # seen, j # kept)) ([], []) jobs))"

definition index_improvement_jobs :: "improvement_job list \<Rightarrow> string \<Rightarrow> improvement_job option" where
  "index_improvement_jobs jobs =
     fold (\<lambda>j m. let m' = m(job_key j \<mapsto> j) in case job_kind j of Some k \<Rightarrow> m'(k \<mapsto> j) | None \<Rightarrow> m')
       (normalize_improvement_jobs jobs) Map.empty"

definition existing_job :: "(string \<Rightarrow> improvement_job option) \<Rightarrow> improvement_definition \<Rightarrow> improvement_job option" where
  "existing_job jobs d = first_some (jobs (improvement_key d)) (jobs (or_str (improvement_kind d) (improvement_selector d)))"

definition improvement_decision :: "zones \<Rightarrow> 's subscription_gateway \<Rightarrow> repository_ref \<Rightarrow> improvement_job_update
    \<Rightarrow> improvement_job option \<Rightarrow> improvement_definition \<Rightarrow> 's mutation_decision result" where
  "improvement_decision zone g target u existing d =
     bindR (set_one zone d existing u (\<lambda>_ j. Inr j)) (\<lambda>planned.
       let mutation = target_of target (improvement_selector d) in
       if \<not> write_changed planned
       then Inr (unchanged_decision mutation (if existing = None then NotConfigured else AlreadyEffective))
       else (case write_job planned of
           None \<Rightarrow> Inl (RuntimeError ''changed improvement-job plan has no desired job'')
         | Some j \<Rightarrow> Inr (changed_decision mutation
             (set_improvement_job g (repo_ref_id target) (or_str (improvement_kind d) (improvement_selector d)) j))))"

definition set_improvement_jobs :: "zones \<Rightarrow> 's subscription_gateway \<Rightarrow> ('s, audit_catalog_result) io
    \<Rightarrow> ('s, repository_ref list) io \<Rightarrow> string list \<Rightarrow> improvement_job_update \<Rightarrow> ('s, batch_mutation_result) io" where
  "set_improvement_jobs zone g catalog scope selectors u =
     bindM (liftM (validate_improvement_job_update zone u)) (\<lambda>_.
     bindM catalog (\<lambda>c.
     bindM (liftM (select selectors (definitions c))) (\<lambda>selected.
     bindM scope (\<lambda>rs.
     bindM (mapM (\<lambda>target. bindM (list_improvement_jobs g (repo_ref_id target)) (\<lambda>jobs.
         liftM (mapR (\<lambda>d. improvement_decision zone g target u (existing_job (index_improvement_jobs jobs) d) d) selected))) rs)
       (\<lambda>plans. execute_batch (concat plans))))))"

subsection \<open>Completion email\<close>

definition email_effective :: "bool option \<Rightarrow> bool option \<Rightarrow> bool" where
  "email_effective current requested = (requested = None \<or> current = requested)"

definition email_decision :: "'s subscription_gateway \<Rightarrow> repository_ref \<Rightarrow> string \<Rightarrow> email_update \<Rightarrow> email_preference
    \<Rightarrow> 's mutation_decision" where
  "email_decision g target key typed current =
     (let mutation = target_of target (remove_prefix key ''audit.'') in
      if email_effective (email_manual current) (email_set_manual typed)
         \<and> email_effective (email_scheduled current) (email_set_scheduled typed)
      then unchanged_decision mutation AlreadyEffective
      else changed_decision mutation (set_email_preference g (repo_ref_id target) key typed))"

definition set_email_preferences :: "'s subscription_gateway \<Rightarrow> ('s, string list) io \<Rightarrow> ('s, repository_ref list) io
    \<Rightarrow> email_update \<Rightarrow> ('s, batch_mutation_result) io" where
  "set_email_preferences g published scope u =
     bindM (liftM (validate_update u)) (\<lambda>typed.
     bindM published (\<lambda>keys. bindM scope (\<lambda>rs.
     bindM (mapM (\<lambda>target. mapM (\<lambda>key. bindM (get_email_preferences g (repo_ref_id target) key) (\<lambda>current.
         retM (email_decision g target key typed current))) keys) rs) (\<lambda>plans.
       execute_batch (concat plans)))))"

subsection \<open>The commands\<close>

text \<open>What the commands share: the catalog as it is observed, the keys it publishes, and the targets
  of an explicit scope.  The listings carry the values that the views show.\<close>

record subscription_write_scope =
  scope_all_repos :: bool
  scope_all_projects :: bool

definition published_keys :: "('s, audit_catalog_result) io \<Rightarrow> ('s, string list) io" where
  "published_keys catalog = bindM catalog (\<lambda>c. bindM (liftM (parse_catalog_result c)) (\<lambda>a.
     retM (map audit_action_key (published_audits a))))"

definition scope_targets :: "(string \<Rightarrow> string list \<Rightarrow> string list) \<Rightarrow> 's portfolio_gateway \<Rightarrow> string option
    \<Rightarrow> string option \<Rightarrow> subscription_write_scope option \<Rightarrow> ('s, repository_ref list) io" where
  "scope_targets close_matches g repo project scope =
     (let resolved = (case scope of Some x \<Rightarrow> x | None \<Rightarrow> \<lparr>scope_all_repos = False, scope_all_projects = False\<rparr>) in
      write_targets close_matches g repo project (scope_all_repos resolved) (scope_all_projects resolved) ''mutation'')"

definition read_schedules_of :: "('s, 'x) schedule_gateway_scheme \<Rightarrow> string list \<Rightarrow> repository_ref
    \<Rightarrow> ('s, string \<times> audit_schedule list) io" where
  "read_schedules_of g keys target =
     bindM (list_schedules g (repo_ref_id target)) (\<lambda>schedules.
       retM (repo_ref_id target, map (\<lambda>key. schedule_for_audit key schedules) keys))"

definition list_schedules_command :: "('s, 'x) schedule_gateway_scheme \<Rightarrow> ('s, string list) io
    \<Rightarrow> ('s, repository_ref list) io \<Rightarrow> ('s, (repository_ref \<times> audit_schedule list) list) io" where
  "list_schedules_command g published scope =
     bindM published (\<lambda>keys. bindM scope (\<lambda>rs.
     bindM (fanout_reads (read_schedules_of g keys) rs) (\<lambda>results.
       let by_repo_id = dict_by fst results in
       retM (map (\<lambda>r. (r, (case by_repo_id (repo_ref_id r) of Some row \<Rightarrow> snd row | None \<Rightarrow> []))) rs))))"

definition list_improvement_jobs_command :: "'s subscription_gateway \<Rightarrow> ('s, audit_catalog_result) io
    \<Rightarrow> ('s, repository_ref list) io
    \<Rightarrow> ('s, (repository_ref \<times> (improvement_definition \<times> improvement_job option) list) list) io" where
  "list_improvement_jobs_command g catalog scope =
     bindM catalog (\<lambda>c. bindM scope (\<lambda>rs.
       fanout_reads (\<lambda>target. bindM (list_improvement_jobs g (repo_ref_id target)) (\<lambda>jobs.
         retM (target, map (\<lambda>d. (d, existing_job (index_improvement_jobs jobs) d)) (definitions c)))) rs))"

definition list_email_command :: "'s subscription_gateway \<Rightarrow> ('s, string list) io \<Rightarrow> ('s, repository_ref list) io
    \<Rightarrow> ('s, (string \<times> email_preference list) list) io" where
  "list_email_command g published scope =
     bindM published (\<lambda>keys. bindM scope (\<lambda>rs s.
       (email_list_for_targets (\<lambda>t k. fst (get_email_preferences g t k s)) (map repo_ref_id rs) keys, s)))"

end
