(* ===== verification/Schedule_Properties.thy ===== *)
theory Schedule_Properties
  imports Audit_Improvements
begin

section \<open>Properties of the recurring settings\<close>

text \<open>
  Planned updates settle: what an update asks for, applied to its own result, changes nothing,
  so repeating a command writes nothing.
\<close>

subsection \<open>Clock times\<close>

lemma py_int_pad2: "py_int (show_pad2 n) = Inr n"
  using show_pad2_decimal [of n] by (simp add: py_int_def)

lemma py_isdigit_pad2: "py_isdigit (show_pad2 n)"
  using show_pad2_decimal [of n] decimal_char_digit by (auto simp: py_isdigit_def list_all_iff)

lemma validate_schedule_time_canonical:
  assumes "h \<le> MAX_HOUR" and "m \<le> MAX_MINUTE"
  shows "validate_schedule_time (show_pad2 h @ '':'' @ show_pad2 m) = Inr (show_pad2 h @ '':'' @ show_pad2 m)"
proof -
  have "py_split_max (Suc 0) (CHR '':'') (show_pad2 h @ CHR '':'' # show_pad2 m) = [show_pad2 h, show_pad2 m]"
    using show_pad2_decimal [of h] by (auto simp: py_split_max_found dest: decimal_no_colon)
  with assms show ?thesis by (simp add: validate_schedule_time_def py_int_pad2 py_isdigit_pad2)
qed

lemma validate_schedule_time_InrD:
  assumes "validate_schedule_time v = Inr r"
  obtains h m where "h \<le> MAX_HOUR" "m \<le> MAX_MINUTE" "r = show_pad2 h @ '':'' @ show_pad2 m"
  using assms by (auto simp: validate_schedule_time_def result_simps not_less split: list.splits if_splits)

lemma validated_nonempty: "validate_schedule_time v = Inr r \<Longrightarrow> r \<noteq> []"
  by (auto elim!: validate_schedule_time_InrD)

subsection \<open>Selections settle\<close>

lemma select_schedule_time_settles:
  assumes "select_schedule_time requested existing source standard_time = Inr x" and "standard_time \<noteq> []"
  shows "select_schedule_time requested (Some (selected_time x)) (Some (selected_source x)) standard_time = Inr x"
  using assms by (auto simp: select_schedule_time_def result_simps or_str_def dest: validated_nonempty split: option.splits if_splits)

lemma select_preserved_settles:
  assumes "select_preserved_auto_time requested existing source standard_time = Inr x" and "standard_time \<noteq> []"
  shows "select_preserved_auto_time requested (Some (selected_time x)) (Some (selected_source x)) standard_time = Inr x"
  using assms select_schedule_time_settles [of requested existing source standard_time x]
  by (auto simp: select_preserved_auto_time_def or_str_nonempty) (auto simp: or_str_def split: option.splits)

lemma or_str_settles: "or_str x (or_str (Some (or_str x (or_str y d))) d') = or_str x (or_str y d)" if "d \<noteq> []"
  using that by (auto simp: or_str_def split: option.splits)

lemma override_settles [simp]: "override x (override x y) = override x y"
  by (simp add: override_def split: option.splits)

lemma or_opt_settles: "or_opt x (or_opt x y) = or_opt x y"
  by (simp add: or_opt_def)

lemma first_some_settles: "first_some x (first_some x y) = first_some x y"
  by (simp add: first_some_def)

lemma plan_settles:
  assumes "plan_schedule_update zone existing key u = Inr (Some d)"
  shows "plan_schedule_update zone (Some d) key u = Inr (Some d)"
proof -
  obtain x where valid: "validate_schedule_update zone u = Inr ()" and key: "audit_auto_run_key key = Inr key"
    and x: "selected_schedule_time existing u = Inr x"
    and d: "d = \<lparr>schedule_audit_key = key,
          schedule_enabled = override (update_enabled u) (case existing of Some e \<Rightarrow> schedule_enabled e | None \<Rightarrow> False),
          schedule_cadence = Some (or_str (update_cadence u) (or_str (Option.bind existing schedule_cadence) ''workdays'')),
          schedule_day = Option.bind existing schedule_day,
          schedule_day_of_month = (case existing of Some e \<Rightarrow> schedule_day_of_month e | None \<Rightarrow> Some 1),
          schedule_time = Some (selected_time x), schedule_source = Some (selected_source x),
          schedule_timezone = Some (or_str (update_timezone u) (or_str (Option.bind existing schedule_timezone) ''UTC'')),
          window_days = override (update_window_days u) (case existing of Some e \<Rightarrow> window_days e | None \<Rightarrow> []),
          window_start_time = Option.bind existing window_start_time,
          window_end_time = Option.bind existing window_end_time,
          window_mode = (case existing of Some e \<Rightarrow> window_mode e | None \<Rightarrow> Some ''anytime'')\<rparr>"
    using assms by (auto simp: plan_schedule_update_def result_simps audit_auto_run_key_def split: if_splits)
  have "selected_schedule_time (Some d) u = Inr x"
    using select_schedule_time_settles [OF x [unfolded selected_schedule_time_def]] by (simp add: selected_schedule_time_def d)
  with valid key show ?thesis by (simp add: plan_schedule_update_def d or_str_settles)
qed

lemma desired_jobE:
  assumes "desired_job zone existing d u = Inr (Some j)"
  obtains x tz where "validate_improvement_job_update zone u = Inr ()" and "selected_timing existing u = Inr x"
    and "or_opt (change_timezone u) (Option.bind existing job_timezone) = Some tz"
    and "j = \<lparr>job_key = improvement_key d, job_variant = improvement_variant d,
              job_kind = (case existing of Some j \<Rightarrow> job_kind j | None \<Rightarrow> improvement_kind d),
              job_enabled = first_some (change_enabled u) (case existing of Some j \<Rightarrow> job_enabled j | None \<Rightarrow> Some True),
              job_automatic = first_some (change_automatic u)
                (case existing of Some j \<Rightarrow> job_automatic j | None \<Rightarrow> Some True),
              job_provider_variant = or_opt (Option.bind existing job_provider_variant) (Some (improvement_variant d)),
              job_frequency = Some (or_str (change_frequency u) (or_str (Option.bind existing job_frequency) ''workdays'')),
              job_days = override (change_days u) (job_days_or_default existing),
              job_time = Some (selected_time x), job_source = Some (selected_source x),
              job_timezone = Some tz,
              pentest_mode = or_opt (Option.bind existing pentest_mode) (Some ''off'')\<rparr>"
  using assms by (auto simp: desired_job_def result_simps split: if_splits option.splits)

lemma desired_settles:
  assumes "desired_job zone existing d u = Inr (Some j)"
  shows "\<exists>j'. desired_job zone (Some j) d u = Inr (Some j') \<and> effective j' = effective j"
proof -
  obtain x tz where valid: "validate_improvement_job_update zone u = Inr ()" and x: "selected_timing existing u = Inr x"
    and tz: "or_opt (change_timezone u) (Option.bind existing job_timezone) = Some tz"
    and j: "j = \<lparr>job_key = improvement_key d, job_variant = improvement_variant d,
              job_kind = (case existing of Some j \<Rightarrow> job_kind j | None \<Rightarrow> improvement_kind d),
              job_enabled = first_some (change_enabled u) (case existing of Some j \<Rightarrow> job_enabled j | None \<Rightarrow> Some True),
              job_automatic = first_some (change_automatic u)
                (case existing of Some j \<Rightarrow> job_automatic j | None \<Rightarrow> Some True),
              job_provider_variant = or_opt (Option.bind existing job_provider_variant) (Some (improvement_variant d)),
              job_frequency = Some (or_str (change_frequency u) (or_str (Option.bind existing job_frequency) ''workdays'')),
              job_days = override (change_days u) (job_days_or_default existing),
              job_time = Some (selected_time x), job_source = Some (selected_source x),
              job_timezone = Some tz,
              pentest_mode = or_opt (Option.bind existing pentest_mode) (Some ''off'')\<rparr>"
    using assms by (rule desired_jobE)
  have timing: "selected_timing (Some j) u = Inr x"
    using select_preserved_settles [OF x [unfolded selected_timing_def]] by (simp add: selected_timing_def j)
  have zone': "or_opt (change_timezone u) (Some tz) = Some tz" using tz by (simp add: or_opt_def split: if_splits)
  have days: "override (change_days u) (job_days_or_default (Some j)) = job_days j"
    by (auto simp: j override_def job_days_or_default_def DEFAULT_WORKDAYS_def split: option.splits)
  have fallback: "or_opt (or_opt y (Some v)) (Some v) = or_opt y (Some v)" for y v
    by (simp add: or_opt_def)
  show ?thesis
    using valid timing zone' days
    by (simp add: desired_job_def effective_def) (simp add: j first_some_settles fallback or_str_settles)
qed

end
