(* ===== verification/Subscription_Properties.thy ===== *)
theory Subscription_Properties
  imports Subscriptions Schedule_Properties
begin

section \<open>Properties of batches and subscriptions\<close>

text \<open>
  What a batch reports of what it did, what a repeated command finds to do, and what a partial
  update keeps.
\<close>

subsection \<open>Running a batch\<close>

definition run_decision :: "'s mutation_decision \<Rightarrow> 's \<Rightarrow> 's" where
  "run_decision d s = (if decision_changed d then snd (decision_apply d s) else s)"

lemma run_decision_simps [simp]:
  "decision_changed d \<Longrightarrow> run_decision d s = snd (decision_apply d s)"
  "\<not> decision_changed d \<Longrightarrow> run_decision d s = s"
  by (simp_all add: run_decision_def)

definition count_status :: "mutation_status \<Rightarrow> mutation_outcome list \<Rightarrow> nat" where
  "count_status st os = length (filter (\<lambda>x. mutation_status x = st) os)"

lemma count_status_simps [simp]:
  "count_status st [] = 0"
  "count_status st (x # os) = (if mutation_status x = st then 1 else 0) + count_status st os"
  "count_status st (os @ os') = count_status st os + count_status st os'"
  by (simp_all add: count_status_def)

lemma outcome_of_sel [simp]:
  "mutation_target (outcome_of d) = decision_target d"
  "mutation_status (outcome_of d) = (if decision_changed d then OutcomeChanged else OutcomeUnchanged)"
  "mutation_target (failed_outcome d c m k) = decision_target d"
  "mutation_status (failed_outcome d c m k) = OutcomeFailed"
  by (simp_all add: outcome_of_def failed_outcome_def)

text \<open>The accounting of the loop, from any point of it: \<open>before\<close> is what was decided already.\<close>

definition accounted :: "'s mutation_decision list \<Rightarrow> 's \<Rightarrow> batch_mutation_result \<Rightarrow> 's \<Rightarrow> bool" where
  "accounted ds s b t \<longleftrightarrow>
     batch_total b = length ds \<and> batch_completed b + batch_remaining b = length ds
     \<and> batch_completed b = batch_changed b + batch_unchanged b
     \<and> batch_failed b = (if batch_status b = BatchCompleted then 0 else 1)
     \<and> (batch_status b = BatchCompleted \<longleftrightarrow> batch_remaining b = 0)
     \<and> (batch_status b = BatchFailed \<longrightarrow> batch_completed b = 0) \<and> (batch_status b = BatchPartial \<longrightarrow> batch_completed b > 0)
     \<and> map mutation_target (batch_results b) = map decision_target (take (batch_completed b + batch_failed b) ds)
     \<and> batch_changed b = count_status OutcomeChanged (batch_results b)
     \<and> batch_unchanged b = count_status OutcomeUnchanged (batch_results b)
     \<and> batch_failed b = count_status OutcomeFailed (batch_results b)
     \<and> t = fold run_decision (take (batch_completed b + batch_failed b) ds) s"

lemma execute_from_accounted:
  assumes "execute_from (length (before @ ds)) changed unchanged outcomes ds s' = (Inr b, t)"
    and "changed + unchanged = length before" and "map mutation_target outcomes = map decision_target before"
    and "changed = count_status OutcomeChanged outcomes" and "unchanged = count_status OutcomeUnchanged outcomes"
    and "count_status OutcomeFailed outcomes = 0" and "s' = fold run_decision before s"
  shows "accounted (before @ ds) s b t"
  using assms
proof (induction ds arbitrary: before changed unchanged outcomes s')
  case Nil
  then show ?case by (auto simp: accounted_def)
next
  case (Cons d ds)
  note IH = Cons.IH [of "before @ [d]" _ _ "outcomes @ [outcome_of d]"]
  show ?case
  proof (cases "decision_changed d")
    case False
    with Cons.prems have "accounted ((before @ [d]) @ ds) s b t"
      by (intro IH [of changed "unchanged + 1" s']) auto
    then show ?thesis by simp
  next
    case True
    obtain r u where run: "decision_apply d s' = (r, u)" by (cases "decision_apply d s'")
    show ?thesis
    proof (cases r)
      case (Inr x)
      with Cons.prems True run have "accounted ((before @ [d]) @ ds) s b t"
        by (intro IH [of "changed + 1" unchanged u]) auto
      then show ?thesis by simp
    next
      case (Inl e)
      with Cons.prems True run obtain code message unknown
        where e: "e = MutationOperationalError code message unknown" by (cases e) auto
      with Cons.prems True run Inl show ?thesis
        by (auto simp: accounted_def Let_def split: if_splits)
    qed
  qed
qed

lemma execute_batch_accounted: "execute_batch ds s = (Inr b, t) \<Longrightarrow> accounted ds s b t"
  using execute_from_accounted [where before = "[]" and s = s and s' = s] by (simp add: execute_batch_def)

text \<open>An exception that is no operational failure leaves the loop at the write that raised it.\<close>

definition escaped :: "'s mutation_decision list \<Rightarrow> 's \<Rightarrow> exn \<Rightarrow> 's \<Rightarrow> bool" where
  "escaped ds s e t \<longleftrightarrow> (\<exists>before d after. ds = before @ d # after \<and> decision_changed d
     \<and> decision_apply d (fold run_decision before s) = (Inl e, t) \<and> (\<forall>c m k. e \<noteq> MutationOperationalError c m k))"

lemma escaped_step: "escaped ds (run_decision d s) e t \<Longrightarrow> escaped (d # ds) s e t"
  unfolding escaped_def by (elim exE conjE) (rule exI [of _ "d # _"], auto)

lemma escaped_here:
  "decision_changed d \<Longrightarrow> decision_apply d s = (Inl e, t) \<Longrightarrow> \<forall>c m k. e \<noteq> MutationOperationalError c m k
   \<Longrightarrow> escaped (d # ds) s e t"
  unfolding escaped_def by (intro exI [of _ "[]"]) auto

lemma execute_from_escaped:
  "execute_from planned changed unchanged outcomes ds s = (Inl e, t) \<Longrightarrow> escaped ds s e t"
proof (induction ds arbitrary: changed unchanged outcomes s)
  case (Cons d ds)
  show ?case
  proof (cases "decision_changed d")
    case False
    with Cons.prems have "escaped ds (run_decision d s) e t" by (auto intro: Cons.IH)
    then show ?thesis by (rule escaped_step)
  next
    case True
    obtain r u where run: "decision_apply d s = (r, u)" by (cases "decision_apply d s")
    show ?thesis
    proof (cases r)
      case (Inl e')
      with Cons.prems True run show ?thesis
        by (cases e') (auto simp: Let_def intro!: escaped_here)
    next
      case (Inr x)
      with Cons.prems True run have "escaped ds (run_decision d s) e t" by (auto intro: Cons.IH)
      then show ?thesis by (rule escaped_step)
    qed
  qed
qed simp


subsection \<open>Repeating a command\<close>

text \<open>
  A batch whose changed decisions store their goal and whose other decisions find it stored:
  once it has completed, every goal is stored.
\<close>

definition plans_goal :: "('s \<Rightarrow> 'k \<Rightarrow> 'v) \<Rightarrow> ('k \<Rightarrow> 'v) \<Rightarrow> 's \<Rightarrow> 'k \<Rightarrow> 's mutation_decision \<Rightarrow> bool" where
  "plans_goal stored goal s0 k d \<longleftrightarrow> (if decision_changed d
     then \<forall>s x t. decision_apply d s = (Inr x, t) \<longrightarrow> stored t = (stored s)(k := goal k)
     else stored s0 k = goal k)"

lemma execute_from_reaches:
  assumes "list_all2 (plans_goal stored goal s0) ks ds"
    and "execute_from planned changed unchanged outcomes ds s = (Inr b, t)" and "batch_status b = BatchCompleted"
    and "\<forall>k. stored s k \<in> {stored s0 k, goal k}"
  shows "(\<forall>k. stored t k \<in> {stored s0 k, goal k}) \<and> (\<forall>k. stored s k = goal k \<longrightarrow> stored t k = goal k)
    \<and> (\<forall>k\<in>set ks. stored t k = goal k)"
  using assms
proof (induction ks ds arbitrary: changed unchanged outcomes s rule: list_all2_induct)
  case Nil
  then show ?case by auto
next
  case (Cons k ks d ds)
  show ?case
  proof (cases "decision_changed d")
    case False
    with Cons.hyps(1) have "stored s0 k = goal k" by (simp add: plans_goal_def)
    with Cons.prems(3) have "stored s k = goal k" by (metis insert_iff singletonD)
    with False Cons.prems Cons.IH [of changed "unchanged + 1" "outcomes @ [outcome_of d]" s] show ?thesis by auto
  next
    case True
    obtain r u where run: "decision_apply d s = (r, u)" by (cases "decision_apply d s")
    show ?thesis
    proof (cases r)
      case (Inl e)
      with Cons.prems True run show ?thesis by (cases e) (auto simp: Let_def split: if_splits)
    next
      case (Inr x)
      with Cons.hyps(1) True run have "stored u = (stored s)(k := goal k)" by (auto simp: plans_goal_def)
      with True run Inr Cons.prems Cons.IH [of "changed + 1" unchanged "outcomes @ [outcome_of d]" u]
      show ?thesis by auto
    qed
  qed
qed

lemma execute_unchanged:
  assumes "\<forall>d\<in>set ds. \<not> decision_changed d"
  shows "execute_from planned changed unchanged outcomes ds s =
    (Inr \<lparr>batch_status = BatchCompleted, batch_total = planned, batch_completed = planned, batch_remaining = 0,
        batch_changed = changed, batch_unchanged = unchanged + length ds, batch_failed = 0,
        batch_results = outcomes @ map outcome_of ds\<rparr>, s)"
  using assms by (induction ds arbitrary: unchanged outcomes) auto

lemma mapM_reads:
  assumes "\<And>x. x \<in> set xs \<Longrightarrow> f x s = (h x, s)"
  shows "mapM f xs s = (mapR h xs, s)"
  using assms by (induction xs) (auto simp: bindM_def bindR_def io_simps split: sum.splits)

subsection \<open>Schedules settle\<close>

text \<open>What is relied on of the service: a listing shows what is stored, and a write that is
  answered has stored the schedule; a write may fail at any time.\<close>

definition faithful_schedules :: "('s, 'x) schedule_gateway_scheme \<Rightarrow> ('s \<Rightarrow> string \<times> string \<Rightarrow> audit_schedule option)
    \<Rightarrow> bool" where
  "faithful_schedules g stored \<longleftrightarrow>
     (\<forall>s repo. \<exists>xs. list_schedules g repo s = (Inr xs, s) \<and> (\<forall>key. dict_by schedule_audit_key xs key = stored s (repo, key)))
     \<and> (\<forall>s repo d x t. set_schedule g repo (schedule_audit_key d) d s = (Inr x, t)
          \<longrightarrow> stored t = (stored s)((repo, schedule_audit_key d) := Some d))"

definition planned_decision :: "zones \<Rightarrow> ('s, 'x) schedule_gateway_scheme \<Rightarrow> audit_schedule_update
    \<Rightarrow> (string \<times> string \<Rightarrow> audit_schedule option) \<Rightarrow> repository_ref \<Rightarrow> string \<Rightarrow> 's mutation_decision result" where
  "planned_decision zone g u current r key =
     bindR (plan_schedule_update zone (current (repo_ref_id r, key)) key u) (\<lambda>desired.
       Inr (schedule_decision g r key (current (repo_ref_id r, key)) desired))"

definition schedule_goal :: "zones \<Rightarrow> audit_schedule_update \<Rightarrow> (string \<times> string \<Rightarrow> audit_schedule option)
    \<Rightarrow> string \<times> string \<Rightarrow> audit_schedule option" where
  "schedule_goal zone u current k = (case plan_schedule_update zone (current k) (snd k) u of
       Inr (Some d) \<Rightarrow> Some d | _ \<Rightarrow> current k)"

lemma apply_schedules_run:
  assumes "faithful_schedules g stored"
  shows "apply_schedules zone g keys u rs s =
    (case mapR (\<lambda>r. mapR (planned_decision zone g u (stored s) r) keys) rs of
       Inl e \<Rightarrow> (Inl e, s) | Inr plans \<Rightarrow> execute_batch (concat plans) s)"
proof -
  have "plan_target_schedules zone g keys u r s = (mapR (planned_decision zone g u (stored s) r) keys, s)" for r
  proof -
    obtain xs where "list_schedules g (repo_ref_id r) s = (Inr xs, s)"
      and "dict_by schedule_audit_key xs = (\<lambda>key. stored s (repo_ref_id r, key))"
      using assms by (fastforce simp: faithful_schedules_def fun_eq_iff)
    then show ?thesis
      by (simp add: plan_target_schedules_def planned_decision_def [abs_def] bindM_def io_simps Let_def)
  qed
  then have "mapM (plan_target_schedules zone g keys u) rs s
      = (mapR (\<lambda>r. mapR (planned_decision zone g u (stored s) r) keys) rs, s)"
    by (intro mapM_reads)
  then show ?thesis by (simp add: apply_schedules_def bindM_def split: sum.splits)
qed

lemma plan_key: "plan_schedule_update zone existing key u = Inr (Some d) \<Longrightarrow> schedule_audit_key d = key"
  by (auto simp: plan_schedule_update_def result_simps split: if_splits)

lemma operational_write_InrD: "operational_write send s = (Inr x, t) \<Longrightarrow> \<exists>y. send s = (Inr y, t)"
  by (auto simp: operational_write_def split: prod.splits sum.splits)

lemma planned_decision_goal:
  assumes "faithful_schedules g stored" and "planned_decision zone g u (stored s0) r key = Inr d"
  shows "plans_goal stored (schedule_goal zone u (stored s0)) s0 (repo_ref_id r, key) d"
proof -
  obtain desired where plan: "plan_schedule_update zone (stored s0 (repo_ref_id r, key)) key u = Inr desired"
    and d: "d = schedule_decision g r key (stored s0 (repo_ref_id r, key)) desired"
    using assms(2) by (auto simp: planned_decision_def result_simps)
  have "stored t = (stored s)((repo_ref_id r, key) := Some x)"
    if "desired = Some x" and "operational_write (set_schedule g (repo_ref_id r) key x) s = (Inr y, t)" for x y s t
    using that assms(1) plan_key [OF plan [unfolded that(1)]]
    by (auto simp: faithful_schedules_def dest!: operational_write_InrD)
  with plan d show ?thesis
    by (auto simp: plans_goal_def schedule_goal_def schedule_decision_def changed_decision_def unchanged_decision_def
      Let_def split: option.splits)
qed

lemma plans_reach_goal:
  assumes "faithful_schedules g stored"
    and "mapR (\<lambda>r. mapR (planned_decision zone g u (stored s0) r) keys) rs = Inr plans"
  shows "list_all2 (plans_goal stored (schedule_goal zone u (stored s0)) s0)
    (concat (map (\<lambda>r. map (\<lambda>key. (repo_ref_id r, key)) keys) rs)) (concat plans)"
proof -
  have "list_all2 (\<lambda>r ds. list_all2 (plans_goal stored (schedule_goal zone u (stored s0)) s0)
      (map (\<lambda>key. (repo_ref_id r, key)) keys) ds) rs plans"
    using assms(2) unfolding mapR_Inr_iff
    by (rule list_all2_mono) (auto simp: list_all2_map1 elim: list_all2_mono dest: planned_decision_goal [OF assms(1)])
  then show ?thesis by (induction rs plans rule: list_all2_induct) (auto intro: list_all2_appendI)
qed

lemma settled_decision:
  assumes "planned_decision zone g u current r key = Inr d"
    and "current' (repo_ref_id r, key) = schedule_goal zone u current (repo_ref_id r, key)"
  shows "\<exists>d'. planned_decision zone g u current' r key = Inr d' \<and> \<not> decision_changed d'"
proof -
  obtain desired where plan: "plan_schedule_update zone (current (repo_ref_id r, key)) key u = Inr desired"
    using assms(1) by (auto simp: planned_decision_def result_simps)
  show ?thesis
  proof (cases desired)
    case None
    with plan assms(2) show ?thesis
      by (simp add: planned_decision_def schedule_goal_def schedule_decision_def unchanged_decision_def Let_def)
  next
    case (Some x)
    with plan assms(2) plan_settles [of zone "current (repo_ref_id r, key)" key u x] show ?thesis
      by (simp add: planned_decision_def schedule_goal_def schedule_decision_def unchanged_decision_def Let_def)
  qed
qed

lemma length_concat_const: "\<forall>x\<in>set xs. length x = n \<Longrightarrow> length (concat xs) = length xs * n"
  by (induction xs) auto

lemma mapR_InrD: "mapR f xs = Inr ys \<Longrightarrow> x \<in> set xs \<Longrightarrow> \<exists>y. f x = Inr y"
  by (induction xs arbitrary: ys) (auto simp: result_simps)

lemma mapR_Inr_ex: "(\<And>x. x \<in> set xs \<Longrightarrow> \<exists>y. f x = Inr y \<and> P y) \<Longrightarrow> \<exists>ys. mapR f xs = Inr ys \<and> (\<forall>y\<in>set ys. P y) \<and> length ys = length xs"
proof (induction xs)
  case (Cons x xs)
  then obtain y where "f x = Inr y" "P y" by (metis list.set_intros(1))
  moreover obtain ys where "mapR f xs = Inr ys" "\<forall>y\<in>set ys. P y" "length ys = length xs"
    using Cons by (metis list.set_intros(2))
  ultimately show ?case by simp
qed simp

lemma schedules_settle:
  assumes faithful: "faithful_schedules g stored"
    and run: "apply_schedules zone g keys u rs s = (Inr b, t)" and completed: "batch_status b = BatchCompleted"
  obtains ds where "\<forall>d\<in>set ds. \<not> decision_changed d" and "length ds = batch_total b"
    and "apply_schedules zone g keys u rs t = execute_batch ds t"
proof -
  obtain plans where plans: "mapR (\<lambda>r. mapR (planned_decision zone g u (stored s) r) keys) rs = Inr plans"
    and exec: "execute_batch (concat plans) s = (Inr b, t)"
    using run by (auto simp: apply_schedules_run [OF faithful] split: sum.splits)
  have goal: "stored t (repo_ref_id r, key) = schedule_goal zone u (stored s) (repo_ref_id r, key)"
    if "r \<in> set rs" "key \<in> set keys" for r key
    using execute_from_reaches [OF plans_reach_goal [OF faithful plans] exec [unfolded execute_batch_def] completed] that
    by auto
  have again: "\<exists>ds. mapR (planned_decision zone g u (stored t) r) keys = Inr ds
      \<and> ((\<forall>d\<in>set ds. \<not> decision_changed d) \<and> length ds = length keys)" if r: "r \<in> set rs" for r
  proof -
    from mapR_InrD [OF plans r] have "\<exists>d. planned_decision zone g u (stored s) r key = Inr d"
      if "key \<in> set keys" for key
      using that by (auto dest: mapR_InrD)
    with r goal settled_decision have "\<exists>d'. planned_decision zone g u (stored t) r key = Inr d' \<and> \<not> decision_changed d'"
      if "key \<in> set keys" for key using that by metis
    then show ?thesis by (rule mapR_Inr_ex [where P = "\<lambda>d. \<not> decision_changed d"])
  qed
  obtain plans' where plans': "mapR (\<lambda>r. mapR (planned_decision zone g u (stored t) r) keys) rs = Inr plans'"
    and quiet: "\<forall>ds\<in>set plans'. (\<forall>d\<in>set ds. \<not> decision_changed d) \<and> length ds = length keys"
    and len: "length plans' = length rs"
    using mapR_Inr_ex [where xs = rs and f = "\<lambda>r. mapR (planned_decision zone g u (stored t) r) keys", OF again] by blast
  have "\<forall>ds\<in>set plans. length ds = length keys"
    using plans by (auto simp: mapR_Inr_iff list_all2_conv_all_nth in_set_conv_nth)
  then have "length (concat plans) = length rs * length keys"
    using mapR_length [OF plans] length_concat_const [of plans "length keys"] by simp
  moreover from quiet len have "length (concat plans') = length rs * length keys"
    using length_concat_const [of plans' "length keys"] by simp
  moreover from execute_batch_accounted [OF exec] have "batch_total b = length (concat plans)" by (simp add: accounted_def)
  ultimately show thesis
    using quiet plans' by (intro that [of "concat plans'"]) (auto simp: apply_schedules_run [OF faithful])
qed

text \<open>Schedule updates settle.  When a batch of schedule updates has completed, the same command
  finds nothing to do: it writes nothing, and every outcome is unchanged.\<close>

lemma schedule_updates_settle:
  assumes "faithful_schedules g stored"
    and "apply_schedules zone g keys u rs s = (Inr b, t)" and "batch_status b = BatchCompleted"
  shows "\<exists>b'. apply_schedules zone g keys u rs t = (Inr b', t) \<and> batch_status b' = BatchCompleted
    \<and> batch_changed b' = 0 \<and> batch_total b' = batch_total b
    \<and> (\<forall>x\<in>set (batch_results b'). mutation_status x = OutcomeUnchanged)"
  using assms by (rule schedules_settle) (auto simp: execute_batch_def execute_unchanged)

subsection \<open>A sample service\<close>

text \<open>A service whose state is the list of the schedules that were written, with their repository.\<close>

definition sample_service :: "(string \<times> audit_schedule) list schedule_gateway" where
  "sample_service =
     \<lparr>list_schedules = (\<lambda>repo s. (Inr (map snd (filter (\<lambda>p. fst p = repo) s)), s)),
      set_schedule = (\<lambda>repo key d s. (Inr d, s @ [(repo, d)]))\<rparr>"

definition sample_stored :: "(string \<times> audit_schedule) list \<Rightarrow> string \<times> string \<Rightarrow> audit_schedule option" where
  "sample_stored s k = dict_by schedule_audit_key (map snd (filter (\<lambda>p. fst p = fst k) s)) (snd k)"

lemma sample_service_faithful: "faithful_schedules sample_service sample_stored"
  by (auto simp: faithful_schedules_def sample_service_def sample_stored_def dict_by_def fun_eq_iff)

definition sample_update :: audit_schedule_update where
  "sample_update = \<lparr>update_enabled = Some True, update_cadence = Some ''daily'', update_window_days = None,
     update_time = None, update_timezone = None\<rparr>"

definition sample_target :: repository_ref where
  "sample_target = \<lparr>repo_ref_id = ''r1'', repo_project_id = ''p1'', repo_project_name = Some ''core'',
     repo_identity = \<lparr>identity_provider = GitHub, identity_locator = ''o/n'', identity_host = ''github.com''\<rparr>,
     repo_web_url = [], repo_provider_id = ''1'', repo_connected = None, repo_recon_done = None, repo_scores = [],
     repo_identity_source = FromProvider\<rparr>"

definition sample_run :: "(string \<times> audit_schedule) list \<Rightarrow> batch_mutation_result result \<times> (string \<times> audit_schedule) list" where
  "sample_run = apply_schedules (\<lambda>_. Inr ()) sample_service [''audit.tests''] sample_update [sample_target]"

lemma sample_run_completes:
  "case fst (sample_run []) of Inr b \<Rightarrow> batch_status b = BatchCompleted \<and> batch_changed b = 1 | Inl _ \<Rightarrow> False"
  by code_simp

lemma schedule_updates_settle_witness:
  "\<exists>b'. apply_schedules (\<lambda>_. Inr ()) sample_service [''audit.tests''] sample_update [sample_target] (snd (sample_run []))
      = (Inr b', snd (sample_run [])) \<and> batch_changed b' = 0"
proof -
  obtain b where "sample_run [] = (Inr b, snd (sample_run []))" and "batch_status b = BatchCompleted"
    using sample_run_completes by (cases "sample_run []") (auto split: sum.splits)
  from schedule_updates_settle [OF sample_service_faithful this [unfolded sample_run_def]] show ?thesis
    by (auto simp: sample_run_def)
qed

subsection \<open>Reading the email preferences\<close>

lemma fanout_map_mapR: "fanout_map f xs = mapR f xs"
  by (induction xs) (auto simp: fanout_map_def)

lemma mapR_append: "mapR f (xs @ ys) = bindR (mapR f xs) (\<lambda>a. bindR (mapR f ys) (\<lambda>b. Inr (a @ b)))"
  by (induction xs) (auto simp: bindR_def split: sum.splits)

lemma mapR_pairs:
  "mapR (\<lambda>(t, k). read t k) (concat (map (\<lambda>t. map (\<lambda>k. (t, k)) keys) ts)) =
   bindR (mapR (\<lambda>t. mapR (read t) keys) ts) (\<lambda>rows. Inr (concat rows))"
proof -
  have row: "mapR (\<lambda>(t, k). read t k) (map (\<lambda>k. (t, k)) keys) = mapR (read t) keys" for t
    by (induction keys) auto
  show ?thesis
    by (induction ts) (auto simp: mapR_append row bindR_def split: sum.splits)
qed

lemma mapR_tagged:
  "mapR (\<lambda>t. bindR (mapR (read t) keys) (\<lambda>row. Inr (t, row))) ts =
   bindR (mapR (\<lambda>t. mapR (read t) keys) ts) (\<lambda>rows. Inr (zip ts rows))"
  by (induction ts) (auto simp: bindR_def split: sum.splits)

lemma slice_concat:
  "\<forall>row\<in>set rows. length row = w \<Longrightarrow> i < length rows \<Longrightarrow> take w (drop (i * w) (concat rows)) = rows ! i"
proof (induction rows arbitrary: i)
  case (Cons row rows)
  then show ?case by (cases i) (auto simp: drop_append)
qed simp

lemma slices_zip:
  assumes "\<forall>row\<in>set rows. length row = w" and "length rows = length ts"
  shows "map (\<lambda>(i, t). (t, take w (drop (i * w) (concat rows)))) (enumerate 0 ts) = zip ts rows"
  using assms by (intro nth_equalityI) (auto simp: slice_concat nth_enumerate_eq)

text \<open>The email preferences of several repositories are read by one pool over all pairs of a
  repository and an audit, and its results are cut into slices.  That is equivalent to reading
  repository by repository, the exceptions included.\<close>

lemma email_listing_equivalent:
  "email_list_for_targets read targets keys =
   mapR (\<lambda>t. bindR (mapR (read t) keys) (\<lambda>preferences. Inr (t, preferences))) targets"
proof (cases "keys = []")
  case True
  then show ?thesis by (simp add: email_list_for_targets_def mapR_total)
next
  case False
  show ?thesis
  proof (cases "mapR (\<lambda>t. mapR (read t) keys) targets")
    case (Inl e)
    with False show ?thesis
      by (auto simp: email_list_for_targets_def mapR_tagged mapR_pairs fanout_map_mapR Let_def)
  next
    case (Inr rows)
    then have "\<forall>row\<in>set rows. length row = length keys" and "length rows = length targets"
      by (auto simp: mapR_Inr_iff list_all2_conv_all_nth in_set_conv_nth)
    with Inr False show ?thesis
      by (auto simp: email_list_for_targets_def mapR_tagged mapR_pairs fanout_map_mapR slices_zip Let_def)
  qed
qed

subsection \<open>Partial updates\<close>

lemma first_some_None [simp]: "first_some None y = y"
  by (simp add: first_some_def)

lemma partial_update_facts:
  assumes "desired_job zone (Some e) d u = Inr (Some j)"
  shows "change_enabled u = None \<longrightarrow> job_enabled j = job_enabled e"
    and "change_automatic u = None \<longrightarrow> job_automatic j = job_automatic e"
    and "change_frequency u = None \<and> truthy (job_frequency e) \<longrightarrow> job_frequency j = job_frequency e"
    and "change_days u = None \<and> job_days e \<noteq> [] \<longrightarrow> job_days j = job_days e"
    and "change_timezone u = None \<longrightarrow> job_timezone j = job_timezone e"
    and "change_time u = None \<and> job_source e = Some User \<and> truthy (job_time e)
      \<longrightarrow> job_time j = job_time e \<and> job_source j = Some User"
    and "change_time u = None \<and> job_source e \<noteq> Some User \<longrightarrow> job_time j = Some ''09:00'' \<and> job_source j = Some Auto"
proof -
  from assms obtain x tz where x: "selected_timing (Some e) u = Inr x"
    and tz: "or_opt (change_timezone u) (job_timezone e) = Some tz"
    and j: "job_enabled j = first_some (change_enabled u) (job_enabled e)"
      "job_automatic j = first_some (change_automatic u) (job_automatic e)"
      "job_frequency j = Some (or_str (change_frequency u) (or_str (job_frequency e) ''workdays''))"
      "job_days j = override (change_days u) (job_days_or_default (Some e))" "job_timezone j = Some tz"
      "job_time j = Some (selected_time x)" "job_source j = Some (selected_source x)"
    by (auto elim!: desired_jobE)
  show "change_enabled u = None \<longrightarrow> job_enabled j = job_enabled e"
    "change_automatic u = None \<longrightarrow> job_automatic j = job_automatic e" by (simp_all add: j)
  show "change_frequency u = None \<and> truthy (job_frequency e) \<longrightarrow> job_frequency j = job_frequency e"
    by (cases "job_frequency e") (auto simp: j or_str_def)
  show "change_days u = None \<and> job_days e \<noteq> [] \<longrightarrow> job_days j = job_days e"
    by (simp add: j override_def job_days_or_default_def)
  show "change_timezone u = None \<longrightarrow> job_timezone j = job_timezone e" using tz by (auto simp: j or_opt_def)
  show "change_time u = None \<and> job_source e = Some User \<and> truthy (job_time e)
      \<longrightarrow> job_time j = job_time e \<and> job_source j = Some User"
    using x by (cases "job_time e")
      (auto simp: j selected_timing_def select_preserved_auto_time_def select_schedule_time_def or_str_def)
  show "change_time u = None \<and> job_source e \<noteq> Some User \<longrightarrow> job_time j = Some ''09:00'' \<and> job_source j = Some Auto"
    using x by (auto simp: j selected_timing_def select_preserved_auto_time_def select_schedule_time_def)
qed

text \<open>An update of an existing improvement job keeps what it does not name: whether the job is
  enabled and applies its changes, the cadence, the days and the time zone.  The clock time is kept
  only where the operator had set one: a job on an automatic time is moved to 09:00 by an update
  that names no time, whatever time it had.\<close>

lemma partial_update_of_job:
  assumes "desired_job zone (Some e) d u = Inr (Some j)"
  shows "(change_enabled u = None \<longrightarrow> job_enabled j = job_enabled e)
    \<and> (change_automatic u = None \<longrightarrow> job_automatic j = job_automatic e)
    \<and> (change_frequency u = None \<and> truthy (job_frequency e) \<longrightarrow> job_frequency j = job_frequency e)
    \<and> (change_days u = None \<and> job_days e \<noteq> [] \<longrightarrow> job_days j = job_days e)
    \<and> (change_timezone u = None \<longrightarrow> job_timezone j = job_timezone e)
    \<and> (change_time u = None \<and> job_source e = Some User \<and> truthy (job_time e)
        \<longrightarrow> job_time j = job_time e \<and> job_source j = Some User)
    \<and> (change_time u = None \<and> job_source e \<noteq> Some User \<longrightarrow> job_time j = Some ''09:00'' \<and> job_source j = Some Auto)"
  by (intro conjI partial_update_facts [OF assms])

definition sample_definition :: improvement_definition where
  "sample_definition = \<lparr>improvement_key = ''improvement.test-writing'', improvement_variant = ''v1'',
     improvement_name = None, improvement_text = None, source_audit = Some ''audit.tests'',
     improvement_kind = Some ''test-writing'', supported = True, improvement_runbook = None, sort_order = None\<rparr>"

definition sample_job :: improvement_job where
  "sample_job = \<lparr>job_key = ''improvement.test-writing'', job_variant = ''v1'', job_kind = Some ''test-writing'',
     job_enabled = Some False, job_automatic = Some True, job_provider_variant = None, job_frequency = Some ''weekly'',
     job_days = [''tue''], job_time = Some ''11:30'', job_source = Some Auto, job_timezone = Some ''UTC'',
     pentest_mode = None\<rparr>"

definition sample_change :: improvement_job_update where
  "sample_change = \<lparr>change_enabled = Some True, change_frequency = None, change_timezone = None,
     change_days = None, change_time = None, change_automatic = None\<rparr>"

lemma sample_change_planned:
  "case desired_job (\<lambda>_. Inr ()) (Some sample_job) sample_definition sample_change of Inr (Some j) \<Rightarrow> True | _ \<Rightarrow> False"
  by code_simp

lemma partial_update_of_job_witness:
  "\<exists>j. desired_job (\<lambda>_. Inr ()) (Some sample_job) sample_definition sample_change = Inr (Some j)
    \<and> job_days j = [''tue''] \<and> job_time sample_job = Some ''11:30'' \<and> job_time j = Some ''09:00''"
proof -
  obtain j where j: "desired_job (\<lambda>_. Inr ()) (Some sample_job) sample_definition sample_change = Inr (Some j)"
    using sample_change_planned by (auto split: sum.splits option.splits)
  with partial_update_of_job [OF j] show ?thesis by (simp add: sample_change_def sample_job_def)
qed

end
