(* ===== verification/Portfolio_Operations.thy ===== *)
theory Portfolio_Operations
  imports Portfolio_Selectors
begin

section \<open>Portfolio workflows (portfolio/projects.py, repositories.py, recon.py, status.py)\<close>

text \<open>
  Creating, renaming and deleting projects, membership of repositories, recon, and the overview.
  What recon needs of the audit side (the active runs of a repository, starting one audit) is
  given as two computations, as its two ports declare.
\<close>

subsection \<open>Results\<close>

datatype recon_state = AuditState audit_run_state | ReconUnchanged

record recon_result =
  recon_state :: recon_state
  recon_repo_id :: string
  recon_task_id :: "string option"
  recon_task_status :: "string option"
  recon_reason :: "string option"

record operation_result =
  op_state :: string
  op_project :: "project_ref option"
  op_repository :: "repository_ref option"
  op_source_project :: "string option"
  op_target_project :: "string option"
  op_message :: "string option"
  op_recon :: "recon_result option"

definition operation :: "string \<Rightarrow> operation_result" where
  "operation state = \<lparr>op_state = state, op_project = None, op_repository = None, op_source_project = None,
     op_target_project = None, op_message = None, op_recon = None\<rparr>"

fun is_portfolio_not_found :: "exn \<Rightarrow> bool" where
  "is_portfolio_not_found (PortfolioNotFoundError _) = True"
| "is_portfolio_not_found _ = False"

subsection \<open>Projects\<close>

definition same_project_name :: "string \<Rightarrow> project_ref \<Rightarrow> bool" where
  "same_project_name name p = (truthy (project_name p) \<and> py_casefold (the (project_name p)) = py_casefold name)"

definition create_project :: "'s portfolio_gateway \<Rightarrow> string \<Rightarrow> ('s, operation_result) io" where
  "create_project g given =
     bindM (liftM (validated_project_name given)) (\<lambda>name.
     bindM (list_projects g) (\<lambda>projects.
       (case find (same_project_name name) projects of
          Some p \<Rightarrow> retM ((operation ''already_present'')\<lparr>op_project := Some p\<rparr>)
        | None \<Rightarrow> bindM (gateway_create_project g name) (\<lambda>p.
            retM ((operation ''created'')\<lparr>op_project := Some p\<rparr>)))))"

definition rename_project :: "'s portfolio_gateway \<Rightarrow> string \<Rightarrow> string \<Rightarrow> ('s, operation_result) io" where
  "rename_project g selector given =
     bindM (list_projects g) (\<lambda>projects.
     bindM (liftM (resolve_project projects (Some selector))) (\<lambda>selected.
     bindM (liftM (validated_project_name given)) (\<lambda>name.
       if (case project_name selected of Some n \<Rightarrow> py_casefold n = py_casefold name | None \<Rightarrow> False)
       then retM ((operation ''unchanged'')\<lparr>op_project := Some selected\<rparr>)
       else bindM (gateway_rename_project g (project_ref_id selected) name) (\<lambda>p.
         retM ((operation ''renamed'')\<lparr>op_project := Some p\<rparr>)))))"

text \<open>\<open>try: x = m except PortfolioNotFoundError\<close>: \<open>None\<close> where it was raised.\<close>

definition unless_not_found :: "('s, 'a) io \<Rightarrow> ('s, 'a option) io" where
  "unless_not_found m = handleM (bindM m (\<lambda>x. retM (Some x))) is_portfolio_not_found (\<lambda>_. retM None)"

definition delete_project :: "'s portfolio_gateway \<Rightarrow> string \<Rightarrow> ('s, operation_result) io" where
  "delete_project g selector =
     bindM (unless_not_found (bindM (list_projects g) (\<lambda>projects. liftM (resolve_project projects (Some selector)))))
       (\<lambda>found. case found of
          None \<Rightarrow> retM ((operation ''already_absent'')\<lparr>op_message := Some (''project already absent: '' @ selector)\<rparr>)
        | Some selected \<Rightarrow> bindM (read_project_detail g (project_ref_id selected)) (\<lambda>d.
            if detail_repositories d \<noteq> []
            then throwM (ValueError (''project is not empty: '' @ show_nat (length (detail_repositories d)) @ '' repo(s)''))
            else thenM (gateway_delete_project g (project_ref_id selected))
              (retM ((operation ''deleted'')\<lparr>op_project := Some selected\<rparr>))))"

subsection \<open>Repositories\<close>

definition all_targets :: "'s portfolio_gateway \<Rightarrow> ('s, repository_ref list) io" where
  "all_targets g = targets_in g None"

definition add_repository :: "'s portfolio_gateway \<Rightarrow> string \<Rightarrow> string option \<Rightarrow> string option
    \<Rightarrow> ('s, operation_result) io" where
  "add_repository g repo selector credential =
     bindM (liftM (parse_repository_selector repo)) (\<lambda>identity.
     bindM (list_projects g) (\<lambda>projects.
     bindM (liftM (resolve_project projects selector)) (\<lambda>selected.
     bindM (read_project_detail g (project_ref_id selected)) (\<lambda>d.
       (case find (\<lambda>r. identity_matches (repo_identity r) identity) (detail_repositories d) of
          Some existing \<Rightarrow>
            bindM (if repo_connected existing \<noteq> Some True
                   then gateway_connect_repository g (project_ref_id selected) (repo_ref_id existing)
                   else retM existing) (\<lambda>r.
              retM ((operation ''already_present'')\<lparr>op_repository := Some r, op_project := Some selected\<rparr>))
        | None \<Rightarrow> bindM (gateway_add_repository g (project_ref_id selected) identity credential) (\<lambda>r.
            retM ((operation ''added'')\<lparr>op_repository := Some r, op_project := Some selected\<rparr>)))))))"

definition remove_repository :: "(string \<Rightarrow> string list \<Rightarrow> string list) \<Rightarrow> 's portfolio_gateway \<Rightarrow> string
    \<Rightarrow> string option \<Rightarrow> ('s, operation_result) io" where
  "remove_repository close_matches g repo project =
     bindM (unless_not_found (bindM (all_targets g) (\<lambda>rs. liftM (resolve_repository close_matches rs repo project))))
       (\<lambda>found. case found of
          None \<Rightarrow> retM ((operation ''already_absent'')\<lparr>op_message := Some (''repository already absent: '' @ repo)\<rparr>)
        | Some r \<Rightarrow> thenM (gateway_remove_repository g (repo_project_id r) (repo_ref_id r))
            (retM ((operation ''removed'')\<lparr>op_repository := Some r\<rparr>)))"

definition move_repository :: "(string \<Rightarrow> string list \<Rightarrow> string list) \<Rightarrow> 's portfolio_gateway \<Rightarrow> string
    \<Rightarrow> string option \<Rightarrow> string \<Rightarrow> ('s, operation_result) io" where
  "move_repository close_matches g repo source destination_selector =
     bindM (all_targets g) (\<lambda>rs.
     bindM (liftM (resolve_repository close_matches rs repo source)) (\<lambda>r.
     bindM (list_projects g) (\<lambda>projects.
     bindM (liftM (resolve_project projects (Some destination_selector))) (\<lambda>destination.
       if repo_project_id r = project_ref_id destination
       then retM ((operation ''already_in_target'')\<lparr>op_repository := Some r, op_source_project := Some (repo_project_id r),
              op_target_project := Some (project_ref_id destination)\<rparr>)
       else bindM (gateway_preflight_move g (repo_project_id r) (repo_ref_id r) (project_ref_id destination)) (\<lambda>preflight.
         if \<not> move_allowed preflight
         then throwM (ValueError (or_str (move_message preflight) ''repository move preflight failed''))
         else bindM (gateway_move_repository g (repo_project_id r) (repo_ref_id r) (project_ref_id destination)) (\<lambda>moved.
           retM ((operation ''moved'')\<lparr>op_repository := Some moved, op_source_project := Some (repo_project_id r),
             op_target_project := Some (project_ref_id destination)\<rparr>)))))))"

subsection \<open>Recon\<close>

record audit_start_outcome =
  outcome_state :: audit_run_state
  outcome_task_id :: "string option"
  outcome_task_status :: "string option"
  outcome_reason :: "string option"

text \<open>What Portfolio is told of the audits of a repository.\<close>

record portfolio_audit_status =
  status_summary :: audit_status
  status_active_runs :: "audit_run list"

definition start_recon :: "(string \<Rightarrow> ('s, portfolio_audit_status) io)
    \<Rightarrow> (string \<Rightarrow> string \<Rightarrow> string \<Rightarrow> ('s, audit_start_outcome) io) \<Rightarrow> repository_ref \<Rightarrow> ('s, recon_result) io" where
  "start_recon audits start r =
     bindM (audits (repo_ref_id r)) (\<lambda>st.
       (case find (\<lambda>x. run_action_key x = Some ''audit.recon'') (status_active_runs st) of
          Some x \<Rightarrow> retM \<lparr>recon_state = AuditState AlreadyRunning, recon_repo_id = repo_ref_id r,
            recon_task_id = run_task_id x, recon_task_status = run_status x, recon_reason = None\<rparr>
        | None \<Rightarrow>
            if repo_recon_done r = Some True
            then retM \<lparr>recon_state = ReconUnchanged, recon_repo_id = repo_ref_id r, recon_task_id = None,
              recon_task_status = None, recon_reason = None\<rparr>
            else bindM (start (repo_ref_id r) (repo_project_id r) ''audit.recon'') (\<lambda>outcome.
              retM \<lparr>recon_state = AuditState (outcome_state outcome), recon_repo_id = repo_ref_id r,
                recon_task_id = outcome_task_id outcome, recon_task_status = outcome_task_status outcome,
                recon_reason = outcome_reason outcome\<rparr>)))"

definition recon_after_add :: "(string \<Rightarrow> ('s, portfolio_audit_status) io)
    \<Rightarrow> (string \<Rightarrow> string \<Rightarrow> string \<Rightarrow> ('s, audit_start_outcome) io) \<Rightarrow> repository_ref \<Rightarrow> ('s, recon_result) io" where
  "recon_after_add audits start r = start_recon audits start r"

subsection \<open>The overview\<close>

record repository_overview =
  overview_repository :: repository_ref
  overview_runs :: "portfolio_active_run list"

record project_overview =
  overview_project :: project_ref
  overview_repositories :: "repository_overview list"

definition overview_name :: "repository_overview \<Rightarrow> string \<times> string \<times> string" where
  "overview_name o' = canonical_key (repo_identity (overview_repository o'))"

text \<open>No score sorts last, as an infinite one does: the first component says there is none.\<close>

definition overview_score :: "bool \<Rightarrow> repository_overview \<Rightarrow> (bool \<times> rat) \<times> string \<times> string \<times> string" where
  "overview_score weakest o' =
     (let values = List.map_filter snd (repo_scores (overview_repository o')) in
      (if values = [] then (True, 0)
       else (False, if weakest then fold min (tl values) (hd values)
                    else sum_list values / rat_of_nat (length values)), overview_name o'))"

definition overview_latest_audit_at :: "repository_overview \<Rightarrow> string" where
  "overview_latest_audit_at o' = fold max (map (\<lambda>r. or_str (active_completed_at r) []) (overview_runs o')) []"

text \<open>\<open>sorted(xs, key, reverse=True)\<close> keeps the order of elements with equal keys.\<close>

definition sort_key_reversed :: "('a \<Rightarrow> 'k::linorder) \<Rightarrow> 'a list \<Rightarrow> 'a list" where
  "sort_key_reversed f xs = rev (sort_key f (rev xs))"

definition sort_overview_repositories :: "repository_overview list \<Rightarrow> string \<Rightarrow> repository_overview list result" where
  "sort_overview_repositories rs by =
     (if by = ''default'' then Inr rs
      else if by = ''name'' then Inr (sort_key overview_name rs)
      else if by = ''weakest'' then Inr (sort_key (overview_score True) rs)
      else if by = ''overall'' then Inr (sort_key (overview_score False) rs)
      else if by = ''latest-audit'' then Inr (sort_key_reversed overview_latest_audit_at rs)
      else Inl (ValueError (''unknown repository sort: '' @ by)))"

definition overview_of_project :: "project_detail \<Rightarrow> portfolio_active_run list \<Rightarrow> string \<Rightarrow> project_overview result" where
  "overview_of_project d runs by =
     bindR (sort_overview_repositories
         (map (\<lambda>r. \<lparr>overview_repository = r, overview_runs = filter (\<lambda>x. active_repo_id x = repo_ref_id r) runs\<rparr>)
            (detail_repositories d)) by) (\<lambda>rs.
       Inr \<lparr>overview_project = detail_project d, overview_repositories = rs\<rparr>)"

record portfolio_overview =
  overview_observed_at :: string
  overview_projects :: "project_overview list"

definition assemble_overview :: "('s, string) io \<Rightarrow> 's portfolio_gateway \<Rightarrow> string option \<Rightarrow> string
    \<Rightarrow> ('s, portfolio_overview) io" where
  "assemble_overview now g project by =
     bindM (list_projects g) (\<lambda>listed.
       let projects = (case project of
             None \<Rightarrow> listed
           | Some p \<Rightarrow> filter (\<lambda>x. p = project_ref_id x \<or> project_name x = Some p) listed) in
       if projects = [] then bindM now (\<lambda>observed. retM \<lparr>overview_observed_at = observed, overview_projects = []\<rparr>)
       else bindM (fanout_reads (\<lambda>x. read_project_detail g (project_ref_id x)) projects) (\<lambda>details.
         bindM (fanout_reads (\<lambda>x. project_active_runs g (project_ref_id x)) projects) (\<lambda>runs.
         bindM (liftM (mapR (\<lambda>(d, r). overview_of_project d r by) (zip details runs))) (\<lambda>overviews.
         bindM now (\<lambda>observed. retM \<lparr>overview_observed_at = observed, overview_projects = overviews\<rparr>)))))"

subsection \<open>The status of one repository\<close>

record repository_status =
  status_repository :: repository_ref
  status_audit :: portfolio_audit_status

definition repository_status_active :: "repository_status \<Rightarrow> bool" where
  "repository_status_active st = (status_active_runs (status_audit st) \<noteq> [])"

definition repository_status_of :: "(string \<Rightarrow> ('s, portfolio_audit_status) io) \<Rightarrow> repository_ref
    \<Rightarrow> ('s, repository_status) io" where
  "repository_status_of audits r =
     bindM (audits (repo_ref_id r)) (\<lambda>st. retM \<lparr>status_repository = r, status_audit = st\<rparr>)"

definition status_for_repo :: "(string \<Rightarrow> string list \<Rightarrow> string list) \<Rightarrow> 's portfolio_gateway
    \<Rightarrow> (string \<Rightarrow> ('s, portfolio_audit_status) io) \<Rightarrow> string \<Rightarrow> string option \<Rightarrow> ('s, repository_status list) io" where
  "status_for_repo close_matches g audits repo project =
     bindM (all_targets g) (\<lambda>rs.
     bindM (liftM (resolve_repository close_matches rs repo project)) (\<lambda>r.
     bindM (repository_status_of audits r) (\<lambda>st. retM [st])))"

end
