(* ===== verification/Portfolio_Properties.thy ===== *)
theory Portfolio_Properties
  imports Portfolio_Operations
begin

section \<open>Properties of selectors and scopes\<close>

subsection \<open>Scopes\<close>

lemma selected_projects_Some:
  "selected_projects projects (Some p) = Inr selected
   \<longleftrightarrow> (\<exists>x. filter (\<lambda>x. project_matches x p) projects = [x] \<and> selected = [x])"
  by (auto simp: selected_projects_def resolve_project_def result_simps split: list.splits)

lemma targets_in_InrD:
  assumes "targets_in g project s = (Inr rs, t)"
  shows "\<exists>projects s' selected details. list_projects g s = (Inr projects, s') \<and> selected_projects projects project = Inr selected
    \<and> list_all2 (\<lambda>p d. fst (read_project_detail g (project_ref_id p) s') = Inr d) selected details
    \<and> rs = concat (map detail_repositories details)"
  using assms
  by (auto simp: targets_in_def fanout_reads_def io_simps mapR_Inr_iff repository_targets_def elim!: bindM_InrE)

lemma resolve_repository_InrD:
  assumes "resolve_repository close_matches rs selector project = Inr r"
  shows "r \<in> set rs \<and> in_project project r \<and> (repository_matches r selector \<or> repository_locator_matches r selector)
    \<and> (\<forall>x\<in>set rs. in_project project x \<and> repository_matches x selector \<longrightarrow> x = r)"
proof -
  let ?scoped = "filter (in_project project) rs"
  show ?thesis
  proof (cases "filter (\<lambda>x. repository_matches x selector) ?scoped = []")
    case True
    with assms have "filter (\<lambda>x. repository_locator_matches x selector) ?scoped = [r]"
      by (auto simp: resolve_repository_def Let_def split: list.splits)
    then have "r \<in> set (filter (\<lambda>x. repository_locator_matches x selector) ?scoped)" by simp
    with True show ?thesis by (auto simp: filter_empty_conv)
  next
    case False
    with assms have found: "filter (\<lambda>x. repository_matches x selector) ?scoped = [r]"
      by (auto simp: resolve_repository_def Let_def split: list.splits if_splits)
    then have "r \<in> set (filter (\<lambda>x. repository_matches x selector) ?scoped)" by simp
    moreover have "x = r" if "x \<in> set rs" "in_project project x" "repository_matches x selector" for x
    proof -
      from that have "x \<in> set (filter (\<lambda>x. repository_matches x selector) ?scoped)" by simp
      then show "x = r" unfolding found by simp
    qed
    ultimately show ?thesis by simp
  qed
qed


text \<open>The scope of a write is explicit.  All projects are written only when asked for alone; all
  repositories of a project only when the selector names exactly one listed project, and then its
  repositories are the targets; otherwise the target is one repository, which matches the selector
  and lies in the project that was named.\<close>

lemma write_scope_explicit:
  assumes "write_targets close_matches g repo project all_repos all_projects op s = (Inr rs, t)"
  shows "(all_projects \<longrightarrow> \<not> all_repos \<and> repo = None \<and> project = None)
    \<and> (all_repos \<longrightarrow> \<not> all_projects \<and> repo = None \<and> (\<exists>p projects s' x d. project = Some p
        \<and> list_projects g s = (Inr projects, s') \<and> filter (\<lambda>x. project_matches x p) projects = [x]
        \<and> fst (read_project_detail g (project_ref_id x) s') = Inr d \<and> rs = detail_repositories d))
    \<and> (\<not> all_projects \<and> \<not> all_repos \<longrightarrow> (\<exists>selector r. repo = Some selector \<and> rs = [r] \<and> in_project project r
        \<and> (repository_matches r selector \<or> repository_locator_matches r selector)))"
proof -
  obtain scope where scope: "scope_from_args repo project all_repos all_projects op = Inr scope"
    using assms by (auto simp: write_targets_def io_simps elim!: bindM_InrE)
  consider (all) "all_projects" "\<not> all_repos" "repo = None" "project = None"
    | (some) p where "all_repos" "\<not> all_projects" "repo = None" "project = Some p" "scope = AllRepos p"
    | (one) selector where "\<not> all_repos" "\<not> all_projects" "repo = Some selector" "scope = OneRepo selector project"
    using scope by (auto simp: scope_from_args_def split: if_splits option.splits)
  then show ?thesis
  proof cases
    case all
    then show ?thesis by simp
  next
    case (some p)
    with assms scope have "targets_in g (Some p) s = (Inr rs, t)"
      by (simp add: write_targets_def target_repositories_def)
    from targets_in_InrD [OF this] some show ?thesis
      by (auto simp: selected_projects_Some list_all2_Cons1)
  next
    case (one selector)
    with assms scope obtain r listed where "rs = [r]" and "resolve_repository close_matches listed selector project = Inr r"
      by (auto simp: write_targets_def target_repositories_def resolve_repository_in_def io_simps elim!: bindM_InrE)
    with one resolve_repository_InrD show ?thesis by metis
  qed
qed


definition sample_repository :: "string \<Rightarrow> string \<Rightarrow> string \<Rightarrow> repository_ref" where
  "sample_repository project name key = \<lparr>repo_ref_id = key, repo_project_id = project, repo_project_name = Some name,
     repo_identity = \<lparr>identity_provider = GitHub, identity_locator = ''acme/'' @ key, identity_host = ''github.com''\<rparr>,
     repo_web_url = [], repo_provider_id = key, repo_connected = None, repo_recon_done = None, repo_scores = [],
     repo_identity_source = FromProvider\<rparr>"

definition sample_detail :: "string \<Rightarrow> string \<Rightarrow> string list \<Rightarrow> project_detail" where
  "sample_detail project name keys = \<lparr>detail_project = \<lparr>project_ref_id = project, project_name = Some name\<rparr>,
     detail_repositories = map (sample_repository project name) keys, detail_websites = [], detail_website_repos = (\<lambda>_. [])\<rparr>"

definition sample_portfolio :: "unit portfolio_gateway" where
  "sample_portfolio =
     \<lparr>list_projects = retM [\<lparr>project_ref_id = ''p1'', project_name = Some ''Core''\<rparr>, \<lparr>project_ref_id = ''p2'', project_name = Some ''Labs''\<rparr>],
      read_project_detail = (\<lambda>p. retM (if p = ''p1'' then sample_detail ''p1'' ''Core'' [''api'', ''web'']
        else sample_detail ''p2'' ''Labs'' [''lab''])),
      project_active_runs = (\<lambda>_. retM []), gateway_create_project = (\<lambda>_. throwM (PortfolioUpstreamError [])),
      gateway_rename_project = (\<lambda>_ _. throwM (PortfolioUpstreamError [])), gateway_delete_project = (\<lambda>_. throwM (PortfolioUpstreamError [])),
      gateway_add_repository = (\<lambda>_ _ _. throwM (PortfolioUpstreamError [])), gateway_remove_repository = (\<lambda>_ _. throwM (PortfolioUpstreamError [])),
      gateway_connect_repository = (\<lambda>_ _. throwM (PortfolioUpstreamError [])),
      gateway_preflight_move = (\<lambda>_ _ _. throwM (PortfolioUpstreamError [])),
      gateway_move_repository = (\<lambda>_ _ _. throwM (PortfolioUpstreamError []))\<rparr>"

lemma sample_scope:
  "case fst (write_targets (\<lambda>_ _. []) sample_portfolio None (Some ''core'') True False ''audit start'' ()) of
     Inr rs \<Rightarrow> map repo_ref_id rs = [''api'', ''web''] | Inl _ \<Rightarrow> False"
  by code_simp

lemma write_scope_explicit_witness:
  "\<exists>rs p d. write_targets (\<lambda>_ _. []) sample_portfolio None (Some ''core'') True False ''audit start'' () = (Inr rs, ())
    \<and> map repo_ref_id rs = [''api'', ''web'']
    \<and> fst (read_project_detail sample_portfolio p ()) = Inr d \<and> rs = detail_repositories d"
proof -
  obtain rs where run: "write_targets (\<lambda>_ _. []) sample_portfolio None (Some ''core'') True False ''audit start'' () = (Inr rs, ())"
    and rs: "map repo_ref_id rs = [''api'', ''web'']"
    using sample_scope
    by (cases "write_targets (\<lambda>_ _. []) sample_portfolio None (Some ''core'') True False ''audit start'' ()") (auto split: sum.splits)
  from write_scope_explicit [OF run] obtain p s' d
    where "fst (read_project_detail sample_portfolio p s') = Inr d" "rs = detail_repositories d" by auto
  with run rs show ?thesis by (metis (full_types) unit.exhaust)
qed

subsection \<open>Selectors\<close>

lemma dropWhile_id: "s = [] \<or> \<not> P (hd s) \<Longrightarrow> dropWhile P s = s"
  by (cases s) auto

lemma strip_id: "s \<noteq> [] \<Longrightarrow> \<not> py_isspace (hd s) \<Longrightarrow> \<not> py_isspace (last s) \<Longrightarrow> py_strip s = s"
  by (simp add: py_strip_def py_rstrip_by_def py_lstrip_def dropWhile_id hd_rev)

lemma strip_last: "py_strip s \<noteq> [] \<Longrightarrow> \<not> py_isspace (last (py_strip s))"
  by (simp add: py_strip_def py_rstrip_by_def last_rev hd_dropWhile)

text \<open>What lower case and case folding leave alone: the separators of a selector.\<close>

definition separator :: "char \<Rightarrow> bool" where
  "separator c = (c = CHR ''@'' \<or> c = CHR '':'')"

lemma separator_codes: "separator c \<longleftrightarrow> char_code c = 58 \<or> char_code c = 64"
proof -
  have "(char_of (58 :: nat) :: char) = CHR '':''" "(char_of (64 :: nat) :: char) = CHR ''@''" by code_simp+
  moreover have "c = char_of (char_code c)" by (simp add: char_code_def)
  moreover have "char_code (CHR ''@'') = 64" "char_code (CHR '':'') = 58" by (simp_all add: char_code_def)
  ultimately show ?thesis unfolding separator_def by metis
qed

lemma lower_separator: "separator (lower_char c) \<Longrightarrow> separator c"
  by (auto simp: separator_codes lower_char_def Let_def char_code_def split: if_splits)

lemma casefold_separator: "x \<in> set (casefold_char c) \<Longrightarrow> separator x \<Longrightarrow> separator c"
proof (cases "char_code c = 223")
  case True
  assume "x \<in> set (casefold_char c)" "separator x"
  with True show ?thesis by (auto simp: casefold_char_def separator_def)
next
  case False
  assume "x \<in> set (casefold_char c)" "separator x"
  with False show ?thesis by (auto simp: casefold_char_def dest: lower_separator)
qed

lemma folded_plain: "\<forall>c\<in>set s. \<not> separator c \<Longrightarrow> \<forall>c\<in>set (py_casefold (py_lower s)). \<not> separator c"
  by (fastforce simp: py_casefold_def py_lower_def dest: casefold_separator lower_separator)

lemma rstrip_set: "set (py_rstrip_by p s) \<subseteq> set s"
  by (auto simp: py_rstrip_by_def dest: set_dropWhileD)

lemma py_split_max_hd: "c \<notin> set (hd (py_split_max (Suc n) c s)) \<and> set (hd (py_split_max (Suc n) c s)) \<subseteq> set s"
  by (induction s) (auto split: list.splits)

text \<open>The host of a canonical identity: no \<open>@\<close>, and a colon only before the port.\<close>

lemma canonical_host_shape:
  assumes "canonical_host provider h = Inr h"
  obtains (plain) "\<forall>c\<in>set h. \<not> separator c"
  | (port) name n where "h = name @ '':'' @ show_nat n" and "\<forall>c\<in>set name. \<not> separator c" and "1 \<le> n" and "n \<le> MAX_PORT"
proof -
  let ?host = "py_rstrip_by (\<lambda>c. c = CHR ''/'') (py_casefold (py_strip h))"
  from assms have at: "CHR ''@'' \<notin> set ?host"
    by (auto simp: canonical_host_def Let_def split: if_splits)
  show thesis
  proof (cases "CHR '':'' \<in> set ?host")
    case False
    with assms have "?host = h" by (auto simp: canonical_host_def Let_def split: if_splits)
    with at False have "\<forall>c\<in>set h. \<not> separator c" by (auto simp: separator_def)
    then show thesis by (rule plain)
  next
    case True
    with assms have canon: "canonical_host_port ?host = Some h"
      by (auto simp: canonical_host_def Let_def split: if_splits option.splits)
    let ?kept = "filter (\<lambda>c. char_code c \<notin> {9, 10, 13}) ?host"
    from canon obtain name p where split: "py_split_max (Suc 0) (CHR '':'') ?kept = [name, p]"
      and h: "h = py_casefold (py_lower name) @ '':'' @ show_nat (decimal_value p)"
      and range: "1 \<le> decimal_value p" "decimal_value p \<le> MAX_PORT"
      by (auto simp: canonical_host_port_def Let_def split: if_splits list.splits)
    have "CHR '':'' \<notin> set name" "set name \<subseteq> set ?kept"
      using py_split_max_hd [of "CHR '':''" 0 ?kept] unfolding split by auto
    with at have "\<forall>c\<in>set name. \<not> separator c" by (auto simp: separator_def)
    then show thesis by (rule port [OF h folded_plain range])
  qed
qed

lemma provider_of_value [simp]: "provider_of (py_casefold (provider_value p)) = Some p"
proof (cases p)
  case GitHub
  have "provider_of (py_casefold ''github'') = Some GitHub" by code_simp
  with GitHub show ?thesis by simp
next
  case GitLab
  have "provider_of (py_casefold ''gitlab'') = Some GitLab" by code_simp
  with GitLab show ?thesis by simp
qed

lemma provider_value_plain: "CHR ''@'' \<notin> set (provider_value p)" "provider_value p \<noteq> []" "\<not> py_isspace (hd (provider_value p))"
  by (cases p; simp add: py_isspace_def char_code_def)+

lemma make_identity_InrD:
  assumes "make_identity provider locator host = Inr i"
  shows "canonical_host provider host = Inr (identity_host i)" and "identity_locator i = py_strip locator"
    and "py_strip locator \<noteq> []"
proof -
  from assms obtain h where h: "canonical_host provider host = Inr h"
    by (auto simp: make_identity_def result_simps)
  with assms show "canonical_host provider host = Inr (identity_host i)" and "identity_locator i = py_strip locator"
    and "py_strip locator \<noteq> []"
    by (auto simp: make_identity_def Let_def split: if_splits)
qed

lemma selector_host_locator_of:
  assumes "canonical_host provider h = Inr h" and "CHR '':'' \<notin> set locator"
  shows "selector_host_locator (h @ CHR '':'' # locator) = Inr (h, locator)"
  using assms(1)
proof (cases rule: canonical_host_shape)
  case plain
  then have "CHR '':'' \<notin> set h" by (auto simp: separator_def)
  with assms(2) have split: "py_split_max 2 (CHR '':'') (h @ CHR '':'' # locator) = [h, locator]"
    unfolding numeral_2_eq_2 by (simp only: py_split_max_found py_split_max_none simp_thms)
  show ?thesis unfolding selector_host_locator_def split by simp
next
  case (port name n)
  then have "CHR '':'' \<notin> set name" "CHR '':'' \<notin> set (show_nat n)"
    using show_nat_decimal [of n] by (auto simp: separator_def dest: decimal_no_colon)
  then have split: "py_split_max 2 (CHR '':'') (h @ CHR '':'' # locator) = [name, show_nat n, locator]"
    unfolding numeral_2_eq_2 port(1) append_assoc append.simps by (simp only: py_split_max_found py_split_max.simps(1) simp_thms)
  have range: "\<not> (n < 1 \<or> n > MAX_PORT)" using port by simp
  show ?thesis
    unfolding selector_host_locator_def split list.case py_isdigit_show_nat py_int_show_nat bindR_Inr
    by (simp only: range port(1) py_isdigit_show_nat py_int_show_nat bindR_Inr if_False not_True_eq_False append_assoc)
qed

text \<open>What the program prints for a repository selects it: the label of a canonical identity
  (one that is rebuilt from its own fields) parses back to the identity, for every provider and
  host, with a port or without, provided that the locator has no colon and no blank around a
  slash.\<close>

lemma label_parses_back:
  assumes "make_identity (identity_provider i) (identity_locator i) (identity_host i) = Inr i" and "repo_identity r = i"
    and "CHR '':'' \<notin> set (identity_locator i)" and "\<forall>part\<in>set (py_split (CHR ''/'') (identity_locator i)). py_strip part = part"
  shows "parse_repository_selector (repository_label r) = Inr i \<and> repository_matches r (repository_label r)"
proof -
  note fixed = make_identity_InrD [OF assms(1)]
  let ?rest = "identity_host i @ '':'' @ identity_locator i"
  have label: "repository_label r = provider_value (identity_provider i) @ CHR ''@'' # ?rest"
    by (simp add: repository_label_def assms(2) Let_def)
  have strip: "py_strip (repository_label r) = repository_label r"
    using provider_value_plain [of "identity_provider i"] fixed(2,3) strip_last [of "identity_locator i"]
    by (intro strip_id) (auto simp: label)
  have split: "py_split_max (Suc 0) (CHR ''@'') (repository_label r) = [provider_value (identity_provider i), ?rest]"
    unfolding label using provider_value_plain(1) [of "identity_provider i"] by (simp add: py_split_max_found)
  have parts: "map py_strip (py_split (CHR ''/'') (identity_locator i)) = py_split (CHR ''/'') (identity_locator i)"
    using assms(4) by (simp add: map_idI)
  have member: "CHR ''@'' \<in> set (repository_label r)" "CHR '':'' \<in> set (repository_label r)"
    by (simp_all add: label)
  have host: "selector_host_locator ?rest = Inr (identity_host i, identity_locator i)"
    using selector_host_locator_of [OF fixed(1) assms(3)] by simp
  have "parse_repository_selector (repository_label r) = Inr i"
    unfolding parse_repository_selector_def strip Let_def using member
    by (simp only: One_nat_def split list.case host bindR_Inr prod.case provider_of_value option.case parts py_join_py_split
        assms(1) sum.case simp_thms if_False)
  then show ?thesis by (simp add: repository_matches_def identity_matches_def assms(2))
qed

lemma label_parses_back_witness:
  "let i = \<lparr>identity_provider = GitLab, identity_locator = ''Group/sub/App'', identity_host = ''git.example.com:8443''\<rparr> in
     parse_repository_selector (repository_label ((sample_repository [] [] [])\<lparr>repo_identity := i\<rparr>)) = Inr i"
proof -
  let ?i = "\<lparr>identity_provider = GitLab, identity_locator = ''Group/sub/App'', identity_host = ''git.example.com:8443''\<rparr>"
  let ?r = "(sample_repository [] [] [])\<lparr>repo_identity := ?i\<rparr>"
  have port: "show_nat 8443 = ''8443''"
    by (simp add: show_nat.simps) code_simp
  have "make_identity GitLab ''Group/sub/App'' ''git.example.com:8443'' = Inr ?i"
    by (simp add: make_identity_def canonical_host_def canonical_host_port_def Let_def py_strip_def py_rstrip_by_def
      py_lstrip_def py_casefold_def py_lower_def casefold_char_def lower_char_def py_isspace_def char_code_def
      decimal_char_def decimal_value_def port MAX_PORT_def ends_with_def)
  moreover have "\<forall>part\<in>set (py_split (CHR ''/'') ''Group/sub/App''). py_strip part = part" by code_simp
  ultimately show ?thesis using label_parses_back [of ?i ?r] by simp
qed

end
