(* ===== verification/Audit_Wire.thy ===== *)
theory Audit_Wire
  imports Audit_Improvements Audit_Runs
begin

section \<open>The wire format of the audit domain (enji\_gateway/wire.py, audit\_gateway.py)\<close>

text \<open>
  The translation between the payloads of the service and the values of the audit domain: readers
  that take what has the right type and drop the rest, the two strict readers of reports, and the
  payloads that are written.
\<close>

subsection \<open>Reports\<close>

text \<open>\<open>MalformedAuditSnapshotError\<close> is an \<open>AuditMalformedError\<close>.\<close>

definition optional_text :: "json \<Rightarrow> string \<Rightarrow> string option result" where
  "optional_text v field = (case as_opt_str v of
       Some t \<Rightarrow> Inr t
     | None \<Rightarrow> Inl (AuditMalformedError (field @ '' must be string or null'')))"

definition optional_datetime :: "json \<Rightarrow> string \<Rightarrow> string option result" where
  "optional_datetime v field =
     bindR (optional_text v field) (\<lambda>text. case text of
         None \<Rightarrow> Inr None
       | Some t \<Rightarrow> if py_strip t = [] \<or> from_isoformat (py_strip t) \<noteq> None then Inr (Some t)
           else Inl (AuditMalformedError (field @ '' must be valid ISO datetime or null'')))"

definition report_ref_of :: "members \<Rightarrow> string option \<Rightarrow> string option \<Rightarrow> (string \<times> string) option \<Rightarrow> nat \<Rightarrow> json
    \<Rightarrow> (audit_report_ref \<times> (string \<times> string) option) result" where
  "report_ref_of payload expected_repo expected_group seen index raw =
     (let label = ''audit report '' @ show_nat index in
      case as_obj raw of
        None \<Rightarrow> Inl (AuditMalformedError (label @ '' is malformed''))
      | Some m \<Rightarrow>
          bindR (optional_text (jget m ''fleetTaskId'') (label @ '' fleetTaskId'')) (\<lambda>task.
          bindR (optional_datetime (jget m ''completedAt'') (label @ '' completedAt'')) (\<lambda>completed.
          bindR (optional_text (jget m ''collectedAt'') (label @ '' collectedAt'')) (\<lambda>collected.
          (case as_bool (jget m ''hasReport'') of
             None \<Rightarrow> Inl (AuditMalformedError (label @ '' hasReport must be boolean''))
           | Some has_report \<Rightarrow>
               bindR (optional_text (jget_default m ''repoId'' (jget payload ''repoId'')) (label @ '' repoId'')) (\<lambda>repo.
               bindR (optional_text (jget_default m ''group'' (jget payload ''group'')) (label @ '' group'')) (\<lambda>metric_group.
                 if expected_repo \<noteq> None \<and> repo \<noteq> expected_repo
                 then Inl (AuditMalformedError (label @ '' repoId does not match requested repository''))
                 else if expected_group \<noteq> None \<and> metric_group \<noteq> expected_group
                 then Inl (AuditMalformedError (label @ '' group does not match requested group''))
                 else
                   let ref = \<lparr>ref_task_id = task, ref_completed_at = completed, ref_collected_at = collected,
                         ref_has_report = has_report\<rparr> in
                   (case (repo, metric_group) of
                      (Some r, Some g) \<Rightarrow>
                        if seen \<noteq> None \<and> seen \<noteq> Some (r, g)
                        then Inl (AuditMalformedError ''audit reports contain mixed repository or metric group'')
                        else Inr (ref, Some (r, g))
                    | _ \<Rightarrow> Inr (ref, seen)))))))))"

fun report_refs_from :: "members \<Rightarrow> string option \<Rightarrow> string option \<Rightarrow> (string \<times> string) option \<Rightarrow> nat \<Rightarrow> json list
    \<Rightarrow> audit_report_ref list result" where
  "report_refs_from payload er eg seen index [] = Inr []"
| "report_refs_from payload er eg seen index (raw # rest) =
     bindR (report_ref_of payload er eg seen index raw) (\<lambda>(ref, seen').
     bindR (report_refs_from payload er eg seen' (index + 1) rest) (\<lambda>refs. Inr (ref # refs)))"

definition audit_report_refs_from_payload :: "members \<Rightarrow> string option \<Rightarrow> string option \<Rightarrow> audit_report_ref list result" where
  "audit_report_refs_from_payload payload expected_repo expected_group = (case as_list (jget payload ''reports'') of
       None \<Rightarrow> Inl (AuditMalformedError ''audit reports payload is missing reports'')
     | Some reports \<Rightarrow> report_refs_from payload expected_repo expected_group None 0 reports)"

fun json_number :: "json \<Rightarrow> rat option" where
  "json_number (JInt i) = Some (of_int i)"
| "json_number (JFloat r) = Some r"
| "json_number _ = None"

definition audit_artifact_from_snapshot :: "members \<Rightarrow> string \<Rightarrow> audit_artifact result" where
  "audit_artifact_from_snapshot snapshot audit_key = (case as_obj (jget snapshot ''snapshot'') of
       None \<Rightarrow> Inl (AuditMalformedError (audit_key @ '' snapshot is missing snapshot content''))
     | Some value \<Rightarrow> (case as_obj (jget value ''content'') of
           None \<Rightarrow> Inl (AuditMalformedError (audit_key @ '' snapshot is missing content''))
         | Some inner \<Rightarrow> (case as_str (jget inner ''report'') of
               None \<Rightarrow> Inl (AuditMalformedError (audit_key @ '' snapshot content is missing a text body''))
             | Some body \<Rightarrow>
                 bindR (optional_text (jget value ''fleetTaskId'') (audit_key @ '' fleetTaskId'')) (\<lambda>task.
                 bindR (optional_datetime (jget value ''completedAt'') (audit_key @ '' completedAt'')) (\<lambda>completed.
                 bindR (optional_text (jget value ''collectedAt'') (audit_key @ '' collectedAt'')) (\<lambda>collected.
                   Inr \<lparr>artifact_audit_key = audit_key, artifact_body = body,
                     artifact_score = json_number (jget inner ''score''),
                     artifact_generated_at = as_str (jget inner ''generatedAt''), artifact_task_id = task,
                     artifact_completed_at = completed, artifact_collected_at = collected\<rparr>))))))"

subsection \<open>Lenient readers\<close>

definition object :: "json \<Rightarrow> members" where
  "object v = (case as_obj v of Some m \<Rightarrow> m | None \<Rightarrow> [])"

definition object_list :: "json \<Rightarrow> members list" where
  "object_list v = (case as_list v of Some xs \<Rightarrow> List.map_filter as_obj xs | None \<Rightarrow> [])"

definition string_list :: "json \<Rightarrow> string list" where
  "string_list v = (case as_list v of Some xs \<Rightarrow> List.map_filter as_str xs | None \<Rightarrow> [])"

definition audit_run_of :: "members \<Rightarrow> audit_run" where
  "audit_run_of p =
     \<lparr>run_task_id = as_str (jget p ''fleetTaskId''), run_action_key = as_str (jget p ''actionKey''),
      run_status = as_str (jget p ''status''), run_created_at = as_str (jget p ''createdAt''),
      run_started_at = as_str (jget p ''startedAt''), run_completed_at = as_str (jget p ''completedAt''),
      run_projection_source = as_str (jget p ''projectionSource''),
      run_status_source = as_str (jget p ''projectionStatusSource''), run_expires_at = as_str (jget p ''expiresAt''),
      run_current_head = as_str (jget p ''currentHeadSha''), run_audited_head = as_str (jget p ''lastAuditedHeadSha'')\<rparr>"

definition task_link_of :: "members \<Rightarrow> audit_task_link" where
  "task_link_of p =
     \<lparr>link_task_id = as_str (jget p ''fleetTaskId''), link_action_key = as_str (jget p ''actionKey''),
      link_status = as_str (jget p ''status''), link_schema_name = as_str (jget p ''artifactSchemaName''),
      link_created_at = as_str (jget p ''createdAt''), link_started_at = as_str (jget p ''startedAt''),
      link_completed_at = as_str (jget p ''completedAt'')\<rparr>"

definition rerun_state_of :: "members \<Rightarrow> audit_rerun_state" where
  "rerun_state_of st =
     \<lparr>rerun_current_head = as_str (jget st ''currentHeadSha''), rerun_audited_head = as_str (jget st ''lastAuditedSha''),
      rerun_allowed = as_bool (jget st ''canRerun''), rerun_last_task_id = as_str (jget st ''lastFleetTaskId''),
      rerun_audited_heads = (\<lambda>key. Option.bind (map_of (object (jget st ''actions'')) key)
        (\<lambda>action. as_str (jget (object action) ''lastAuditedHeadSha'')))\<rparr>"

definition TEMPLATE_PLACEHOLDERS :: "(string \<times> string) list" where
  "TEMPLATE_PLACEHOLDERS = [(''recurringPrefix'', ''recurring_prefix''), (''repoFullName'', ''repository_locator''),
     (''repoUrl'', ''repository_url''), (''linkedSites'', ''linked_websites''),
     (''artifactSchemaName'', ''artifact_schema_name''), (''artifactSchemaVersion'', ''artifact_schema_version''),
     (''artifactContract'', ''artifact_contract''), (''constraintsSection'', ''constraints'')]"

definition audit_description_template :: "string option \<Rightarrow> string option" where
  "audit_description_template template = map_option (\<lambda>t. foldl (\<lambda>text (external, domain).
     py_replace (''{{'' @ external @ ''}}'') (''{{'' @ domain @ ''}}'') text) t TEMPLATE_PLACEHOLDERS) template"

definition catalog_action_of :: "members \<Rightarrow> audit_catalog_action option" where
  "catalog_action_of p = (case (as_str (jget p ''actionKey''), as_str (jget p ''title'')) of
       (Some key, Some title) \<Rightarrow> Some
         \<lparr>action_action_key = key, action_title = title, action_category = as_str (jget p ''category''),
          action_status = as_str (jget p ''status''), action_metric_group = as_str (jget p ''metricGroup''),
          action_runbook_kind = as_str (jget p ''runbookKind''), action_runbook_id = as_str (jget p ''fleetRunbookId''),
          action_schema_name = as_str (jget p ''artifactSchemaName''),
          action_schema_version = as_str (jget p ''artifactSchemaVersion''),
          action_template = audit_description_template (as_str (jget p ''taskDescriptionTemplate''))\<rparr>
     | _ \<Rightarrow> None)"

definition catalog_improvement_of :: "members \<Rightarrow> catalog_improvement option" where
  "catalog_improvement_of p = (case (as_str (jget p ''actionKey''), as_str (jget p ''variantKey'')) of
       (Some key, Some variant) \<Rightarrow> Some
         \<lparr>improvement_action_key = key, improvement_variant_key = variant, improvement_title = as_str (jget p ''title''),
          improvement_description = as_str (jget p ''description''), improvement_runbook_id = as_str (jget p ''fleetRunbookId''),
          improvement_status = as_str (jget p ''status''), improvement_sort_order = as_int (jget p ''sortOrder'')\<rparr>
     | _ \<Rightarrow> None)"

definition time_source_of :: "string option \<Rightarrow> time_source option" where
  "time_source_of v = (if v = Some ''auto'' then Some Auto else if v = Some ''user'' then Some User else None)"

definition schedule_of :: "members \<Rightarrow> audit_schedule option" where
  "schedule_of p = map_option (\<lambda>key.
     \<lparr>schedule_audit_key = key, schedule_enabled = (as_bool (jget p ''enabled'') = Some True),
      schedule_cadence = as_str (jget p ''cadence''), schedule_day = as_str (jget p ''scheduleDay''),
      schedule_day_of_month = as_int (jget p ''scheduleDayOfMonth''), schedule_time = as_str (jget p ''scheduleTime''),
      schedule_source = time_source_of (as_str (jget p ''scheduleTimeSource'')), schedule_timezone = as_str (jget p ''timezone''),
      window_days = string_list (jget p ''windowDays''), window_start_time = as_str (jget p ''windowStartTime''),
      window_end_time = as_str (jget p ''windowEndTime''), window_mode = as_str (jget p ''windowMode'')\<rparr>)
     (as_str (jget p ''actionKey''))"

definition improvement_job_of :: "members \<Rightarrow> improvement_job option" where
  "improvement_job_of p =
     (case (or_opt (as_str (jget p ''actionKey'')) (as_str (jget p ''kind'')),
            or_opt (as_str (jget p ''variantKey'')) (as_str (jget p ''autofixVariantKey''))) of
        (Some key, Some variant) \<Rightarrow> Some
          \<lparr>job_key = key, job_variant = variant, job_kind = as_str (jget p ''kind''),
           job_enabled = as_bool (jget p ''enabled''), job_automatic = as_bool (jget p ''autoFix''),
           job_provider_variant = as_str (jget p ''autofixVariantKey''), job_frequency = as_str (jget p ''frequency''),
           job_days = string_list (jget p ''daysOfWeek''), job_time = as_str (jget p ''scheduleTime''),
           job_source = time_source_of (as_str (jget p ''scheduleTimeSource'')), job_timezone = as_str (jget p ''timezone''),
           pentest_mode = as_str (jget p ''pentestMode'')\<rparr>
      | _ \<Rightarrow> None)"

definition email_preference_of :: "string \<Rightarrow> members \<Rightarrow> email_preference" where
  "email_preference_of key payload = (let resolved = object (jget payload ''resolved'') in
     \<lparr>email_audit_key = key, email_manual = as_bool (jget resolved ''manualRunCompletion''),
      email_scheduled = as_bool (jget resolved ''scheduledRunCompletion'')\<rparr>)"

subsection \<open>Payloads\<close>

fun opt_bool_json :: "bool option \<Rightarrow> json" where
  "opt_bool_json None = JNull"
| "opt_bool_json (Some b) = JBool b"

fun time_source_json :: "time_source option \<Rightarrow> json" where
  "time_source_json None = JNull"
| "time_source_json (Some Auto) = JStr ''auto''"
| "time_source_json (Some User) = JStr ''user''"

definition schedule_payload :: "audit_schedule \<Rightarrow> members" where
  "schedule_payload s =
     [(''cadence'', opt_json (schedule_cadence s)), (''enabled'', JBool (schedule_enabled s)),
      (''scheduleDay'', opt_json (schedule_day s)), (''scheduleDayOfMonth'', opt_int_json (schedule_day_of_month s)),
      (''scheduleTime'', opt_json (schedule_time s)), (''scheduleTimeSource'', time_source_json (schedule_source s)),
      (''timezone'', opt_json (schedule_timezone s)), (''windowDays'', JList (map JStr (window_days s))),
      (''windowStartTime'', opt_json (window_start_time s)), (''windowEndTime'', opt_json (window_end_time s)),
      (''windowMode'', opt_json (window_mode s))]"

definition improvement_job_payload :: "improvement_job \<Rightarrow> members" where
  "improvement_job_payload j =
     [(''actionKey'', JStr (job_key j)), (''variantKey'', JStr (job_variant j)), (''enabled'', opt_bool_json (job_enabled j)),
      (''autoFix'', opt_bool_json (job_automatic j)), (''autofixVariantKey'', opt_json (job_provider_variant j)),
      (''frequency'', opt_json (job_frequency j)), (''daysOfWeek'', JList (map JStr (job_days j))),
      (''scheduleTime'', opt_json (job_time j)), (''scheduleTimeSource'', time_source_json (job_source j)),
      (''timezone'', opt_json (job_timezone j)), (''pentestMode'', opt_json (pentest_mode j))]
     @ (case job_kind j of Some k \<Rightarrow> [(''kind'', JStr k)] | None \<Rightarrow> [])"

definition email_patch :: "email_update \<Rightarrow> members" where
  "email_patch u =
     (case email_set_manual u of Some b \<Rightarrow> [(''manualRunCompletion'', JBool b)] | None \<Rightarrow> [])
     @ (case email_set_scheduled u of Some b \<Rightarrow> [(''scheduledRunCompletion'', JBool b)] | None \<Rightarrow> [])"

definition wire_description :: "string \<Rightarrow> string \<Rightarrow> string" where
  "wire_description action_key text =
     py_replace ''{{reportSchemaName}}''
       (if action_key = ''audit.recon'' then ''upfront.recon.report'' else ''upfront.audit.report'') text"

definition fleet_task_body :: "string \<Rightarrow> audit_task_body \<Rightarrow> members" where
  "fleet_task_body action_key task =
     [(''title'', JStr (body_title task)), (''description'', JStr (wire_description action_key (body_description task))),
      (''project_id'', JStr (body_project_id task)), (''execution_flow'', JStr (body_execution_flow task)),
      (''flow_config'', JObj (body_flow_config task)), (''runbook_id'', JStr (body_runbook_id task)),
      (''scope_type'', JStr ''project''), (''scope_owner'', JStr (body_scope_owner task)), (''origin_type'', JStr ''manual''),
      (''repo_access_contexts'', JList [JObj [(''provider'', JStr (body_provider task)),
        (''repo_full_name'', JStr (body_locator task))]])]"

end
