(* ===== verification/Transport.thy ===== *)
theory Transport
  imports Auth_Protocol Effects
begin

section \<open>The HTTP transport (transport.py, transport\_types.py)\<close>

text \<open>
  Requests, the retry policy and the classification of a status.  The blocking client (\<open>httpx\<close>),
  sleeping, the random jitter, the clock and the parser of HTTP dates are fields of
  \<open>transport_env\<close>; a failure of the client is an \<open>HttpxError\<close>.  Of \<open>tenacity\<close> the loop uses: try
  again while the exception is a retryable one, at most \<open>total + 1\<close> attempts, sleep in between,
  raise the last exception.  Seconds are rationals; the telemetry events are not modelled.
\<close>

subsection \<open>Requests\<close>

datatype retry_profile = READ | IDEMPOTENT_MUTATION | UNSAFE_MUTATION | AUTH_REFRESH | SAFE_PROBE

fun can_retry :: "retry_profile \<Rightarrow> bool" where
  "can_retry p = (p \<in> {READ, SAFE_PROBE, IDEMPOTENT_MUTATION})"

record retry_config =
  retry_total :: int
  backoff_factor :: rat
  max_delay_seconds :: rat
  jitter_seconds :: rat
  status_forcelist :: "int list"
  respect_retry_after :: bool

definition DEFAULT_RETRY_CONFIG :: retry_config where
  "DEFAULT_RETRY_CONFIG = \<lparr>retry_total = 3, backoff_factor = 1 / 2, max_delay_seconds = 30, jitter_seconds = 1 / 2,
     status_forcelist = [429, 500, 502, 503, 504], respect_retry_after = True\<rparr>"

definition DEFAULT_TRANSPORT_TIMEOUT_SECONDS :: rat where
  "DEFAULT_TRANSPORT_TIMEOUT_SECONDS = 20"

record http_request =
  http_method :: string
  http_url :: string
  http_operation :: string
  http_headers :: "(string \<times> string) list"
  http_profile :: retry_profile
  http_body :: "json option"
  http_timeout :: rat

record 's transport_env =
  client_send :: "http_request \<Rightarrow> ('s, http_response) io"
  pause :: "rat \<Rightarrow> ('s, unit) io"
  jitter_sample :: "rat \<Rightarrow> ('s, rat) io" \<comment> \<open>\<open>random.uniform(0, j)\<close>\<close>
  utc_now :: "('s, int) io" \<comment> \<open>microseconds\<close>
  http_date :: "string \<Rightarrow> int option" \<comment> \<open>\<open>parsedate_to_datetime\<close>, as UTC microseconds\<close>

subsection \<open>Retry-After\<close>

definition RATE_LIMIT_STATUS_CODE :: int where
  "RATE_LIMIT_STATUS_CODE = 429"

definition parse_retry_after :: "('s, 'x) transport_env_scheme \<Rightarrow> string \<Rightarrow> ('s, nat option) io" where
  "parse_retry_after env raw =
     (let stripped = py_strip raw in
      if py_isdigit stripped then bindM (liftM (py_int stripped)) (\<lambda>n. retM (Some n))
      else (case http_date env stripped of
          None \<Rightarrow> retM None
        | Some at_time \<Rightarrow> bindM (utc_now env) (\<lambda>now. retM (Some (nat ((at_time - now) div 1000000))))))"

definition header_value :: "(string \<times> string) list \<Rightarrow> string \<Rightarrow> string option" where
  "header_value headers name = map_of headers name"

definition retry_after_seconds :: "('s, 'x) transport_env_scheme \<Rightarrow> (string \<times> string) list \<Rightarrow> ('s, nat option) io" where
  "retry_after_seconds env headers =
     (case (if header_value headers ''retry-after'' \<noteq> None then header_value headers ''retry-after''
        else header_value headers ''Retry-After'') of
        None \<Rightarrow> retM None
      | Some raw \<Rightarrow> parse_retry_after env raw)"

definition retry_wait :: "('s, 'x) transport_env_scheme \<Rightarrow> retry_config \<Rightarrow> nat \<Rightarrow> http_response option \<Rightarrow> ('s, rat) io" where
  "retry_wait env cfg attempt answered =
     bindM (case answered of None \<Rightarrow> retM None | Some r \<Rightarrow> retry_after_seconds env (response_headers r)) (\<lambda>after.
       let cap = max_delay_seconds cfg in
       if after \<noteq> None \<and> respect_retry_after cfg then retM (min (of_nat (the after)) cap)
       else bindM (jitter_sample env (jitter_seconds cfg)) (\<lambda>jitter.
         retM (min cap (min cap (backoff_factor cfg * 2 ^ (attempt - 1)) + jitter))))"

subsection \<open>One request\<close>

text \<open>An attempt that is answered, or answered with a status that asks for another attempt
  (\<open>_RetryableResponseError\<close>).\<close>

datatype attempt_result = Answered http_response | Retryable http_response

definition request_once :: "('s, 'x) transport_env_scheme \<Rightarrow> retry_config \<Rightarrow> http_request \<Rightarrow> ('s, attempt_result) io" where
  "request_once env cfg req = bindM (client_send env req) (\<lambda>r.
     retM (if can_retry (http_profile req) \<and> status_code r \<in> set (status_forcelist cfg) then Retryable r else Answered r))"

fun is_httpx_error :: "exn \<Rightarrow> bool" where
  "is_httpx_error (HttpxError _) = True"
| "is_httpx_error _ = False"

text \<open>The loop of \<open>Retrying\<close>: \<open>left\<close> attempts may follow the attempt number \<open>attempt\<close>.\<close>

fun attempts :: "('s, 'x) transport_env_scheme \<Rightarrow> retry_config \<Rightarrow> http_request \<Rightarrow> nat \<Rightarrow> nat \<Rightarrow> ('s, http_response) io" where
  "attempts env cfg req 0 attempt s = (case request_once env cfg req s of
       (Inl e, t) \<Rightarrow> (Inl e, t)
     | (Inr (Answered r), t) \<Rightarrow> (Inr r, t)
     | (Inr (Retryable r), t) \<Rightarrow> (Inr r, t))"
| "attempts env cfg req (Suc left) attempt s = (case request_once env cfg req s of
       (Inr (Answered r), t) \<Rightarrow> (Inr r, t)
     | (Inr (Retryable r), t) \<Rightarrow>
         bindM (bindM (retry_wait env cfg attempt (Some r)) (pause env)) (\<lambda>_. attempts env cfg req left (attempt + 1)) t
     | (Inl e, t) \<Rightarrow>
         if is_httpx_error e
         then bindM (bindM (retry_wait env cfg attempt None) (pause env)) (\<lambda>_. attempts env cfg req left (attempt + 1)) t
         else (Inl e, t))"

definition transport_error :: "string \<Rightarrow> exn \<Rightarrow> exn" where
  "transport_error operation e = EnjiHttpError ''UPSTREAM'' (operation @ '' request failed: '' @ exn_text e)"

definition single_request :: "('s, 'x) transport_env_scheme \<Rightarrow> retry_config \<Rightarrow> http_request \<Rightarrow> ('s, http_response) io" where
  "single_request env cfg req = bindM (request_once env cfg req) (\<lambda>a. case a of
       Answered r \<Rightarrow> retM r
     | Retryable r \<Rightarrow> throwM (RetryableResponseError (''HTTP '' @ show_int (status_code r))))"

definition request_blocking :: "('s, 'x) transport_env_scheme \<Rightarrow> retry_config \<Rightarrow> http_request \<Rightarrow> ('s, http_response) io" where
  "request_blocking env cfg req =
     handleM (if \<not> can_retry (http_profile req) \<or> retry_total cfg \<le> 0 then single_request env cfg req
        else attempts env cfg req (nat (retry_total cfg)) 1)
       is_httpx_error (\<lambda>e. throwM (transport_error (http_operation req) e))"

subsection \<open>The status of a response\<close>

definition rate_limit_message :: "string \<Rightarrow> nat option \<Rightarrow> string" where
  "rate_limit_message operation after = (case after of
       None \<Rightarrow> operation @ '' was rate limited''
     | Some n \<Rightarrow> operation @ '' was rate limited; retry after '' @ show_nat n @ ''s'')"

definition raise_for_response_status :: "('s, 'x) transport_env_scheme \<Rightarrow> http_response \<Rightarrow> string \<Rightarrow> int list
    \<Rightarrow> ('s, unit) io" where
  "raise_for_response_status env r operation expected =
     (if status_code r \<in> set expected then retM ()
      else if status_code r = RATE_LIMIT_STATUS_CODE
      then bindM (retry_after_seconds env (response_headers r)) (\<lambda>after.
        throwM (EnjiResponseError ''RATE_LIMIT'' (rate_limit_message operation after) (Some RATE_LIMIT_STATUS_CODE) False))
      else throwM (EnjiResponseError ''UPSTREAM'' (operation @ '' failed with HTTP '' @ show_int (status_code r))
        (Some (status_code r)) False))"

end
