(* ===== verification/Gateway_Contract.thy ===== *)
theory Gateway_Contract
  imports Transport
begin

section \<open>The endpoints (enji\_gateway/contract.py)\<close>

text \<open>
  One definition per endpoint of the contract: method, path template, operation and retry
  profile.  The properties of the requests follow from this table.
\<close>

record endpoint_spec =
  spec_method :: string
  path_template :: string
  operation_id :: string
  spec_operation :: string
  spec_profile :: retry_profile
  request_body_ref :: "string option"

definition ACCESS_ENDPOINT_SPEC :: endpoint_spec where
  "ACCESS_ENDPOINT_SPEC = \<lparr>spec_method = ''GET'',
     path_template = ''/api/ux/me/access'', operation_id = ''getUxMeAccess'',
     spec_operation = ''access'', spec_profile = READ, request_body_ref = None\<rparr>"

definition GIT_CREDENTIALS_ENDPOINT_SPEC :: endpoint_spec where
  "GIT_CREDENTIALS_ENDPOINT_SPEC = \<lparr>spec_method = ''GET'',
     path_template = ''/api/v1/credentials'', operation_id = ''listGitCredentials'',
     spec_operation = ''gitlab credentials'', spec_profile = READ, request_body_ref = None\<rparr>"

definition GITLAB_PROJECTS_ENDPOINT_SPEC :: endpoint_spec where
  "GITLAB_PROJECTS_ENDPOINT_SPEC = \<lparr>spec_method = ''GET'',
     path_template = ''/api/v1/gitlab/projects'', operation_id = ''listGitLabProjects'',
     spec_operation = ''gitlab projects'', spec_profile = READ, request_body_ref = None\<rparr>"

definition USER_PREFERENCES_GET_ENDPOINT_SPEC :: endpoint_spec where
  "USER_PREFERENCES_GET_ENDPOINT_SPEC = \<lparr>spec_method = ''GET'',
     path_template = ''/api/ux/user-preferences'', operation_id = ''getUserPreferences'',
     spec_operation = ''language show'', spec_profile = READ, request_body_ref = None\<rparr>"

definition USER_PREFERENCES_PUT_ENDPOINT_SPEC :: endpoint_spec where
  "USER_PREFERENCES_PUT_ENDPOINT_SPEC = \<lparr>spec_method = ''PUT'',
     path_template = ''/api/ux/user-preferences'', operation_id = ''putUserPreferences'',
     spec_operation = ''language set'', spec_profile = IDEMPOTENT_MUTATION, request_body_ref = Some ''#/components/requestBodies/UserLanguageUpdate''\<rparr>"

definition PROJECTS_ENDPOINT_SPEC :: endpoint_spec where
  "PROJECTS_ENDPOINT_SPEC = \<lparr>spec_method = ''GET'',
     path_template = ''/api/ux/projects'', operation_id = ''listProjects'',
     spec_operation = ''repo list'', spec_profile = READ, request_body_ref = None\<rparr>"

definition PROJECT_DETAIL_ENDPOINT_SPEC :: endpoint_spec where
  "PROJECT_DETAIL_ENDPOINT_SPEC = \<lparr>spec_method = ''GET'',
     path_template = ''/api/ux/projects/{projectId}'', operation_id = ''getProject'',
     spec_operation = ''project detail'', spec_profile = READ, request_body_ref = None\<rparr>"

definition PROJECT_ACTIVE_RUNS_ENDPOINT_SPEC :: endpoint_spec where
  "PROJECT_ACTIVE_RUNS_ENDPOINT_SPEC = \<lparr>spec_method = ''GET'',
     path_template = ''/api/ux/projects/{projectId}/active-runs'', operation_id = ''listProjectActiveRuns'',
     spec_operation = ''project active runs'', spec_profile = READ, request_body_ref = None\<rparr>"

definition FLEET_PROJECT_CREATE_ENDPOINT_SPEC :: endpoint_spec where
  "FLEET_PROJECT_CREATE_ENDPOINT_SPEC = \<lparr>spec_method = ''POST'',
     path_template = ''/api/v1/projects'', operation_id = ''createFleetProject'',
     spec_operation = ''project create'', spec_profile = UNSAFE_MUTATION, request_body_ref = Some ''#/components/requestBodies/FleetProjectCreate''\<rparr>"

definition UX_PROJECT_CREATE_ENDPOINT_SPEC :: endpoint_spec where
  "UX_PROJECT_CREATE_ENDPOINT_SPEC = \<lparr>spec_method = ''POST'',
     path_template = ''/api/ux/projects'', operation_id = ''createUxProject'',
     spec_operation = ''project create'', spec_profile = UNSAFE_MUTATION, request_body_ref = Some ''#/components/requestBodies/UxProjectCreate''\<rparr>"

definition PROJECT_RENAME_ENDPOINT_SPEC :: endpoint_spec where
  "PROJECT_RENAME_ENDPOINT_SPEC = \<lparr>spec_method = ''PATCH'',
     path_template = ''/api/ux/projects/{projectId}'', operation_id = ''patchProject'',
     spec_operation = ''project rename'', spec_profile = IDEMPOTENT_MUTATION, request_body_ref = Some ''#/components/requestBodies/ProjectPatch''\<rparr>"

definition UX_PROJECT_DELETE_ENDPOINT_SPEC :: endpoint_spec where
  "UX_PROJECT_DELETE_ENDPOINT_SPEC = \<lparr>spec_method = ''DELETE'',
     path_template = ''/api/ux/projects/{projectId}'', operation_id = ''deleteUxProject'',
     spec_operation = ''project delete'', spec_profile = IDEMPOTENT_MUTATION, request_body_ref = None\<rparr>"

definition FLEET_PROJECT_DELETE_ENDPOINT_SPEC :: endpoint_spec where
  "FLEET_PROJECT_DELETE_ENDPOINT_SPEC = \<lparr>spec_method = ''DELETE'',
     path_template = ''/api/v1/projects/{projectId}'', operation_id = ''deleteFleetProject'',
     spec_operation = ''project delete'', spec_profile = IDEMPOTENT_MUTATION, request_body_ref = None\<rparr>"

definition REPO_TRANSFER_PREFLIGHT_ENDPOINT_SPEC :: endpoint_spec where
  "REPO_TRANSFER_PREFLIGHT_ENDPOINT_SPEC = \<lparr>spec_method = ''POST'',
     path_template = ''/api/ux/projects/{sourceProjectId}/repos/{repoId}/transfer/preflight'', operation_id = ''preflightRepoTransfer'',
     spec_operation = ''repo move preflight'', spec_profile = SAFE_PROBE, request_body_ref = Some ''#/components/requestBodies/RepoTransferPreflight''\<rparr>"

definition REPO_TRANSFER_ENDPOINT_SPEC :: endpoint_spec where
  "REPO_TRANSFER_ENDPOINT_SPEC = \<lparr>spec_method = ''POST'',
     path_template = ''/api/ux/projects/{sourceProjectId}/repos/{repoId}/transfer'', operation_id = ''transferRepo'',
     spec_operation = ''repo move'', spec_profile = UNSAFE_MUTATION, request_body_ref = Some ''#/components/requestBodies/RepoTransfer''\<rparr>"

definition CATALOG_ENDPOINT_SPEC :: endpoint_spec where
  "CATALOG_ENDPOINT_SPEC = \<lparr>spec_method = ''GET'',
     path_template = ''/api/ux/catalog'', operation_id = ''getUxCatalog'',
     spec_operation = ''catalog'', spec_profile = READ, request_body_ref = None\<rparr>"

definition RUNBOOK_ENDPOINT_SPEC :: endpoint_spec where
  "RUNBOOK_ENDPOINT_SPEC = \<lparr>spec_method = ''GET'',
     path_template = ''/api/v1/runbooks/{runbookId}'', operation_id = ''getRunbook'',
     spec_operation = ''runbook'', spec_profile = READ, request_body_ref = None\<rparr>"

definition PROJECT_REPOS_ADD_ENDPOINT_SPEC :: endpoint_spec where
  "PROJECT_REPOS_ADD_ENDPOINT_SPEC = \<lparr>spec_method = ''POST'',
     path_template = ''/api/ux/projects/{projectId}/repos'', operation_id = ''addProjectRepo'',
     spec_operation = ''repo add'', spec_profile = UNSAFE_MUTATION, request_body_ref = Some ''#/components/requestBodies/RepositoryConnect''\<rparr>"

definition PROJECT_REPO_DELETE_ENDPOINT_SPEC :: endpoint_spec where
  "PROJECT_REPO_DELETE_ENDPOINT_SPEC = \<lparr>spec_method = ''DELETE'',
     path_template = ''/api/ux/projects/{projectId}/repos/{repoId}'', operation_id = ''deleteProjectRepo'',
     spec_operation = ''repo remove'', spec_profile = IDEMPOTENT_MUTATION, request_body_ref = None\<rparr>"

definition PROJECT_REPO_CONNECTION_ENDPOINT_SPEC :: endpoint_spec where
  "PROJECT_REPO_CONNECTION_ENDPOINT_SPEC = \<lparr>spec_method = ''PUT'',
     path_template = ''/api/ux/projects/{projectId}/repos/{repoId}/connection'', operation_id = ''putProjectRepoConnection'',
     spec_operation = ''repo add'', spec_profile = IDEMPOTENT_MUTATION, request_body_ref = Some ''#/components/requestBodies/RepoConnectionUpdate''\<rparr>"

definition REPO_ACTIVE_RUNS_ENDPOINT_SPEC :: endpoint_spec where
  "REPO_ACTIVE_RUNS_ENDPOINT_SPEC = \<lparr>spec_method = ''GET'',
     path_template = ''/api/ux/repos/{repoId}/active-runs'', operation_id = ''listRepoActiveRuns'',
     spec_operation = ''repo active runs'', spec_profile = READ, request_body_ref = None\<rparr>"

definition REPO_AUDIT_RERUN_STATE_ENDPOINT_SPEC :: endpoint_spec where
  "REPO_AUDIT_RERUN_STATE_ENDPOINT_SPEC = \<lparr>spec_method = ''GET'',
     path_template = ''/api/ux/repos/{repoId}/audit-rerun-state'', operation_id = ''getRepoAuditRerunState'',
     spec_operation = ''repo rerun state'', spec_profile = READ, request_body_ref = None\<rparr>"

definition REPO_TASK_LINKS_ENDPOINT_SPEC :: endpoint_spec where
  "REPO_TASK_LINKS_ENDPOINT_SPEC = \<lparr>spec_method = ''GET'',
     path_template = ''/api/ux/repos/{repoId}/task-links'', operation_id = ''listRepoTaskLinks'',
     spec_operation = ''repo task links'', spec_profile = READ, request_body_ref = None\<rparr>"

definition TASK_DETAIL_ENDPOINT_SPEC :: endpoint_spec where
  "TASK_DETAIL_ENDPOINT_SPEC = \<lparr>spec_method = ''GET'',
     path_template = ''/api/v1/tasks/{taskId}'', operation_id = ''getTask'',
     spec_operation = ''task detail'', spec_profile = READ, request_body_ref = None\<rparr>"

definition REPO_AUDIT_RUNS_ENDPOINT_SPEC :: endpoint_spec where
  "REPO_AUDIT_RUNS_ENDPOINT_SPEC = \<lparr>spec_method = ''POST'',
     path_template = ''/api/ux/repos/{repoId}/audit-runs'', operation_id = ''createRepoAuditRun'',
     spec_operation = ''audit start'', spec_profile = UNSAFE_MUTATION, request_body_ref = Some ''#/components/requestBodies/AuditRunCreate''\<rparr>"

definition REPO_AUDIT_SUMMARY_ENDPOINT_SPEC :: endpoint_spec where
  "REPO_AUDIT_SUMMARY_ENDPOINT_SPEC = \<lparr>spec_method = ''GET'',
     path_template = ''/api/ux/repos/{repoId}/snapshots/upfront.audit.summary'', operation_id = ''getRepoAuditSummarySnapshot'',
     spec_operation = ''report show'', spec_profile = READ, request_body_ref = None\<rparr>"

definition REPO_AUDIT_REPORTS_ENDPOINT_SPEC :: endpoint_spec where
  "REPO_AUDIT_REPORTS_ENDPOINT_SPEC = \<lparr>spec_method = ''GET'',
     path_template = ''/api/ux/repos/{repoId}/audit-reports'', operation_id = ''listRepoAuditReports'',
     spec_operation = ''audit report history'', spec_profile = READ, request_body_ref = None\<rparr>"

definition AUDIT_EMAIL_PREFERENCES_GET_ENDPOINT_SPEC :: endpoint_spec where
  "AUDIT_EMAIL_PREFERENCES_GET_ENDPOINT_SPEC = \<lparr>spec_method = ''GET'',
     path_template = ''/api/ux/repos/{repoId}/audits/{actionKey}/email-preferences'', operation_id = ''getAuditEmailPreferences'',
     spec_operation = ''email list'', spec_profile = READ, request_body_ref = None\<rparr>"

definition AUDIT_EMAIL_PREFERENCES_PUT_ENDPOINT_SPEC :: endpoint_spec where
  "AUDIT_EMAIL_PREFERENCES_PUT_ENDPOINT_SPEC = \<lparr>spec_method = ''PUT'',
     path_template = ''/api/ux/repos/{repoId}/audits/{actionKey}/email-preferences'', operation_id = ''putAuditEmailPreferences'',
     spec_operation = ''email set'', spec_profile = IDEMPOTENT_MUTATION, request_body_ref = Some ''#/components/requestBodies/EmailPreferencesPatch''\<rparr>"

definition AUDIT_AUTO_RUNS_ENDPOINT_SPEC :: endpoint_spec where
  "AUDIT_AUTO_RUNS_ENDPOINT_SPEC = \<lparr>spec_method = ''GET'',
     path_template = ''/api/ux/repos/{repoId}/audit-auto-runs'', operation_id = ''listRepoAuditAutoRuns'',
     spec_operation = ''schedule list'', spec_profile = READ, request_body_ref = None\<rparr>"

definition AUDIT_AUTO_RUN_PUT_ENDPOINT_SPEC :: endpoint_spec where
  "AUDIT_AUTO_RUN_PUT_ENDPOINT_SPEC = \<lparr>spec_method = ''PUT'',
     path_template = ''/api/ux/repos/{repoId}/audit-auto-runs/{actionKey}'', operation_id = ''putRepoAuditAutoRun'',
     spec_operation = ''schedule set'', spec_profile = IDEMPOTENT_MUTATION, request_body_ref = Some ''#/components/requestBodies/AuditAutoRunSubscriptionUpdate''\<rparr>"

definition IMPROVEMENT_JOBS_ENDPOINT_SPEC :: endpoint_spec where
  "IMPROVEMENT_JOBS_ENDPOINT_SPEC = \<lparr>spec_method = ''GET'',
     path_template = ''/api/ux/improvement-jobs/{repoId}'', operation_id = ''listImprovementJobs'',
     spec_operation = ''improvement jobs list'', spec_profile = READ, request_body_ref = None\<rparr>"

definition IMPROVEMENT_JOB_PUT_ENDPOINT_SPEC :: endpoint_spec where
  "IMPROVEMENT_JOB_PUT_ENDPOINT_SPEC = \<lparr>spec_method = ''PUT'',
     path_template = ''/api/ux/improvement-jobs/{repoId}/{kind}'', operation_id = ''putImprovementJob'',
     spec_operation = ''improvement jobs set'', spec_profile = IDEMPOTENT_MUTATION, request_body_ref = Some ''#/components/schemas/ImprovementJobUpdate''\<rparr>"

definition IMPLEMENTED_ENJI_ENDPOINTS :: "endpoint_spec list" where
  "IMPLEMENTED_ENJI_ENDPOINTS = [ACCESS_ENDPOINT_SPEC, GIT_CREDENTIALS_ENDPOINT_SPEC, GITLAB_PROJECTS_ENDPOINT_SPEC, 
     PROJECTS_ENDPOINT_SPEC, PROJECT_DETAIL_ENDPOINT_SPEC, PROJECT_ACTIVE_RUNS_ENDPOINT_SPEC, 
     FLEET_PROJECT_CREATE_ENDPOINT_SPEC, UX_PROJECT_CREATE_ENDPOINT_SPEC, PROJECT_RENAME_ENDPOINT_SPEC, 
     UX_PROJECT_DELETE_ENDPOINT_SPEC, FLEET_PROJECT_DELETE_ENDPOINT_SPEC, REPO_TRANSFER_PREFLIGHT_ENDPOINT_SPEC, 
     REPO_TRANSFER_ENDPOINT_SPEC, CATALOG_ENDPOINT_SPEC, RUNBOOK_ENDPOINT_SPEC, 
     PROJECT_REPOS_ADD_ENDPOINT_SPEC, PROJECT_REPO_DELETE_ENDPOINT_SPEC, PROJECT_REPO_CONNECTION_ENDPOINT_SPEC, 
     REPO_ACTIVE_RUNS_ENDPOINT_SPEC, REPO_AUDIT_RERUN_STATE_ENDPOINT_SPEC, REPO_TASK_LINKS_ENDPOINT_SPEC, 
     TASK_DETAIL_ENDPOINT_SPEC, REPO_AUDIT_RUNS_ENDPOINT_SPEC, REPO_AUDIT_SUMMARY_ENDPOINT_SPEC, 
     REPO_AUDIT_REPORTS_ENDPOINT_SPEC, AUDIT_EMAIL_PREFERENCES_GET_ENDPOINT_SPEC, AUDIT_EMAIL_PREFERENCES_PUT_ENDPOINT_SPEC, 
     AUDIT_AUTO_RUNS_ENDPOINT_SPEC, AUDIT_AUTO_RUN_PUT_ENDPOINT_SPEC, IMPROVEMENT_JOBS_ENDPOINT_SPEC, 
     IMPROVEMENT_JOB_PUT_ENDPOINT_SPEC]"

lemmas endpoint_defs = ACCESS_ENDPOINT_SPEC_def GIT_CREDENTIALS_ENDPOINT_SPEC_def GITLAB_PROJECTS_ENDPOINT_SPEC_def
  USER_PREFERENCES_GET_ENDPOINT_SPEC_def USER_PREFERENCES_PUT_ENDPOINT_SPEC_def PROJECTS_ENDPOINT_SPEC_def
  PROJECT_DETAIL_ENDPOINT_SPEC_def PROJECT_ACTIVE_RUNS_ENDPOINT_SPEC_def FLEET_PROJECT_CREATE_ENDPOINT_SPEC_def
  UX_PROJECT_CREATE_ENDPOINT_SPEC_def PROJECT_RENAME_ENDPOINT_SPEC_def UX_PROJECT_DELETE_ENDPOINT_SPEC_def
  FLEET_PROJECT_DELETE_ENDPOINT_SPEC_def REPO_TRANSFER_PREFLIGHT_ENDPOINT_SPEC_def REPO_TRANSFER_ENDPOINT_SPEC_def
  CATALOG_ENDPOINT_SPEC_def RUNBOOK_ENDPOINT_SPEC_def PROJECT_REPOS_ADD_ENDPOINT_SPEC_def
  PROJECT_REPO_DELETE_ENDPOINT_SPEC_def PROJECT_REPO_CONNECTION_ENDPOINT_SPEC_def REPO_ACTIVE_RUNS_ENDPOINT_SPEC_def
  REPO_AUDIT_RERUN_STATE_ENDPOINT_SPEC_def REPO_TASK_LINKS_ENDPOINT_SPEC_def TASK_DETAIL_ENDPOINT_SPEC_def
  REPO_AUDIT_RUNS_ENDPOINT_SPEC_def REPO_AUDIT_SUMMARY_ENDPOINT_SPEC_def REPO_AUDIT_REPORTS_ENDPOINT_SPEC_def
  AUDIT_EMAIL_PREFERENCES_GET_ENDPOINT_SPEC_def AUDIT_EMAIL_PREFERENCES_PUT_ENDPOINT_SPEC_def AUDIT_AUTO_RUNS_ENDPOINT_SPEC_def
  AUDIT_AUTO_RUN_PUT_ENDPOINT_SPEC_def IMPROVEMENT_JOBS_ENDPOINT_SPEC_def IMPROVEMENT_JOB_PUT_ENDPOINT_SPEC_def

end
