(* ===== verification/Gateway_Client.thy ===== *)
theory Gateway_Client
  imports Gateway_Contract
begin

section \<open>Requests to the service (enji\_gateway/client.py)\<close>

text \<open>
  Rendering of a path, the session of a command, the status and the payload of a response, and
  the error that a command sees.  The environment of the transport is extended by the reader of the
  credential and by \<open>uuid4\<close>; the sender of a request is an argument: \<open>request_blocking\<close> with the
  policy of the shared client in the program.
\<close>

subsection \<open>Paths\<close>

text \<open>\<open>urllib.parse.quote(s, safe="")\<close> and \<open>quote_plus\<close>: the UTF-8 bytes of a character, percent-encoded
  unless it is unreserved.\<close>

definition unreserved :: "char \<Rightarrow> bool" where
  "unreserved c = (let n = char_code c in
     (65 \<le> n \<and> n \<le> 90) \<or> (97 \<le> n \<and> n \<le> 122) \<or> (48 \<le> n \<and> n \<le> 57) \<or> c \<in> set ''_.-~'')"

definition utf8 :: "char \<Rightarrow> nat list" where
  "utf8 c = (let n = char_code c in if n < 128 then [n] else [192 + n div 64, 128 + n mod 64])"

definition hex_digit :: "nat \<Rightarrow> char" where
  "hex_digit d = (if d < 10 then char_of (48 + d) else char_of (55 + d))"

definition percent :: "nat \<Rightarrow> string" where
  "percent n = [CHR ''%'', hex_digit (n div 16), hex_digit (n mod 16)]"

definition percent_encode :: "char \<Rightarrow> string" where
  "percent_encode c = (if unreserved c then [c] else concat (map percent (utf8 c)))"

definition quote :: "string \<Rightarrow> string" where
  "quote s = concat (map percent_encode s)"

definition quote_plus :: "string \<Rightarrow> string" where
  "quote_plus s = concat (map (\<lambda>c. if c = CHR '' '' then ''+'' else percent_encode c) s)"

definition urlencode :: "(string \<times> string) list \<Rightarrow> string" where
  "urlencode q = py_join ''&'' (map (\<lambda>(k, v). quote_plus k @ ''='' @ quote_plus v) q)"

definition render_api_path :: "string \<Rightarrow> (string \<times> string) list \<Rightarrow> string" where
  "render_api_path template params =
     foldl (\<lambda>path (key, v). py_replace (''{'' @ key @ ''}'') (quote v) path) template params"

subsection \<open>Sessions and requests\<close>

record api_session =
  session_base_url :: string
  session_headers :: "(string \<times> string) list"

text \<open>\<open>CredentialReader.load\<close>: a session, or the code and message of a \<open>CredentialError\<close>.\<close>

record 's gateway_env = "'s transport_env" +
  load_credentials :: "('s, (string \<times> string) + api_session) io"
  fresh_uuid :: "('s, string) io"

record api_request =
  api_method :: string
  api_path :: string
  api_operation :: string
  api_profile :: retry_profile
  api_body :: "json option"
  api_expected :: "int list"

definition HTTP_OK_ONLY :: "int list" where
  "HTTP_OK_ONLY = [200]"

definition api_request_of :: "endpoint_spec \<Rightarrow> int list \<Rightarrow> (string \<times> string) list \<Rightarrow> (string \<times> string) list
    \<Rightarrow> json option \<Rightarrow> api_request" where
  "api_request_of spec expected path_params query_params body =
     (let path = render_api_path (path_template spec) path_params in
      \<lparr>api_method = spec_method spec, api_path = (if query_params = [] then path else path @ ''?'' @ urlencode query_params),
       api_operation = spec_operation spec, api_profile = spec_profile spec, api_body = body, api_expected = expected\<rparr>)"

definition load_api_session :: "('s, 'x) gateway_env_scheme \<Rightarrow> ('s, api_session) io" where
  "load_api_session env = bindM (load_credentials env) (\<lambda>loaded. case loaded of
       Inl (code, message) \<Rightarrow> throwM (EnjiApiError code message None False)
     | Inr session \<Rightarrow> retM session)"

subsection \<open>Responses\<close>

definition AUTH_INVALID_CODE :: string where
  "AUTH_INVALID_CODE = ''AUTH_INVALID''"

definition HTTP_UNAUTHORIZED :: int where
  "HTTP_UNAUTHORIZED = 401"

definition members_of :: "json \<Rightarrow> members" where
  "members_of v = (case as_obj v of Some m \<Rightarrow> m | None \<Rightarrow> [])"

definition gateway_auth_invalid :: "http_response \<Rightarrow> bool result" where
  "gateway_auth_invalid r =
     (if status_code r \<noteq> HTTP_UNAUTHORIZED then Inr False
      else with_payload ''auth invalid check'' r False (\<lambda>v. case as_obj v of
         None \<Rightarrow> False
       | Some m \<Rightarrow>
           (case as_obj (jget m ''error'') of
              Some err \<Rightarrow> jget err ''code'' = JStr AUTH_INVALID_CODE
            | None \<Rightarrow> jget m ''code'' = JStr AUTH_INVALID_CODE)))"

definition api_error_from_response :: "http_response \<Rightarrow> exn option result" where
  "api_error_from_response r = with_payload ''api error'' r None (\<lambda>v.
     let err = members_of v; nested = members_of (jget err ''error''); payload = (if nested \<noteq> [] then nested else err) in
     map_option (\<lambda>code. EnjiResponseError code (or_str (as_str (jget payload ''message'')) code) (Some (status_code r)) False)
       (as_str (jget payload ''code'')))"

definition raise_for_api_response_status :: "('s, 'x) gateway_env_scheme \<Rightarrow> http_response \<Rightarrow> string \<Rightarrow> int list
    \<Rightarrow> ('s, unit) io" where
  "raise_for_api_response_status env r operation expected =
     (if status_code r \<in> set expected then retM ()
      else bindM (liftM (gateway_auth_invalid r)) (\<lambda>invalid.
        if invalid then throwM (EnjiResponseError AUTH_INVALID_CODE ''invalid access token'' (Some HTTP_UNAUTHORIZED) False)
        else if status_code r = HTTP_UNAUTHORIZED
        then throwM (EnjiResponseError ''AUTH_REQUIRED'' ''stored credential is not authenticated'' (Some (status_code r)) False)
        else bindM (liftM (api_error_from_response r)) (\<lambda>err. case err of
            Some e \<Rightarrow> throwM e
          | None \<Rightarrow> raise_for_response_status env r operation expected)))"

text \<open>The payloads are JSON values: normalising them drops nothing.\<close>

fun normalize_json_value :: "json \<Rightarrow> json" where
  "normalize_json_value (JObj m) = JObj (map (\<lambda>(k, v). (k, normalize_json_value v)) m)"
| "normalize_json_value (JList xs) = JList (map normalize_json_value xs)"
| "normalize_json_value v = v"

definition normalize_json_object :: "members \<Rightarrow> members" where
  "normalize_json_object m = map (\<lambda>(k, v). (k, normalize_json_value v)) m"

definition unexpected_json :: "string \<Rightarrow> exn" where
  "unexpected_json operation = EnjiResponseError ''UPSTREAM'' (operation @ '' returned unexpected JSON'') None True"

type_synonym 's sender = "http_request \<Rightarrow> ('s, http_response) io"

definition send_spec :: "('s, 'x) gateway_env_scheme \<Rightarrow> 's sender \<Rightarrow> api_session \<Rightarrow> api_request \<Rightarrow> ('s, http_response) io" where
  "send_spec env send session spec =
     bindM (send \<lparr>http_method = api_method spec, http_url = session_base_url session @ api_path spec,
         http_operation = api_operation spec, http_headers = session_headers session, http_profile = api_profile spec,
         http_body = api_body spec, http_timeout = DEFAULT_TRANSPORT_TIMEOUT_SECONDS\<rparr>) (\<lambda>r.
     thenM (raise_for_api_response_status env r (api_operation spec) (api_expected spec)) (retM r))"

definition request_json_object :: "('s, 'x) gateway_env_scheme \<Rightarrow> 's sender \<Rightarrow> api_session \<Rightarrow> api_request \<Rightarrow> ('s, members) io" where
  "request_json_object env send session spec =
     bindM (send_spec env send session spec) (\<lambda>r.
     bindM (liftM (response_json (api_operation spec) r)) (\<lambda>payload. case as_obj payload of
         Some m \<Rightarrow> retM m
       | None \<Rightarrow> throwM (unexpected_json (api_operation spec))))"

definition request_no_content :: "('s, 'x) gateway_env_scheme \<Rightarrow> 's sender \<Rightarrow> api_session \<Rightarrow> api_request \<Rightarrow> ('s, members) io" where
  "request_no_content env send session spec =
     bindM (send_spec env send session spec) (\<lambda>r.
       if response_body r = EmptyBody then retM []
       else bindM (liftM (response_json (api_operation spec) r)) (\<lambda>payload. case as_obj payload of
           Some m \<Rightarrow> retM (normalize_json_object m)
         | None \<Rightarrow> throwM (unexpected_json (api_operation spec))))"

text \<open>\<open>except EnjiHttpError as exc: raise EnjiApiError(...)\<close>.\<close>

definition api_error_of :: "exn \<Rightarrow> exn" where
  "api_error_of e = (case e of
       EnjiResponseError code message status malformed \<Rightarrow> EnjiApiError code message status malformed
     | _ \<Rightarrow> (case enji_code e of Some code \<Rightarrow> EnjiApiError code (exn_text e) None False | None \<Rightarrow> e))"

definition as_api_errors :: "('s, 'a) io \<Rightarrow> ('s, 'a) io" where
  "as_api_errors m = handleM m is_enji_error (\<lambda>e. throwM (api_error_of e))"

definition run_api_request :: "('s, 'x) gateway_env_scheme \<Rightarrow> 's sender \<Rightarrow> (members \<Rightarrow> 'a result) \<Rightarrow> api_request
    \<Rightarrow> ('s, 'a) io" where
  "run_api_request env send parser spec =
     as_api_errors (bindM (load_api_session env) (\<lambda>session.
       bindM (request_json_object env send session spec) (\<lambda>payload. liftM (parser payload))))"

definition run_api_no_content :: "('s, 'x) gateway_env_scheme \<Rightarrow> 's sender \<Rightarrow> api_request \<Rightarrow> ('s, members) io" where
  "run_api_no_content env send spec =
     as_api_errors (bindM (load_api_session env) (\<lambda>session. request_no_content env send session spec))"

end
