(* ===== verification/Gateway_Http.thy ===== *)
theory Gateway_Http
  imports Gateway_Client Py_Datetime
begin

section \<open>The requests of the service (enji\_gateway/http.py)\<close>

text \<open>
  One definition per request, over an environment and a sender.  A request that the service answers
  with an object yields its members; the two project operations that take two requests report the
  step that failed.
\<close>

subsection \<open>Endpoints\<close>

definition HTTP_CREATED_ONLY :: "int list" where
  "HTTP_CREATED_ONLY = [201]"

definition HTTP_NO_CONTENT_ONLY :: "int list" where
  "HTTP_NO_CONTENT_ONLY = [204]"

definition HTTP_OK_OR_NO_CONTENT :: "int list" where
  "HTTP_OK_OR_NO_CONTENT = [200, 204]"

definition GITHUB_LOCATOR_PARTS :: nat where
  "GITHUB_LOCATOR_PARTS = 2"

text \<open>An endpoint; its parser is an argument of the request that uses it.\<close>

record api_endpoint =
  endpoint_spec_of :: endpoint_spec
  endpoint_expected :: "int list"

definition ACCESS_ENDPOINT :: api_endpoint where
  "ACCESS_ENDPOINT = \<lparr>endpoint_spec_of = ACCESS_ENDPOINT_SPEC, endpoint_expected = HTTP_OK_ONLY\<rparr>"

definition USER_PREFERENCES_GET_ENDPOINT :: api_endpoint where
  "USER_PREFERENCES_GET_ENDPOINT = \<lparr>endpoint_spec_of = USER_PREFERENCES_GET_ENDPOINT_SPEC, endpoint_expected = HTTP_OK_ONLY\<rparr>"

definition USER_PREFERENCES_PUT_ENDPOINT :: api_endpoint where
  "USER_PREFERENCES_PUT_ENDPOINT = \<lparr>endpoint_spec_of = USER_PREFERENCES_PUT_ENDPOINT_SPEC, endpoint_expected = HTTP_OK_ONLY\<rparr>"

definition PROJECTS_ENDPOINT :: api_endpoint where
  "PROJECTS_ENDPOINT = \<lparr>endpoint_spec_of = PROJECTS_ENDPOINT_SPEC, endpoint_expected = HTTP_OK_ONLY\<rparr>"

definition GIT_CREDENTIALS_ENDPOINT :: api_endpoint where
  "GIT_CREDENTIALS_ENDPOINT = \<lparr>endpoint_spec_of = GIT_CREDENTIALS_ENDPOINT_SPEC, endpoint_expected = HTTP_OK_ONLY\<rparr>"

definition GITLAB_PROJECTS_ENDPOINT :: api_endpoint where
  "GITLAB_PROJECTS_ENDPOINT = \<lparr>endpoint_spec_of = GITLAB_PROJECTS_ENDPOINT_SPEC, endpoint_expected = HTTP_OK_ONLY\<rparr>"

definition PROJECT_DETAIL_ENDPOINT :: api_endpoint where
  "PROJECT_DETAIL_ENDPOINT = \<lparr>endpoint_spec_of = PROJECT_DETAIL_ENDPOINT_SPEC, endpoint_expected = HTTP_OK_ONLY\<rparr>"

definition PROJECT_ACTIVE_RUNS_ENDPOINT :: api_endpoint where
  "PROJECT_ACTIVE_RUNS_ENDPOINT = \<lparr>endpoint_spec_of = PROJECT_ACTIVE_RUNS_ENDPOINT_SPEC, endpoint_expected = HTTP_OK_ONLY\<rparr>"

definition FLEET_PROJECT_CREATE_ENDPOINT :: api_endpoint where
  "FLEET_PROJECT_CREATE_ENDPOINT = \<lparr>endpoint_spec_of = FLEET_PROJECT_CREATE_ENDPOINT_SPEC, endpoint_expected = HTTP_CREATED_ONLY\<rparr>"

definition UX_PROJECT_CREATE_ENDPOINT :: api_endpoint where
  "UX_PROJECT_CREATE_ENDPOINT = \<lparr>endpoint_spec_of = UX_PROJECT_CREATE_ENDPOINT_SPEC, endpoint_expected = HTTP_CREATED_ONLY\<rparr>"

definition PROJECT_RENAME_ENDPOINT :: api_endpoint where
  "PROJECT_RENAME_ENDPOINT = \<lparr>endpoint_spec_of = PROJECT_RENAME_ENDPOINT_SPEC, endpoint_expected = HTTP_OK_ONLY\<rparr>"

definition UX_PROJECT_DELETE_ENDPOINT :: api_endpoint where
  "UX_PROJECT_DELETE_ENDPOINT = \<lparr>endpoint_spec_of = UX_PROJECT_DELETE_ENDPOINT_SPEC, endpoint_expected = HTTP_NO_CONTENT_ONLY\<rparr>"

definition FLEET_PROJECT_DELETE_ENDPOINT :: api_endpoint where
  "FLEET_PROJECT_DELETE_ENDPOINT = \<lparr>endpoint_spec_of = FLEET_PROJECT_DELETE_ENDPOINT_SPEC, endpoint_expected = HTTP_NO_CONTENT_ONLY\<rparr>"

definition REPO_TRANSFER_PREFLIGHT_ENDPOINT :: api_endpoint where
  "REPO_TRANSFER_PREFLIGHT_ENDPOINT = \<lparr>endpoint_spec_of = REPO_TRANSFER_PREFLIGHT_ENDPOINT_SPEC, endpoint_expected = HTTP_OK_OR_NO_CONTENT\<rparr>"

definition REPO_TRANSFER_ENDPOINT :: api_endpoint where
  "REPO_TRANSFER_ENDPOINT = \<lparr>endpoint_spec_of = REPO_TRANSFER_ENDPOINT_SPEC, endpoint_expected = HTTP_OK_ONLY\<rparr>"

definition CATALOG_ENDPOINT :: api_endpoint where
  "CATALOG_ENDPOINT = \<lparr>endpoint_spec_of = CATALOG_ENDPOINT_SPEC, endpoint_expected = HTTP_OK_ONLY\<rparr>"

definition RUNBOOK_ENDPOINT :: api_endpoint where
  "RUNBOOK_ENDPOINT = \<lparr>endpoint_spec_of = RUNBOOK_ENDPOINT_SPEC, endpoint_expected = HTTP_OK_ONLY\<rparr>"

definition PROJECT_REPOS_ADD_ENDPOINT :: api_endpoint where
  "PROJECT_REPOS_ADD_ENDPOINT = \<lparr>endpoint_spec_of = PROJECT_REPOS_ADD_ENDPOINT_SPEC, endpoint_expected = HTTP_CREATED_ONLY\<rparr>"

definition PROJECT_REPO_DELETE_ENDPOINT :: api_endpoint where
  "PROJECT_REPO_DELETE_ENDPOINT = \<lparr>endpoint_spec_of = PROJECT_REPO_DELETE_ENDPOINT_SPEC, endpoint_expected = HTTP_NO_CONTENT_ONLY\<rparr>"

definition PROJECT_REPO_CONNECTION_ENDPOINT :: api_endpoint where
  "PROJECT_REPO_CONNECTION_ENDPOINT = \<lparr>endpoint_spec_of = PROJECT_REPO_CONNECTION_ENDPOINT_SPEC, endpoint_expected = HTTP_OK_ONLY\<rparr>"

definition REPO_ACTIVE_RUNS_ENDPOINT :: api_endpoint where
  "REPO_ACTIVE_RUNS_ENDPOINT = \<lparr>endpoint_spec_of = REPO_ACTIVE_RUNS_ENDPOINT_SPEC, endpoint_expected = HTTP_OK_ONLY\<rparr>"

definition REPO_AUDIT_RERUN_STATE_ENDPOINT :: api_endpoint where
  "REPO_AUDIT_RERUN_STATE_ENDPOINT = \<lparr>endpoint_spec_of = REPO_AUDIT_RERUN_STATE_ENDPOINT_SPEC, endpoint_expected = HTTP_OK_ONLY\<rparr>"

definition REPO_TASK_LINKS_ENDPOINT :: api_endpoint where
  "REPO_TASK_LINKS_ENDPOINT = \<lparr>endpoint_spec_of = REPO_TASK_LINKS_ENDPOINT_SPEC, endpoint_expected = HTTP_OK_ONLY\<rparr>"

definition REPO_AUDIT_RUNS_ENDPOINT :: api_endpoint where
  "REPO_AUDIT_RUNS_ENDPOINT = \<lparr>endpoint_spec_of = REPO_AUDIT_RUNS_ENDPOINT_SPEC, endpoint_expected = HTTP_CREATED_ONLY\<rparr>"

definition REPO_AUDIT_SUMMARY_ENDPOINT :: api_endpoint where
  "REPO_AUDIT_SUMMARY_ENDPOINT = \<lparr>endpoint_spec_of = REPO_AUDIT_SUMMARY_ENDPOINT_SPEC, endpoint_expected = HTTP_OK_ONLY\<rparr>"

definition REPO_AUDIT_REPORTS_ENDPOINT :: api_endpoint where
  "REPO_AUDIT_REPORTS_ENDPOINT = \<lparr>endpoint_spec_of = REPO_AUDIT_REPORTS_ENDPOINT_SPEC, endpoint_expected = HTTP_OK_ONLY\<rparr>"

definition AUDIT_EMAIL_PREFERENCES_GET_ENDPOINT :: api_endpoint where
  "AUDIT_EMAIL_PREFERENCES_GET_ENDPOINT = \<lparr>endpoint_spec_of = AUDIT_EMAIL_PREFERENCES_GET_ENDPOINT_SPEC, endpoint_expected = HTTP_OK_ONLY\<rparr>"

definition AUDIT_EMAIL_PREFERENCES_PUT_ENDPOINT :: api_endpoint where
  "AUDIT_EMAIL_PREFERENCES_PUT_ENDPOINT = \<lparr>endpoint_spec_of = AUDIT_EMAIL_PREFERENCES_PUT_ENDPOINT_SPEC, endpoint_expected = HTTP_OK_ONLY\<rparr>"

definition AUDIT_AUTO_RUNS_ENDPOINT :: api_endpoint where
  "AUDIT_AUTO_RUNS_ENDPOINT = \<lparr>endpoint_spec_of = AUDIT_AUTO_RUNS_ENDPOINT_SPEC, endpoint_expected = HTTP_OK_ONLY\<rparr>"

definition AUDIT_AUTO_RUN_PUT_ENDPOINT :: api_endpoint where
  "AUDIT_AUTO_RUN_PUT_ENDPOINT = \<lparr>endpoint_spec_of = AUDIT_AUTO_RUN_PUT_ENDPOINT_SPEC, endpoint_expected = HTTP_OK_ONLY\<rparr>"

definition IMPROVEMENT_JOBS_ENDPOINT :: api_endpoint where
  "IMPROVEMENT_JOBS_ENDPOINT = \<lparr>endpoint_spec_of = IMPROVEMENT_JOBS_ENDPOINT_SPEC, endpoint_expected = HTTP_OK_ONLY\<rparr>"

definition IMPROVEMENT_JOB_PUT_ENDPOINT :: api_endpoint where
  "IMPROVEMENT_JOB_PUT_ENDPOINT = \<lparr>endpoint_spec_of = IMPROVEMENT_JOB_PUT_ENDPOINT_SPEC, endpoint_expected = HTTP_OK_ONLY\<rparr>"

subsection \<open>Sending\<close>

text \<open>\<open>ENDPOINT.request(...)\<close> run with the parser of JSON objects, and with an empty response allowed.\<close>

definition endpoint_request :: "api_endpoint \<Rightarrow> (string \<times> string) list \<Rightarrow> (string \<times> string) list \<Rightarrow> json option
    \<Rightarrow> api_request" where
  "endpoint_request ep path_params query_params body =
     api_request_of (endpoint_spec_of ep) (endpoint_expected ep) path_params query_params body"

definition call :: "('s, 'x) gateway_env_scheme \<Rightarrow> 's sender \<Rightarrow> api_endpoint \<Rightarrow> (string \<times> string) list
    \<Rightarrow> (string \<times> string) list \<Rightarrow> json option \<Rightarrow> ('s, members) io" where
  "call env send ep path_params query_params body =
     run_api_request env send (\<lambda>m. Inr (normalize_json_object m)) (endpoint_request ep path_params query_params body)"

definition call_no_content :: "('s, 'x) gateway_env_scheme \<Rightarrow> 's sender \<Rightarrow> api_endpoint \<Rightarrow> (string \<times> string) list
    \<Rightarrow> json option \<Rightarrow> ('s, members) io" where
  "call_no_content env send ep path_params body =
     run_api_no_content env send (endpoint_request ep path_params [] body)"

subsection \<open>Access and account\<close>

record access_limits_payload =
  can_add_repo :: "bool option"
  can_add_website :: "bool option"
  can_create_project :: "bool option"
  can_invite_members :: "bool option"
  can_run_one_shot_autofix :: "bool option"
  can_run_one_shot_pentest :: "bool option"
  can_use_schedules :: "bool option"
  audit_runs_limits :: members
  autofix_runs_limits :: members

record access_payload =
  access_group :: "string option"
  full_access :: "bool option"
  access_limits :: access_limits_payload
  access_usage :: "json list"

definition normalize_json_list :: "json \<Rightarrow> json list" where
  "normalize_json_list v = (case as_list v of Some xs \<Rightarrow> map normalize_json_value xs | None \<Rightarrow> [])"

definition parse_access_payload :: "members \<Rightarrow> access_payload" where
  "parse_access_payload payload =
     (let access = members_of (jget payload ''access''); limits = members_of (jget access ''limits'') in
      \<lparr>access_group = as_str (jget access ''group''), full_access = as_bool (jget access ''fullAccess''),
       access_limits = \<lparr>can_add_repo = as_bool (jget limits ''canAddRepo''),
         can_add_website = as_bool (jget limits ''canAddWebsite''),
         can_create_project = as_bool (jget limits ''canCreateProject''),
         can_invite_members = as_bool (jget limits ''canInviteMembers''),
         can_run_one_shot_autofix = as_bool (jget limits ''canRunOneShotAutofix''),
         can_run_one_shot_pentest = as_bool (jget limits ''canRunOneShotPentest''),
         can_use_schedules = as_bool (jget limits ''canUseSchedules''),
         audit_runs_limits = normalize_json_object (members_of (jget limits ''auditRuns'')),
         autofix_runs_limits = normalize_json_object (members_of (jget limits ''autofixRuns''))\<rparr>,
       access_usage = normalize_json_list (jget access ''usage'')\<rparr>)"

definition http_access :: "('s, 'x) gateway_env_scheme \<Rightarrow> 's sender \<Rightarrow> ('s, access_payload) io" where
  "http_access env send =
     run_api_request env send (\<lambda>m. Inr (parse_access_payload m)) (endpoint_request ACCESS_ENDPOINT [] [] None)"

definition http_user_preferences :: "('s, 'x) gateway_env_scheme \<Rightarrow> 's sender \<Rightarrow> ('s, members) io" where
  "http_user_preferences env send = call env send USER_PREFERENCES_GET_ENDPOINT [] [] None"

definition http_put_user_language :: "('s, 'x) gateway_env_scheme \<Rightarrow> 's sender \<Rightarrow> string \<Rightarrow> ('s, members) io" where
  "http_put_user_language env send language =
     call env send USER_PREFERENCES_PUT_ENDPOINT [] [] (Some (JObj [(''language'', JStr language)]))"

subsection \<open>GitLab discovery\<close>

record gitlab_credentials_request =
  credentials_scope_type :: "string option"
  credentials_scope_owner :: "string option"
  credentials_limit :: int
  credentials_offset :: int

record gitlab_projects_request =
  projects_credential_id :: string
  projects_host :: "string option"
  projects_api_base_url :: "string option"
  projects_search :: "string option"
  projects_page :: int
  projects_per_page :: int
  projects_scope_type :: "string option"
  projects_scope_owner :: "string option"

definition optional_query_value :: "string option \<Rightarrow> string option" where
  "optional_query_value v = Option.bind v (\<lambda>s. let n = py_strip s in if n = [] then None else Some n)"

definition query_of :: "(string \<times> string option) list \<Rightarrow> (string \<times> string) list" where
  "query_of pairs = List.map_filter (\<lambda>(k, v). map_option (Pair k) (optional_query_value v)) pairs"

definition http_gitlab_credentials :: "('s, 'x) gateway_env_scheme \<Rightarrow> 's sender \<Rightarrow> gitlab_credentials_request
    \<Rightarrow> ('s, members) io" where
  "http_gitlab_credentials env send q =
     call env send GIT_CREDENTIALS_ENDPOINT []
       ([(''credential_type'', ''git''), (''provider'', ''gitlab'')] @ query_of
         [(''scope_type'', credentials_scope_type q), (''scope_owner'', credentials_scope_owner q),
          (''limit'', Some (show_int (credentials_limit q))), (''offset'', Some (show_int (credentials_offset q)))]) None"

definition http_gitlab_projects :: "('s, 'x) gateway_env_scheme \<Rightarrow> 's sender \<Rightarrow> gitlab_projects_request
    \<Rightarrow> ('s, members) io" where
  "http_gitlab_projects env send q =
     call env send GITLAB_PROJECTS_ENDPOINT []
       ((''credential_id'', projects_credential_id q) # query_of
         [(''host'', projects_host q), (''api_base_url'', projects_api_base_url q), (''search'', projects_search q),
          (''page'', Some (show_int (projects_page q))), (''per_page'', Some (show_int (projects_per_page q))),
          (''scope_type'', projects_scope_type q), (''scope_owner'', projects_scope_owner q)]) None"

subsection \<open>Projects\<close>

definition http_projects :: "('s, 'x) gateway_env_scheme \<Rightarrow> 's sender \<Rightarrow> ('s, members) io" where
  "http_projects env send = call env send PROJECTS_ENDPOINT [] [] None"

definition http_project_detail :: "('s, 'x) gateway_env_scheme \<Rightarrow> 's sender \<Rightarrow> string \<Rightarrow> ('s, members) io" where
  "http_project_detail env send pid = call env send PROJECT_DETAIL_ENDPOINT [(''projectId'', pid)] [] None"

definition http_project_active_runs :: "('s, 'x) gateway_env_scheme \<Rightarrow> 's sender \<Rightarrow> string \<Rightarrow> ('s, members) io" where
  "http_project_active_runs env send pid = call env send PROJECT_ACTIVE_RUNS_ENDPOINT [(''projectId'', pid)] [] None"

text \<open>\<open>EnjiPartialStateError\<close>, an \<open>EnjiApiError\<close> whose message names the steps.\<close>

record partial_state_details =
  partial_operation :: string
  completed_step :: string
  failed_step :: string
  partial_project_id :: "string option"
  partial_project_name :: "string option"
  upstream_code :: string
  upstream_message :: string

definition partial_state_error :: "partial_state_details \<Rightarrow> exn" where
  "partial_state_error d = EnjiApiError ''PARTIAL_STATE'' (py_join ''; ''
     ([''operation='' @ partial_operation d, ''completed_step='' @ completed_step d, ''failed_step='' @ failed_step d]
      @ (case partial_project_id d of Some p \<Rightarrow> [''project_id='' @ p] | None \<Rightarrow> [])
      @ (case partial_project_name d of Some n \<Rightarrow> [''project_name='' @ n] | None \<Rightarrow> [])
      @ [''upstream_code='' @ upstream_code d, ''upstream_message='' @ upstream_message d])) None False"

fun is_api_error :: "exn \<Rightarrow> bool" where
  "is_api_error (EnjiApiError _ _ _ _) = True"
| "is_api_error _ = False"

fun api_error_code :: "exn \<Rightarrow> string" where
  "api_error_code (EnjiApiError code _ _ _) = code"
| "api_error_code _ = []"

definition parse_fleet_project_create_response :: "members \<Rightarrow> string result" where
  "parse_fleet_project_create_response payload = (case as_str (jget payload ''id'') of
       None \<Rightarrow> Inl (EnjiHttpError ''UPSTREAM'' ''project create returned no project id'')
     | Some fleet \<Rightarrow> Inr fleet)"

definition http_create_project :: "('s, 'x) gateway_env_scheme \<Rightarrow> 's sender \<Rightarrow> string \<Rightarrow> ('s, members) io" where
  "http_create_project env send name =
     bindM (run_api_request env send parse_fleet_project_create_response
         (endpoint_request FLEET_PROJECT_CREATE_ENDPOINT [] [] (Some (JObj [(''name'', JStr name)])))) (\<lambda>fleet.
     bindM (utc_now env) (\<lambda>now.
     handleM
       (call env send UX_PROJECT_CREATE_ENDPOINT [] []
         (Some (JObj [(''fleetProjectId'', JStr fleet), (''name'', JStr name), (''createdAt'', JStr (isoformat (utc now)))])))
       is_api_error
       (\<lambda>e. throwM (partial_state_error \<lparr>partial_operation = ''create_project'', completed_step = ''fleet_create'',
          failed_step = ''ux_create'', partial_project_id = Some fleet, partial_project_name = Some name,
          upstream_code = api_error_code e, upstream_message = exn_text e\<rparr>))))"

definition http_rename_project :: "('s, 'x) gateway_env_scheme \<Rightarrow> 's sender \<Rightarrow> string \<Rightarrow> string \<Rightarrow> ('s, members) io" where
  "http_rename_project env send pid name =
     call env send PROJECT_RENAME_ENDPOINT [(''projectId'', pid)] [] (Some (JObj [(''name'', JStr name)]))"

definition http_delete_project :: "('s, 'x) gateway_env_scheme \<Rightarrow> 's sender \<Rightarrow> string \<Rightarrow> ('s, unit) io" where
  "http_delete_project env send pid =
     bindM (call_no_content env send UX_PROJECT_DELETE_ENDPOINT [(''projectId'', pid)] None) (\<lambda>_.
     handleM
       (thenM (call_no_content env send FLEET_PROJECT_DELETE_ENDPOINT [(''projectId'', pid)] None) (retM ()))
       is_api_error
       (\<lambda>e. throwM (partial_state_error \<lparr>partial_operation = ''delete_project'', completed_step = ''ux_delete'',
          failed_step = ''fleet_delete'', partial_project_id = Some pid, partial_project_name = None,
          upstream_code = api_error_code e, upstream_message = exn_text e\<rparr>)))"

subsection \<open>Repositories\<close>

definition http_preflight_repo_move :: "('s, 'x) gateway_env_scheme \<Rightarrow> 's sender \<Rightarrow> string \<Rightarrow> string \<Rightarrow> string
    \<Rightarrow> ('s, members) io" where
  "http_preflight_repo_move env send source repo destination =
     call_no_content env send REPO_TRANSFER_PREFLIGHT_ENDPOINT [(''sourceProjectId'', source), (''repoId'', repo)]
       (Some (JObj [(''targetProjectId'', JStr destination)]))"

definition http_move_repo :: "('s, 'x) gateway_env_scheme \<Rightarrow> 's sender \<Rightarrow> string \<Rightarrow> string \<Rightarrow> string
    \<Rightarrow> members option \<Rightarrow> ('s, members) io" where
  "http_move_repo env send source repo destination replacements =
     call env send REPO_TRANSFER_ENDPOINT [(''sourceProjectId'', source), (''repoId'', repo)] []
       (Some (JObj ((''targetProjectId'', JStr destination)
         # (case replacements of Some m \<Rightarrow> [(''scheduleReplacements'', JObj m)] | None \<Rightarrow> []))))"

definition repo_add_request :: "string \<Rightarrow> string \<Rightarrow> string option \<Rightarrow> string option \<Rightarrow> members result" where
  "repo_add_request provider locator host credential =
     (if provider = ''github''
      then (case py_split (CHR ''/'') locator of
          [owner, name] \<Rightarrow> Inr [(''githubOwner'', JStr owner), (''githubName'', JStr name)]
        | _ \<Rightarrow> Inl (ValueError ''GitHub repository locator must be owner/name''))
      else if provider = ''gitlab''
      then (case (host, credential) of
          (Some h, Some c) \<Rightarrow> Inr [(''provider'', JStr provider), (''host'', JStr h), (''repoPath'', JStr locator),
            (''repoAccessCredentialId'', JStr c)]
        | _ \<Rightarrow> Inl (ValueError ''GitLab repository add requires host and repoAccessCredentialId''))
      else Inl (ValueError (''unsupported repository provider: '' @ provider)))"

definition http_add_project_repo :: "('s, 'x) gateway_env_scheme \<Rightarrow> 's sender \<Rightarrow> string \<Rightarrow> string \<Rightarrow> string
    \<Rightarrow> string option \<Rightarrow> string option \<Rightarrow> ('s, members) io" where
  "http_add_project_repo env send pid provider locator host credential =
     bindM (liftM (repo_add_request provider locator host credential)) (\<lambda>body.
       call env send PROJECT_REPOS_ADD_ENDPOINT [(''projectId'', pid)] [] (Some (JObj body)))"

definition http_delete_project_repo :: "('s, 'x) gateway_env_scheme \<Rightarrow> 's sender \<Rightarrow> string \<Rightarrow> string \<Rightarrow> ('s, unit) io" where
  "http_delete_project_repo env send pid repo =
     thenM (call_no_content env send PROJECT_REPO_DELETE_ENDPOINT [(''projectId'', pid), (''repoId'', repo)] None) (retM ())"

definition http_connect_project_repo :: "('s, 'x) gateway_env_scheme \<Rightarrow> 's sender \<Rightarrow> string \<Rightarrow> string \<Rightarrow> ('s, members) io" where
  "http_connect_project_repo env send pid repo =
     bindM (utc_now env) (\<lambda>now.
       call env send PROJECT_REPO_CONNECTION_ENDPOINT [(''projectId'', pid), (''repoId'', repo)] []
         (Some (JObj [(''connected'', JBool True),
           (''lastVerifiedAt'', JStr (py_replace ''+00:00'' ''Z'' (isoformat (utc now))))])))"

subsection \<open>Audits\<close>

definition http_catalog :: "('s, 'x) gateway_env_scheme \<Rightarrow> 's sender \<Rightarrow> ('s, members) io" where
  "http_catalog env send = call env send CATALOG_ENDPOINT [] [] None"

definition http_runbook :: "('s, 'x) gateway_env_scheme \<Rightarrow> 's sender \<Rightarrow> string \<Rightarrow> ('s, members) io" where
  "http_runbook env send runbook = call env send RUNBOOK_ENDPOINT [(''runbookId'', runbook)] [] None"

definition http_repo_active_runs :: "('s, 'x) gateway_env_scheme \<Rightarrow> 's sender \<Rightarrow> string \<Rightarrow> ('s, members) io" where
  "http_repo_active_runs env send repo = call env send REPO_ACTIVE_RUNS_ENDPOINT [(''repoId'', repo)] [] None"

definition http_repo_audit_rerun_state :: "('s, 'x) gateway_env_scheme \<Rightarrow> 's sender \<Rightarrow> string \<Rightarrow> ('s, members) io" where
  "http_repo_audit_rerun_state env send repo = call env send REPO_AUDIT_RERUN_STATE_ENDPOINT [(''repoId'', repo)] [] None"

definition http_repo_task_links :: "('s, 'x) gateway_env_scheme \<Rightarrow> 's sender \<Rightarrow> string \<Rightarrow> ('s, members) io" where
  "http_repo_task_links env send repo = call env send REPO_TASK_LINKS_ENDPOINT [(''repoId'', repo)] [] None"

definition TASK_DETAIL_ENDPOINT :: api_endpoint where
  "TASK_DETAIL_ENDPOINT = \<lparr>endpoint_spec_of = TASK_DETAIL_ENDPOINT_SPEC, endpoint_expected = HTTP_OK_ONLY\<rparr>"

definition http_task_detail :: "('s, 'x) gateway_env_scheme \<Rightarrow> 's sender \<Rightarrow> string \<Rightarrow> ('s, members) io" where
  "http_task_detail env send task = call env send TASK_DETAIL_ENDPOINT [(''taskId'', task)] [] None"

definition http_start_audit_run :: "('s, 'x) gateway_env_scheme \<Rightarrow> 's sender \<Rightarrow> string \<Rightarrow> string \<Rightarrow> string
    \<Rightarrow> members \<Rightarrow> ('s, members) io" where
  "http_start_audit_run env send repo pid action body =
     bindM (fresh_uuid env) (\<lambda>uuid.
       call env send REPO_AUDIT_RUNS_ENDPOINT [(''repoId'', repo)] []
         (Some (JObj [(''projectId'', JStr pid), (''actionKey'', JStr action), (''fleetTaskBody'', JObj body),
           (''clientRequestId'', JStr uuid)])))"

definition http_audit_summary_snapshot :: "('s, 'x) gateway_env_scheme \<Rightarrow> 's sender \<Rightarrow> string \<Rightarrow> string \<Rightarrow> string
    \<Rightarrow> ('s, members) io" where
  "http_audit_summary_snapshot env send repo slug task =
     call env send REPO_AUDIT_SUMMARY_ENDPOINT [(''repoId'', repo)] [(''group'', slug), (''run'', task)] None"

definition http_audit_reports :: "('s, 'x) gateway_env_scheme \<Rightarrow> 's sender \<Rightarrow> string \<Rightarrow> string \<Rightarrow> ('s, members) io" where
  "http_audit_reports env send repo slug =
     call env send REPO_AUDIT_REPORTS_ENDPOINT [(''repoId'', repo)] [(''group'', slug)] None"

subsection \<open>Recurring settings\<close>

definition optional_bool_field :: "members \<Rightarrow> string \<Rightarrow> members result" where
  "optional_bool_field patch field = (case jget patch field of
       JNull \<Rightarrow> Inr []
     | JBool b \<Rightarrow> Inr [(field, JBool b)]
     | _ \<Rightarrow> Inl (EnjiApiError ''VALIDATION'' (field @ '' must be boolean'') None False))"

definition audit_email_preference_request :: "members \<Rightarrow> members result" where
  "audit_email_preference_request patch =
     bindR (optional_bool_field patch ''manualRunCompletion'') (\<lambda>manual.
     bindR (optional_bool_field patch ''scheduledRunCompletion'') (\<lambda>scheduled. Inr (manual @ scheduled)))"

definition http_audit_email_preferences :: "('s, 'x) gateway_env_scheme \<Rightarrow> 's sender \<Rightarrow> string \<Rightarrow> string \<Rightarrow> ('s, members) io" where
  "http_audit_email_preferences env send repo action =
     call env send AUDIT_EMAIL_PREFERENCES_GET_ENDPOINT [(''repoId'', repo), (''actionKey'', action)] [] None"

definition http_put_audit_email_preferences :: "('s, 'x) gateway_env_scheme \<Rightarrow> 's sender \<Rightarrow> string \<Rightarrow> string
    \<Rightarrow> members \<Rightarrow> ('s, members) io" where
  "http_put_audit_email_preferences env send repo action patch =
     bindM (liftM (audit_email_preference_request patch)) (\<lambda>body.
       call env send AUDIT_EMAIL_PREFERENCES_PUT_ENDPOINT [(''repoId'', repo), (''actionKey'', action)] [] (Some (JObj body)))"

definition AUDIT_AUTO_RUN_FIELDS :: "string list" where
  "AUDIT_AUTO_RUN_FIELDS = [''cadence'', ''enabled'', ''scheduleDay'', ''scheduleDayOfMonth'', ''scheduleTime'',
     ''scheduleTimeSource'', ''timezone'', ''windowDays'', ''windowEndTime'', ''windowMode'', ''windowStartTime'']"

definition audit_auto_run_request :: "members \<Rightarrow> members" where
  "audit_auto_run_request subscription = map (\<lambda>field. (field, jget subscription field)) AUDIT_AUTO_RUN_FIELDS"

definition http_audit_auto_runs :: "('s, 'x) gateway_env_scheme \<Rightarrow> 's sender \<Rightarrow> string \<Rightarrow> ('s, members) io" where
  "http_audit_auto_runs env send repo = call env send AUDIT_AUTO_RUNS_ENDPOINT [(''repoId'', repo)] [] None"

definition http_put_audit_auto_run :: "('s, 'x) gateway_env_scheme \<Rightarrow> 's sender \<Rightarrow> string \<Rightarrow> string \<Rightarrow> members
    \<Rightarrow> ('s, members) io" where
  "http_put_audit_auto_run env send repo action subscription =
     call env send AUDIT_AUTO_RUN_PUT_ENDPOINT [(''repoId'', repo), (''actionKey'', action)] []
       (Some (JObj (audit_auto_run_request subscription)))"

definition http_improvement_jobs :: "('s, 'x) gateway_env_scheme \<Rightarrow> 's sender \<Rightarrow> string \<Rightarrow> ('s, members) io" where
  "http_improvement_jobs env send repo = call env send IMPROVEMENT_JOBS_ENDPOINT [(''repoId'', repo)] [] None"

definition http_put_improvement_job :: "('s, 'x) gateway_env_scheme \<Rightarrow> 's sender \<Rightarrow> string \<Rightarrow> string \<Rightarrow> members
    \<Rightarrow> ('s, members) io" where
  "http_put_improvement_job env send repo kind job =
     call env send IMPROVEMENT_JOB_PUT_ENDPOINT [(''repoId'', repo), (''kind'', kind)] [] (Some (JObj job))"

end
