(* ===== verification/Audit_Gateway.thy ===== *)
theory Audit_Gateway
  imports Audit_Wire Gateway_Http Subscriptions
begin

section \<open>The audit gateway (enji\_gateway/audit\_gateway.py)\<close>

text \<open>
  The operations of the gateway over the requests of \<open>Gateway_Http\<close>, with the errors they
  translate.  \<open>audit_subscriptions\<close> is the gateway as the subscription commands use it.
\<close>

definition HTTP_NOT_FOUND :: int where
  "HTTP_NOT_FOUND = 404"

definition upstream_reason :: "int option \<Rightarrow> string \<Rightarrow> string" where
  "upstream_reason status message = (case status of
       None \<Rightarrow> message
     | Some n \<Rightarrow> ''upstream returned HTTP '' @ show_int n @ '': '' @ message)"

subsection \<open>Reads\<close>

definition gateway_catalog :: "('s, 'x) gateway_env_scheme \<Rightarrow> 's sender \<Rightarrow> ('s, audit_catalog_result) io" where
  "gateway_catalog env send = bindM (http_catalog env send) (\<lambda>payload. retM
     \<lparr>catalog_actions = List.map_filter catalog_action_of (object_list (jget payload ''curatedActions'')),
      catalog_improvements = List.map_filter catalog_improvement_of (object_list (jget payload ''auditAutofixes'')),
      catalog_changes = []\<rparr>)"

definition read_active_runs :: "('s, 'x) gateway_env_scheme \<Rightarrow> 's sender \<Rightarrow> string \<Rightarrow> ('s, audit_run list) io" where
  "read_active_runs env send repo = bindM (http_repo_active_runs env send repo) (\<lambda>payload.
     retM (map audit_run_of (object_list (jget payload ''activeRuns''))))"

definition read_rerun_state :: "('s, 'x) gateway_env_scheme \<Rightarrow> 's sender \<Rightarrow> string \<Rightarrow> ('s, audit_rerun_state) io" where
  "read_rerun_state env send repo = bindM (http_repo_audit_rerun_state env send repo) (\<lambda>payload.
     retM (rerun_state_of (object (jget payload ''state''))))"

definition read_task_links :: "('s, 'x) gateway_env_scheme \<Rightarrow> 's sender \<Rightarrow> string \<Rightarrow> ('s, audit_task_link list) io" where
  "read_task_links env send repo = bindM (http_repo_task_links env send repo) (\<lambda>payload.
     retM (map task_link_of (object_list (jget payload ''links''))))"

definition task_detail_error :: "string \<Rightarrow> exn \<Rightarrow> exn" where
  "task_detail_error task e = (case e of
       EnjiApiError code message status malformed \<Rightarrow>
         if status = Some HTTP_NOT_FOUND then AuditNotFoundError task
         else if malformed then AuditMalformedError (''task detail payload for '' @ task @ '' is malformed'')
         else AuditUpstreamError (''task detail lookup failed for '' @ task @ '': '' @ upstream_reason status message)
     | _ \<Rightarrow> e)"

definition task_detail_of :: "string \<Rightarrow> members \<Rightarrow> audit_task_detail result" where
  "task_detail_of task p = (case as_str (jget p ''id'') of
       None \<Rightarrow> Inl (AuditMalformedError (''task detail payload for '' @ task @ '' is malformed''))
     | Some returned \<Rightarrow>
         if returned \<noteq> task then Inl (AuditMalformedError (''task detail payload for '' @ task @ '' has mismatched task id''))
         else (case as_str (jget p ''status'') of
             None \<Rightarrow> Inl (AuditMalformedError (''task detail payload for '' @ task @ '' is malformed''))
           | Some status \<Rightarrow> Inr \<lparr>detail_task_id = returned, detail_status = Some status,
               detail_created_at = as_str (jget p ''created_at''), detail_started_at = as_str (jget p ''started_at''),
               detail_completed_at = as_str (jget p ''completed_at'')\<rparr>))"

definition read_task_detail :: "('s, 'x) gateway_env_scheme \<Rightarrow> 's sender \<Rightarrow> string \<Rightarrow> ('s, audit_task_detail) io" where
  "read_task_detail env send task =
     bindM (handleM (http_task_detail env send task) is_api_error (\<lambda>e. throwM (task_detail_error task e))) (\<lambda>payload.
       liftM (task_detail_of task payload))"

definition read_runbook :: "('s, 'x) gateway_env_scheme \<Rightarrow> 's sender \<Rightarrow> string \<Rightarrow> ('s, audit_runbook) io" where
  "read_runbook env send runbook = bindM (http_runbook env send runbook) (\<lambda>p. retM
     \<lparr>runbook_id = runbook, runbook_title = as_str (jget p ''title''), runbook_description = as_str (jget p ''description''),
      suggested_flow = as_str (jget p ''suggested_flow''),
      suggested_flow_config = object (jget p ''suggested_flow_config'')\<rparr>)"

definition read_audit_reports :: "('s, 'x) gateway_env_scheme \<Rightarrow> 's sender \<Rightarrow> string \<Rightarrow> string
    \<Rightarrow> ('s, audit_report_ref list) io" where
  "read_audit_reports env send repo metric_group = bindM (http_audit_reports env send repo metric_group) (\<lambda>payload.
     liftM (audit_report_refs_from_payload payload (Some repo) (Some metric_group)))"

definition read_audit_snapshot :: "('s, 'x) gateway_env_scheme \<Rightarrow> 's sender \<Rightarrow> string \<Rightarrow> string \<Rightarrow> string option \<Rightarrow> string
    \<Rightarrow> ('s, audit_artifact) io" where
  "read_audit_snapshot env send repo audit_key metric_group task =
     (let route = (if nonblank metric_group then the metric_group else audit_key) in
      bindM (http_audit_summary_snapshot env send repo route task) (\<lambda>payload.
      bindM (liftM (audit_artifact_from_snapshot payload audit_key)) (\<lambda>artifact.
        retM (artifact\<lparr>artifact_task_id := Some task\<rparr>))))"

subsection \<open>Starting a run\<close>

definition start_error :: "string \<Rightarrow> exn \<Rightarrow> exn" where
  "start_error action e = (case e of
       EnjiApiError code message status malformed \<Rightarrow>
         if starts_with code ''AUTH_'' then e
         else if malformed then AuditMalformedError (''start payload for '' @ action @ '' is malformed'')
         else AuditUpstreamError (''start refused for '' @ action @ '': '' @ upstream_reason status message)
     | _ \<Rightarrow> e)"

definition start_audit_run :: "('s, 'x) gateway_env_scheme \<Rightarrow> 's sender \<Rightarrow> audit_run_request \<Rightarrow> ('s, audit_run_result) io" where
  "start_audit_run env send q =
     bindM (handleM (http_start_audit_run env send (request_repo_id q) (request_project_id q) (request_action_key q)
           (fleet_task_body (request_action_key q) (request_task_body q)))
         is_api_error (\<lambda>e. throwM (start_error (request_action_key q) e))) (\<lambda>payload.
       let task = object (jget payload ''task'') in
       retM \<lparr>result_task_id = as_str (jget task ''id''), result_status = as_str (jget task ''status'')\<rparr>)"

subsection \<open>Recurring settings\<close>

definition read_schedules :: "('s, 'x) gateway_env_scheme \<Rightarrow> 's sender \<Rightarrow> string \<Rightarrow> ('s, audit_schedule list) io" where
  "read_schedules env send repo = bindM (http_audit_auto_runs env send repo) (\<lambda>payload.
     retM (List.map_filter schedule_of (object_list (jget payload ''subscriptions''))))"

definition nonempty_object :: "json \<Rightarrow> members \<Rightarrow> members" where
  "nonempty_object v payload = (if object v \<noteq> [] then object v else payload)"

definition write_schedule :: "('s, 'x) gateway_env_scheme \<Rightarrow> 's sender \<Rightarrow> string \<Rightarrow> string \<Rightarrow> audit_schedule
    \<Rightarrow> ('s, audit_schedule) io" where
  "write_schedule env send repo key s =
     bindM (http_put_audit_auto_run env send repo key (schedule_payload s)) (\<lambda>payload.
       retM (case schedule_of (nonempty_object (jget payload ''subscription'') payload) of Some x \<Rightarrow> x | None \<Rightarrow> s))"

definition read_email_preferences :: "('s, 'x) gateway_env_scheme \<Rightarrow> 's sender \<Rightarrow> string \<Rightarrow> string
    \<Rightarrow> ('s, email_preference) io" where
  "read_email_preferences env send repo key = bindM (http_audit_email_preferences env send repo key) (\<lambda>payload.
     retM (email_preference_of key payload))"

definition write_email_preference :: "('s, 'x) gateway_env_scheme \<Rightarrow> 's sender \<Rightarrow> string \<Rightarrow> string \<Rightarrow> email_update
    \<Rightarrow> ('s, email_preference) io" where
  "write_email_preference env send repo key u =
     (if email_patch u = [] then throwM (ValueError ''pass --manual or --scheduled'')
      else bindM (http_put_audit_email_preferences env send repo key (email_patch u)) (\<lambda>payload.
        retM (email_preference_of key payload)))"

definition read_improvement_jobs :: "('s, 'x) gateway_env_scheme \<Rightarrow> 's sender \<Rightarrow> string \<Rightarrow> ('s, improvement_job list) io" where
  "read_improvement_jobs env send repo = bindM (http_improvement_jobs env send repo) (\<lambda>payload.
     retM (List.map_filter improvement_job_of (object_list (jget payload ''jobs''))))"

definition write_improvement_job :: "('s, 'x) gateway_env_scheme \<Rightarrow> 's sender \<Rightarrow> string \<Rightarrow> string \<Rightarrow> improvement_job
    \<Rightarrow> ('s, improvement_job) io" where
  "write_improvement_job env send repo kind job =
     bindM (http_put_improvement_job env send repo kind (improvement_job_payload job)) (\<lambda>payload.
       retM (case improvement_job_of (nonempty_object (jget payload ''job'') payload) of Some x \<Rightarrow> x | None \<Rightarrow> job))"

definition audit_subscriptions :: "('s, 'x) gateway_env_scheme \<Rightarrow> 's sender \<Rightarrow> 's subscription_gateway" where
  "audit_subscriptions env send =
     \<lparr>list_schedules = read_schedules env send, set_schedule = write_schedule env send,
      list_improvement_jobs = read_improvement_jobs env send, set_improvement_job = write_improvement_job env send,
      get_email_preferences = read_email_preferences env send, set_email_preference = write_email_preference env send\<rparr>"

end
