(* ===== verification/Portfolio_Gateway.thy ===== *)
theory Portfolio_Gateway
  imports Portfolio_Operations Audit_Gateway
begin

section \<open>The portfolio gateway (enji\_gateway/portfolio\_gateway.py)\<close>

text \<open>
  Projects and repositories from the payloads of the service, and the gateway record that the
  portfolio workflows use, over the requests of \<open>Gateway_Http\<close>.
\<close>

subsection \<open>Readers\<close>

definition project_ref_of :: "members \<Rightarrow> project_ref option" where
  "project_ref_of p = map_option (\<lambda>k. \<lparr>project_ref_id = k, project_name = as_str (jget p ''name'')\<rparr>)
     (or_opt (as_str (jget p ''id'')) (as_str (jget p ''projectId'')))"

fun score_of :: "json \<Rightarrow> rat option option" where
  "score_of JNull = Some None"
| "score_of (JInt i) = Some (Some (of_int i))"
| "score_of (JFloat r) = Some (Some r)"
| "score_of _ = None"

definition scores_of :: "json \<Rightarrow> (string \<times> rat option) list" where
  "scores_of v = List.map_filter (\<lambda>(k, x). map_option (Pair k) (score_of x)) (object v)"

definition repository_ref_of :: "members \<Rightarrow> project_ref \<Rightarrow> repository_ref result" where
  "repository_ref_of p owner_project =
     (case or_opt (as_str (jget p ''id'')) (as_str (jget p ''repoId'')) of
        None \<Rightarrow> Inl (PortfolioMalformedError ''repository response is missing repository id'')
      | Some repo \<Rightarrow>
          (let provider = (case as_str (jget p ''provider'') of
                 Some name \<Rightarrow> if name = [] then None else provider_of (py_casefold name) | None \<Rightarrow> None);
               native = as_str (jget p ''providerRepoId'');
               locator = (case (as_str (jget p ''githubOwner''), as_str (jget p ''githubName'')) of
                   (Some owner, Some name) \<Rightarrow>
                     if provider = Some GitHub then Some (owner @ ''/'' @ name) else as_str (jget p ''repoPath'')
                 | _ \<Rightarrow> as_str (jget p ''repoPath''));
               fallback = (provider = Some GitHub \<and> native = None) in
           (case (provider, as_str (jget p ''host''), locator, if fallback then Some repo else native, as_str (jget p ''webUrl'')) of
              (Some pr, Some h, Some l, Some n, Some url) \<Rightarrow>
                (case make_identity pr l h of
                   Inl e \<Rightarrow> Inl (PortfolioMalformedError ''repository response contains invalid neutral identity'')
                 | Inr i \<Rightarrow> Inr
                    \<lparr>repo_ref_id = repo, repo_project_id = or_str (as_str (jget p ''projectId'')) (project_ref_id owner_project),
                     repo_project_name = project_name owner_project, repo_identity = i, repo_web_url = url,
                     repo_provider_id = n, repo_connected = as_bool (jget p ''connected''),
                     repo_recon_done = as_bool (jget p ''reconDone''), repo_scores = scores_of (jget p ''scores''),
                     repo_identity_source = (if fallback then FromEnji else FromProvider)\<rparr>)
            | _ \<Rightarrow> Inl (PortfolioMalformedError ''repository response is missing neutral provider identity fields''))))"

definition portfolio_active_run_of :: "members \<Rightarrow> portfolio_active_run option" where
  "portfolio_active_run_of p = map_option (\<lambda>repo.
     \<lparr>active_repo_id = repo, active_task_id = as_str (jget p ''fleetTaskId''), active_action_key = as_str (jget p ''actionKey''),
      active_status = as_str (jget p ''state''), active_created_at = as_str (jget p ''createdAt''),
      active_started_at = as_str (jget p ''startedAt''), active_completed_at = as_str (jget p ''completedAt'')\<rparr>)
     (as_str (jget p ''repoId''))"

definition projects_of :: "members \<Rightarrow> project_ref list" where
  "projects_of payload =
     (let raw = (if as_list (jget payload ''projects'') \<noteq> None then jget payload ''projects'' else jget payload ''items'') in
      List.map_filter project_ref_of (object_list raw))"

definition website_pairs :: "json \<Rightarrow> (string \<times> string list) list" where
  "website_pairs v = List.map_filter (\<lambda>r. map_option (\<lambda>url. (url, string_list (jget r ''repoIds''))) (as_str (jget r ''url'')))
     (object_list v)"

definition project_detail_of :: "string \<Rightarrow> members \<Rightarrow> project_detail result" where
  "project_detail_of pid payload =
     (let found = (case project_ref_of (nonempty_object (jget payload ''project'') payload) of
            Some x \<Rightarrow> x | None \<Rightarrow> \<lparr>project_ref_id = pid, project_name = None\<rparr>);
          pairs = website_pairs (jget payload ''webResources'') in
      bindR (mapR (\<lambda>item. repository_ref_of item found) (object_list (jget payload ''repos''))) (\<lambda>rs.
        Inr \<lparr>detail_project = found, detail_repositories = rs, detail_websites = map fst pairs,
          detail_website_repos = (\<lambda>url. case dict_by fst pairs url of Some pair \<Rightarrow> snd pair | None \<Rightarrow> [])\<rparr>))"

definition repository_payload :: "members \<Rightarrow> members" where
  "repository_payload payload = nonempty_object (jget payload ''repo'') (nonempty_object (jget payload ''repository'') payload)"

subsection \<open>Operations\<close>

definition read_projects :: "('s, 'x) gateway_env_scheme \<Rightarrow> 's sender \<Rightarrow> ('s, project_ref list) io" where
  "read_projects env send = bindM (http_projects env send) (\<lambda>payload. retM (projects_of payload))"

definition read_project :: "('s, 'x) gateway_env_scheme \<Rightarrow> 's sender \<Rightarrow> string \<Rightarrow> ('s, project_detail) io" where
  "read_project env send pid = bindM (http_project_detail env send pid) (\<lambda>payload. liftM (project_detail_of pid payload))"

definition read_project_active_runs :: "('s, 'x) gateway_env_scheme \<Rightarrow> 's sender \<Rightarrow> string
    \<Rightarrow> ('s, portfolio_active_run list) io" where
  "read_project_active_runs env send pid = bindM (http_project_active_runs env send pid) (\<lambda>payload.
     retM (List.map_filter portfolio_active_run_of (object_list (jget payload ''activeRuns''))))"

definition post_project :: "('s, 'x) gateway_env_scheme \<Rightarrow> 's sender \<Rightarrow> string \<Rightarrow> ('s, project_ref) io" where
  "post_project env send name = bindM (http_create_project env send name) (\<lambda>payload.
     retM (case project_ref_of (nonempty_object (jget payload ''project'') payload) of
         Some p \<Rightarrow> p
       | None \<Rightarrow> \<lparr>project_ref_id = or_str (as_str (jget payload ''id'')) [], project_name = Some name\<rparr>))"

definition patch_project :: "('s, 'x) gateway_env_scheme \<Rightarrow> 's sender \<Rightarrow> string \<Rightarrow> string \<Rightarrow> ('s, project_ref) io" where
  "patch_project env send pid name = bindM (http_rename_project env send pid name) (\<lambda>payload.
     retM (case project_ref_of (nonempty_object (jget payload ''project'') payload) of
         Some p \<Rightarrow> p | None \<Rightarrow> \<lparr>project_ref_id = pid, project_name = Some name\<rparr>))"

definition post_repository :: "('s, 'x) gateway_env_scheme \<Rightarrow> 's sender \<Rightarrow> string \<Rightarrow> repository_identity \<Rightarrow> string option
    \<Rightarrow> ('s, repository_ref) io" where
  "post_repository env send pid i credential =
     (if identity_provider i = GitHub \<and> credential \<noteq> None
      then throwM (ValueError ''repo access credential is only valid for GitLab repository adds'')
      else if identity_provider i = GitLab \<and> credential = None
      then throwM (ValueError ''GitLab repository add requires an explicit repo access credential id'')
      else bindM (http_add_project_repo env send pid (provider_value (identity_provider i)) (identity_locator i)
            (Some (identity_host i)) credential) (\<lambda>payload.
        liftM (repository_ref_of (repository_payload payload) \<lparr>project_ref_id = pid, project_name = None\<rparr>)))"

definition connect_repository :: "('s, 'x) gateway_env_scheme \<Rightarrow> 's sender \<Rightarrow> string \<Rightarrow> string \<Rightarrow> ('s, repository_ref) io" where
  "connect_repository env send pid repo = bindM (http_connect_project_repo env send pid repo) (\<lambda>payload.
     liftM (repository_ref_of (repository_payload payload) \<lparr>project_ref_id = pid, project_name = None\<rparr>))"

definition preflight_repository_move :: "('s, 'x) gateway_env_scheme \<Rightarrow> 's sender \<Rightarrow> string \<Rightarrow> string \<Rightarrow> string
    \<Rightarrow> ('s, move_preflight) io" where
  "preflight_repository_move env send source repo destination =
     thenM (http_preflight_repo_move env send source repo destination)
       (retM \<lparr>move_allowed = True, schedule_replacements = [], move_message = None\<rparr>)"

definition transfer_repository :: "('s, 'x) gateway_env_scheme \<Rightarrow> 's sender \<Rightarrow> string \<Rightarrow> string \<Rightarrow> string
    \<Rightarrow> ('s, repository_ref) io" where
  "transfer_repository env send source repo destination =
     bindM (http_move_repo env send source repo destination None) (\<lambda>payload.
       liftM (repository_ref_of (repository_payload payload) \<lparr>project_ref_id = destination, project_name = None\<rparr>))"

definition http_portfolio :: "('s, 'x) gateway_env_scheme \<Rightarrow> 's sender \<Rightarrow> 's portfolio_gateway" where
  "http_portfolio env send =
     \<lparr>list_projects = read_projects env send, read_project_detail = read_project env send,
      project_active_runs = read_project_active_runs env send, gateway_create_project = post_project env send,
      gateway_rename_project = patch_project env send, gateway_delete_project = http_delete_project env send,
      gateway_add_repository = post_repository env send, gateway_remove_repository = http_delete_project_repo env send,
      gateway_connect_repository = connect_repository env send,
      gateway_preflight_move = preflight_repository_move env send, gateway_move_repository = transfer_repository env send\<rparr>"

subsection \<open>Preferences and access\<close>

definition language_of :: "members \<Rightarrow> string option" where
  "language_of payload = or_opt (as_str (jget (object (jget payload ''preferences'')) ''language'')) (as_str (jget payload ''language''))"

definition get_preferences :: "('s, 'x) gateway_env_scheme \<Rightarrow> 's sender \<Rightarrow> ('s, string option) io" where
  "get_preferences env send = bindM (http_user_preferences env send) (\<lambda>payload. retM (language_of payload))"

definition set_preferences :: "('s, 'x) gateway_env_scheme \<Rightarrow> 's sender \<Rightarrow> string option \<Rightarrow> ('s, string option) io" where
  "set_preferences env send language = (case language of
       None \<Rightarrow> throwM (ValueError ''preferences must contain a language'')
     | Some l \<Rightarrow> if py_strip l = [] then throwM (ValueError ''preferences must contain a language'')
         else bindM (http_put_user_language env send l) (\<lambda>payload. retM (or_opt (language_of payload) (Some l))))"

text \<open>\<open>AccessInfo\<close> has the fields of the payload.\<close>

definition read_access :: "('s, 'x) gateway_env_scheme \<Rightarrow> 's sender \<Rightarrow> ('s, access_payload) io" where
  "read_access env send = http_access env send"

end
