(* ===== verification/Path_Facts.thy ===== *)
theory Path_Facts
  imports Portfolio_Gateway
begin

section \<open>Facts about rendered paths\<close>

text \<open>
  The percent encoding of a value is injective and holds no separator, so a rendered path is its
  template with whole segments replaced.
\<close>

subsection \<open>Percent encoding\<close>

definition hex_value :: "char \<Rightarrow> nat" where
  "hex_value c = (let n = char_code c in if n < 65 then n - 48 else n - 55)"

lemma hex_digit_unreserved: "d < 16 \<Longrightarrow> unreserved (hex_digit d)"
  by (auto simp: unreserved_def hex_digit_def Let_def)

lemma hex_value_digit: "d < 16 \<Longrightarrow> hex_value (hex_digit d) = d"
  by (auto simp: hex_value_def hex_digit_def Let_def)

lemma percent_value: "n < 256 \<Longrightarrow> 16 * hex_value (hex_digit (n div 16)) + hex_value (hex_digit (n mod 16)) = n"
  by (simp add: hex_value_digit)

text \<open>A decoder of the first character: what makes the encoding unambiguous.\<close>

fun decode_char :: "string \<Rightarrow> (char \<times> string) option" where
  "decode_char [] = None"
| "decode_char (c # cs) =
     (if c \<noteq> CHR ''%'' then Some (c, cs)
      else (case cs of
          a # b # r \<Rightarrow>
            (let n = 16 * hex_value a + hex_value b in
             if n < 128 then Some (char_of n, r)
             else (case r of
                 _ # a' # b' # r' \<Rightarrow> Some (char_of ((n - 192) * 64 + (16 * hex_value a' + hex_value b' - 128)), r')
               | _ \<Rightarrow> None))
        | _ \<Rightarrow> None))"

lemma reserved_percent: "unreserved c \<Longrightarrow> c \<noteq> CHR ''%''"
  by (auto simp: unreserved_def char_code_def)

lemma decode_narrow: "n < 128 \<Longrightarrow> decode_char (percent n @ x) = Some (char_of n, x)"
  by (simp add: percent_def percent_value)

lemma decode_wide:
  "128 \<le> n \<Longrightarrow> n < 256 \<Longrightarrow> m < 256
   \<Longrightarrow> decode_char (percent n @ percent m @ x) = Some (char_of ((n - 192) * 64 + (m - 128)), x)"
  by (simp add: percent_def percent_value)

lemma decode_percent_encode: "decode_char (percent_encode c @ x) = Some (c, x)"
proof (cases "unreserved c")
  case True
  with reserved_percent [OF True] show ?thesis by (simp add: percent_encode_def)
next
  case False
  have bound: "char_code c < 256" by (rule char_code_bound)
  show ?thesis
  proof (cases "char_code c < 128")
    case True
    with False show ?thesis by (simp add: percent_encode_def utf8_def decode_narrow Let_def)
  next
    case wide: False
    have "decode_char (percent (192 + char_code c div 64) @ percent (128 + char_code c mod 64) @ x)
        = Some (char_of ((192 + char_code c div 64 - 192) * 64 + (128 + char_code c mod 64 - 128)), x)"
      using bound by (intro decode_wide) auto
    with False wide show ?thesis by (simp add: percent_encode_def utf8_def Let_def)
  qed
qed

lemma quote_Cons [simp]: "quote [] = []" "quote (c # cs) = percent_encode c @ quote cs"
  by (simp_all add: quote_def)

lemma percent_encode_nonempty [simp]: "percent_encode c \<noteq> []"
  by (simp add: percent_encode_def utf8_def percent_def Let_def)

lemma quote_inject: "quote s = quote t \<longleftrightarrow> s = t"
proof (induction s arbitrary: t)
  case Nil
  then show ?case by (cases t) auto
next
  case (Cons c s)
  show ?case
  proof (cases t)
    case (Cons d u)
    have "c = d \<and> quote s = quote u" if "percent_encode c @ quote s = percent_encode d @ quote u"
      using arg_cong [OF that, of decode_char] by (simp add: decode_percent_encode)
    with Cons Cons.IH show ?thesis by auto
  qed simp
qed

lemma percent_encodes: "set (quote s) \<subseteq> {c. unreserved c} \<union> {CHR ''%''}"
proof -
  have "set (percent n) \<subseteq> {c. unreserved c} \<union> {CHR ''%''}" if "n < 256" for n
    using that hex_digit_unreserved [of "n div 16"] hex_digit_unreserved [of "n mod 16"] by (auto simp: percent_def)
  then have "set (percent_encode c) \<subseteq> {c. unreserved c} \<union> {CHR ''%''}" for c
    using char_code_bound [of c] by (auto simp: percent_encode_def utf8_def Let_def split: if_splits)
  then show ?thesis by (induction s) auto
qed

lemma quote_no_separator: "c \<in> set ''/?#{}&='' \<Longrightarrow> c \<notin> set (quote s)"
  using percent_encodes [of s] by (auto simp: unreserved_def char_code_def)

lemma py_split_set: "p \<in> set (py_split c s) \<Longrightarrow> set p \<subseteq> set s"
  by (induction s arbitrary: p) (fastforce split: list.splits if_splits)+

subsection \<open>Segments\<close>

definition placeholder :: "string \<Rightarrow> string" where
  "placeholder key = ''{'' @ key @ ''}''"

definition brace_free :: "string \<Rightarrow> bool" where
  "brace_free s = (CHR ''{'' \<notin> set s \<and> CHR ''}'' \<notin> set s)"

definition plain_segment :: "string \<Rightarrow> bool" where
  "plain_segment seg = (brace_free seg
     \<or> (seg \<noteq> [] \<and> seg = placeholder (butlast (tl seg)) \<and> brace_free (butlast (tl seg))))"

definition bind_segment :: "(string \<times> string) list \<Rightarrow> string \<Rightarrow> string" where
  "bind_segment params seg = (case map_of (map (\<lambda>(k, v). (placeholder k, quote v)) params) seg of Some q \<Rightarrow> q | None \<Rightarrow> seg)"

lemma py_split_plain: "c \<notin> set p \<Longrightarrow> py_split c (p @ c # s) = p # py_split c s" "c \<notin> set p \<Longrightarrow> py_split c p = [p]"
  by (induction p) auto

lemma py_split_join: "\<forall>p\<in>set ps. c \<notin> set p \<Longrightarrow> ps \<noteq> [] \<Longrightarrow> py_split c (py_join [c] ps) = ps"
proof (induction ps)
  case (Cons p ps)
  then show ?case by (cases ps) (auto simp: py_split_plain)
qed simp

lemma replace_plain:
  "CHR ''{'' \<notin> set w \<Longrightarrow> py_replace (placeholder key) q (w @ r) = w @ py_replace (placeholder key) q r"
  by (induction w) (auto simp: placeholder_def)

lemma placeholder_prefix:
  "brace_free k \<Longrightarrow> brace_free key \<Longrightarrow> starts_with (placeholder k @ r) (placeholder key) \<longleftrightarrow> k = key"
proof -
  have "starts_with (k @ CHR ''}'' # r) (key @ ''}'') \<Longrightarrow> CHR ''}'' \<notin> set k \<Longrightarrow> CHR ''}'' \<notin> set key \<Longrightarrow> k = key" for k key
  proof (induction k arbitrary: key)
    case Nil
    then show ?case by (cases key) auto
  next
    case (Cons c k)
    then show ?case by (cases key) auto
  qed
  moreover have "starts_with (key @ CHR ''}'' # r) (key @ ''}'')"
    by (auto simp: starts_with_iff)
  ultimately show "brace_free k \<Longrightarrow> brace_free key \<Longrightarrow> ?thesis"
    by (auto simp: placeholder_def brace_free_def)
qed

lemma replace_segment:
  assumes "plain_segment seg" and "brace_free key"
  shows "py_replace (placeholder key) q (seg @ r)
    = (if seg = placeholder key then q else seg) @ py_replace (placeholder key) q r"
proof (cases "brace_free seg")
  case True
  then have "seg \<noteq> placeholder key" by (auto simp: brace_free_def placeholder_def)
  with True show ?thesis by (auto simp: brace_free_def replace_plain)
next
  case False
  with assms(1) obtain k where k: "seg = placeholder k" "brace_free k"
    by (auto simp: plain_segment_def)
  show ?thesis
  proof (cases "k = key")
    case True
    have "py_replace (placeholder key) q (placeholder key @ r)
        = q @ py_replace (placeholder key) q (drop (length (placeholder key) - 1) (key @ ''}'' @ r))"
      using placeholder_prefix [OF assms(2) assms(2), of r] by (simp add: placeholder_def)
    with True k show ?thesis by (simp add: placeholder_def)
  next
    case False
    have "py_replace (placeholder key) q (placeholder k @ r)
        = CHR ''{'' # py_replace (placeholder key) q ((k @ ''}'') @ r)"
      using placeholder_prefix [OF k(2) assms(2), of r] False by (simp add: placeholder_def)
    also have "py_replace (placeholder key) q ((k @ ''}'') @ r) = (k @ ''}'') @ py_replace (placeholder key) q r"
      using k(2) by (intro replace_plain) (auto simp: brace_free_def)
    finally show ?thesis using k(1) False by (simp add: placeholder_def)
  qed
qed

lemma replace_join:
  assumes "\<forall>seg\<in>set segs. plain_segment seg" and "brace_free key"
  shows "py_replace (placeholder key) q (py_join ''/'' segs)
    = py_join ''/'' (map (\<lambda>seg. if seg = placeholder key then q else seg) segs)"
  using assms(1)
proof (induction segs)
  case (Cons seg segs)
  have slash: "py_replace (placeholder key) q (CHR ''/'' # r) = CHR ''/'' # py_replace (placeholder key) q r" for r
    by (simp add: placeholder_def)
  show ?case
  proof (cases segs)
    case Nil
    with Cons.prems replace_segment [OF _ assms(2), of seg q "[]"] show ?thesis by simp
  next
    case (Cons x xs)
    have split: "py_join ''/'' (y # x # xs) = y @ CHR ''/'' # py_join ''/'' (x # xs)" for y x :: string and xs
      by simp
    from Cons Cons.prems Cons.IH show ?thesis
      by (simp only: split list.map replace_segment [OF _ assms(2)] list.set_intros slash) (simp add: split)
  qed
qed simp

lemma plain_quote: "plain_segment (quote v)"
  using quote_no_separator [of _ v] by (simp add: plain_segment_def brace_free_def)

lemma render_join:
  assumes "\<forall>seg\<in>set segs. plain_segment seg" and "\<forall>(k, v)\<in>set params. brace_free k"
  shows "render_api_path (py_join ''/'' segs) params = py_join ''/'' (map (bind_segment params) segs)"
  using assms
proof (induction params arbitrary: segs)
  case Nil
  then show ?case by (simp add: render_api_path_def bind_segment_def)
next
  case (Cons p params)
  obtain k v where p: "p = (k, v)" by (cases p)
  let ?segs = "map (\<lambda>seg. if seg = placeholder k then quote v else seg) segs"
  have "CHR ''{'' \<in> set (placeholder key)" for key
    by (simp add: placeholder_def)
  then have "quote v \<noteq> placeholder key \<and> placeholder key \<noteq> quote v" for key
    using quote_no_separator [of "CHR ''{''" v] by (metis list.set_intros(1,2))
  then have "map_of (map (\<lambda>(k, v). (placeholder k, quote v)) params) (quote v) = None" for params :: "(string \<times> string) list"
    by (induction params) (auto dest: sym)
  then have "map (bind_segment params) ?segs = map (bind_segment (p # params)) segs"
    by (auto simp: bind_segment_def p)
  moreover have "render_api_path (py_join ''/'' segs) (p # params) = render_api_path (py_join ''/'' ?segs) params"
    using replace_join [of segs k "quote v"] Cons.prems by (simp add: render_api_path_def p placeholder_def)
  moreover have "render_api_path (py_join ''/'' ?segs) params = py_join ''/'' (map (bind_segment params) ?segs)"
    using Cons.prems plain_quote by (intro Cons.IH) auto
  ultimately show ?case by (simp del: map_map)
qed

subsection \<open>The endpoints of the service\<close>

text \<open>Every template has its parameters in segments of their own, and no query.\<close>

definition plain_template :: "string \<Rightarrow> bool" where
  "plain_template t = ((\<forall>seg\<in>set (py_split (CHR ''/'') t). plain_segment seg) \<and> CHR ''?'' \<notin> set t \<and> CHR ''#'' \<notin> set t)"

lemma implemented_plain_list: "list_all (\<lambda>spec. plain_template (path_template spec)) IMPLEMENTED_ENJI_ENDPOINTS"
  by code_simp

lemma implemented_plain: "\<forall>spec\<in>set IMPLEMENTED_ENJI_ENDPOINTS. plain_template (path_template spec)"
  using implemented_plain_list by (simp only: list_all_iff)

lemma placeholder_inject: "placeholder k = placeholder l \<longleftrightarrow> k = l"
  by (simp add: placeholder_def)

lemma bind_placeholder: "map_of params k = Some v \<Longrightarrow> bind_segment params (placeholder k) = quote v"
proof -
  have "map_of (map (\<lambda>(k, v). (placeholder k, quote v)) params) (placeholder k) = map_option quote (map_of params k)"
    by (induction params) (auto simp: placeholder_inject)
  then show "map_of params k = Some v \<Longrightarrow> ?thesis" by (simp add: bind_segment_def)
qed

lemma map_of_rebuild: "distinct (map fst params) \<Longrightarrow> map (\<lambda>k. (k, the (map_of params k))) (map fst params) = params"
proof (induction params)
  case (Cons p params)
  then have "map_of (p # params) k = map_of params k" if "k \<in> set (map fst params)" for k
    using that by (cases p) (auto simp del: list.set_map)
  then have "map (\<lambda>k. (k, the (map_of (p # params) k))) (map fst params) = map (\<lambda>k. (k, the (map_of params k))) (map fst params)"
    by (simp only: map_eq_conv) simp
  with Cons show ?case by (simp del: map_map)
qed simp

lemma bindings_determined:
  assumes "map (bind_segment params) segs = map (bind_segment params') segs" and "map fst params' = map fst params"
    and "distinct (map fst params)" and "\<forall>k\<in>set (map fst params). placeholder k \<in> set segs"
  shows "params' = params"
proof -
  have "map_of params' k = map_of params k" if "k \<in> set (map fst params)" for k
  proof -
    obtain v v' where v: "map_of params k = Some v" "map_of params' k = Some v'"
    proof -
      have "fst ` set params' = fst ` set params" using arg_cong [OF assms(2), of set] by simp
      with \<open>k \<in> set (map fst params)\<close> have "map_of params k \<noteq> None" "map_of params' k \<noteq> None"
        by (simp_all add: map_of_eq_None_iff)
      with that show thesis by blast
    qed
    from assms(4) that have "placeholder k \<in> set segs" by blast
    with assms(1) have "bind_segment params (placeholder k) = bind_segment params' (placeholder k)"
      by (simp add: map_eq_conv)
    with v have "quote v = quote v'" by (simp add: bind_placeholder)
    with v show ?thesis by (simp add: quote_inject)
  qed
  then have "map (\<lambda>k. (k, the (map_of params' k))) (map fst params) = map (\<lambda>k. (k, the (map_of params k))) (map fst params)"
    by simp
  with map_of_rebuild [of params] map_of_rebuild [of params'] assms(2,3) show ?thesis by simp
qed

lemma bind_segment_cases: "bind_segment params seg = seg \<or> (\<exists>v. bind_segment params seg = quote v)"
proof -
  have "\<exists>v. q = quote v" if "map_of (map (\<lambda>(k, v). (placeholder k, quote v)) params) seg = Some q" for q
    using that by (induction params) (auto split: if_splits)
  then show ?thesis by (auto simp: bind_segment_def split: option.splits)
qed

lemma rendered_segments:
  assumes "plain_template t" and "\<forall>(k, v)\<in>set params. brace_free k"
  shows "py_split (CHR ''/'') (render_api_path t params) = map (bind_segment params) (py_split (CHR ''/'') t)"
proof -
  let ?segs = "py_split (CHR ''/'') t"
  have "CHR ''/'' \<notin> set (bind_segment params seg)" if "seg \<in> set ?segs" for seg
  proof -
    have "CHR ''/'' \<notin> set (quote v)" for v by (rule quote_no_separator) simp
    with py_split_no_sep [OF that] bind_segment_cases [of params seg] show ?thesis by auto
  qed
  then have "py_split (CHR ''/'') (py_join ''/'' (map (bind_segment params) ?segs)) = map (bind_segment params) ?segs"
    by (intro py_split_join) auto
  moreover have "render_api_path (py_join ''/'' ?segs) params = py_join ''/'' (map (bind_segment params) ?segs)"
    using assms by (intro render_join) (auto simp: plain_template_def)
  ultimately show ?thesis by (simp add: py_join_py_split)
qed

lemma rendered_chars:
  assumes "plain_template t" and "\<forall>(k, v)\<in>set params. brace_free k" and "c \<in> set ''?#''"
  shows "c \<notin> set (render_api_path t params)"
proof -
  have join_chars: "set (py_join ''/'' ps) \<subseteq> insert (CHR ''/'') (\<Union>p\<in>set ps. set p)" for ps
    by (induction "''/'' :: string" ps rule: py_join.induct) auto
  have "c \<notin> set (bind_segment params seg)" if "seg \<in> set (py_split (CHR ''/'') t)" for seg
  proof -
    have "set seg \<subseteq> set t"
      using that by (rule py_split_set)
    moreover have "c \<notin> set (quote v)" for v
      using assms(3) by (intro quote_no_separator) auto
    ultimately show ?thesis
      using assms(1,3) bind_segment_cases [of params seg] by (auto simp: plain_template_def)
  qed
  moreover have "render_api_path t params = py_join ''/'' (py_split (CHR ''/'') (render_api_path t params))"
    by (simp add: py_join_py_split)
  ultimately show ?thesis
    using join_chars [of "py_split (CHR ''/'') (render_api_path t params)"] rendered_segments [OF assms(1,2)] assms(3) by auto
qed

lemma rendered_inject:
  assumes "plain_template t" and "\<forall>(k, v)\<in>set params. brace_free k"
    and "map fst params' = map fst params" and "distinct (map fst params)"
    and "\<forall>k\<in>set (map fst params). placeholder k \<in> set (py_split (CHR ''/'') t)"
    and "render_api_path t params' = render_api_path t params"
  shows "params' = params"
proof -
  have "k \<in> fst ` set params" if "(k, v) \<in> set params'" for k v
    using imageI [OF that, of fst] arg_cong [OF assms(3), of set] by simp
  with assms(2) have "\<forall>(k, v)\<in>set params'. brace_free k" by fastforce
  with assms(6) rendered_segments [OF assms(1,2)] rendered_segments [OF assms(1), of params']
  have "map (bind_segment params) (py_split (CHR ''/'') t) = map (bind_segment params') (py_split (CHR ''/'') t)"
    by simp
  with assms(3-5) show ?thesis by (intro bindings_determined) auto
qed

end
