(* ===== verification/Gateway_Properties.thy ===== *)
theory Gateway_Properties
  imports Subscription_Properties Path_Facts
begin

section \<open>Properties of the transport and the gateways\<close>

text \<open>
  How often a request is sent and how long the client waits, where a parameter of a path can go,
  and what survives the wire.
\<close>

subsection \<open>Metering the client\<close>

text \<open>\<open>sends\<close> counts the requests on the wire and \<open>waited\<close> the seconds slept, as observed in the state:
  only the client and the pause move them.  The random jitter lies in its interval.\<close>

definition metered :: "('s, 'x) transport_env_scheme \<Rightarrow> ('s \<Rightarrow> nat) \<Rightarrow> ('s \<Rightarrow> rat) \<Rightarrow> bool" where
  "metered env sends waited \<longleftrightarrow>
     (\<forall>req s. sends (snd (client_send env req s)) = sends s + 1 \<and> waited (snd (client_send env req s)) = waited s)
     \<and> (\<forall>d s. sends (snd (pause env d s)) = sends s \<and> waited (snd (pause env d s)) = waited s + d)
     \<and> (\<forall>j s. sends (snd (jitter_sample env j s)) = sends s \<and> waited (snd (jitter_sample env j s)) = waited s
           \<and> (\<forall>x. 0 \<le> j \<and> fst (jitter_sample env j s) = Inr x \<longrightarrow> 0 \<le> x \<and> x \<le> j))
     \<and> (\<forall>s. sends (snd (utc_now env s)) = sends s \<and> waited (snd (utc_now env s)) = waited s)"

text \<open>What the settings demand of a retry policy.\<close>

definition valid_retry :: "retry_config \<Rightarrow> bool" where
  "valid_retry cfg \<longleftrightarrow> retry_total cfg \<ge> 0 \<and> backoff_factor cfg \<ge> 0 \<and> max_delay_seconds cfg > 0 \<and> jitter_seconds cfg \<ge> 0"

text \<open>A step that sends nothing and does not wait.\<close>

definition idle :: "('s \<Rightarrow> nat) \<Rightarrow> ('s \<Rightarrow> rat) \<Rightarrow> 's \<Rightarrow> 's \<Rightarrow> bool" where
  "idle sends waited s t \<longleftrightarrow> sends t = sends s \<and> waited t = waited s"

lemma idle_preorder: "preorder_rel (idle sends waited)"
  by (auto simp: preorder_rel_def idle_def)

lemma metered_idle:
  assumes "metered env sends waited"
  shows "keeps (idle sends waited) (jitter_sample env j)" and "keeps (idle sends waited) (utc_now env)"
  using assms by (auto simp: metered_def idle_def keeps_def)

lemma keeps_case_option: "keeps R m \<Longrightarrow> (\<And>x. keeps R (f x)) \<Longrightarrow> keeps R (case v of None \<Rightarrow> m | Some x \<Rightarrow> f x)"
  by (cases v) auto

lemma retry_after_idle:
  assumes "metered env sends waited"
  shows "keeps (idle sends waited) (retry_after_seconds env headers)"
  using metered_idle [OF assms] unfolding retry_after_seconds_def parse_retry_after_def Let_def
  by (auto intro!: keeps_basic keeps_bindM keeps_if keeps_case_option idle_preorder)

lemma retry_wait_idle:
  assumes "metered env sends waited"
  shows "keeps (idle sends waited) (retry_wait env cfg k answered)"
  using metered_idle [OF assms] retry_after_idle [OF assms] unfolding retry_wait_def Let_def
  by (auto intro!: keeps_basic keeps_bindM keeps_if keeps_case_option idle_preorder split: option.split)

lemma retry_wait_bounds:
  assumes "metered env sends waited" and "valid_retry cfg" and "retry_wait env cfg k answered s = (Inr d, t)"
  shows "0 \<le> d \<and> d \<le> max_delay_seconds cfg"
proof -
  obtain after u where "(if after \<noteq> None \<and> respect_retry_after cfg then retM (min (of_nat (the after)) (max_delay_seconds cfg))
      else bindM (jitter_sample env (jitter_seconds cfg)) (\<lambda>jitter.
         retM (min (max_delay_seconds cfg) (min (max_delay_seconds cfg) (backoff_factor cfg * 2 ^ (k - 1)) + jitter)))) u
      = (Inr d, t)"
    using assms(3) unfolding retry_wait_def Let_def by (rule bindM_InrE)
  moreover have "0 \<le> x" if "0 \<le> j" "jitter_sample env j v = (Inr x, w)" for j v x w
    using assms(1) that unfolding metered_def by (metis fst_conv)
  ultimately show ?thesis
    using assms(2) by (auto simp: valid_retry_def io_simps split: if_splits elim!: bindM_InrE)
qed

text \<open>One retry: the wait and the pause.\<close>

lemma retry_step:
  assumes "metered env sends waited" and "valid_retry cfg"
    and "bindM (retry_wait env cfg k answered) (pause env) s = (r, t)"
  shows "sends t = sends s \<and> waited t \<le> waited s + max_delay_seconds cfg"
  using assms(3)
proof (cases rule: bindM_E)
  case (raised e)
  with keepsD [OF retry_wait_idle [OF assms(1)]] have "idle sends waited s t" by blast
  with assms(2) show ?thesis by (simp add: idle_def valid_retry_def)
next
  case (continued d u)
  with keepsD [OF retry_wait_idle [OF assms(1)]] have "idle sends waited s u" by blast
  moreover from retry_wait_bounds [OF assms(1,2) continued(1)] have "d \<le> max_delay_seconds cfg" by simp
  moreover from assms(1) continued(2) have "sends t = sends u \<and> waited t = waited u + d"
    unfolding metered_def by (metis snd_conv)
  ultimately show ?thesis by (simp add: idle_def)
qed

lemma request_once_sends:
  assumes "metered env sends waited" and "request_once env cfg req s = (r, t)"
  shows "sends t = sends s + 1 \<and> waited t = waited s"
proof -
  have "\<exists>r'. client_send env req s = (r', t)"
    using assms(2) by (auto simp: request_once_def io_simps elim!: bindM_E)
  with assms(1) show ?thesis unfolding metered_def by (metis snd_conv)
qed

lemma attempts_bounded:
  assumes "metered env sends waited" and "valid_retry cfg" and "attempts env cfg req left k s = (r, t)"
  shows "sends s + 1 \<le> sends t \<and> sends t \<le> sends s + left + 1 \<and> waited t \<le> waited s + of_nat left * max_delay_seconds cfg"
  using assms(3)
proof (induction left arbitrary: k s)
  case 0
  obtain a u where "request_once env cfg req s = (a, u)" by (cases "request_once env cfg req s")
  with request_once_sends [OF assms(1) this] "0.prems" show ?case
    by (auto split: sum.splits attempt_result.splits)
next
  case (Suc left)
  obtain a u where once: "request_once env cfg req s = (a, u)" by (cases "request_once env cfg req s")
  note sent = request_once_sends [OF assms(1) once]
  have cap: "0 < max_delay_seconds cfg" and rest: "0 \<le> of_nat left * max_delay_seconds cfg"
    using assms(2) by (simp_all add: valid_retry_def)
  have step: "sends s + 1 \<le> sends t \<and> sends t \<le> sends s + Suc left + 1
      \<and> waited t \<le> waited s + of_nat (Suc left) * max_delay_seconds cfg"
    if "bindM (bindM (retry_wait env cfg k answered) (pause env)) (\<lambda>_. attempts env cfg req left (k + 1)) u = (r, t)" for answered
    using that
  proof (cases rule: bindM_E)
    case (raised e)
    from retry_step [OF assms(1,2) raised(1)] sent rest show ?thesis
      by (simp add: algebra_simps)
  next
    case (continued x v)
    from retry_step [OF assms(1,2) continued(1)] Suc.IH [OF continued(2)] sent show ?thesis
      by (auto simp: algebra_simps)
  qed
  show ?case
  proof (cases "(\<exists>x. a = Inr (Retryable x)) \<or> (\<exists>e. a = Inl e \<and> is_httpx_error e)")
    case True
    with once Suc.prems step show ?thesis by auto
  next
    case False
    with once Suc.prems have "t = u" by (auto split: sum.splits attempt_result.splits if_splits)
    with sent cap rest show ?thesis by (simp add: algebra_simps)
  qed
qed

text \<open>C19: A request is bounded: it is sent at least once and at most once more often than the policy
  has retries, and the client waits at most the longest delay before each of them; a request whose
  profile allows no retry is sent exactly once and never waited for.\<close>

theorem request_bounded:
  assumes "metered env sends waited" and "valid_retry cfg" and "request_blocking env cfg req s = (r, t)"
  shows "sends s + 1 \<le> sends t \<and> sends t \<le> sends s + nat (retry_total cfg) + 1
    \<and> waited t \<le> waited s + of_int (retry_total cfg) * max_delay_seconds cfg
    \<and> (\<not> can_retry (http_profile req) \<longrightarrow> sends t = sends s + 1 \<and> waited t = waited s)"
proof -
  have single: "sends u = sends s + 1 \<and> waited u = waited s" if "single_request env cfg req s = (x, u)" for x u
  proof -
    have "\<exists>a. request_once env cfg req s = (a, u)"
      using that by (auto simp: single_request_def io_simps elim!: bindM_E split: attempt_result.splits)
    then show ?thesis using request_once_sends [OF assms(1)] by blast
  qed
  let ?m = "if \<not> can_retry (http_profile req) \<or> retry_total cfg \<le> 0 then single_request env cfg req
        else attempts env cfg req (nat (retry_total cfg)) 1"
  obtain x u where m: "?m s = (x, u)" by (cases "?m s")
  have "u = t"
    using assms(3) m by (auto simp: request_blocking_def handleM_def io_simps split: sum.splits if_splits)
  with m single attempts_bounded [OF assms(1,2), of req "nat (retry_total cfg)" 1 s x u] assms(2) show ?thesis
    by (auto simp: valid_retry_def split: if_splits)
qed

text \<open>A client that is always answered with 503 at first, and with 200 once it was tried often enough;
  the state is the pair of what is counted and what was waited.\<close>

definition plain_response :: "int \<Rightarrow> json \<Rightarrow> http_response" where
  "plain_response status v = \<lparr>status_code = status, response_body = JsonBody v, response_headers = [],
     set_cookie_headers = []\<rparr>"

definition flaky_env :: "nat \<Rightarrow> (nat \<times> rat) transport_env" where
  "flaky_env n = \<lparr>client_send = (\<lambda>req (k, w). (Inr (plain_response (if k < n then 503 else 200) JNull), (k + 1, w))),
     pause = (\<lambda>d (k, w). (Inr (), (k, w + d))), jitter_sample = (\<lambda>j s. (Inr 0, s)), utc_now = (\<lambda>s. (Inr 0, s)),
     http_date = (\<lambda>_. None)\<rparr>"

definition sample_request :: "retry_profile \<Rightarrow> http_request" where
  "sample_request p = \<lparr>http_method = ''GET'', http_url = ''u'', http_operation = ''op'', http_headers = [], http_profile = p,
     http_body = None, http_timeout = 20\<rparr>"

theorem request_bounded_witness:
  "valid_retry DEFAULT_RETRY_CONFIG
   \<and> request_blocking (flaky_env 2) DEFAULT_RETRY_CONFIG (sample_request READ) (0, 0) = (Inr (plain_response 200 JNull), (3, 3 / 2))
   \<and> (3::nat) \<le> 0 + nat (retry_total DEFAULT_RETRY_CONFIG) + 1
   \<and> 3 / 2 \<le> of_int (retry_total DEFAULT_RETRY_CONFIG) * max_delay_seconds DEFAULT_RETRY_CONFIG"
proof -
  have metered: "metered (flaky_env 2) fst snd" by (simp add: metered_def flaky_env_def split: prod.splits)
  have valid: "valid_retry DEFAULT_RETRY_CONFIG" by (simp add: valid_retry_def DEFAULT_RETRY_CONFIG_def)
  have run: "request_blocking (flaky_env 2) DEFAULT_RETRY_CONFIG (sample_request READ) (0, 0)
      = (Inr (plain_response 200 JNull), (3, 3 / 2))"
    by (simp add: request_blocking_def handleM_def DEFAULT_RETRY_CONFIG_def sample_request_def flaky_env_def request_once_def
      retry_wait_def retry_after_seconds_def header_value_def bindM_def io_simps plain_response_def eval_nat_numeral)
  from request_bounded [OF metered valid run] valid run show ?thesis by simp
qed

subsection \<open>Requests that are not repeated\<close>

definition sent_at_most :: "nat \<Rightarrow> ('s \<Rightarrow> nat) \<Rightarrow> ('s, 'a) io \<Rightarrow> bool" where
  "sent_at_most n sends m \<longleftrightarrow> (\<forall>s. sends (snd (m s)) \<le> sends s + n)"

text \<open>Of the gateway's own environment: reading the credential and drawing an identifier send nothing.\<close>

definition metered_gateway :: "('s, 'x) gateway_env_scheme \<Rightarrow> ('s \<Rightarrow> nat) \<Rightarrow> ('s \<Rightarrow> rat) \<Rightarrow> bool" where
  "metered_gateway env sends waited \<longleftrightarrow> metered env sends waited
     \<and> sent_at_most 0 sends (load_credentials env) \<and> sent_at_most 0 sends (fresh_uuid env)"

lemma sent_bind: "sent_at_most n sends m \<Longrightarrow> (\<And>x. sent_at_most k sends (f x)) \<Longrightarrow> sent_at_most (n + k) sends (bindM m f)"
proof -
  assume m: "sent_at_most n sends m" and f: "\<And>x. sent_at_most k sends (f x)"
  have "sends t \<le> sends s + (n + k)" if "bindM m f s = (r, t)" for s r t
    using that
  proof (cases rule: bindM_E)
    case (raised e)
    with m show ?thesis unfolding sent_at_most_def by (metis snd_conv add.assoc trans_le_add1)
  next
    case (continued x u)
    with m f have "sends u \<le> sends s + n" "sends t \<le> sends u + k" unfolding sent_at_most_def by (metis snd_conv)+
    then show ?thesis by simp
  qed
  then show ?thesis unfolding sent_at_most_def by (metis prod.collapse)
qed

lemmas sent_then = sent_bind [where n = 0, simplified] and sent_last = sent_bind [where k = 0, simplified]

lemma sent_handle:
  assumes "sent_at_most n sends m" and "\<And>e. sent_at_most 0 sends (h e)"
  shows "sent_at_most n sends (handleM m p h)"
proof -
  have "sends (snd (handleM m p h s)) \<le> sends (snd (m s))" for s
    using assms(2) by (auto simp: handleM_def sent_at_most_def split: prod.splits sum.splits)
  with assms(1) show ?thesis unfolding sent_at_most_def by (meson le_trans)
qed

lemma sent_basic [simp]:
  "sent_at_most n sends (retM x)" "sent_at_most n sends (throwM e)" "sent_at_most n sends (liftM v)"
  by (simp_all add: sent_at_most_def io_simps)

lemma sent_weaken: "sent_at_most n sends m \<Longrightarrow> n \<le> k \<Longrightarrow> sent_at_most k sends m"
  unfolding sent_at_most_def by (meson add_left_mono le_trans)

lemma sent_retry_after: "metered env sends waited \<Longrightarrow> sent_at_most 0 sends (retry_after_seconds env headers)"
  using retry_after_idle by (fastforce simp: keeps_def idle_def sent_at_most_def)

lemma sent_status_check: "metered env sends waited \<Longrightarrow> sent_at_most 0 sends (raise_for_response_status env r label expected)"
  unfolding raise_for_response_status_def by (auto intro!: sent_then sent_retry_after)

lemma sent_api_status_check:
  "metered env sends waited \<Longrightarrow> sent_at_most 0 sends (raise_for_api_response_status env r label expected)"
  unfolding raise_for_api_response_status_def by (auto intro!: sent_then sent_status_check split: option.splits)

text \<open>A request of a profile without retries is sent once, through all the layers above the transport.\<close>

lemma request_blocking_once:
  assumes "metered env sends waited" and "\<not> can_retry (http_profile req)"
  shows "sent_at_most 1 sends (request_blocking env cfg req)"
proof -
  have "sent_at_most 1 sends (request_once env cfg req)"
    using request_once_sends [OF assms(1)] unfolding sent_at_most_def by (metis add.commute le_refl prod.collapse)
  then have "sent_at_most 1 sends (single_request env cfg req)"
    unfolding single_request_def by (rule sent_last) (simp split: attempt_result.split)
  with assms(2) show ?thesis unfolding request_blocking_def by (simp add: sent_handle)
qed

lemma run_api_request_once:
  assumes "metered_gateway env sends waited" and "\<not> can_retry (api_profile spec)"
  shows "sent_at_most 1 sends (run_api_request env (request_blocking env cfg) parser spec)"
proof -
  have metered: "metered env sends waited" using assms(1) by (simp add: metered_gateway_def)
  have "sent_at_most 1 sends (send_spec env (request_blocking env cfg) session spec)" for session
    unfolding send_spec_def thenM_def
    using assms(2) by (intro sent_last request_blocking_once [OF metered] sent_api_status_check [OF metered]) simp_all
  then have "sent_at_most 1 sends (request_json_object env (request_blocking env cfg) session spec)" for session
    unfolding request_json_object_def by (rule sent_last) (auto intro!: sent_then split: option.split)
  moreover have "sent_at_most 0 sends (load_api_session env)"
    unfolding load_api_session_def using assms(1)
    by (intro sent_then) (auto simp: metered_gateway_def split: sum.split)
  ultimately show ?thesis
    unfolding run_api_request_def as_api_errors_def by (intro sent_handle sent_then sent_last) auto
qed

lemma call_once:
  assumes "metered_gateway env sends waited" and "\<not> can_retry (spec_profile (endpoint_spec_of ep))"
  shows "sent_at_most 1 sends (call env (request_blocking env cfg) ep params query body)"
  unfolding call_def using assms
  by (intro run_api_request_once) (simp_all add: endpoint_request_def api_request_of_def Let_def)

lemmas unsafe_endpoints = REPO_AUDIT_RUNS_ENDPOINT_def REPO_TRANSFER_ENDPOINT_def PROJECT_REPOS_ADD_ENDPOINT_def
  FLEET_PROJECT_CREATE_ENDPOINT_def UX_PROJECT_CREATE_ENDPOINT_def

text \<open>C18: A command that must not be repeated is never repeated by the transport, whatever the retry
  policy and the answers are: a start of an audit run, a move and an addition of a repository send one
  request at most, and the creation of a project one for each of its two steps.\<close>

theorem mutations_sent_once:
  assumes "metered_gateway env sends waited" and "send = request_blocking env cfg"
  shows "sent_at_most 1 sends (start_audit_run env send q)
    \<and> sent_at_most 1 sends (http_move_repo env send source repo destination replacements)
    \<and> sent_at_most 1 sends (http_add_project_repo env send pid provider locator host credential)
    \<and> sent_at_most 2 sends (http_create_project env send name)"
proof (intro conjI)
  have idle: "sent_at_most 0 sends (fresh_uuid env)" "sent_at_most 0 sends (utc_now env)"
    using assms(1) by (auto simp: metered_gateway_def metered_def sent_at_most_def)
  note once = call_once [OF assms(1)]
  show "sent_at_most 1 sends (start_audit_run env send q)"
    unfolding start_audit_run_def http_start_audit_run_def assms(2)
    by (intro sent_last sent_handle sent_then idle once) (simp_all add: unsafe_endpoints endpoint_defs Let_def)
  show "sent_at_most 1 sends (http_move_repo env send source repo destination replacements)"
    unfolding http_move_repo_def assms(2) by (intro once) (simp add: unsafe_endpoints endpoint_defs)
  show "sent_at_most 1 sends (http_add_project_repo env send pid provider locator host credential)"
    unfolding http_add_project_repo_def assms(2)
    by (intro sent_then once) (simp_all add: unsafe_endpoints endpoint_defs)
  have "sent_at_most (1 + (0 + 1)) sends (http_create_project env send name)"
    unfolding http_create_project_def assms(2)
    by (intro sent_bind sent_handle run_api_request_once [OF assms(1)] once idle)
      (simp_all add: unsafe_endpoints endpoint_defs endpoint_request_def api_request_of_def Let_def)
  then show "sent_at_most 2 sends (http_create_project env send name)" by (simp add: numeral_2_eq_2)
qed

definition sample_gateway_env :: "(nat \<times> rat) gateway_env" where
  "sample_gateway_env = transport_env.extend (flaky_env 5)
     \<lparr>load_credentials = (\<lambda>s. (Inr (Inr \<lparr>session_base_url = ''b'', session_headers = []\<rparr>), s)),
      fresh_uuid = (\<lambda>s. (Inr ''u'', s))\<rparr>"

theorem mutations_sent_once_witness:
  "sent_at_most 1 fst (http_move_repo sample_gateway_env (request_blocking sample_gateway_env DEFAULT_RETRY_CONFIG)
     ''p'' ''r'' ''q'' None)
   \<and> fst (snd (http_move_repo sample_gateway_env (request_blocking sample_gateway_env DEFAULT_RETRY_CONFIG) ''p'' ''r'' ''q'' None
       (0, 0))) = 1"
proof -
  have metered: "metered_gateway sample_gateway_env fst snd"
    by (simp add: metered_gateway_def metered_def sent_at_most_def sample_gateway_env_def transport_env.defs flaky_env_def
      split: prod.splits)
  have "fst (snd (http_move_repo sample_gateway_env (request_blocking sample_gateway_env DEFAULT_RETRY_CONFIG) ''p'' ''r'' ''q''
      None (0, 0))) = 1"
    by code_simp
  with mutations_sent_once [OF metered refl] show ?thesis by blast
qed

subsection \<open>Paths\<close>



subsection \<open>The wire\<close>

lemma as_int_opt_int_json [simp]: "as_int (opt_int_json v) = v"
  by (cases v) auto

lemma as_bool_opt_bool_json [simp]: "as_bool (opt_bool_json v) = v"
  by (cases v) auto

lemma time_source_wire [simp]: "time_source_of (as_str (time_source_json v)) = v"
  by (cases v rule: time_source_json.cases) (auto simp: time_source_of_def)

lemma string_list_wire [simp]: "string_list (JList (map JStr xs)) = xs"
  by (induction xs) (auto simp: string_list_def List.map_filter_simps)

lemma schedule_read_back:
  "schedule_of ((''actionKey'', JStr (schedule_audit_key s)) # audit_auto_run_request (schedule_payload s)) = Some s"
  by (simp add: schedule_of_def audit_auto_run_request_def AUDIT_AUTO_RUN_FIELDS_def schedule_payload_def jget_def)

lemma job_read_back:
  "job_key j \<noteq> [] \<Longrightarrow> job_variant j \<noteq> [] \<Longrightarrow> improvement_job_of (improvement_job_payload j) = Some j"
  by (cases "job_kind j") (simp_all add: improvement_job_of_def improvement_job_payload_def jget_def or_opt_def)

text \<open>C40: What is written is what is read.  A schedule goes over the wire without loss: the members the
  request carries, under its audit key, read back as the schedule; and so does an improvement job with
  a key and a variant.\<close>

theorem wire_roundtrip:
  "schedule_of ((''actionKey'', JStr (schedule_audit_key s)) # audit_auto_run_request (schedule_payload s)) = Some s
   \<and> (job_key j \<noteq> [] \<and> job_variant j \<noteq> [] \<longrightarrow> improvement_job_of (improvement_job_payload j) = Some j)"
  using schedule_read_back job_read_back by blast

definition sample_job :: improvement_job where
  "sample_job = \<lparr>job_key = ''k'', job_variant = ''v'', job_kind = None, job_enabled = Some True, job_automatic = None,
     job_provider_variant = None, job_frequency = Some ''weekly'', job_days = [''mon''], job_time = None,
     job_source = Some User, job_timezone = None, pentest_mode = None\<rparr>"

theorem wire_roundtrip_witness: "improvement_job_of (improvement_job_payload sample_job) = Some sample_job"
  using wire_roundtrip [THEN conjunct2, of sample_job] by (simp add: sample_job_def)

subsection \<open>Schedules on the wire\<close>

text \<open>What is relied on of the service, as the requests show it: it keeps a document per repository and
  audit; a listing holds the documents of the repository; a write that is answered has stored the
  members it carried under the audit key of the path.\<close>

definition document_service :: "('s, 'x) gateway_env_scheme \<Rightarrow> 's sender \<Rightarrow> ('s \<Rightarrow> string \<times> string \<Rightarrow> members option) \<Rightarrow> bool" where
  "document_service env send docs \<longleftrightarrow>
     (\<forall>s repo. \<exists>payload. http_audit_auto_runs env send repo s = (Inr payload, s)
        \<and> (\<forall>m. m \<in> set (object_list (jget payload ''subscriptions'')) \<longleftrightarrow> (\<exists>key. docs s (repo, key) = Some m)))
     \<and> (\<forall>s repo key m. docs s (repo, key) = Some m \<longrightarrow> as_str (jget m ''actionKey'') = Some key)
     \<and> (\<forall>s repo key m x t. http_put_audit_auto_run env send repo key m s = (Inr x, t)
        \<longrightarrow> docs t = (docs s)((repo, key) := Some ((''actionKey'', JStr key) # audit_auto_run_request m)))"

definition schedules_in :: "('s \<Rightarrow> string \<times> string \<Rightarrow> members option) \<Rightarrow> 's \<Rightarrow> string \<times> string \<Rightarrow> audit_schedule option" where
  "schedules_in docs s k = Option.bind (docs s k) schedule_of"

lemma schedule_of_key: "schedule_of m = Some x \<Longrightarrow> as_str (jget m ''actionKey'') = Some (schedule_audit_key x)"
  by (auto simp: schedule_of_def)

lemma schedule_of_total: "as_str (jget m ''actionKey'') = Some key \<Longrightarrow> \<exists>x. schedule_of m = Some x \<and> schedule_audit_key x = key"
  by (auto simp: schedule_of_def)

lemma dict_by_single:
  assumes "\<And>x. x \<in> set xs \<Longrightarrow> key x = k \<Longrightarrow> x = y"
  shows "dict_by key xs k = (if \<exists>x\<in>set xs. key x = k then Some y else None)"
proof (cases "\<exists>x\<in>set xs. key x = k")
  case True
  then have "dict_by key xs k \<noteq> None" by (auto simp: dict_by_def find_None_iff simp del: not_None_eq)
  then obtain z where "dict_by key xs k = Some z" by blast
  with assms True find_SomeD [of _ "rev xs" z] show ?thesis by (auto simp: dict_by_def)
next
  case False
  then show ?thesis by (auto simp: dict_by_def find_None_iff)
qed

lemma service_faithful:
  assumes "document_service env send docs"
  shows "faithful_schedules (audit_subscriptions env send) (schedules_in docs)"
  unfolding faithful_schedules_def
proof (intro conjI allI impI)
  fix s repo
  obtain payload where run: "http_audit_auto_runs env send repo s = (Inr payload, s)"
    and docs: "m \<in> set (object_list (jget payload ''subscriptions'')) \<longleftrightarrow> (\<exists>key. docs s (repo, key) = Some m)" for m
    using assms unfolding document_service_def by metis
  let ?xs = "List.map_filter schedule_of (object_list (jget payload ''subscriptions''))"
  have keyed: "docs s (repo, key) = Some m \<Longrightarrow> as_str (jget m ''actionKey'') = Some key" for key m
    using assms unfolding document_service_def by blast
  have "dict_by schedule_audit_key ?xs key = schedules_in docs s (repo, key)" for key
  proof (cases "docs s (repo, key)")
    case None
    have "schedule_audit_key x \<noteq> key" if "x \<in> set ?xs" for x
      using that docs keyed None by (auto simp: set_map_filter dest!: schedule_of_key)
    then show ?thesis using None by (auto simp: schedules_in_def dict_by_def find_None_iff)
  next
    case (Some m)
    from schedule_of_total [OF keyed [OF Some]] obtain x where x: "schedule_of m = Some x" "schedule_audit_key x = key" by blast
    have same: "x' = x" if listed: "x' \<in> set ?xs" and key: "schedule_audit_key x' = key" for x'
    proof -
      obtain m' where "m' \<in> set (object_list (jget payload ''subscriptions''))" and m': "schedule_of m' = Some x'"
        using listed unfolding set_map_filter by blast
      then obtain key' where "docs s (repo, key') = Some m'" unfolding docs by blast
      with keyed [of key' m'] schedule_of_key [OF m'] key have "docs s (repo, key) = Some m'" by simp
      with Some m' x(1) show ?thesis by simp
    qed
    have "m \<in> set (object_list (jget payload ''subscriptions''))" unfolding docs using Some by blast
    with x(1) have "x \<in> set ?xs" unfolding set_map_filter by blast
    with x(2) have "\<exists>x'\<in>set ?xs. schedule_audit_key x' = key" by blast
    moreover have "dict_by schedule_audit_key ?xs key = (if \<exists>x'\<in>set ?xs. schedule_audit_key x' = key then Some x else None)"
      by (rule dict_by_single) (rule same)
    ultimately have "dict_by schedule_audit_key ?xs key = Some x" by simp
    with Some x(1) show ?thesis by (simp add: schedules_in_def)
  qed
  with run show "\<exists>xs. list_schedules (audit_subscriptions env send) repo s = (Inr xs, s)
      \<and> (\<forall>key. dict_by schedule_audit_key xs key = schedules_in docs s (repo, key))"
    by (simp add: audit_subscriptions_def read_schedules_def bindM_def io_simps)
next
  fix s repo d x t
  assume "set_schedule (audit_subscriptions env send) repo (schedule_audit_key d) d s = (Inr x, t)"
  then obtain y where "http_put_audit_auto_run env send repo (schedule_audit_key d) (schedule_payload d) s = (Inr y, t)"
    by (auto simp: audit_subscriptions_def write_schedule_def io_simps elim!: bindM_InrE)
  with assms have "docs t = (docs s)((repo, schedule_audit_key d) :=
      Some ((''actionKey'', JStr (schedule_audit_key d)) # audit_auto_run_request (schedule_payload d)))"
    unfolding document_service_def by blast
  then show "schedules_in docs t = (schedules_in docs s)((repo, schedule_audit_key d) := Some d)"
    by (auto simp: schedules_in_def schedule_read_back)
qed


text \<open>A service that keeps one document, of one repository and audit.\<close>

definition document_env :: "members option gateway_env" where
  "document_env = \<lparr>client_send = (\<lambda>req s. (Inl (HttpxError []), s)), pause = (\<lambda>_ s. (Inr (), s)), jitter_sample = (\<lambda>_ s. (Inr 0, s)),
     utc_now = (\<lambda>s. (Inr 0, s)), http_date = (\<lambda>_. None),
     load_credentials = (\<lambda>s. (Inr (Inr \<lparr>session_base_url = [], session_headers = []\<rparr>), s)), fresh_uuid = (\<lambda>s. (Inr ''u'', s))\<rparr>"

definition listing_path :: string where
  "listing_path = render_api_path (path_template AUDIT_AUTO_RUNS_ENDPOINT_SPEC) [(''repoId'', ''r1'')]"

definition document_path :: string where
  "document_path = render_api_path (path_template AUDIT_AUTO_RUN_PUT_ENDPOINT_SPEC)
     [(''repoId'', ''r1''), (''actionKey'', ''audit.tests'')]"

definition document_send :: "members option sender" where
  "document_send req s = (case http_body req of
       Some (JObj m) \<Rightarrow> if http_url req = document_path then (Inr (plain_response 200 (JObj [])), Some m)
         else (Inr (plain_response 404 (JObj [])), s)
     | _ \<Rightarrow> (Inr (plain_response 200 (JObj [(''subscriptions'', JList (case s of
           Some m \<Rightarrow> if http_url req = listing_path then [JObj ((''actionKey'', JStr ''audit.tests'') # m)] else []
         | None \<Rightarrow> []))])), s))"

definition document_of :: "members option \<Rightarrow> string \<times> string \<Rightarrow> members option" where
  "document_of s k = (if k = (''r1'', ''audit.tests'') then map_option (\<lambda>m. (''actionKey'', JStr ''audit.tests'') # m) s else None)"

lemma list_url: "render_api_path (path_template AUDIT_AUTO_RUNS_ENDPOINT_SPEC) [(''repoId'', repo)] = listing_path \<longleftrightarrow> repo = ''r1''"
proof
  assume same: "render_api_path (path_template AUDIT_AUTO_RUNS_ENDPOINT_SPEC) [(''repoId'', repo)] = listing_path"
  have "plain_template (path_template AUDIT_AUTO_RUNS_ENDPOINT_SPEC)"
    using implemented_plain by (simp add: IMPLEMENTED_ENJI_ENDPOINTS_def)
  from rendered_inject [OF this _ _ _ _ same [unfolded listing_path_def]] show "repo = ''r1''"
    by (auto simp: brace_free_def endpoint_defs placeholder_def)
qed (simp add: listing_path_def)

lemma document_url:
  "render_api_path (path_template AUDIT_AUTO_RUN_PUT_ENDPOINT_SPEC) [(''repoId'', repo), (''actionKey'', key)] = document_path
   \<longleftrightarrow> repo = ''r1'' \<and> key = ''audit.tests''"
proof
  assume same: "render_api_path (path_template AUDIT_AUTO_RUN_PUT_ENDPOINT_SPEC) [(''repoId'', repo), (''actionKey'', key)]
    = document_path"
  have "plain_template (path_template AUDIT_AUTO_RUN_PUT_ENDPOINT_SPEC)"
    using implemented_plain by (simp add: IMPLEMENTED_ENJI_ENDPOINTS_def)
  from rendered_inject [OF this _ _ _ _ same [unfolded document_path_def]] show "repo = ''r1'' \<and> key = ''audit.tests''"
    by (auto simp: brace_free_def endpoint_defs placeholder_def)
qed (simp add: document_path_def)

lemma normalize_json_value_id [simp]: "normalize_json_value v = v"
  by (induction v rule: normalize_json_value.induct) (force intro!: map_idI)+

lemma normalize_json_object_id [simp]: "normalize_json_object m = m"
  by (auto simp: normalize_json_object_def map_idI)

lemmas document_run = call_def run_api_request_def as_api_errors_def handleM_def load_api_session_def document_env_def
  bindM_def io_simps request_json_object_def send_spec_def thenM_def endpoint_request_def api_request_of_def document_send_def
  raise_for_api_response_status_def HTTP_OK_ONLY_def HTTP_UNAUTHORIZED_def gateway_auth_invalid_def api_error_from_response_def
  with_payload_def members_of_def raise_for_response_status_def RATE_LIMIT_STATUS_CODE_def plain_response_def

lemma document_listing:
  "http_audit_auto_runs document_env document_send repo s = (Inr [(''subscriptions'', JList (case s of
       Some m \<Rightarrow> if repo = ''r1'' then [JObj ((''actionKey'', JStr ''audit.tests'') # m)] else [] | None \<Rightarrow> []))], s)"
  using list_url [of repo]
  by (auto simp: http_audit_auto_runs_def AUDIT_AUTO_RUNS_ENDPOINT_def document_run Let_def split: option.splits)

lemma document_writing:
  "http_put_audit_auto_run document_env document_send repo key m s = (Inr x, t)
   \<Longrightarrow> repo = ''r1'' \<and> key = ''audit.tests'' \<and> t = Some (audit_auto_run_request m)"
  using document_url [of repo key]
  by (auto simp: http_put_audit_auto_run_def AUDIT_AUTO_RUN_PUT_ENDPOINT_def document_run Let_def jget_def
    split: if_splits)

lemma document_service_sample: "document_service document_env document_send document_of"
  unfolding document_service_def
proof (intro conjI allI impI)
  fix s repo
  have "\<forall>m. m \<in> set (object_list (jget [(''subscriptions'', JList (case s of
       Some m \<Rightarrow> if repo = ''r1'' then [JObj ((''actionKey'', JStr ''audit.tests'') # m)] else [] | None \<Rightarrow> []))] ''subscriptions''))
      \<longleftrightarrow> (\<exists>key. document_of s (repo, key) = Some m)"
    by (auto simp: object_list_def jget_def document_of_def set_map_filter split: option.splits)
  then show "\<exists>payload. http_audit_auto_runs document_env document_send repo s = (Inr payload, s)
      \<and> (\<forall>m. m \<in> set (object_list (jget payload ''subscriptions'')) \<longleftrightarrow> (\<exists>key. document_of s (repo, key) = Some m))"
    unfolding document_listing by blast
next
  fix s repo key m
  assume "document_of s (repo, key) = Some m"
  then show "as_str (jget m ''actionKey'') = Some key" by (auto simp: document_of_def jget_def split: if_splits)
next
  fix s repo key m x t
  assume "http_put_audit_auto_run document_env document_send repo key m s = (Inr x, t)"
  from document_writing [OF this] show "document_of t = (document_of s)((repo, key) :=
      Some ((''actionKey'', JStr key) # audit_auto_run_request m))"
    by (auto simp: document_of_def fun_eq_iff)
qed

definition wired_run :: "members option \<Rightarrow> batch_mutation_result result \<times> members option" where
  "wired_run = apply_schedules (\<lambda>_. Inr ()) (audit_subscriptions document_env document_send) [''audit.tests''] sample_update
     [sample_target]"

lemma wired_run_completes:
  "case fst (wired_run None) of Inr b \<Rightarrow> batch_status b = BatchCompleted \<and> batch_changed b = 1 | Inl _ \<Rightarrow> False"
  by code_simp


end
