(* ===== verification/Gateway_Errors.thy ===== *)
theory Gateway_Errors
  imports Portfolio_Gateway
begin

section \<open>Where an error of a request comes from\<close>

text \<open>
  The exceptions that the layers of a request let through, from the client to the operation of a
  gateway: a status they carry was answered, and a refused answer escapes when there are no retries.
\<close>

subsection \<open>The exceptions of a computation\<close>

definition raises :: "(exn \<Rightarrow> bool) \<Rightarrow> ('s, 'a) io \<Rightarrow> bool" where
  "raises P m \<longleftrightarrow> (\<forall>s e t. m s = (Inl e, t) \<longrightarrow> P e)"

lemma raisesI: "(\<And>s e t. m s = (Inl e, t) \<Longrightarrow> P e) \<Longrightarrow> raises P m"
  unfolding raises_def by blast

lemma raisesD: "raises P m \<Longrightarrow> m s = (Inl e, t) \<Longrightarrow> P e"
  unfolding raises_def by blast

lemma raises_basic [simp]:
  "raises P (retM x)" "raises P (throwM e) = P e" "raises P (liftM (Inr x))" "raises P (liftM (Inl e)) = P e"
  by (auto simp: raises_def io_simps)

lemma raises_lift: "(\<And>e. v = Inl e \<Longrightarrow> P e) \<Longrightarrow> raises P (liftM v)"
  by (auto simp: raises_def io_simps)

lemma raises_bind: "raises P m \<Longrightarrow> (\<And>s x t. m s = (Inr x, t) \<Longrightarrow> raises P (f x)) \<Longrightarrow> raises P (bindM m f)"
  unfolding raises_def by (fastforce elim!: bindM_E)

lemma raises_mono: "raises P m \<Longrightarrow> (\<And>e. P e \<Longrightarrow> Q e) \<Longrightarrow> raises Q m"
  unfolding raises_def by blast

lemma raises_handle:
  assumes "raises Q m" and "\<And>e. Q e \<Longrightarrow> p e \<Longrightarrow> raises P (h e)" and "\<And>e. Q e \<Longrightarrow> \<not> p e \<Longrightarrow> P e"
  shows "raises P (handleM m p h)"
proof (rule raisesI)
  fix s e t
  assume "handleM m p h s = (Inl e, t)"
  then show "P e"
    using assms by (auto simp: handleM_def split: prod.splits sum.splits if_splits dest: raisesD)
qed

text \<open>A client that fails with its own errors only, and an environment that does not fail.\<close>

definition client_sound :: "('s, 'x) gateway_env_scheme \<Rightarrow> bool" where
  "client_sound env \<longleftrightarrow> (\<forall>req. raises is_httpx_error (client_send env req)) \<and> (\<forall>d. raises (\<lambda>_. False) (pause env d))
     \<and> (\<forall>j. raises (\<lambda>_. False) (jitter_sample env j)) \<and> raises (\<lambda>_. False) (utc_now env)
     \<and> raises (\<lambda>_. False) (load_credentials env)"

text \<open>The errors of a request carry a status that the client was answered.\<close>

definition answered :: "('s, 'x) transport_env_scheme \<Rightarrow> int \<Rightarrow> bool" where
  "answered env status \<longleftrightarrow> (\<exists>req s r t. client_send env req s = (Inr r, t) \<and> status_code r = status)"

definition status_seen :: "('s, 'x) transport_env_scheme \<Rightarrow> exn \<Rightarrow> bool" where
  "status_seen env e \<longleftrightarrow> (\<forall>code message status malformed.
     e = EnjiResponseError code message (Some status) malformed \<or> e = EnjiApiError code message (Some status) malformed
     \<longrightarrow> answered env status)"

text \<open>What the parser of a \<open>Retry-After\<close> header raises.\<close>

fun is_parse_error :: "exn \<Rightarrow> bool" where
  "is_parse_error (ValueError _) = True"
| "is_parse_error _ = False"

lemma retry_after_raises:
  assumes "client_sound env"
  shows "raises is_parse_error (retry_after_seconds env headers)"
proof -
  have "raises is_parse_error (utc_now env)"
    using assms by (auto simp: client_sound_def raises_def)
  then show ?thesis
    unfolding retry_after_seconds_def parse_retry_after_def Let_def
    by (auto intro!: raises_bind raises_lift simp: py_int_def split: option.split if_splits)
qed

lemma retry_step_raises:
  assumes "client_sound env"
  shows "raises is_parse_error (bindM (retry_wait env cfg k after) (pause env))"
proof -
  have "raises is_parse_error (jitter_sample env j)" "raises is_parse_error (pause env d)" for j d
    using assms by (auto simp: client_sound_def raises_def)
  then show ?thesis
    unfolding retry_wait_def Let_def
    by (auto intro!: raises_bind retry_after_raises [OF assms] split: option.split)
qed

lemma request_once_raises: "client_sound env \<Longrightarrow> raises is_httpx_error (request_once env cfg req)"
  unfolding request_once_def by (auto intro!: raises_bind simp: client_sound_def)

lemma attempts_raises:
  assumes "client_sound env"
  shows "raises (\<lambda>e. is_httpx_error e \<or> is_parse_error e) (attempts env cfg req left k)"
proof (induction left arbitrary: k)
  case 0
  show ?case
    using raisesD [OF request_once_raises [OF assms]]
    by (auto intro!: raisesI split: prod.splits sum.splits attempt_result.splits)
next
  case (Suc left)
  have retry: "raises (\<lambda>e. is_httpx_error e \<or> is_parse_error e)
      (bindM (bindM (retry_wait env cfg k after) (pause env)) (\<lambda>_. attempts env cfg req left (k + 1)))" for after
    using Suc.IH by (intro raises_bind raises_mono [OF retry_step_raises [OF assms]]) auto
  show ?case
    using raisesD [OF request_once_raises [OF assms]] raisesD [OF retry]
    by (intro raisesI) (auto split: prod.splits sum.splits attempt_result.splits if_splits)
qed

text \<open>A refused answer: a status of the forcelist to a request that may be retried.\<close>

definition refused :: "retry_config \<Rightarrow> http_request \<Rightarrow> http_response \<Rightarrow> bool" where
  "refused cfg req r \<longleftrightarrow> can_retry (http_profile req) \<and> status_code r \<in> set (status_forcelist cfg)"

fun is_leak :: "exn \<Rightarrow> bool" where
  "is_leak (RetryableResponseError _) = True"
| "is_leak _ = False"

lemma is_leak_iff: "is_leak e \<longleftrightarrow> (\<exists>m. e = RetryableResponseError m)"
  by (cases e) auto

lemma transport_raises:
  assumes "client_sound env"
  shows "raises (\<lambda>e. is_httpx_error e \<or> is_parse_error e \<or> is_leak e \<and> retry_total cfg \<le> 0)
      (if \<not> can_retry (http_profile req) \<or> retry_total cfg \<le> 0 then single_request env cfg req
       else attempts env cfg req (nat (retry_total cfg)) 1)"
proof (cases "\<not> can_retry (http_profile req) \<or> retry_total cfg \<le> 0")
  case True
  have "raises (\<lambda>e. is_httpx_error e \<or> is_parse_error e \<or> is_leak e \<and> retry_total cfg \<le> 0) (single_request env cfg req)"
    using True unfolding single_request_def
    by (intro raises_bind raises_mono [OF request_once_raises [OF assms]])
      (auto simp: request_once_def io_simps elim!: bindM_InrE)
  with True show ?thesis by simp
next
  case False
  have "raises (\<lambda>e. is_httpx_error e \<or> is_parse_error e \<or> is_leak e \<and> retry_total cfg \<le> 0)
      (attempts env cfg req (nat (retry_total cfg)) 1)"
    by (rule raises_mono [OF attempts_raises [OF assms]]) blast
  with False show ?thesis by simp
qed

lemma parse_error_not_leak: "is_parse_error e \<Longrightarrow> \<not> is_leak e"
  by (cases e) auto

lemma request_blocking_raises:
  assumes "client_sound env" and "0 < retry_total cfg"
  shows "raises (\<lambda>e. \<not> is_leak e) (request_blocking env cfg req)"
  unfolding request_blocking_def using assms(2)
  by (intro raises_handle [OF transport_raises [OF assms(1)]]) (auto simp: transport_error_def dest: parse_error_not_leak)

text \<open>A response that the transport returns was answered to the client.\<close>

lemma attempts_answered:
  "attempts env cfg req left k s = (Inr r, t) \<Longrightarrow> \<exists>u v. client_send env req u = (Inr r, v)"
proof (induction left arbitrary: k s)
  case 0
  then show ?case
    by (auto simp: request_once_def io_simps split: prod.splits sum.splits attempt_result.splits if_splits elim!: bindM_InrE
      intro!: exI)
next
  case (Suc left)
  obtain a u where once: "request_once env cfg req s = (a, u)" by (cases "request_once env cfg req s")
  show ?case
  proof (cases "\<exists>x. a = Inr (Answered x)")
    case True
    with once Suc.prems show ?thesis
      by (auto simp: request_once_def io_simps split: if_splits elim!: bindM_InrE intro!: exI)
  next
    case False
    with once Suc.prems Suc.IH show ?thesis
      by (auto split: sum.splits attempt_result.splits if_splits elim!: bindM_InrE)
  qed
qed

lemma request_blocking_answered:
  assumes "request_blocking env cfg req s = (Inr r, t)"
  shows "answered env (status_code r)"
proof -
  have "\<exists>u v. client_send env req u = (Inr r, v)" if "single_request env cfg req s = (Inr r, t)" for r t
    using that by (auto simp: single_request_def request_once_def io_simps elim!: bindM_InrE split: if_splits attempt_result.splits
      intro!: exI)
  with assms have "\<exists>u v. client_send env req u = (Inr r, v)"
    by (auto simp: request_blocking_def handleM_def io_simps dest: attempts_answered split: prod.splits sum.splits if_splits)
  then show ?thesis by (auto simp: answered_def)
qed

subsection \<open>The layers above the transport\<close>

definition seen_or_plain :: "('s, 'x) transport_env_scheme \<Rightarrow> exn \<Rightarrow> bool" where
  "seen_or_plain env e \<longleftrightarrow> status_seen env e \<and> \<not> is_audit_not_found e"

lemma plain_errors_seen [simp]:
  "seen_or_plain env (EnjiResponseError c m None b)" "seen_or_plain env (EnjiApiError c m None b)"
  "seen_or_plain env (EnjiHttpError c m)" "seen_or_plain env (ValueError m)" "seen_or_plain env (UnicodeDecodeError m)"
  by (simp_all add: seen_or_plain_def status_seen_def)

lemma class_errors_seen [simp]:
  "is_httpx_error e \<Longrightarrow> seen_or_plain env e" "is_leak e \<Longrightarrow> seen_or_plain env e" "is_parse_error e \<Longrightarrow> seen_or_plain env e"
  by (auto simp: seen_or_plain_def status_seen_def elim: is_httpx_error.elims is_leak.elims is_parse_error.elims)

lemma answered_errors_seen:
  "answered env st \<Longrightarrow> seen_or_plain env (EnjiResponseError c m (Some st) b)"
  "answered env st \<Longrightarrow> seen_or_plain env (EnjiApiError c m (Some st) b)"
  by (auto simp: seen_or_plain_def status_seen_def)

lemma request_blocking_seen: "client_sound env \<Longrightarrow> raises (seen_or_plain env) (request_blocking env cfg req)"
  unfolding request_blocking_def
  by (rule raises_handle [OF transport_raises]) (auto simp: transport_error_def)

lemma response_json_seen: "response_json label r = Inl e \<Longrightarrow> seen_or_plain env e"
  by (auto split: response_body.splits)

lemma with_payload_seen: "with_payload label r d f = Inl e \<Longrightarrow> seen_or_plain env e"
  using response_json_seen [of label r e env]
  by (auto simp: with_payload_def simp del: response_json.simps split: sum.splits if_splits)

lemma retry_after_seen: "client_sound env \<Longrightarrow> raises (seen_or_plain env) (retry_after_seconds env headers)"
  by (rule raises_mono [OF retry_after_raises]) auto

lemma status_check_seen:
  assumes "client_sound env" and "answered env (status_code r)"
  shows "raises (seen_or_plain env) (raise_for_api_response_status env r label expected)"
proof -
  have plain: "raises (seen_or_plain env) (raise_for_response_status env r label expected)"
    using assms unfolding raise_for_response_status_def
    by (auto intro!: raises_bind retry_after_seen answered_errors_seen)
  have undecoded: "seen_or_plain env e" if "api_error_from_response r = Inl e" for e
    using that unfolding api_error_from_response_def by (rule with_payload_seen)
  have err: "seen_or_plain env e" if "api_error_from_response r = Inr (Some e)" for e
    using that assms(2) by (auto simp: api_error_from_response_def with_payload_def Let_def
      split: sum.splits if_splits intro!: answered_errors_seen)
  show ?thesis
    unfolding raise_for_api_response_status_def
    using assms(2) plain err undecoded
    by (auto intro!: raises_bind raises_lift answered_errors_seen simp: io_simps gateway_auth_invalid_def
      dest: with_payload_seen split: if_splits option.split)
qed

lemma send_spec_seen:
  assumes "client_sound env"
  shows "raises (seen_or_plain env) (send_spec env (request_blocking env cfg) session spec)"
  unfolding send_spec_def thenM_def
  by (intro raises_bind request_blocking_seen assms status_check_seen request_blocking_answered) auto

lemma call_seen:
  assumes "client_sound env"
  shows "raises (seen_or_plain env) (call env (request_blocking env cfg) ep params query body)"
proof -
  have "raises (seen_or_plain env) (request_json_object env (request_blocking env cfg) session spec)" for session spec
    unfolding request_json_object_def
    by (intro raises_bind send_spec_seen [OF assms] raises_lift)
      (auto simp: unexpected_json_def simp del: response_json.simps intro: response_json_seen split: option.split)
  moreover have "raises (\<lambda>_. False) (load_credentials env)" using assms by (simp add: client_sound_def)
  then have "raises (seen_or_plain env) (load_api_session env)"
    unfolding load_api_session_def by (intro raises_bind) (auto elim: raises_mono split: sum.split)
  ultimately have inner: "raises (seen_or_plain env) (bindM (load_api_session env) (\<lambda>session.
      bindM (request_json_object env (request_blocking env cfg) session spec) (\<lambda>payload. liftM (Inr (normalize_json_object payload)))))"
    for spec by (intro raises_bind) auto
  have "seen_or_plain env (api_error_of e)" if "seen_or_plain env e" for e
    using that by (cases e) (auto simp: api_error_of_def seen_or_plain_def status_seen_def)
  then show ?thesis
    unfolding call_def run_api_request_def as_api_errors_def by (intro raises_handle [OF inner]) auto
qed

text \<open>C36: A task is reported missing only when the service has said so.  If the lookup of a task raises
  the error that the ledger takes for the absence of the task, then some request of the client was
  answered with 404: no transport failure, malformed payload or other status is taken for it.\<close>

theorem missing_only_on_404:
  assumes "client_sound env" and "read_task_detail env (request_blocking env cfg) task s = (Inl e, t)"
    and "is_audit_not_found e"
  shows "answered env HTTP_NOT_FOUND"
proof -
  let ?m = "handleM (http_task_detail env (request_blocking env cfg) task) is_api_error (\<lambda>e. throwM (task_detail_error task e))"
  have "raises (\<lambda>e. is_audit_not_found e \<longrightarrow> answered env HTTP_NOT_FOUND) ?m"
    unfolding http_task_detail_def
    by (rule raises_handle [OF call_seen [OF assms(1)]])
      (auto simp: task_detail_error_def seen_or_plain_def status_seen_def split: exn.splits)
  moreover have "task_detail_of task payload \<noteq> Inl e" for payload
    using assms(3) by (auto simp: task_detail_of_def split: option.splits if_splits)
  ultimately show ?thesis
    using assms(2,3) by (auto simp: read_task_detail_def io_simps elim!: bindM_E dest: raisesD)
qed

text \<open>A policy without retries lets a refused answer escape.  When a request that may be retried is
  answered with a status of the forcelist and the policy has no retries, the exception that the transport
  raises for its own loop leaves the gateway, which no handler takes for an error of the service; with a
  retry or more the transport never raises it.\<close>

lemma refused_answer_escapes:
  assumes "client_sound env" and "load_credentials env s = (Inr (Inr session), u)"
    and "client_send env \<lparr>http_method = api_method spec, http_url = session_base_url session @ api_path spec,
         http_operation = api_operation spec, http_headers = session_headers session, http_profile = api_profile spec,
         http_body = api_body spec, http_timeout = DEFAULT_TRANSPORT_TIMEOUT_SECONDS\<rparr> u = (Inr r, v)"
    and "can_retry (api_profile spec)" and "status_code r \<in> set (status_forcelist cfg)"
  shows "(retry_total cfg \<le> 0 \<longrightarrow> run_api_request env (request_blocking env cfg) parser spec s
      = (Inl (RetryableResponseError (''HTTP '' @ show_int (status_code r))), v))
    \<and> (0 < retry_total cfg \<longrightarrow> raises (\<lambda>e. \<not> is_leak e) (request_blocking env cfg req))"
  using assms(2-5) request_blocking_raises [OF assms(1), of cfg req]
  by (auto simp: run_api_request_def as_api_errors_def handleM_def load_api_session_def bindM_def io_simps request_json_object_def
    send_spec_def request_blocking_def single_request_def request_once_def is_enji_error_def)

text \<open>A service that answers every request with one status, an empty object and no delay.\<close>

definition constant_env :: "int \<Rightarrow> unit gateway_env" where
  "constant_env status = \<lparr>client_send = (\<lambda>req s. (Inr \<lparr>status_code = status, response_body = JsonBody (JObj []),
       response_headers = [], set_cookie_headers = []\<rparr>, s)), pause = (\<lambda>_ s. (Inr (), s)), jitter_sample = (\<lambda>_ s. (Inr 0, s)),
     utc_now = (\<lambda>s. (Inr 0, s)), http_date = (\<lambda>_. None),
     load_credentials = (\<lambda>s. (Inr (Inr \<lparr>session_base_url = ''b'', session_headers = []\<rparr>), s)), fresh_uuid = (\<lambda>s. (Inr ''u'', s))\<rparr>"

lemma constant_env_sound: "client_sound (constant_env status)"
  by (simp add: client_sound_def raises_def constant_env_def)

theorem missing_only_on_404_witness:
  "fst (read_task_detail (constant_env 404) (request_blocking (constant_env 404) DEFAULT_RETRY_CONFIG) ''t1'' ())
     = Inl (AuditNotFoundError ''t1'')
   \<and> answered (constant_env 404) HTTP_NOT_FOUND"
proof -
  have run: "read_task_detail (constant_env 404) (request_blocking (constant_env 404) DEFAULT_RETRY_CONFIG) ''t1'' ()
      = (Inl (AuditNotFoundError ''t1''), ())" by code_simp
  with missing_only_on_404 [OF constant_env_sound run] show ?thesis by simp
qed

definition no_retries :: retry_config where
  "no_retries = DEFAULT_RETRY_CONFIG\<lparr>retry_total := 0\<rparr>"

lemma refused_answer_escapes_witness:
  "run_api_request (constant_env 503) (request_blocking (constant_env 503) no_retries) (\<lambda>m. Inr m)
     (endpoint_request CATALOG_ENDPOINT [] [] None) () = (Inl (RetryableResponseError ''HTTP 503''), ())
   \<and> enji_code (RetryableResponseError ''HTTP 503'') = None"
proof -
  let ?spec = "endpoint_request CATALOG_ENDPOINT [] [] None"
  have "retry_total no_retries \<le> 0" "status_code \<lparr>status_code = 503, response_body = JsonBody (JObj []),
       response_headers = [], set_cookie_headers = []\<rparr> \<in> set (status_forcelist no_retries)"
    by (simp_all add: no_retries_def DEFAULT_RETRY_CONFIG_def)
  moreover have "can_retry (api_profile ?spec)"
    by (simp add: endpoint_request_def api_request_of_def CATALOG_ENDPOINT_def CATALOG_ENDPOINT_SPEC_def Let_def)
  moreover have "show_int 503 = ''503''" by code_simp
  ultimately show ?thesis
    using refused_answer_escapes [OF constant_env_sound, of 503 "()" "\<lparr>session_base_url = ''b'', session_headers = []\<rparr>" "()"
      ?spec "\<lparr>status_code = 503, response_body = JsonBody (JObj []), response_headers = [], set_cookie_headers = []\<rparr>" "()"
      no_retries "\<lambda>m. Inr m"]
    by (simp add: constant_env_def)
qed

end
