(* ===== verification/Audit_Artifacts.thy ===== *)
theory Audit_Artifacts
  imports Audit_Status Portfolio_Operations
begin

section \<open>Reading audit reports (audit/artifacts.py, workflows.py, observation.py)\<close>

text \<open>
  Which report of an audit is shown, whether a newer run is under way, and the projections of a
  repository that a command observes.  The service and the ledger are records of computations over
  a world; a time in seconds is compared as its instant in microseconds.
\<close>

subsection \<open>Projections\<close>

record artifact_read_item =
  read_audit_key :: string
  read_available :: bool
  read_artifact :: "audit_artifact option"
  read_reason :: "string option"
  read_freshness :: audit_freshness
  read_newer_run :: "audit_newer_run option"

record audit_read =
  read_repo_id :: string
  read_audits :: "artifact_read_item list"

record audit_summary_item =
  summary_audit_key :: string
  summary_available :: bool
  summary_score :: "rat option"
  summary_generated_at :: "string option"
  summary_reason :: "string option"
  summary_freshness :: audit_freshness
  summary_task_id :: "string option"
  summary_completed_at :: "string option"
  summary_collected_at :: "string option"
  summary_newer_run :: "audit_newer_run option"

record audit_summary =
  summary_repo_id :: string
  summary_audits :: "audit_summary_item list"

definition summary_item :: "artifact_read_item \<Rightarrow> audit_summary_item" where
  "summary_item i =
     \<lparr>summary_audit_key = read_audit_key i, summary_available = read_available i,
      summary_score = Option.bind (read_artifact i) artifact_score,
      summary_generated_at = Option.bind (read_artifact i) artifact_generated_at, summary_reason = read_reason i,
      summary_freshness = read_freshness i, summary_task_id = Option.bind (read_artifact i) artifact_task_id,
      summary_completed_at = Option.bind (read_artifact i) artifact_completed_at,
      summary_collected_at = Option.bind (read_artifact i) artifact_collected_at, summary_newer_run = read_newer_run i\<rparr>"

definition summarize_artifacts :: "string \<Rightarrow> artifact_read_item list \<Rightarrow> audit_summary" where
  "summarize_artifacts repo items = \<lparr>summary_repo_id = repo, summary_audits = map summary_item items\<rparr>"

subsection \<open>Choosing\<close>

definition select_artifacts :: "audit_status_item list \<Rightarrow> string list \<Rightarrow> bool \<Rightarrow> audit_catalog
    \<Rightarrow> audit_status_item list result" where
  "select_artifacts status selectors all_artifacts catalog =
     (if all_artifacts \<and> selectors \<noteq> [] then Inl (ValueError ''pass audit selectors or --all, not both'')
      else if all_artifacts \<or> selectors = [] then Inr status
      else bindR (by_selector (published_audits catalog)) (\<lambda>lookup.
        mapR (\<lambda>s. case Option.bind (lookup s) (\<lambda>a. if audit_action_key a = [] then None
               else dict_by item_audit_key status (audit_action_key a)) of
             None \<Rightarrow> Inl (AuditArtifactUnavailableError s ''status not found'')
           | Some i \<Rightarrow> Inr i) selectors))"

definition choose_report_ref :: "audit_report_ref list \<Rightarrow> audit_report_ref option" where
  "choose_report_ref refs = find (\<lambda>r. ref_has_report r \<and> nonblank (ref_task_id r) \<and> nonblank (ref_completed_at r)) refs"

definition parse_time :: "string option \<Rightarrow> int option" where
  "parse_time v = (if nonblank v then timestamp (map_option py_strip v) else None)"

text \<open>\<open>seconds or float("-inf")\<close>: the instant that is zero seconds is falsy.\<close>

definition UNIX_EPOCH :: int where
  "UNIX_EPOCH = 62135596800000000"

definition or_minus_infinity :: "int option \<Rightarrow> int option" where
  "or_minus_infinity t = (if t = Some UNIX_EPOCH then None else t)"

definition newer_candidate :: "audit_report_ref \<Rightarrow> int \<Rightarrow> string option \<Rightarrow> bool \<Rightarrow> audit_run
    \<Rightarrow> ((int option \<times> int \<times> string \<times> string) \<times> audit_run \<times> lifecycle_state) option" where
  "newer_candidate ref completed action_key report_is_stale r =
     (let state = run_lifecycle r; started = parse_time (or_opt (run_started_at r) (run_created_at r)) in
      case run_task_id r of
        None \<Rightarrow> None
      | Some task \<Rightarrow>
          if state \<notin> {TaskQueued, TaskRunning} then None
          else if action_key \<noteq> None \<and> run_action_key r \<noteq> action_key then None
          else if report_is_stale
          then Some ((or_minus_infinity started, lifecycle_priority state, task, or_str (run_status r) []), r, state)
          else if Some task = ref_task_id ref then None
          else (case started of
              None \<Rightarrow> None
            | Some t \<Rightarrow> if t \<le> completed then None
                else Some ((Some t, lifecycle_priority state, task, or_str (run_status r) []), r, state)))"

definition newer_run_for_report :: "audit_report_ref \<Rightarrow> audit_run list \<Rightarrow> string option \<Rightarrow> bool
    \<Rightarrow> audit_newer_run option" where
  "newer_run_for_report ref runs action_key report_is_stale =
     (if \<not> truthy (ref_task_id ref) then None
      else (case parse_time (ref_completed_at ref) of
          None \<Rightarrow> None
        | Some completed \<Rightarrow>
            (case py_max fst (List.map_filter (newer_candidate ref completed action_key report_is_stale) runs) of
               Inl _ \<Rightarrow> None
             | Inr (_, r, state) \<Rightarrow> Some \<lparr>newer_task_id = or_str (run_task_id r) [], newer_status = run_status r,
                 newer_created_at = run_created_at r, newer_started_at = run_started_at r, newer_state = state\<rparr>)))"

subsection \<open>Observing a repository\<close>

record repository_observation =
  observed_links :: "audit_task_link list"
  observed_runs :: "audit_run list"
  observed_rerun :: audit_rerun_state

text \<open>The part of the service that the observation and the reports read, and the ledger.\<close>

record 's report_gateway =
  gateway_task_links :: "string \<Rightarrow> ('s, audit_task_link list) io"
  gateway_active_runs :: "string \<Rightarrow> ('s, audit_run list) io"
  gateway_rerun :: "string \<Rightarrow> ('s, audit_rerun_state) io"
  gateway_task_detail :: "string \<Rightarrow> ('s, audit_task_detail) io"
  gateway_reports :: "string \<Rightarrow> string \<Rightarrow> ('s, audit_report_ref list) io"
  gateway_snapshot :: "string \<Rightarrow> string \<Rightarrow> string \<Rightarrow> string \<Rightarrow> ('s, audit_artifact) io"

type_synonym 's ledger_reconcile =
  "string \<Rightarrow> audit_run list \<Rightarrow> (string \<Rightarrow> ('s, audit_task_detail) io) \<Rightarrow> ('s, audit_run list) io"

text \<open>\<open>fanout.gather\<close> of three operations: all of them run, and the first exception in the order of
  their declaration is raised.\<close>

definition gather3 :: "('s, 'a) io \<Rightarrow> ('s, 'b) io \<Rightarrow> ('s, 'c) io \<Rightarrow> ('s, 'a \<times> 'b \<times> 'c) io" where
  "gather3 f g h s =
     (let (a, s1) = f s; (b, s2) = g s1; (c, s3) = h s2 in
      (bindR a (\<lambda>x. bindR b (\<lambda>y. bindR c (\<lambda>z. Inr (x, y, z)))), s3))"

definition observe :: "'s report_gateway \<Rightarrow> 's ledger_reconcile \<Rightarrow> string \<Rightarrow> ('s, repository_observation) io" where
  "observe g ledger repo =
     bindM (gather3 (gateway_task_links g repo)
         (bindM (gateway_active_runs g repo) (\<lambda>upstream. ledger repo upstream (gateway_task_detail g)))
         (gateway_rerun g repo))
       (\<lambda>(links, runs, rerun). retM \<lparr>observed_links = links, observed_runs = runs, observed_rerun = rerun\<rparr>)"

subsection \<open>Reading the reports of a repository\<close>

record 's workflow_dependencies =
  deps_catalog :: "('s, audit_catalog_result) io"
  deps_gateway :: "'s report_gateway"
  deps_frozen_catalog :: "audit_catalog option"
  deps_observation :: "(string \<Rightarrow> ('s, repository_observation) io) option"

definition workflow_catalog :: "'s workflow_dependencies \<Rightarrow> ('s, audit_catalog) io" where
  "workflow_catalog d = (case deps_frozen_catalog d of
       Some c \<Rightarrow> retM c
     | None \<Rightarrow> bindM (deps_catalog d) (\<lambda>r. liftM (parse_catalog_result r)))"

definition workflow_observation :: "'s workflow_dependencies \<Rightarrow> string \<Rightarrow> ('s, repository_observation) io" where
  "workflow_observation d repo = (case deps_observation d of
       Some f \<Rightarrow> f repo
     | None \<Rightarrow>
         bindM (gateway_task_links (deps_gateway d) repo) (\<lambda>links.
         bindM (gateway_active_runs (deps_gateway d) repo) (\<lambda>runs.
         bindM (gateway_rerun (deps_gateway d) repo) (\<lambda>rerun.
           retM \<lparr>observed_links = links, observed_runs = runs, observed_rerun = rerun\<rparr>))))"

definition unavailable :: "audit_status_item \<Rightarrow> string \<Rightarrow> bool \<Rightarrow> artifact_read_item result" where
  "unavailable i reason tolerate =
     (if tolerate
      then Inr \<lparr>read_audit_key = item_audit_key i, read_available = False, read_artifact = None, read_reason = Some reason,
        read_freshness = item_freshness i, read_newer_run = None\<rparr>
      else Inl (AuditArtifactUnavailableError (item_audit_key i) reason))"

text \<open>\<open>try: ... except AuditNotFoundError: return _unavailable(...)\<close>.\<close>

definition unless_missing :: "('s, 'a) io \<Rightarrow> artifact_read_item result \<Rightarrow> ('a \<Rightarrow> ('s, artifact_read_item) io)
    \<Rightarrow> ('s, artifact_read_item) io" where
  "unless_missing m missing k s = (case m s of
       (Inl e, t) \<Rightarrow> if is_audit_not_found e then (missing, t) else (Inl e, t)
     | (Inr x, t) \<Rightarrow> k x t)"

definition read_history_item :: "'s report_gateway \<Rightarrow> repository_observation \<Rightarrow> string \<Rightarrow> audit_definition option
    \<Rightarrow> bool \<Rightarrow> audit_status_item \<Rightarrow> ('s, artifact_read_item) io" where
  "read_history_item g seen repo audit tolerate i = (case audit of
       None \<Rightarrow> liftM (unavailable i ''status not found'' tolerate)
     | Some a \<Rightarrow>
         (let group = or_str (audit_metric_group a) (audit_action_key a);
              missing = unavailable i ''artifact_not_found'' tolerate in
          unless_missing (gateway_reports g repo group) missing (\<lambda>refs.
            case choose_report_ref refs of
              None \<Rightarrow> liftM missing
            | Some ref \<Rightarrow> (case ref_task_id ref of
                None \<Rightarrow> liftM missing
              | Some task \<Rightarrow>
                  unless_missing (gateway_snapshot g repo (item_audit_key i) group task) missing (\<lambda>artifact.
                    retM \<lparr>read_audit_key = item_audit_key i, read_available = True,
                      read_artifact = Some (artifact\<lparr>artifact_task_id := Some task,
                        artifact_completed_at := ref_completed_at ref, artifact_collected_at := ref_collected_at ref\<rparr>),
                      read_reason = None, read_freshness = item_freshness i,
                      read_newer_run = newer_run_for_report ref (observed_runs seen) (Some (item_audit_key i))
                        (freshness_state (item_freshness i) = Stale)\<rparr>)))))"

definition read_for_repo :: "'s workflow_dependencies \<Rightarrow> string \<Rightarrow> string list \<Rightarrow> bool \<Rightarrow> bool option
    \<Rightarrow> ('s, artifact_read_item list) io" where
  "read_for_repo d repo selectors all_audits tolerate_unavailable =
     bindM (workflow_catalog d) (\<lambda>catalog.
     bindM (workflow_observation d repo) (\<lambda>seen.
     bindM (liftM (build_status repo catalog (observed_links seen) (observed_runs seen) (Some (observed_rerun seen)))) (\<lambda>st.
     bindM (liftM (select_artifacts (status_items st) selectors all_audits catalog)) (\<lambda>selected.
       let defs = dict_by audit_action_key (published_audits catalog);
           tolerate = (case tolerate_unavailable of None \<Rightarrow> selectors = [] | Some b \<Rightarrow> b) in
       bindM (fanout_reads (\<lambda>i. read_history_item (deps_gateway d) seen repo (defs (item_audit_key i)) tolerate i) selected)
         (\<lambda>results.
           retM (if selectors = [] \<and> \<not> all_audits \<and> tolerate_unavailable = None
             then filter read_available results else results))))))"

end
