(* ===== verification/Report_Properties.thy ===== *)
theory Report_Properties
  imports Audit_Artifacts Status_Properties
begin

section \<open>Properties of reading reports\<close>

text \<open>
  A run that supersedes a report, the report an available item shows, and what a summary keeps.
\<close>

subsection \<open>Newer runs\<close>

definition run_start :: "audit_run \<Rightarrow> int option" where
  "run_start r = parse_time (or_opt (run_started_at r) (run_created_at r))"

text \<open>How runs are ranked: for a stale report the first instant of 1970 counts as no instant.\<close>

definition start_rank :: "bool \<Rightarrow> audit_run \<Rightarrow> int option" where
  "start_rank report_is_stale r = (if report_is_stale then or_minus_infinity (run_start r) else run_start r)"

text \<open>What it is for a run to supersede a report that was completed at a known instant.\<close>

definition supersedes :: "audit_report_ref \<Rightarrow> string option \<Rightarrow> bool \<Rightarrow> audit_run \<Rightarrow> bool" where
  "supersedes ref action_key report_is_stale r \<longleftrightarrow> is_active_run r \<and> run_task_id r \<noteq> None
     \<and> (action_key = None \<or> run_action_key r = action_key)
     \<and> (report_is_stale \<or> run_task_id r \<noteq> ref_task_id ref
          \<and> (\<exists>t c. run_start r = Some t \<and> parse_time (ref_completed_at ref) = Some c \<and> c < t))"

lemma candidate_iff:
  assumes "parse_time (ref_completed_at ref) = Some c"
  shows "newer_candidate ref c a b r \<noteq> None \<longleftrightarrow> supersedes ref a b r"
  using assms by (auto simp: newer_candidate_def supersedes_def run_start_def is_active_run_def Let_def split: option.splits)

lemma candidate_parts:
  "newer_candidate ref c a b r = Some (key, r', st) \<Longrightarrow> r' = r \<and> st = run_lifecycle r \<and> fst key = start_rank b r"
  by (auto simp: newer_candidate_def run_start_def start_rank_def Let_def split: option.splits if_splits)

definition newer_run_of :: "audit_run \<Rightarrow> audit_newer_run" where
  "newer_run_of r = \<lparr>newer_task_id = or_str (run_task_id r) [], newer_status = run_status r,
     newer_created_at = run_created_at r, newer_started_at = run_started_at r, newer_state = run_lifecycle r\<rparr>"

text \<open>C20: A report is announced as superseded by the latest run that supersedes it, and by none that does
  not.  A newer run is shown exactly if the report has a task and an instant of completion and some
  active run of the audit is under way for a stale report, or has another task and started after the
  report was completed; of several the one shown started last.\<close>

theorem newer_run_exact:
  "case newer_run_for_report ref runs action_key report_is_stale of
     None \<Rightarrow> \<not> truthy (ref_task_id ref) \<or> parse_time (ref_completed_at ref) = None
       \<or> (\<forall>r\<in>set runs. \<not> supersedes ref action_key report_is_stale r)
   | Some n \<Rightarrow> truthy (ref_task_id ref) \<and> parse_time (ref_completed_at ref) \<noteq> None
       \<and> (\<exists>r\<in>set runs. supersedes ref action_key report_is_stale r \<and> n = newer_run_of r
            \<and> (\<forall>x\<in>set runs. supersedes ref action_key report_is_stale x
                 \<longrightarrow> start_rank report_is_stale x \<le> start_rank report_is_stale r))"
proof (cases "truthy (ref_task_id ref) \<and> parse_time (ref_completed_at ref) \<noteq> None")
  case False
  then show ?thesis by (auto simp: newer_run_for_report_def split: option.splits)
next
  case True
  then obtain c where c: "parse_time (ref_completed_at ref) = Some c" by blast
  let ?f = "newer_candidate ref c action_key report_is_stale"
  let ?cs = "List.map_filter ?f runs"
  have member: "?cs = [] \<longleftrightarrow> (\<forall>r\<in>set runs. \<not> supersedes ref action_key report_is_stale r)"
    using candidate_iff [OF c] by (auto simp: List.map_filter_def filter_empty_conv)
  show ?thesis
  proof (cases "?cs = []")
    case True
    with member c show ?thesis by (simp add: newer_run_for_report_def)
  next
    case False
    then obtain m where m: "py_max fst ?cs = Inr m" using py_max_nonempty by blast
    obtain key r st where parts: "m = (key, r, st)" by (cases m)
    from py_max_InrD [OF m] obtain r0 where r0: "r0 \<in> set runs" "?f r0 = Some (key, r, st)"
      by (auto simp: parts set_map_filter)
    note facts = candidate_parts [OF r0(2)]
    have latest: "start_rank report_is_stale x \<le> start_rank report_is_stale r"
      if x: "x \<in> set runs" "supersedes ref action_key report_is_stale x" for x
    proof -
      from x(2) candidate_iff [OF c, of action_key report_is_stale x] obtain key' x' st'
        where cand: "?f x = Some (key', x', st')" by (metis not_None_eq surj_pair)
      then have "(key', x', st') \<in> set ?cs" using x(1) by (auto simp: set_map_filter)
      with py_max_InrD [OF m] have "key' \<le> key" by (auto simp: parts)
      then have "fst key' \<le> fst key" by (auto simp: less_eq_prod_def)
      then show ?thesis using facts candidate_parts [OF cand] by simp
    qed
    have "supersedes ref action_key report_is_stale r"
      using candidate_iff [OF c, of action_key report_is_stale r0] r0(2) facts by simp
    with r0 facts latest m parts c \<open>truthy (ref_task_id ref) \<and> _\<close> show ?thesis
      by (auto simp: newer_run_for_report_def newer_run_of_def)
  qed
qed

subsection \<open>Which reports are shown\<close>

text \<open>An available item shows the first usable report of the listing, with the body of its snapshot.\<close>

definition shows_report :: "'s report_gateway \<Rightarrow> string \<Rightarrow> audit_definition \<Rightarrow> 's \<Rightarrow> artifact_read_item \<Rightarrow> bool" where
  "shows_report g repo a s x \<longleftrightarrow> (\<exists>refs u ref task artifact v.
     gateway_reports g repo (or_str (audit_metric_group a) (audit_action_key a)) s = (Inr refs, u)
     \<and> choose_report_ref refs = Some ref \<and> ref_task_id ref = Some task
     \<and> gateway_snapshot g repo (read_audit_key x) (or_str (audit_metric_group a) (audit_action_key a)) task u = (Inr artifact, v)
     \<and> read_artifact x = Some (artifact\<lparr>artifact_task_id := Some task, artifact_completed_at := ref_completed_at ref,
         artifact_collected_at := ref_collected_at ref\<rparr>))"

lemma shows_reportI:
  "gateway_reports g repo (or_str (audit_metric_group a) (audit_action_key a)) s = (Inr refs, u) \<Longrightarrow> choose_report_ref refs = Some ref
   \<Longrightarrow> ref_task_id ref = Some task
   \<Longrightarrow> gateway_snapshot g repo (read_audit_key x) (or_str (audit_metric_group a) (audit_action_key a)) task u = (Inr artifact, v)
   \<Longrightarrow> read_artifact x = Some (artifact\<lparr>artifact_task_id := Some task, artifact_completed_at := ref_completed_at ref,
         artifact_collected_at := ref_collected_at ref\<rparr>) \<Longrightarrow> shows_report g repo a s x"
  unfolding shows_report_def by blast

lemma unless_missing_InrE:
  assumes "unless_missing m missing k s = (Inr x, t)"
  obtains (missing) e where "m s = (Inl e, t)" and "missing = Inr x" | (found) y u where "m s = (Inr y, u)" and "k y u = (Inr x, t)"
  using assms by (auto simp: unless_missing_def split: prod.splits sum.splits if_splits)

lemma unavailable_InrD:
  "unavailable i reason tolerate = Inr x \<Longrightarrow> tolerate \<and> read_audit_key x = item_audit_key i \<and> \<not> read_available x
     \<and> read_artifact x = None \<and> read_reason x = Some reason"
  by (auto simp: unavailable_def split: if_splits)

lemma read_history_item_shows:
  assumes "read_history_item g seen repo audit tolerate i s = (Inr x, t)"
  shows "read_audit_key x = item_audit_key i \<and> (read_available x \<or> tolerate)
    \<and> (read_available x \<longrightarrow> (\<exists>a. audit = Some a \<and> shows_report g repo a s x))"
proof (cases audit)
  case None
  with assms show ?thesis by (auto simp: read_history_item_def io_simps dest: unavailable_InrD)
next
  case (Some a)
  let ?group = "or_str (audit_metric_group a) (audit_action_key a)"
  let ?missing = "unavailable i ''artifact_not_found'' tolerate"
  have gone: "?thesis" if "?missing = Inr x" using unavailable_InrD [OF that] by simp
  from assms Some have "unless_missing (gateway_reports g repo ?group) ?missing (\<lambda>refs.
      case choose_report_ref refs of None \<Rightarrow> liftM ?missing
      | Some ref \<Rightarrow> (case ref_task_id ref of None \<Rightarrow> liftM ?missing
        | Some task \<Rightarrow> unless_missing (gateway_snapshot g repo (item_audit_key i) ?group task) ?missing (\<lambda>artifact.
            retM \<lparr>read_audit_key = item_audit_key i, read_available = True,
              read_artifact = Some (artifact\<lparr>artifact_task_id := Some task,
                artifact_completed_at := ref_completed_at ref, artifact_collected_at := ref_collected_at ref\<rparr>),
              read_reason = None, read_freshness = item_freshness i,
              read_newer_run = newer_run_for_report ref (observed_runs seen) (Some (item_audit_key i))
                (freshness_state (item_freshness i) = Stale)\<rparr>))) s = (Inr x, t)"
    by (simp add: read_history_item_def Let_def)
  then show ?thesis
  proof (cases rule: unless_missing_InrE)
    case (missing e)
    then show ?thesis by (intro gone)
  next
    case (found refs u)
    show ?thesis
    proof (cases "\<exists>ref task. choose_report_ref refs = Some ref \<and> ref_task_id ref = Some task")
      case False
      with found(2) show ?thesis by (intro gone) (auto simp: io_simps split: option.splits)
    next
      case True
      then obtain ref task where ref: "choose_report_ref refs = Some ref" "ref_task_id ref = Some task" by blast
      with found(2) have "unless_missing (gateway_snapshot g repo (item_audit_key i) ?group task) ?missing (\<lambda>artifact.
            retM \<lparr>read_audit_key = item_audit_key i, read_available = True,
              read_artifact = Some (artifact\<lparr>artifact_task_id := Some task,
                artifact_completed_at := ref_completed_at ref, artifact_collected_at := ref_collected_at ref\<rparr>),
              read_reason = None, read_freshness = item_freshness i,
              read_newer_run = newer_run_for_report ref (observed_runs seen) (Some (item_audit_key i))
                (freshness_state (item_freshness i) = Stale)\<rparr>) u = (Inr x, t)" by simp
      then show ?thesis
      proof (cases rule: unless_missing_InrE)
        case (missing e)
        then show ?thesis by (intro gone)
      next
        case (found artifact v)
        with \<open>gateway_reports g repo ?group s = _\<close> ref Some show ?thesis
          by (auto simp: io_simps intro!: shows_reportI)
      qed
    qed
  qed
qed

lemma selected_items:
  assumes "select_artifacts status selectors all_artifacts catalog = Inr selected" and "selectors \<noteq> []"
  shows "list_all2 (\<lambda>sel i. i \<in> set status \<and> (\<exists>a\<in>set (published_audits catalog). audit_selector a = Inr sel
    \<and> audit_action_key a = item_audit_key i)) selectors selected"
proof -
  from assms obtain lookup where lookup: "by_selector (published_audits catalog) = Inr lookup"
    and sel: "mapR (\<lambda>s. case Option.bind (lookup s) (\<lambda>a. if audit_action_key a = [] then None
               else dict_by item_audit_key status (audit_action_key a)) of
             None \<Rightarrow> Inl (AuditArtifactUnavailableError s ''status not found'') | Some i \<Rightarrow> Inr i) selectors = Inr selected"
    by (auto simp: select_artifacts_def result_simps split: if_splits)
  have found: "a \<in> set (published_audits catalog) \<and> audit_selector a = Inr s" if "lookup s = Some a" for s a
  proof -
    obtain pairs where pairs: "list_all2 (\<lambda>a p. bindR (audit_selector a) (\<lambda>s. Inr (s, a)) = Inr p) (published_audits catalog) pairs"
        and "lookup = (\<lambda>s. map_option snd (dict_by fst pairs s))"
      using lookup by (auto simp: by_selector_def result_simps mapR_Inr_iff)
    with that have "(s, a) \<in> set pairs" by (auto dest!: dict_by_SomeD)
    then obtain i where i: "i < length pairs" "pairs ! i = (s, a)" by (auto simp: in_set_conv_nth)
    let ?b = "published_audits catalog ! i"
    have "?b \<in> set (published_audits catalog)" and "bindR (audit_selector ?b) (\<lambda>s. Inr (s, ?b)) = Inr (s, a)"
      using i list_all2_lengthD [OF pairs] list_all2_nthD2 [OF pairs, of i] by auto
    then show ?thesis by (auto simp: result_simps)
  qed
  show ?thesis
    using sel unfolding mapR_Inr_iff
    by (rule list_all2_mono) (auto split: option.splits bind_splits if_splits dest!: found dict_by_SomeD)
qed

text \<open>What a read returns answers what was asked for.  With \<open>--all\<close> there is one item per published
  audit, in the order of the catalog; with selectors one per selector, in their order, and each of them
  available, an audit without a report being an error; with neither, the available ones.  An available
  item shows the first usable report of the service's listing, with the body of the snapshot of its task.\<close>

lemma reads_answer_selection:
  assumes "read_for_repo d repo selectors all_audits None s = (Inr items, t)" and "deps_frozen_catalog d = Some catalog"
  shows "\<exists>seen u. workflow_observation d repo s = (Inr seen, u)
    \<and> (if all_audits then map read_audit_key items = map audit_action_key (published_audits catalog)
      else if selectors = [] then \<forall>x\<in>set items. read_available x
      else list_all2 (\<lambda>sel x. read_available x \<and> (\<exists>a\<in>set (published_audits catalog). audit_selector a = Inr sel
        \<and> audit_action_key a = read_audit_key x)) selectors items)
    \<and> (\<forall>x\<in>set items. read_available x \<longrightarrow> (\<exists>a\<in>set (published_audits catalog).
        audit_action_key a = read_audit_key x \<and> shows_report (deps_gateway d) repo a u x))"
proof -
  let ?defs = "dict_by audit_action_key (published_audits catalog)"
  obtain seen u where "workflow_observation d repo s = (Inr seen, u)"
    and rest: "bindM (liftM (build_status repo catalog (observed_links seen) (observed_runs seen) (Some (observed_rerun seen)))) (\<lambda>st.
     bindM (liftM (select_artifacts (status_items st) selectors all_audits catalog)) (\<lambda>selected.
       bindM (fanout_reads (\<lambda>i. read_history_item (deps_gateway d) seen repo (?defs (item_audit_key i)) (selectors = []) i) selected)
         (\<lambda>results. retM (if selectors = [] \<and> \<not> all_audits then filter read_available results else results)))) u = (Inr items, t)"
    using assms by (auto simp: read_for_repo_def workflow_catalog_def io_simps Let_def elim!: bindM_InrE)
  obtain st where st: "build_status repo catalog (observed_links seen) (observed_runs seen) (Some (observed_rerun seen)) = Inr st"
    and keys: "map item_audit_key (status_items st) = map audit_action_key (published_audits catalog)"
    using build_status_total by blast
  from rest st obtain selected results where
      selected: "select_artifacts (status_items st) selectors all_audits catalog = Inr selected"
    and reads: "mapR (\<lambda>i. fst (read_history_item (deps_gateway d) seen repo (?defs (item_audit_key i)) (selectors = []) i u)) selected
      = Inr results"
    and items: "items = (if selectors = [] \<and> \<not> all_audits then filter read_available results else results)"
    by (auto simp: fanout_reads_def io_simps elim!: bindM_InrE)
  have shown: "read_audit_key x = item_audit_key i \<and> (read_available x \<or> selectors = [])
      \<and> (read_available x \<longrightarrow> (\<exists>a. ?defs (item_audit_key i) = Some a \<and> shows_report (deps_gateway d) repo a u x))"
    if "fst (read_history_item (deps_gateway d) seen repo (?defs (item_audit_key i)) (selectors = []) i u) = Inr x" for i x
    using that by (intro read_history_item_shows [of _ seen _ _ _ _ u _
      "snd (read_history_item (deps_gateway d) seen repo (?defs (item_audit_key i)) (selectors = []) i u)"]) (simp add: prod_eq_iff)
  have pairs: "list_all2 (\<lambda>i x. read_audit_key x = item_audit_key i \<and> (read_available x \<or> selectors = [])
      \<and> (read_available x \<longrightarrow> (\<exists>a\<in>set (published_audits catalog). audit_action_key a = read_audit_key x
            \<and> shows_report (deps_gateway d) repo a u x))) selected results"
    using reads unfolding mapR_Inr_iff
    by (rule list_all2_mono) (use shown in \<open>fastforce dest: dict_by_SomeD\<close>)
  have "map read_audit_key results = map item_audit_key selected"
    using pairs by (induction rule: list_all2_induct) auto
  moreover have "all_audits \<Longrightarrow> selected = status_items st \<and> selectors = []"
    using selected by (auto simp: select_artifacts_def split: if_splits)
  moreover have "list_all2 (\<lambda>sel x. read_available x \<and> (\<exists>a\<in>set (published_audits catalog). audit_selector a = Inr sel
        \<and> audit_action_key a = read_audit_key x)) selectors results" if "selectors \<noteq> []"
    using list_all2_trans [OF _ selected_items [OF selected that] pairs] that by fastforce
  moreover have "\<forall>x\<in>set results. read_available x \<longrightarrow> (\<exists>a\<in>set (published_audits catalog).
        audit_action_key a = read_audit_key x \<and> shows_report (deps_gateway d) repo a u x)"
    using pairs by (auto simp: list_all2_conv_all_nth in_set_conv_nth)
  ultimately show ?thesis using items keys \<open>workflow_observation d repo s = _\<close> by auto
qed

subsection \<open>Samples\<close>

definition sample_ref :: audit_report_ref where
  "sample_ref = \<lparr>ref_task_id = Some ''t0'', ref_completed_at = Some ''2026-01-01T00:00:00+00:00'',
     ref_collected_at = None, ref_has_report = True\<rparr>"

definition sample_reports :: "unit workflow_dependencies" where
  "sample_reports = \<lparr>deps_catalog = retM sample_catalog_result,
     deps_gateway = \<lparr>gateway_task_links = \<lambda>_. retM [], gateway_active_runs = \<lambda>_. retM [], gateway_rerun = \<lambda>_. retM sample_rerun,
       gateway_task_detail = \<lambda>_. throwM (KeyError ''task''),
       gateway_reports = \<lambda>_ group. if group = ''quality'' then retM [sample_ref\<lparr>ref_has_report := False\<rparr>, sample_ref] else throwM (KeyError ''task''),
       gateway_snapshot = \<lambda>_ key _ task. if task = ''t0'' then retM \<lparr>artifact_audit_key = key, artifact_body = ''body'',
         artifact_score = None, artifact_generated_at = None, artifact_task_id = None, artifact_completed_at = None,
         artifact_collected_at = None\<rparr> else throwM (KeyError ''task'')\<rparr>,
     deps_frozen_catalog = Some sample_catalog, deps_observation = None\<rparr>"

lemma sample_ref_completed: "truthy (ref_task_id sample_ref)" "parse_time (ref_completed_at sample_ref) = Some 63902822400000000"
  by code_simp+

theorem newer_run_exact_witness:
  "newer_run_for_report sample_ref [sample_run None] (Some ''audit.tests'') True = Some (newer_run_of (sample_run None))"
proof -
  have "supersedes sample_ref (Some ''audit.tests'') True (sample_run None)"
    by (simp add: supersedes_def sample_run_is_active sample_run_action) (simp add: sample_run_def)
  then show ?thesis
    using newer_run_exact [of sample_ref "[sample_run None]" "Some ''audit.tests''" True]
    by (auto simp: sample_ref_completed split: option.splits)
qed

lemma reads_answer_selection_witness:
  "\<exists>x. fst (read_for_repo sample_reports ''r'' [''tests''] False None ()) = Inr [x] \<and> read_available x
     \<and> shows_report (deps_gateway sample_reports) ''r'' (sample_audit ''audit.tests'' (Some ''quality'')) () x"
proof -
  have "map_sum (\<lambda>_. ()) length (fst (read_for_repo sample_reports ''r'' [''tests''] False None ())) = Inr 1"
    by code_simp
  then obtain x where x: "read_for_repo sample_reports ''r'' [''tests''] False None () = (Inr [x], ())"
    by (cases "read_for_repo sample_reports ''r'' [''tests''] False None ()"; cases "fst (read_for_repo sample_reports ''r'' [''tests''] False None ())")
      (auto simp: length_Suc_conv)
  have "deps_frozen_catalog sample_reports = Some sample_catalog" by (simp add: sample_reports_def)
  from reads_answer_selection [OF x this] x show ?thesis by (auto simp: sample_catalog_def)
qed

end
