(* ===== verification/Settings.thy ===== *)
theory Settings
  imports Transport
begin

section \<open>Settings (settings.py)\<close>

text \<open>
  The settings objects with the checks their constructors make and the defaults.  A check raises
  \<open>ValueError\<close>; the paths of the files are strings below the configuration root.
\<close>

subsection \<open>Checks\<close>

definition require_non_empty :: "string \<Rightarrow> string \<Rightarrow> unit result" where
  "require_non_empty name v = (if py_strip v = [] then Inl (ValueError (name @ '' must not be empty'')) else Inr ())"

definition require_positive :: "string \<Rightarrow> rat \<Rightarrow> unit result" where
  "require_positive name v = (if v \<le> 0 then Inl (ValueError (name @ '' must be positive'')) else Inr ())"

definition require_non_negative :: "string \<Rightarrow> rat \<Rightarrow> unit result" where
  "require_non_negative name v = (if v < 0 then Inl (ValueError (name @ '' must be non-negative'')) else Inr ())"

text \<open>The allowed names are given in their sorted order, in which the message lists them.\<close>

definition require_one_of :: "string \<Rightarrow> string \<Rightarrow> string list \<Rightarrow> unit result" where
  "require_one_of name v allowed = (if v \<notin> set allowed
     then Inl (ValueError (name @ '' must be one of: '' @ py_join '', '' allowed)) else Inr ())"

definition require :: "bool \<Rightarrow> string \<Rightarrow> unit result" where
  "require ok m = (if ok then Inr () else Inl (ValueError m))"

fun all_checks :: "unit result list \<Rightarrow> unit result" where
  "all_checks [] = Inr ()"
| "all_checks (c # cs) = bindR c (\<lambda>_. all_checks cs)"

lemma all_checks_iff: "all_checks cs = Inr () \<longleftrightarrow> (\<forall>c\<in>set cs. c = Inr ())"
  by (induction cs) (auto simp: result_simps split: sum.splits)

declare all_checks.simps [simp del]

lemma require_iff:
  "require_non_empty n s = Inr () \<longleftrightarrow> py_strip s \<noteq> []"
  "require_positive n v = Inr () \<longleftrightarrow> 0 < v"
  "require_non_negative n v = Inr () \<longleftrightarrow> 0 \<le> v"
  "require_one_of n s allowed = Inr () \<longleftrightarrow> s \<in> set allowed"
  "require ok m = Inr () \<longleftrightarrow> ok"
  by (auto simp: require_non_empty_def require_positive_def require_non_negative_def require_one_of_def require_def)

subsection \<open>Authentication\<close>

record auth_settings =
  auth_base_url :: string
  auth_file :: string
  guard_origin :: string
  guard_referer :: string

definition validate_auth_settings :: "auth_settings \<Rightarrow> unit result" where
  "validate_auth_settings c = all_checks
     [require_non_empty ''auth.base_url'' (auth_base_url c), require_non_empty ''auth.guard_origin'' (guard_origin c),
      require_non_empty ''auth.guard_referer'' (guard_referer c)]"

record auto_refresh_settings =
  refresh_enabled :: bool
  lead_seconds :: int
  fallback_seconds :: int
  revision_poll_seconds :: rat
  retry_limit :: int
  retry_initial_seconds :: rat
  retry_max_seconds :: rat
  retry_jitter_seconds :: rat

definition validate_auto_refresh_settings :: "auto_refresh_settings \<Rightarrow> unit result" where
  "validate_auto_refresh_settings c = all_checks
     [require_non_negative ''auto_refresh.lead_seconds'' (of_int (lead_seconds c)),
      require_positive ''auto_refresh.fallback_seconds'' (of_int (fallback_seconds c)),
      require_positive ''auto_refresh.revision_poll_seconds'' (revision_poll_seconds c),
      require_non_negative ''auto_refresh.pre_dispatch_retry_limit'' (of_int (retry_limit c)),
      require_positive ''auto_refresh.pre_dispatch_retry_initial_seconds'' (retry_initial_seconds c),
      require_positive ''auto_refresh.pre_dispatch_retry_max_seconds'' (retry_max_seconds c),
      require_non_negative ''auto_refresh.pre_dispatch_retry_jitter_seconds'' (retry_jitter_seconds c),
      require (retry_initial_seconds c \<le> retry_max_seconds c)
        ''auto_refresh.pre_dispatch_retry_initial_seconds must be <= max seconds'']"

subsection \<open>Transport\<close>

definition validate_retry_settings :: "retry_config \<Rightarrow> unit result" where
  "validate_retry_settings c = all_checks
     ([require_non_negative ''transport.retry.total'' (of_int (retry_total c)),
       require_non_negative ''transport.retry.backoff_factor'' (backoff_factor c),
       require_positive ''transport.retry.max_delay_seconds'' (max_delay_seconds c),
       require_non_negative ''transport.retry.jitter_seconds'' (jitter_seconds c),
       require (status_forcelist c \<noteq> []) ''transport.retry.retryable_status_codes must not be empty'']
      @ map (\<lambda>s. require (100 \<le> s \<and> s \<le> 599) ''transport.retry.retryable_status_codes must be valid HTTP status codes'')
          (status_forcelist c))"

record pool_settings =
  max_connections :: int
  max_keepalive_connections :: int
  keepalive_expiry_seconds :: rat

definition validate_pool_settings :: "pool_settings \<Rightarrow> unit result" where
  "validate_pool_settings c = all_checks
     [require_positive ''transport.pool.max_connections'' (of_int (max_connections c)),
      require_non_negative ''transport.pool.max_keepalive_connections'' (of_int (max_keepalive_connections c)),
      require_positive ''transport.pool.keepalive_expiry_seconds'' (keepalive_expiry_seconds c),
      require (max_keepalive_connections c \<le> max_connections c)
        ''transport.pool.max_keepalive_connections must be <= max_connections'']"

record transport_settings =
  transport_timeout_seconds :: rat
  transport_retry :: retry_config
  transport_pool :: pool_settings

definition validate_transport_settings :: "transport_settings \<Rightarrow> unit result" where
  "validate_transport_settings c = require_positive ''transport.timeout_seconds'' (transport_timeout_seconds c)"

subsection \<open>Telemetry, service and readiness\<close>

definition LOG_LEVEL_NAMES :: "string list" where
  "LOG_LEVEL_NAMES = [''CRITICAL'', ''DEBUG'', ''ERROR'', ''INFO'', ''WARNING'']"

definition LOG_FORMAT_NAMES :: "string list" where
  "LOG_FORMAT_NAMES = [''json'', ''text'']"

definition REPOSITORY_SORT_NAMES :: "string list" where
  "REPOSITORY_SORT_NAMES = [''default'', ''latest-audit'', ''name'', ''overall'', ''weakest'']"

record telemetry_settings =
  level_name :: string
  log_format :: string
  log_file :: "string option"
  max_bytes :: int
  backup_count :: int

definition validate_telemetry_settings :: "telemetry_settings \<Rightarrow> unit result" where
  "validate_telemetry_settings c = all_checks
     [require_one_of ''telemetry.level_name'' (level_name c) LOG_LEVEL_NAMES,
      require_one_of ''telemetry.log_format'' (log_format c) LOG_FORMAT_NAMES,
      require_positive ''telemetry.max_bytes'' (of_int (max_bytes c)),
      require_non_negative ''telemetry.backup_count'' (of_int (backup_count c))]"

record service_settings =
  local_readiness_timeout_seconds :: rat
  mcp_graceful_shutdown_timeout_seconds :: rat

definition validate_service_settings :: "service_settings \<Rightarrow> unit result" where
  "validate_service_settings c = all_checks
     [require_positive ''service.local_readiness_timeout_seconds'' (local_readiness_timeout_seconds c),
      require_positive ''service.mcp_graceful_shutdown_timeout_seconds'' (mcp_graceful_shutdown_timeout_seconds c)]"

record readiness_settings =
  readiness_enabled :: bool
  readiness_state_file :: string
  heartbeat_interval_seconds :: int
  heartbeat_timeout_seconds :: rat
  failure_threshold :: int
  state_stale_after_seconds :: int

definition validate_readiness_settings :: "readiness_settings \<Rightarrow> unit result" where
  "validate_readiness_settings c = all_checks
     [require_positive ''readiness.heartbeat_interval_seconds'' (of_int (heartbeat_interval_seconds c)),
      require_positive ''readiness.heartbeat_timeout_seconds'' (heartbeat_timeout_seconds c),
      require_positive ''readiness.failure_threshold'' (of_int (failure_threshold c)),
      require_positive ''readiness.state_stale_after_seconds'' (of_int (state_stale_after_seconds c))]"

definition ready_after_failure_count :: "readiness_settings \<Rightarrow> int" where
  "ready_after_failure_count c = failure_threshold c - 1"

subsection \<open>Audits, repositories and fan-out\<close>

record audit_wait_settings =
  wait_poll_seconds :: int
  wait_timeout_seconds :: int
  wait_timeout_text :: string
  wait_heartbeat_seconds :: int

definition validate_audit_wait_settings :: "audit_wait_settings \<Rightarrow> unit result" where
  "validate_audit_wait_settings c = all_checks
     [require_positive ''audit_wait.poll_seconds'' (of_int (wait_poll_seconds c)),
      require_positive ''audit_wait.timeout_seconds'' (of_int (wait_timeout_seconds c)),
      require_non_empty ''audit_wait.timeout_text'' (wait_timeout_text c),
      require_positive ''audit_wait.heartbeat_seconds'' (of_int (wait_heartbeat_seconds c)),
      require (wait_poll_seconds c \<le> wait_timeout_seconds c) ''audit_wait.timeout_seconds must be >= poll_seconds'']"

record ledger_settings =
  ledger_state_file :: string
  ledger_ttl_seconds :: int
  ledger_lookup_grace_seconds :: int

definition validate_ledger_settings :: "ledger_settings \<Rightarrow> unit result" where
  "validate_ledger_settings c = all_checks
     [require_positive ''active_run_ledger.ttl_seconds'' (of_int (ledger_ttl_seconds c)),
      require_non_negative ''active_run_ledger.lookup_grace_seconds'' (of_int (ledger_lookup_grace_seconds c))]"

record settings =
  auth_settings :: auth_settings
  auto_refresh_settings :: auto_refresh_settings
  transport_settings :: transport_settings
  telemetry_settings :: telemetry_settings
  service_settings :: service_settings
  readiness_settings :: readiness_settings
  audit_wait_settings :: audit_wait_settings
  repo_default_sort :: string
  ledger_settings :: ledger_settings
  catalog_state_file :: string
  max_concurrency :: int

text \<open>The checks of all the objects \<open>default_settings\<close> builds, in the order it builds them.\<close>

definition validate_settings :: "settings \<Rightarrow> unit result" where
  "validate_settings c = all_checks
     [validate_auth_settings (auth_settings c), validate_auto_refresh_settings (auto_refresh_settings c),
      validate_retry_settings (transport_retry (transport_settings c)),
      validate_pool_settings (transport_pool (transport_settings c)), validate_transport_settings (transport_settings c),
      validate_telemetry_settings (telemetry_settings c), validate_service_settings (service_settings c),
      validate_readiness_settings (readiness_settings c), validate_audit_wait_settings (audit_wait_settings c),
      require_one_of ''repo.default_sort'' (repo_default_sort c) REPOSITORY_SORT_NAMES,
      validate_ledger_settings (ledger_settings c),
      require_positive ''fanout.max_concurrency'' (of_int (max_concurrency c))]"

definition default_settings :: "string \<Rightarrow> settings" where
  "default_settings home =
     (let root = home @ ''/.config/enji-guard'' in
      \<lparr>auth_settings = \<lparr>auth_base_url = ''https://fleet.enji.ai'', auth_file = root @ ''/auth.json'',
         guard_origin = ''https://guard.enji.ai'', guard_referer = ''https://guard.enji.ai/''\<rparr>,
       auto_refresh_settings = \<lparr>refresh_enabled = True, lead_seconds = 480, fallback_seconds = 900,
         revision_poll_seconds = 5, retry_limit = 3, retry_initial_seconds = 1, retry_max_seconds = 10,
         retry_jitter_seconds = 1 / 4\<rparr>,
       transport_settings = \<lparr>transport_timeout_seconds = DEFAULT_TRANSPORT_TIMEOUT_SECONDS,
         transport_retry = DEFAULT_RETRY_CONFIG,
         transport_pool = \<lparr>max_connections = 20, max_keepalive_connections = 20, keepalive_expiry_seconds = 5\<rparr>\<rparr>,
       telemetry_settings = \<lparr>level_name = ''INFO'', log_format = ''json'', log_file = Some (root @ ''/logs/telemetry.jsonl''),
         max_bytes = 10000000, backup_count = 5\<rparr>,
       service_settings = \<lparr>local_readiness_timeout_seconds = 2, mcp_graceful_shutdown_timeout_seconds = 5\<rparr>,
       readiness_settings = \<lparr>readiness_enabled = True, readiness_state_file = root @ ''/state/readiness.json'',
         heartbeat_interval_seconds = 300, heartbeat_timeout_seconds = 5, failure_threshold = 3,
         state_stale_after_seconds = 900\<rparr>,
       audit_wait_settings = \<lparr>wait_poll_seconds = 30, wait_timeout_seconds = 2700, wait_timeout_text = ''45m'',
         wait_heartbeat_seconds = 120\<rparr>,
       repo_default_sort = ''default'',
       ledger_settings = \<lparr>ledger_state_file = root @ ''/state/active-runs.json'', ledger_ttl_seconds = 21600,
         ledger_lookup_grace_seconds = 300\<rparr>,
       catalog_state_file = root @ ''/state/audit-catalog.json'', max_concurrency = 8\<rparr>)"

end
