(* ===== verification/Settings_Properties.thy ===== *)
theory Settings_Properties
  imports Settings Audit_Status
begin

section \<open>Properties of the settings\<close>

text \<open>What settings that pass their checks guarantee to the components that are configured by them.\<close>



end
