(* ===== verification/Auth_Session.thy ===== *)
theory Auth_Session
  imports Auth_Operations Transport
begin

section \<open>The auth session (auth\_session/projection.py, api.py, api\_key.py, adapters.py, service.py)\<close>

text \<open>
  What the rest of the program sees of the credential files: the projection of a storage snapshot, the
  credential a request is made with, the status and readiness observations, and the imports.  A
  computation runs on the files of the credential path and a world \<open>'s\<close> of the network and the
  monotonic clock.  The path of the credential file, which payloads carry, is not modelled.
\<close>

subsection \<open>Projections\<close>

datatype auth_projection =
    CredentialReady stored_auth
  | RotationReserved stored_auth rotation_state
  | RotationInProgress stored_auth rotation_state
  | RotationRecoveryAvailable stored_auth rotation_state
  | RotationRecovering stored_auth rotation_state rotation_attempt
  | RotationRecoveryExhausted stored_auth rotation_state rotation_attempt
  | ReimportRequired stored_auth rotation_state
  | CredentialAbsent
  | CredentialCorrupt string
  | CredentialUnsupported json
  | CredentialIoFailure string string
  | CredentialClockAnomaly
  | JournalCorruptProjection string
  | JournalIoFailureProjection string string
  | JournalImpossibleState rotation_state

record refresh_projection =
  refresh_state :: "string option"
  reauth_required :: bool
  refresh_message :: "string option"

fun project_matching_rotation_state :: "stored_auth \<Rightarrow> rotation_state \<Rightarrow> rotation_attempt option \<Rightarrow> auth_projection" where
  "project_matching_rotation_state a (Reserved r) attempt = RotationReserved a (Reserved r)"
| "project_matching_rotation_state a (Requested r) attempt = RotationInProgress a (Requested r)"
| "project_matching_rotation_state a (Rotated r h n) attempt = RotationRecoveryAvailable a (Rotated r h n)"
| "project_matching_rotation_state a (OutcomeUnknown r m) attempt =
     (case attempt of
        None \<Rightarrow> ReimportRequired a (OutcomeUnknown r m)
      | Some t \<Rightarrow> (case continuation t of
            None \<Rightarrow> ReimportRequired a (OutcomeUnknown r m)
          | Some Stop \<Rightarrow> RotationRecoveryExhausted a (OutcomeUnknown r m) t
          | Some (Continue _) \<Rightarrow> RotationRecovering a (OutcomeUnknown r m) t))"
| "project_matching_rotation_state a (Rejected r m) attempt = ReimportRequired a (Rejected r m)"
| "project_matching_rotation_state a (Ready r) attempt = JournalImpossibleState (Ready r)"

definition project_rotation_state :: "stored_auth \<Rightarrow> rotation_state \<Rightarrow> rotation_attempt option \<Rightarrow> auth_projection" where
  "project_rotation_state a s attempt =
     (if is_ready s then JournalImpossibleState s
      else if source_revision s \<noteq> revision a then CredentialReady a
      else project_matching_rotation_state a s attempt)"

fun project_loaded :: "stored_auth \<Rightarrow> journal_load_result \<Rightarrow> auth_projection" where
  "project_loaded a JournalAbsent = CredentialReady a"
| "project_loaded a (JournalCorrupt detail) = JournalCorruptProjection detail"
| "project_loaded a (JournalIoFailure op err) = JournalIoFailureProjection op err"
| "project_loaded a (JournalLoaded s enqueued attempt migrated) = project_rotation_state a s attempt"

fun project_auth :: "auth_load_result \<Rightarrow> journal_load_result \<Rightarrow> auth_projection" where
  "project_auth (AuthLoaded a) journal = project_loaded a journal"
| "project_auth AuthAbsent journal = CredentialAbsent"
| "project_auth (AuthCorrupt detail) journal = CredentialCorrupt detail"
| "project_auth (AuthUnsupported version) journal = CredentialUnsupported version"
| "project_auth (AuthIoFailure op err) journal = CredentialIoFailure op err"
| "project_auth AuthClockAnomaly journal = CredentialClockAnomaly"

text \<open>The credential a request may use, or the code and message of an \<open>AuthProjectionError\<close>.\<close>

fun network_credential :: "auth_projection \<Rightarrow> (string \<times> string) + stored_auth" where
  "network_credential (CredentialReady a) = Inr a"
| "network_credential (RotationReserved a _) = Inr a"
| "network_credential (RotationInProgress a _) = Inr a"
| "network_credential (RotationRecovering a _ _) = Inr a"
| "network_credential (RotationRecoveryExhausted a _ _) = Inr a"
| "network_credential (ReimportRequired a _) = Inr a"
| "network_credential (RotationRecoveryAvailable _ _) = Inl (''AUTH_ROTATION_RECOVERY_PENDING'',
     ''auth rotation recovery is pending; restart the service or import a fresh browser credential'')"
| "network_credential CredentialAbsent = Inl (''AUTH_REQUIRED'', ''auth file does not exist'')"
| "network_credential (CredentialCorrupt _) =
     Inl (''AUTH_CORRUPT'', ''auth file is corrupt; import a fresh browser credential'')"
| "network_credential (CredentialUnsupported _) =
     Inl (''AUTH_UNSUPPORTED'', ''auth file version is unsupported; import a fresh browser credential'')"
| "network_credential (CredentialIoFailure _ _) = Inl (''AUTH_IO_FAILURE'', ''auth credential storage is unavailable'')"
| "network_credential CredentialClockAnomaly = Inl (''AUTH_CLOCK_ANOMALY'', ''auth file imported_at is in the future'')"
| "network_credential (JournalCorruptProjection _) =
     Inl (''AUTH_JOURNAL_CORRUPT'', ''refresh journal is corrupt; import a fresh browser credential'')"
| "network_credential (JournalIoFailureProjection _ _) =
     Inl (''AUTH_JOURNAL_IO_FAILURE'', ''refresh journal storage is unavailable'')"
| "network_credential (JournalImpossibleState _) =
     Inl (''AUTH_JOURNAL_INVALID'', ''refresh journal contains an invalid state'')"

definition renewal :: "string option \<Rightarrow> bool \<Rightarrow> string option \<Rightarrow> refresh_projection" where
  "renewal st reauth m = \<lparr>refresh_state = st, reauth_required = reauth, refresh_message = m\<rparr>"

fun projected_reason :: "rotation_state \<Rightarrow> string" where
  "projected_reason (Rejected _ m) = m"
| "projected_reason (OutcomeUnknown _ m) = m"
| "projected_reason _ = []"

fun refresh_projection_status :: "auth_projection \<Rightarrow> refresh_projection" where
  "refresh_projection_status (CredentialReady _) = renewal None False None"
| "refresh_projection_status (RotationReserved _ _) = renewal (Some ''reserved'') False None"
| "refresh_projection_status (RotationInProgress _ _) = renewal (Some ''requested'') False None"
| "refresh_projection_status (RotationRecoveryAvailable _ _) = renewal (Some ''rotated'') False
     (Some ''auth rotation recovery is pending; restart the service or import a fresh browser credential'')"
| "refresh_projection_status (RotationRecovering _ s _) = renewal (Some ''recovering'') False
     (Some (''refresh recovery is scheduled ('' @ projected_reason s @ '')''))"
| "refresh_projection_status (RotationRecoveryExhausted _ s _) = renewal (Some ''exhausted'') True
     (Some (''refresh recovery is exhausted ('' @ projected_reason s @ ''); import a fresh browser credential''))"
| "refresh_projection_status (ReimportRequired _ s) = (case s of
       Rejected _ m \<Rightarrow> renewal (Some ''rejected'') True
         (Some (''refresh was rejected ('' @ m @ ''); import a fresh browser credential''))
     | OutcomeUnknown _ m \<Rightarrow> renewal (Some ''outcome_unknown'') True
         (Some (''refresh outcome is unknown ('' @ m @ ''); import a fresh browser credential''))
     | _ \<Rightarrow> renewal None True None)"
| "refresh_projection_status _ = renewal None True None"

subsection \<open>Computations on the files and the network\<close>

type_synonym ('s, 'a) session_io = "(auth_world \<times> 's, 'a) io"

definition on_store :: "'a auth_io \<Rightarrow> ('s, 'a) session_io" where
  "on_store m w = (case m (fst w) of (r, v) \<Rightarrow> (r, (v, snd w)))"

definition on_net :: "('s, 'a) io \<Rightarrow> ('s, 'a) session_io" where
  "on_net m w = (case m (snd w) of (r, v) \<Rightarrow> (r, (fst w, v)))"

definition auth_projection_of :: "auth_projection auth_io" where
  "auth_projection_of = bindM load_auth (\<lambda>loaded. bindM load_journal (\<lambda>journal. retM (project_auth loaded journal)))"

subsection \<open>Credentials for requests\<close>

record request_credentials =
  credentials_base_url :: string
  credentials_headers :: "(string \<times> string) list"
  credentials_type :: string

definition credential_type_of :: "credential \<Rightarrow> string" where
  "credential_type_of c = (case c of CookieCredential _ \<Rightarrow> ''cookie'' | BearerTokenCredential _ \<Rightarrow> ''bearer_token'')"

definition auth_headers :: "stored_auth \<Rightarrow> (string \<times> string) list" where
  "auth_headers a = (case auth_credential a of
       CookieCredential header \<Rightarrow> [(''Cookie'', header)]
     | BearerTokenCredential token \<Rightarrow> [(''Authorization'', ''Bearer '' @ token)])"

text \<open>A \<open>CredentialError\<close> is its code and message.\<close>

type_synonym 'a credential_result = "(string \<times> string) + 'a"

definition stored_credential_load :: "string \<Rightarrow> request_credentials credential_result auth_io" where
  "stored_credential_load guard_origin = bindM auth_projection_of (\<lambda>p. retM (case network_credential p of
       Inl failure \<Rightarrow> Inl failure
     | Inr a \<Rightarrow> Inr \<lparr>credentials_base_url = base_url a, credentials_headers = auth_headers a @ [(''Origin'', guard_origin)],
         credentials_type = credential_type_of (auth_credential a)\<rparr>))"

definition parse_api_key :: "string \<Rightarrow> string credential_result" where
  "parse_api_key raw =
     (let v = py_strip raw in
      if v = [] \<or> list_ex py_isspace v
      then Inl (''API_KEY_INVALID'', ''the Enji API key is empty or contains whitespace'') else Inr v)"

definition api_key_credentials :: "string \<Rightarrow> string \<Rightarrow> request_credentials" where
  "api_key_credentials base key = \<lparr>credentials_base_url = base,
     credentials_headers = [(''Authorization'', ''Bearer '' @ key)], credentials_type = ''api_key''\<rparr>"

text \<open>
  \<open>getenv\<close> and \<open>read_file\<close> are the environment and the reading of a file after \<open>~\<close> is
  expanded; the message of an \<open>OSError\<close> is its \<open>strerror\<close>.
\<close>

definition blank_to_none :: "string option \<Rightarrow> string option" where
  "blank_to_none v = (case v of None \<Rightarrow> None | Some s \<Rightarrow> if py_strip s = [] then None else Some s)"

definition api_key_from_environment :: "(string \<Rightarrow> string option) \<Rightarrow> (string \<Rightarrow> string result)
    \<Rightarrow> string option credential_result result" where
  "api_key_from_environment getenv read_file =
     (case (blank_to_none (getenv ''ENJI_GUARD_API_KEY''), blank_to_none (getenv ''ENJI_GUARD_API_KEY_FILE'')) of
        (Some _, Some _) \<Rightarrow> Inr (Inl (''API_KEY_CONFIG_CONFLICT'',
            ''configure only one of ENJI_GUARD_API_KEY and ENJI_GUARD_API_KEY_FILE''))
      | (Some inline, None) \<Rightarrow> Inr (map_sum id Some (parse_api_key inline))
      | (None, None) \<Rightarrow> Inr (Inr None)
      | (None, Some file_name) \<Rightarrow>
          (case read_file file_name of
             Inl e \<Rightarrow> if is_os_error e
               then Inr (Inl (''API_KEY_FILE_UNREADABLE'', ''cannot read the configured API-key file: '' @ exn_text e))
               else Inl e
           | Inr text \<Rightarrow> Inr (map_sum id Some (parse_api_key text))))"

definition environment_credential_load :: "(string \<Rightarrow> string option) \<Rightarrow> (string \<Rightarrow> string result) \<Rightarrow> string
    \<Rightarrow> request_credentials credential_result auth_io \<Rightarrow> request_credentials credential_result auth_io" where
  "environment_credential_load getenv read_file base fallback =
     bindM (liftM (api_key_from_environment getenv read_file)) (\<lambda>key. case key of
         Inl failure \<Rightarrow> retM (Inl failure)
       | Inr None \<Rightarrow> fallback
       | Inr (Some k) \<Rightarrow> retM (Inr (api_key_credentials base k)))"

subsection \<open>Imports\<close>

record import_payload =
  payload_credential_type :: string
  payload_cookie_count :: "nat option"

definition after_first :: "char \<Rightarrow> string \<Rightarrow> string" where
  "after_first c s = drop 1 (dropWhile (\<lambda>x. x \<noteq> c) s)"

definition normalize_bearer_token :: "string \<Rightarrow> string result" where
  "normalize_bearer_token raw =
     (let token = py_strip raw;
          token = (if starts_with (py_lower token) ''authorization:'' then py_strip (after_first CHR '':'' token) else token);
          token = (if starts_with (py_lower token) ''bearer '' then py_strip (after_first CHR '' '' token) else token) in
      if token = [] then Inl (ValueError ''token input is empty'') else Inr token)"

definition import_cookie :: "string \<Rightarrow> string \<Rightarrow> import_payload auth_io" where
  "import_cookie base raw =
     bindM (liftM (normalize_cookie_header raw)) (\<lambda>(header, count).
     bindM (make_stored_auth base (CookieCredential header) None) (\<lambda>a.
     bindM (import_credential a) (\<lambda>_.
       retM \<lparr>payload_credential_type = ''cookie'', payload_cookie_count = Some count\<rparr>)))"

definition import_bearer_token :: "string \<Rightarrow> string \<Rightarrow> import_payload auth_io" where
  "import_bearer_token base raw =
     bindM (liftM (normalize_bearer_token raw)) (\<lambda>token.
     bindM (make_stored_auth base (BearerTokenCredential token) None) (\<lambda>a.
     bindM (import_credential a) (\<lambda>_.
       retM \<lparr>payload_credential_type = ''bearer_token'', payload_cookie_count = None\<rparr>)))"

subsection \<open>Status\<close>

record auth_status_payload =
  status_authenticated :: bool
  status_error_code :: "string option"
  status_message :: "string option"
  status_credential_type :: "string option"
  status_refresh_state :: "string option"
  status_reauth_required :: bool
  status_email :: "string option"
  status_name :: "string option"
  status_user_id :: "string option"

text \<open>The renewal that accompanies a failure that calls for a new credential.\<close>

definition reauth_renewal :: "refresh_projection \<Rightarrow> refresh_projection" where
  "reauth_renewal p = renewal (refresh_state p) True None"

definition unauthenticated_payload :: "string option \<Rightarrow> string \<Rightarrow> string \<Rightarrow> refresh_projection \<Rightarrow> auth_status_payload" where
  "unauthenticated_payload kind code m r = \<lparr>status_authenticated = False, status_error_code = Some code,
     status_message = Some m, status_credential_type = kind, status_refresh_state = refresh_state r,
     status_reauth_required = reauth_required r, status_email = None, status_name = None, status_user_id = None\<rparr>"

definition authenticated_payload :: "string \<Rightarrow> string option \<times> string option \<times> string option \<Rightarrow> refresh_projection
    \<Rightarrow> auth_status_payload" where
  "authenticated_payload kind profile r = (case profile of (email, name, user) \<Rightarrow>
     \<lparr>status_authenticated = True, status_error_code = None, status_message = refresh_message r,
      status_credential_type = Some kind, status_refresh_state = refresh_state r,
      status_reauth_required = reauth_required r, status_email = email, status_name = name, status_user_id = user\<rparr>)"

definition profile_from_response :: "http_response \<Rightarrow> (string option \<times> string option \<times> string option) result" where
  "profile_from_response r = bindR (response_json ''auth status'' r) (\<lambda>v. Inr (case as_obj v of
       None \<Rightarrow> (None, None, None)
     | Some m \<Rightarrow> (as_str (jget m ''email''), as_str (jget m ''name''), as_str (jget m ''user_id''))))"

definition auth_status_request :: "rat \<Rightarrow> stored_auth \<Rightarrow> http_request" where
  "auth_status_request timeout a = \<lparr>http_method = ''GET'', http_url = base_url a @ ''/api/v1/auth/me'',
     http_operation = ''auth status'', http_headers = auth_headers a, http_profile = READ, http_body = None,
     http_timeout = timeout\<rparr>"

text \<open>\<open>except EnjiHttpError\<close> around a step on the network: the code, message and HTTP status it carries.\<close>

fun enji_status :: "exn \<Rightarrow> int option" where
  "enji_status (EnjiResponseError _ _ s _) = s"
| "enji_status _ = None"

definition try_enji :: "('s, 'a) session_io \<Rightarrow> (string \<Rightarrow> string \<Rightarrow> int option \<Rightarrow> ('s, 'b) session_io)
    \<Rightarrow> ('a \<Rightarrow> ('s, 'b) session_io) \<Rightarrow> ('s, 'b) session_io" where
  "try_enji m failed k w = (case m w of
       (Inl e, v) \<Rightarrow> (case enji_code e of
           Some code \<Rightarrow> failed code (exn_text e) (enji_status e) v
         | None \<Rightarrow> (Inl e, v))
     | (Inr x, v) \<Rightarrow> k x v)"

definition status_from_response :: "('s, 'x) transport_env_scheme \<Rightarrow> string \<Rightarrow> http_response \<Rightarrow> refresh_projection
    \<Rightarrow> ('s, auth_status_payload) session_io" where
  "status_from_response env kind r p =
     (if status_code r = 200
      then bindM (liftM (profile_from_response r)) (\<lambda>profile. retM (authenticated_payload kind profile p))
      else bindM (liftM (is_auth_invalid_response r)) (\<lambda>invalid.
        if invalid \<or> status_code r \<in> set HTTP_AUTH_FAILURE_CODES
        then retM (unauthenticated_payload (Some kind) ''AUTH_REQUIRED'' ''stored credential is not authenticated'' (reauth_renewal p))
        else try_enji (on_net (raise_for_response_status env r ''auth status'' (200 # HTTP_AUTH_FAILURE_CODES)))
          (\<lambda>code m _. retM (unauthenticated_payload (Some kind) code m p))
          (\<lambda>_. retM (unauthenticated_payload (Some kind) ''UPSTREAM'' ''auth status failed'' p))))"

definition auth_status_with_client :: "('s, 'x) transport_env_scheme \<Rightarrow> (http_request \<Rightarrow> ('s, http_response) io) \<Rightarrow> rat
    \<Rightarrow> stored_auth \<Rightarrow> refresh_projection \<Rightarrow> ('s, auth_status_payload) session_io" where
  "auth_status_with_client env client timeout a p =
     (let kind = credential_type_of (auth_credential a) in
      try_enji (on_net (client (auth_status_request timeout a)))
        (\<lambda>code m _. retM (unauthenticated_payload (Some kind) code m p))
        (\<lambda>r. status_from_response env kind r p))"

definition auth_status :: "('s, 'x) transport_env_scheme \<Rightarrow> (http_request \<Rightarrow> ('s, http_response) io) \<Rightarrow> rat
    \<Rightarrow> ('s, auth_status_payload) session_io" where
  "auth_status env client timeout =
     bindM (on_store auth_projection_of) (\<lambda>p.
       case network_credential p of
         Inl (code, m) \<Rightarrow> retM (unauthenticated_payload None code m (reauth_renewal (refresh_projection_status p)))
       | Inr a \<Rightarrow> auth_status_with_client env client timeout a (refresh_projection_status p))"

subsection \<open>Backend readiness\<close>

record backend_readiness =
  backend_ready :: bool
  failure_kind :: "string option"
  failure_code :: "string option"
  failure_message :: "string option"
  failure_status_code :: "int option"
  readiness_credential_type :: "string option"
  readiness_refresh_state :: "string option"
  readiness_reauth_required :: bool
  elapsed_ms :: "int option"
  bypass_grace :: bool

definition backend_failure :: "string \<Rightarrow> string \<Rightarrow> string \<Rightarrow> int option \<Rightarrow> string option \<Rightarrow> string option \<Rightarrow> bool \<Rightarrow> bool
    \<Rightarrow> backend_readiness" where
  "backend_failure kind code m status credential st reauth bypass =
     \<lparr>backend_ready = False, failure_kind = Some kind, failure_code = Some code, failure_message = Some m,
      failure_status_code = status, readiness_credential_type = credential, readiness_refresh_state = st,
      readiness_reauth_required = reauth, elapsed_ms = None, bypass_grace = bypass\<rparr>"

text \<open>\<open>_elapsed_ms\<close>: \<open>monotonic_now\<close> reads the monotonic clock in seconds.\<close>

definition timed :: "('s, rat) io \<Rightarrow> rat \<Rightarrow> backend_readiness \<Rightarrow> ('s, backend_readiness) session_io" where
  "timed monotonic_now started b = bindM (on_net monotonic_now) (\<lambda>t.
     let ms = (t - started) * 1000 in
     retM (b\<lparr>elapsed_ms := Some (if ms < 0 then - \<lfloor>- ms\<rfloor> else \<lfloor>ms\<rfloor>)\<rparr>))"

definition readiness_from_response :: "('s, 'x) transport_env_scheme \<Rightarrow> ('s, rat) io \<Rightarrow> rat \<Rightarrow> string \<Rightarrow> http_response
    \<Rightarrow> refresh_projection \<Rightarrow> ('s, backend_readiness) session_io" where
  "readiness_from_response env monotonic_now started kind r p =
     (let upstream = (\<lambda>code m status. timed monotonic_now started
            (backend_failure ''upstream'' code m status (Some kind) (refresh_state p) (reauth_required p) False)) in
      if status_code r = 200
      then timed monotonic_now started \<lparr>backend_ready = True, failure_kind = None, failure_code = None, failure_message = None,
          failure_status_code = None, readiness_credential_type = Some kind, readiness_refresh_state = refresh_state p,
          readiness_reauth_required = reauth_required p, elapsed_ms = None, bypass_grace = False\<rparr>
      else bindM (liftM (is_auth_invalid_response r)) (\<lambda>invalid.
        if invalid \<or> status_code r \<in> set HTTP_AUTH_FAILURE_CODES
        then timed monotonic_now started
          (backend_failure ''auth'' (if invalid then ''AUTH_INVALID'' else ''AUTH_REQUIRED'') ''stored credential is not authenticated''
            (Some (status_code r)) (Some kind) (refresh_state p) True False)
        else try_enji (on_net (raise_for_response_status env r ''backend readiness'' (200 # HTTP_AUTH_FAILURE_CODES)))
          upstream (\<lambda>_. upstream ''UPSTREAM'' ''backend readiness failed'' (Some (status_code r)))))"

definition backend_readiness_probe :: "('s, 'x) transport_env_scheme \<Rightarrow> (http_request \<Rightarrow> ('s, http_response) io)
    \<Rightarrow> ('s, rat) io \<Rightarrow> rat \<Rightarrow> ('s, backend_readiness) session_io" where
  "backend_readiness_probe env client monotonic_now timeout =
     bindM (on_net monotonic_now) (\<lambda>started.
     bindM (on_store auth_projection_of) (\<lambda>p. let status = refresh_projection_status p in
       case network_credential p of
         Inl (code, m) \<Rightarrow> timed monotonic_now started
           (backend_failure ''storage'' code m None None (refresh_state status) True True)
       | Inr a \<Rightarrow> (let kind = credential_type_of (auth_credential a) in
           try_enji (on_net (client (auth_status_request timeout a)))
             (\<lambda>code m s. timed monotonic_now started
               (backend_failure ''upstream'' code m s (Some kind) (refresh_state status) (reauth_required status) False))
             (\<lambda>r. readiness_from_response env monotonic_now started kind r status))))"

subsection \<open>The service\<close>

definition session_auth_headers :: "stored_auth option \<Rightarrow> (string \<times> string) list auth_io" where
  "session_auth_headers given = (case given of
       Some a \<Rightarrow> retM (auth_headers a)
     | None \<Rightarrow> bindM load_auth (\<lambda>loaded. retM (case loaded of AuthLoaded a \<Rightarrow> auth_headers a | _ \<Rightarrow> [])))"

text \<open>\<open>_auth_refresh_headers\<close>.\<close>

definition AUTH_REFRESH_USER_AGENT :: string where
  "AUTH_REFRESH_USER_AGENT =
     ''Mozilla/5.0 (X11; Linux x86_64) AppleWebKit/537.36 (KHTML, like Gecko) Chrome/149.0.0.0 Safari/537.36''"

definition auth_refresh_headers :: "string \<Rightarrow> string \<Rightarrow> stored_auth \<Rightarrow> (string \<times> string) list" where
  "auth_refresh_headers guard_origin guard_referer a = auth_headers a
     @ [(''Origin'', guard_origin), (''Referer'', guard_referer), (''User-Agent'', AUTH_REFRESH_USER_AGENT)]"

definition refresh_request :: "string \<Rightarrow> string \<Rightarrow> rat \<Rightarrow> stored_auth \<Rightarrow> http_request" where
  "refresh_request guard_origin guard_referer timeout a = \<lparr>http_method = ''POST'',
     http_url = base_url a @ ''/api/v1/auth/refresh'', http_operation = ''auth refresh'',
     http_headers = auth_refresh_headers guard_origin guard_referer a, http_profile = AUTH_REFRESH, http_body = None,
     http_timeout = timeout\<rparr>"

end
