(* ===== verification/Session_Properties.thy ===== *)
theory Session_Properties
  imports Auth_Session Auth_Samples Document_Properties
begin

section \<open>Properties of the auth session\<close>

text \<open>
  What observers see agrees with what the coordinator would do, an observation changes no file, an
  import is what the next request uses, and the readiness of the backend is exactly an answer of 200.
\<close>

subsection \<open>Observation and coordination\<close>

lemma lock_Inr:
  assumes "auth_file_lock body w = (Inr x, t)"
  obtains p v where "body (w\<lparr>faults := p\<rparr>) = (Inr x, v)"
  using lock_returned [OF assms] by blast

lemma no_dispatch_unknown:
  assumes "recover_matching_state env a (OutcomeUnknown r m) attempt e w = (Inr q, t)"
    and "\<not> is_scheduled (continuation attempt)"
  shows "\<exists>x. q = Some (WaitForRevision x)"
  using assms
  by (auto simp: recover_matching_state_def recover_unknown_def next_recovery_def io_simps elim!: bindM_InrE thenM_E)

lemma waits_for_import:
  assumes "read_journal (journal_slot w) = Inr journal" and "recover_or_wait env current w = (Inr q, t)"
    and "reauth_required (refresh_projection_status (project_loaded current journal))"
  shows "\<exists>x. q = Some (WaitForRevision x)"
proof -
  have load: "load_journal w = (Inr journal, w)" using assms(1) by (simp add: load_journal_read)
  show ?thesis
  proof (cases journal)
    case (JournalLoaded s e attempt m)
    with assms(2) load obtain tried where tried: "attempt = Some tried" and s: "\<not> is_ready s"
      by (cases attempt; cases s) (auto simp: recover_or_wait_def io_simps)
    with assms(3) JournalLoaded have source: "source_revision s = revision current"
      by (auto simp: project_rotation_state_def renewal_def split: if_splits)
    have settled: "(\<exists>r m. s = Rejected r m) \<or> (\<exists>r m. s = OutcomeUnknown r m) \<and> \<not> is_scheduled (continuation tried)"
      using assms(3) JournalLoaded s source tried
      by (cases s) (auto simp: project_rotation_state_def renewal_def split: option.splits continuation.splits)
    then have "state_successor s = None" by auto
    with assms(2) load JournalLoaded tried s source settled
    have "recover_matching_state env current s tried e w = (Inr q, t)"
      by (cases s) (auto simp: recover_or_wait_def io_simps)
    with settled no_dispatch_unknown show ?thesis
      by (auto simp: recover_matching_state_def io_simps elim!: bindM_InrE thenM_E)
  qed (use assms load in \<open>auto simp: recover_or_wait_def io_simps renewal_def\<close>)
qed

text \<open>C12: What observers report agrees with the coordinator: when the projection of the stored files asks for a new
  credential, preparing a refresh on those files dispatches no request.\<close>

theorem reauth_never_dispatches:
  assumes "load_auth w = (Inr loaded, u)" and "read_journal (journal_slot w) = Inr journal"
    and "reauth_required (refresh_projection_status (project_auth loaded journal))"
  shows "fst (prepare env expected w) \<noteq> Inr (Dispatch a)"
proof
  assume "fst (prepare env expected w) = Inr (Dispatch a)"
  then obtain t where "prepare env expected w = (Inr (Dispatch a), t)" by (metis prod.collapse)
  then obtain p v where body: "prepare_locked env expected (w\<lparr>faults := p\<rparr>) = (Inr (Dispatch a), v)"
    unfolding prepare_def by (rule lock_Inr)
  have load: "load_auth (w\<lparr>faults := p\<rparr>) = (Inr loaded, u\<lparr>faults := p\<rparr>)"
    using assms(1) by (auto simp: load_auth_def now_def bindM_def getM_def split: list.splits)
  from body load obtain current h where c: "loaded = AuthLoaded current" "auth_credential current = CookieCredential h"
    by (cases loaded) (auto simp: prepare_locked_def io_simps split: credential.splits)
  have slot: "journal_slot (u\<lparr>faults := p\<rparr>) = journal_slot w"
    using assms(1) by (auto simp: load_auth_def now_def bindM_def getM_def split: list.splits)
  from body load c obtain q x where recover: "recover_or_wait env current (u\<lparr>faults := p\<rparr>) = (Inr q, x)"
    and q: "q = None \<or> q = Some (Dispatch a)"
    by (auto simp: prepare_locked_def io_simps elim!: bindM_InrE split: option.splits)
  with waits_for_import [OF _ recover, of journal] slot assms(2,3) c show False by auto
qed

lemma terminal_sample_reauth:
  "reauth_required (refresh_projection_status (project_auth (AuthLoaded sample_auth)
     (JournalLoaded (Rejected ''r1'' ''no'') False (Some (new_attempt ''r1'' NormalAttempt 1)) None)))"
  by (simp add: project_rotation_state_def sample_auth_def renewal_def)

definition sample_refused :: auth_world where
  "sample_refused = sample_world [] (sample_file (JObj (journal_payload_base (Rejected ''r1'' ''no'') False
     (new_attempt ''r1'' NormalAttempt 1))))"

theorem reauth_never_dispatches_witness:
  "fst (prepare sample_env None sample_refused) \<noteq> Inr (Dispatch sample_auth)"
proof (rule reauth_never_dispatches [OF _ _ terminal_sample_reauth])
  have "parse_auth (auth_payload sample_auth) 63902908800000000 = AuthLoaded sample_auth" by code_simp
  then show "load_auth sample_refused = (Inr (AuthLoaded sample_auth), sample_refused)"
    by (simp add: load_auth_def bindM_def now_def getM_def sample_refused_def sample_world_def sample_file_def)
  show "read_journal (journal_slot sample_refused)
      = Inr (JournalLoaded (Rejected ''r1'' ''no'') False (Some (new_attempt ''r1'' NormalAttempt 1)) None)"
    by code_simp
qed

subsection \<open>Imports\<close>

definition later_credentials :: "string \<Rightarrow> credential \<Rightarrow> string \<Rightarrow> request_credentials" where
  "later_credentials base c origin = \<lparr>credentials_base_url = base,
     credentials_headers = [case c of CookieCredential h \<Rightarrow> (''Cookie'', h) | BearerTokenCredential k \<Rightarrow> (''Authorization'', ''Bearer '' @ k),
       (''Origin'', origin)], credentials_type = credential_type_of c\<rparr>"

lemma import_usable:
  assumes made: "make_stored_auth base c None w = (Inr a, u)" and imported: "import_credential a u = (Inr b, v)"
    and wf: "base \<noteq> []" "\<forall>n. uuid_of w n \<noteq> []" "clock w = [t]" "0 \<le> t" "t < max_ordinal * micros_per_day"
    and later: "clock v = [t']" "t \<le> t' + IMPORTED_AT_FUTURE_TOLERANCE"
  shows "stored_credential_load origin v = (Inr (Inr (later_credentials base c origin)), v)"
proof -
  have parsed: "parse_auth (auth_payload a) t' = AuthLoaded a"
    by (rule credential_roundtrip [OF made wf(1) _ wf(2-5) later(2)]) simp
  have a: "base_url a = base" "auth_credential a = c"
    using made by (auto simp: make_stored_auth_def io_simps elim!: bindM_InrE)
  have files: "content (auth_slot v) = Document (auth_payload a)" "content (journal_slot v) = Missing"
    using import_returned [OF imported] by auto
  have "load_auth v = (Inr (AuthLoaded a), v)" "load_journal v = (Inr JournalAbsent, v)"
    using files parsed later(1) by (simp_all add: load_auth_def load_journal_def now_def bindM_def getM_def)
  then show ?thesis
    by (simp add: stored_credential_load_def auth_projection_of_def io_simps auth_headers_def later_credentials_def a
        split: credential.split)
qed



subsection \<open>Observations\<close>

definition stored_files :: "auth_world \<times> 's \<Rightarrow> file_slot \<times> file_slot \<times> file_slot \<times> outbox_record list" where
  "stored_files w = (auth_slot (fst w), journal_slot (fst w), outbox_slot (fst w), delivered (fst w))"

abbreviation files_kept :: "auth_world \<times> 's \<Rightarrow> auth_world \<times> 's \<Rightarrow> bool" where
  "files_kept w v \<equiv> stored_files v = stored_files w"

lemma files_kept_preorder: "preorder_rel files_kept"
  by (auto simp: preorder_rel_def)

lemmas files_kept_intros = keeps_basic [OF files_kept_preorder] keeps_bindM [OF files_kept_preorder]

lemma on_net_files: "keeps files_kept (on_net m)"
  by (auto simp: keeps_def on_net_def stored_files_def split: prod.split)

lemma projection_files: "keeps files_kept (on_store auth_projection_of)"
  by (auto simp: keeps_def on_store_def auth_projection_of_def stored_files_def bindM_def load_auth_def now_def getM_def
      load_journal_def retM_def split: list.split sum.split prod.split)

lemma try_enji_files:
  assumes "keeps files_kept m" and "\<And>code m' s. keeps files_kept (failed code m' s)" and "\<And>x. keeps files_kept (k x)"
  shows "keeps files_kept (try_enji m failed k)"
  unfolding keeps_def
proof
  fix w
  obtain r u where m: "m w = (r, u)" by (cases "m w")
  have "stored_files u = stored_files w" using keepsD [OF assms(1) m] .
  moreover have "stored_files (snd (failed code m' s u)) = stored_files u" "stored_files (snd (k x u)) = stored_files u" for code m' s x
    using assms(2,3) unfolding keeps_def by blast+
  ultimately show "stored_files (snd (try_enji m failed k w)) = stored_files w"
    by (auto simp: try_enji_def m split: sum.split option.split)
qed

lemma timed_files: "keeps files_kept (timed monotonic_now started b)"
  unfolding timed_def Let_def by (intro files_kept_intros on_net_files)

lemma status_from_response_files: "keeps files_kept (status_from_response env kind r p)"
  unfolding status_from_response_def by (auto intro!: files_kept_intros try_enji_files on_net_files)

lemma readiness_from_response_files: "keeps files_kept (readiness_from_response env monotonic_now started kind r p)"
  unfolding readiness_from_response_def Let_def by (auto intro!: files_kept_intros try_enji_files on_net_files timed_files)

text \<open>Observers write nothing: the status and the readiness probe leave the credential, the journal, the outbox
  and the delivered outcomes as they are, whatever the service answers.\<close>

lemma observers_write_nothing:
  "stored_files (snd (auth_status env client timeout w)) = stored_files w
    \<and> stored_files (snd (backend_readiness_probe env client monotonic_now timeout w)) = stored_files w"
proof
  have "keeps files_kept (auth_status env client timeout)"
    unfolding auth_status_def auth_status_with_client_def Let_def
    by (auto intro!: files_kept_intros projection_files try_enji_files on_net_files status_from_response_files
        split: sum.split)
  then show "stored_files (snd (auth_status env client timeout w)) = stored_files w" unfolding keeps_def by blast
  have "keeps files_kept (backend_readiness_probe env client monotonic_now timeout)"
    unfolding backend_readiness_probe_def Let_def
    by (auto intro!: files_kept_intros projection_files try_enji_files on_net_files timed_files readiness_from_response_files
        split: sum.split)
  then show "stored_files (snd (backend_readiness_probe env client monotonic_now timeout w)) = stored_files w"
    unfolding keeps_def by blast
qed

lemma timed_ready: "timed monotonic_now started b w = (Inr x, v) \<Longrightarrow> backend_ready x = backend_ready b"
  by (auto simp: timed_def io_simps Let_def elim!: bindM_InrE)

lemma failure_not_ready [simp]: "\<not> backend_ready (backend_failure kind code m s credential st reauth bypass)"
  by (simp add: backend_failure_def)

lemma readiness_from_response_ready:
  "readiness_from_response env monotonic_now started kind r p w = (Inr b, v) \<Longrightarrow> backend_ready b \<longleftrightarrow> status_code r = 200"
  by (auto simp: readiness_from_response_def Let_def try_enji_def io_simps elim!: bindM_InrE
      dest!: timed_ready split: if_splits prod.splits sum.splits option.splits)

text \<open>C21: The backend is reported ready exactly if the stored files give a credential and the service answers the
  request made with it with status 200.\<close>

theorem ready_exactly_on_ok:
  assumes "backend_readiness_probe env client monotonic_now timeout w = (Inr b, v)"
  shows "backend_ready b \<longleftrightarrow> (\<exists>p a r. fst (auth_projection_of (fst w)) = Inr p \<and> network_credential p = Inr a
    \<and> fst (client (auth_status_request timeout a) (snd (monotonic_now (snd w)))) = Inr r \<and> status_code r = 200)"
proof -
  obtain started n where clock: "monotonic_now (snd w) = (Inr started, n)"
    using assms by (auto simp: backend_readiness_probe_def on_net_def elim!: bindM_InrE split: prod.splits)
  obtain p f where projection: "auth_projection_of (fst w) = (Inr p, f)"
    using assms clock
    by (auto simp: backend_readiness_probe_def on_net_def on_store_def io_simps elim!: bindM_InrE split: prod.splits)
  show ?thesis
  proof (cases "network_credential p")
    case (Inl failure)
    with assms clock projection show ?thesis
      by (auto simp: backend_readiness_probe_def on_net_def on_store_def io_simps Let_def dest!: timed_ready split: prod.splits)
  next
    case (Inr a)
    obtain q u where sent: "client (auth_status_request timeout a) n = (q, u)"
      by (cases "client (auth_status_request timeout a) n")
    with assms clock projection Inr show ?thesis
      by (cases q) (auto simp: backend_readiness_probe_def on_net_def on_store_def io_simps Let_def try_enji_def
          dest!: timed_ready readiness_from_response_ready split: prod.splits option.splits)
  qed
qed

subsection \<open>A sample service\<close>

text \<open>It answers every request with 200; the clock stands still.\<close>

definition sample_net :: "unit transport_env" where
  "sample_net = \<lparr>client_send = \<lambda>_. throwM CancelledError, pause = \<lambda>_. retM (), jitter_sample = \<lambda>_. retM 0,
     utc_now = retM 0, http_date = \<lambda>_. None\<rparr>"

definition answer_ok :: "http_request \<Rightarrow> (unit, http_response) io" where
  "answer_ok _ = retM \<lparr>status_code = 200, response_body = EmptyBody, response_headers = [], set_cookie_headers = []\<rparr>"

lemma sample_projection:
  "auth_projection_of (sample_world [] no_file) = (Inr (CredentialReady sample_auth), sample_world [] no_file)"
proof -
  have "parse_auth (auth_payload sample_auth) 63902908800000000 = AuthLoaded sample_auth" by code_simp
  then show ?thesis
    by (simp add: auth_projection_of_def load_auth_def load_journal_def bindM_def now_def getM_def retM_def
        sample_world_def sample_file_def no_file_def)
qed

theorem ready_exactly_on_ok_witness:
  "\<exists>b v. backend_readiness_probe sample_net answer_ok (retM 0) 5 (sample_world [] no_file, ()) = (Inr b, v) \<and> backend_ready b"
proof -
  let ?run = "backend_readiness_probe sample_net answer_ok (retM 0) 5 (sample_world [] no_file, ())"
  have "\<exists>b. fst ?run = Inr b"
    by (simp add: backend_readiness_probe_def on_net_def on_store_def bindM_def retM_def sample_projection try_enji_def
        answer_ok_def readiness_from_response_def timed_def Let_def)
  then obtain b where run: "?run = (Inr b, snd ?run)" by (metis prod.collapse)
  have "backend_ready b" using ready_exactly_on_ok [OF run] by (auto simp: sample_projection answer_ok_def retM_def)
  with run show ?thesis by blast
qed

end
