(* ===== verification/Auto_Refresh.thy ===== *)
theory Auto_Refresh
  imports Auth_Operations Settings
begin

section \<open>The refresh loop (auth\_session/auto\_refresh.py)\<close>

text \<open>
  The long-lived loop that decides when the refresh coordinator is called.  Its world holds the files
  of the credential path, the monotonic clock, the jitter and what wakes it: an entry of
  \<open>wakeups\<close> is the end of one \<open>asyncio.wait\<close>, with what other processes did to the files
  meanwhile.  A run whose script of wake-ups or exchanges is used up is a task that is cancelled at that
  await, which raises \<open>CancelledError\<close>.  Seconds are rationals.  A log entry has its level, event
  and fields without \<open>auth_file\<close> and the class of a \<open>__cause__\<close>, which the exceptions of the
  model do not carry.
\<close>

subsection \<open>The world of the loop\<close>

datatype watcher_event = WatcherPending | WatcherFired | WatcherEnded | WatcherFailed exn

record wakeup =
  wake_operations :: "operation list" \<comment> \<open>what other processes did to the files\<close>
  wake_watcher :: watcher_event

datatype log_level = LogInfo | LogWarning | LogError

datatype log_field = TextField string | IntField int | SecondsField rat | NoField

type_synonym log_entry = "log_level \<times> string \<times> (string \<times> log_field) list"

record auto_world =
  cred_files :: auth_world
  wakeups :: "wakeup list"
  exchanges :: "((stored_auth \<Rightarrow> exchange_outcome) \<times> (string option \<times> auth_load_result \<times> int) list) list"
  monotonic_of :: "nat \<Rightarrow> rat"
  ticks :: nat
  random_of :: "nat \<Rightarrow> rat"
  draws :: nat
  sleeps :: "rat list" \<comment> \<open>the sleeps begun, in order\<close>
  logged :: "log_entry list"

type_synonym 'a auto_io = "(auto_world, 'a) io"

definition on_files :: "'a auth_io \<Rightarrow> 'a auto_io" where
  "on_files m w = (case m (cred_files w) of (r, v) \<Rightarrow> (r, w\<lparr>cred_files := v\<rparr>))"

definition monotonic :: "rat auto_io" where
  "monotonic w = (Inr (monotonic_of w (ticks w)), w\<lparr>ticks := Suc (ticks w)\<rparr>)"

definition draw :: "rat auto_io" where
  "draw w = (Inr (random_of w (draws w)), w\<lparr>draws := Suc (draws w)\<rparr>)"

definition log_event :: "log_level \<Rightarrow> string \<Rightarrow> (string \<times> log_field) list \<Rightarrow> unit auto_io" where
  "log_event l e entries = putM (\<lambda>w. w\<lparr>logged := logged w @ [(l, e, entries)]\<rparr>)"

definition begin_sleep :: "rat \<Rightarrow> unit auto_io" where
  "begin_sleep seconds = putM (\<lambda>w. w\<lparr>sleeps := sleeps w @ [seconds]\<rparr>)"

definition happen :: "wakeup \<Rightarrow> unit auto_io" where
  "happen e = putM (\<lambda>w. w\<lparr>wakeups := tl (wakeups w), cred_files := fold perform (wake_operations e) (cred_files w)\<rparr>)"

text \<open>\<open>type(exc).__name__\<close> of the exceptions the handlers catch.\<close>

fun exn_class :: "exn \<Rightarrow> string" where
  "exn_class (FileNotFoundError _) = ''FileNotFoundError''"
| "exn_class (TimeoutError _) = ''TimeoutError''"
| "exn_class (PreDispatchLocal _) = ''PreDispatchLocalError''"
| "exn_class (OSError _) = ''OSError''"
| "exn_class (RuntimeError _) = ''RuntimeError''"
| "exn_class (UnicodeDecodeError _) = ''UnicodeDecodeError''"
| "exn_class (InvalidTransitionError _) = ''InvalidTransitionError''"
| "exn_class (AuditMalformedError _) = ''AuditMalformedError''"
| "exn_class (AuditRepositoryUnusableError _) = ''AuditRepositoryUnusableError''"
| "exn_class (AuditActionUnusableError _) = ''AuditActionUnusableError''"
| "exn_class (AuditArtifactUnavailableError _ _) = ''AuditArtifactUnavailableError''"
| "exn_class (PortfolioNotFoundError _) = ''PortfolioNotFoundError''"
| "exn_class (PortfolioMalformedError _) = ''PortfolioMalformedError''"
| "exn_class _ = ''ValueError''"

subsection \<open>Waiting for a changed credential\<close>

fun auth_revision :: "auth_load_result \<Rightarrow> string option" where
  "auth_revision (AuthLoaded a) = Some (revision a)"
| "auth_revision _ = None"

definition stored_auth_revision :: "string option auto_io" where
  "stored_auth_revision = bindM (on_files load_auth) (\<lambda>loaded. retM (auth_revision loaded))"

fun is_runtime_error :: "exn \<Rightarrow> bool" where
  "is_runtime_error (RuntimeError _) = True"
| "is_runtime_error _ = False"

text \<open>\<open>_watcher_changed\<close> for a watcher task that is done.\<close>

definition watcher_failed :: "string \<Rightarrow> bool auto_io" where
  "watcher_failed name = thenM
     (log_event LogWarning ''enji_auth_credential_watcher_failed'' [(''error_type'', TextField name)]) (retM False)"

fun watcher_changed :: "watcher_event \<Rightarrow> bool auto_io" where
  "watcher_changed WatcherEnded = watcher_failed ''StopAsyncIteration''"
| "watcher_changed (WatcherFailed e) =
     (if is_os_error e \<or> is_runtime_error e \<or> is_value_error e then watcher_failed (exn_class e) else throwM e)"
| "watcher_changed _ = retM True"

text \<open>One round: read the revision, then the clock; if neither ends the wait, sleep and go on.\<close>

definition wait_check :: "string option \<Rightarrow> rat \<Rightarrow> rat \<Rightarrow> bool auto_io \<Rightarrow> bool auto_io" where
  "wait_check expected deadline poll continue =
     bindM stored_auth_revision (\<lambda>found.
       if found \<noteq> expected then retM True
       else bindM monotonic (\<lambda>t.
         let remaining = deadline - t in
         if remaining \<le> 0 then retM False
         else thenM (begin_sleep (min poll remaining)) continue))"

fun wait_rounds :: "string option \<Rightarrow> rat \<Rightarrow> rat \<Rightarrow> bool \<Rightarrow> wakeup list \<Rightarrow> bool auto_io" where
  "wait_rounds expected deadline poll watching [] = wait_check expected deadline poll (throwM CancelledError)"
| "wait_rounds expected deadline poll watching (e # rest) =
     wait_check expected deadline poll (thenM (happen e)
       (if watching \<and> wake_watcher e \<noteq> WatcherPending
        then bindM (watcher_changed (wake_watcher e)) (\<lambda>changed.
          if changed then retM True else wait_rounds expected deadline poll False rest)
        else wait_rounds expected deadline poll watching rest))"

definition wait_for_credential_change :: "string option \<Rightarrow> rat \<Rightarrow> rat \<Rightarrow> bool auto_io" where
  "wait_for_credential_change expected timeout poll =
     bindM monotonic (\<lambda>t. bindM (getM wakeups) (\<lambda>events. wait_rounds expected (t + timeout) poll True events))"

subsection \<open>Scheduling\<close>

definition cookie_access_expires_at :: "coordinator_env \<Rightarrow> stored_auth \<Rightarrow> int option result" where
  "cookie_access_expires_at env a = (case auth_credential a of
       BearerTokenCredential _ \<Rightarrow> Inr None
     | CookieCredential header \<Rightarrow>
         bindR (cookie_value header ''access_token'') (\<lambda>token. case token of
             None \<Rightarrow> Inr None
           | Some t \<Rightarrow> jwt_expires_at (jwt_payload env) t))"

definition cookie_refresh_sleep_seconds :: "coordinator_env \<Rightarrow> auto_refresh_settings \<Rightarrow> stored_auth \<Rightarrow> int \<Rightarrow> int result" where
  "cookie_refresh_sleep_seconds env c a t =
     bindR (cookie_access_expires_at env a) (\<lambda>expires. case expires of
         None \<Rightarrow> Inr (fallback_seconds c)
       | Some e \<Rightarrow> Inr (max (whole_seconds (e - t) - lead_seconds c) 0))"

definition cookie_auth_or_none :: "auth_load_result \<Rightarrow> stored_auth option" where
  "cookie_auth_or_none loaded = (case loaded of
       AuthLoaded a \<Rightarrow> (case auth_credential a of CookieCredential _ \<Rightarrow> Some a | BearerTokenCredential _ \<Rightarrow> None)
     | _ \<Rightarrow> None)"

fun unscheduled_field :: "auth_load_result \<Rightarrow> string \<times> log_field" where
  "unscheduled_field (AuthLoaded a) = (''credential_type'', TextField (case auth_credential a of
     CookieCredential _ \<Rightarrow> ''cookie'' | BearerTokenCredential _ \<Rightarrow> ''bearer_token''))"
| "unscheduled_field AuthAbsent = (''code'', TextField ''AUTH_REQUIRED'')"
| "unscheduled_field (AuthCorrupt _) = (''code'', TextField ''AUTH_CORRUPT'')"
| "unscheduled_field (AuthUnsupported _) = (''code'', TextField ''AUTH_UNSUPPORTED'')"
| "unscheduled_field (AuthIoFailure _ _) = (''code'', TextField ''AUTH_IO_FAILURE'')"
| "unscheduled_field AuthClockAnomaly = (''code'', TextField ''AUTH_CLOCK_ANOMALY'')"

definition log_unscheduled_credential :: "auth_load_result \<Rightarrow> unit auto_io" where
  "log_unscheduled_credential loaded =
     log_event LogInfo ''enji_auth_auto_refresh_observing_credential'' [unscheduled_field loaded]"

definition wait_fallback :: "auto_refresh_settings \<Rightarrow> string option \<Rightarrow> bool auto_io" where
  "wait_fallback c expected = wait_for_credential_change expected (of_int (fallback_seconds c)) (revision_poll_seconds c)"

text \<open>The computation of the sleep as a step: the current time is read from the files' clock.\<close>

definition refresh_sleep :: "coordinator_env \<Rightarrow> auto_refresh_settings \<Rightarrow> stored_auth \<Rightarrow> int result auto_io" where
  "refresh_sleep env c a = bindM (on_files now) (\<lambda>t. retM (cookie_refresh_sleep_seconds env c a t))"

definition scheduled_cookie_auth :: "coordinator_env \<Rightarrow> auto_refresh_settings \<Rightarrow> stored_auth option auto_io" where
  "scheduled_cookie_auth env c =
     bindM (on_files load_auth) (\<lambda>loaded.
       let expected = auth_revision loaded in
       case cookie_auth_or_none loaded of
         None \<Rightarrow> thenM (log_unscheduled_credential loaded) (thenM (wait_fallback c expected) (retM None))
       | Some a \<Rightarrow>
           bindM (refresh_sleep env c a) (\<lambda>s. case s of
               Inl e \<Rightarrow>
                 if is_os_error e \<or> is_value_error e
                 then thenM (log_event LogError ''enji_auth_auto_refresh_schedule_failed''
                        [(''error_type'', TextField (exn_class e))])
                   (thenM (wait_fallback c expected) (retM None))
                 else throwM e
             | Inr seconds \<Rightarrow>
                 thenM (log_event LogInfo ''enji_auth_auto_refresh_scheduled'' [(''sleep_seconds'', IntField seconds)])
                (bindM (wait_for_credential_change expected (of_int seconds) (revision_poll_seconds c)) (\<lambda>changed.
                   if changed then retM None
                   else bindM (on_files load_auth) (\<lambda>current. case cookie_auth_or_none current of
                       None \<Rightarrow> retM None
                     | Some b \<Rightarrow> if Some (revision b) \<noteq> expected then retM None else retM (Some b))))))"

subsection \<open>Retries\<close>

text \<open>\<open>2.0 ** n\<close> raises when the power is no longer a double.\<close>

definition float_power_of_two :: "int \<Rightarrow> rat result" where
  "float_power_of_two n =
     (if 1024 \<le> n then Inl (OverflowError ''Numerical result out of range'')
      else if n < 0 then Inr (1 / 2 ^ nat (- n)) else Inr (2 ^ nat n))"

definition pre_dispatch_retry_seconds :: "auto_refresh_settings \<Rightarrow> int \<Rightarrow> rat auto_io" where
  "pre_dispatch_retry_seconds c count =
     bindM (liftM (float_power_of_two (count - 1))) (\<lambda>p.
     bindM draw (\<lambda>r.
       retM (min (retry_max_seconds c) (retry_initial_seconds c * p + retry_jitter_seconds c * r))))"

definition handle_pre_dispatch_error :: "auto_refresh_settings \<Rightarrow> string \<Rightarrow> int \<Rightarrow> int auto_io" where
  "handle_pre_dispatch_error c expected count =
     (if retry_limit c \<le> count
      then thenM (log_event LogError ''enji_auth_auto_refresh_pre_dispatch_retry_exhausted'' [])
        (thenM (wait_fallback c (Some expected)) (retM 0))
      else bindM (pre_dispatch_retry_seconds c (count + 1)) (\<lambda>seconds.
        thenM (log_event LogWarning ''enji_auth_auto_refresh_pre_dispatch_retry''
            [(''attempt'', IntField (count + 1)), (''delay_seconds'', SecondsField seconds)])
       (bindM (wait_for_credential_change (Some expected) seconds (revision_poll_seconds c)) (\<lambda>changed.
          retM (if changed then 0 else count + 1)))))"

text \<open>Projecting the successor that is held in memory; \<open>False\<close> is a failure to be tried again.\<close>

definition project_retained :: "auto_refresh_settings \<Rightarrow> retained_successor \<Rightarrow> int \<Rightarrow> bool auto_io" where
  "project_retained c retained count w = (case on_files (project_retained_successor retained) w of
       (Inl e, v) \<Rightarrow>
         if is_os_error e
         then bindM (pre_dispatch_retry_seconds c (count + 1)) (\<lambda>seconds.
           thenM (log_event LogWarning ''enji_auth_auto_refresh_retained_projection_retry''
               [(''delay_seconds'', SecondsField seconds), (''error_type'', TextField (exn_class e))])
          (thenM (wait_for_credential_change (Some (retained_source retained)) seconds (revision_poll_seconds c))
            (retM False))) v
         else (Inl e, v)
     | (Inr (SuccessorProjected _), v) \<Rightarrow>
         thenM (log_event LogInfo ''enji_auth_auto_refresh_retained_projection_succeeded''
             [(''source_revision'', TextField (retained_source retained))]) (retM True) v
     | (Inr (SuccessorSuperseded r), v) \<Rightarrow>
         thenM (log_event LogInfo ''enji_auth_auto_refresh_retained_projection_superseded''
             [(''source_revision'', TextField (retained_source retained)),
              (''current_revision'', case r of None \<Rightarrow> NoField | Some x \<Rightarrow> TextField x)]) (retM True) v)"

subsection \<open>The loop\<close>

text \<open>
  What the loop keeps between two turns.  \<open>parked\<close> is the source revision while the inner loop of
  \<open>_wait_until_revision_changes\<close> runs: a turn is then one turn of that loop.
\<close>

record loop_state =
  retry_count :: int
  projection_retry_count :: int
  retained_buffer :: "retained_successor option"
  parked :: "string option"

definition initial_loop :: loop_state where
  "initial_loop = \<lparr>retry_count = 0, projection_retry_count = 0, retained_buffer = None, parked = None\<rparr>"

definition buffer_clear :: "retained_successor \<Rightarrow> loop_state \<Rightarrow> loop_state" where
  "buffer_clear r s = (case retained_buffer s of
       Some x \<Rightarrow> if retained_source x = retained_source r \<and> revision (retained_auth x) = revision (retained_auth r)
         then s\<lparr>retained_buffer := None\<rparr> else s
     | None \<Rightarrow> s)"

definition refresh_cookie_auth :: "coordinator_env \<Rightarrow> stored_auth \<Rightarrow> stored_auth auto_io" where
  "refresh_cookie_auth env a = bindM (getM exchanges) (\<lambda>script. case script of
       [] \<Rightarrow> throwM CancelledError
     | (exchange, polls) # rest \<Rightarrow>
         thenM (putM (\<lambda>w. w\<lparr>exchanges := rest\<rparr>))
        (bindM (on_files (refresh env (Some (revision a)) exchange polls)) (\<lambda>r. case r of
            None \<Rightarrow> throwM CancelledError
          | Some b \<Rightarrow> retM b)))"

definition retained_of :: "string \<Rightarrow> string \<Rightarrow> string \<Rightarrow> string \<Rightarrow> string \<Rightarrow> retained_successor" where
  "retained_of source successor base header imported =
     \<lparr>retained_source = source, retained_auth = \<lparr>revision = successor, base_url = base,
        auth_credential = CookieCredential header, imported_at = imported\<rparr>\<rparr>"

definition park_turn :: "auto_refresh_settings \<Rightarrow> string \<Rightarrow> loop_state \<Rightarrow> loop_state auto_io" where
  "park_turn c source s = bindM (wait_fallback c (Some source)) (\<lambda>changed.
     retM (if changed then s\<lparr>parked := None\<rparr> else s\<lparr>parked := Some source\<rparr>))"

definition projection_turn :: "auto_refresh_settings \<Rightarrow> retained_successor \<Rightarrow> loop_state \<Rightarrow> loop_state auto_io" where
  "projection_turn c retained s =
     bindM (project_retained c retained (projection_retry_count s)) (\<lambda>projected.
       retM (if projected then (buffer_clear retained s)\<lparr>projection_retry_count := 0, retry_count := 0\<rparr>
             else s\<lparr>projection_retry_count := projection_retry_count s + 1\<rparr>))"

definition after_refresh_error :: "auto_refresh_settings \<Rightarrow> stored_auth \<Rightarrow> loop_state \<Rightarrow> exn \<Rightarrow> loop_state auto_io" where
  "after_refresh_error c a s e = (case e of
       PreDispatchLocal _ \<Rightarrow>
         bindM (handle_pre_dispatch_error c (revision a) (retry_count s)) (\<lambda>n. retM (s\<lparr>retry_count := n\<rparr>))
     | PostDispatchPersistence source successor base header imported \<Rightarrow>
         thenM (log_event LogWarning ''enji_auth_auto_refresh_retained_after_storage_failure''
             [(''source_revision'', TextField source)])
           (retM (s\<lparr>retry_count := 0, projection_retry_count := 0,
              retained_buffer := Some (retained_of source successor base header imported)\<rparr>))
     | RecoveryRequired source _ delay \<Rightarrow>
         thenM (wait_for_credential_change (Some source) (of_int delay / 1000000) (revision_poll_seconds c))
           (retM (s\<lparr>retry_count := 0\<rparr>))
     | TerminalRevisionRequired source _ \<Rightarrow> park_turn c source (s\<lparr>retry_count := 0\<rparr>)
     | _ \<Rightarrow> throwM e)"

definition refresh_turn :: "coordinator_env \<Rightarrow> auto_refresh_settings \<Rightarrow> stored_auth \<Rightarrow> loop_state \<Rightarrow> loop_state auto_io" where
  "refresh_turn env c a s w = (case refresh_cookie_auth env a w of
       (Inl e, v) \<Rightarrow> after_refresh_error c a s e v
     | (Inr _, v) \<Rightarrow> (Inr (s\<lparr>retry_count := 0\<rparr>), v))"

definition loop_turn :: "coordinator_env \<Rightarrow> auto_refresh_settings \<Rightarrow> loop_state \<Rightarrow> loop_state auto_io" where
  "loop_turn env c s = (case parked s of
       Some source \<Rightarrow> park_turn c source s
     | None \<Rightarrow> (case retained_buffer s of
         Some retained \<Rightarrow> projection_turn c retained s
       | None \<Rightarrow> bindM (scheduled_cookie_auth env c) (\<lambda>scheduled. case scheduled of
           None \<Rightarrow> retM (s\<lparr>retry_count := 0\<rparr>)
         | Some a \<Rightarrow> refresh_turn env c a s)))"

fun loop_turns :: "nat \<Rightarrow> coordinator_env \<Rightarrow> auto_refresh_settings \<Rightarrow> loop_state \<Rightarrow> loop_state auto_io" where
  "loop_turns 0 env c s = retM s"
| "loop_turns (Suc n) env c s = bindM (loop_turn env c s) (loop_turns n env c)"

text \<open>The task runs the loop from its initial state unless it is disabled.\<close>

definition start_auto_refresh_task :: "nat \<Rightarrow> coordinator_env \<Rightarrow> auto_refresh_settings \<Rightarrow> loop_state option auto_io" where
  "start_auto_refresh_task n env c =
     (if refresh_enabled c then bindM (loop_turns n env c initial_loop) (\<lambda>s. retM (Some s)) else retM None)"

end
