(* ===== verification/Refresh_Loop.thy ===== *)
theory Refresh_Loop
  imports Auto_Refresh Auth_Samples
begin

section \<open>Properties of the refresh loop\<close>

text \<open>
  What a turn of the loop keeps: the frames of the credential path carry over to any number of turns,
  with anything other processes do while the loop sleeps.  Then the wait, the retries and the fate of a
  successor that could not be stored.
\<close>

subsection \<open>Frames\<close>

locale loop_frame =
  fixes R :: "auto_world \<Rightarrow> auto_world \<Rightarrow> bool"
  assumes preorder: "preorder_rel R"
    and load_kept: "keeps R (on_files load_auth)"
    and now_kept: "keeps R (on_files now)"
    and project_kept: "keeps R (on_files (project_retained_successor r))"
    and happen_kept: "keeps R (happen e)"
    and monotonic_kept: "keeps R monotonic"
    and draw_kept: "keeps R draw"
    and log_kept: "keeps R (log_event l name entries)"
    and sleep_kept: "keeps R (begin_sleep seconds)"
begin

lemmas intros = keeps_basic [OF preorder] keeps_bindM [OF preorder] keeps_thenM [OF preorder]
  load_kept now_kept happen_kept monotonic_kept draw_kept log_kept sleep_kept

lemma wait_check_kept: "keeps R m \<Longrightarrow> keeps R (wait_check expected deadline poll m)"
  unfolding wait_check_def stored_auth_revision_def Let_def by (auto intro!: intros)

lemma watcher_changed_kept: "keeps R (watcher_changed e)"
  by (cases e rule: watcher_changed.cases) (auto simp: watcher_failed_def intro!: intros)

lemma wait_rounds_kept: "keeps R (wait_rounds expected deadline poll watching events)"
  by (induction events arbitrary: watching)
     (auto intro!: intros wait_check_kept watcher_changed_kept split: if_splits)

lemma wait_kept: "keeps R (wait_for_credential_change expected timeout poll)"
  unfolding wait_for_credential_change_def by (intro intros wait_rounds_kept)

lemma scheduled_kept: "keeps R (scheduled_cookie_auth env c)"
  unfolding scheduled_cookie_auth_def log_unscheduled_credential_def wait_fallback_def refresh_sleep_def Let_def
  by (auto intro!: intros wait_kept split: option.split sum.split)

lemma retry_seconds_kept: "keeps R (pre_dispatch_retry_seconds c count)"
  unfolding pre_dispatch_retry_seconds_def by (intro intros)

lemma pre_dispatch_kept: "keeps R (handle_pre_dispatch_error c expected count)"
  unfolding handle_pre_dispatch_error_def wait_fallback_def
  by (auto intro!: intros wait_kept retry_seconds_kept)

lemma split_run_kept:
  assumes "keeps R m" and "\<And>r. keeps R (k r)"
  shows "keeps R (\<lambda>w. case m w of (r, v) \<Rightarrow> k r v)"
  unfolding keeps_def
proof
  fix w
  obtain r v where m: "m w = (r, v)" by (cases "m w")
  have "R w v" by (rule keepsD [OF assms(1) m])
  moreover have "R v (snd (k r v))" using assms(2) by (simp add: keeps_def)
  ultimately show "R w (snd (case m w of (r, v) \<Rightarrow> k r v))"
    using preorder m unfolding preorder_rel_def by auto
qed

lemma projection_kept: "keeps R (project_retained c retained count)"
proof -
  let ?retry = "\<lambda>e. bindM (pre_dispatch_retry_seconds c (count + 1)) (\<lambda>seconds.
           thenM (log_event LogWarning ''enji_auth_auto_refresh_retained_projection_retry''
               [(''delay_seconds'', SecondsField seconds), (''error_type'', TextField (exn_class e))])
          (thenM (wait_for_credential_change (Some (retained_source retained)) seconds (revision_poll_seconds c))
            (retM False)))"
  let ?k = "\<lambda>r. case r of
       Inl e \<Rightarrow> if is_os_error e then ?retry e else throwM e
     | Inr (SuccessorProjected _) \<Rightarrow>
         thenM (log_event LogInfo ''enji_auth_auto_refresh_retained_projection_succeeded''
             [(''source_revision'', TextField (retained_source retained))]) (retM True)
     | Inr (SuccessorSuperseded r) \<Rightarrow>
         thenM (log_event LogInfo ''enji_auth_auto_refresh_retained_projection_superseded''
             [(''source_revision'', TextField (retained_source retained)),
              (''current_revision'', case r of None \<Rightarrow> NoField | Some x \<Rightarrow> TextField x)]) (retM True)"
  have "project_retained c retained count
    = (\<lambda>w. case on_files (project_retained_successor retained) w of (r, v) \<Rightarrow> ?k r v)"
    by (auto simp: project_retained_def throwM_def fun_eq_iff split: prod.split sum.split projection.split)
  then show ?thesis
    by (auto intro!: split_run_kept project_kept intros retry_seconds_kept wait_kept split: sum.split projection.split)
qed

lemma park_kept: "keeps R (park_turn c source s)"
  unfolding park_turn_def wait_fallback_def by (intro intros wait_kept)

lemma projection_turn_kept: "keeps R (projection_turn c retained s)"
  unfolding projection_turn_def by (intro intros projection_kept)

lemma after_error_kept: "keeps R (after_refresh_error c a s e)"
  unfolding after_refresh_error_def
  by (auto intro!: intros wait_kept park_kept pre_dispatch_kept split: exn.split)

text \<open>A turn is framed if the refresh itself is.\<close>

lemma turn_kept:
  assumes "\<And>a. keeps R (refresh_cookie_auth env a)"
  shows "keeps R (loop_turn env c s)"
proof -
  have "refresh_turn env c a s = (\<lambda>w. case refresh_cookie_auth env a w of (r, v) \<Rightarrow>
      (case r of Inl e \<Rightarrow> after_refresh_error c a s e | Inr _ \<Rightarrow> retM (s\<lparr>retry_count := 0\<rparr>)) v)" for a
    by (auto simp: refresh_turn_def retM_def fun_eq_iff split: prod.split sum.split)
  then have "keeps R (refresh_turn env c a s)" for a
    by (auto intro!: split_run_kept assms intros after_error_kept split: sum.split)
  then show ?thesis
    unfolding loop_turn_def
    by (auto intro!: intros park_kept projection_turn_kept scheduled_kept split: option.split)
qed

lemma turns_kept:
  assumes "\<And>a. keeps R (refresh_cookie_auth env a)"
  shows "keeps R (loop_turns n env c s)"
  by (induction n arbitrary: s) (auto intro!: intros turn_kept assms)

end

text \<open>A frame of the files that their operations keep is one of the loop.\<close>

definition lifted :: "(auth_world \<Rightarrow> auth_world \<Rightarrow> bool) \<Rightarrow> auto_world \<Rightarrow> auto_world \<Rightarrow> bool" where
  "lifted F w v \<longleftrightarrow> F (cred_files w) (cred_files v)"

lemma on_files_lifted: "keeps F m \<Longrightarrow> keeps (lifted F) (on_files m)"
  by (auto simp: keeps_def lifted_def on_files_def split: prod.split) (metis snd_conv)

lemma lifted_preorder: "preorder_rel F \<Longrightarrow> preorder_rel (lifted F)"
  unfolding preorder_rel_def lifted_def by blast

lemma fold_related:
  assumes "preorder_rel F" and "\<And>x w. F w (perform x w)"
  shows "F w (fold perform xs w)"
  using assms by (induction xs arbitrary: w) (auto simp: preorder_rel_def, blast)

lemma lifted_frame:
  assumes frame: "coordinator_frame F" and operations: "\<And>x w. F w (perform x w)"
  shows "loop_frame (lifted F)"
proof -
  have world: "world_frame F"
    using frame by (simp add: coordinator_frame_def journal_frame_def)
  note pre = world_frame.preorder [OF world]
  then have refl: "F w w" for w by (simp add: preorder_rel_def)
  then have calm: "keeps (lifted F) m" if "\<And>w. cred_files (snd (m w)) = cred_files w" for m :: "'a auto_io"
    using that by (simp add: keeps_def lifted_def)
  show ?thesis
    by unfold_locales
       (intro lifted_preorder pre on_files_lifted world_frame.load_auth_kept [OF world] world_frame.now_kept [OF world]
          coordinator_frame.project_kept [OF frame]
        | rule calm, simp add: monotonic_def draw_def log_event_def begin_sleep_def io_simps
        | simp add: keeps_def lifted_def happen_def io_simps fold_related [OF pre operations])+
qed

lemma refresh_lifted:
  assumes pre: "preorder_rel F" and "\<And>expected exchange polls. keeps F (refresh env expected exchange polls)"
  shows "keeps (lifted F) (refresh_cookie_auth env a)"
proof -
  note intros = keeps_basic [OF lifted_preorder [OF pre]] keeps_bindM [OF lifted_preorder [OF pre]]
    keeps_thenM [OF lifted_preorder [OF pre]]
  have "keeps (lifted F) (putM (\<lambda>w. w\<lparr>exchanges := rest\<rparr>))" for rest
    using pre by (auto simp: keeps_def lifted_def io_simps preorder_rel_def)
  then show ?thesis
    unfolding refresh_cookie_auth_def
    by (auto intro!: intros on_files_lifted assms split: list.split option.split)
qed

interpretation outcome_loop: loop_frame "lifted lossless"
  by (rule lifted_frame) (rule outcome_frame.coordinator_frame_axioms perform_lossless)+

interpretation whole_loop: loop_frame "lifted whole"
  by (rule lifted_frame) (rule whole_frame.coordinator_frame_axioms perform_whole)+

interpretation exchange_loop: loop_frame "\<lambda>w v. exchanges v = exchanges w"
  by unfold_locales
     (auto simp: keeps_def preorder_rel_def on_files_def happen_def monotonic_def draw_def log_event_def begin_sleep_def
        io_simps split: prod.split)

text \<open>C7: The loop loses nothing: after any number of turns, with anything other processes do to the files
  while it sleeps and however it ends, every outcome that was pending or delivered still is, and a
  reader of the credential file finds what was there before or a complete credential.\<close>

theorem loop_loses_nothing:
  "accounted (cred_files w) \<subseteq> accounted (cred_files (snd (loop_turns n env c s w)))
    \<and> (content (auth_slot (cred_files (snd (loop_turns n env c s w)))) = content (auth_slot (cred_files w))
       \<or> (\<exists>a. content (auth_slot (cred_files (snd (loop_turns n env c s w)))) = Document (auth_payload a)))"
proof -
  have "lifted lossless w (snd (loop_turns n env c s w))"
    using outcome_loop.turns_kept [OF refresh_lifted [OF outcome_frame.preorder refresh_lossless]]
    by (simp add: keeps_def)
  moreover have "lifted whole w (snd (loop_turns n env c s w))"
    using whole_loop.turns_kept [OF refresh_lifted [OF whole_frame.preorder refresh_whole]]
    by (simp add: keeps_def)
  ultimately show ?thesis by (auto simp: lifted_def lossless_def whole_def)
qed

subsection \<open>Waiting\<close>

lemma on_files_others [simp]:
  "wakeups (snd (on_files m w)) = wakeups w" "ticks (snd (on_files m w)) = ticks w"
  "monotonic_of (snd (on_files m w)) = monotonic_of w" "sleeps (snd (on_files m w)) = sleeps w"
  "draws (snd (on_files m w)) = draws w" "random_of (snd (on_files m w)) = random_of w"
  "logged (snd (on_files m w)) = logged w" "exchanges (snd (on_files m w)) = exchanges w"
  by (simp_all add: on_files_def split: prod.split)

text \<open>One round: the revision has changed, the deadline has come, or the wait sleeps and goes on.\<close>

lemma wait_check_cases:
  obtains (changed) found v where "wait_check expected deadline poll k w = (Inr True, v)" "found \<noteq> expected"
      "stored_auth_revision w = (Inr found, v)" "wakeups v = wakeups w" "sleeps v = sleeps w"
      "ticks v = ticks w" "monotonic_of v = monotonic_of w"
  | (expired) v where "wait_check expected deadline poll k w = (Inr False, v\<lparr>ticks := Suc (ticks w)\<rparr>)"
      "stored_auth_revision w = (Inr expected, v)" "deadline \<le> monotonic_of w (ticks w)"
      "wakeups v = wakeups w" "sleeps v = sleeps w"
      "ticks v = ticks w" "monotonic_of v = monotonic_of w"
  | (slept) v x where "wait_check expected deadline poll k w = k (v\<lparr>ticks := Suc (ticks w), sleeps := sleeps w @ [x]\<rparr>)"
      "x = min poll (deadline - monotonic_of w (ticks w))"
      "stored_auth_revision w = (Inr expected, v)" "monotonic_of w (ticks w) < deadline"
      "wakeups v = wakeups w" "sleeps v = sleeps w" "ticks v = ticks w" "monotonic_of v = monotonic_of w"
proof -
  have "\<exists>loaded. fst (load_auth (cred_files w)) = Inr loaded"
    by (auto simp: load_auth_def bindM_def now_def getM_def split: list.split)
  then obtain loaded u where load: "load_auth (cred_files w) = (Inr loaded, u)" by (metis prod.collapse)
  let ?v = "w\<lparr>cred_files := u\<rparr>"
  have found: "stored_auth_revision w = (Inr (auth_revision loaded), ?v)"
    using load by (simp add: stored_auth_revision_def on_files_def io_simps)
  consider "auth_revision loaded \<noteq> expected" | "auth_revision loaded = expected" "deadline \<le> monotonic_of w (ticks w)"
    | "auth_revision loaded = expected" "monotonic_of w (ticks w) < deadline" by linarith
  then show thesis
  proof cases
    case 1
    with found show ?thesis
      by (intro changed [where v = ?v and found = "auth_revision loaded"]) (auto simp: wait_check_def io_simps)
  next
    case 2
    with found show ?thesis
      by (intro expired [where v = ?v]) (auto simp: wait_check_def io_simps monotonic_def)
  next
    case 3
    with found show ?thesis
      by (intro slept [where v = ?v]) (auto simp: wait_check_def io_simps monotonic_def begin_sleep_def)
  qed
qed

text \<open>A watcher failure that the wait contains; the last reading of the revision before a state.\<close>

definition contained_watcher :: "wakeup \<Rightarrow> bool" where
  "contained_watcher e \<longleftrightarrow> (\<forall>x. wake_watcher e = WatcherFailed x \<longrightarrow> is_os_error x \<or> is_runtime_error x \<or> is_value_error x)"

definition last_read :: "auto_world \<Rightarrow> string option \<Rightarrow> bool" where
  "last_read v found \<longleftrightarrow> (\<exists>u t. stored_auth_revision u = (Inr found, t) \<and> cred_files t = cred_files v)"

definition waited :: "string option \<Rightarrow> rat \<Rightarrow> rat \<Rightarrow> nat \<Rightarrow> wakeup list \<Rightarrow> auto_world \<Rightarrow> bool \<Rightarrow> auto_world \<Rightarrow> bool" where
  "waited expected deadline poll n events w b v \<longleftrightarrow>
     (\<exists>xs. sleeps v = sleeps w @ xs \<and> length xs \<le> n \<and> (\<forall>x\<in>set xs. 0 < x \<and> x \<le> poll))
     \<and> (if b then (\<exists>e\<in>set events. wake_watcher e = WatcherFired) \<or> (\<exists>found. last_read v found \<and> found \<noteq> expected)
        else last_read v expected \<and> (\<exists>k\<le>n. deadline \<le> monotonic_of w (ticks w + k)))"

lemma watcher_changed_run:
  assumes "contained_watcher e"
  obtains v where "watcher_changed (wake_watcher e) w = (Inr (wake_watcher e = WatcherFired \<or> wake_watcher e = WatcherPending), v)"
    and "cred_files v = cred_files w" "wakeups v = wakeups w" "sleeps v = sleeps w" "ticks v = ticks w"
    "monotonic_of v = monotonic_of w"
  using assms
  by (cases "wake_watcher e" rule: watcher_changed.cases)
     (auto simp: contained_watcher_def watcher_failed_def log_event_def io_simps)

lemma waited_sleep:
  assumes "waited expected deadline poll n rest v b u" and "0 < x" "x \<le> poll"
    and "sleeps v = sleeps w @ [x]" "ticks v = Suc (ticks w)" "monotonic_of v = monotonic_of w"
  shows "waited expected deadline poll (Suc n) (e # rest) w b u"
proof -
  from assms(1,4) obtain xs where xs: "sleeps u = sleeps w @ (x # xs)" "length xs \<le> n" "\<forall>x\<in>set xs. 0 < x \<and> x \<le> poll"
    by (auto simp: waited_def)
  then have "\<exists>xs. sleeps u = sleeps w @ xs \<and> length xs \<le> Suc n \<and> (\<forall>x\<in>set xs. 0 < x \<and> x \<le> poll)"
    using assms(2,3) by (intro exI [of _ "x # xs"]) auto
  moreover have "\<exists>k\<le>Suc n. deadline \<le> monotonic_of w (ticks w + k)" if "\<not> b"
  proof -
    from assms(1) that obtain k where "k \<le> n" "deadline \<le> monotonic_of v (ticks v + k)" by (auto simp: waited_def)
    with assms(5,6) show ?thesis by (intro exI [of _ "Suc k"]) auto
  qed
  ultimately show ?thesis using assms(1) by (auto simp: waited_def split: if_splits)
qed

lemma wait_rounds_return:
  assumes "n \<le> length events" and "deadline \<le> monotonic_of w (ticks w + n)" and "\<forall>e\<in>set events. contained_watcher e"
    and "0 < poll"
  shows "\<exists>b v. wait_rounds expected deadline poll watching events w = (Inr b, v)
    \<and> waited expected deadline poll n events w b v"
  using assms(1-3)
proof (induction n arbitrary: events w watching)
  case 0
  let ?k = "case events of [] \<Rightarrow> throwM CancelledError | e # rest \<Rightarrow> thenM (happen e)
       (if watching \<and> wake_watcher e \<noteq> WatcherPending
        then bindM (watcher_changed (wake_watcher e)) (\<lambda>changed.
          if changed then retM True else wait_rounds expected deadline poll False rest)
        else wait_rounds expected deadline poll watching rest)"
  have "wait_rounds expected deadline poll watching events = wait_check expected deadline poll ?k"
    by (cases events) auto
  then show ?case
    using 0 by (cases rule: wait_check_cases [where expected = expected and deadline = deadline and poll = poll and k = ?k and w = w])
      (auto simp: waited_def last_read_def)
next
  case (Suc n)
  then obtain e rest where events: "events = e # rest" by (cases events) auto
  let ?go = "\<lambda>b. wait_rounds expected deadline poll b rest"
  let ?k = "thenM (happen e) (if watching \<and> wake_watcher e \<noteq> WatcherPending
        then bindM (watcher_changed (wake_watcher e)) (\<lambda>changed. if changed then retM True else ?go False)
        else ?go watching)"
  have run: "wait_rounds expected deadline poll watching events w = wait_check expected deadline poll ?k w"
    by (simp only: events wait_rounds.simps)
  show ?case
  proof (cases rule: wait_check_cases [where expected = expected and deadline = deadline and poll = poll and k = ?k and w = w])
    case (changed found v)
    then show ?thesis unfolding run
      by (intro exI [of _ True] exI [of _ v]) (auto simp: waited_def last_read_def)
  next
    case (expired v)
    let ?v = "v\<lparr>ticks := Suc (ticks w)\<rparr>"
    have "last_read ?v expected" unfolding last_read_def using expired(2) by (intro exI [of _ w] exI [of _ v]) simp
    with expired show ?thesis unfolding run
      by (intro exI [of _ False] exI [of _ ?v]) (auto simp: waited_def intro!: exI [of _ 0])
  next
    case (slept v x)
    let ?w = "v\<lparr>ticks := Suc (ticks w), sleeps := sleeps w @ [x]\<rparr>"
    obtain u where u: "happen e ?w = (Inr (), u)" "sleeps u = sleeps w @ [x]" "ticks u = Suc (ticks w)"
        "monotonic_of u = monotonic_of w"
      using slept by (auto simp: happen_def io_simps)
    have x: "0 < x" "x \<le> poll" using slept(2,4) assms(4) by auto
    have IH: "\<exists>b v. ?go watching' u' = (Inr b, v) \<and> waited expected deadline poll n rest u' b v"
      if "ticks u' = ticks u" "monotonic_of u' = monotonic_of u" for watching' u'
      using Suc.prems events u(3,4) that by (intro Suc.IH) auto
    have step: ?thesis if "?k ?w = ?go watching' u'" "sleeps u' = sleeps u" "ticks u' = ticks u"
        "monotonic_of u' = monotonic_of u" for watching' u'
      using IH [OF that(3,4), of watching'] slept(1) that u(2-4) events waited_sleep [OF _ x, of _ _ _ _ u']
      by fastforce
    show ?thesis
    proof (cases "watching \<and> wake_watcher e \<noteq> WatcherPending")
      case False
      with u show ?thesis by (intro step [of watching u]) (auto simp: io_simps)
    next
      case True
      obtain u' where u': "watcher_changed (wake_watcher e) u = (Inr (wake_watcher e = WatcherFired \<or> wake_watcher e = WatcherPending), u')"
          "sleeps u' = sleeps u" "ticks u' = ticks u" "monotonic_of u' = monotonic_of u"
        using watcher_changed_run [of e u] Suc.prems(3) events by auto
      show ?thesis
      proof (cases "wake_watcher e = WatcherFired")
        case False
        with True u u' show ?thesis by (intro step [of False u']) (auto simp: io_simps)
      next
        case fired: True
        with True u u' slept(1) events x show ?thesis
          by (auto simp: io_simps waited_def)
      qed
    qed
  qed
qed


subsection \<open>A sample loop\<close>

definition sample_refresh_settings :: auto_refresh_settings where
  "sample_refresh_settings = \<lparr>refresh_enabled = True, lead_seconds = 480, fallback_seconds = 900,
     revision_poll_seconds = 5, retry_limit = 3, retry_initial_seconds = 1, retry_max_seconds = 10,
     retry_jitter_seconds = 1 / 4\<rparr>"

text \<open>A clock that advances a thousand seconds with every reading, and wake-ups by the clock alone.\<close>

definition sample_auto :: "fault_plan \<Rightarrow> auto_world" where
  "sample_auto plan = \<lparr>cred_files = sample_world plan no_file,
     wakeups = replicate 4 \<lparr>wake_operations = [], wake_watcher = WatcherPending\<rparr>, exchanges = [(\<lambda>_. Cancelled, [])],
     monotonic_of = (\<lambda>n. of_int (1000 * int n)), ticks = 0, random_of = (\<lambda>_. 0), draws = 0, sleeps = [], logged = []\<rparr>"

definition sample_retained :: "string \<Rightarrow> retained_successor" where
  "sample_retained source = retained_of source ''r2'' ''https://guard'' ''access_token=c; refresh_token=d''
     ''2026-01-02T00:00:00+00:00''"


subsection \<open>Retries\<close>

lemma park_turn_state:
  "park_turn c source s w = (Inr t, v) \<Longrightarrow> retry_count t = retry_count s \<and> retained_buffer t = retained_buffer s"
  by (auto simp: park_turn_def io_simps elim!: bindM_InrE split: if_splits)

lemma projection_turn_state:
  "projection_turn c r s w = (Inr t, v) \<Longrightarrow> retry_count t = 0 \<or> retry_count t = retry_count s"
  by (auto simp: projection_turn_def io_simps elim!: bindM_InrE split: if_splits)

lemma handle_pre_dispatch_count:
  "handle_pre_dispatch_error c expected n w = (Inr k, v) \<Longrightarrow> k = 0 \<or> k = n + 1 \<and> n < retry_limit c"
  by (auto simp: handle_pre_dispatch_error_def io_simps elim!: bindM_InrE thenM_E split: if_splits)

lemma turn_count:
  assumes "loop_turn env c s w = (Inr t, v)"
  shows "retry_count t = 0 \<or> retry_count t = retry_count s \<or> retry_count t = retry_count s + 1 \<and> retry_count s < retry_limit c"
proof -
  have "retry_count t = 0 \<or> retry_count t = retry_count s + 1 \<and> retry_count s < retry_limit c"
    if "after_refresh_error c a s e u = (Inr t, v)" for a e u
    using that
    by (auto simp: after_refresh_error_def io_simps elim!: bindM_InrE thenM_E split: exn.splits
        dest!: handle_pre_dispatch_count park_turn_state)
  with assms show ?thesis
    by (fastforce simp: loop_turn_def refresh_turn_def io_simps elim!: bindM_InrE
        split: option.splits prod.splits sum.splits dest: park_turn_state projection_turn_state)
qed


subsection \<open>A successor that could not be stored\<close>

text \<open>Some reading of the file finds no cookie credential of the revision.\<close>

definition unclaimed :: "string \<Rightarrow> file_slot \<Rightarrow> bool" where
  "unclaimed source slot \<longleftrightarrow> (\<exists>u loaded. auth_slot u = slot \<and> fst (load_auth u) = Inr loaded
     \<and> (\<forall>a h. loaded = AuthLoaded a \<longrightarrow> auth_credential a = CookieCredential h \<longrightarrow> revision a \<noteq> source))"

lemma load_auth_slot: "load_auth w = (q, u) \<Longrightarrow> auth_slot u = auth_slot w"
  by (rule same_run [OF auth_frame.load_auth_kept])

lemma cas_result_slot:
  assumes "cas_replace_cookie source header (Some new) w = (Inr q, t)"
  shows "case q of CasWritten a \<Rightarrow> stored_revision (auth_slot t) = Some new
    | CasSuperseded x \<Rightarrow> unclaimed source (auth_slot w) \<and> auth_slot t = auth_slot w"
proof -
  obtain loaded u where load: "load_auth w = (Inr loaded, u)"
    using assms by (auto simp: cas_replace_cookie_def elim!: bindM_InrE)
  note slot = load_auth_slot [OF load]
  show ?thesis
  proof (cases "\<exists>a h. loaded = AuthLoaded a \<and> revision a = source \<and> auth_credential a = CookieCredential h")
    case False
    then have "unclaimed source (auth_slot w)" using load by (auto simp: unclaimed_def intro!: exI [of _ w])
    with False assms load slot show ?thesis
      by (auto simp: cas_replace_cookie_def io_simps split: auth_load_result.splits if_splits credential.splits)
  next
    case True
    then obtain a h where a: "loaded = AuthLoaded a" "revision a = source" "auth_credential a = CookieCredential h" by blast
    from assms load a obtain b v where "make_stored_auth (base_url a) (CookieCredential header) (Some new) u = (Inr b, v)"
        and "thenM (write_auth_file b) (retM (CasWritten b)) v = (Inr q, t)"
      by (auto simp: cas_replace_cookie_def io_simps elim!: bindM_InrE)
    then have "revision b = new" "q = CasWritten b" "write_auth_file b v = (Inr (), t)"
      by (auto simp: make_stored_auth_def io_simps elim!: bindM_InrE thenM_E)
    with write_auth_returned stored_revision_written show ?thesis by fastforce
  qed
qed

lemma project_result:
  assumes "project_retained_successor r w = (Inr p, t)"
  shows "case p of SuccessorProjected a \<Rightarrow> stored_revision (auth_slot t) = Some (revision (retained_auth r))
    | SuccessorSuperseded x \<Rightarrow> unclaimed (retained_source r) (auth_slot w) \<and> auth_slot t = auth_slot w"
proof -
  from assms obtain f g v where body: "project_locked r (w\<lparr>faults := f\<rparr>) = (Inr p, v)" and t: "t = v\<lparr>faults := g\<rparr>"
    unfolding project_retained_successor_def by (rule lock_returned)
  from body obtain loaded u s attempt u' where load: "load_auth (w\<lparr>faults := f\<rparr>) = (Inr loaded, u)"
      and rotated: "retained_rotated_state r = Inr s" and found: "attempt_for_source (retained_source r) u = (Inr attempt, u')"
      and rest: "(case projected_auth_or_none loaded r of
         Some a \<Rightarrow> thenM (record_terminal_outcome s (without_owner attempt) False) (retM (SuccessorProjected a))
       | None \<Rightarrow>
           if current_revision loaded \<noteq> Some (retained_source r)
           then retM (SuccessorSuperseded (current_revision loaded))
           else thenM (write_journal s False (Some (without_owner attempt)))
            (case s of
               Rotated source replacement successor \<Rightarrow>
                 bindM (cas_replace_cookie source replacement (Some successor)) (\<lambda>result. case result of
                     CasWritten a \<Rightarrow> thenM (record_terminal_outcome s (without_owner attempt) False) (retM (SuccessorProjected a))
                   | CasSuperseded r \<Rightarrow> retM (SuccessorSuperseded r))
             | _ \<Rightarrow> throwM (AssertionError []))) u' = (Inr p, v)"
    by (auto simp: project_locked_def Let_def io_simps elim!: bindM_InrE)
  have slot: "auth_slot u' = auth_slot w"
    using load_auth_slot [OF load] same_run [OF auth_frame.attempt_for_source_kept found] by simp
  have record_kept: "record_terminal_outcome s' a b x = (q, y) \<Longrightarrow> auth_slot y = auth_slot x" for s' a b x q y
    by (rule same_run [OF auth_frame.record_terminal_outcome_kept])
  show ?thesis
  proof (cases "projected_auth_or_none loaded r")
    case (Some a)
    then have "loaded = AuthLoaded a" "revision a = revision (retained_auth r)"
      by (auto simp: projected_auth_or_none_def split: auth_load_result.splits if_splits)
    with load_auth_revision load have "stored_revision (auth_slot w) = Some (revision (retained_auth r))" by fastforce
    with Some rest slot t show ?thesis by (auto simp: io_simps elim!: bindM_InrE dest!: record_kept)
  next
    case None
    show ?thesis
    proof (cases "current_revision loaded = Some (retained_source r)")
      case False
      then have "unclaimed (retained_source r) (auth_slot w)"
        using load by (auto simp: unclaimed_def intro!: exI [of _ "w\<lparr>faults := f\<rparr>"])
      with False None rest slot t show ?thesis by (auto simp: io_simps)
    next
      case True
      obtain header where s: "s = Rotated (retained_source r) header (revision (retained_auth r))"
        using rotated by (auto simp: retained_rotated_state_def split: credential.splits)
      from True None rest s obtain x q y where journal: "write_journal s False (Some (without_owner attempt)) u' = (Inr (), x)"
          and cas: "cas_replace_cookie (retained_source r) header (Some (revision (retained_auth r))) x = (Inr q, y)"
          and after: "(case q of CasWritten a \<Rightarrow> thenM (record_terminal_outcome s (without_owner attempt) False) (retM (SuccessorProjected a))
                   | CasSuperseded r \<Rightarrow> retM (SuccessorSuperseded r)) y = (Inr p, v)"
        by (auto elim!: bindM_InrE thenM_E)
      have "auth_slot x = auth_slot w"
        using slot same_run [OF auth_frame.write_journal_kept journal] by simp
      with cas_result_slot [OF cas] after t show ?thesis
        by (cases q) (auto simp: io_simps elim!: bindM_InrE dest!: record_kept)
    qed
  qed
qed

lemma projection_run:
  assumes "project_retained_successor r (cred_files w) = (Inr p, u)"
  shows "\<exists>v. projection_turn c r s w = (Inr ((buffer_clear r s)\<lparr>projection_retry_count := 0, retry_count := 0\<rparr>), v)
    \<and> cred_files v = u"
  using assms
  by (cases p) (auto simp: projection_turn_def project_retained_def on_files_def log_event_def io_simps bindM_def)


lemma load_auth_unreadable:
  "content (auth_slot f) = Unreadable e \<Longrightarrow> \<exists>u. load_auth f = (Inr (AuthIoFailure ''read credential'' e), u)
     \<and> auth_slot u = auth_slot f \<and> journal_slot u = journal_slot f \<and> faults u = faults f"
  by (auto simp: load_auth_def now_def bindM_def getM_def split: list.split)

text \<open>C28: A credential file that cannot be read is taken for a newer credential: the turn drops the successor, the
  only copy of the rotated token, and leaves the file as it is.\<close>

theorem unreadable_file_drops_successor:
  assumes "parked s = None" and "retained_buffer s = Some r" and "auth_credential (retained_auth r) = CookieCredential h"
    and "content (auth_slot (cred_files w)) = Unreadable e" and "content (journal_slot (cred_files w)) = Missing"
    and "faults (cred_files w) = []"
  shows "\<exists>s' v. loop_turn env c s w = (Inr s', v) \<and> retained_buffer s' = None
    \<and> auth_slot (cred_files v) = auth_slot (cred_files w)"
proof -
  obtain u where load: "load_auth (cred_files w) = (Inr (AuthIoFailure ''read credential'' e), u)"
      "auth_slot u = auth_slot (cred_files w)" "journal_slot u = journal_slot (cred_files w)" "faults u = []"
    using load_auth_unreadable [OF assms(4)] assms(6) by auto
  have "project_locked r (cred_files w) = (Inr (SuccessorSuperseded None), u)"
    using load assms
    by (simp add: project_locked_def retained_rotated_state_def attempt_for_source_def load_journal_def
        projected_auth_or_none_def io_simps Let_def)
  then have "project_retained_successor r (cred_files w) = (Inr (SuccessorSuperseded None), u)"
    using assms(6) load(4)
    by (simp add: project_retained_successor_def auth_file_lock_def trigger_def finallyM_def io_simps)
  from projection_run [OF this, of c s] load(2) assms(1,2) show ?thesis
    by (auto simp: loop_turn_def buffer_clear_def)
qed

text \<open>A projection whose lock cannot be opened, after the successor or another credential was stored.\<close>

lemma stalled_turn:
  assumes "clock (cred_files w) = [t]" and "fst (load_auth (cred_files w)) = Inr loaded"
    and "auth_revision loaded \<noteq> Some (retained_source r)" and "faults (cred_files w) = True # fs"
    and "parked s = None" and "retained_buffer s = Some r" and n: "0 \<le> projection_retry_count s"
  shows "if 1024 \<le> projection_retry_count s
    then fst (loop_turn env c s w) = Inl (OverflowError ''Numerical result out of range'')
    else \<exists>v. loop_turn env c s w = (Inr (s\<lparr>projection_retry_count := projection_retry_count s + 1\<rparr>), v)
      \<and> sleeps v = sleeps w \<and> cred_files v = (cred_files w)\<lparr>faults := fs\<rparr>"
proof -
  let ?f = "(cred_files w)\<lparr>faults := fs\<rparr>"
  have failed: "on_files (project_retained_successor r) w = (Inl (OSError ''lock_open''), w\<lparr>cred_files := ?f\<rparr>)"
    using assms(4) by (simp add: on_files_def project_retained_successor_def auth_file_lock_def trigger_def io_simps)
  have "load_auth (cred_files w) = (Inr loaded, cred_files w)"
    using assms(1,2) by (auto simp: load_auth_def now_def io_simps bindM_def)
  then have "load_auth ?f = (Inr loaded, ?f)"
    using load_auth_constant [OF assms(1)] assms(1) by fastforce
  then have changed: "stored_auth_revision u = (Inr (auth_revision loaded), u)" if "cred_files u = ?f" for u
    using that by (simp add: stored_auth_revision_def on_files_def io_simps)
  have waited: "\<exists>v. wait_for_credential_change (Some (retained_source r)) x poll u = (Inr True, v)
      \<and> sleeps v = sleeps u \<and> cred_files v = ?f" if "cred_files u = ?f" for u x poll
    using changed [of "u\<lparr>ticks := Suc (ticks u)\<rparr>"] that assms(3)
    by (cases "wakeups u") (auto simp: wait_for_credential_change_def monotonic_def wait_check_def io_simps)
  show ?thesis
  proof (cases "1024 \<le> projection_retry_count s")
    case True
    with failed assms(5,6) show ?thesis
      by (simp add: loop_turn_def projection_turn_def project_retained_def pre_dispatch_retry_seconds_def
          float_power_of_two_def io_simps bindM_def)
  next
    case False
    have power: "float_power_of_two (projection_retry_count s) = Inr (2 ^ nat (projection_retry_count s))"
      using False n by (simp add: float_power_of_two_def)
    let ?u = "\<lambda>x. w\<lparr>cred_files := ?f, draws := Suc (draws w), logged := logged w @
      [(LogWarning, ''enji_auth_auto_refresh_retained_projection_retry'',
        [(''delay_seconds'', SecondsField x), (''error_type'', TextField ''OSError'')])]\<rparr>"
    have "\<exists>v. wait_for_credential_change (Some (retained_source r)) x (revision_poll_seconds c) (?u x) = (Inr True, v)
      \<and> sleeps v = sleeps w \<and> cred_files v = ?f" for x using waited [of "?u x" x] by simp
    then obtain v where v: "wait_for_credential_change (Some (retained_source r)) x (revision_poll_seconds c) (?u x) = (Inr True, v x)"
      "sleeps (v x) = sleeps w" "cred_files (v x) = ?f" for x by metis
    show ?thesis
      using failed assms(5,6) False power v
      by (simp add: loop_turn_def projection_turn_def project_retained_def pre_dispatch_retry_seconds_def
          draw_def log_event_def io_simps)
  qed
qed

text \<open>C29: A successor whose outcome cannot be recorded stops the loop: when the file no longer has the source
  revision and every projection fails, the loop spins without a single sleep and after 1024 turns the
  exponential delay overflows, which ends the task and loses the successor.\<close>

theorem stalled_projection_ends_loop:
  assumes "clock (cred_files w) = [t]" and "fst (load_auth (cred_files w)) = Inr loaded"
    and "auth_revision loaded \<noteq> Some (retained_source r)" and "faults (cred_files w) = replicate 1025 True"
    and "parked s = None" and "retained_buffer s = Some r" and "projection_retry_count s = 0"
  shows "\<exists>v. loop_turns 1024 env c s w = (Inr (s\<lparr>projection_retry_count := 1024\<rparr>), v) \<and> sleeps v = sleeps w
    \<and> fst (loop_turn env c (s\<lparr>projection_retry_count := 1024\<rparr>) v) = Inl (OverflowError ''Numerical result out of range'')"
proof -
  let ?s = "\<lambda>n. s\<lparr>projection_retry_count := n\<rparr>"
  let ?ready = "\<lambda>k u. clock (cred_files u) = [t] \<and> fst (load_auth (cred_files u)) = Inr loaded
    \<and> faults (cred_files u) = replicate k True"
  have kept: "fst (load_auth (f\<lparr>faults := p\<rparr>)) = fst (load_auth f)" for f p
    by (simp add: load_auth_def bindM_def now_def getM_def split: list.split)
  have turns: "\<exists>v. loop_turns n env c (?s k) u = (Inr (?s (k + int n)), v) \<and> sleeps v = sleeps u \<and> ?ready m v"
    if "?ready (n + m) u" "0 \<le> k" "k + int n \<le> 1024" for n m k u
    using that
  proof (induction n arbitrary: k u)
    case (Suc n)
    have "faults (cred_files u) = True # replicate (n + m) True" using Suc.prems(1) by simp
    with stalled_turn [of u t loaded r "replicate (n + m) True" "?s k" env c] Suc.prems assms(3,5,6)
    obtain u' where u': "loop_turn env c (?s k) u = (Inr (?s (k + 1)), u')" "sleeps u' = sleeps u"
        "cred_files u' = (cred_files u)\<lparr>faults := replicate (n + m) True\<rparr>"
      by (auto split: if_splits)
    with Suc.prems kept have "?ready (n + m) u'" by simp
    with Suc.IH [of u' "k + 1"] Suc.prems obtain v where "loop_turns n env c (?s (k + 1)) u' = (Inr (?s (k + 1 + int n)), v)"
        "sleeps v = sleeps u'" "?ready m v" by auto
    with u' show ?case by (auto simp: io_simps algebra_simps)
  qed (simp add: io_simps)
  have "?s 0 = s" using assms(7) by simp
  moreover have "\<exists>v. loop_turns 1024 env c (?s 0) w = (Inr (?s (0 + int 1024)), v) \<and> sleeps v = sleeps w \<and> ?ready 1 v"
    using assms(1,2,4) by (intro turns) auto
  ultimately obtain v where v: "loop_turns 1024 env c s w = (Inr (?s 1024), v)"
      "sleeps v = sleeps w" "?ready 1 v" by auto
  with stalled_turn [of v t loaded r "[]" "?s 1024" env c] assms(3,5,6) show ?thesis by simp
qed

subsection \<open>When a refresh is due\<close>

lemma wait_rounds_expired:
  "wait_rounds expected deadline poll watching events w = (Inr False, v) \<Longrightarrow> \<exists>k. deadline \<le> monotonic_of w (ticks w + k)"
proof (induction events arbitrary: w watching)
  case Nil
  then show ?case
    using wait_check_cases [where expected = expected and deadline = deadline and poll = poll
        and k = "throwM CancelledError" and w = w]
    by (auto simp: io_simps) (metis add.right_neutral)
next
  case (Cons e rest)
  let ?k = "thenM (happen e) (if watching \<and> wake_watcher e \<noteq> WatcherPending
        then bindM (watcher_changed (wake_watcher e)) (\<lambda>changed.
          if changed then retM True else wait_rounds expected deadline poll False rest)
        else wait_rounds expected deadline poll watching rest)"
  have run: "wait_check expected deadline poll ?k w = (Inr False, v)"
    using Cons.prems by (simp only: wait_rounds.simps)
  show ?case
  proof (cases rule: wait_check_cases [where expected = expected and deadline = deadline and poll = poll and k = ?k and w = w])
    case (changed found u)
    with run show ?thesis by simp
  next
    case (expired u)
    then show ?thesis by (intro exI [of _ 0]) simp
  next
    case (slept u x)
    let ?u = "u\<lparr>ticks := Suc (ticks w), sleeps := sleeps w @ [x]\<rparr>"
    have go: ?thesis if "wait_rounds expected deadline poll b rest u' = (Inr False, v)" "ticks u' = Suc (ticks w)"
        "monotonic_of u' = monotonic_of w" for b u'
      using Cons.IH [OF that(1)] that(2,3) by (metis add_Suc_shift)
    obtain u' where "happen e ?u = (Inr (), u')" and u': "ticks u' = Suc (ticks w)" "monotonic_of u' = monotonic_of w"
      using slept by (simp add: happen_def io_simps)
    with run slept(1) have rest: "(if watching \<and> wake_watcher e \<noteq> WatcherPending
        then bindM (watcher_changed (wake_watcher e)) (\<lambda>changed.
          if changed then retM True else wait_rounds expected deadline poll False rest)
        else wait_rounds expected deadline poll watching rest) u' = (Inr False, v)"
      by (simp add: io_simps)
    show ?thesis
    proof (cases "watching \<and> wake_watcher e \<noteq> WatcherPending")
      case False
      with rest u' go show ?thesis by auto
    next
      case True
      with rest obtain u'' where "watcher_changed (wake_watcher e) u' = (Inr False, u'')"
          "wait_rounds expected deadline poll False rest u'' = (Inr False, v)"
        by (auto simp: io_simps elim!: bindM_InrE split: if_splits)
      moreover from this(1) have "ticks u'' = ticks u'" "monotonic_of u'' = monotonic_of u'"
        by (cases "wake_watcher e" rule: watcher_changed.cases;
            auto simp: watcher_failed_def log_event_def io_simps split: if_splits)+
      ultimately show ?thesis using u' go by auto
    qed
  qed
qed


subsection \<open>Sample turns\<close>

definition sample_holding :: "string \<Rightarrow> loop_state" where
  "sample_holding source = initial_loop\<lparr>retained_buffer := Some (sample_retained source)\<rparr>"

lemma sample_holding_simps [simp]:
  "parked (sample_holding source) = None" "retained_buffer (sample_holding source) = Some (sample_retained source)"
  "projection_retry_count (sample_holding source) = 0"
  by (simp_all add: sample_holding_def initial_loop_def)

lemma sample_settings_valid: "validate_auto_refresh_settings sample_refresh_settings = Inr ()"
  by code_simp

lemma sample_auto_load:
  "load_auth (cred_files (sample_auto plan)) = (Inr (AuthLoaded sample_auth), cred_files (sample_auto plan))"
proof -
  have "parse_auth (auth_payload sample_auth) 63902908800000000 = AuthLoaded sample_auth" by code_simp
  then show ?thesis by (simp add: load_auth_def bindM_def now_def getM_def sample_auto_def sample_world_def sample_file_def)
qed

lemma sample_clock: "clock (cred_files (sample_auto plan)) = [63902908800000000]"
  by (simp add: sample_auto_def sample_world_def)



theorem unreadable_file_drops_successor_witness:
  "\<exists>s v. loop_turn sample_env sample_refresh_settings (sample_holding ''r1'')
       ((sample_auto [])\<lparr>cred_files := (sample_world [] no_file)\<lparr>auth_slot := no_file\<lparr>content := Unreadable ''EIO''\<rparr>\<rparr>\<rparr>) = (Inr s, v)
     \<and> retained_buffer s = None"
proof -
  let ?w = "(sample_auto [])\<lparr>cred_files := (sample_world [] no_file)\<lparr>auth_slot := no_file\<lparr>content := Unreadable ''EIO''\<rparr>\<rparr>\<rparr>"
  have "auth_credential (retained_auth (sample_retained ''r1'')) = CookieCredential ''access_token=c; refresh_token=d''"
    by (simp add: sample_retained_def retained_of_def)
  from unreadable_file_drops_successor [OF _ _ this, of "sample_holding ''r1''" ?w "''EIO''"]
  show ?thesis by (fastforce simp: sample_world_def no_file_def)
qed

theorem stalled_projection_ends_loop_witness:
  "\<exists>s v. loop_turns 1024 sample_env sample_refresh_settings (sample_holding ''r0'') (sample_auto (replicate 1025 True)) = (Inr s, v)
     \<and> sleeps v = [] \<and> fst (loop_turn sample_env sample_refresh_settings s v) = Inl (OverflowError ''Numerical result out of range'')"
proof -
  have "auth_revision (AuthLoaded sample_auth) \<noteq> Some (retained_source (sample_retained ''r0''))"
    by (simp add: sample_auth_def sample_retained_def retained_of_def)
  moreover have "fst (load_auth (cred_files (sample_auto (replicate 1025 True)))) = Inr (AuthLoaded sample_auth)"
    by (simp only: sample_auto_load fst_conv)
  moreover have "faults (cred_files (sample_auto p)) = p" "sleeps (sample_auto p) = []" for p
    by (simp_all add: sample_auto_def sample_world_def)
  ultimately show ?thesis
    using stalled_projection_ends_loop [OF sample_clock [of "replicate 1025 True"], where loaded = "AuthLoaded sample_auth"
        and r = "sample_retained ''r0''" and s = "sample_holding ''r0''"
        and env = sample_env and c = sample_refresh_settings]
    by (metis sample_holding_simps)
qed


end
