(* ===== verification/Runtime_Readiness.thy ===== *)
theory Runtime_Readiness
  imports Auth_Session Auto_Refresh
begin

section \<open>Readiness and supervision (runtime\_observability/)\<close>

text \<open>
  The readiness state that is written after every probe of the backend and read by the health check,
  the loop that keeps it, the acknowledgement of telemetry events and the supervision of the sibling
  tasks.  Instants are in microseconds.  \<open>BackendReadinessObservation\<close> and \<open>BackendReadinessProbe\<close>
  have the fields of the result of the auth session and are copied from it, so that one record
  stands for the three.
\<close>

subsection \<open>The state\<close>

record readiness_state =
  state_ready :: "bool option"
  checked_at :: "string option"
  last_success_at :: "string option"
  state_failure_kind :: "string option"
  state_failure_code :: "string option"
  state_failure_message :: "string option"
  state_failure_status :: "int option"
  state_credential_type :: "string option"
  state_refresh_state :: "string option"
  state_reauth_required :: bool
  consecutive_failures :: int
  state_bypass_grace :: bool

definition state_after_probe :: "readiness_state \<Rightarrow> backend_readiness \<Rightarrow> int \<Rightarrow> readiness_state" where
  "state_after_probe previous p t =
     (let checked = isoformat (utc t) in
      if backend_ready p
      then \<lparr>state_ready = Some True, checked_at = Some checked, last_success_at = Some checked,
        state_failure_kind = None, state_failure_code = None, state_failure_message = None, state_failure_status = None,
        state_credential_type = readiness_credential_type p, state_refresh_state = readiness_refresh_state p,
        state_reauth_required = readiness_reauth_required p, consecutive_failures = 0, state_bypass_grace = False\<rparr>
      else \<lparr>state_ready = Some False, checked_at = Some checked, last_success_at = last_success_at previous,
        state_failure_kind = failure_kind p, state_failure_code = failure_code p,
        state_failure_message = failure_message p, state_failure_status = failure_status_code p,
        state_credential_type = readiness_credential_type p, state_refresh_state = readiness_refresh_state p,
        state_reauth_required = readiness_reauth_required p, consecutive_failures = consecutive_failures previous + 1,
        state_bypass_grace = bypass_grace p\<rparr>)"

definition starting_state :: "int \<Rightarrow> readiness_state" where
  "starting_state t = \<lparr>state_ready = Some False, checked_at = Some (isoformat (utc t)), last_success_at = None,
     state_failure_kind = Some ''startup'', state_failure_code = Some ''STARTING'',
     state_failure_message = Some ''backend readiness has not succeeded yet'', state_failure_status = None,
     state_credential_type = None, state_refresh_state = None, state_reauth_required = False,
     consecutive_failures = 0, state_bypass_grace = False\<rparr>"

subsection \<open>The file\<close>

definition nullable_json :: "('a \<Rightarrow> json) \<Rightarrow> 'a option \<Rightarrow> json" where
  "nullable_json f v = (case v of None \<Rightarrow> JNull | Some x \<Rightarrow> f x)"

definition state_payload :: "readiness_state \<Rightarrow> json" where
  "state_payload s = JObj
     [(''ready'', nullable_json JBool (state_ready s)), (''checked_at'', nullable_json JStr (checked_at s)),
      (''last_success_at'', nullable_json JStr (last_success_at s)), (''failure_kind'', nullable_json JStr (state_failure_kind s)),
      (''failure_code'', nullable_json JStr (state_failure_code s)), (''failure_message'', nullable_json JStr (state_failure_message s)),
      (''failure_status_code'', nullable_json JInt (state_failure_status s)),
      (''credential_type'', nullable_json JStr (state_credential_type s)),
      (''refresh_state'', nullable_json JStr (state_refresh_state s)), (''reauth_required'', JBool (state_reauth_required s)),
      (''consecutive_failures'', JInt (consecutive_failures s)), (''bypass_grace'', JBool (state_bypass_grace s))]"

text \<open>In Python a Boolean is an integer.\<close>

fun json_int :: "json \<Rightarrow> int option" where
  "json_int (JInt n) = Some n"
| "json_int (JBool b) = Some (of_bool b)"
| "json_int _ = None"

fun json_flag :: "json \<Rightarrow> bool" where
  "json_flag (JBool b) = b"
| "json_flag _ = False"

fun nullable :: "(json \<Rightarrow> 'a option) \<Rightarrow> json \<Rightarrow> 'a option option" where
  "nullable f JNull = Some None"
| "nullable f v = map_option Some (f v)"

fun json_bool :: "json \<Rightarrow> bool option" where
  "json_bool (JBool b) = Some b"
| "json_bool _ = None"

definition state_from_payload :: "members \<Rightarrow> readiness_state option" where
  "state_from_payload m =
     (case (nullable json_bool (jget m ''ready''), nullable as_str (jget m ''checked_at''),
            nullable as_str (jget m ''last_success_at''), json_int (jget m ''consecutive_failures'')) of
        (Some ready, Some checked, Some success, Some failures) \<Rightarrow> Some
          \<lparr>state_ready = ready, checked_at = checked, last_success_at = success,
           state_failure_kind = as_str (jget m ''failure_kind''), state_failure_code = as_str (jget m ''failure_code''),
           state_failure_message = as_str (jget m ''failure_message''),
           state_failure_status = json_int (jget m ''failure_status_code''),
           state_credential_type = as_str (jget m ''credential_type''), state_refresh_state = as_str (jget m ''refresh_state''),
           state_reauth_required = json_flag (jget m ''reauth_required''), consecutive_failures = failures,
           state_bypass_grace = json_flag (jget m ''bypass_grace'')\<rparr>
      | _ \<Rightarrow> None)"

definition read_readiness_state :: "file_content \<Rightarrow> readiness_state option result" where
  "read_readiness_state f = (case f of
       Missing \<Rightarrow> Inr None
     | Unreadable _ \<Rightarrow> Inr None
     | NotUtf8 \<Rightarrow> Inl (UnicodeDecodeError ''readiness state'')
     | NotJson _ \<Rightarrow> Inr None
     | Document d \<Rightarrow> Inr (Option.bind (as_obj d) state_from_payload))"

subsection \<open>The verdict\<close>

record readiness_verdict =
  verdict_ready :: bool
  verdict_reason :: "string option"
  verdict_state :: "readiness_state option"

definition READINESS_CLOCK_ANOMALY_TOLERANCE :: int where
  "READINESS_CLOCK_ANOMALY_TOLERANCE = 5000000"

definition parse_readiness_datetime :: "string option \<Rightarrow> int option result" where
  "parse_readiness_datetime v = (case Option.bind v from_isoformat of
       None \<Rightarrow> Inr None
     | Some (DateTime l None) \<Rightarrow> Inr (Some l)
     | Some (DateTime l (Some off)) \<Rightarrow>
         (let t = assume_utc (DateTime l (Some off)) in
          if 0 \<le> t \<and> t < max_ordinal * micros_per_day then Inr (Some t)
          else Inl (OverflowError ''date value out of range'')))"

definition readiness_unavailable_reason :: "readiness_state \<Rightarrow> readiness_settings \<Rightarrow> int \<Rightarrow> int \<Rightarrow> string option" where
  "readiness_unavailable_reason s c checked current =
     (if checked > current + READINESS_CLOCK_ANOMALY_TOLERANCE then Some ''backend readiness state has a clock anomaly''
      else if whole_seconds (current - checked) > state_stale_after_seconds c then Some ''backend readiness state is stale''
      else if state_bypass_grace s then Some ''backend readiness has a terminal auth failure''
      else if last_success_at s = None then Some ''backend readiness has not succeeded yet''
      else if consecutive_failures s \<ge> failure_threshold c then Some ''backend readiness failure threshold reached''
      else None)"

definition unavailable_state_verdict :: "readiness_state \<Rightarrow> readiness_settings \<Rightarrow> int \<Rightarrow> readiness_verdict option result" where
  "unavailable_state_verdict s c current =
     bindR (parse_readiness_datetime (checked_at s)) (\<lambda>parsed. Inr (case parsed of
         None \<Rightarrow> Some \<lparr>verdict_ready = False, verdict_reason = Some ''backend readiness state is invalid'', verdict_state = Some s\<rparr>
       | Some checked \<Rightarrow> map_option (\<lambda>reason. \<lparr>verdict_ready = False, verdict_reason = Some reason, verdict_state = Some s\<rparr>)
           (readiness_unavailable_reason s c checked current)))"

definition state_with_effective_ready :: "readiness_state \<Rightarrow> readiness_settings \<Rightarrow> readiness_state" where
  "state_with_effective_ready s c =
     (if consecutive_failures s = 0 then s
      else s\<lparr>state_ready := Some (consecutive_failures s \<le> ready_after_failure_count c)\<rparr>)"

definition readiness_verdict_of :: "readiness_settings \<Rightarrow> file_content \<Rightarrow> int \<Rightarrow> readiness_verdict result" where
  "readiness_verdict_of c f current =
     (if \<not> readiness_enabled c then Inr \<lparr>verdict_ready = True, verdict_reason = None, verdict_state = None\<rparr>
      else bindR (read_readiness_state f) (\<lambda>read. case read of
          None \<Rightarrow> Inr \<lparr>verdict_ready = False, verdict_reason = Some ''backend readiness state is missing'', verdict_state = None\<rparr>
        | Some s \<Rightarrow> bindR (unavailable_state_verdict s c current) (\<lambda>unavailable. Inr (case unavailable of
              Some v \<Rightarrow> v
            | None \<Rightarrow> \<lparr>verdict_ready = True, verdict_reason = None, verdict_state = Some (state_with_effective_ready s c)\<rparr>))))"

subsection \<open>The readiness loop\<close>

record readiness_world =
  readiness_slot :: slot_state
  readiness_log :: "log_entry list"

type_synonym 'a readiness_io = "(readiness_world, 'a) io"

definition on_readiness_slot :: "(slot_state, 'a) io \<Rightarrow> 'a readiness_io" where
  "on_readiness_slot m w = (case m (readiness_slot w) of (r, s) \<Rightarrow> (r, w\<lparr>readiness_slot := s\<rparr>))"

definition log_readiness :: "log_level \<Rightarrow> string \<Rightarrow> (string \<times> log_field) list \<Rightarrow> unit readiness_io" where
  "log_readiness l e entries = putM (\<lambda>w. w\<lparr>readiness_log := readiness_log w @ [(l, e, entries)]\<rparr>)"

definition opt_text :: "string option \<Rightarrow> log_field" where
  "opt_text v = (case v of None \<Rightarrow> NoField | Some s \<Rightarrow> TextField s)"

definition opt_number :: "int option \<Rightarrow> log_field" where
  "opt_number v = (case v of None \<Rightarrow> NoField | Some n \<Rightarrow> IntField n)"

text \<open>\<open>_write_state\<close>: a failure of the storage is logged and the loop goes on.\<close>

definition write_state :: "readiness_state \<Rightarrow> unit readiness_io" where
  "write_state s = handleM (on_readiness_slot (write_atomic_json (state_payload s))) is_os_error
     (\<lambda>e. log_readiness LogWarning ''enji_backend_readiness_state_write_failed''
        [(''code'', TextField ''STORAGE''), (''message'', TextField (exn_text e))])"

definition log_probe :: "readiness_state \<Rightarrow> backend_readiness \<Rightarrow> unit readiness_io" where
  "log_probe s p =
     (let ok = (state_ready s = Some True) in
      log_readiness (if ok then LogInfo else LogWarning)
        (if ok then ''enji_backend_readiness_succeeded'' else ''enji_backend_readiness_failed'')
        ([(''checked_at'', opt_text (checked_at s)), (''credential_type'', opt_text (state_credential_type s)),
          (''elapsed_ms'', opt_number (elapsed_ms p))]
         @ (if ok then [] else
             [(''failure_kind'', opt_text (state_failure_kind s)), (''code'', opt_text (state_failure_code s)),
              (''status_code'', opt_number (state_failure_status s)), (''message'', opt_text (state_failure_message s)),
              (''consecutive_failures'', IntField (consecutive_failures s))])))"

definition crash_probe :: "exn \<Rightarrow> backend_readiness" where
  "crash_probe e = backend_failure ''internal'' (exn_class e) (exn_text e) None None None False False"

definition state_after_crash :: "readiness_state \<Rightarrow> exn \<Rightarrow> int \<Rightarrow> readiness_state readiness_io" where
  "state_after_crash previous e t =
     (let s = state_after_probe previous (crash_probe e) t in
      thenM (write_state s)
     (thenM (log_readiness LogError ''enji_backend_readiness_probe_crashed''
         [(''error_type'', TextField (exn_class e)), (''message'', TextField (exn_text e)),
          (''consecutive_failures'', IntField (consecutive_failures s))])
       (retM s)))"

text \<open>
  One turn: the time before the probe, what the observation returned or raised, and the time that is
  read if it crashed.  What ends the wait after it, the heartbeat, a changed credential or a failed
  watcher, only decides when the next turn begins and is not part of it.
\<close>

record readiness_round =
  round_checked :: int
  round_observation :: "backend_readiness result"
  round_crashed :: int

definition caught_by_loop :: "exn \<Rightarrow> bool" where
  "caught_by_loop e \<longleftrightarrow> is_os_error e \<or> is_runtime_error e \<or> is_value_error e"

definition probe_turn :: "readiness_state \<Rightarrow> readiness_round \<Rightarrow> readiness_state readiness_io" where
  "probe_turn previous r = bindM (liftM (round_observation r)) (\<lambda>p.
     let s = state_after_probe previous p (round_checked r) in
     thenM (write_state s) (thenM (log_probe s p) (retM s)))"

definition readiness_turn :: "readiness_state \<Rightarrow> readiness_round \<Rightarrow> readiness_state readiness_io" where
  "readiness_turn previous r =
     handleM (probe_turn previous r) caught_by_loop (\<lambda>e. state_after_crash previous e (round_crashed r))"

fun readiness_turns :: "readiness_state \<Rightarrow> readiness_round list \<Rightarrow> readiness_state readiness_io" where
  "readiness_turns s [] = retM s"
| "readiness_turns s (r # rs) = bindM (readiness_turn s r) (\<lambda>t. readiness_turns t rs)"

text \<open>The task writes a starting state before its first turn.\<close>

definition run_readiness :: "int \<Rightarrow> readiness_round list \<Rightarrow> readiness_state readiness_io" where
  "run_readiness started rounds =
     thenM (write_state (starting_state started)) (readiness_turns (starting_state started) rounds)"

definition start_backend_readiness_task :: "readiness_settings \<Rightarrow> bool \<Rightarrow> int \<Rightarrow> readiness_round list
    \<Rightarrow> readiness_state option readiness_io" where
  "start_backend_readiness_task c has_observer started rounds =
     (if \<not> readiness_enabled c then retM None
      else if \<not> has_observer then thenM (write_state (starting_state started)) (retM None)
      else bindM (run_readiness started rounds) (\<lambda>s. retM (Some s)))"

subsection \<open>Telemetry\<close>

text \<open>
  The sinks of telemetry.py: \<open>writes\<close> is whether the coming writes of the stream or file succeed.
  The standard library's \<open>RotatingFileHandler.emit\<close> catches every exception of a write and reports it
  to the standard error stream.
\<close>

datatype telemetry_sink = NoopSink | TextStreamSink | FileJsonlSink

record telemetry_event =
  event_timestamp :: string
  event_level :: string
  event_logger :: string
  event_message :: string
  event_provenance :: string
  event_fields :: "members"

record telemetry_world =
  written_events :: "telemetry_event list"
  writes :: "bool list"

type_synonym 'a telemetry_io = "(telemetry_world, 'a) io"

definition raw_write :: "telemetry_event \<Rightarrow> unit telemetry_io" where
  "raw_write e w = (case writes w of
       False # rest \<Rightarrow> (Inl (OSError ''write''), w\<lparr>writes := rest\<rparr>)
     | True # rest \<Rightarrow> (Inr (), w\<lparr>writes := rest, written_events := written_events w @ [e]\<rparr>)
     | [] \<Rightarrow> (Inr (), w\<lparr>written_events := written_events w @ [e]\<rparr>))"

fun sink_emit :: "telemetry_sink \<Rightarrow> telemetry_event \<Rightarrow> unit telemetry_io" where
  "sink_emit NoopSink e = retM ()"
| "sink_emit TextStreamSink e = raw_write e"
| "sink_emit FileJsonlSink e = handleM (raw_write e) (\<lambda>_. True) (\<lambda>_. retM ())"

fun is_log_field_value :: "json \<Rightarrow> bool" where
  "is_log_field_value (JList _) = False"
| "is_log_field_value (JObj _) = False"
| "is_log_field_value _ = True"

definition safe_log_fields :: "members \<Rightarrow> members" where
  "safe_log_fields m = filter (\<lambda>(k, v). is_log_field_value v) m"

definition persist_event :: "telemetry_sink option \<Rightarrow> bool \<Rightarrow> telemetry_event \<Rightarrow> bool telemetry_io" where
  "persist_event active enabled e =
     (if \<not> enabled then retM False
      else (case active of
          None \<Rightarrow> retM False
        | Some k \<Rightarrow> handleM (thenM (sink_emit k (e\<lparr>event_fields := safe_log_fields (event_fields e)\<rparr>)) (retM True))
            (\<lambda>x. is_os_error x \<or> is_runtime_error x) (\<lambda>_. retM False)))"

subsection \<open>Supervision\<close>

text \<open>
  \<open>supervise_tasks\<close>: \<open>order\<close> is the order in which the sets of tasks are iterated, \<open>finished\<close> the
  result of the tasks that are done at the first wake-up, \<open>mcp_wait\<close> what the shielded wait for the
  server gives (\<open>None\<close>: the timeout) and \<open>cancelled\<close> what a task gives when it is cancelled and awaited.
\<close>

datatype service_task = McpTask | RefreshTask | ReadinessTask | ShutdownTask

fun first_failure :: "unit result list \<Rightarrow> unit result" where
  "first_failure [] = Inr ()"
| "first_failure (r # rs) = (case r of
       Inl CancelledError \<Rightarrow> first_failure rs
     | Inl e \<Rightarrow> Inl e
     | Inr _ \<Rightarrow> first_failure rs)"

definition cancel_tasks :: "(service_task \<Rightarrow> unit result option) \<Rightarrow> (service_task \<Rightarrow> unit result) \<Rightarrow> service_task list
    \<Rightarrow> unit result" where
  "cancel_tasks finished cancelled tasks =
     first_failure (map (\<lambda>t. case finished t of Some r \<Rightarrow> r | None \<Rightarrow> cancelled t) tasks)"

fun raise_results :: "bool \<Rightarrow> (service_task \<Rightarrow> unit result option) \<Rightarrow> service_task list \<Rightarrow> unit result" where
  "raise_results graceful finished [] = Inr ()"
| "raise_results graceful finished (t # ts) = (case finished t of
       None \<Rightarrow> raise_results graceful finished ts
     | Some r \<Rightarrow>
         if t = ShutdownTask \<or> graceful \<and> t = McpTask then raise_results graceful finished ts
         else bindR r (\<lambda>_. raise_results graceful finished ts))"

definition await_mcp_shutdown :: "(service_task \<Rightarrow> unit result option) \<Rightarrow> (service_task \<Rightarrow> unit result)
    \<Rightarrow> unit result option \<Rightarrow> unit result" where
  "await_mcp_shutdown finished cancelled mcp_wait = (case finished McpTask of
       Some r \<Rightarrow> r
     | None \<Rightarrow> (case mcp_wait of
         Some r \<Rightarrow> r
       | None \<Rightarrow> cancel_tasks finished cancelled [McpTask]))"

definition supervise_tasks :: "service_task list \<Rightarrow> (service_task \<Rightarrow> unit result option)
    \<Rightarrow> (service_task \<Rightarrow> unit result) \<Rightarrow> unit result option \<Rightarrow> unit result" where
  "supervise_tasks order finished cancelled mcp_wait =
     (let graceful = (finished ShutdownTask \<noteq> None);
          before = bindR (raise_results graceful finished order) (\<lambda>_.
            if graceful then cancel_tasks finished cancelled (filter (\<lambda>t. t \<noteq> McpTask \<and> t \<noteq> ShutdownTask) order)
            else Inr ());
          body = bindR before (\<lambda>_. if graceful then await_mcp_shutdown finished cancelled mcp_wait else Inr ());
          waited = (graceful \<and> before = Inr ());
          ended = (\<lambda>t. if t = McpTask \<and> finished t = None \<and> waited then mcp_wait else finished t) in
      case cancel_tasks ended cancelled order of Inl e \<Rightarrow> Inl e | Inr _ \<Rightarrow> body)"

end
