(* ===== verification/Runtime_Properties.thy ===== *)
theory Runtime_Properties
  imports Runtime_Readiness
begin

section \<open>Properties of readiness, telemetry and supervision\<close>

text \<open>
  The readiness file is a faithful summary of the probes: the verdict that is read from it is the one
  an observer of the whole history of probes would give.
\<close>

subsection \<open>The file\<close>

lemma nullable_opt:
  "nullable json_bool (nullable_json JBool x) = Some x" "nullable as_str (nullable_json JStr y) = Some y"
  by (cases x; simp add: nullable_json_def) (cases y; simp add: nullable_json_def)

lemma nullable_json_back: "as_str (nullable_json JStr y) = y" "json_int (nullable_json JInt n) = n"
  by (cases y; simp add: nullable_json_def) (cases n; simp add: nullable_json_def)

lemma nullable_json_ready: "nullable_json JBool (Some b) = JBool b" "nullable_json f None = JNull"
  by (simp_all add: nullable_json_def)

text \<open>A readiness state that is written reads back as itself.\<close>

lemma readiness_roundtrip: "read_readiness_state (Document (state_payload s)) = Inr (Some s)"
  by (simp add: read_readiness_state_def state_payload_def state_from_payload_def jget_def nullable_opt nullable_json_back)

subsection \<open>The verdict over a history\<close>

text \<open>A round as the probe it stands for, with its time: a crash is a failing probe.\<close>

definition probe_of :: "readiness_round \<Rightarrow> int \<times> backend_readiness" where
  "probe_of r = (case round_observation r of Inr p \<Rightarrow> (round_checked r, p) | Inl e \<Rightarrow> (round_crashed r, crash_probe e))"

definition admissible_round :: "readiness_round \<Rightarrow> bool" where
  "admissible_round r \<longleftrightarrow> (\<forall>e. round_observation r = Inl e \<longrightarrow> caught_by_loop e)
     \<and> 0 \<le> fst (probe_of r) \<and> fst (probe_of r) < max_ordinal * micros_per_day"

text \<open>
  The specification: some probe has succeeded, fewer than the threshold have failed since, the last is
  recent and not from the future, and it did not fail for good.
\<close>

definition serves :: "readiness_settings \<Rightarrow> (int \<times> backend_readiness) list \<Rightarrow> int \<Rightarrow> bool" where
  "serves c history current \<longleftrightarrow>
     (\<exists>x\<in>set history. backend_ready (snd x))
     \<and> int (length (takeWhile (\<lambda>x. \<not> backend_ready (snd x)) (rev history))) < failure_threshold c
     \<and> fst (last history) \<le> current + READINESS_CLOCK_ANOMALY_TOLERANCE
     \<and> whole_seconds (current - fst (last history)) \<le> state_stale_after_seconds c
     \<and> (backend_ready (snd (last history)) \<or> \<not> bypass_grace (snd (last history)))"

definition state_after :: "readiness_state \<Rightarrow> (int \<times> backend_readiness) list \<Rightarrow> readiness_state" where
  "state_after s history = foldl (\<lambda>s (t, p). state_after_probe s p t) s history"

lemma state_after_snoc: "state_after s (h @ [(t, p)]) = state_after_probe (state_after s h) p t"
  by (simp add: state_after_def)

lemma state_after_summary:
  "consecutive_failures (state_after (starting_state t0) h) = int (length (takeWhile (\<lambda>x. \<not> backend_ready (snd x)) (rev h)))
   \<and> (last_success_at (state_after (starting_state t0) h) = None \<longleftrightarrow> (\<forall>x\<in>set h. \<not> backend_ready (snd x)))
   \<and> (h \<noteq> [] \<longrightarrow> checked_at (state_after (starting_state t0) h) = Some (isoformat (utc (fst (last h))))
        \<and> (state_bypass_grace (state_after (starting_state t0) h)
             \<longleftrightarrow> \<not> backend_ready (snd (last h)) \<and> bypass_grace (snd (last h))))"
proof (induction h rule: rev_induct)
  case Nil
  then show ?case by (simp add: state_after_def starting_state_def)
next
  case (snoc x h)
  obtain t p where x: "x = (t, p)" by (cases x)
  show ?case using snoc unfolding x state_after_snoc by (auto simp: state_after_probe_def Let_def)
qed

lemma write_json_calm:
  "write_atomic_json d (f, []) = (Inr (), (\<lparr>content = Document d, temporary = False, synced = True\<rparr>, []))"
  by (cases f) (simp add: write_atomic_json_def fsync_directory_def fs_op_def thenM_def bindM_def handleM_def finallyM_def)

lemma write_state_calm:
  assumes "snd (readiness_slot w) = []"
  shows "\<exists>v. write_state s w = (Inr (), v) \<and> snd (readiness_slot v) = []
    \<and> content (fst (readiness_slot v)) = Document (state_payload s)"
  using assms by (cases "readiness_slot w") (simp add: write_state_def on_readiness_slot_def write_json_calm handleM_def)

lemma readiness_turn_calm:
  assumes "snd (readiness_slot w) = []" and "admissible_round r"
  shows "\<exists>v. readiness_turn s r w = (Inr (state_after_probe s (snd (probe_of r)) (fst (probe_of r))), v) \<and> snd (readiness_slot v) = []
    \<and> content (fst (readiness_slot v)) = Document (state_payload (state_after_probe s (snd (probe_of r)) (fst (probe_of r))))"
proof (cases "round_observation r")
  case (Inr p)
  from write_state_calm [OF assms(1)] obtain u where "write_state (state_after_probe s p (round_checked r)) w = (Inr (), u)"
      "snd (readiness_slot u) = []" "content (fst (readiness_slot u)) = Document (state_payload (state_after_probe s p (round_checked r)))"
    by blast
  with Inr show ?thesis
    by (simp add: readiness_turn_def probe_turn_def handleM_def io_simps Let_def log_probe_def log_readiness_def probe_of_def)
next
  case (Inl e)
  from write_state_calm [OF assms(1)] obtain u where
      "write_state (state_after_probe s (crash_probe e) (round_crashed r)) w = (Inr (), u)"
      "snd (readiness_slot u) = []"
      "content (fst (readiness_slot u)) = Document (state_payload (state_after_probe s (crash_probe e) (round_crashed r)))"
    by blast
  moreover from Inl assms(2) have "caught_by_loop e" by (simp add: admissible_round_def)
  ultimately show ?thesis using Inl
    by (simp add: readiness_turn_def probe_turn_def handleM_def io_simps Let_def state_after_crash_def log_readiness_def probe_of_def)
qed

lemma readiness_turns_calm:
  assumes "snd (readiness_slot w) = []" and "list_all admissible_round rounds"
    and "content (fst (readiness_slot w)) = Document (state_payload s)"
  shows "\<exists>v. readiness_turns s rounds w = (Inr (state_after s (map probe_of rounds)), v)
    \<and> content (fst (readiness_slot v)) = Document (state_payload (state_after s (map probe_of rounds)))"
  using assms
proof (induction rounds arbitrary: s w)
  case (Cons r rounds)
  then obtain u where u: "readiness_turn s r w = (Inr (state_after_probe s (snd (probe_of r)) (fst (probe_of r))), u)"
      "snd (readiness_slot u) = []"
      "content (fst (readiness_slot u)) = Document (state_payload (state_after_probe s (snd (probe_of r)) (fst (probe_of r))))"
    using readiness_turn_calm [of w r s] by auto
  from Cons.IH [OF u(2) _ u(3)] Cons.prems u(1) show ?case
    by (auto simp: io_simps state_after_def split: prod.splits)
qed (simp add: io_simps state_after_def)

lemma unavailable_of_history:
  assumes "h \<noteq> []" and "0 \<le> fst (last h)" "fst (last h) < max_ordinal * micros_per_day"
  shows "\<exists>u. unavailable_state_verdict (state_after (starting_state t0) h) c current = Inr u
    \<and> (u = None \<longleftrightarrow> serves c h current) \<and> (\<forall>v. u = Some v \<longrightarrow> \<not> verdict_ready v)"
proof -
  let ?s = "state_after (starting_state t0) h"
  have checked: "checked_at ?s = Some (isoformat (utc (fst (last h))))"
    using state_after_summary [of t0 h] assms(1) by blast
  then have "parse_readiness_datetime (checked_at ?s) = Inr (Some (fst (last h)))"
    using from_isoformat_isoformat [OF assms(2,3)] assms(2,3)
    by (simp add: parse_readiness_datetime_def utc_def assume_utc_def)
  moreover have "readiness_unavailable_reason ?s c (fst (last h)) current = None \<longleftrightarrow> serves c h current"
    using state_after_summary [of t0 h] assms(1)
    by (auto simp: readiness_unavailable_reason_def serves_def)
  ultimately show ?thesis by (auto simp: unavailable_state_verdict_def result_simps)
qed

text \<open>C17: The readiness file implements the history of the probes: when storage works, a run of the loop over any
  rounds ends normally, a crashing probe included, and the verdict that is read from the file is ready
  exactly if the history says so: some probe has succeeded, fewer than the threshold have failed since,
  and the last one is recent, not from the future and no terminal failure.\<close>

theorem readiness_reflects_history:
  assumes "snd (readiness_slot w) = []" and "list_all admissible_round rounds" and "rounds \<noteq> []"
    and "readiness_enabled c"
  shows "\<exists>s v d. run_readiness started rounds w = (Inr s, v)
    \<and> readiness_verdict_of c (content (fst (readiness_slot v))) current = Inr d
    \<and> (verdict_ready d \<longleftrightarrow> serves c (map probe_of rounds) current)"
proof -
  let ?h = "map probe_of rounds"
  let ?s = "state_after (starting_state started) ?h"
  obtain u where u: "write_state (starting_state started) w = (Inr (), u)" "snd (readiness_slot u) = []"
      "content (fst (readiness_slot u)) = Document (state_payload (starting_state started))"
    using write_state_calm [OF assms(1)] by blast
  from readiness_turns_calm [OF u(2) assms(2) u(3)] u(1) obtain v where run: "run_readiness started rounds w = (Inr ?s, v)"
      and doc: "content (fst (readiness_slot v)) = Document (state_payload ?s)"
    by (auto simp: run_readiness_def io_simps)
  have "0 \<le> fst (last ?h)" "fst (last ?h) < max_ordinal * micros_per_day"
    using assms(2,3) by (auto simp: last_map list_all_iff admissible_round_def)
  from unavailable_of_history [OF _ this] assms(3) obtain x where
      "unavailable_state_verdict ?s c current = Inr x" "x = None \<longleftrightarrow> serves c ?h current" "\<forall>v. x = Some v \<longrightarrow> \<not> verdict_ready v"
    by blast
  with run doc assms(4) show ?thesis
    by (cases x) (auto simp: readiness_verdict_of_def readiness_roundtrip result_simps)
qed

definition sample_round :: "int \<Rightarrow> backend_readiness result \<Rightarrow> readiness_round" where
  "sample_round t p = \<lparr>round_checked = t, round_observation = p, round_crashed = t\<rparr>"

definition sample_probe_ok :: backend_readiness where
  "sample_probe_ok = \<lparr>backend_ready = True, failure_kind = None, failure_code = None, failure_message = None,
     failure_status_code = None, readiness_credential_type = Some ''cookie'', readiness_refresh_state = None,
     readiness_reauth_required = False, elapsed_ms = Some 3, bypass_grace = False\<rparr>"

definition sample_rounds :: "readiness_round list" where
  "sample_rounds = [sample_round 63902908800000000 (Inr sample_probe_ok),
     sample_round 63902909100000000 (Inl (OSError ''unreachable''))]"

definition sample_readiness_world :: readiness_world where
  "sample_readiness_world = \<lparr>readiness_slot = (\<lparr>content = Missing, temporary = False, synced = True\<rparr>, []), readiness_log = []\<rparr>"

text \<open>After a success and a crash the service still counts as ready, with the default threshold of three.\<close>

theorem readiness_reflects_history_witness:
  "\<exists>s v d. run_readiness 63902908700000000 sample_rounds sample_readiness_world = (Inr s, v)
     \<and> readiness_verdict_of (readiness_settings (default_settings [])) (content (fst (readiness_slot v))) 63902909100000000 = Inr d
     \<and> verdict_ready d"
proof -
  have rounds: "list_all admissible_round sample_rounds" "sample_rounds \<noteq> []"
    by (simp_all add: sample_rounds_def admissible_round_def sample_round_def probe_of_def caught_by_loop_def
        max_ordinal_def micros_per_day_def)
  have "serves (readiness_settings (default_settings [])) (map probe_of sample_rounds) 63902909100000000"
    by (simp add: serves_def sample_rounds_def sample_round_def probe_of_def sample_probe_ok_def crash_probe_def
        backend_failure_def default_settings_def READINESS_CLOCK_ANOMALY_TOLERANCE_def whole_seconds_def)
  moreover have "snd (readiness_slot sample_readiness_world) = []" by (simp add: sample_readiness_world_def)
  moreover have "readiness_enabled (readiness_settings (default_settings []))" by (simp add: default_settings_def)
  ultimately show ?thesis using readiness_reflects_history rounds by blast
qed

subsection \<open>Telemetry\<close>

text \<open>A telemetry event that cannot be written is acknowledged: with the file sink the write's failure is
  swallowed by the handler, so the event is reported as persisted and is in no file; only the sink on
  the error stream reports the failure.\<close>

lemma unwritten_event_acknowledged:
  assumes "writes w = False # rest"
  shows "persist_event (Some FileJsonlSink) True e w = (Inr True, w\<lparr>writes := rest\<rparr>)
    \<and> fst (persist_event (Some TextStreamSink) True e w) = Inr False"
  using assms by (simp add: persist_event_def raw_write_def handleM_def io_simps bindM_def)

lemma unwritten_event_acknowledged_witness:
  "written_events (snd (persist_event (Some FileJsonlSink) True
     \<lparr>event_timestamp = [], event_level = ''info'', event_logger = [], event_message = ''rotated'', event_provenance = [], event_fields = []\<rparr>
     \<lparr>written_events = [], writes = [False]\<rparr>)) = []"
  using unwritten_event_acknowledged [of "\<lparr>written_events = [], writes = [False]\<rparr>" "[]"] by simp

subsection \<open>Supervision\<close>

lemma first_failure_raises:
  assumes "Inl e \<in> set rs" and "e \<noteq> CancelledError"
  shows "\<exists>x. first_failure rs = Inl x \<and> Inl x \<in> set rs"
  using assms(1)
proof (induction rs)
  case (Cons r rs)
  show ?case
  proof (cases "r = Inl CancelledError \<or> r = Inr ()")
    case True
    with Cons assms(2) show ?thesis by auto
  next
    case False
    then obtain x where "r = Inl x" "x \<noteq> CancelledError" by (cases r) auto
    then show ?thesis by (cases x) auto
  qed
qed simp

text \<open>A failed background task ends the service: when one of the supervised tasks has ended with an exception
  at the first wake-up, supervision raises an exception of one of the tasks, whatever the order of
  the tasks and whether or not a shutdown was requested at the same time.\<close>

lemma failed_task_ends_service:
  assumes "finished t = Some (Inl e)" and "e \<noteq> CancelledError" and "t \<in> set order"
  shows "\<exists>x. supervise_tasks order finished cancelled mcp_wait = Inl x
    \<and> (\<exists>u\<in>set order. finished u = Some (Inl x) \<or> cancelled u = Inl x \<or> mcp_wait = Some (Inl x))"
proof -
  let ?graceful = "finished ShutdownTask \<noteq> None"
  let ?before = "bindR (raise_results ?graceful finished order) (\<lambda>_.
      if ?graceful then cancel_tasks finished cancelled (filter (\<lambda>t. t \<noteq> McpTask \<and> t \<noteq> ShutdownTask) order) else Inr ())"
  define ended where "ended = (\<lambda>t. if t = McpTask \<and> finished t = None \<and> ?graceful \<and> ?before = Inr () then mcp_wait else finished t)"
  let ?results = "map (\<lambda>t. case ended t of Some r \<Rightarrow> r | None \<Rightarrow> cancelled t) order"
  have "ended t = Some (Inl e)" using assms(1) by (simp add: ended_def)
  then have "Inl e \<in> set ?results" using assms(3) unfolding set_map by (intro image_eqI [of _ _ t]) simp_all
  then obtain x where x: "first_failure ?results = Inl x" "Inl x \<in> set ?results"
    using first_failure_raises assms(2) by blast
  then have "supervise_tasks order finished cancelled mcp_wait = Inl x"
    unfolding supervise_tasks_def Let_def cancel_tasks_def [of ended] ended_def [symmetric]
    by (simp add: cancel_tasks_def [of ended])
  moreover from x(2) obtain u where u: "u \<in> set order" "(case ended u of Some r \<Rightarrow> r | None \<Rightarrow> cancelled u) = Inl x" by auto
  then have "finished u = Some (Inl x) \<or> cancelled u = Inl x \<or> mcp_wait = Some (Inl x)"
    by (auto simp: ended_def split: if_splits option.splits)
  ultimately show ?thesis using u(1) by blast
qed

lemma failed_task_ends_service_witness:
  "\<exists>x. supervise_tasks [McpTask, RefreshTask] [RefreshTask \<mapsto> Inl (OverflowError ''Numerical result out of range'')]
     (\<lambda>_. Inl CancelledError) None = Inl x"
  using failed_task_ends_service [of "[RefreshTask \<mapsto> Inl (OverflowError ''Numerical result out of range'')]" RefreshTask _
      "[McpTask, RefreshTask]" "\<lambda>_. Inl CancelledError" None] by auto

end
