(* ===== verification/Url_Split.thy ===== *)
theory Url_Split
  imports Prelude
begin

section \<open>urllib.parse.urlsplit\<close>

text \<open>
  The standard library's splitting of a URL, with the host, port and userinfo of the result, for
  characters up to code point 255, none of which normalises to a delimiter.  A bracketed address is
  checked as far as the callers can tell: an address that is not of a future version is taken for an IPv6 address if it
  has a colon, which every caller refuses afterwards as it refuses an invalid address.
\<close>

record url_parts =
  url_scheme :: string
  url_netloc :: string
  url_path :: string
  url_query :: string
  url_fragment :: string

text \<open>\<open>s.partition(c)\<close> without its middle, and \<open>s.rpartition(c)[2]\<close>.\<close>

definition before_char :: "char \<Rightarrow> string \<Rightarrow> string" where
  "before_char c s = takeWhile (\<lambda>x. x \<noteq> c) s"

definition after_char :: "char \<Rightarrow> string \<Rightarrow> string" where
  "after_char c s = drop 1 (dropWhile (\<lambda>x. x \<noteq> c) s)"

definition after_last :: "char \<Rightarrow> string \<Rightarrow> string" where
  "after_last c s = rev (before_char c (rev s))"

definition control_or_space :: "char \<Rightarrow> bool" where
  "control_or_space c \<longleftrightarrow> char_code c \<le> 32"

definition removed_from_url :: "char \<Rightarrow> bool" where
  "removed_from_url c \<longleftrightarrow> char_code c \<in> {9, 10, 13}"

definition ascii_alpha :: "char \<Rightarrow> bool" where
  "ascii_alpha c \<longleftrightarrow> 65 \<le> char_code c \<and> char_code c \<le> 90 \<or> 97 \<le> char_code c \<and> char_code c \<le> 122"

definition scheme_char :: "char \<Rightarrow> bool" where
  "scheme_char c \<longleftrightarrow> ascii_alpha c \<or> decimal_char c \<or> c \<in> set ''+-.''"

definition split_scheme :: "string \<Rightarrow> string \<times> string" where
  "split_scheme u =
     (let p = before_char CHR '':'' u in
      if CHR '':'' \<in> set u \<and> p \<noteq> [] \<and> ascii_alpha (hd p) \<and> list_all scheme_char p
      then (py_lower p, after_char CHR '':'' u) else ([], u))"

definition hex_char :: "char \<Rightarrow> bool" where
  "hex_char c \<longleftrightarrow> decimal_char c \<or> c \<in> set ''abcdefABCDEF''"

text \<open>\<open>_check_bracketed_host\<close>: a future version is \<open>v\<close>, hexadecimal digits, a dot and more.\<close>

definition bracketed_host :: "string \<Rightarrow> bool" where
  "bracketed_host h =
     (if starts_with h ''v''
      then (let rest = dropWhile hex_char (drop 1 h) in
        takeWhile hex_char (drop 1 h) \<noteq> [] \<and> starts_with rest ''.'' \<and> length rest \<ge> 2)
      else CHR '':'' \<in> set h)"

definition bracketed_netloc :: "string \<Rightarrow> bool" where
  "bracketed_netloc netloc =
     (let info = after_last CHR ''@'' netloc; bracketed = after_char CHR ''['' info; port = after_char CHR '']'' bracketed in
      if CHR ''['' \<in> set info
      then before_char CHR ''['' info = [] \<and> (port = [] \<or> starts_with port '':'') \<and> bracketed_host (before_char CHR '']'' bracketed)
      else bracketed_host (before_char CHR '':'' info))"

definition valid_brackets :: "string \<Rightarrow> bool" where
  "valid_brackets netloc \<longleftrightarrow> (CHR ''['' \<in> set netloc \<longleftrightarrow> CHR '']'' \<in> set netloc)
     \<and> (CHR ''['' \<in> set netloc \<longrightarrow> bracketed_netloc netloc)"

definition urlsplit :: "string \<Rightarrow> url_parts result" where
  "urlsplit given =
     (let u = filter (\<lambda>c. \<not> removed_from_url c) (dropWhile control_or_space given);
          (scheme, rest) = split_scheme u;
          located = starts_with rest ''//'';
          netloc = (if located then takeWhile (\<lambda>c. c \<notin> set ''/?#'') (drop 2 rest) else []);
          rest = (if located then dropWhile (\<lambda>c. c \<notin> set ''/?#'') (drop 2 rest) else rest);
          unfragmented = before_char CHR ''#'' rest in
      if valid_brackets netloc
      then Inr \<lparr>url_scheme = scheme, url_netloc = netloc, url_path = before_char CHR ''?'' unfragmented,
        url_query = after_char CHR ''?'' unfragmented, url_fragment = after_char CHR ''#'' rest\<rparr>
      else Inl (ValueError ''Invalid IPv6 URL''))"

text \<open>\<open>hostname\<close>, \<open>port\<close> and whether there is a \<open>username\<close>; the zone after a percent sign keeps its case.\<close>

definition host_info :: "string \<Rightarrow> string \<times> string" where
  "host_info netloc =
     (let info = after_last CHR ''@'' netloc; bracketed = after_char CHR ''['' info in
      if CHR ''['' \<in> set info
      then (before_char CHR '']'' bracketed, after_char CHR '':'' (after_char CHR '']'' bracketed))
      else (before_char CHR '':'' info, after_char CHR '':'' info))"

definition url_hostname :: "url_parts \<Rightarrow> string option" where
  "url_hostname u =
     (let h = fst (host_info (url_netloc u)) in
      if h = [] then None
      else Some (py_lower (before_char CHR ''%'' h) @ dropWhile (\<lambda>x. x \<noteq> CHR ''%'') h))"

definition url_port :: "url_parts \<Rightarrow> nat option result" where
  "url_port u =
     (let p = snd (host_info (url_netloc u)) in
      if p = [] then Inr None
      else if \<not> list_all decimal_char p then Inl (ValueError ''Port could not be cast to integer value'')
      else if decimal_value p \<le> 65535 then Inr (Some (decimal_value p))
      else Inl (ValueError ''Port out of range 0-65535''))"

definition url_userinfo :: "url_parts \<Rightarrow> bool" where
  "url_userinfo u \<longleftrightarrow> CHR ''@'' \<in> set (url_netloc u)"

end
