(* ===== verification/Gitlab_Gateway.thy ===== *)
theory Gitlab_Gateway
  imports Url_Split Portfolio_Gateway
begin

section \<open>The GitLab gateway (gitlab/models.py, enji\_gateway/gitlab\_gateway.py)\<close>

text \<open>
  Discovery of GitLab credentials and projects through the service.  The loop over the pages of credentials
  ends with the number it was told, the loop over the pages of projects when the service says so: it is
  a partial function, \<open>None\<close> saying that it does not return.
\<close>

subsection \<open>Values\<close>

record gitlab_scope =
  gitlab_scope_type :: "string option"
  gitlab_scope_owner :: "string option"

record gitlab_credential =
  credential_id :: string
  credential_name :: string
  credential_kind :: string
  credential_provider :: string
  credential_scope_type :: "string option"
  credential_scope_owner :: "string option"
  credential_status :: string
  credential_last_error :: "string option"
  credential_expires_at :: "string option"
  git_host :: "string option"
  api_base_url :: "string option"
  gitlab_health_reason :: "string option"

record gitlab_credential_page =
  page_limit :: int
  page_offset :: int
  page_total :: int

record gitlab_credentials_result =
  result_scope :: gitlab_scope
  result_credentials :: "gitlab_credential list"
  result_pagination :: gitlab_credential_page

record gitlab_credentials_query =
  credentials_query_type :: "string option"
  credentials_query_owner :: "string option"
  query_limit :: int
  query_offset :: int

record gitlab_project =
  path_with_namespace :: string
  provider_project_id :: string
  project_web_url :: "string option"
  project_api_base_url :: string
  project_host :: string
  project_selector :: repository_identity

record gitlab_project_page =
  listing_page :: int
  listing_per_page :: int
  listing_next :: "int option"

record gitlab_projects_query =
  query_credential_id :: "string option"
  query_search :: "string option"
  query_page :: int
  query_per_page :: int
  all_pages :: bool
  query_scope_type :: "string option"
  query_scope_owner :: "string option"

record gitlab_projects_result =
  listing_scope :: gitlab_scope
  listing_credential :: gitlab_credential
  listing_projects :: "gitlab_project list"
  listing_pagination :: gitlab_project_page

subsection \<open>Fields of the payloads\<close>

definition gitlab_object :: "json \<Rightarrow> string \<Rightarrow> members result" where
  "gitlab_object v label = (case as_obj v of
       Some m \<Rightarrow> Inr m
     | None \<Rightarrow> Inl (ValueError (''GitLab '' @ label @ '' must be an object'')))"

definition required_list :: "members \<Rightarrow> string \<Rightarrow> json list result" where
  "required_list m k = (case as_list (jget m k) of
       Some vs \<Rightarrow> Inr vs
     | None \<Rightarrow> Inl (ValueError (''GitLab response field '' @ k @ '' must be an array'')))"

definition required_str :: "members \<Rightarrow> string \<Rightarrow> string result" where
  "required_str m k = (case as_str (jget m k) of
       Some s \<Rightarrow> if py_strip s = [] then Inl (ValueError (''GitLab response field '' @ k @ '' must be a non-empty string''))
         else Inr (py_strip s)
     | None \<Rightarrow> Inl (ValueError (''GitLab response field '' @ k @ '' must be a non-empty string'')))"

definition optional_field :: "json \<Rightarrow> string option result" where
  "optional_field v = (case v of
       JNull \<Rightarrow> Inr None
     | JStr s \<Rightarrow> Inr (optional_query_value (Some s))
     | _ \<Rightarrow> Inl (ValueError ''GitLab optional string field is malformed''))"

definition required_int :: "members \<Rightarrow> string \<Rightarrow> int result" where
  "required_int m k = (case as_int (jget m k) of
       Some n \<Rightarrow> Inr n
     | None \<Rightarrow> Inl (ValueError (''GitLab response field '' @ k @ '' must be an integer'')))"

definition required_scalar_id :: "json \<Rightarrow> string \<Rightarrow> string result" where
  "required_scalar_id v k =
     bindR (case v of JStr s \<Rightarrow> Inr s | JInt n \<Rightarrow> Inr (show_int n)
       | _ \<Rightarrow> Inl (ValueError (''GitLab response field '' @ k @ '' must be a string or integer''))) (\<lambda>s.
     if py_strip s = [] then Inl (ValueError (''GitLab response field '' @ k @ '' must be non-empty'')) else Inr (py_strip s))"

subsection \<open>Hosts and URLs\<close>

text \<open>A host and a port that may be used: an IPv6 address and a port of zero may not.\<close>

definition safe_authority :: "url_parts \<Rightarrow> (string \<times> nat option) option" where
  "safe_authority u = (case (url_hostname u, url_port u) of
       (Some h, Inr p) \<Rightarrow> if CHR '':'' \<in> set h \<or> p = Some 0 then None else Some (h, p)
     | _ \<Rightarrow> None)"

definition render_authority :: "string \<times> nat option \<Rightarrow> string" where
  "render_authority a = (case a of (h, p) \<Rightarrow> py_casefold h @ (case p of None \<Rightarrow> [] | Some n \<Rightarrow> '':'' @ show_nat n))"

definition optional_host :: "json \<Rightarrow> string option result" where
  "optional_host v =
     bindR (optional_field v) (\<lambda>given. case given of
       None \<Rightarrow> Inr None
     | Some host \<Rightarrow>
         (let unsafe = Inl (ValueError ''GitLab host is unsafe'') in
          if \<exists>c\<in>set ''/@?#''. c \<in> set host then unsafe
          else (case urlsplit (''https://'' @ host) of
              Inl _ \<Rightarrow> unsafe
            | Inr u \<Rightarrow> (case safe_authority u of
                None \<Rightarrow> unsafe
              | Some (h, p) \<Rightarrow>
                  if url_userinfo u \<or> CHR '':'' \<in> set host \<and> p = None then unsafe
                  else Inr (Some (render_authority (h, p)))))))"

definition optional_url :: "json \<Rightarrow> string \<Rightarrow> string option result" where
  "optional_url v label =
     bindR (optional_field v) (\<lambda>given. case given of
       None \<Rightarrow> Inr None
     | Some url \<Rightarrow>
         (let unsafe = Inl (ValueError (''GitLab '' @ label @ '' is unsafe'')) in
          case urlsplit url of
            Inl _ \<Rightarrow> unsafe
          | Inr u \<Rightarrow>
              if url_scheme u \<noteq> ''https'' \<or> url_netloc u = [] \<or> url_userinfo u \<or> url_query u \<noteq> [] \<or> url_fragment u \<noteq> []
                \<or> safe_authority u = None
              then unsafe else Inr (Some (py_rstrip_by (\<lambda>c. c = CHR ''/'') url))))"

definition url_host :: "string \<Rightarrow> string result" where
  "url_host url =
     bindR (urlsplit url) (\<lambda>u. case url_hostname u of
       None \<Rightarrow> Inl (ValueError ''GitLab URL has no hostname'')
     | Some h \<Rightarrow>
         if CHR '':'' \<in> set h then Inl (ValueError ''GitLab URL has no hostname'')
         else (case url_port u of
             Inr p \<Rightarrow> if p = Some 0 then Inl (ValueError ''GitLab URL has an invalid port'') else Inr (render_authority (h, p))
           | Inl _ \<Rightarrow> Inl (ValueError ''GitLab URL has an invalid port'')))"

definition api_url_of :: "string \<Rightarrow> string" where
  "api_url_of host = ''https://'' @ host @ ''/api/v4''"

subsection \<open>Parsing\<close>

definition normalize_scope :: "string option \<Rightarrow> string option \<Rightarrow> (string \<times> string option) result" where
  "normalize_scope scope_type scope_owner =
     (let kind = or_str (optional_query_value scope_type) ''personal''; owner = optional_query_value scope_owner in
      if kind \<notin> {''personal'', ''project''} then Inl (ValueError ''GitLab scope type must be personal or project'')
      else if kind = ''personal'' \<and> owner \<noteq> None
      then Inl (ValueError ''GitLab scope owner is only valid for project scope'')
      else Inr (kind, owner))"

text \<open>The host and URL of a credential whose metadata leave one or both out.\<close>

definition credential_endpoint :: "string option \<Rightarrow> string option \<Rightarrow> (string \<times> string) result" where
  "credential_endpoint host url = (case (host, url) of
       (Some h, Some u) \<Rightarrow> Inr (h, u)
     | (Some h, None) \<Rightarrow> Inr (h, api_url_of h)
     | (None, Some u) \<Rightarrow> bindR (url_host u) (\<lambda>h. Inr (h, u))
     | (None, None) \<Rightarrow> Inr (''gitlab.com'', ''https://gitlab.com/api/v4''))"

definition parse_gitlab_credential :: "json \<Rightarrow> gitlab_credential result" where
  "parse_gitlab_credential v =
     bindR (gitlab_object v ''credential'') (\<lambda>item.
     bindR (if jget item ''metadata'' = JNull then Inr [] else gitlab_object (jget item ''metadata'') ''credential metadata'') (\<lambda>metadata.
     bindR (required_str item ''credential_type'') (\<lambda>kind.
     bindR (required_str item ''provider'') (\<lambda>provider.
     if kind \<noteq> ''git'' \<or> provider \<noteq> ''gitlab'' then Inl (ValueError ''credential is not a GitLab git credential'')
     else bindR (optional_host (jget metadata ''git_host'')) (\<lambda>host.
     bindR (optional_url (jget metadata ''api_base_url'') ''api_base_url'') (\<lambda>url.
     bindR (credential_endpoint host url) (\<lambda>(h, u).
     bindR (optional_field (jget item ''scope_type'')) (\<lambda>scope_type.
     bindR (optional_field (jget item ''scope_owner'')) (\<lambda>scope_owner.
     bindR (normalize_scope scope_type scope_owner) (\<lambda>(kind_of_scope, owner).
     bindR (required_str item ''id'') (\<lambda>cid.
     bindR (required_str item ''name'') (\<lambda>name.
     bindR (required_str item ''status'') (\<lambda>status.
     bindR (optional_field (jget item ''last_error'')) (\<lambda>last_error.
     bindR (optional_field (jget item ''expires_at'')) (\<lambda>expires.
     bindR (optional_field (jget metadata ''gitlab_health_reason'')) (\<lambda>health.
       Inr \<lparr>credential_id = cid, credential_name = name, credential_kind = kind, credential_provider = provider,
         credential_scope_type = Some kind_of_scope, credential_scope_owner = owner, credential_status = status,
         credential_last_error = last_error, credential_expires_at = expires, git_host = Some h, api_base_url = Some u,
         gitlab_health_reason = health\<rparr>))))))))))))))))"

fun distinct_credentials :: "string list \<Rightarrow> json list \<Rightarrow> gitlab_credential list result" where
  "distinct_credentials seen [] = Inr []"
| "distinct_credentials seen (v # vs) =
     bindR (parse_gitlab_credential v) (\<lambda>c.
       if credential_id c \<in> set seen then Inl (ValueError (''GitLab credential id is duplicated: '' @ credential_id c))
       else bindR (distinct_credentials (credential_id c # seen) vs) (\<lambda>cs. Inr (c # cs)))"

definition parse_credentials :: "members \<Rightarrow> gitlab_scope \<Rightarrow> int \<Rightarrow> int \<Rightarrow> gitlab_credentials_result result" where
  "parse_credentials payload scope limit offset =
     bindR (required_list payload ''data'') (\<lambda>data.
     bindR (gitlab_object (jget payload ''meta'') ''meta'') (\<lambda>meta.
     bindR (required_int meta ''limit'') (\<lambda>response_limit.
     bindR (required_int meta ''offset'') (\<lambda>response_offset.
     bindR (required_int meta ''total'') (\<lambda>total.
       if response_limit \<noteq> limit \<or> response_offset \<noteq> offset \<or> total < 0
       then Inl (ValueError ''GitLab credentials response has invalid pagination metadata'')
       else bindR (distinct_credentials [] data) (\<lambda>cs.
         Inr \<lparr>result_scope = scope, result_credentials = cs,
           result_pagination = \<lparr>page_limit = limit, page_offset = offset, page_total = total\<rparr>\<rparr>))))))"

text \<open>The API URL and host of a project: its own URL, or those of the credential.\<close>

definition project_endpoint :: "gitlab_credential \<Rightarrow> string option \<Rightarrow> (string \<times> string) result" where
  "project_endpoint c own = (case or_opt own (api_base_url c) of
       Some u \<Rightarrow> bindR (url_host u) (\<lambda>h. Inr (h, u))
     | None \<Rightarrow> (case git_host c of
         Some h \<Rightarrow> Inr (h, api_url_of h)
       | None \<Rightarrow> Inl (ValueError ''GitLab project has no safe API base URL or host'')))"

definition parse_gitlab_project :: "gitlab_credential \<Rightarrow> string list \<Rightarrow> json \<Rightarrow> gitlab_project result" where
  "parse_gitlab_project c seen v =
     bindR (gitlab_object v ''project'') (\<lambda>item.
     bindR (required_scalar_id (jget item ''provider_project_id'') ''provider_project_id'') (\<lambda>pid.
       if pid \<in> set seen then Inl (ValueError (''GitLab provider project id is duplicated: '' @ pid))
       else bindR (required_str item ''path_with_namespace'') (\<lambda>path.
       bindR (optional_url (jget item ''api_base_url'') ''api_base_url'') (\<lambda>own.
       bindR (project_endpoint c own) (\<lambda>(host, url).
       bindR (optional_url (jget item ''web_url'') ''web_url'') (\<lambda>web.
       bindR (make_identity GitLab path host) (\<lambda>selector.
         Inr \<lparr>path_with_namespace = path, provider_project_id = pid, project_web_url = web, project_api_base_url = url,
           project_host = host, project_selector = selector\<rparr>)))))))"

fun parse_gitlab_projects :: "gitlab_credential \<Rightarrow> string list \<Rightarrow> json list \<Rightarrow> gitlab_project list result" where
  "parse_gitlab_projects c seen [] = Inr []"
| "parse_gitlab_projects c seen (v # vs) =
     bindR (parse_gitlab_project c seen v) (\<lambda>p.
     bindR (parse_gitlab_projects c (provider_project_id p # seen) vs) (\<lambda>ps. Inr (p # ps)))"

definition next_page_of :: "members \<Rightarrow> int option result" where
  "next_page_of meta = (case jget meta ''next_page'' of
       JNull \<Rightarrow> Inr None
     | JInt n \<Rightarrow> if n \<le> 0 then Inl (ValueError ''GitLab projects response has invalid next_page'') else Inr (Some n)
     | _ \<Rightarrow> Inl (ValueError ''GitLab projects response has invalid next_page''))"

definition parse_project_page :: "gitlab_credential \<Rightarrow> string list \<Rightarrow> members \<Rightarrow> (gitlab_project list \<times> int option) result" where
  "parse_project_page c seen payload =
     bindR (required_list payload ''data'') (\<lambda>data.
     bindR (gitlab_object (jget payload ''meta'') ''meta'') (\<lambda>meta.
     bindR (next_page_of meta) (\<lambda>next_page.
     bindR (parse_gitlab_projects c seen data) (\<lambda>ps. Inr (ps, next_page)))))"

subsection \<open>Credentials\<close>

definition list_credentials :: "('s, 'x) gateway_env_scheme \<Rightarrow> 's sender \<Rightarrow> gitlab_credentials_query
    \<Rightarrow> ('s, gitlab_credentials_result) io" where
  "list_credentials env send q =
     (if query_limit q \<le> 0 \<or> query_offset q < 0
      then throwM (ValueError ''credential limit must be positive and offset must be non-negative'')
      else bindM (liftM (normalize_scope (credentials_query_type q) (credentials_query_owner q))) (\<lambda>(kind, owner).
      bindM (http_gitlab_credentials env send \<lparr>credentials_scope_type = Some kind, credentials_scope_owner = owner,
          credentials_limit = query_limit q, credentials_offset = query_offset q\<rparr>) (\<lambda>payload.
        liftM (parse_credentials payload \<lparr>gitlab_scope_type = Some kind, gitlab_scope_owner = owner\<rparr>
          (query_limit q) (query_offset q)))))"

definition validate_credential_page :: "gitlab_credentials_result \<Rightarrow> int \<Rightarrow> int \<Rightarrow> unit result" where
  "validate_credential_page page expected limit =
     (let count = int (length (result_credentials page)); offset = page_offset (result_pagination page) in
      if page_limit (result_pagination page) \<noteq> limit \<or> expected < offset + count
        \<or> offset + count < expected \<and> count < limit
      then Inl (ValueError ''GitLab credential pagination is inconsistent'') else Inr ())"

fun add_credentials :: "gitlab_credential list \<Rightarrow> gitlab_credential list \<Rightarrow> gitlab_credential list result" where
  "add_credentials known [] = Inr known"
| "add_credentials known (c # cs) =
     (if credential_id c \<in> credential_id ` set known
      then Inl (ValueError (''GitLab credential id is duplicated: '' @ credential_id c))
      else add_credentials (known @ [c]) cs)"

definition credential_query :: "string \<Rightarrow> string option \<Rightarrow> int \<Rightarrow> int \<Rightarrow> gitlab_credentials_query" where
  "credential_query kind owner limit offset = \<lparr>credentials_query_type = Some kind, credentials_query_owner = owner,
     query_limit = limit, query_offset = offset\<rparr>"

lemma list_credentials_limit: "list_credentials env send q s = (Inr page, t) \<Longrightarrow> 0 < query_limit q"
  by (auto simp: list_credentials_def throwM_def split: if_splits)

text \<open>The offsets rise by the limit, which a query that was answered has positive.\<close>

function credential_pages :: "('s, 'x) gateway_env_scheme \<Rightarrow> 's sender \<Rightarrow> string \<Rightarrow> string option \<Rightarrow> int \<Rightarrow> int
    \<Rightarrow> int list \<Rightarrow> int \<Rightarrow> gitlab_credential list \<Rightarrow> ('s, gitlab_credential list) io" where
  "credential_pages env send kind owner expected limit offsets offset known s =
     (if expected \<le> offset then (Inr known, s)
      else if offset \<in> set offsets then (Inl (ValueError ''GitLab credential pagination repeated an offset''), s)
      else (case list_credentials env send (credential_query kind owner limit offset) s of
          (Inl e, t) \<Rightarrow> (Inl e, t)
        | (Inr page, t) \<Rightarrow>
            if page_total (result_pagination page) \<noteq> expected
            then (Inl (ValueError ''GitLab credential pagination has inconsistent total''), t)
            else (case bindR (validate_credential_page page expected limit) (\<lambda>_. add_credentials known (result_credentials page)) of
                Inl e \<Rightarrow> (Inl e, t)
              | Inr known' \<Rightarrow> credential_pages env send kind owner expected limit (offset # offsets) (offset + limit) known' t)))"
  by pat_completeness auto
termination
  by (relation "measure (\<lambda>(env, send, kind, owner, expected, limit, offsets, offset, known, s). nat (expected - offset))")
    (auto dest!: list_credentials_limit [OF sym] simp: credential_query_def)

declare credential_pages.simps [simp del]

definition select_credential :: "gitlab_credential list \<Rightarrow> string option \<Rightarrow> gitlab_credential result" where
  "select_credential cs requested = (case requested of
       Some i \<Rightarrow> (case filter (\<lambda>c. credential_id c = i) cs of
           [] \<Rightarrow> Inl (ValueError (''GitLab credential not found: '' @ i))
         | [c] \<Rightarrow> Inr c
         | _ \<Rightarrow> Inl (ValueError (''GitLab credential id is duplicated: '' @ i)))
     | None \<Rightarrow> (case cs of
           [c] \<Rightarrow> Inr c
         | _ \<Rightarrow> Inl (ValueError ''GitLab credential selection is ambiguous; pass --credential-id'')))"

definition DEFAULT_CREDENTIAL_LIMIT :: int where
  "DEFAULT_CREDENTIAL_LIMIT = 50"

definition resolve_credential :: "('s, 'x) gateway_env_scheme \<Rightarrow> 's sender \<Rightarrow> string option \<Rightarrow> string \<Rightarrow> string option
    \<Rightarrow> ('s, gitlab_credential) io" where
  "resolve_credential env send requested kind owner =
     bindM (list_credentials env send (credential_query kind owner DEFAULT_CREDENTIAL_LIMIT 0)) (\<lambda>first.
       let expected = page_total (result_pagination first); limit = page_limit (result_pagination first);
           offset = page_offset (result_pagination first) in
       bindM (liftM (validate_credential_page first expected limit)) (\<lambda>_.
       bindM (credential_pages env send kind owner expected limit [offset] (offset + limit) (result_credentials first)) (\<lambda>cs.
         liftM (select_credential cs (optional_query_value requested)))))"

subsection \<open>Projects\<close>

definition project_request :: "gitlab_projects_query \<Rightarrow> string \<Rightarrow> string option \<Rightarrow> gitlab_credential \<Rightarrow> int
    \<Rightarrow> gitlab_projects_request" where
  "project_request q kind owner c page = \<lparr>projects_credential_id = credential_id c, projects_host = git_host c,
     projects_api_base_url = api_base_url c, projects_search = query_search q, projects_page = page,
     projects_per_page = query_per_page q, projects_scope_type = Some kind, projects_scope_owner = owner\<rparr>"

text \<open>What is done with an answered page: stop with the projects and the next page, fail, or go on with a page.\<close>

datatype page_step = StopPaging "int option" | FailPaging string | NextPage int

definition after_page :: "gitlab_projects_query \<Rightarrow> int list \<Rightarrow> int \<Rightarrow> int option \<Rightarrow> page_step" where
  "after_page q seen_pages current returned =
     (if \<not> all_pages q then StopPaging returned
      else (case returned of
          None \<Rightarrow> StopPaging None
        | Some n \<Rightarrow>
            if n \<in> set seen_pages then FailPaging ''GitLab project pagination cycle detected''
            else if n \<le> current then FailPaging ''GitLab project pagination moved backwards''
            else NextPage n))"

partial_function (option) project_pages :: "('s, 'x) gateway_env_scheme \<Rightarrow> 's sender \<Rightarrow> gitlab_projects_query \<Rightarrow> string
    \<Rightarrow> string option \<Rightarrow> gitlab_credential \<Rightarrow> int list \<Rightarrow> int \<Rightarrow> int \<Rightarrow> gitlab_project list \<Rightarrow> 's
    \<Rightarrow> ((gitlab_project list \<times> int option) result \<times> 's) option" where
  "project_pages env send q kind owner c seen_pages current page found s =
     (if page \<in> set seen_pages then Some (Inl (ValueError ''GitLab project pagination cycle detected''), s)
      else (case http_gitlab_projects env send (project_request q kind owner c page) s of
          (Inl e, t) \<Rightarrow> Some (Inl e, t)
        | (Inr payload, t) \<Rightarrow> (case parse_project_page c (map provider_project_id found) payload of
            Inl e \<Rightarrow> Some (Inl e, t)
          | Inr (ps, returned) \<Rightarrow> (case after_page q (page # seen_pages) current returned of
              StopPaging rest \<Rightarrow> Some (Inr (found @ ps, rest), t)
            | FailPaging m \<Rightarrow> Some (Inl (ValueError m), t)
            | NextPage n \<Rightarrow> project_pages env send q kind owner c (page # seen_pages) n n (found @ ps) t))))"

definition discover_projects :: "('s, 'x) gateway_env_scheme \<Rightarrow> 's sender \<Rightarrow> gitlab_projects_query \<Rightarrow> 's
    \<Rightarrow> (gitlab_projects_result result \<times> 's) option" where
  "discover_projects env send q s =
     (if query_page q \<le> 0 \<or> query_per_page q \<le> 0
      then Some (Inl (ValueError ''project page and per-page values must be positive''), s)
      else (case normalize_scope (query_scope_type q) (query_scope_owner q) of
          Inl e \<Rightarrow> Some (Inl e, s)
        | Inr (kind, owner) \<Rightarrow> (case resolve_credential env send (query_credential_id q) kind owner s of
            (Inl e, t) \<Rightarrow> Some (Inl e, t)
          | (Inr c, t) \<Rightarrow>
              map_option (\<lambda>(r, u). (bindR r (\<lambda>(ps, next_page). Inr
                \<lparr>listing_scope = \<lparr>gitlab_scope_type = Some kind, gitlab_scope_owner = owner\<rparr>, listing_credential = c,
                 listing_projects = ps, listing_pagination = \<lparr>listing_page = query_page q, listing_per_page = query_per_page q,
                   listing_next = next_page\<rparr>\<rparr>), u))
              (project_pages env send q kind owner c [] (query_page q) (query_page q) [] t))))"

end
