(* ===== verification/Gitlab_Properties.thy ===== *)
theory Gitlab_Properties
  imports Gitlab_Gateway Gateway_Properties Portfolio_Properties
begin

section \<open>Properties of GitLab discovery\<close>

subsection \<open>Safe URLs\<close>

text \<open>A URL that names one https host and carries no userinfo, query or fragment.\<close>

definition safe_url :: "string \<Rightarrow> bool" where
  "safe_url url \<longleftrightarrow> (\<exists>u. urlsplit url = Inr u \<and> url_scheme u = ''https'' \<and> \<not> url_userinfo u
     \<and> url_query u = [] \<and> url_fragment u = [])"

definition url_text :: "string \<Rightarrow> string" where
  "url_text given = filter (\<lambda>c. \<not> removed_from_url c) (dropWhile control_or_space given)"

definition authority_of :: "string \<Rightarrow> string" where
  "authority_of r = takeWhile (\<lambda>c. c \<notin> set ''/?#'') r"

definition location_of :: "string \<Rightarrow> string" where
  "location_of r = dropWhile (\<lambda>c. c \<notin> set ''/?#'') r"

lemma authority_location: "authority_of r @ location_of r = r"
  by (simp add: authority_of_def location_of_def)

text \<open>The text of a URL with a scheme and an authority.\<close>

definition located_text :: "string \<Rightarrow> string \<Rightarrow> string \<Rightarrow> bool" where
  "located_text p r given \<longleftrightarrow> url_text given = p @ ''://'' @ r \<and> CHR '':'' \<notin> set p \<and> p \<noteq> [] \<and> ascii_alpha (hd p)
     \<and> list_all scheme_char p"

lemma before_char_append: "c \<notin> set p \<Longrightarrow> before_char c (p @ c # r) = p"
  by (induction p) (auto simp: before_char_def)

lemma after_char_append: "c \<notin> set p \<Longrightarrow> after_char c (p @ c # r) = r"
  by (induction p) (auto simp: after_char_def)

lemma split_at_char: "c \<in> set s \<Longrightarrow> s = before_char c s @ c # after_char c s \<and> c \<notin> set (before_char c s)"
  by (induction s) (auto simp: before_char_def after_char_def)

lemma urlsplit_located:
  assumes "located_text p r url"
  shows "urlsplit url = (if valid_brackets (authority_of r)
    then Inr \<lparr>url_scheme = py_lower p, url_netloc = authority_of r,
      url_path = before_char CHR ''?'' (before_char CHR ''#'' (location_of r)),
      url_query = after_char CHR ''?'' (before_char CHR ''#'' (location_of r)),
      url_fragment = after_char CHR ''#'' (location_of r)\<rparr>
    else Inl (ValueError ''Invalid IPv6 URL''))"
proof -
  have "split_scheme (p @ ''://'' @ r) = (py_lower p, ''//'' @ r)"
    using assms before_char_append [of "CHR '':''" p "''//'' @ r"] after_char_append [of "CHR '':''" p "''//'' @ r"]
    by (simp add: located_text_def split_scheme_def)
  then show ?thesis using assms unfolding urlsplit_def url_text_def [symmetric]
    by (simp add: located_text_def authority_of_def location_of_def Let_def)
qed

lemma urlsplit_locatedD:
  assumes "urlsplit url = Inr u" and "url_scheme u \<noteq> []" and "url_netloc u \<noteq> []"
  shows "\<exists>p r. located_text p r url"
proof -
  let ?t = "url_text url"
  let ?p = "before_char CHR '':'' ?t"
  let ?rest = "after_char CHR '':'' ?t"
  have split: "split_scheme ?t = (if CHR '':'' \<in> set ?t \<and> ?p \<noteq> [] \<and> ascii_alpha (hd ?p) \<and> list_all scheme_char ?p
      then (py_lower ?p, ?rest) else ([], ?t))"
    by (simp add: split_scheme_def Let_def)
  with assms have p: "CHR '':'' \<in> set ?t" "?p \<noteq> []" "ascii_alpha (hd ?p)" "list_all scheme_char ?p"
    unfolding urlsplit_def url_text_def [symmetric] by (auto simp: Let_def split: if_splits)
  with split assms have "starts_with ?rest ''//''"
    unfolding urlsplit_def url_text_def [symmetric] by (auto simp: Let_def split: if_splits)
  then obtain r where "?rest = ''//'' @ r" by (auto simp: starts_with_iff)
  with split_at_char [OF p(1)] p(2-4) have "located_text ?p r url" by (simp add: located_text_def)
  then show ?thesis by blast
qed

text \<open>Slashes at the end do not change where a URL points.\<close>

lemma text_slashes:
  assumes "set z \<subseteq> {CHR ''/''}" and "\<exists>c\<in>set w. \<not> control_or_space c"
  shows "url_text (w @ z) = url_text w @ z"
proof -
  have "dropWhile control_or_space (w @ z) = dropWhile control_or_space w @ z"
    using assms(2) by (auto intro: dropWhile_append1)
  moreover have "filter (\<lambda>c. \<not> removed_from_url c) z = z"
    using assms(1) by (auto simp: filter_id_conv removed_from_url_def char_code_def)
  ultimately show ?thesis by (simp add: url_text_def)
qed

lemma after_char_prefix: "after_char c (l @ z) = [] \<Longrightarrow> after_char c l = []"
  by (induction l) (auto simp: after_char_def)

lemma before_char_prefix: "c \<notin> set z \<Longrightarrow> before_char c (l @ z) = before_char c l @ (if c \<in> set l then [] else z)"
  by (induction l) (auto simp: before_char_def takeWhile_eq_all_conv)

lemma authority_prefix:
  assumes "location_of r = l @ z"
  shows "authority_of (authority_of r @ l) = authority_of r" and "location_of (authority_of r @ l) = l"
proof -
  have plain: "\<forall>c\<in>set (authority_of r). c \<notin> set ''/?#''"
    unfolding authority_of_def by (blast dest: set_takeWhileD)
  have "l = [] \<or> hd l \<in> set ''/?#''"
  proof (cases l)
    case (Cons x l')
    with assms have "dropWhile (\<lambda>c. c \<notin> set ''/?#'') r = x # l' @ z" by (simp add: location_of_def)
    then have "\<not> x \<notin> set ''/?#''" unfolding dropWhile_eq_Cons_conv by blast
    with Cons show ?thesis by simp
  qed simp
  then have "takeWhile (\<lambda>c. c \<notin> set ''/?#'') l = [] \<and> dropWhile (\<lambda>c. c \<notin> set ''/?#'') l = l"
    by (cases l) (simp_all del: list.set)
  with plain show "authority_of (authority_of r @ l) = authority_of r" "location_of (authority_of r @ l) = l"
    unfolding authority_of_def [of "_ @ l"] location_of_def [of "_ @ l"]
    by (simp_all add: takeWhile_append2 dropWhile_append2)
qed

lemma text_prefix:
  assumes "located_text p r (w @ z)" and "set z \<subseteq> {CHR ''/''}" and "authority_of r \<noteq> []"
  obtains l where "located_text p (authority_of r @ l) w" "location_of r = l @ z"
proof -
  have "\<exists>c\<in>set w. \<not> control_or_space c"
  proof (rule ccontr)
    assume "\<not> ?thesis"
    then have "set (url_text (w @ z)) \<subseteq> {CHR ''/''}"
      using assms(2) by (auto simp: url_text_def dropWhile_append2 dest: set_dropWhileD)
    with assms(1) show False by (auto simp: located_text_def)
  qed
  from text_slashes [OF assms(2) this] assms(1)
  have eq: "url_text w @ z = (p @ ''://'' @ authority_of r) @ location_of r"
    by (simp add: located_text_def authority_location)
  then obtain l where l: "url_text w = (p @ ''://'' @ authority_of r) @ l \<and> l @ z = location_of r
      \<or> url_text w @ l = p @ ''://'' @ authority_of r \<and> z = l @ location_of r"
    using append_eq_append_conv2 [of "url_text w" z] by blast
  have "l = []" if second: "url_text w @ l = p @ ''://'' @ authority_of r" "z = l @ location_of r"
  proof (rule ccontr)
    assume "l \<noteq> []"
    then have "last l = last (authority_of r)" using second(1) assms(3) by (metis append_is_Nil_conv last_appendR)
    moreover have "last (authority_of r) \<noteq> CHR ''/''"
      using last_in_set [OF assms(3)] unfolding authority_of_def by (auto dest: set_takeWhileD)
    moreover have "last l \<in> set z" using second(2) \<open>l \<noteq> []\<close> by simp
    then have "last l = CHR ''/''" using assms(2) by auto
    ultimately show False by simp
  qed
  with l have "url_text w = p @ ''://'' @ authority_of r @ l \<and> l @ z = location_of r" by auto
  with that assms(1) show ?thesis by (auto simp: located_text_def)
qed

lemma safe_without_slashes:
  assumes "urlsplit (w @ z) = Inr u" and "set z \<subseteq> {CHR ''/''}" and "url_scheme u = ''https''" and "url_netloc u \<noteq> []"
    and "\<not> url_userinfo u" and "url_query u = []" and "url_fragment u = []"
  shows "safe_url w"
proof -
  from urlsplit_locatedD [OF assms(1)] assms(3,4) obtain p r where located: "located_text p r (w @ z)" by auto
  from urlsplit_located [OF this] assms(1) have u: "valid_brackets (authority_of r)"
      "u = \<lparr>url_scheme = py_lower p, url_netloc = authority_of r,
        url_path = before_char CHR ''?'' (before_char CHR ''#'' (location_of r)),
        url_query = after_char CHR ''?'' (before_char CHR ''#'' (location_of r)),
        url_fragment = after_char CHR ''#'' (location_of r)\<rparr>"
    by (auto split: if_splits)
  with assms(4) obtain l where l: "located_text p (authority_of r @ l) w" "location_of r = l @ z"
    using text_prefix [OF located assms(2)] by auto
  have "CHR ''#'' \<notin> set z" using assms(2) by auto
  from before_char_prefix [OF this] assms(6) u(2) l(2) have "after_char CHR ''?'' (before_char CHR ''#'' l) = []"
    by (auto dest: after_char_prefix split: if_splits)
  moreover have "after_char CHR ''#'' l = []" using assms(7) u(2) l(2) by (auto dest: after_char_prefix)
  ultimately show ?thesis
    using assms(3,5) u urlsplit_located [OF l(1)] authority_prefix [OF l(2)] by (auto simp: safe_url_def url_userinfo_def)
qed

lemma rstrip_split: "\<exists>z. s = py_rstrip_by q s @ z \<and> (\<forall>c\<in>set z. q c)"
proof -
  have "rev s = takeWhile q (rev s) @ dropWhile q (rev s)" by simp
  then have "s = py_rstrip_by q s @ rev (takeWhile q (rev s))"
    unfolding py_rstrip_by_def by (metis rev_append rev_rev_ident)
  moreover have "\<forall>c\<in>set (rev (takeWhile q (rev s))). q c" by (auto dest: set_takeWhileD)
  ultimately show ?thesis by blast
qed

lemma optional_url_safe:
  assumes "optional_url v label = Inr (Some url)"
  shows "safe_url url"
proof -
  from assms obtain given u where u: "url = py_rstrip_by (\<lambda>c. c = CHR ''/'') given" "urlsplit given = Inr u"
      "url_scheme u = ''https''" "url_netloc u \<noteq> []" "\<not> url_userinfo u" "url_query u = []" "url_fragment u = []"
  proof -
    obtain given where given: "optional_field v = Inr (Some given)"
      using assms by (auto simp: optional_url_def result_simps split: option.splits)
    then obtain u where "urlsplit given = Inr u"
      using assms by (cases "urlsplit given") (simp_all add: optional_url_def Let_def)
    moreover define refused where "refused \<longleftrightarrow> url_scheme u \<noteq> ''https'' \<or> url_netloc u = [] \<or> url_userinfo u
      \<or> url_query u \<noteq> [] \<or> url_fragment u \<noteq> [] \<or> safe_authority u = None"
    ultimately have "optional_url v label = (if refused then Inl (ValueError (''GitLab '' @ label @ '' is unsafe''))
        else Inr (Some (py_rstrip_by (\<lambda>c. c = CHR ''/'') given)))"
      by (simp only: optional_url_def given Let_def bindR_Inr option.case sum.case)
    with assms have "\<not> refused" "url = py_rstrip_by (\<lambda>c. c = CHR ''/'') given" by (simp_all split: if_split_asm)
    then show thesis using that \<open>urlsplit given = Inr u\<close> by (simp add: refused_def)
  qed
  obtain z where z: "given = url @ z" "\<forall>c\<in>set z. c = CHR ''/''"
    using rstrip_split [of given "\<lambda>c. c = CHR ''/''", folded u(1)] by blast
  from z(2) have "set z \<subseteq> {CHR ''/''}" by blast
  from safe_without_slashes [OF u(2) [unfolded z(1)] this u(3-7)] show ?thesis .
qed

text \<open>The host of a credential has no delimiter, so that the URL that is made from it is safe if it can be read.\<close>

definition plain_host :: "string \<Rightarrow> bool" where
  "plain_host h \<longleftrightarrow> (\<forall>c\<in>set h. c \<notin> set ''/@?#'')"

lemma plain_authority:
  "\<forall>c\<in>set a. c \<notin> set ''/?#'' \<Longrightarrow> authority_of (a @ CHR ''/'' # l) = a \<and> location_of (a @ CHR ''/'' # l) = CHR ''/'' # l"
  by (induction a) (auto simp: authority_of_def location_of_def)

lemma api_url_safe:
  assumes "plain_host h" and "url_host (api_url_of h) = Inr x"
  shows "safe_url (api_url_of h)"
proof -
  let ?r = "filter (\<lambda>c. \<not> removed_from_url c) h @ ''/api/v4''"
  have shape: "url_text (api_url_of h) = ''https'' @ ''://'' @ ?r"
    by (simp add: url_text_def api_url_of_def control_or_space_def removed_from_url_def char_code_def)
  have "list_all scheme_char ''https''" "ascii_alpha CHR ''h''" by code_simp+
  with shape have located: "located_text ''https'' ?r (api_url_of h)" by (simp add: located_text_def)
  have plain: "\<forall>c\<in>set (filter (\<lambda>c. \<not> removed_from_url c) h). c \<notin> set ''/?#''"
    using assms(1) by (auto simp: plain_host_def)
  from plain_authority [OF this, of "''api/v4''"]
  have parts: "authority_of ?r = filter (\<lambda>c. \<not> removed_from_url c) h" "location_of ?r = ''/api/v4''"
    by simp_all
  have "CHR ''@'' \<notin> set (authority_of ?r)" using assms(1) parts by (auto simp: plain_host_def)
  moreover have "py_lower ''https'' = ''https''" by code_simp
  moreover have "before_char CHR ''#'' ''/api/v4'' = ''/api/v4''" "after_char CHR ''?'' ''/api/v4'' = []"
      "after_char CHR ''#'' ''/api/v4'' = []"
    by (simp_all add: before_char_def after_char_def)
  ultimately show ?thesis
    using assms(2) urlsplit_located [OF located] parts
    by (auto simp: url_host_def safe_url_def url_userinfo_def split: if_splits)
qed

lemma lower_code: "char_code (lower_char c) < 97 \<Longrightarrow> lower_char c = c"
  by (cases "65 \<le> char_code c \<and> char_code c \<le> 90 \<or> 192 \<le> char_code c \<and> char_code c \<le> 222 \<and> char_code c \<noteq> 215")
    (auto simp: lower_char_def Let_def)

lemma delimiter_code: "c \<in> set ''/@?#'' \<Longrightarrow> char_code c < 97"
  by (auto simp: char_code_def)

lemma casefold_delimiter: "x \<in> set (casefold_char c) \<Longrightarrow> x \<in> set ''/@?#'' \<Longrightarrow> x = c"
  using delimiter_code [of x] lower_code [of c] by (auto simp: casefold_char_def split: if_splits)


lemma lower_delimiter: "lower_char c \<in> set ''/@?#'' \<Longrightarrow> lower_char c = c"
  using delimiter_code lower_code by blast

lemma before_char_subset: "set (before_char c s) \<subseteq> set s"
  by (auto simp: before_char_def dest: set_takeWhileD)

lemma after_char_subset: "set (after_char c s) \<subseteq> set s"
  unfolding after_char_def using set_drop_subset set_dropWhileD by fast

lemma after_last_subset: "set (after_last c s) \<subseteq> set s"
  using before_char_subset [of c "rev s"] by (simp add: after_last_def)

lemma hostname_plain:
  assumes "url_hostname u = Some h" and "\<forall>c\<in>set (url_netloc u). c \<notin> set ''/@?#''"
  shows "plain_host (py_casefold h)"
proof -
  let ?i = "fst (host_info (url_netloc u))"
  have "set ?i \<subseteq> set (url_netloc u)"
    using before_char_subset after_char_subset after_last_subset unfolding host_info_def Let_def
    by (auto split: if_splits) blast+
  moreover have "set h \<subseteq> lower_char ` set ?i \<union> set ?i"
    using assms(1) before_char_subset [of "CHR ''%''" ?i] set_dropWhileD [of _ "\<lambda>x. x \<noteq> CHR ''%''" ?i]
    by (auto simp: url_hostname_def Let_def py_lower_def split: if_splits) blast
  ultimately have "c \<notin> set ''/@?#''" if "c \<in> set h" for c
  proof -
    from that \<open>set h \<subseteq> _\<close> obtain x where x: "x \<in> set ?i" "c = lower_char x \<or> c = x" by blast
    with \<open>set ?i \<subseteq> _\<close> assms(2) have "x \<notin> set ''/@?#''" by blast
    with x(2) lower_delimiter [of x] show ?thesis by metis
  qed
  then have "\<forall>c\<in>set h. c \<notin> set ''/@?#''" by blast
  then show ?thesis unfolding plain_host_def py_casefold_def using casefold_delimiter by fastforce
qed

lemma optional_host_plain:
  assumes "optional_host v = Inr (Some h)"
  shows "plain_host h"
proof -
  obtain given where given: "optional_field v = Inr (Some given)"
    using assms by (auto simp: optional_host_def result_simps split: option.splits)
  define refused where "refused \<longleftrightarrow> (\<exists>c\<in>set ''/@?#''. c \<in> set given)"
  have eq: "optional_host v = (if refused then Inl (ValueError ''GitLab host is unsafe'')
      else (case urlsplit (''https://'' @ given) of
          Inl _ \<Rightarrow> Inl (ValueError ''GitLab host is unsafe'')
        | Inr u \<Rightarrow> (case safe_authority u of
            None \<Rightarrow> Inl (ValueError ''GitLab host is unsafe'')
          | Some (x, p) \<Rightarrow> if url_userinfo u \<or> CHR '':'' \<in> set given \<and> p = None then Inl (ValueError ''GitLab host is unsafe'')
              else Inr (Some (render_authority (x, p))))))"
    by (simp only: optional_host_def given Let_def bindR_Inr option.case refused_def)
  with assms have "\<not> refused" by (simp split: if_split_asm)
  then have plain: "\<forall>c\<in>set given. c \<notin> set ''/@?#''" unfolding refused_def by blast
  from eq assms \<open>\<not> refused\<close> obtain u x p where u: "urlsplit (''https://'' @ given) = Inr u" "safe_authority u = Some (x, p)"
      "h = render_authority (x, p)"
    by (simp split: sum.splits option.splits prod.splits if_split_asm)
  have "located_text ''https'' (filter (\<lambda>c. \<not> removed_from_url c) given) (''https://'' @ given)"
  proof -
    have "list_all scheme_char ''https''" "ascii_alpha CHR ''h''" by code_simp+
    then show ?thesis
      by (simp add: located_text_def url_text_def control_or_space_def removed_from_url_def char_code_def)
  qed
  from urlsplit_located [OF this] u(1) have "url_netloc u = authority_of (filter (\<lambda>c. \<not> removed_from_url c) given)"
    by (auto split: if_splits)
  then have "set (url_netloc u) \<subseteq> set given" by (auto simp: authority_of_def dest!: set_takeWhileD)
  with plain have netloc: "\<forall>c\<in>set (url_netloc u). c \<notin> set ''/@?#''" by blast
  from u(2) have "url_hostname u = Some x"
    by (auto simp: safe_authority_def split: option.splits sum.splits if_splits)
  from hostname_plain [OF this netloc] have "plain_host (py_casefold x)" .
  moreover have "\<forall>c\<in>set ('':'' @ show_nat n). c \<notin> set ''/@?#''" for n
    using show_nat_decimal [of n] by (auto simp: decimal_char_def char_code_def list_all_iff)
  ultimately show ?thesis using u(3) by (auto simp: render_authority_def plain_host_def split: option.splits)
qed

subsection \<open>Endpoints of credentials and projects\<close>

definition safe_endpoint :: "gitlab_credential \<Rightarrow> bool" where
  "safe_endpoint c \<longleftrightarrow> (\<exists>u. api_base_url c = Some u \<and> (safe_url u \<or> (\<exists>h. plain_host h \<and> u = api_url_of h)))"

lemma credential_endpoint_safe:
  assumes "optional_host v = Inr host" and "optional_url w label = Inr url" and "credential_endpoint host url = Inr (h, u)"
  shows "safe_url u \<or> (\<exists>h. plain_host h \<and> u = api_url_of h)"
proof (cases url)
  case None
  show ?thesis
  proof (cases host)
    case None
    have "plain_host ''gitlab.com''" by (simp add: plain_host_def)
    then show ?thesis using assms(3) None \<open>url = None\<close>
      by (auto simp: credential_endpoint_def api_url_of_def intro!: exI [of _ "''gitlab.com''"])
  next
    case (Some x)
    with assms(1,3) None optional_host_plain show ?thesis by (auto simp: credential_endpoint_def)
  qed
next
  case (Some x)
  with assms optional_url_safe show ?thesis
    by (auto simp: credential_endpoint_def result_simps split: option.splits)
qed

lemma parsed_credential_safe:
  assumes "parse_gitlab_credential v = Inr c"
  shows "safe_endpoint c"
proof -
  from assms obtain hv host uv url h u where "optional_host hv = Inr host" "optional_url uv ''api_base_url'' = Inr url"
      "credential_endpoint host url = Inr (h, u)" "api_base_url c = Some u"
    by (auto simp: parse_gitlab_credential_def result_simps split: if_split_asm)
  with credential_endpoint_safe show ?thesis by (auto simp: safe_endpoint_def)
qed

lemma distinct_credentials_parsed:
  "distinct_credentials seen vs = Inr cs \<Longrightarrow> c \<in> set cs \<Longrightarrow> \<exists>v\<in>set vs. parse_gitlab_credential v = Inr c"
proof (induction vs arbitrary: seen cs)
  case (Cons v vs)
  then obtain x xs where "parse_gitlab_credential v = Inr x" "distinct_credentials (credential_id x # seen) vs = Inr xs" "cs = x # xs"
    by (auto simp: result_simps split: if_split_asm)
  with Cons.IH Cons.prems(2) show ?case by auto
qed simp

lemma listed_credentials_safe:
  assumes "list_credentials env send q s = (Inr page, t)" and "c \<in> set (result_credentials page)"
  shows "safe_endpoint c"
  using assms
  by (auto simp: list_credentials_def parse_credentials_def result_simps io_simps elim!: bindM_InrE split: if_split_asm
      dest!: distinct_credentials_parsed parsed_credential_safe)

lemma add_credentials_set: "add_credentials known cs = Inr r \<Longrightarrow> set r = set known \<union> set cs"
  by (induction known cs rule: add_credentials.induct) (auto split: if_split_asm)

lemma credential_pages_safe:
  "credential_pages env send kind owner expected limit offsets offset known s = (Inr cs, t) \<Longrightarrow> \<forall>c\<in>set known. safe_endpoint c
   \<Longrightarrow> \<forall>c\<in>set cs. safe_endpoint c"
proof (induction env send kind owner expected limit offsets offset known s rule: credential_pages.induct)
  case (1 env send kind owner expected limit offsets offset known s)
  show ?case
  proof (cases "expected \<le> offset")
    case True
    with 1 show ?thesis by (simp add: credential_pages.simps [of env])
  next
    case False
    with 1(2) obtain page u where page: "list_credentials env send (credential_query kind owner limit offset) s = (Inr page, u)"
      and fresh: "offset \<notin> set offsets"
      by (auto simp: credential_pages.simps [of env] split: prod.splits sum.splits if_splits)
    with 1(2) False obtain k where total: "page_total (result_pagination page) = expected"
      and k: "bindR (validate_credential_page page expected limit) (\<lambda>_. add_credentials known (result_credentials page)) = Inr k"
      and rest: "credential_pages env send kind owner expected limit (offset # offsets) (offset + limit) k u = (Inr cs, t)"
      by (auto simp: credential_pages.simps [of env send kind owner expected limit offsets] split: sum.splits if_splits)
    have "\<forall>c\<in>set k. safe_endpoint c"
      using k 1(3) listed_credentials_safe [OF page] by (auto simp: result_simps dest!: add_credentials_set)
    from 1(1) [OF False fresh page [symmetric] refl _ k rest this] total show ?thesis by simp
  qed
qed

lemma select_credential_in: "select_credential cs requested = Inr c \<Longrightarrow> c \<in> set cs"
proof (cases requested)
  case (Some i)
  assume *: "select_credential cs requested = Inr c"
  then have "filter (\<lambda>x. credential_id x = i) cs = [c]"
    using Some by (auto simp: select_credential_def split: list.splits)
  then have "c \<in> set (filter (\<lambda>x. credential_id x = i) cs)" by simp
  then show ?thesis by simp
qed (auto simp: select_credential_def split: list.splits)

lemma resolved_credential_safe:
  assumes "resolve_credential env send requested kind owner s = (Inr c, t)"
  shows "safe_endpoint c"
proof -
  from assms obtain q page u cs expected limit offset where page: "list_credentials env send q s = (Inr page, u)"
    and pages: "credential_pages env send kind owner expected limit [offset] (offset + limit) (result_credentials page) u = (Inr cs, t)"
    and c: "select_credential cs (optional_query_value requested) = Inr c"
    by (auto simp: resolve_credential_def Let_def io_simps elim!: bindM_InrE)
  from credential_pages_safe [OF pages] listed_credentials_safe [OF page] select_credential_in [OF c] show ?thesis by blast
qed

text \<open>What a discovered project may be used for: its host is that of its API URL, both URLs are safe, and the selector
  names the project on that host.\<close>

definition sound_project :: "gitlab_project \<Rightarrow> bool" where
  "sound_project p \<longleftrightarrow> safe_url (project_api_base_url p) \<and> url_host (project_api_base_url p) = Inr (project_host p)
     \<and> (\<forall>w. project_web_url p = Some w \<longrightarrow> safe_url w)
     \<and> make_identity GitLab (path_with_namespace p) (project_host p) = Inr (project_selector p)"

lemma project_endpoint_safe:
  assumes "project_endpoint c own = Inr (h, u)" and "optional_url v label = Inr own" and "safe_endpoint c"
  shows "safe_url u \<and> url_host u = Inr h"
proof -
  obtain x where x: "api_base_url c = Some x" "safe_url x \<or> (\<exists>h. plain_host h \<and> x = api_url_of h)"
    using assms(3) by (auto simp: safe_endpoint_def)
  from x(1) have "or_opt own (api_base_url c) \<noteq> None" by (cases own) (simp_all add: or_opt_def)
  with assms(1) have host: "or_opt own (api_base_url c) = Some u" "url_host u = Inr h"
    by (auto simp: project_endpoint_def result_simps split: option.splits)
  from host(1) x(1) have "own = Some u \<or> u = x" by (simp add: or_opt_def split: if_splits)
  then consider "own = Some u" | "u = x" by blast
  then have "safe_url u"
  proof cases
    case 1
    with assms(2) optional_url_safe show ?thesis by blast
  next
    case 2
    with x(2) host(2) api_url_safe show ?thesis by auto
  qed
  with host show ?thesis by blast
qed

lemma parsed_project_sound:
  assumes "parse_gitlab_project c seen v = Inr p" and "safe_endpoint c"
  shows "sound_project p \<and> provider_project_id p \<notin> set seen"
proof -
  from assms(1) obtain item own h u web where "optional_url (jget item ''api_base_url'') ''api_base_url'' = Inr own"
      "project_endpoint c own = Inr (h, u)" "optional_url (jget item ''web_url'') ''web_url'' = Inr web"
      "project_api_base_url p = u" "project_host p = h" "project_web_url p = web"
      "make_identity GitLab (path_with_namespace p) h = Inr (project_selector p)" "provider_project_id p \<notin> set seen"
    by (auto simp: parse_gitlab_project_def result_simps split: if_split_asm)
  with project_endpoint_safe [OF _ _ assms(2)] optional_url_safe show ?thesis by (auto simp: sound_project_def)
qed

lemma parsed_projects_sound:
  "parse_gitlab_projects c seen vs = Inr ps \<Longrightarrow> safe_endpoint c
   \<Longrightarrow> list_all sound_project ps \<and> distinct (map provider_project_id ps) \<and> set (map provider_project_id ps) \<inter> set seen = {}"
proof (induction vs arbitrary: seen ps)
  case (Cons v vs)
  from Cons.prems(1) obtain p qs where p: "parse_gitlab_project c seen v = Inr p"
    and qs: "parse_gitlab_projects c (provider_project_id p # seen) vs = Inr qs" "ps = p # qs"
    by (auto simp: result_simps)
  from parsed_project_sound [OF p Cons.prems(2)] Cons.IH [OF qs(1) Cons.prems(2)] qs(2) show ?case by auto
qed simp

definition sound_projects :: "gitlab_project list \<Rightarrow> bool" where
  "sound_projects ps \<longleftrightarrow> list_all sound_project ps \<and> distinct (map provider_project_id ps)"

lemma parsed_page_sound:
  assumes "parse_project_page c (map provider_project_id found) payload = Inr (ps, returned)"
    and "safe_endpoint c" and "sound_projects found"
  shows "sound_projects (found @ ps)"
proof -
  from assms(1) obtain data where "parse_gitlab_projects c (map provider_project_id found) data = Inr ps"
    by (auto simp: parse_project_page_def result_simps)
  from parsed_projects_sound [OF this assms(2)] assms(3) show ?thesis by (auto simp: sound_projects_def)
qed

lemma after_page_stops: "after_page q seen_pages current returned = StopPaging rest \<Longrightarrow> all_pages q \<Longrightarrow> rest = None"
  by (auto simp: after_page_def split: option.splits if_splits)

lemma project_pages_sound:
  assumes "project_pages env send q kind owner c seen_pages current page found s = Some y"
  shows "safe_endpoint c \<longrightarrow> sound_projects found
    \<longrightarrow> (\<forall>ps rest. fst y = Inr (ps, rest) \<longrightarrow> sound_projects ps \<and> (all_pages q \<longrightarrow> rest = None))"
proof (rule project_pages.raw_induct [OF _ assms, where P = "\<lambda>env send q kind owner c seen_pages current page found s y.
    safe_endpoint c \<longrightarrow> sound_projects found
      \<longrightarrow> (\<forall>ps rest. fst y = Inr (ps, rest) \<longrightarrow> sound_projects ps \<and> (all_pages q \<longrightarrow> rest = None))"])
  fix again env send q kind owner c seen_pages current page found s y
  assume IH: "\<And>env send q kind owner c seen_pages current page found s y.
      again env send q kind owner c seen_pages current page found s = Some y \<Longrightarrow> safe_endpoint c \<longrightarrow> sound_projects found
      \<longrightarrow> (\<forall>ps rest. fst y = Inr (ps, rest) \<longrightarrow> sound_projects ps \<and> (all_pages q \<longrightarrow> rest = None))"
    and run: "(if page \<in> set seen_pages then Some (Inl (ValueError ''GitLab project pagination cycle detected''), s)
      else (case http_gitlab_projects env send (project_request q kind owner c page) s of
          (Inl e, t) \<Rightarrow> Some (Inl e, t)
        | (Inr payload, t) \<Rightarrow> (case parse_project_page c (map provider_project_id found) payload of
            Inl e \<Rightarrow> Some (Inl e, t)
          | Inr (ps, returned) \<Rightarrow> (case after_page q (page # seen_pages) current returned of
              StopPaging rest \<Rightarrow> Some (Inr (found @ ps, rest), t)
            | FailPaging m \<Rightarrow> Some (Inl (ValueError m), t)
            | NextPage n \<Rightarrow> again env send q kind owner c (page # seen_pages) n n (found @ ps) t)))) = Some y"
  show "safe_endpoint c \<longrightarrow> sound_projects found
      \<longrightarrow> (\<forall>ps rest. fst y = Inr (ps, rest) \<longrightarrow> sound_projects ps \<and> (all_pages q \<longrightarrow> rest = None))"
  proof (intro impI allI)
    fix all rest
    assume safe: "safe_endpoint c" and sound: "sound_projects found" and y: "fst y = Inr (all, rest)"
    with run obtain payload t ps returned where "http_gitlab_projects env send (project_request q kind owner c page) s = (Inr payload, t)"
      and parsed: "parse_project_page c (map provider_project_id found) payload = Inr (ps, returned)"
      and step: "(case after_page q (page # seen_pages) current returned of
              StopPaging rest \<Rightarrow> Some (Inr (found @ ps, rest), t)
            | FailPaging m \<Rightarrow> Some (Inl (ValueError m), t)
            | NextPage n \<Rightarrow> again env send q kind owner c (page # seen_pages) n n (found @ ps) t) = Some y"
      by (auto split: if_splits prod.splits sum.splits)
    note found = parsed_page_sound [OF parsed safe sound]
    show "sound_projects all \<and> (all_pages q \<longrightarrow> rest = None)"
    proof (cases "after_page q (page # seen_pages) current returned")
      case (StopPaging x)
      with step y found after_page_stops show ?thesis by auto
    next
      case (NextPage n)
      with step IH [of env send q kind owner c "page # seen_pages" n n "found @ ps" t y] found safe y show ?thesis by auto
    qed (use step y in auto)
  qed
qed

text \<open>C25: Discovery hands out safe endpoints only: when it returns projects, each of them has an https API URL
  without userinfo, query or fragment whose host is the host of the project's selector, a web URL, if
  any, of the same kind, no provider id occurs twice, and a request for all pages leaves none.\<close>

theorem discovered_projects_sound:
  assumes "discover_projects env send q s = Some (Inr r, t)"
  shows "list_all sound_project (listing_projects r) \<and> distinct (map provider_project_id (listing_projects r))
    \<and> (all_pages q \<longrightarrow> listing_next (listing_pagination r) = None)"
proof -
  from assms obtain kind owner c u ps rest where c: "resolve_credential env send (query_credential_id q) kind owner s = (Inr c, u)"
    and pages: "project_pages env send q kind owner c [] (query_page q) (query_page q) [] u = Some (Inr (ps, rest), t)"
    and r: "listing_projects r = ps" "listing_next (listing_pagination r) = rest"
    by (auto simp: discover_projects_def result_simps split: if_splits sum.splits prod.splits)
  from project_pages_sound [OF pages] resolved_credential_safe [OF c] r show ?thesis
    by (auto simp: sound_projects_def)
qed

subsection \<open>The end of the pages\<close>

text \<open>No answer points beyond the page \<open>last_page\<close>.\<close>

definition pages_end :: "('s, 'x) gateway_env_scheme \<Rightarrow> 's sender \<Rightarrow> int \<Rightarrow> bool" where
  "pages_end env send last_page \<longleftrightarrow> (\<forall>r s payload t meta n. http_gitlab_projects env send r s = (Inr payload, t)
     \<longrightarrow> jget payload ''meta'' = JObj meta \<longrightarrow> jget meta ''next_page'' = JInt n \<longrightarrow> n \<le> last_page)"

lemma parsed_next:
  assumes "parse_project_page c seen payload = Inr (ps, Some n)"
  obtains meta where "jget payload ''meta'' = JObj meta" "jget meta ''next_page'' = JInt n" "0 < n"
  using assms by (auto simp: parse_project_page_def gitlab_object_def next_page_of_def result_simps split: option.splits json.splits if_splits)

lemma after_page_NextPage: "after_page q seen_pages current returned = NextPage n
    \<longleftrightarrow> all_pages q \<and> returned = Some n \<and> n \<notin> set seen_pages \<and> current < n"
  by (auto simp: after_page_def split: option.splits)

lemma project_pages_return:
  assumes "all_pages q \<longrightarrow> pages_end env send last_page"
  shows "\<exists>y. project_pages env send q kind owner c seen_pages current page found s = Some y"
proof (induction "nat (last_page - current)" arbitrary: seen_pages current page found s rule: less_induct)
  case less
  show ?case
  proof (cases "page \<in> set seen_pages")
    case False
    obtain r t where sent: "http_gitlab_projects env send (project_request q kind owner c page) s = (r, t)" by fastforce
    show ?thesis
    proof (cases "\<exists>payload ps n. r = Inr payload \<and> parse_project_page c (map provider_project_id found) payload = Inr (ps, Some n)
        \<and> after_page q (page # seen_pages) current (Some n) = NextPage n")
      case True
      then obtain payload ps n where r: "r = Inr payload"
          "parse_project_page c (map provider_project_id found) payload = Inr (ps, Some n)"
        and step: "after_page q (page # seen_pages) current (Some n) = NextPage n" by blast
      from step have n: "all_pages q" "current < n" by (auto simp: after_page_NextPage)
      obtain meta where "jget payload ''meta'' = JObj meta" "jget meta ''next_page'' = JInt n" using parsed_next [OF r(2)] .
      with assms n(1) sent r(1) have "n \<le> last_page" unfolding pages_end_def by blast
      with n(2) less [of n "page # seen_pages" n "found @ ps" t] show ?thesis
        by (subst project_pages.simps) (simp add: False sent r step)
    next
      case stops: False
      show ?thesis
      proof (cases r)
        case (Inr payload)
        show ?thesis
        proof (cases "parse_project_page c (map provider_project_id found) payload")
          case (Inr x)
          then obtain ps returned where x: "parse_project_page c (map provider_project_id found) payload = Inr (ps, returned)"
            by (cases x) auto
          with stops \<open>r = Inr payload\<close> have "after_page q (page # seen_pages) current returned \<noteq> NextPage n" for n
            by (auto simp: after_page_NextPage)
          then have "\<nexists>n. after_page q (page # seen_pages) current returned = NextPage n" by blast
          then show ?thesis
            by (subst project_pages.simps)
              (cases "after_page q (page # seen_pages) current returned"; simp add: False sent \<open>r = Inr payload\<close> x)
        qed (subst project_pages.simps, simp add: False sent Inr)
      qed (subst project_pages.simps, simp add: False sent)
    qed
  qed (subst project_pages.simps, simp)
qed

text \<open>C31: Discovery returns, with a result or an error, when one page is asked for and when the service's pages end:
  the page numbers that are followed strictly rise, so that a service whose answers never point beyond
  some page cannot keep the client in the loop, however it orders or repeats them.\<close>

theorem discovery_returns:
  assumes "all_pages q \<longrightarrow> pages_end env send last_page"
  shows "\<exists>r t. discover_projects env send q s = Some (r, t)"
proof (cases "query_page q \<le> 0 \<or> query_per_page q \<le> 0")
  case False
  show ?thesis
  proof (cases "normalize_scope (query_scope_type q) (query_scope_owner q)")
    case (Inr scope)
    obtain kind owner where scope: "scope = (kind, owner)" by fastforce
    obtain c t where resolved: "resolve_credential env send (query_credential_id q) kind owner s = (c, t)" by fastforce
    show ?thesis
    proof (cases c)
      case (Inr x)
      obtain y where "project_pages env send q kind owner x [] (query_page q) (query_page q) [] t = Some y"
        using project_pages_return [OF assms] by blast
      with Inr scope resolved False \<open>normalize_scope _ _ = _\<close> show ?thesis
        by (cases y) (simp add: discover_projects_def)
    qed (use False \<open>normalize_scope _ _ = _\<close> scope resolved in \<open>simp add: discover_projects_def\<close>)
  qed (use False in \<open>simp add: discover_projects_def\<close>)
qed (simp add: discover_projects_def)

text \<open>Without an end it does not: a service whose every answer points to a later page, with nothing on it, keeps
  the client in the loop for ever.  \<open>served\<close> is the last page an answer pointed to.\<close>

definition endless_pages :: "('s, 'x) gateway_env_scheme \<Rightarrow> 's sender \<Rightarrow> ('s \<Rightarrow> int) \<Rightarrow> bool" where
  "endless_pages env send served \<longleftrightarrow> (\<forall>r s. \<exists>payload t meta. http_gitlab_projects env send r s = (Inr payload, t)
     \<and> jget payload ''data'' = JList [] \<and> jget payload ''meta'' = JObj meta \<and> jget meta ''next_page'' = JInt (served t)
     \<and> served s < served t)"

lemma endless_pages_never_return:
  assumes "endless_pages env send served"
  shows "all_pages q \<longrightarrow> 0 < page \<longrightarrow> page \<le> served s \<longrightarrow> (\<forall>x\<in>set seen_pages. x < page)
    \<longrightarrow> project_pages env send q kind owner c seen_pages page page found s = None"
proof (rule ccontr)
  assume "\<not> ?thesis"
  then obtain y where y: "project_pages env send q kind owner c seen_pages page page found s = Some y" "all_pages q" "0 < page"
      "page \<le> served s" "\<forall>x\<in>set seen_pages. x < page"
    by auto
  have "env' = env \<longrightarrow> send' = send \<longrightarrow> all_pages q' \<longrightarrow> 0 < page' \<longrightarrow> current' = page' \<longrightarrow> page' \<le> served s'
      \<longrightarrow> (\<forall>x\<in>set seen'. x < page') \<longrightarrow> False"
    if "project_pages env' send' q' kind' owner' c' seen' current' page' found' s' = Some y'"
    for env' send' q' kind' owner' c' seen' current' page' found' s' y'
  proof (rule project_pages.raw_induct [OF _ that, where P = "\<lambda>env' send' q' kind' owner' c' seen' current' page' found' s' y'.
      env' = env \<longrightarrow> send' = send \<longrightarrow> all_pages q' \<longrightarrow> 0 < page' \<longrightarrow> current' = page' \<longrightarrow> page' \<le> served s'
        \<longrightarrow> (\<forall>x\<in>set seen'. x < page') \<longrightarrow> False"], intro impI, goal_cases)
    case (1 again env' send' q' kind' owner' c' seen' current' page' found' s' y')
    from assms [unfolded endless_pages_def, rule_format, of "project_request q' kind' owner' c' page'" s']
    obtain payload t meta where sent: "http_gitlab_projects env send (project_request q' kind' owner' c' page') s' = (Inr payload, t)"
      and answer: "jget payload ''data'' = JList []" "jget payload ''meta'' = JObj meta" "jget meta ''next_page'' = JInt (served t)"
      and rise: "served s' < served t"
      by blast
    have "page' \<notin> set seen'" using 1(9) by blast
    moreover have "parse_project_page c' (map provider_project_id found') payload = Inr ([], Some (served t))"
      using answer rise 1(6,8) by (simp add: parse_project_page_def required_list_def gitlab_object_def next_page_of_def)
    moreover have "after_page q' (page' # seen') current' (Some (served t)) = NextPage (served t)"
      using rise 1(5-9) by (auto simp: after_page_NextPage)
    ultimately have "again env send q' kind' owner' c' (page' # seen') (served t) (served t) found' t = Some y'"
      using 1(2) sent by (simp add: 1(3,4))
    from 1(1) [OF this] rise 1(5-9) show ?case by auto
  qed
  from this [OF y(1)] y(2-5) show False by blast
qed

subsection \<open>All credentials\<close>

text \<open>A service that holds the credentials \<open>vs\<close> and answers each page of the client's size with its share and the
  number of all of them.\<close>

definition credential_answer :: "json list \<Rightarrow> int \<Rightarrow> int \<Rightarrow> members" where
  "credential_answer vs limit offset = [(''data'', JList (take (nat limit) (drop (nat offset) vs))),
     (''meta'', JObj [(''limit'', JInt limit), (''offset'', JInt offset), (''total'', JInt (int (length vs)))])]"

definition serves_credentials :: "('s, 'x) gateway_env_scheme \<Rightarrow> 's sender \<Rightarrow> string \<Rightarrow> string option \<Rightarrow> json list \<Rightarrow> bool" where
  "serves_credentials env send kind owner vs \<longleftrightarrow>
     (\<forall>k s. k = 0 \<or> int k * DEFAULT_CREDENTIAL_LIMIT < int (length vs) \<longrightarrow>
       (\<exists>t. http_gitlab_credentials env send \<lparr>credentials_scope_type = Some kind, credentials_scope_owner = owner,
           credentials_limit = DEFAULT_CREDENTIAL_LIMIT, credentials_offset = int k * DEFAULT_CREDENTIAL_LIMIT\<rparr> s
         = (Inr (credential_answer vs DEFAULT_CREDENTIAL_LIMIT (int k * DEFAULT_CREDENTIAL_LIMIT)), t)))"

text \<open>The reference: every credential parsed, no identifier twice.\<close>

definition all_credentials :: "json list \<Rightarrow> gitlab_credential list \<Rightarrow> bool" where
  "all_credentials vs cs \<longleftrightarrow> mapR parse_gitlab_credential vs = Inr cs \<and> distinct (map credential_id cs)"

lemma distinct_credentials_iff:
  "distinct_credentials seen vs = Inr cs \<longleftrightarrow> all_credentials vs cs \<and> set (map credential_id cs) \<inter> set seen = {}"
proof (induction vs arbitrary: seen cs)
  case (Cons v vs)
  show ?case
  proof
    assume "distinct_credentials seen (v # vs) = Inr cs"
    then obtain x xs where "parse_gitlab_credential v = Inr x" "credential_id x \<notin> set seen"
        "distinct_credentials (credential_id x # seen) vs = Inr xs" "cs = x # xs"
      by (auto simp: result_simps split: if_split_asm)
    with Cons.IH [of "credential_id x # seen" xs]
    show "all_credentials (v # vs) cs \<and> set (map credential_id cs) \<inter> set seen = {}" by (auto simp: all_credentials_def)
  next
    assume right: "all_credentials (v # vs) cs \<and> set (map credential_id cs) \<inter> set seen = {}"
    then obtain x xs where x: "parse_gitlab_credential v = Inr x" "mapR parse_gitlab_credential vs = Inr xs" "cs = x # xs"
      by (auto simp: all_credentials_def result_simps)
    with right Cons.IH [of "credential_id x # seen" xs] show "distinct_credentials seen (v # vs) = Inr cs"
      by (auto simp: all_credentials_def)
  qed
qed (auto simp: all_credentials_def)

lemma add_credentials_iff:
  "distinct (map credential_id known) \<Longrightarrow> distinct (map credential_id cs)
   \<Longrightarrow> add_credentials known cs = Inr r \<longleftrightarrow> r = known @ cs \<and> distinct (map credential_id (known @ cs))"
proof (induction known cs rule: add_credentials.induct)
  case (2 known c cs)
  show ?case
  proof (cases "credential_id c \<in> credential_id ` set known")
    case False
    with 2 show ?thesis by auto
  qed auto
qed auto

lemma all_credentials_append: "all_credentials (xs @ ys) cs
    \<longleftrightarrow> (\<exists>a b. cs = a @ b \<and> all_credentials xs a \<and> all_credentials ys b \<and> distinct (map credential_id (a @ b)))"
  by (auto simp: all_credentials_def mapR_append result_simps)

lemma py_strip_idem: "py_strip (py_strip s) = py_strip s"
proof (cases "py_strip s = []")
  case False
  obtain z where "py_lstrip s = py_strip s @ z" using rstrip_split [of "py_lstrip s" py_isspace] by (auto simp: py_strip_def)
  then have "hd (py_strip s) = hd (py_lstrip s)" "py_lstrip s \<noteq> []" using False by (metis hd_append2, auto)
  then have "\<not> py_isspace (hd (py_strip s))" using hd_dropWhile [of py_isspace s] by (simp add: py_lstrip_def)
  then show ?thesis using strip_id [OF False _ strip_last [OF False]] by blast
next
  case True
  have "py_strip [] = []" by (simp add: py_strip_def py_lstrip_def py_rstrip_by_def)
  with True show ?thesis by simp
qed

lemma scope_normal:
  assumes "normalize_scope scope_type scope_owner = Inr (kind, owner)"
  shows "normalize_scope (Some kind) owner = Inr (kind, owner)"
proof -
  have "py_strip ''personal'' = ''personal''" "py_strip ''project'' = ''project''" by code_simp+
  then have kinds: "optional_query_value (Some ''personal'') = Some ''personal''" "optional_query_value (Some ''project'') = Some ''project''"
      "optional_query_value None = None"
    by (simp_all add: optional_query_value_def)
  have "optional_query_value (optional_query_value x) = optional_query_value x" for x
    by (cases x) (auto simp: optional_query_value_def Let_def py_strip_idem)
  with assms kinds show ?thesis by (auto simp: normalize_scope_def Let_def or_str_def split: if_splits)
qed

definition share :: "json list \<Rightarrow> nat \<Rightarrow> json list" where
  "share vs k = take (nat DEFAULT_CREDENTIAL_LIMIT) (drop (k * nat DEFAULT_CREDENTIAL_LIMIT) vs)"

lemma list_served:
  assumes "normalize_scope scope_type scope_owner = Inr (kind, owner)" and "serves_credentials env send kind owner vs"
    and "k = 0 \<or> int k * DEFAULT_CREDENTIAL_LIMIT < int (length vs)"
  shows "\<exists>t. list_credentials env send (credential_query kind owner DEFAULT_CREDENTIAL_LIMIT (int k * DEFAULT_CREDENTIAL_LIMIT)) s
    = (bindR (distinct_credentials [] (share vs k)) (\<lambda>cs. Inr \<lparr>result_scope = \<lparr>gitlab_scope_type = Some kind, gitlab_scope_owner = owner\<rparr>,
        result_credentials = cs, result_pagination = \<lparr>page_limit = DEFAULT_CREDENTIAL_LIMIT,
          page_offset = int k * DEFAULT_CREDENTIAL_LIMIT, page_total = int (length vs)\<rparr>\<rparr>), t)"
proof -
  from assms(2,3) obtain t where "http_gitlab_credentials env send \<lparr>credentials_scope_type = Some kind,
      credentials_scope_owner = owner, credentials_limit = DEFAULT_CREDENTIAL_LIMIT,
      credentials_offset = int k * DEFAULT_CREDENTIAL_LIMIT\<rparr> s
    = (Inr (credential_answer vs DEFAULT_CREDENTIAL_LIMIT (int k * DEFAULT_CREDENTIAL_LIMIT)), t)"
    unfolding serves_credentials_def by blast
  moreover have "nat (int k * DEFAULT_CREDENTIAL_LIMIT) = k * nat DEFAULT_CREDENTIAL_LIMIT" "0 < DEFAULT_CREDENTIAL_LIMIT"
      "\<not> int k * DEFAULT_CREDENTIAL_LIMIT < 0"
    by (simp_all add: DEFAULT_CREDENTIAL_LIMIT_def nat_mult_distrib)
  ultimately show ?thesis
    by (simp add: list_credentials_def credential_query_def scope_normal [OF assms(1)] io_simps credential_answer_def
        parse_credentials_def required_list_def gitlab_object_def required_int_def jget_def share_def)
qed

lemma credential_pages_served:
  assumes scope: "normalize_scope scope_type scope_owner = Inr (kind, owner)" and serves: "serves_credentials env send kind owner vs"
  shows "0 < k \<Longrightarrow> all_credentials (take (k * nat DEFAULT_CREDENTIAL_LIMIT) vs) known
    \<Longrightarrow> \<forall>x\<in>set offsets. x < int k * DEFAULT_CREDENTIAL_LIMIT
    \<Longrightarrow> (\<exists>t. credential_pages env send kind owner (int (length vs)) DEFAULT_CREDENTIAL_LIMIT offsets
        (int k * DEFAULT_CREDENTIAL_LIMIT) known s = (Inr cs, t)) \<longleftrightarrow> all_credentials vs cs"
proof (induction "length vs - k" arbitrary: k offsets known s rule: less_induct)
  case less
  let ?l = "DEFAULT_CREDENTIAL_LIMIT"
  have l: "?l = 50" by (simp add: DEFAULT_CREDENTIAL_LIMIT_def)
  show ?case
  proof (cases "int (length vs) \<le> int k * ?l")
    case True
    with less.prems(2) have "all_credentials vs known" by (simp add: l)
    then have "all_credentials vs cs \<longleftrightarrow> cs = known" by (auto simp: all_credentials_def)
    with True show ?thesis by (auto simp: credential_pages.simps [of env])
  next
    case False
    let ?share = "share vs k"
    have vs: "vs = take (k * nat ?l) vs @ ?share @ drop (Suc k * nat ?l) vs"
      by (simp add: share_def l) (metis add.commute append_take_drop_id drop_drop)
    have more: "take (Suc k * nat ?l) vs = take (k * nat ?l) vs @ ?share"
      by (simp add: share_def l take_add [symmetric] add.commute)
    have fresh: "int k * ?l \<notin> set offsets" using less.prems(3) by blast
    obtain t where page: "list_credentials env send (credential_query kind owner ?l (int k * ?l)) s
        = (bindR (distinct_credentials [] ?share) (\<lambda>cs. Inr \<lparr>result_scope = \<lparr>gitlab_scope_type = Some kind, gitlab_scope_owner = owner\<rparr>,
        result_credentials = cs, result_pagination = \<lparr>page_limit = ?l, page_offset = int k * ?l, page_total = int (length vs)\<rparr>\<rparr>), t)"
      using list_served [OF scope serves, of k s] False by force
    show ?thesis
    proof (cases "distinct_credentials [] ?share")
      case (Inl e)
      then have "\<not> all_credentials ?share b" for b using distinct_credentials_iff [of "[]" ?share b] by simp
      then have "\<not> all_credentials vs cs" by (subst vs) (auto simp: all_credentials_append)
      with page False fresh Inl show ?thesis by (simp add: credential_pages.simps [of env])
    next
      case (Inr b)
      then have b: "all_credentials ?share b" using distinct_credentials_iff [of "[]" ?share b] by simp
      then have count: "length b = length ?share" by (auto simp: all_credentials_def mapR_length)
      have "length ?share = min 50 (length vs - k * 50)" by (simp add: share_def l)
      with count False have valid: "validate_credential_page \<lparr>result_scope = \<lparr>gitlab_scope_type = Some kind, gitlab_scope_owner = owner\<rparr>,
        result_credentials = b, result_pagination = \<lparr>page_limit = ?l, page_offset = int k * ?l, page_total = int (length vs)\<rparr>\<rparr>
          (int (length vs)) ?l = Inr ()"
        by (auto simp: validate_credential_page_def l Let_def min_def)
      have both: "all_credentials (take (Suc k * nat ?l) vs) (known @ b) \<longleftrightarrow> distinct (map credential_id (known @ b))"
        unfolding more using less.prems(2) b all_credentials_append [of _ "share vs k" "known @ b"] by (metis all_credentials_def)
      show ?thesis
      proof (cases "distinct (map credential_id (known @ b))")
        case True
        with less.prems(2) b add_credentials_iff [of known b "known @ b"] have added: "add_credentials known b = Inr (known @ b)"
          by (simp add: all_credentials_def)
        have next_offset: "int k * ?l + ?l = int (Suc k) * ?l" by (simp add: l)
        have "length vs - Suc k < length vs - k" using False by (simp add: l)
        from less.hyps [OF this, of "known @ b" "int k * ?l # offsets" t] both True less.prems(3)
        have "(\<exists>u. credential_pages env send kind owner (int (length vs)) ?l (int k * ?l # offsets) (int (Suc k) * ?l) (known @ b) t
            = (Inr cs, u)) \<longleftrightarrow> all_credentials vs cs"
          by (fastforce simp: l)
        with page False fresh Inr valid added show ?thesis
          by (subst credential_pages.simps) (simp add: next_offset)
      next
        case clash: False
        then have "add_credentials known b \<noteq> Inr r" for r
          using less.prems(2) b add_credentials_iff [of known b r] by (auto simp: all_credentials_def)
        then obtain e where "add_credentials known b = Inl e" by (cases "add_credentials known b") auto
        moreover have "\<not> all_credentials vs cs"
        proof
          assume "all_credentials vs cs"
          then obtain d where "all_credentials (take (Suc k * nat ?l) vs) d"
            using all_credentials_append [of "take (Suc k * nat ?l) vs" "drop (Suc k * nat ?l) vs" cs] by auto
          then have "d = known @ b \<and> distinct (map credential_id d)"
            unfolding more using less.prems(2) b by (auto simp: all_credentials_append) (auto simp: all_credentials_def)
          with clash show False by metis
        qed
        ultimately show ?thesis using page False fresh Inr valid by (simp add: credential_pages.simps [of env])
      qed
    qed
  qed
qed

text \<open>C26: Resolving a credential sees all of them, exactly once: for a service that answers each page with its share, the
  resolution over the pages gives a credential if and only if it is the selection from the whole list
  parsed at once, whatever the number of pages, and so with a malformed or a repeated credential anywhere it fails.\<close>

theorem credentials_resolved_from_all_pages:
  assumes "normalize_scope scope_type scope_owner = Inr (kind, owner)" and "serves_credentials env send kind owner vs"
  shows "(\<exists>t. resolve_credential env send requested kind owner s = (Inr c, t))
    \<longleftrightarrow> (\<exists>cs. all_credentials vs cs \<and> select_credential cs (optional_query_value requested) = Inr c)"
proof -
  let ?l = "DEFAULT_CREDENTIAL_LIMIT"
  have l: "?l = 50" by (simp add: DEFAULT_CREDENTIAL_LIMIT_def)
  obtain t where page: "list_credentials env send (credential_query kind owner ?l 0) s
      = (bindR (distinct_credentials [] (share vs 0)) (\<lambda>cs. Inr \<lparr>result_scope = \<lparr>gitlab_scope_type = Some kind, gitlab_scope_owner = owner\<rparr>,
      result_credentials = cs, result_pagination = \<lparr>page_limit = ?l, page_offset = 0, page_total = int (length vs)\<rparr>\<rparr>), t)"
    using list_served [OF assms, of 0 s] by auto
  have first: "share vs 0 = take (1 * nat ?l) vs" by (simp add: share_def)
  show ?thesis
  proof (cases "distinct_credentials [] (share vs 0)")
    case (Inl e)
    then have "\<not> all_credentials (take (1 * nat ?l) vs) b" for b
      using distinct_credentials_iff [of "[]" "share vs 0" b] first by simp
    then have "\<not> all_credentials vs cs" for cs
      using all_credentials_append [of "take (1 * nat ?l) vs" "drop (1 * nat ?l) vs" cs] by auto
    with page Inl show ?thesis by (simp add: resolve_credential_def io_simps)
  next
    case (Inr b)
    then have b: "all_credentials (take (1 * nat ?l) vs) b"
      using distinct_credentials_iff [of "[]" "share vs 0" b] first by simp
    then have "length b = min 50 (length vs)" by (auto simp: all_credentials_def l dest!: mapR_length)
    then have valid: "validate_credential_page \<lparr>result_scope = \<lparr>gitlab_scope_type = Some kind, gitlab_scope_owner = owner\<rparr>,
        result_credentials = b, result_pagination = \<lparr>page_limit = ?l, page_offset = 0, page_total = int (length vs)\<rparr>\<rparr>
          (int (length vs)) ?l = Inr ()"
      by (simp add: validate_credential_page_def l)
    have rest: "(\<exists>u. credential_pages env send kind owner (int (length vs)) ?l [0] ?l b t = (Inr cs, u)) \<longleftrightarrow> all_credentials vs cs" for cs
      using credential_pages_served [OF assms, of 1 b "[0]" t cs] b by (simp add: l)
    obtain r u where run: "credential_pages env send kind owner (int (length vs)) ?l [0] ?l b t = (r, u)" by fastforce
    with rest have "r = Inr cs \<longleftrightarrow> all_credentials vs cs" for cs by simp
    have "resolve_credential env send requested kind owner s
        = (bindR r (\<lambda>cs. select_credential cs (optional_query_value requested)), u)"
      using page Inr valid run by (cases r) (simp_all add: resolve_credential_def bindM_def liftM_def)
    with \<open>\<And>cs. r = Inr cs \<longleftrightarrow> all_credentials vs cs\<close> show ?thesis by (auto simp: result_simps)
  qed
qed

subsection \<open>A sample service\<close>

text \<open>It has one credential and answers the \<open>n\<close>th request for projects with \<open>pages n\<close>.\<close>

definition gitlab_env :: "nat gateway_env" where
  "gitlab_env = \<lparr>client_send = (\<lambda>req s. (Inl (HttpxError []), s)), pause = (\<lambda>_ s. (Inr (), s)), jitter_sample = (\<lambda>_ s. (Inr 0, s)),
     utc_now = (\<lambda>s. (Inr 0, s)), http_date = (\<lambda>_. None),
     load_credentials = (\<lambda>s. (Inr (Inr \<lparr>session_base_url = [], session_headers = []\<rparr>), s)), fresh_uuid = (\<lambda>s. (Inr ''u'', s))\<rparr>"

definition credential_json :: "string \<Rightarrow> json" where
  "credential_json i = JObj [(''id'', JStr i), (''name'', JStr i), (''status'', JStr ''ok''), (''credential_type'', JStr ''git''),
     (''provider'', JStr ''gitlab''), (''metadata'', JObj [(''git_host'', JStr ''Git.example:81'')])]"

definition project_json :: "int \<Rightarrow> string \<Rightarrow> json" where
  "project_json n url = JObj [(''provider_project_id'', JInt n), (''path_with_namespace'', JStr ''group/app''), (''web_url'', JStr url)]"

definition gitlab_send :: "(nat \<Rightarrow> members) \<Rightarrow> nat sender" where
  "gitlab_send pages req s = (if http_operation req = ''gitlab credentials''
     then (Inr (plain_response 200 (JObj (credential_answer [credential_json ''c''] 50 0))), s)
     else (Inr (plain_response 200 (JObj (pages s))), Suc s))"

lemmas gitlab_run = call_def run_api_request_def as_api_errors_def handleM_def load_api_session_def gitlab_env_def
  bindM_def io_simps request_json_object_def send_spec_def thenM_def endpoint_request_def api_request_of_def gitlab_send_def
  raise_for_api_response_status_def HTTP_OK_ONLY_def plain_response_def

lemma gitlab_pages_served:
  "http_gitlab_projects gitlab_env (gitlab_send pages) r s = (Inr (pages s), Suc s)"
  by (simp add: http_gitlab_projects_def GITLAB_PROJECTS_ENDPOINT_def GITLAB_PROJECTS_ENDPOINT_SPEC_def gitlab_run Let_def)

definition project_answer :: "json list \<Rightarrow> json \<Rightarrow> members" where
  "project_answer ps next_page = [(''data'', JList ps), (''meta'', JObj [(''next_page'', next_page)])]"

definition sample_pages :: "nat \<Rightarrow> members" where
  "sample_pages n = (if n = 0 then project_answer [project_json 7 ''https://git.example:81/group/app/''] (JInt 2)
     else project_answer [project_json 8 ''https://other.example/x''] JNull)"

definition sample_projects_query :: gitlab_projects_query where
  "sample_projects_query = \<lparr>query_credential_id = None, query_search = None, query_page = 1, query_per_page = 50, all_pages = True,
     query_scope_type = None, query_scope_owner = None\<rparr>"

definition sample_discovery :: "(gitlab_projects_result result \<times> nat) option" where
  "sample_discovery = discover_projects gitlab_env (gitlab_send sample_pages) sample_projects_query 0"

definition sample_credential :: "string \<Rightarrow> gitlab_credential" where
  "sample_credential i = \<lparr>credential_id = i, credential_name = i, credential_kind = ''git'', credential_provider = ''gitlab'',
     credential_scope_type = Some ''personal'', credential_scope_owner = None, credential_status = ''ok'',
     credential_last_error = None, credential_expires_at = None, git_host = Some ''git.example:81'',
     api_base_url = Some ''https://git.example:81/api/v4'', gitlab_health_reason = None\<rparr>"

lemmas text_eval = char_code_def py_strip_def py_rstrip_by_def py_lstrip_def py_isspace_def py_lower_def lower_char_def
  py_casefold_def casefold_char_def Let_def or_str_def or_opt_def jget_def

lemmas url_eval = text_eval before_char_def after_char_def after_last_def control_or_space_def removed_from_url_def ascii_alpha_def
  scheme_char_def decimal_char_def decimal_value_def split_scheme_def valid_brackets_def urlsplit_def host_info_def url_hostname_def
  url_port_def url_userinfo_def safe_authority_def render_authority_def optional_field_def optional_query_value_def

lemma sample_texts: "(char_of (103 :: nat) :: char) = CHR ''g''" "show_nat 81 = ''81''" "show_int 7 = ''7''" "show_int 8 = ''8''"
  by code_simp+

lemma sample_host: "optional_host (JStr ''Git.example:81'') = Inr (Some ''git.example:81'')"
  by (simp add: optional_host_def url_eval sample_texts)

lemma sample_credential_parsed: "parse_gitlab_credential (credential_json ''c'') = Inr (sample_credential ''c'')"
  by (simp add: parse_gitlab_credential_def credential_json_def sample_credential_def sample_host gitlab_object_def
      required_str_def optional_url_def credential_endpoint_def normalize_scope_def api_url_of_def optional_field_def
      optional_query_value_def text_eval)

definition sample_listed_project :: "string \<Rightarrow> string \<Rightarrow> gitlab_project" where
  "sample_listed_project i web = \<lparr>path_with_namespace = ''group/app'', provider_project_id = i, project_web_url = Some web,
     project_api_base_url = ''https://git.example:81/api/v4'', project_host = ''git.example:81'',
     project_selector = \<lparr>identity_provider = GitLab, identity_locator = ''group/app'', identity_host = ''git.example:81''\<rparr>\<rparr>"

lemma sample_urls: "url_host ''https://git.example:81/api/v4'' = Inr ''git.example:81''"
  "optional_url (JStr ''https://git.example:81/group/app/'') ''web_url'' = Inr (Some ''https://git.example:81/group/app'')"
  "optional_url (JStr ''https://other.example/x'') ''web_url'' = Inr (Some ''https://other.example/x'')"
  by (simp_all add: url_host_def optional_url_def url_eval sample_texts)

lemma sample_identity: "make_identity GitLab ''group/app'' ''git.example:81''
    = Inr \<lparr>identity_provider = GitLab, identity_locator = ''group/app'', identity_host = ''git.example:81''\<rparr>"
  by (simp add: make_identity_def canonical_host_def canonical_host_port_def url_eval sample_texts MAX_PORT_def starts_with_iff
      ends_with_def)

lemma optional_url_absent [simp]: "optional_url JNull label = Inr None"
  by (simp add: optional_url_def optional_field_def)

lemma sample_pages_parsed:
  "parse_project_page (sample_credential ''c'') [] (sample_pages 0)
     = Inr ([sample_listed_project ''7'' ''https://git.example:81/group/app''], Some 2)"
  "parse_project_page (sample_credential ''c'') [''7''] (sample_pages 1) = Inr ([sample_listed_project ''8'' ''https://other.example/x''], None)"
  by (simp_all add: parse_project_page_def sample_pages_def project_answer_def required_list_def gitlab_object_def next_page_of_def
      parse_gitlab_project_def project_json_def required_scalar_id_def required_str_def project_endpoint_def sample_listed_project_def
      sample_credential_def sample_urls sample_identity sample_texts text_eval)

lemma sample_resolved: "resolve_credential gitlab_env (gitlab_send pages) None ''personal'' None s = (Inr (sample_credential ''c''), s)"
proof -
  have kind: "normalize_scope (Some ''personal'') None = Inr (''personal'', None)"
    by (simp add: normalize_scope_def optional_query_value_def text_eval)
  have "http_gitlab_credentials gitlab_env (gitlab_send pages) q s = (Inr (credential_answer [credential_json ''c''] 50 0), s)" for q s
    by (simp add: http_gitlab_credentials_def GIT_CREDENTIALS_ENDPOINT_def GIT_CREDENTIALS_ENDPOINT_SPEC_def gitlab_run Let_def)
  then show ?thesis
    by (simp add: resolve_credential_def list_credentials_def credential_query_def DEFAULT_CREDENTIAL_LIMIT_def kind io_simps bindM_def
        liftM_def credential_answer_def parse_credentials_def required_list_def gitlab_object_def required_int_def jget_def
        sample_credential_parsed validate_credential_page_def credential_pages.simps [of gitlab_env] select_credential_def
        optional_query_value_def Let_def)
qed

lemma sample_discovery_runs:
  "\<exists>r. sample_discovery = Some (Inr r, 2) \<and> listing_projects r
     = [sample_listed_project ''7'' ''https://git.example:81/group/app'', sample_listed_project ''8'' ''https://other.example/x'']"
proof -
  have "normalize_scope None None = Inr (''personal'', None)"
    by (simp add: normalize_scope_def optional_query_value_def text_eval)
  moreover have "project_pages gitlab_env (gitlab_send sample_pages) sample_projects_query ''personal'' None (sample_credential ''c'')
      [1] 2 2 [sample_listed_project ''7'' ''https://git.example:81/group/app''] 1
    = Some (Inr ([sample_listed_project ''7'' ''https://git.example:81/group/app'', sample_listed_project ''8'' ''https://other.example/x''], None), 2)"
    using sample_pages_parsed(2)
    by (subst project_pages.simps)
      (simp add: gitlab_pages_served after_page_def sample_projects_query_def sample_listed_project_def numeral_2_eq_2)
  then have "project_pages gitlab_env (gitlab_send sample_pages) sample_projects_query ''personal'' None (sample_credential ''c'')
      [] 1 1 [] 0
    = Some (Inr ([sample_listed_project ''7'' ''https://git.example:81/group/app'', sample_listed_project ''8'' ''https://other.example/x''], None), 2)"
    using sample_pages_parsed(1)
    by (subst project_pages.simps) (simp add: gitlab_pages_served after_page_def sample_projects_query_def)
  ultimately show ?thesis
    by (simp add: sample_discovery_def discover_projects_def sample_resolved sample_projects_query_def)
qed

theorem discovered_projects_sound_witness:
  "\<exists>r. sample_discovery = Some (Inr r, 2) \<and> length (listing_projects r) = 2 \<and> list_all sound_project (listing_projects r)"
proof -
  obtain r where r: "sample_discovery = Some (Inr r, 2)" "length (listing_projects r) = 2" using sample_discovery_runs by auto
  from discovered_projects_sound [OF r(1) [unfolded sample_discovery_def]] r show ?thesis by auto
qed

theorem discovery_returns_witness:
  "\<exists>r t. discover_projects gitlab_env (gitlab_send sample_pages) (sample_projects_query\<lparr>query_page := 5\<rparr>) 0 = Some (r, t)"
proof -
  have "pages_end gitlab_env (gitlab_send sample_pages) 2"
    by (auto simp: pages_end_def gitlab_pages_served sample_pages_def project_answer_def jget_def split: if_splits)
  then show ?thesis by (intro discovery_returns [where last_page = 2]) simp
qed

text \<open>A service of 52 credentials, which are two pages.\<close>

definition sample_ids :: "string list" where
  "sample_ids = map (\<lambda>c. [c]) ''ABCDEFGHIJKLMNOPQRSTUVWXYZabcdefghijklmnopqrstuvwxyz''"

definition paged_send :: "nat sender" where
  "paged_send req s = (Inr (plain_response 200 (JObj (credential_answer (map credential_json sample_ids) 50
     (if ends_with (http_url req) ''&offset=50'' then 50 else 0)))), s)"

definition paged_query :: "int \<Rightarrow> (string \<times> string) list" where
  "paged_query offset = [(''credential_type'', ''git''), (''provider'', ''gitlab'')] @ query_of [(''scope_type'', Some ''personal''),
     (''scope_owner'', None), (''limit'', Some (show_int 50)), (''offset'', Some (show_int offset))]"

lemma paged_paths:
  "\<not> ends_with (api_path (endpoint_request GIT_CREDENTIALS_ENDPOINT [] (paged_query 0) None)) ''&offset=50''"
  "ends_with (api_path (endpoint_request GIT_CREDENTIALS_ENDPOINT [] (paged_query 50) None)) ''&offset=50''"
proof -
  have "show_int 50 = ''50''" "show_int 0 = ''0''" by code_simp+
  then show "\<not> ends_with (api_path (endpoint_request GIT_CREDENTIALS_ENDPOINT [] (paged_query 0) None)) ''&offset=50''"
    "ends_with (api_path (endpoint_request GIT_CREDENTIALS_ENDPOINT [] (paged_query 50) None)) ''&offset=50''"
    by (simp_all add: paged_query_def endpoint_request_def api_request_of_def Let_def ends_with_def urlencode_def query_of_def
        optional_query_value_def List.map_filter_simps text_eval quote_plus_def percent_encode_def unreserved_def)
qed

lemma call_paged: "call gitlab_env paged_send GIT_CREDENTIALS_ENDPOINT [] q None s
    = (Inr (credential_answer (map credential_json sample_ids) 50
        (if ends_with (api_path (endpoint_request GIT_CREDENTIALS_ENDPOINT [] q None)) ''&offset=50'' then 50 else 0)), s)"
  by (simp add: gitlab_run paged_send_def GIT_CREDENTIALS_ENDPOINT_def Let_def)

lemma sample_credentials_served: "serves_credentials gitlab_env paged_send ''personal'' None (map credential_json sample_ids)"
  unfolding serves_credentials_def
proof (intro allI impI)
  fix k :: nat and s :: nat
  have "length sample_ids = 52" by (simp add: sample_ids_def)
  moreover assume "k = 0 \<or> int k * DEFAULT_CREDENTIAL_LIMIT < int (length (map credential_json sample_ids))"
  ultimately have "k = 0 \<or> k = 1" by (auto simp: DEFAULT_CREDENTIAL_LIMIT_def)
  then show "\<exists>t. http_gitlab_credentials gitlab_env paged_send \<lparr>credentials_scope_type = Some ''personal'',
      credentials_scope_owner = None, credentials_limit = DEFAULT_CREDENTIAL_LIMIT,
      credentials_offset = int k * DEFAULT_CREDENTIAL_LIMIT\<rparr> s
    = (Inr (credential_answer (map credential_json sample_ids) DEFAULT_CREDENTIAL_LIMIT (int k * DEFAULT_CREDENTIAL_LIMIT)), t)"
    using paged_paths call_paged [of "paged_query (int k * 50)" s]
    by (auto simp: http_gitlab_credentials_def DEFAULT_CREDENTIAL_LIMIT_def paged_query_def)
qed

lemma sample_id_parsed: "\<not> py_isspace c \<Longrightarrow> parse_gitlab_credential (credential_json [c]) = Inr (sample_credential [c])"
proof -
  assume "\<not> py_isspace c"
  then have "py_strip [c] = [c]" by (simp add: strip_id)
  moreover have "py_strip ''ok'' = ''ok''" "py_strip ''git'' = ''git''" "py_strip ''gitlab'' = ''gitlab''"
    by (simp_all add: text_eval)
  ultimately show ?thesis
    by (simp add: parse_gitlab_credential_def credential_json_def sample_credential_def sample_host gitlab_object_def
        required_str_def credential_endpoint_def normalize_scope_def api_url_of_def optional_field_def
        optional_query_value_def jget_def or_str_def Let_def)
qed

lemma mapR_parsed: "\<forall>i\<in>set xs. f (g i) = Inr (h i) \<Longrightarrow> mapR f (map g xs) = Inr (map h xs)"
  by (induction xs) auto

lemma sample_credentials_parsed: "all_credentials (map credential_json sample_ids) (map sample_credential sample_ids)"
proof -
  have "\<forall>c\<in>set ''ABCDEFGHIJKLMNOPQRSTUVWXYZabcdefghijklmnopqrstuvwxyz''. \<not> py_isspace c"
    by (simp add: py_isspace_def char_code_def)
  then have "\<forall>i\<in>set sample_ids. parse_gitlab_credential (credential_json i) = Inr (sample_credential i)"
    using sample_id_parsed unfolding sample_ids_def by fastforce
  then have "mapR parse_gitlab_credential (map credential_json sample_ids) = Inr (map sample_credential sample_ids)"
    by (rule mapR_parsed)
  moreover have "map (credential_id \<circ> sample_credential) sample_ids = sample_ids"
    by (simp add: comp_def sample_credential_def)
  moreover have "distinct sample_ids" by (simp add: sample_ids_def)
  ultimately show ?thesis by (simp add: all_credentials_def)
qed

theorem credentials_resolved_from_all_pages_witness:
  "\<exists>t. resolve_credential gitlab_env paged_send (Some '' z'') ''personal'' None 0 = (Inr (sample_credential ''z''), t)"
proof -
  have "normalize_scope None None = Inr (''personal'', None)"
    by (simp add: normalize_scope_def optional_query_value_def text_eval)
  note all = credentials_resolved_from_all_pages [OF this sample_credentials_served, of "Some '' z''" 0 "sample_credential ''z''"]
  have "filter (\<lambda>c. credential_id c = ''z'') (map sample_credential sample_ids) = [sample_credential ''z'']"
    by (simp add: filter_map comp_def sample_credential_def sample_ids_def)
  then have "select_credential (map sample_credential sample_ids) (optional_query_value (Some '' z'')) = Inr (sample_credential ''z'')"
    by (simp add: select_credential_def optional_query_value_def text_eval)
  with all sample_credentials_parsed show ?thesis by blast
qed

end
