(* ===== verification/Spec2Isabelle.thy ===== *)
theory Spec2Isabelle
  imports Auth_Properties Commit_Properties Recovery_Gaps Document_Properties Start_Properties
    Subscription_Properties Portfolio_Properties Gateway_Properties Gateway_Errors
    Report_Properties Settings_Properties Session_Properties Refresh_Loop Runtime_Properties
    Gitlab_Properties
begin

text \<open>
  Verification development of enji-guard-cli, a Python client of the Enji Guard service.

  The core of the program is its credential path: one browser cookie credential in a file,
  whose refresh token may be used once, shared by any number of processes.  The theories
  model it the way \<open>src/enji\_guard\_cli/auth\_session\<close> has it:

  \<^item> \<open>Prelude\<close>: the exception values (\<open>exn\<close>, \<open>'a result\<close>) and the string functions of Python
    that the sources use; \<open>Py\_Datetime\<close>: \<open>datetime\<close> with \<open>isoformat\<close> and \<open>fromisoformat\<close>;
    \<open>Json\<close>: the values of \<open>json.loads\<close>; \<open>Effects\<close>: state passing with exceptions and the
    two relations the proofs use, \<open>keeps\<close> (a preorder between the worlds before and after) and
    \<open>ensures\<close> (a precondition and a postcondition).
  \<^item> \<open>Atomic\_Json\<close> (\<open>atomic\_json.py\<close>): replacing a file, every file operation an entry of a fault
    plan; the locale \<open>atomic\_document\<close> is what its callers rely on.
  \<^item> \<open>Auth\_State\_Machine\<close> (\<open>state\_machine.py\<close>), \<open>Auth\_Store\_Data\<close>, \<open>Auth\_Journal\<close> and \<open>Auth\_Store\<close>
    (\<open>store.py\<close>), \<open>Auth\_Protocol\<close> (\<open>auth\_protocol.py\<close>, the response of \<open>transport.py\<close>),
    \<open>Auth\_Recovery\<close> and \<open>Auth\_Coordinator\<close> (\<open>coordinator.py\<close>), \<open>Cookies\<close> (\<open>cookies.py\<close> and the parts
    of \<open>http.cookies\<close> it calls): one definition per function or method, one branch per branch.
  \<^item> \<open>Auth\_Frames\<close>: the locales \<open>world\_frame\<close>, \<open>journal\_frame\<close> and \<open>coordinator\_frame\<close>, which carry
    a preorder through every operation of the coordinator, with their interpretations.
  \<^item> \<open>Auth\_Outbox\<close>, \<open>Auth\_Budget\<close>, \<open>Auth\_Commits\<close>, \<open>Auth\_Facts\<close>, \<open>Auth\_Operations\<close>,
    \<open>Cookie\_Facts\<close>: what the operations do to the outbox, the budget of the journal and the files.
  \<^item> \<open>Auth\_Processes\<close>: the interleaving of several processes as a step relation, with its
    invariant.
  \<^item> \<open>Auth\_Samples\<close>, \<open>Auth\_Properties\<close>, \<open>Commit\_Properties\<close>, \<open>Recovery\_Gaps\<close>,
    \<open>Document\_Properties\<close>: the properties, each applied to a sample world.

  A world (\<open>auth\_world\<close>) is the three files of one credential path, the readings of the clock,
  the identifiers \<open>uuid4\<close> will return, the answers of the outcome sink, the fault plan (which of the next file
  operations raise \<open>OSError\<close>) and the events that were emitted.  An operation that holds the file lock is one step;
  the exchange with the service lies between two of them.  Timestamps are microseconds since
  0001-01-01, as Python's ordinals count.  No fuel is used: the recursions are structural or have a measure, but for \<open>project\_pages\<close>, and the
  poll of \<open>wait\_for\_terminal\_revision\<close> runs over a list of its readings, its value \<open>None\<close> saying
  that it has not returned yet.

  The second part is the audit domain (\<open>src/enji\_guard\_cli/audit\<close>): choosing audits, showing their
  state, and starting runs, which cost money, without starting one twice.

  \<^item> \<open>Audit\_Data\<close> (\<open>ports.py\<close>, \<open>models.py\<close>): the values; \<open>Audit\_Lifecycle\<close> (\<open>lifecycle.py\<close>,
    \<open>freshness.py\<close>): which projections are active, which one stands for several, and freshness.
  \<^item> \<open>Audit\_Ledger\<close> (\<open>ledger.py\<close>): the file of started runs, its locked sections, reconciliation
    with the service; the locale \<open>run\_ledger\<close> is what a client that records runs relies on.
  \<^item> \<open>Audit\_Catalog\<close> (\<open>catalog.py\<close>, \<open>catalog\_observation.py\<close>, the choice of audits in
    \<open>workflows.py\<close>), \<open>Audit\_Status\<close> (\<open>status.py\<close>, \<open>wait.py\<close>), \<open>Audit\_Runs\<close> (\<open>tasks.py\<close>, \<open>runs.py\<close>,
    \<open>start.py\<close>).
  \<^item> \<open>Audit\_Artifacts\<close> (\<open>artifacts.py\<close>, \<open>observation.py\<close>, the reading of reports in \<open>workflows.py\<close>):
    which report of an audit is shown and whether a newer run is under way.
  \<^item> \<open>Ledger\_Properties\<close>, \<open>Status\_Properties\<close>, \<open>Start\_Properties\<close>, \<open>Report\_Properties\<close>: the properties,
    from the single reconciliation to the guard of a whole batch of starts over the ledger.

  \<^item> \<open>Audit\_Schedules\<close> (\<open>schedules.py\<close>, \<open>scheduling.py\<close>), \<open>Audit\_Improvements\<close> (\<open>improvement\_jobs.py\<close>,
    \<open>email.py\<close>): recurring settings; \<open>Schedule\_Properties\<close>: what planning an update does.

  The service is a parameter: a function per call, the answer to a start also depending on the
  starts before it.  Other processes work on the ledger between its locked sections: what they do
  is an argument too (\<open>interfere\<close>, \<open>interference\<close>), one function of the file per gap, and the
  properties hold for every such function unless they say otherwise.  Seconds that the sources
  keep as \<open>float\<close> are rationals or microseconds; the wait loop runs over the list of what its
  polls find.

  The third part is what commands do with projects and repositories
  (\<open>src/enji\_guard\_cli/portfolio\<close>, \<open>src/enji\_guard\_cli/application\<close>).

  \<^item> \<open>Portfolio\_Selectors\<close> (\<open>models.py\<close>, \<open>selectors.py\<close>, \<open>scopes.py\<close>): identities of repositories, how a
    name a user types is resolved, and the scope a command works on; \<open>Portfolio\_Operations\<close>
    (\<open>projects.py\<close>, \<open>repositories.py\<close>, \<open>recon.py\<close>, \<open>status.py\<close>): the workflows.
  \<^item> \<open>Subscriptions\<close> (\<open>application/mutations.py\<close>, \<open>subscriptions.py\<close>): batches of writes, planned from
    reads and executed until one fails, and the commands on schedules, improvement jobs and email.
  \<^item> \<open>Portfolio\_Properties\<close>, \<open>Subscription\_Properties\<close>: which scope is written, and that a completed
    batch has settled.

  The fourth part is the service's side (\<open>transport.py\<close>, \<open>src/enji\_guard\_cli/enji\_gateway\<close>).

  \<^item> \<open>Transport\<close>: one request with its retries; \<open>Gateway\_Contract\<close> (\<open>contract.py\<close>) and \<open>Gateway\_Http\<close>
    (\<open>http.py\<close>): the endpoints and a definition per request; \<open>Gateway\_Client\<close> (\<open>client.py\<close>): paths, the
    session, the status and payload of a response, the error a command sees.
  \<^item> \<open>Audit\_Wire\<close> (\<open>wire.py\<close>) with \<open>Audit\_Gateway\<close> (\<open>audit\_gateway.py\<close>), and \<open>Portfolio\_Gateway\<close>
    (\<open>portfolio\_gateway.py\<close>): the values of the domain from payloads and back; \<open>audit\_subscriptions\<close> and
    \<open>http\_portfolio\<close> are the gateways as the third part uses them.
  \<^item> \<open>Path\_Facts\<close>, \<open>Gateway\_Properties\<close>, \<open>Gateway\_Errors\<close>: the segments of a path, how often a request is
    sent, what survives the wire, where the status of an error comes from, and
    \<open>schedules\_settle\_on\_wire\<close>, which composes the transport's side with the batches.
  \<^item> \<open>Url\_Split\<close> (\<open>urllib.parse.urlsplit\<close>) and \<open>Gitlab\_Gateway\<close> (\<open>gitlab\_gateway.py\<close>, \<open>gitlab/models.py\<close>):
    discovery of credentials and projects over their pages; \<open>Gitlab\_Properties\<close>: every endpoint that is
    handed out is safe, the pages of credentials amount to the whole list, and discovery returns if the
    pages of projects end (\<open>project\_pages\<close> is a partial function, for they need not).

  The blocking client, the pause, the jitter, the clock and the reader of HTTP dates are fields of
  \<open>transport\_env\<close>, the credential reader and \<open>uuid4\<close> of \<open>gateway\_env\<close>; what they may do is a
  hypothesis where a property needs it (\<open>metered\<close>, \<open>client\_sound\<close>).  Reads that the sources run in a
  bounded fan-out are run one after the other.  Which time zones exist and the similarity search of
  \<open>difflib\<close> are arguments.

  The fifth part is the long-lived service and the uses of the credential files besides a refresh.

  \<^item> \<open>Settings\<close> (\<open>settings.py\<close>) with \<open>Settings\_Properties\<close>: the settings and their validation.
  \<^item> \<open>Auth\_Session\<close> (\<open>projection.py\<close>, \<open>api.py\<close>, \<open>payloads.py\<close>, \<open>api\_key.py\<close>, \<open>adapters.py\<close>): what a storage
    snapshot means, the credential of a request, imports, status and readiness; \<open>Session\_Properties\<close>:
    which snapshots call for a new credential, what an import leads to, when the backend counts as ready.
  \<^item> \<open>Auto\_Refresh\<close> (\<open>auto\_refresh.py\<close>): the loop that schedules refreshes, one definition per function and
    one turn of the loop as a step of \<open>loop\_state\<close>; \<open>Refresh\_Loop\<close>: the locale \<open>loop\_frame\<close>, which carries a
    preorder between worlds through every turn, with three interpretations, and what the loop keeps,
    when it dispatches, that its waits end, and two ways in which it loses a successor.
  \<^item> \<open>Runtime\_Readiness\<close> (\<open>readiness.py\<close>, \<open>supervisor.py\<close>, \<open>telemetry.py\<close>, \<open>telemetry\_sink.py\<close>): the readiness
    file and the loop that keeps it, the acknowledgement of events, the supervision of tasks;
    \<open>Runtime\_Properties\<close>: the state after any number of rounds, and what ends the service.

  The world of the refresh loop (\<open>auto\_world\<close>) adds to the files a list of wake-ups, which end its
  waits and say what other processes did meanwhile, a list of exchanges, the monotonic clock
  and the jitter.  A run whose list is used up is a task cancelled at that await, so the recursions
  are structural and the properties hold for lists of every length.

  Bounds.  The properties over sequences of operations hold for every fault plan; the budget
  of six exchanges (\<open>dispatch\_budget\<close>) is proved for systems in which no file operation fails and
  processes crash between locked sections, because a reservation left by a failed write
  restarts the budget (\<open>reservation\_restarts\_budget\<close>).  Characters are those up to code point 255;
  \<open>int\<close> has no limit on digits; a JSON number is no NaN or infinity.

  Not modelled: serialisation of JSON to text, file modes, logging (the diagnostic event is a
  list of fields), the pooled HTTP client and its threads, the filesystem watcher, journeys
  (\<open>journey.py\<close>), the signal handlers, the views of the application layer, delivery and composition.
\<close>

end
